(* ===== verification/Prelude.thy ===== *)
theory Prelude
  imports Main
begin

text \<open>
  Shared vocabulary of the development: the shape of fallible results, lists updated at an
  index, the first matching position of a list, and the contract of a state machine whose
  steps keep an invariant and emit outputs.  The components state their own operations over
  these and prove their own laws; nothing here models code of the repository.
\<close>

named_theorems frame_simps \<open>fields an operation leaves alone\<close>
named_theorems step_defs \<open>definitions of the handlers of a component\<close>

type_synonym gotime = int

text \<open>
  Times are nanoseconds since Go's zero time, so \<open>0\<close> is the value for which
  \<open>time.Time.IsZero\<close> holds.
\<close>

subsection \<open>Fallible results\<close>

definition bindR :: "'e + 'a \<Rightarrow> ('a \<Rightarrow> 'e + 'b) \<Rightarrow> 'e + 'b" where
  "bindR r k = (case r of Inl e \<Rightarrow> Inl e | Inr x \<Rightarrow> k x)"

lemma bindR_simps [simp]:
  "bindR (Inl e) k = Inl e"
  "bindR (Inr x) k = k x"
  by (simp_all add: bindR_def)

subsection \<open>First matching position\<close>

text \<open>The index of the first element that satisfies a predicate: a \<open>for\<close> loop with an early return.\<close>

fun find_index :: "('a \<Rightarrow> bool) \<Rightarrow> 'a list \<Rightarrow> nat option" where
  "find_index P [] = None"
| "find_index P (x # xs) = (if P x then Some 0 else map_option Suc (find_index P xs))"

lemma find_index_None [simp]: "find_index P xs = None \<longleftrightarrow> (\<forall>x \<in> set xs. \<not> P x)"
  by (induction xs) auto

lemma find_index_Some:
  "find_index P xs = Some i \<Longrightarrow> i < length xs \<and> P (xs ! i) \<and> (\<forall>j < i. \<not> P (xs ! j))"
proof (induction xs arbitrary: i)
  case Nil
  then show ?case by simp
next
  case (Cons x xs)
  show ?case
  proof (cases "P x")
    case True
    with Cons.prems show ?thesis by simp
  next
    case False
    with Cons.prems obtain k where k: "find_index P xs = Some k" "i = Suc k" by auto
    from Cons.IH [OF k(1)] False k(2) show ?thesis
      by (auto simp: nth_Cons split: nat.split)
  qed
qed

text \<open>The index of the last element that satisfies a predicate: the same loop run backwards.\<close>

definition find_last_index :: "('a \<Rightarrow> bool) \<Rightarrow> 'a list \<Rightarrow> nat option" where
  "find_last_index P xs =
     map_option (\<lambda>i. length xs - 1 - i) (find_index P (rev xs))"

lemma find_last_index_Some:
  assumes "find_last_index P xs = Some i"
  shows "i < length xs \<and> P (xs ! i)"
proof -
  from assms obtain k where k: "find_index P (rev xs) = Some k" and i: "i = length xs - 1 - k"
    by (auto simp: find_last_index_def)
  from find_index_Some [OF k] have "k < length xs" "P (rev xs ! k)" by auto
  then show ?thesis using i by (auto simp: rev_nth)
qed

subsection \<open>Lists updated at an index\<close>

definition update_at :: "nat \<Rightarrow> ('a \<Rightarrow> 'a) \<Rightarrow> 'a list \<Rightarrow> 'a list" where
  "update_at i f xs = (if i < length xs then xs[i := f (xs ! i)] else xs)"

lemma length_update_at [simp]: "length (update_at i f xs) = length xs"
  by (simp add: update_at_def)

lemma map_update_at: "(\<And>x. g (f x) = g x) \<Longrightarrow> map g (update_at i f xs) = map g xs"
  by (simp add: update_at_def map_update list_update_same_conv)

lemma nth_update_at:
  "j < length xs \<Longrightarrow> update_at i f xs ! j = (if i = j then f (xs ! j) else xs ! j)"
  by (auto simp: update_at_def nth_list_update)

lemma set_update_at: "y \<in> set (update_at i f xs) \<Longrightarrow> y \<in> set xs \<or> (\<exists>x \<in> set xs. y = f x)"
  by (auto simp: update_at_def dest: set_update_subset_insert [THEN subsetD] split: if_splits)

text \<open>A list without its element at an index: \<open>append(xs[:i], xs[i+1:]...)\<close>.\<close>

definition remove_at :: "nat \<Rightarrow> 'a list \<Rightarrow> 'a list" where
  "remove_at i xs = take i xs @ drop (Suc i) xs"

lemma length_remove_at [simp]: "i < length xs \<Longrightarrow> length (remove_at i xs) = length xs - 1"
  by (simp add: remove_at_def)

lemma set_remove_at: "y \<in> set (remove_at i xs) \<Longrightarrow> y \<in> set xs"
  by (auto simp: remove_at_def dest: in_set_takeD in_set_dropD)

subsection \<open>Machines that emit outputs\<close>

text \<open>
  The run of a deterministic machine over a list of inputs: the final state and all outputs
  in the order in which they were emitted.
\<close>

fun run_out :: "('s \<Rightarrow> 'e \<Rightarrow> 's \<times> 'o list) \<Rightarrow> 's \<Rightarrow> 'e list \<Rightarrow> 's \<times> 'o list" where
  "run_out step s [] = (s, [])"
| "run_out step s (e # es) =
     (let (s1, os1) = step s e; (s2, os2) = run_out step s1 es in (s2, os1 @ os2))"

lemma run_out_append:
  "run_out step s (es @ fs) =
     (let (s1, os1) = run_out step s es; (s2, os2) = run_out step s1 fs in (s2, os1 @ os2))"
  by (induction es arbitrary: s) (auto simp: Let_def split: prod.splits)

text \<open>
  The contract every stateful component of the program is checked against: each step keeps the
  component's invariant, so every run does.
\<close>

locale machine =
  fixes step :: "'s \<Rightarrow> 'e \<Rightarrow> 's \<times> 'o list"
    and inv :: "'s \<Rightarrow> bool"
  assumes step_inv: "inv s \<Longrightarrow> inv (fst (step s e))"
begin

lemma run_inv: "inv s \<Longrightarrow> inv (fst (run_out step s es))"
proof (induction es arbitrary: s)
  case Nil
  then show ?case by simp
next
  case (Cons e es)
  from step_inv [OF Cons.prems] have "inv (fst (step s e))" .
  from Cons.IH [OF this] show ?case
    by (auto simp: Let_def split: prod.splits)
qed

lemma run_outputs:
  assumes "inv s" and out: "\<And>s e. inv s \<Longrightarrow> \<forall>x \<in> set (snd (step s e)). P x"
  shows "\<forall>x \<in> set (snd (run_out step s es)). P x"
  using assms(1)
proof (induction es arbitrary: s)
  case Nil
  then show ?case by simp
next
  case (Cons e es)
  from Cons.IH [OF step_inv [OF Cons.prems, of e]] out [OF Cons.prems, of e] show ?case
    by (auto simp: Let_def split: prod.splits)
qed

end

text \<open>
  A machine with a ticket counter: every step hands out tickets above the counter it started
  with and at or below the counter it ends with.  Tickets handed out over a whole run are then
  pairwise different and strictly increasing.
\<close>

locale ticket_machine = machine step inv
  for step :: "'s \<Rightarrow> 'e \<Rightarrow> 's \<times> 'o list" and inv :: "'s \<Rightarrow> bool" +
  fixes counter :: "'s \<Rightarrow> int"
    and tickets :: "'o list \<Rightarrow> int list"
  assumes tickets_append: "tickets (xs @ ys) = tickets xs @ tickets ys"
    and tickets_nil: "tickets [] = []"
    and counter_mono: "inv s \<Longrightarrow> counter s \<le> counter (fst (step s e))"
    and tickets_fresh: "inv s \<Longrightarrow> t \<in> set (tickets (snd (step s e))) \<Longrightarrow>
          counter s < t \<and> t \<le> counter (fst (step s e))"
    and tickets_sorted: "inv s \<Longrightarrow> sorted_wrt (<) (tickets (snd (step s e)))"
begin

lemma run_tickets:
  assumes "inv s"
  shows "counter s \<le> counter (fst (run_out step s es)) \<and>
    sorted_wrt (<) (tickets (snd (run_out step s es))) \<and>
    (\<forall>t \<in> set (tickets (snd (run_out step s es))).
       counter s < t \<and> t \<le> counter (fst (run_out step s es)))"
  using assms
proof (induction es arbitrary: s)
  case Nil
  then show ?case by (simp add: tickets_nil)
next
  case (Cons e es)
  obtain s1 os1 where st: "step s e = (s1, os1)" by (cases "step s e")
  obtain s2 os2 where rn: "run_out step s1 es = (s2, os2)" by (cases "run_out step s1 es")
  from Cons.prems step_inv [of s e] st have "inv s1" by simp
  from Cons.IH [OF this] rn have
    r: "counter s1 \<le> counter s2" "sorted_wrt (<) (tickets os2)"
       "\<forall>t \<in> set (tickets os2). counter s1 < t \<and> t \<le> counter s2" by simp_all
  from counter_mono [OF Cons.prems, of e] tickets_fresh [OF Cons.prems, of _ e]
    tickets_sorted [OF Cons.prems, of e] st have
    h: "counter s \<le> counter s1" "\<forall>t \<in> set (tickets os1). counter s < t \<and> t \<le> counter s1"
       "sorted_wrt (<) (tickets os1)" by auto
  from r h st rn show ?case
    by (fastforce simp: tickets_append sorted_wrt_append)
qed

lemma run_tickets_distinct:
  assumes "inv s"
  shows "distinct (tickets (snd (run_out step s es)))"
proof -
  from run_tickets [OF assms] have "sorted_wrt (<) (tickets (snd (run_out step s es)))" by simp
  then show ?thesis by (simp add: strict_sorted_iff)
qed

end

subsection \<open>Append-only logs read by cursor\<close>

text \<open>
  A client of a log asks for the page after a cursor, moves the cursor to the last entry it got,
  and stops at an empty page.  The fuel bounds the number of pages.
\<close>

fun read_pages :: "(int \<Rightarrow> 'r list) \<Rightarrow> ('r \<Rightarrow> int) \<Rightarrow> nat \<Rightarrow> int \<Rightarrow> 'r list" where
  "read_pages page seqno 0 cursor = []"
| "read_pages page seqno (Suc fuel) cursor =
     (case page cursor of
        [] \<Rightarrow> []
      | r # rs \<Rightarrow> (r # rs) @ read_pages page seqno fuel (seqno (last (r # rs))))"

lemma filter_seq_upto:
  assumes "map f xs = [1..int (length xs)]" "0 \<le> c"
  shows "filter (\<lambda>x. f x > c) xs = drop (nat c) xs"
  using assms
proof (induction xs rule: rev_induct)
  case (snoc x xs)
  have "[1..int (length xs) + 1] = [1..int (length xs)] @ [int (length xs) + 1]"
    by (simp add: upto_rec2)
  with snoc.prems(1) have "map f xs = [1..int (length xs)]" "f x = int (length xs) + 1"
    by (simp_all add: add.commute)
  with snoc show ?case by auto
qed simp

text \<open>
  The contract of a log service: an append adds one entry to the log of its key, numbered next,
  and leaves the other logs alone; a page is the entries after the cursor, at most as many as asked.
\<close>

locale event_log =
  fixes append :: "'k \<Rightarrow> 'e \<Rightarrow> 's \<Rightarrow> 's option"
    and log :: "'s \<Rightarrow> 'k \<Rightarrow> 'r list"
    and page :: "'s \<Rightarrow> 'k \<Rightarrow> nat \<Rightarrow> int \<Rightarrow> 'r list"
    and seqno :: "'r \<Rightarrow> int"
    and inv :: "'s \<Rightarrow> bool"
    and max_page :: nat
  assumes append_inv: "inv s \<Longrightarrow> append k e s = Some s' \<Longrightarrow> inv s'"
    and append_log: "inv s \<Longrightarrow> append k e s = Some s' \<Longrightarrow> \<exists>r. log s' k = log s k @ [r]"
    and append_other: "inv s \<Longrightarrow> append k e s = Some s' \<Longrightarrow> k' \<noteq> k \<Longrightarrow> log s' k' = log s k'"
    and log_seqno: "inv s \<Longrightarrow> map seqno (log s k) = [1..int (length (log s k))]"
    and page_log: "inv s \<Longrightarrow> 0 < n \<Longrightarrow> n \<le> max_page \<Longrightarrow> page s k n c = take n (filter (\<lambda>r. seqno r > c) (log s k))"
begin

lemma page_drop: "inv s \<Longrightarrow> 0 < n \<Longrightarrow> n \<le> max_page \<Longrightarrow> 0 \<le> c \<Longrightarrow> page s k n c = take n (drop (nat c) (log s k))"
  by (simp add: page_log filter_seq_upto [OF log_seqno])

lemma seqno_nth: "inv s \<Longrightarrow> i < length (log s k) \<Longrightarrow> seqno (log s k ! i) = int i + 1"
proof -
  assume "inv s" "i < length (log s k)"
  then have "map seqno (log s k) ! i = [1..int (length (log s k))] ! i"
    by (simp add: log_seqno)
  with \<open>i < length (log s k)\<close> show ?thesis by simp
qed

text \<open>Following the cursor reads the rest of the log, whole and in order, for every page size.\<close>

lemma read_pages_log:
  assumes "inv s" "0 < n" "n \<le> max_page" "0 \<le> c" "length (log s k) \<le> nat c + fuel"
  shows "read_pages (page s k n) seqno fuel c = drop (nat c) (log s k)"
  using assms(4,5)
proof (induction fuel arbitrary: c)
  case 0
  then show ?case by simp
next
  case (Suc fuel)
  let ?l = "log s k"
  show ?case
  proof (cases "nat c < length ?l")
    case False
    then show ?thesis using Suc.prems assms(1-3) by (simp add: page_drop)
  next
    case True
    let ?p = "take n (drop (nat c) ?l)" and ?m = "min (nat c + n) (length ?l)"
    have ne: "?p \<noteq> []" using True assms(2) by simp
    have len: "length ?p = ?m - nat c" using True by simp
    have i: "nat c + (?m - nat c - 1) = ?m - 1" "?m - nat c - 1 < n"
      using True assms(2) by auto
    have "last ?p = ?p ! (?m - nat c - 1)" using last_conv_nth [OF ne] len by simp
    then have "last ?p = ?l ! (?m - 1)" using True i by simp
    moreover have "?m - 1 < length ?l" using True assms(2) by auto
    ultimately have s: "seqno (last ?p) = int ?m"
      using seqno_nth [OF assms(1), of "?m - 1"] True assms(2) by (simp add: of_nat_diff)
    have "read_pages (page s k n) seqno (Suc fuel) c =
        ?p @ read_pages (page s k n) seqno fuel (int ?m)"
      using ne s page_drop [OF assms(1-3) Suc.prems(1), of k]
      by (cases ?p) simp_all
    also have "read_pages (page s k n) seqno fuel (int ?m) = drop ?m ?l"
      using Suc.IH [of "int ?m"] Suc.prems True assms(2) by auto
    also have "drop ?m ?l = drop n (drop (nat c) ?l)"
      by (cases "nat c + n \<le> length ?l") (simp_all add: add.commute)
    finally have "read_pages (page s k n) seqno (Suc fuel) c = ?p @ drop n (drop (nat c) ?l)" .
    then show ?thesis by (simp only: append_take_drop_id)
  qed
qed

text \<open>What a client has read stays true: appends only extend the logs.\<close>

fun appends :: "('k \<times> 'e) list \<Rightarrow> 's \<Rightarrow> 's" where
  "appends [] s = s"
| "appends (ke # kes) s =
     appends kes (case append (fst ke) (snd ke) s of None \<Rightarrow> s | Some s' \<Rightarrow> s')"

lemma appends_extend: "inv s \<Longrightarrow> inv (appends kes s) \<and> (\<exists>rs. log (appends kes s) k = log s k @ rs)"
proof (induction kes arbitrary: s)
  case (Cons ke kes)
  show ?case
  proof (cases "append (fst ke) (snd ke) s")
    case None
    with Cons show ?thesis by simp
  next
    case (Some s1)
    from append_inv [OF Cons.prems Some] have i: "inv s1" .
    have "\<exists>rs. log s1 k = log s k @ rs"
      using append_log [OF Cons.prems Some] append_other [OF Cons.prems Some, of k]
      by (cases "k = fst ke") auto
    with Cons.IH [OF i] Some show ?thesis by auto
  qed
qed simp

end

subsection \<open>Reading a sorted list backwards\<close>

text \<open>
  A client that asks for the entries before the last one it received, as long as it is told that
  there are more.  It reads everything, once and in order, when the entries are sorted by strictly
  falling keys.
\<close>

fun read_back ::
  "('c option \<Rightarrow> 'r list) \<Rightarrow> ('c option \<Rightarrow> bool) \<Rightarrow> ('r \<Rightarrow> 'c) \<Rightarrow> nat \<Rightarrow> 'c option \<Rightarrow> 'r list" where
  "read_back page more key 0 c = []"
| "read_back page more key (Suc fuel) c =
     page c @ (if more c then read_back page more key fuel (Some (key (last (page c)))) else [])"

definition below :: "('r \<Rightarrow> 'c::linorder) \<Rightarrow> 'c option \<Rightarrow> 'r \<Rightarrow> bool" where
  "below key c x = (case c of None \<Rightarrow> True | Some k \<Rightarrow> key x < k)"

lemma read_back_suffix:
  assumes s: "sorted_wrt (\<lambda>x y. key y < key x) xs" and n: "0 < n"
    and p: "\<And>c. page c = take n (filter (below key c) xs)"
    and m: "\<And>c. more c \<longleftrightarrow> n < length (filter (below key c) xs)"
    and z: "xs = ys @ zs" "filter (below key c) xs = zs" "length zs \<le> fuel"
  shows "read_back page more key fuel c = zs"
  using z
proof (induction fuel arbitrary: c ys zs)
  case 0
  then show ?case by simp
next
  case (Suc fuel)
  have pm: "page c = take n zs" "more c \<longleftrightarrow> n < length zs"
    using p [of c] m [of c] unfolding Suc.prems(2) by blast+
  show ?case
  proof (cases "n < length zs")
    case False
    then show ?thesis by (simp add: pm)
  next
    case True
    let ?p = "take n zs" and ?q = "drop n zs"
    have ne: "?p \<noteq> []" using True n by auto
    let ?k = "key (last ?p)"
    have xs: "xs = (ys @ butlast ?p) @ [last ?p] @ ?q"
      using Suc.prems(1) append_butlast_last_id [OF ne] append_take_drop_id [of n zs]
      by (metis append.assoc)
    have "filter (below key (Some ?k)) xs = ?q"
      using s by (subst xs, subst (asm) xs)
        (auto simp: below_def sorted_wrt_append filter_empty_conv filter_id_conv
           dest: less_asym)
    moreover have "length ?q \<le> fuel" using Suc.prems(3) n by simp
    ultimately have "read_back page more key fuel (Some ?k) = ?q"
      using Suc.IH [of "ys @ ?p" ?q "Some ?k"] Suc.prems(1) by simp
    then show ?thesis using True by (simp add: pm)
  qed
qed

lemma read_back_all:
  assumes "sorted_wrt (\<lambda>x y. key y < key x) xs" "0 < n"
    and "\<And>c. page c = take n (filter (below key c) xs)"
    and "\<And>c. more c \<longleftrightarrow> n < length (filter (below key c) xs)" "length xs \<le> fuel"
  shows "read_back page more key fuel None = xs"
  using read_back_suffix [OF assms(1-4), of "[]" xs None fuel] assms(5) by (simp add: below_def)

subsection \<open>Leases\<close>

text \<open>
  The contract of a lock with an expiry: while a holder's lease has not expired, nobody else
  acquires it, and only the holder's own release ends it.
\<close>

datatype ('env, 'k, 'o, 't) lease_op = Acquire 'env 'k 'o 't | Release 'env 'k 'o

locale lease =
  fixes acquire :: "'env \<Rightarrow> 'k \<Rightarrow> 'o \<Rightarrow> 't \<Rightarrow> 's \<Rightarrow> 's \<times> bool"
    and release :: "'env \<Rightarrow> 'k \<Rightarrow> 'o \<Rightarrow> 's \<Rightarrow> 's"
    and holder :: "'s \<Rightarrow> 'k \<Rightarrow> ('o \<times> 't) option"
    and expired :: "'env \<Rightarrow> 't \<Rightarrow> bool"
  assumes acquire_refused: "holder s k = Some (x, t) \<Longrightarrow> \<not> expired E t \<Longrightarrow> y \<noteq> x \<Longrightarrow>
        acquire E k y t' s = (s, False)"
    and acquire_holder: "acquire E k x t s = (s', True) \<Longrightarrow> holder s' k = Some (x, t)"
    and acquire_other: "k' \<noteq> k \<Longrightarrow> holder (fst (acquire E k x t s)) k' = holder s k'"
    and release_foreign: "holder s k = Some (x, t) \<Longrightarrow> y \<noteq> x \<Longrightarrow>
        holder (release E k y s) k = Some (x, t)"
    and release_other: "k' \<noteq> k \<Longrightarrow> holder (release E k x s) k' = holder s k'"
begin

definition lease_step :: "('env, 'k, 'o, 't) lease_op \<Rightarrow> 's \<Rightarrow> 's \<times> bool" where
  "lease_step a s = (case a of Acquire E k x t \<Rightarrow> acquire E k x t s
                             | Release E k x \<Rightarrow> (release E k x s, False))"

text \<open>An operation of somebody else on the lease of \<open>k\<close>, at a time at which it has not expired.\<close>

definition intrusion :: "'k \<Rightarrow> 'o \<Rightarrow> 't \<Rightarrow> ('env, 'k, 'o, 't) lease_op \<Rightarrow> bool" where
  "intrusion k x t a = (case a of Acquire E k' y t' \<Rightarrow> k' = k \<longrightarrow> y \<noteq> x \<and> \<not> expired E t
                                | Release E k' y \<Rightarrow> k' = k \<longrightarrow> y \<noteq> x)"

lemma lease_step_held:
  "holder s k = Some (x, t) \<Longrightarrow> intrusion k x t a \<Longrightarrow> holder (fst (lease_step a s)) k = Some (x, t)"
proof (cases a)
  case (Acquire E k' y t')
  assume "holder s k = Some (x, t)" "intrusion k x t a"
  then show ?thesis
    using acquire_other [of k k' E y t' s] acquire_refused [of s k x t E y t'] Acquire
    by (cases "k' = k") (simp_all add: lease_step_def intrusion_def)
next
  case (Release E k' y)
  assume "holder s k = Some (x, t)" "intrusion k x t a"
  then show ?thesis
    using release_other [of k k' E y s] release_foreign [of s k x t y E] Release
    by (cases "k' = k") (simp_all add: lease_step_def intrusion_def)
qed

lemma lease_held:
  assumes "holder s k = Some (x, t)" "\<forall>a \<in> set as. intrusion k x t a"
  shows "holder (fold (\<lambda>a s. fst (lease_step a s)) as s) k = Some (x, t)"
  using assms by (induction as arbitrary: s) (simp_all add: lease_step_held)

end

end
