(* ===== verification/GoStd.thy ===== *)
theory GoStd
  imports Prelude
begin

text \<open>
  The functions of Go's standard library that the modelled code calls on strings.  A Go string
  is a list of bytes, which \<open>char\<close> is; \<open>len\<close> is \<open>length\<close>.  White space is what
  \<open>unicode.IsSpace\<close> accepts, on the UTF-8 bytes of the string.
\<close>

subsection \<open>Prefixes and suffixes\<close>

definition has_prefix :: "string \<Rightarrow> string \<Rightarrow> bool" where
  "has_prefix s p = (take (length p) s = p)"

definition has_suffix :: "string \<Rightarrow> string \<Rightarrow> bool" where
  "has_suffix s p = (length p \<le> length s \<and> drop (length s - length p) s = p)"

definition trim_prefix :: "string \<Rightarrow> string \<Rightarrow> string" where
  "trim_prefix s p = (if has_prefix s p then drop (length p) s else s)"

subsection \<open>White space\<close>

definition ascii_space :: "char \<Rightarrow> bool" where
  "ascii_space c = (c = CHR '' '' \<or> c = CHR 0x09 \<or> c = CHR 0x0A \<or> c = CHR 0x0B
     \<or> c = CHR 0x0C \<or> c = CHR 0x0D)"

text \<open>
  The length of the white-space rune a byte list starts with, \<open>0\<close> if it starts with none:
  ASCII, U+0085, U+00A0, U+1680, U+2000 to U+200A, U+2028, U+2029, U+202F, U+205F and U+3000.
\<close>

definition space2 :: "char \<Rightarrow> char \<Rightarrow> bool" where
  "space2 a b = (a = CHR 0xC2 \<and> (b = CHR 0x85 \<or> b = CHR 0xA0))"

definition space3 :: "char \<Rightarrow> char \<Rightarrow> char \<Rightarrow> bool" where
  "space3 a b c =
     (a = CHR 0xE1 \<and> b = CHR 0x9A \<and> c = CHR 0x80 \<or>
      a = CHR 0xE2 \<and> b = CHR 0x80 \<and>
        (0x80 \<le> (of_char c :: nat) \<and> (of_char c :: nat) \<le> 0x8A
          \<or> c = CHR 0xA8 \<or> c = CHR 0xA9 \<or> c = CHR 0xAF) \<or>
      a = CHR 0xE2 \<and> b = CHR 0x81 \<and> c = CHR 0x9F \<or>
      a = CHR 0xE3 \<and> b = CHR 0x80 \<and> c = CHR 0x80)"

fun space_len :: "string \<Rightarrow> nat" where
  "space_len (a # b # c # s) =
     (if ascii_space a then 1 else if space2 a b then 2 else if space3 a b c then 3 else 0)"
| "space_len [a, b] = (if ascii_space a then 1 else if space2 a b then 2 else 0)"
| "space_len [a] = (if ascii_space a then 1 else 0)"
| "space_len [] = 0"

text \<open>The same on a reversed string, whose runes read backwards.\<close>

fun space_len_rev :: "string \<Rightarrow> nat" where
  "space_len_rev (a # b # c # s) =
     (if ascii_space a then 1 else if space2 b a then 2 else if space3 c b a then 3 else 0)"
| "space_len_rev [a, b] = (if ascii_space a then 1 else if space2 b a then 2 else 0)"
| "space_len_rev [a] = (if ascii_space a then 1 else 0)"
| "space_len_rev [] = 0"

text \<open>Dropping runes from the front of a list as long as a measure of the front is not \<open>0\<close>.\<close>

function drop_runes :: "(string \<Rightarrow> nat) \<Rightarrow> string \<Rightarrow> string" where
  "drop_runes f s = (if s = [] \<or> f s = 0 then s else drop_runes f (drop (f s) s))"
  by pat_completeness auto
termination
  by (relation "measure (\<lambda>(f, s). length s)") auto

declare drop_runes.simps [simp del]

lemma drop_runes_Nil [simp]: "drop_runes f [] = []"
  by (simp add: drop_runes.simps)

lemma drop_runes_stop: "drop_runes f s = [] \<or> f (drop_runes f s) = 0"
proof (induction f s rule: drop_runes.induct)
  case (1 f s)
  then show ?case by (cases "s = [] \<or> f s = 0") (auto simp: drop_runes.simps [of f s])
qed

lemma drop_runes_idem [simp]: "drop_runes f (drop_runes f s) = drop_runes f s"
  using drop_runes_stop [of f s] by (auto simp: drop_runes.simps [of f "drop_runes f s"])

lemma length_drop_runes: "length (drop_runes f s) \<le> length s"
proof (induction f s rule: drop_runes.induct)
  case (1 f s)
  then show ?case by (cases "s = [] \<or> f s = 0") (auto simp: drop_runes.simps [of f s])
qed

definition trim_left :: "string \<Rightarrow> string" where
  "trim_left s = drop_runes space_len s"

definition trim_right :: "string \<Rightarrow> string" where
  "trim_right s = rev (drop_runes space_len_rev (rev s))"

definition trim_space :: "string \<Rightarrow> string" where
  "trim_space s = trim_right (trim_left s)"

lemma length_trim_space: "length (trim_space s) \<le> length s"
  using length_drop_runes [of space_len s]
    length_drop_runes [of space_len_rev "rev (drop_runes space_len s)"]
  by (simp add: trim_space_def trim_right_def trim_left_def)

lemma trim_space_Nil [simp]: "trim_space [] = []"
  by (simp add: trim_space_def trim_right_def trim_left_def)

subsection \<open>Decimal integers: \<open>strconv.Itoa\<close> and the verb \<open>%d\<close>\<close>

fun digits :: "nat \<Rightarrow> nat list" where
  "digits n = (if n < 10 then [n] else digits (n div 10) @ [n mod 10])"

declare digits.simps [simp del]

definition digit_char :: "nat \<Rightarrow> char" where
  "digit_char d = char_of (48 + d)"

definition nat_str :: "nat \<Rightarrow> string" where
  "nat_str n = map digit_char (digits n)"

definition itoa :: "int \<Rightarrow> string" where
  "itoa i = (if i < 0 then CHR ''-'' # nat_str (nat (- i)) else nat_str (nat i))"

fun of_digits :: "nat \<Rightarrow> nat list \<Rightarrow> nat" where
  "of_digits acc [] = acc"
| "of_digits acc (d # ds) = of_digits (10 * acc + d) ds"

lemma of_digits_append: "of_digits acc (xs @ ys) = of_digits (of_digits acc xs) ys"
  by (induction xs arbitrary: acc) auto

lemma of_digits_digits: "of_digits 0 (digits n) = n"
proof (induction n rule: digits.induct)
  case (1 n)
  then show ?case by (subst digits.simps) (simp add: of_digits_append)
qed

lemma digits_small: "d \<in> set (digits n) \<Longrightarrow> d < 10"
proof (induction n rule: digits.induct)
  case (1 n)
  from 1(2) show ?case
    by (subst (asm) digits.simps) (auto split: if_splits dest: "1.IH")
qed

lemma inj_on_digit_char: "inj_on digit_char {d. d < 10}"
proof (rule inj_onI)
  fix x y :: nat
  assume "x \<in> {d. d < 10}" "y \<in> {d. d < 10}" "digit_char x = digit_char y"
  then have "(of_char (char_of (48 + x)) :: nat) = of_char (char_of (48 + y))"
    by (simp add: digit_char_def)
  with \<open>x \<in> _\<close> \<open>y \<in> _\<close> show "x = y" by simp
qed

lemma nat_str_inj: "nat_str m = nat_str n \<Longrightarrow> m = n"
proof -
  assume "nat_str m = nat_str n"
  then have "digits m = digits n"
    unfolding nat_str_def
    by (rule map_inj_on) (auto intro: inj_on_subset [OF inj_on_digit_char] dest: digits_small)
  then show "m = n" using of_digits_digits by metis
qed

lemma itoa_inj_nonneg: "0 \<le> i \<Longrightarrow> 0 \<le> j \<Longrightarrow> itoa i = itoa j \<Longrightarrow> i = j"
  by (auto simp: itoa_def dest: nat_str_inj)

lemma itoa_nonempty [simp]: "itoa i \<noteq> []"
  by (auto simp: itoa_def nat_str_def digits.simps [of "nat i"])

text \<open>\<open>strconv.ParseInt(s, 10, 64)\<close>.\<close>

definition is_digit :: "char \<Rightarrow> bool" where
  "is_digit c = (48 \<le> (of_char c :: nat) \<and> (of_char c :: nat) \<le> 57)"

definition digit_val :: "char \<Rightarrow> nat" where
  "digit_val c = of_char c - 48"

definition parse_int :: "string \<Rightarrow> int option" where
  "parse_int s =
     (let neg = (s \<noteq> [] \<and> hd s = CHR ''-'');
          ds = (if s \<noteq> [] \<and> (hd s = CHR ''-'' \<or> hd s = CHR ''+'') then tl s else s);
          n = int (of_digits 0 (map digit_val ds));
          v = (if neg then - n else n)
      in if ds = [] \<or> \<not> list_all is_digit ds then None
         else if - (2 ^ 63) \<le> v \<and> v < 2 ^ 63 then Some v else None)"

lemma digit_char_val [simp]: "d < 10 \<Longrightarrow> is_digit (digit_char d) \<and> digit_val (digit_char d) = d"
  by (simp add: is_digit_def digit_val_def digit_char_def)

lemma nat_str_digits: "list_all is_digit (nat_str n) \<and> map digit_val (nat_str n) = digits n"
proof -
  have "list_all is_digit (map digit_char ds) \<and> map digit_val (map digit_char ds) = ds"
    if "\<forall>d \<in> set ds. d < 10" for ds
    using that by (induction ds) simp_all
  then show ?thesis unfolding nat_str_def using digits_small by blast
qed

lemma nat_str_nonempty [simp]: "nat_str n \<noteq> []"
  by (simp add: nat_str_def digits.simps [of n])

lemma hd_nat_str: "hd (nat_str n) \<noteq> CHR ''-'' \<and> hd (nat_str n) \<noteq> CHR ''+''"
proof -
  have "is_digit (hd (nat_str n))"
    using nat_str_digits [of n] by (cases "nat_str n") simp_all
  then show ?thesis by (auto simp: is_digit_def)
qed

lemma parse_int_itoa:
  assumes "- (2 ^ 63) \<le> i" "i < 2 ^ 63"
  shows "parse_int (itoa i) = Some i"
proof (cases "i < 0")
  case True
  then show ?thesis
    using assms nat_str_digits [of "nat (- i)"]
    by (simp add: parse_int_def itoa_def of_digits_digits Let_def)
next
  case False
  then show ?thesis
    using assms nat_str_digits [of "nat i"] hd_nat_str [of "nat i"]
    by (simp add: parse_int_def itoa_def of_digits_digits Let_def)
qed

subsection \<open>Joining, splitting, searching, replacing\<close>

fun join :: "string \<Rightarrow> string list \<Rightarrow> string" where
  "join sep [] = []"
| "join sep [x] = x"
| "join sep (x # y # xs) = x @ sep @ join sep (y # xs)"

text \<open>\<open>strings.Split\<close> with a separator of one byte.\<close>

fun split_on :: "char \<Rightarrow> string \<Rightarrow> string list" where
  "split_on d [] = [[]]"
| "split_on d (c # s) =
     (if c = d then [] # split_on d s
      else case split_on d s of [] \<Rightarrow> [[c]] | x # xs \<Rightarrow> (c # x) # xs)"

lemma split_on_nonempty [simp]: "split_on d s \<noteq> []"
  by (induction s) (auto split: list.splits)

lemma length_split_on: "length (split_on d s) = Suc (count_list s d)"
  by (induction s) (auto split: list.splits)

text \<open>\<open>strings.ReplaceAll\<close> of a non-empty pattern, left to right without overlaps.\<close>

function replace_all :: "string \<Rightarrow> string \<Rightarrow> string \<Rightarrow> string" where
  "replace_all [] old new = []"
| "replace_all (c # s) old new =
     (if old \<noteq> [] \<and> has_prefix (c # s) old
      then new @ replace_all (drop (length old) (c # s)) old new
      else c # replace_all s old new)"
  by pat_completeness auto
termination
  by (relation "measure (\<lambda>(s, old, new). length s)") (auto simp: neq_Nil_conv)

text \<open>\<open>strings.IndexAny\<close> and \<open>strings.LastIndexAny\<close> with ASCII byte sets, \<open>None\<close> for \<open>-1\<close>.\<close>

definition index_any :: "string \<Rightarrow> string \<Rightarrow> nat option" where
  "index_any s cs = find_index (\<lambda>c. c \<in> set cs) s"

definition last_index_any :: "string \<Rightarrow> string \<Rightarrow> nat option" where
  "last_index_any s cs = find_last_index (\<lambda>c. c \<in> set cs) s"

text \<open>
  \<open>strings.ToLower\<close>, as far as a comparison with ASCII text can tell: ASCII capitals, and the two
  non-ASCII letters whose lower case is ASCII, U+0130 and U+212A.  Every other letter keeps its
  bytes here; its lower case has no ASCII byte either.
\<close>

definition lower_ascii :: "char \<Rightarrow> char" where
  "lower_ascii a =
     (let n = (of_char a :: nat) in if 65 \<le> n \<and> n \<le> 90 then char_of (n + 32) else a)"

fun to_lower :: "string \<Rightarrow> string" where
  "to_lower (a # b # c # s) =
     (if a = CHR 0xC4 \<and> b = CHR 0xB0 then CHR ''i'' # to_lower (c # s)
      else if a = CHR 0xE2 \<and> b = CHR 0x84 \<and> c = CHR 0xAA then CHR ''k'' # to_lower s
      else lower_ascii a # to_lower (b # c # s))"
| "to_lower [a, b] =
     (if a = CHR 0xC4 \<and> b = CHR 0xB0 then ''i'' else [lower_ascii a, lower_ascii b])"
| "to_lower [a] = [lower_ascii a]"
| "to_lower [] = []"

end
