(* ===== verification/Shell_Types.thy ===== *)
theory Shell_Types
  imports GoStd
begin

text \<open>
  The data of the conversation shell (\<open>internal/harnessshell/types.go\<close>, \<open>state.go\<close>): tokens,
  transcript rows, queued submissions, permissions, the closed sets of outbound actions and
  inbound host events, the shell-owned state, and the operations of the two third-party Bubble
  Tea widgets the state embeds (textarea and viewport), which are parameters of the model.
  String-typed enumerations of the source are datatypes; a constructor \<open>Other...\<close> stands for
  a value outside the declared constants where the code has a default branch for it.
\<close>

subsection \<open>Enumerations\<close>

datatype FocusZone = FocusSidebar | FocusTranscript | FocusInput

datatype Role = RoleUser | RoleAssistant | RoleSystem | RoleEvent | RoleHostInfo

datatype TranscriptItemKind = KindMessage | KindEvent | KindQueued | KindHostInfo

datatype SubmissionSource = SourceDirect | SourceQueueRelease

datatype TokenKind = TokenKindPaste | TokenKindFile

fun TokenKind_string :: "TokenKind \<Rightarrow> string" where
  "TokenKind_string TokenKindPaste = ''paste''"
| "TokenKind_string TokenKindFile = ''file''"

datatype PermissionDecision = DecisionApproveOnce | DecisionApproveSession | DecisionDeny

datatype PermissionOutcome =
  OutcomeApprovedOnce | OutcomeApprovedSession | OutcomeDenied | OtherOutcome string

datatype StopReason = StopReasonInterrupt | StopReasonHost | OtherStopReason string

datatype StatusKind =
  StatusReady | StatusStreaming | StatusInterruptArmed | StatusPermissionPending | StatusError

subsection \<open>Payloads\<close>

record InputToken =
  tok_ID :: string
  tok_Kind :: TokenKind
  tok_Label :: string
  tok_Payload :: string

record Submission =
  sub_ID :: string
  sub_Entries :: "string list"
  sub_Text :: string
  sub_Tokens :: "InputToken list"
  sub_Source :: SubmissionSource
  sub_RequestedAt :: gotime

record SessionPolicyState =
  pol_SessionApproved :: bool
  pol_Note :: string

record PermissionRequest =
  req_ID :: string
  req_ToolLabel :: string
  req_Target :: string
  req_Summary :: string
  req_SessionPolicyState :: SessionPolicyState

record PreviewTarget =
  pt_TokenID :: string
  pt_Source :: string
  pt_MessageIndex :: int
  pt_TokenIndex :: int

record PreviewPayload =
  pp_Title :: string
  pp_Content :: string
  pp_Metadata :: "(string \<times> string) list"

record CommandInvocation =
  cmd_Name :: string
  cmd_Args :: string
  cmd_Raw :: string

subsection \<open>Actions and host events\<close>

datatype Action =
    SubmitTurnAction Submission
  | InterruptRunAction string
  | ResolvePermissionAction string PermissionDecision
  | LoadPreviewAction PreviewTarget
  | RunHostCommandAction CommandInvocation

text \<open>
  The arguments are the fields of the event structs in their order; the kind of a
  \<open>HostStatusEvent\<close> is \<open>None\<close> for the empty string, which leaves the kind alone.
\<close>

datatype HostEvent =
    SubmissionAcceptedEvent string string
  | SubmissionFailedEvent string string
  | RunStartedEvent string string string
  | RunDeltaEvent string string
  | RunCompletedEvent string
  | RunStoppedEvent string StopReason string
  | RunFailedEvent string string
  | PermissionRequestedEvent PermissionRequest
  | PermissionResolvedEvent string PermissionOutcome string
  | PreviewLoadedEvent PreviewTarget PreviewPayload
  | HostStatusEvent string "StatusKind option"
  | HostInfoEvent string
  | TranscriptClearEvent

subsection \<open>Transcript, queue and permission rows\<close>

record EventState =
  ev_Status :: string
  ev_RequestID :: string

text \<open>\<open>Expanded\<close> is a \<open>map[string]bool\<close>, here an association list; the nil map is \<open>[]\<close>.\<close>

record TranscriptItem =
  ti_ID :: string
  ti_Kind :: TranscriptItemKind
  ti_Role :: Role
  ti_Text :: string
  ti_Tokens :: "InputToken list"
  ti_Expanded :: "(string \<times> bool) list"
  ti_Event :: "EventState option"
  ti_Streaming :: bool
  ti_Entries :: "string list"
  ti_SubmissionID :: string
  ti_RunID :: string

definition expanded_at :: "(string \<times> bool) list \<Rightarrow> string \<Rightarrow> bool" where
  "expanded_at m k = (case map_of m k of None \<Rightarrow> False | Some b \<Rightarrow> b)"

record QueuedSubmission =
  qs_ID :: string
  qs_Text :: string
  qs_Tokens :: "InputToken list"
  qs_Entries :: "string list"

record PendingPermission =
  perm_Request :: PermissionRequest
  perm_TranscriptID :: string
  perm_SelectedAction :: int

record TranscriptRef =
  ref_MessageIndex :: int
  ref_TokenIndex :: int

record PreviewDialog =
  pv_Title :: string
  pv_Content :: string

subsection \<open>Messages, commands and the embedded widgets\<close>

text \<open>
  A key message: its type, whether Alt is held, and what \<open>KeyMsg.String\<close> returns for it.
  The key types the shell distinguishes are constructors.
\<close>

datatype KeyType =
  KeyEsc | KeyTab | KeyPgUp | KeyPgDown | KeyUp | KeyDown | KeyLeft | KeyRight | KeyEnter
  | KeyCtrlJ | KeyOther

record KeyMsg =
  key_Type :: KeyType
  key_Alt :: bool
  key_String :: string

text \<open>
  Messages the shell only forwards to a widget carry a number that identifies them, and so do the
  commands a widget returns (\<open>WidgetCmd\<close>) and those a stream-tick factory returns
  (\<open>TickCmd\<close>, number \<open>0\<close> being the shell's own \<open>streamTickCmd\<close>).
\<close>

datatype tea_Msg =
    WindowSizeMsg int int
  | TeaKeyMsg KeyMsg
  | MouseMsg nat
  | HostEventMsg HostEvent
  | StreamTickMsg
  | OtherMsg nat

datatype tea_Cmd =
    ActionCmd "Action list"
  | TickCmd nat
  | QuitCmd
  | EnableMouseAllMotionCmd
  | DisableMouseCmd
  | WidgetCmd nat

text \<open>
  The calls the shell makes on \<open>textarea.Model\<close> and \<open>viewport.Model\<close>
  (\<open>github.com/charmbracelet/bubbles\<close>, not part of the repository), and the renderer's styling
  calls into \<open>lipgloss\<close>, which turn the surface into the viewport's content.
\<close>

record 'ta textarea_api =
  ta_Value :: "'ta \<Rightarrow> string"
  ta_SetValue :: "string \<Rightarrow> 'ta \<Rightarrow> 'ta"
  ta_Reset :: "'ta \<Rightarrow> 'ta"
  ta_SetHeight :: "int \<Rightarrow> 'ta \<Rightarrow> 'ta"
  ta_SetWidth :: "int \<Rightarrow> 'ta \<Rightarrow> 'ta"
  ta_CursorEnd :: "'ta \<Rightarrow> 'ta"
  ta_InsertRune :: "char \<Rightarrow> 'ta \<Rightarrow> 'ta"
  ta_Focus :: "'ta \<Rightarrow> 'ta"
  ta_Blur :: "'ta \<Rightarrow> 'ta"
  ta_Update :: "tea_Msg \<Rightarrow> 'ta \<Rightarrow> 'ta \<times> nat option"
  ta_View :: "'ta \<Rightarrow> string"

record 'vp viewport_api =
  vp_Width :: "'vp \<Rightarrow> int"
  vp_SetSize :: "int \<Rightarrow> int \<Rightarrow> 'vp \<Rightarrow> 'vp"
  vp_PageUp :: "'vp \<Rightarrow> 'vp"
  vp_PageDown :: "'vp \<Rightarrow> 'vp"
  vp_ScrollUp :: "int \<Rightarrow> 'vp \<Rightarrow> 'vp"
  vp_ScrollDown :: "int \<Rightarrow> 'vp \<Rightarrow> 'vp"
  vp_Update :: "tea_Msg \<Rightarrow> 'vp \<Rightarrow> 'vp \<times> nat option"
  vp_AtBottom :: "'vp \<Rightarrow> bool"
  vp_TotalLineCount :: "'vp \<Rightarrow> int"
  vp_YOffset :: "'vp \<Rightarrow> int"
  vp_SetContent :: "string \<Rightarrow> 'vp \<Rightarrow> 'vp"
  vp_GotoBottom :: "'vp \<Rightarrow> 'vp"
  vp_SetYOffset :: "int \<Rightarrow> 'vp \<Rightarrow> 'vp"

record ('ta, 'vp) widgets =
  textarea :: "'ta textarea_api"
  viewport :: "'vp viewport_api"

subsection \<open>The shell-owned state\<close>

text \<open>
  The fields of \<open>type state struct\<close> in their order.  \<open>streamTick\<close> is the factory
  field: \<open>None\<close> for a nil factory, \<open>Some None\<close> for one that returns a nil command.  The
  clock (\<open>now\<close>, or \<open>time.Now\<close> when it is nil) is the reading \<open>clock\<close> that the
  environment supplies for the step.
\<close>

record ('ta, 'vp) state =
  width :: int
  height :: int
  focus :: FocusZone
  input :: 'ta
  transcript :: 'vp
  title :: string
  label :: string
  status :: string
  statusKind :: StatusKind
  transcriptItems :: "TranscriptItem list"
  queuedSubmissions :: "QueuedSubmission list"
  pendingSubmissions :: "QueuedSubmission list"
  inputTokens :: "InputToken list"
  selectedToken :: int
  transcriptRefs :: "TranscriptRef list"
  selectedTranscriptRef :: int
  commandHistory :: "string list"
  historyIndex :: int
  historyDraft :: string
  pendingPermissions :: "PendingPermission list"
  activePermissionIndex :: int
  streaming :: bool
  streamPulse :: int
  interruptArmed :: bool
  activeRunID :: string
  submissionCounter :: int
  sidebarOpen :: bool
  mouseCaptureDisabled :: bool
  preview :: "PreviewDialog option"
  pendingActions :: "Action list"
  pendingCmds :: "tea_Cmd list"
  runStartedAt :: gotime
  streamTick :: "nat option option"
  clock :: gotime

text \<open>\<open>state.nowOrDefault\<close>.\<close>

definition nowOrDefault :: "('ta, 'vp) state \<Rightarrow> gotime" where
  "nowOrDefault s = clock s"

text \<open>
  The state \<open>New\<close> builds before options apply, over the widgets \<open>textarea.New\<close> and
  \<open>viewport.New\<close> give it (configured by \<open>New\<close>'s styling calls).
\<close>

definition New :: "'ta \<Rightarrow> 'vp \<Rightarrow> ('ta, 'vp) state" where
  "New ta vp = \<lparr>
     width = 0, height = 0, focus = FocusInput, input = ta, transcript = vp,
     title = [], label = [], status = [], statusKind = StatusReady,
     transcriptItems = [], queuedSubmissions = [], pendingSubmissions = [],
     inputTokens = [], selectedToken = -1,
     transcriptRefs = [], selectedTranscriptRef = -1,
     commandHistory = [], historyIndex = -1, historyDraft = [],
     pendingPermissions = [], activePermissionIndex = 0,
     streaming = False, streamPulse = 0, interruptArmed = False, activeRunID = [],
     submissionCounter = 0, sidebarOpen = False, mouseCaptureDisabled = True, preview = None,
     pendingActions = [], pendingCmds = [], runStartedAt = 0,
     streamTick = Some (Some 0), clock = 0\<rparr>"

end
