(* ===== verification/Shell_Core.thy ===== *)
theory Shell_Core
  imports Shell_Types
begin

text \<open>
  The shell's local operations: command history and input mutation (\<open>input.go\<close>), composer and
  transcript tokens (\<open>tokens.go\<close>), and pending permissions (\<open>permissions.go\<close>).  Each
  method on \<open>*state\<close> is a function from state to state; a boolean result is paired with it.
  The parameter \<open>W\<close> holds the widget operations.
\<close>

subsection \<open>Command history and composer height (input.go)\<close>

definition syncInputHeight ::
  "('ta, 'vp) widgets \<Rightarrow> ('ta, 'vp) state \<Rightarrow> ('ta, 'vp) state" where
  "syncInputHeight W s =
     (let n = int (count_list (ta_Value (textarea W) (input s)) (CHR 0x0A)) + 1;
          lines = (if n < 1 then 1 else n)
      in s\<lparr>input := ta_SetHeight (textarea W) lines (input s)\<rparr>)"

definition pushHistory :: "string \<Rightarrow> ('ta, 'vp) state \<Rightarrow> ('ta, 'vp) state" where
  "pushHistory content s0 =
     (let s = s0\<lparr>historyIndex := -1, historyDraft := []\<rparr> in
      if content = [] then s
      else if commandHistory s \<noteq> [] \<and> last (commandHistory s) = content then s
      else s\<lparr>commandHistory := commandHistory s @ [content]\<rparr>)"

text \<open>The tail that the two recall operations share: show a value, cursor at its end, resize.\<close>

definition showRecalled ::
  "('ta, 'vp) widgets \<Rightarrow> string \<Rightarrow> ('ta, 'vp) state \<Rightarrow> ('ta, 'vp) state" where
  "showRecalled W v s =
     syncInputHeight W
       (s\<lparr>input := ta_CursorEnd (textarea W) (ta_SetValue (textarea W) v (input s))\<rparr>)"

definition recallPreviousCommand ::
  "('ta, 'vp) widgets \<Rightarrow> ('ta, 'vp) state \<Rightarrow> ('ta, 'vp) state" where
  "recallPreviousCommand W s =
     (if commandHistory s = [] then s
      else if historyIndex s = -1 then
        (let s1 = s\<lparr>historyDraft := ta_Value (textarea W) (input s),
                    historyIndex := int (length (commandHistory s)) - 1\<rparr>
         in showRecalled W (commandHistory s1 ! nat (historyIndex s1)) s1)
      else if historyIndex s > 0 then
        (let s1 = s\<lparr>historyIndex := historyIndex s - 1\<rparr>
         in showRecalled W (commandHistory s1 ! nat (historyIndex s1)) s1)
      else s)"

definition recallNextCommand ::
  "('ta, 'vp) widgets \<Rightarrow> ('ta, 'vp) state \<Rightarrow> ('ta, 'vp) state" where
  "recallNextCommand W s =
     (if historyIndex s = -1 then s
      else if historyIndex s < int (length (commandHistory s)) - 1 then
        (let s1 = s\<lparr>historyIndex := historyIndex s + 1\<rparr>
         in showRecalled W (commandHistory s1 ! nat (historyIndex s1)) s1)
      else (let s1 = showRecalled W (historyDraft s) (s\<lparr>historyIndex := -1\<rparr>)
            in s1\<lparr>historyDraft := []\<rparr>))"

definition nextFocus :: "FocusZone \<Rightarrow> bool \<Rightarrow> FocusZone" where
  "nextFocus current sidebar_open =
     (case current of
        FocusInput \<Rightarrow> FocusTranscript
      | FocusTranscript \<Rightarrow> if \<not> sidebar_open then FocusInput else FocusSidebar
      | FocusSidebar \<Rightarrow> FocusInput)"

text \<open>Indexing of Go slices inside the bounds the code has checked.\<close>

definition in_range :: "int \<Rightarrow> 'a list \<Rightarrow> bool" where
  "in_range i xs = (0 \<le> i \<and> i < int (length xs))"

definition clampIndex :: "int \<Rightarrow> 'a list \<Rightarrow> int" where
  "clampIndex i xs =
     (let j = (if i < 0 then 0 else i)
      in if j \<ge> int (length xs) then int (length xs) - 1 else j)"

definition moveTranscriptRef :: "int \<Rightarrow> ('ta, 'vp) state \<Rightarrow> ('ta, 'vp) state" where
  "moveTranscriptRef delta s =
     (if transcriptRefs s = [] then s
      else
        (let sel = clampIndex (selectedTranscriptRef s + delta) (transcriptRefs s);
             s1 = s\<lparr>selectedTranscriptRef := sel\<rparr>;
             ref = transcriptRefs s ! nat sel
         in if ref_MessageIndex ref < int (length (transcriptItems s))
            then (let item = transcriptItems s ! nat (ref_MessageIndex ref)
                  in if ref_TokenIndex ref < int (length (ti_Tokens item))
                     then s1\<lparr>status := ''Transcript item: ''
                             @ tok_Label (ti_Tokens item ! nat (ref_TokenIndex ref))\<rparr>
                     else s1)
            else s1))"

subsection \<open>Tokens (tokens.go)\<close>

definition detectFileLabel :: "string \<Rightarrow> int \<Rightarrow> string" where
  "detectFileLabel path n =
     (let name = (case last_index_any path [CHR ''/'', CHR 0x5C] of
                    None \<Rightarrow> path
                  | Some idx \<Rightarrow> if idx + 1 < length path then drop (idx + 1) path else path);
          lower = to_lower name
      in if name = [] then ''file-'' @ itoa n
         else if has_suffix lower ''.png'' \<or> has_suffix lower ''.jpg'' \<or> has_suffix lower ''.jpeg''
              \<or> has_suffix lower ''.gif'' \<or> has_suffix lower ''.webp''
              then ''image-'' @ itoa n @ '' ('' @ name @ '')''
         else ''file-'' @ itoa n @ '' ('' @ name @ '')'')"

definition addToken :: "TokenKind \<Rightarrow> string \<Rightarrow> ('ta, 'vp) state \<Rightarrow> ('ta, 'vp) state" where
  "addToken kind payload s =
     (let n = int (length (inputTokens s)) + 1;
          plain = TokenKind_string kind @ ''-'' @ itoa n;
          lbl = (if kind = TokenKindFile then detectFileLabel payload n else plain);
          toks = inputTokens s @
            [\<lparr>tok_ID = plain, tok_Kind = kind, tok_Label = lbl, tok_Payload = payload\<rparr>]
      in s\<lparr>inputTokens := toks, selectedToken := int (length toks) - 1\<rparr>)"

definition moveTokenSelection :: "int \<Rightarrow> ('ta, 'vp) state \<Rightarrow> ('ta, 'vp) state" where
  "moveTokenSelection delta s =
     (if inputTokens s = [] then s
      else (let sel = clampIndex (selectedToken s + delta) (inputTokens s)
            in s\<lparr>selectedToken := sel,
                 status := ''Selected '' @ tok_Label (inputTokens s ! nat sel)\<rparr>))"

definition looksLikeDroppedPath :: "string \<Rightarrow> bool" where
  "looksLikeDroppedPath path =
     (if path = [] \<or> path = ''/'' \<or> has_prefix path ''//'' then False
      else if has_prefix path ''~/'' then length path > 2
      else if \<not> has_prefix path ''/'' then False
      else (let rest = drop 1 path
            in if rest = [] then False else CHR ''/'' \<in> set rest))"

definition unquotePath :: "string \<Rightarrow> string" where
  "unquotePath path =
     (if length path \<ge> 2 \<and>
         (hd path = CHR 0x22 \<and> last path = CHR 0x22 \<or> hd path = CHR 0x27 \<and> last path = CHR 0x27)
      then butlast (tl path) else path)"

definition unescapePath :: "string \<Rightarrow> string" where
  "unescapePath p0 =
     (let p1 = replace_all p0 [CHR 0x5C, CHR '' ''] '' '';
          p2 = replace_all p1 [CHR 0x5C, CHR ''(''] ''('';
          p3 = replace_all p2 [CHR 0x5C, CHR '')''] '')'';
          p4 = replace_all p3 [CHR 0x5C, CHR ''[''] ''[''
      in replace_all p4 [CHR 0x5C, CHR '']''] '']'')"

text \<open>\<open>None\<close> for the result \<open>("", false)\<close>.\<close>

definition normalizeDroppedPath :: "string \<Rightarrow> string option" where
  "normalizeDroppedPath v =
     (let trimmed = trim_space v in
      if trimmed = [] then None
      else
        (let lines = split_on (CHR 0x0A) trimmed in
         if length lines \<noteq> 1 then None
         else
           (let path = unescapePath (unquotePath (trim_space (hd lines)))
            in if looksLikeDroppedPath path then Some path else None)))"

definition handleInputMutation ::
  "('ta, 'vp) widgets \<Rightarrow> string \<Rightarrow> string \<Rightarrow> ('ta, 'vp) state \<Rightarrow> ('ta, 'vp) state" where
  "handleInputMutation W prev current s =
     (if current = prev then s
      else (case normalizeDroppedPath current of
          Some path \<Rightarrow>
            (let s1 = addToken TokenKindFile path s
             in s1\<lparr>input := ta_Reset (textarea W) (input s1),
                   status := ''Dropped path captured as file entry''\<rparr>)
        | None \<Rightarrow>
            (if int (length current) - int (length prev) \<ge> 120 \<and> trim_space current \<noteq> [] then
               (let s1 = addToken TokenKindPaste (trim_space current) s
                in s1\<lparr>input := ta_Reset (textarea W) (input s1),
                      status := ''Large paste captured as compact entry''\<rparr>)
             else s)))"

definition previewSelectedComposerToken :: "('ta, 'vp) state \<Rightarrow> ('ta, 'vp) state" where
  "previewSelectedComposerToken s =
     (if inputTokens s = [] \<or> selectedToken s < 0
         \<or> selectedToken s \<ge> int (length (inputTokens s)) then s
      else
        (let tok = inputTokens s ! nat (selectedToken s)
         in case tok_Kind tok of
              TokenKindPaste \<Rightarrow>
                s\<lparr>preview := Some \<lparr>pv_Title = tok_Label tok, pv_Content = tok_Payload tok\<rparr>,
                  status := ''Previewing '' @ tok_Label tok\<rparr>
            | TokenKindFile \<Rightarrow>
                s\<lparr>pendingActions := pendingActions s @
                    [LoadPreviewAction \<lparr>pt_TokenID = tok_ID tok, pt_Source = ''composer'',
                       pt_MessageIndex = 0, pt_TokenIndex = 0\<rparr>],
                  status := ''Loading preview for '' @ tok_Label tok\<rparr>))"

text \<open>
  The token the selected transcript reference points at, with the reference: the bounds checks
  both transcript operations start with.
\<close>

definition selectedTranscriptToken ::
  "('ta, 'vp) state \<Rightarrow> (TranscriptRef \<times> InputToken) option" where
  "selectedTranscriptToken s =
     (if transcriptRefs s = [] \<or> selectedTranscriptRef s < 0
         \<or> selectedTranscriptRef s \<ge> int (length (transcriptRefs s)) then None
      else
        (let ref = transcriptRefs s ! nat (selectedTranscriptRef s) in
         if ref_MessageIndex ref < 0
            \<or> ref_MessageIndex ref \<ge> int (length (transcriptItems s)) then None
         else
           (let item = transcriptItems s ! nat (ref_MessageIndex ref) in
            if ref_TokenIndex ref < 0 \<or> ref_TokenIndex ref \<ge> int (length (ti_Tokens item))
            then None
            else Some (ref, ti_Tokens item ! nat (ref_TokenIndex ref)))))"

definition transcriptPreviewAction :: "TranscriptRef \<Rightarrow> InputToken \<Rightarrow> Action" where
  "transcriptPreviewAction ref tok =
     LoadPreviewAction \<lparr>pt_TokenID = tok_ID tok, pt_Source = ''transcript'',
       pt_MessageIndex = ref_MessageIndex ref, pt_TokenIndex = ref_TokenIndex ref\<rparr>"

definition activateSelectedTranscriptRef :: "('ta, 'vp) state \<Rightarrow> ('ta, 'vp) state" where
  "activateSelectedTranscriptRef s =
     (case selectedTranscriptToken s of
        None \<Rightarrow> s
      | Some (ref, tok) \<Rightarrow>
          (case tok_Kind tok of
             TokenKindPaste \<Rightarrow>
               (let i = nat (ref_MessageIndex ref);
                    now_open = \<not> expanded_at (ti_Expanded (transcriptItems s ! i)) (tok_ID tok)
                in s\<lparr>transcriptItems :=
                       update_at i (\<lambda>it. it\<lparr>ti_Expanded := (tok_ID tok, now_open) # ti_Expanded it\<rparr>)
                         (transcriptItems s),
                     status := (if now_open then ''Expanded '' else ''Collapsed '') @ tok_Label tok\<rparr>)
           | TokenKindFile \<Rightarrow>
               s\<lparr>pendingActions := pendingActions s @ [transcriptPreviewAction ref tok],
                 status := ''Loading preview for '' @ tok_Label tok\<rparr>))"

definition previewSelectedTranscriptRef :: "('ta, 'vp) state \<Rightarrow> ('ta, 'vp) state" where
  "previewSelectedTranscriptRef s =
     (case selectedTranscriptToken s of
        None \<Rightarrow> s
      | Some (ref, tok) \<Rightarrow>
          (case tok_Kind tok of
             TokenKindPaste \<Rightarrow>
               s\<lparr>preview := Some \<lparr>pv_Title = tok_Label tok, pv_Content = tok_Payload tok\<rparr>,
                 status := ''Previewing '' @ tok_Label tok\<rparr>
           | TokenKindFile \<Rightarrow>
               s\<lparr>pendingActions := pendingActions s @ [transcriptPreviewAction ref tok],
                 status := ''Loading preview for '' @ tok_Label tok\<rparr>))"

subsection \<open>Pending permissions (permissions.go)\<close>

text \<open>
  \<open>currentPendingPermission\<close> clamps the active index and returns a pointer into the list, here
  the clamped state and the index pointed at.
\<close>

definition currentPendingPermission :: "('ta, 'vp) state \<Rightarrow> ('ta, 'vp) state \<times> nat option" where
  "currentPendingPermission s =
     (if pendingPermissions s = [] then (s, None)
      else (let i = clampIndex (activePermissionIndex s) (pendingPermissions s)
            in (s\<lparr>activePermissionIndex := i\<rparr>, Some (nat i))))"

definition movePermissionAction :: "int \<Rightarrow> ('ta, 'vp) state \<Rightarrow> ('ta, 'vp) state \<times> bool" where
  "movePermissionAction delta s =
     (case currentPendingPermission s of
        (s1, None) \<Rightarrow> (s1, False)
      | (s1, Some i) \<Rightarrow>
          (let clamp = (\<lambda>n::int. if n < 0 then 0 else if n > 2 then 2 else n)
           in (s1\<lparr>pendingPermissions :=
                    update_at i (\<lambda>p. p\<lparr>perm_SelectedAction := clamp (perm_SelectedAction p + delta)\<rparr>)
                      (pendingPermissions s1),
                  status := ''Permission action selected''\<rparr>, True)))"

definition movePendingPermission :: "int \<Rightarrow> ('ta, 'vp) state \<Rightarrow> ('ta, 'vp) state \<times> bool" where
  "movePendingPermission delta s =
     (if length (pendingPermissions s) < 2 then (s, False)
      else (let i = clampIndex (activePermissionIndex s + delta) (pendingPermissions s)
            in (s\<lparr>activePermissionIndex := i,
                  status := ''Pending permission '' @ itoa (i + 1) @ '' of ''
                    @ itoa (int (length (pendingPermissions s)))\<rparr>, True)))"

definition removePendingPermissionByID ::
  "string \<Rightarrow> ('ta, 'vp) state \<Rightarrow> ('ta, 'vp) state \<times> bool" where
  "removePendingPermissionByID pid s =
     (case find_index (\<lambda>p. req_ID (perm_Request p) = pid) (pendingPermissions s) of
        None \<Rightarrow> (s, False)
      | Some i \<Rightarrow>
          (let ps = remove_at i (pendingPermissions s);
               idx = (if ps = [] then 0
                      else if activePermissionIndex s \<ge> int (length ps) then int (length ps) - 1
                      else activePermissionIndex s)
           in (s\<lparr>pendingPermissions := ps, activePermissionIndex := idx\<rparr>, True)))"

definition permissionDecisionFromAction :: "int \<Rightarrow> PermissionDecision" where
  "permissionDecisionFromAction idx =
     (if idx = 0 then DecisionApproveOnce
      else if idx = 1 then DecisionApproveSession else DecisionDeny)"

definition resolveActivePermission ::
  "PermissionDecision \<Rightarrow> ('ta, 'vp) state \<Rightarrow> ('ta, 'vp) state" where
  "resolveActivePermission decision s =
     (case currentPendingPermission s of
        (s1, None) \<Rightarrow> s1
      | (s1, Some i) \<Rightarrow>
          s1\<lparr>pendingActions := pendingActions s1 @
               [ResolvePermissionAction (req_ID (perm_Request (pendingPermissions s1 ! i))) decision],
             status := ''Resolving permission'', statusKind := StatusPermissionPending\<rparr>)"

end
