(* ===== verification/Shell_Queue.thy ===== *)
theory Shell_Queue
  imports Shell_Core
begin

text \<open>
  Queued submissions, their merge, and the submit pipeline behind the Enter key
  (\<open>internal/harnessshell/queue.go\<close>).
\<close>

definition isShellNativeQuitCommand :: "string \<Rightarrow> bool" where
  "isShellNativeQuitCommand content =
     (trim_space content = ''/quit'' \<or> trim_space content = ''/exit'')"

definition isShellNativeSelectCommand :: "string \<Rightarrow> bool" where
  "isShellNativeSelectCommand content = (trim_space content = ''/select'')"

text \<open>A submission identifier and the state with the counter advanced.\<close>

definition submission_id :: "int \<Rightarrow> string" where
  "submission_id n = ''sub-'' @ itoa n"

definition nextSubmissionID :: "('ta, 'vp) state \<Rightarrow> string \<times> ('ta, 'vp) state" where
  "nextSubmissionID s =
     (let n = submissionCounter s + 1 in (submission_id n, s\<lparr>submissionCounter := n\<rparr>))"

definition enqueueSubmission ::
  "string \<Rightarrow> InputToken list \<Rightarrow> ('ta, 'vp) state \<Rightarrow> ('ta, 'vp) state" where
  "enqueueSubmission content tokens s =
     (let entries = (if trim_space content = [] then [] else [content]);
          (sid, s1) = nextSubmissionID s;
          q = queuedSubmissions s1 @
              [\<lparr>qs_ID = sid, qs_Text = content, qs_Tokens = tokens, qs_Entries = entries\<rparr>]
      in s1\<lparr>queuedSubmissions := q,
            status := ''Queued follow-up message ('' @ itoa (int (length q)) @ '' waiting)''\<rparr>)"

text \<open>The three values one queued item contributes to the merge: parts, entries, tokens.\<close>

definition merge_parts :: "QueuedSubmission \<Rightarrow> string list" where
  "merge_parts item = (if trim_space (qs_Text item) \<noteq> [] then [trim_space (qs_Text item)] else [])"

definition merge_entries :: "QueuedSubmission \<Rightarrow> string list" where
  "merge_entries item =
     (if qs_Entries item \<noteq> [] then qs_Entries item
      else if trim_space (qs_Text item) \<noteq> [] then [trim_space (qs_Text item)] else [])"

text \<open>The loop of \<open>mergeQueuedSubmissions\<close>: the accumulators are \<open>parts\<close> and \<open>merged\<close>.\<close>

fun merge_loop ::
  "string list \<Rightarrow> QueuedSubmission \<Rightarrow> QueuedSubmission list \<Rightarrow> string list \<times> QueuedSubmission" where
  "merge_loop parts merged [] = (parts, merged)"
| "merge_loop parts merged (item # items) =
     merge_loop (parts @ merge_parts item)
       (merged\<lparr>qs_Entries := qs_Entries merged @ merge_entries item,
               qs_Tokens := qs_Tokens merged @ qs_Tokens item\<rparr>) items"

definition empty_submission :: QueuedSubmission where
  "empty_submission = \<lparr>qs_ID = [], qs_Text = [], qs_Tokens = [], qs_Entries = []\<rparr>"

definition mergeQueuedSubmissions :: "QueuedSubmission list \<Rightarrow> QueuedSubmission" where
  "mergeQueuedSubmissions items =
     (if items = [] then empty_submission
      else (let (parts, merged) = merge_loop [] empty_submission items
            in merged\<lparr>qs_Text := join [CHR 0x0A, CHR 0x0A] parts\<rparr>))"

definition drainQueueIntoMerged ::
  "('ta, 'vp) state \<Rightarrow> ('ta, 'vp) state \<times> QueuedSubmission option" where
  "drainQueueIntoMerged s =
     (let s1 = (if pendingSubmissions s = [] \<and> queuedSubmissions s \<noteq> []
                then s\<lparr>pendingSubmissions := pendingSubmissions s @ queuedSubmissions s,
                       queuedSubmissions := []\<rparr>
                else s)
      in if pendingSubmissions s1 = [] then (s1, None)
         else (s1\<lparr>pendingSubmissions := []\<rparr>, Some (mergeQueuedSubmissions (pendingSubmissions s1))))"

text \<open>The composer reset that follows every consumed Enter.\<close>

definition resetComposer ::
  "('ta, 'vp) widgets \<Rightarrow> ('ta, 'vp) state \<Rightarrow> ('ta, 'vp) state" where
  "resetComposer W s =
     (let s1 = syncInputHeight W (s\<lparr>input := ta_Reset (textarea W) (input s)\<rparr>)
      in s1\<lparr>inputTokens := [], selectedToken := -1\<rparr>)"

definition user_row ::
  "string \<Rightarrow> string \<Rightarrow> string list \<Rightarrow> InputToken list \<Rightarrow> TranscriptItem" where
  "user_row sid content entries tokens =
     \<lparr>ti_ID = ''msg-user-'' @ sid, ti_Kind = KindMessage, ti_Role = RoleUser,
      ti_Text = trim_space content, ti_Tokens = tokens,
      ti_Expanded = map (\<lambda>t. (tok_ID t, True)) (filter (\<lambda>t. tok_Kind t = TokenKindPaste) tokens),
      ti_Event = None, ti_Streaming = False, ti_Entries = entries,
      ti_SubmissionID = sid, ti_RunID = []\<rparr>"

definition placeholder_row :: "string \<Rightarrow> TranscriptItem" where
  "placeholder_row sid =
     \<lparr>ti_ID = ''msg-assistant-'' @ sid, ti_Kind = KindMessage, ti_Role = RoleAssistant,
      ti_Text = [], ti_Tokens = [], ti_Expanded = [], ti_Event = None, ti_Streaming = True,
      ti_Entries = [], ti_SubmissionID = sid, ti_RunID = []\<rparr>"

definition beginSubmission ::
  "('ta, 'vp) widgets \<Rightarrow> string \<Rightarrow> string list \<Rightarrow> InputToken list \<Rightarrow> SubmissionSource
     \<Rightarrow> ('ta, 'vp) state \<Rightarrow> ('ta, 'vp) state" where
  "beginSubmission W content entries tokens source s =
     (let (sid, s1) = nextSubmissionID s;
          s2 = s1\<lparr>transcriptItems := transcriptItems s1 @
                    [user_row sid content entries tokens, placeholder_row sid]\<rparr>;
          s3 = (resetComposer W s2)\<lparr>status := ''Submitted'', statusKind := StatusStreaming,
                 streaming := True, streamPulse := 0, interruptArmed := False\<rparr>
      in s3\<lparr>pendingActions := pendingActions s3 @
             [SubmitTurnAction \<lparr>sub_ID = sid, sub_Entries = entries,
                sub_Text = trim_space content, sub_Tokens = tokens, sub_Source = source,
                sub_RequestedAt = nowOrDefault s3\<rparr>]\<rparr>)"

definition releaseQueuedSubmission ::
  "('ta, 'vp) widgets \<Rightarrow> ('ta, 'vp) state \<Rightarrow> ('ta, 'vp) state" where
  "releaseQueuedSubmission W s =
     (case drainQueueIntoMerged s of
        (s1, None) \<Rightarrow> s1
      | (s1, Some merged) \<Rightarrow>
          beginSubmission W (qs_Text merged) (qs_Entries merged) (qs_Tokens merged)
            SourceQueueRelease s1)"

text \<open>The name and the arguments of a slash command without its slash.\<close>

definition splitCommand :: "string \<Rightarrow> string \<times> string" where
  "splitCommand trimmed =
     (case index_any trimmed [CHR '' '', CHR 0x09] of
        None \<Rightarrow> (trimmed, [])
      | Some idx \<Rightarrow> (take idx trimmed, trim_space (drop (idx + 1) trimmed)))"

definition dispatchHostCommand ::
  "('ta, 'vp) widgets \<Rightarrow> string \<Rightarrow> ('ta, 'vp) state \<Rightarrow> ('ta, 'vp) state" where
  "dispatchHostCommand W content s =
     (let (name, args) = splitCommand (trim_prefix content ''/'');
          s1 = (resetComposer W s)\<lparr>status := ''Running /'' @ name, statusKind := StatusReady\<rparr>
      in s1\<lparr>pendingActions := pendingActions s1 @
             [RunHostCommandAction \<lparr>cmd_Name = name, cmd_Args = args, cmd_Raw = content\<rparr>]\<rparr>)"

definition isSlashCommand :: "string \<Rightarrow> InputToken list \<Rightarrow> bool" where
  "isSlashCommand content tokens = (has_prefix content ''/'' \<and> length content > 1 \<and> tokens = [])"

definition emitSubmitOnEnter ::
  "('ta, 'vp) widgets \<Rightarrow> ('ta, 'vp) state \<Rightarrow> ('ta, 'vp) state \<times> bool" where
  "emitSubmitOnEnter W s =
     (let content = trim_space (ta_Value (textarea W) (input s)) in
      if content = [] \<and> inputTokens s = [] then
        (case currentPendingPermission s of
           (s1, Some i) \<Rightarrow>
             (resolveActivePermission
                (permissionDecisionFromAction
                   (perm_SelectedAction (pendingPermissions s1 ! nat (activePermissionIndex s1)))) s1,
              True)
         | (s1, None) \<Rightarrow>
             if \<not> streaming s1 \<and> (queuedSubmissions s1 \<noteq> [] \<or> pendingSubmissions s1 \<noteq> []) then
               (releaseQueuedSubmission W
                  (s1\<lparr>status := ''Releasing queued follow-up'', statusKind := StatusReady\<rparr>), True)
             else (s1, False))
      else
        (let s1 = pushHistory content s in
         if isSlashCommand content (inputTokens s1) then (dispatchHostCommand W content s1, True)
         else if streaming s1 \<or> queuedSubmissions s1 \<noteq> [] \<or> pendingSubmissions s1 \<noteq> [] then
           (let s2 = resetComposer W (enqueueSubmission content (inputTokens s1) s1)
            in (if \<not> streaming s2 then releaseQueuedSubmission W s2 else s2, True))
         else (beginSubmission W content [] (inputTokens s1) SourceDirect s1, True)))"

subsection \<open>The merge keeps order\<close>

lemma merge_loop_eq:
  "merge_loop parts merged items =
     (parts @ concat (map merge_parts items),
      merged\<lparr>qs_Entries := qs_Entries merged @ concat (map merge_entries items),
             qs_Tokens := qs_Tokens merged @ concat (map qs_Tokens items)\<rparr>)"
  by (induction items arbitrary: parts merged) simp_all

lemma mergeQueuedSubmissions_eq:
  "mergeQueuedSubmissions items =
     \<lparr>qs_ID = [], qs_Text = join [CHR 0x0A, CHR 0x0A] (concat (map merge_parts items)),
      qs_Tokens = concat (map qs_Tokens items),
      qs_Entries = concat (map merge_entries items)\<rparr>"
  by (simp add: mergeQueuedSubmissions_def merge_loop_eq empty_submission_def)

lemma submission_id_inj: "0 \<le> i \<Longrightarrow> 0 \<le> j \<Longrightarrow> submission_id i = submission_id j \<Longrightarrow> i = j"
  by (simp add: submission_id_def itoa_inj_nonneg)

lemma submission_id_nonempty [simp]: "submission_id i \<noteq> []"
  by (simp add: submission_id_def)

end
