(* ===== verification/Shell_Events.thy ===== *)
theory Shell_Events
  imports Shell_Queue
begin

text \<open>Host-event intake (\<open>internal/harnessshell/events.go\<close>): one function per event.\<close>

subsection \<open>Finding and editing rows\<close>

definition assistantRowIndexForRun :: "string \<Rightarrow> ('ta, 'vp) state \<Rightarrow> nat option" where
  "assistantRowIndexForRun runID s =
     (if runID \<noteq> [] then
        (case find_index (\<lambda>it. ti_Role it = RoleAssistant \<and> ti_RunID it = runID \<and> ti_Streaming it)
                (transcriptItems s) of
           Some i \<Rightarrow> Some i
         | None \<Rightarrow>
             find_last_index (\<lambda>it. ti_Role it = RoleAssistant \<and> ti_Streaming it \<and> ti_RunID it = [])
               (transcriptItems s))
      else find_last_index (\<lambda>it. ti_Role it = RoleAssistant \<and> ti_Streaming it) (transcriptItems s))"

definition assignRunIDToPlaceholder ::
  "string \<Rightarrow> string \<Rightarrow> ('ta, 'vp) state \<Rightarrow> ('ta, 'vp) state" where
  "assignRunIDToPlaceholder submissionID runID s =
     (if submissionID = [] then s
      else (case find_index (\<lambda>it. ti_Role it = RoleAssistant \<and> ti_SubmissionID it = submissionID)
                   (transcriptItems s) of
              None \<Rightarrow> s
            | Some i \<Rightarrow> s\<lparr>transcriptItems :=
                update_at i (\<lambda>it. it\<lparr>ti_RunID := runID\<rparr>) (transcriptItems s)\<rparr>))"

definition removePlaceholderForSubmission ::
  "string \<Rightarrow> ('ta, 'vp) state \<Rightarrow> ('ta, 'vp) state" where
  "removePlaceholderForSubmission submissionID s =
     (if submissionID = [] then s
      else s\<lparr>transcriptItems :=
               filter (\<lambda>it. ti_SubmissionID it \<noteq> submissionID) (transcriptItems s)\<rparr>)"

subsection \<open>The handlers\<close>

definition applyTranscriptClear :: "('ta, 'vp) state \<Rightarrow> ('ta, 'vp) state" where
  "applyTranscriptClear s =
     s\<lparr>transcriptItems := [], transcriptRefs := [], selectedTranscriptRef := -1,
       queuedSubmissions := [], pendingSubmissions := []\<rparr>"

definition applyPreviewLoaded ::
  "PreviewTarget \<Rightarrow> PreviewPayload \<Rightarrow> ('ta, 'vp) state \<Rightarrow> ('ta, 'vp) state" where
  "applyPreviewLoaded target payload s =
     (let t = (if pp_Title payload = [] then pt_TokenID target else pp_Title payload)
      in s\<lparr>preview := Some \<lparr>pv_Title = t, pv_Content = pp_Content payload\<rparr>,
           status := ''Preview loaded''\<rparr>)"

definition applyHostStatus ::
  "string \<Rightarrow> StatusKind option \<Rightarrow> ('ta, 'vp) state \<Rightarrow> ('ta, 'vp) state" where
  "applyHostStatus st kind s =
     (let s1 = (if st \<noteq> [] then s\<lparr>status := st\<rparr> else s)
      in case kind of None \<Rightarrow> s1 | Some k \<Rightarrow> s1\<lparr>statusKind := k\<rparr>)"

definition applyHostInfo :: "string \<Rightarrow> ('ta, 'vp) state \<Rightarrow> ('ta, 'vp) state" where
  "applyHostInfo txt s =
     (if txt = [] then s
      else s\<lparr>transcriptItems := transcriptItems s @
        [\<lparr>ti_ID = [], ti_Kind = KindHostInfo, ti_Role = RoleHostInfo, ti_Text = txt,
          ti_Tokens = [], ti_Expanded = [], ti_Event = None, ti_Streaming = False,
          ti_Entries = [], ti_SubmissionID = [], ti_RunID = []\<rparr>]\<rparr>)"

definition applyPermissionRequested ::
  "PermissionRequest \<Rightarrow> ('ta, 'vp) state \<Rightarrow> ('ta, 'vp) state" where
  "applyPermissionRequested req s =
     (if req_ID req = [] then s
      else
        (let tid = ''perm-'' @ req_ID req;
             row = \<lparr>ti_ID = tid, ti_Kind = KindEvent, ti_Role = RoleEvent,
                    ti_Text = req_Summary req, ti_Tokens = [], ti_Expanded = [],
                    ti_Event = Some \<lparr>ev_Status = ''requested'', ev_RequestID = req_ID req\<rparr>,
                    ti_Streaming = False, ti_Entries = [], ti_SubmissionID = [], ti_RunID = []\<rparr>;
             ps = pendingPermissions s @
                  [\<lparr>perm_Request = req, perm_TranscriptID = tid, perm_SelectedAction = 0\<rparr>]
         in s\<lparr>transcriptItems := transcriptItems s @ [row], pendingPermissions := ps,
              activePermissionIndex := int (length ps) - 1,
              statusKind := StatusPermissionPending,
              status := (if pol_SessionApproved (req_SessionPolicyState req)
                         then ''Permission required (session policy active)''
                         else ''Permission required'')\<rparr>))"

definition transcriptStatusForOutcome :: "PermissionOutcome \<Rightarrow> string" where
  "transcriptStatusForOutcome out =
     (case out of
        OutcomeApprovedOnce \<Rightarrow> ''granted''
      | OutcomeApprovedSession \<Rightarrow> ''granted''
      | OutcomeDenied \<Rightarrow> ''denied''
      | OtherOutcome x \<Rightarrow> ''done'')"

definition isEventRowFor :: "string \<Rightarrow> TranscriptItem \<Rightarrow> bool" where
  "isEventRowFor rid it = (case ti_Event it of None \<Rightarrow> False | Some e \<Rightarrow> ev_RequestID e = rid)"

definition setEventStatus :: "string \<Rightarrow> TranscriptItem \<Rightarrow> TranscriptItem" where
  "setEventStatus st it = it\<lparr>ti_Event := map_option (\<lambda>e. e\<lparr>ev_Status := st\<rparr>) (ti_Event it)\<rparr>"

definition applyPermissionResolved ::
  "string \<Rightarrow> PermissionOutcome \<Rightarrow> string \<Rightarrow> ('ta, 'vp) state \<Rightarrow> ('ta, 'vp) state" where
  "applyPermissionResolved rid out msg s =
     (if rid = [] then s
      else
        (let s1 = (case find_index (isEventRowFor rid) (transcriptItems s) of
                     None \<Rightarrow> s
                   | Some i \<Rightarrow> s\<lparr>transcriptItems :=
                       update_at i (setEventStatus (transcriptStatusForOutcome out))
                         (transcriptItems s)\<rparr>);
             (s2, removed) = removePendingPermissionByID rid s1
         in if pendingPermissions s2 = [] then
              (if streaming s2 then s2\<lparr>statusKind := StatusStreaming, status := ''Resuming run''\<rparr>
               else s2\<lparr>statusKind := StatusReady,
                       status := (if msg \<noteq> [] then msg else ''Permission resolved'')\<rparr>)
            else s2\<lparr>statusKind := StatusPermissionPending,
                    status := ''Permission resolved; more pending''\<rparr>))"

definition applySubmissionAccepted ::
  "string \<Rightarrow> string \<Rightarrow> ('ta, 'vp) state \<Rightarrow> ('ta, 'vp) state" where
  "applySubmissionAccepted submissionID runID s =
     (if runID = [] then s
      else assignRunIDToPlaceholder submissionID runID (s\<lparr>activeRunID := runID\<rparr>))"

definition applySubmissionFailed ::
  "string \<Rightarrow> string \<Rightarrow> ('ta, 'vp) state \<Rightarrow> ('ta, 'vp) state" where
  "applySubmissionFailed submissionID msg s =
     (removePlaceholderForSubmission submissionID s)\<lparr>streaming := False, streamPulse := 0,
       interruptArmed := False, activeRunID := [], statusKind := StatusError,
       status := (if msg \<noteq> [] then ''Submission failed: '' @ msg else ''Submission failed'')\<rparr>"

definition replay_row :: "string \<Rightarrow> TranscriptItem" where
  "replay_row runID =
     \<lparr>ti_ID = ''run-'' @ runID, ti_Kind = KindMessage, ti_Role = RoleAssistant, ti_Text = [],
      ti_Tokens = [], ti_Expanded = [], ti_Event = None, ti_Streaming = True, ti_Entries = [],
      ti_SubmissionID = [], ti_RunID = runID\<rparr>"

text \<open>The clock of the run: started once, with one tick scheduled.\<close>

definition startRunClock :: "('ta, 'vp) state \<Rightarrow> ('ta, 'vp) state" where
  "startRunClock s =
     (if runStartedAt s = 0 then
        (let s1 = s\<lparr>runStartedAt := nowOrDefault s\<rparr>
         in case streamTick s1 of
              Some (Some c) \<Rightarrow> s1\<lparr>pendingCmds := pendingCmds s1 @ [TickCmd c]\<rparr>
            | _ \<Rightarrow> s1)
      else s)"

definition correlateRun ::
  "string \<Rightarrow> string \<Rightarrow> ('ta, 'vp) state \<Rightarrow> ('ta, 'vp) state" where
  "correlateRun submissionID runID s =
     (if runID = [] then s
      else (let s1 = s\<lparr>activeRunID := runID\<rparr> in
            if submissionID \<noteq> [] then assignRunIDToPlaceholder submissionID runID s1
            else if assistantRowIndexForRun runID s1 = None
            then s1\<lparr>transcriptItems := transcriptItems s1 @ [replay_row runID]\<rparr>
            else s1))"

definition applyRunStarted ::
  "string \<Rightarrow> string \<Rightarrow> string \<Rightarrow> ('ta, 'vp) state \<Rightarrow> ('ta, 'vp) state" where
  "applyRunStarted submissionID runID lbl s =
     (let s1 = (startRunClock s)\<lparr>streaming := True, statusKind := StatusStreaming\<rparr>;
          s2 = correlateRun submissionID runID s1;
          s3 = (if lbl \<noteq> [] then s2\<lparr>label := lbl\<rparr> else s2)
      in if status s3 = [] then s3\<lparr>status := ''Streaming response''\<rparr> else s3)"

definition applyRunDelta :: "string \<Rightarrow> string \<Rightarrow> ('ta, 'vp) state \<Rightarrow> ('ta, 'vp) state" where
  "applyRunDelta runID delta s =
     (if delta = [] then s
      else (case assistantRowIndexForRun runID s of
              None \<Rightarrow> s
            | Some i \<Rightarrow> s\<lparr>transcriptItems :=
                update_at i (\<lambda>it. it\<lparr>ti_Text := ti_Text it @ delta, ti_Streaming := True\<rparr>)
                  (transcriptItems s)\<rparr>))"

text \<open>What the three terminal run events share: the row stops streaming, the chrome is cleared.\<close>

definition endRun :: "string \<Rightarrow> ('ta, 'vp) state \<Rightarrow> ('ta, 'vp) state" where
  "endRun runID s =
     (let s1 = (case assistantRowIndexForRun runID s of
                  None \<Rightarrow> s
                | Some i \<Rightarrow> s\<lparr>transcriptItems :=
                    update_at i (\<lambda>it. it\<lparr>ti_Streaming := False\<rparr>) (transcriptItems s)\<rparr>)
      in s1\<lparr>streaming := False, streamPulse := 0, interruptArmed := False, activeRunID := [],
            runStartedAt := 0\<rparr>)"

definition applyRunCompleted ::
  "('ta, 'vp) widgets \<Rightarrow> string \<Rightarrow> ('ta, 'vp) state \<Rightarrow> ('ta, 'vp) state" where
  "applyRunCompleted W runID s =
     (let s1 = (endRun runID s)\<lparr>statusKind := StatusReady, status := ''Done''\<rparr>
      in if queuedSubmissions s1 \<noteq> [] \<or> pendingSubmissions s1 \<noteq> []
         then releaseQueuedSubmission W s1 else s1)"

definition applyRunStopped ::
  "string \<Rightarrow> StopReason \<Rightarrow> string \<Rightarrow> ('ta, 'vp) state \<Rightarrow> ('ta, 'vp) state" where
  "applyRunStopped runID reason msg s =
     (endRun runID s)\<lparr>statusKind := StatusReady,
       status := (if msg \<noteq> [] then msg
                  else if reason = StopReasonInterrupt then ''Interrupted'' else ''Stopped'')\<rparr>"

definition applyRunFailed :: "string \<Rightarrow> string \<Rightarrow> ('ta, 'vp) state \<Rightarrow> ('ta, 'vp) state" where
  "applyRunFailed runID msg s =
     (endRun runID s)\<lparr>statusKind := StatusError,
       status := (if msg \<noteq> [] then ''Run failed: '' @ msg else ''Run failed'')\<rparr>"

definition applyHostEvent ::
  "('ta, 'vp) widgets \<Rightarrow> HostEvent \<Rightarrow> ('ta, 'vp) state \<Rightarrow> ('ta, 'vp) state" where
  "applyHostEvent W evt s =
     (case evt of
        SubmissionAcceptedEvent sid rid \<Rightarrow> applySubmissionAccepted sid rid s
      | SubmissionFailedEvent sid msg \<Rightarrow> applySubmissionFailed sid msg s
      | RunStartedEvent sid rid lbl \<Rightarrow> applyRunStarted sid rid lbl s
      | RunDeltaEvent rid d \<Rightarrow> applyRunDelta rid d s
      | RunCompletedEvent rid \<Rightarrow> applyRunCompleted W rid s
      | RunStoppedEvent rid reason msg \<Rightarrow> applyRunStopped rid reason msg s
      | RunFailedEvent rid msg \<Rightarrow> applyRunFailed rid msg s
      | PermissionRequestedEvent req \<Rightarrow> applyPermissionRequested req s
      | PermissionResolvedEvent rid out msg \<Rightarrow> applyPermissionResolved rid out msg s
      | PreviewLoadedEvent target payload \<Rightarrow> applyPreviewLoaded target payload s
      | HostStatusEvent st kind \<Rightarrow> applyHostStatus st kind s
      | HostInfoEvent txt \<Rightarrow> applyHostInfo txt s
      | TranscriptClearEvent \<Rightarrow> applyTranscriptClear s)"

end
