(* ===== verification/Shell_Render.thy ===== *)
theory Shell_Render
  imports Shell_Events
begin

text \<open>
  The conversation surface (\<open>internal/harnessshell/render.go\<close>) and the projection of the shell
  state into it (\<open>model.go\<close>, \<open>toRenderInput\<close> and its helpers).  The \<open>lipgloss\<close> library is the
  parameter \<open>L\<close>: a style applied at an optional width, the width of a rendered string, and the
  joins.  A style is named by its variable of \<open>styles.go\<close>.
\<close>

datatype Style =
    splashBoxStyle | splashMarkStyle | splashTitleStyle | splashSubtitleStyle
  | composerBoxStyle | footerStatusStyle | footerHintStyle
  | dialogBoxStyle | dialogTitleStyle | dialogHintStyle | dialogDividerStyle | keycapStyle
  | previewBodyStyle
  | systemStyle | hostInfoStyle
  | chromeStatusReadyStyle | chromeStatusStreamingStyle | chromeStatusErrorStyle
  | chromeStatusPermissionStyle | chromeStatusInterruptStyle
  | userBodyStyle | queuedLabelStyle | queuedBodyStyle
  | eventInfoStyle | eventRequestedStyle | eventPermissionStyle | eventRunningStyle
  | eventDoneStyle | eventGrantedStyle | eventDeniedStyle
  | permissionActionsStyle | permissionPromptStyle | permissionDetailsStyle
  | permissionLabelStyle | permissionMetaStyle | permissionGrantedMetaStyle
  | permissionActionStyle | permissionActionActiveStyle
  | assistantLabelStyle | assistantBodyStyle
  | tokenStyle | tokenActiveStyle | tokenHintStyle
  | transcriptTokenStyle | transcriptTokenActiveStyle | transcriptTokenBlockStyle
  | transcriptMetaStyle

record lipgloss =
  lg_Render :: "Style \<Rightarrow> int option \<Rightarrow> string \<Rightarrow> string"
  lg_Width :: "string \<Rightarrow> int"
  lg_JoinVerticalLeft :: "string list \<Rightarrow> string"
  lg_JoinHorizontalTop :: "string list \<Rightarrow> string"
  lg_JoinHorizontalLeft :: "string list \<Rightarrow> string"

subsection \<open>The renderer's input\<close>

record RenderToken =
  rt_ID :: string
  rt_Kind :: string
  rt_Label :: string
  rt_Payload :: string

text \<open>The field \<open>Expanded\<close>, a \<open>map[int]bool\<close>, is an association list; the nil map is \<open>[]\<close>.\<close>

record RenderMessage =
  rm_Role :: string
  rm_Content :: string
  rm_Streaming :: bool
  rm_Tokens :: "RenderToken list"
  rm_Expanded :: "(nat \<times> bool) list"
  rm_Entries :: "string list"
  rm_EventState :: string

record RenderQueued =
  rq_Content :: string
  rq_Tokens :: "RenderToken list"
  rq_Entries :: "string list"

record RenderPendingPermission =
  rp_ToolLabel :: string
  rp_ToolTarget :: string
  rp_ToolSummary :: string
  rp_SelectedAction :: int
  rp_SessionPolicyOn :: bool
  rp_PendingTotal :: int
  rp_ActiveIndex :: int

datatype RenderFocus = RenderFocusInput | RenderFocusTranscript | RenderFocusSidebar

record RenderInput =
  ri_Width :: int
  ri_Title :: string
  ri_ModelLabel :: string
  ri_Messages :: "RenderMessage list"
  ri_Queued :: "RenderQueued list"
  ri_InputView :: string
  ri_InputTokens :: "RenderToken list"
  ri_SelectedToken :: int
  ri_SelectedTranscriptRef :: int
  ri_Focus :: RenderFocus
  ri_Streaming :: bool
  ri_StreamPulse :: int
  ri_InterruptArmed :: bool
  ri_PendingPermission :: "RenderPendingPermission option"
  ri_PermissionComposerActive :: bool
  ri_QueuedCount :: int
  ri_AgentCount :: int
  ri_Status :: string
  ri_StatusKind :: StatusKind

record RenderResult =
  rr_Content :: string
  rr_TranscriptRefs :: "TranscriptRef list"

subsection \<open>Text fragments\<close>

definition NL :: string where "NL = [CHR 0x0A]"

definition bar :: string where
  "bar = [CHR 0xE2, CHR 0x96, CHR 0x8E, CHR '' '']"

definition bullet :: string where
  "bullet = [CHR 0xE2, CHR 0x80, CHR 0xA2]"

definition hline :: string where
  "hline = [CHR 0xE2, CHR 0x94, CHR 0x80]"

definition repeat_str :: "string \<Rightarrow> int \<Rightarrow> string" where
  "repeat_str x n = concat (replicate (nat n) x)"

definition minInt :: "int \<Rightarrow> int \<Rightarrow> int" where
  "minInt a b = (if a < b then a else b)"

definition statusDot :: "bool \<Rightarrow> int \<Rightarrow> bool \<Rightarrow> string" where
  "statusDot strm pulse armed =
     (if strm then (if armed then ''press Esc again to interrupt''
                    else ''working'' @ repeat_str ''.'' pulse)
      else ''done'')"

definition SummarizePasteToken :: "string \<Rightarrow> string" where
  "SummarizePasteToken payload =
     (let lines = split_on (CHR 0x0A) (trim_space payload) in
      if lines = [] \<or> hd lines = [] then ''empty paste''
      else (let summaryLines = minInt (int (length lines)) 3;
                prev = join '' / '' (take (nat summaryLines) lines)
            in if int (length lines) > summaryLines
               then itoa (int (length lines)) @ '' lines: '' @ prev @ '' ...''
               else itoa (int (length lines)) @ '' lines: '' @ prev))"

definition SummarizeQueuedToken :: "RenderToken \<Rightarrow> string" where
  "SummarizeQueuedToken tok =
     (if rt_Kind tok = ''paste'' then SummarizePasteToken (rt_Payload tok)
      else if rt_Kind tok = ''file'' then rt_Payload tok else rt_Label tok)"

subsection \<open>Rows\<close>

definition renderChromeStatus :: "lipgloss \<Rightarrow> RenderInput \<Rightarrow> int \<Rightarrow> string" where
  "renderChromeStatus L inp w =
     (if ri_Status inp = [] then []
      else lg_Render L
             (case ri_StatusKind inp of
                StatusStreaming \<Rightarrow> chromeStatusStreamingStyle
              | StatusError \<Rightarrow> chromeStatusErrorStyle
              | StatusPermissionPending \<Rightarrow> chromeStatusPermissionStyle
              | StatusInterruptArmed \<Rightarrow> chromeStatusInterruptStyle
              | StatusReady \<Rightarrow> chromeStatusReadyStyle) (Some w) (ri_Status inp))"

definition renderWelcomeBlock :: "lipgloss \<Rightarrow> RenderInput \<Rightarrow> int \<Rightarrow> string" where
  "renderWelcomeBlock L inp w =
     (let ttl = (if ri_Title inp = [] then ''modeltap'' else ri_Title inp);
          subtitle = (if ri_ModelLabel inp \<noteq> [] then ''Conversation shell  |  '' @ ri_ModelLabel inp
                      else ''Conversation shell'');
          logomark = lg_Render L splashMarkStyle None ''mt'';
          wordmark = lg_JoinVerticalLeft L
            [lg_Render L splashTitleStyle None ttl, lg_Render L splashSubtitleStyle None subtitle]
      in lg_Render L splashBoxStyle (Some w)
           (lg_JoinHorizontalTop L [logomark, ''  '', wordmark]))"

definition renderTranscriptToken ::
  "lipgloss \<Rightarrow> RenderMessage \<Rightarrow> nat \<Rightarrow> RenderToken \<Rightarrow> bool \<Rightarrow> string" where
  "renderTranscriptToken L msg i tok selected =
     (let style = (if selected then transcriptTokenActiveStyle else transcriptTokenStyle);
          meta = (if rt_Kind tok = ''paste'' then
                    (if map_of (rm_Expanded msg) i = Some True
                     then [lg_Render L transcriptMetaStyle None (rt_Payload tok)]
                     else [lg_Render L transcriptMetaStyle None (SummarizePasteToken (rt_Payload tok))])
                  else if rt_Kind tok = ''file''
                  then [lg_Render L transcriptMetaStyle None (rt_Payload tok)] else [])
      in lg_Render L transcriptTokenBlockStyle None
           (join NL (lg_Render L style None (rt_Label tok) # meta)))"

text \<open>
  The loop over a user row's tokens: the block written so far and the references collected so
  far, each token at its index.
\<close>

fun renderUserTokens ::
  "lipgloss \<Rightarrow> RenderInput \<Rightarrow> nat \<Rightarrow> RenderMessage \<Rightarrow> nat \<Rightarrow> RenderToken list
     \<Rightarrow> string \<Rightarrow> TranscriptRef list \<Rightarrow> string \<times> TranscriptRef list" where
  "renderUserTokens L inp mi msg ti [] block refs = (block, refs)"
| "renderUserTokens L inp mi msg ti (tok # toks) block refs =
     (let block1 = (if block \<noteq> [] then block @ NL @ NL else block);
          refs1 = refs @ [\<lparr>ref_MessageIndex = int mi, ref_TokenIndex = int ti\<rparr>];
          selected = (int (length refs1) - 1 = ri_SelectedTranscriptRef inp
                      \<and> ri_Focus inp = RenderFocusTranscript)
      in renderUserTokens L inp mi msg (Suc ti) toks
           (block1 @ renderTranscriptToken L msg ti tok selected) refs1)"

definition renderUserRow ::
  "lipgloss \<Rightarrow> RenderInput \<Rightarrow> nat \<Rightarrow> RenderMessage \<Rightarrow> TranscriptRef list \<Rightarrow> int
     \<Rightarrow> string \<times> TranscriptRef list" where
  "renderUserRow L inp mi msg refs w =
     (let head = (if rm_Entries msg \<noteq> []
                  then join (NL @ NL) (map (\<lambda>e. bar @ e) (rm_Entries msg))
                  else if rm_Content msg \<noteq> [] then bar @ rm_Content msg else []);
          (block, refs1) = renderUserTokens L inp mi msg 0 (rm_Tokens msg) head refs
      in (lg_Render L userBodyStyle (Some w) block, refs1))"

definition renderAssistantRow :: "lipgloss \<Rightarrow> RenderInput \<Rightarrow> RenderMessage \<Rightarrow> int \<Rightarrow> string" where
  "renderAssistantRow L inp msg w =
     lg_Render L assistantLabelStyle (Some w)
       (ri_ModelLabel inp @ ''  ''
         @ statusDot (rm_Streaming msg) (ri_StreamPulse inp) (ri_InterruptArmed inp))
     @ NL @ lg_Render L assistantBodyStyle (Some w) (rm_Content msg)"

definition renderHostInfoRow :: "lipgloss \<Rightarrow> RenderMessage \<Rightarrow> int \<Rightarrow> string" where
  "renderHostInfoRow L msg w = lg_Render L hostInfoStyle (Some w) (rm_Content msg)"

definition renderEventRow :: "lipgloss \<Rightarrow> RenderMessage \<Rightarrow> int \<Rightarrow> string" where
  "renderEventRow L msg w =
     (let st = rm_EventState msg;
          style = (if st = ''requested'' then eventRequestedStyle
                   else if st = ''permission'' then eventPermissionStyle
                   else if st = ''running'' then eventRunningStyle
                   else if st = ''done'' then eventDoneStyle
                   else if st = ''granted'' then eventGrantedStyle
                   else if st = ''denied'' then eventDeniedStyle else eventInfoStyle)
      in lg_Render L style (Some w) (rm_Content msg))"

fun renderQueuedTokens :: "lipgloss \<Rightarrow> RenderToken list \<Rightarrow> string \<Rightarrow> string" where
  "renderQueuedTokens L [] block = block"
| "renderQueuedTokens L (tok # toks) block =
     renderQueuedTokens L toks
       ((if block \<noteq> [] then block @ NL @ NL else block)
        @ lg_Render L transcriptTokenBlockStyle None
            (join NL [lg_Render L transcriptTokenStyle None (rt_Label tok),
                      lg_Render L transcriptMetaStyle None (SummarizeQueuedToken tok)]))"

definition renderQueuedRow :: "lipgloss \<Rightarrow> RenderQueued \<Rightarrow> string" where
  "renderQueuedRow L q =
     (let lbl = lg_Render L queuedLabelStyle None ''queued'';
          body = (if rq_Entries q \<noteq> []
                  then NL @ join (NL @ NL) (map (\<lambda>e. bar @ e) (rq_Entries q))
                  else if rq_Content q \<noteq> [] then NL @ bar @ rq_Content q else [])
      in lg_Render L queuedBodyStyle None (renderQueuedTokens L (rq_Tokens q) (lbl @ body)))"

subsection \<open>The composer\<close>

definition renderPermissionAction :: "lipgloss \<Rightarrow> string \<Rightarrow> bool \<Rightarrow> string" where
  "renderPermissionAction L lbl active =
     (if active then lg_Render L permissionActionActiveStyle None lbl
      else lg_Render L permissionActionStyle None lbl)"

definition renderPermissionActions ::
  "lipgloss \<Rightarrow> RenderPendingPermission option \<Rightarrow> bool \<Rightarrow> string" where
  "renderPermissionActions L p composerFocused =
     (case p of None \<Rightarrow> []
      | Some q \<Rightarrow> lg_Render L permissionActionsStyle None (join '' ''
          [renderPermissionAction L ''Approve once'' (composerFocused \<and> rp_SelectedAction q = 0),
           renderPermissionAction L ''Allow for session'' (composerFocused \<and> rp_SelectedAction q = 1),
           renderPermissionAction L ''Deny'' (composerFocused \<and> rp_SelectedAction q = 2)]))"

definition renderPermissionDetails :: "lipgloss \<Rightarrow> RenderPendingPermission option \<Rightarrow> string" where
  "renderPermissionDetails L p =
     (case p of None \<Rightarrow> []
      | Some q \<Rightarrow>
          (let lines =
             [lg_Render L permissionLabelStyle None (rp_ToolLabel q),
              lg_Render L permissionMetaStyle None (''target  '' @ rp_ToolTarget q),
              lg_Render L permissionMetaStyle None (rp_ToolSummary q)]
             @ (if rp_PendingTotal q > 1
                then [lg_Render L permissionMetaStyle None
                        (''pending  '' @ itoa (rp_ActiveIndex q + 1) @ '' of ''
                          @ itoa (rp_PendingTotal q))] else [])
             @ (if rp_SessionPolicyOn q
                then [lg_Render L permissionGrantedMetaStyle None
                        ''session policy active for this tool''] else [])
           in lg_Render L permissionDetailsStyle None (join NL lines)))"

fun renderComposerTokens :: "lipgloss \<Rightarrow> int \<Rightarrow> int \<Rightarrow> RenderToken list \<Rightarrow> string" where
  "renderComposerTokens L sel i [] = []"
| "renderComposerTokens L sel i (tok # toks) =
     lg_Render L (if i = sel then tokenActiveStyle else tokenStyle) None (rt_Label tok)
     @ '' '' @ renderComposerTokens L sel (i + 1) toks"

definition renderInputSurface :: "lipgloss \<Rightarrow> RenderInput \<Rightarrow> string" where
  "renderInputSurface L inp =
     (case ri_PendingPermission inp of None \<Rightarrow> []
      | Some p \<Rightarrow>
          lg_Render L permissionPromptStyle None ''Permission required'' @ NL
          @ renderPermissionDetails L (Some p) @ NL
          @ renderPermissionActions L (Some p) (ri_PermissionComposerActive inp) @ NL
          @ lg_Render L permissionMetaStyle None
              (''Left/Right select  Enter apply''
               @ (if rp_PendingTotal p > 1 then ''  Up/Down change request'' else []))
          @ NL @ NL)
     @ (if ri_InputTokens inp = [] then []
        else renderComposerTokens L (ri_SelectedToken inp) 0 (ri_InputTokens inp) @ NL
             @ lg_Render L tokenHintStyle None
                 (''Ctrl+P/Ctrl+N select token '' @ bullet @ '' Ctrl+O preview token'') @ NL)
     @ ri_InputView inp"

definition renderFooter :: "lipgloss \<Rightarrow> RenderInput \<Rightarrow> int \<Rightarrow> string" where
  "renderFooter L inp w =
     (let labelParts =
            (if ri_AgentCount inp = 1 then [''1 background agent running'']
             else if ri_AgentCount inp > 1
             then [itoa (ri_AgentCount inp) @ '' background agents running''] else [])
            @ (if ri_Focus inp = RenderFocusTranscript
               then [''scroll: wheel/arrows  items: j/k  open: Enter''] else [])
            @ (if ri_QueuedCount inp > 0 then [itoa (ri_QueuedCount inp) @ '' queued''] else []);
          left = lg_Render L footerStatusStyle None (join ''  |  '' labelParts);
          right = lg_Render L footerHintStyle None ''PgUp/Dn scroll  Tab focus  Enter submit'';
          space = w - lg_Width L left - lg_Width L right - 4
      in lg_JoinHorizontalLeft L
           [left, repeat_str '' '' (if space < 1 then 1 else space), right])"

definition renderComposerSurface :: "lipgloss \<Rightarrow> RenderInput \<Rightarrow> string" where
  "renderComposerSurface L inp =
     lg_Render L composerBoxStyle None
       (renderInputSurface L inp @ NL @ NL @ renderFooter L inp (ri_Width inp))"

definition RenderPreview :: "lipgloss \<Rightarrow> string \<Rightarrow> string \<Rightarrow> string" where
  "RenderPreview L ttl content =
     lg_Render L dialogBoxStyle None
       (lg_Render L dialogTitleStyle None ttl @ NL
        @ lg_Render L dialogDividerStyle None (repeat_str hline 42) @ NL
        @ lg_Render L previewBodyStyle None content @ NL @ NL
        @ lg_Render L dialogHintStyle None
            (lg_JoinHorizontalLeft L
               [lg_Render L keycapStyle None ''Esc'', '' '',
                lg_Render L dialogHintStyle None ''close'']))"

subsection \<open>The whole surface\<close>

text \<open>The loop over the messages: the text written and the references collected so far.\<close>

fun renderMessages ::
  "lipgloss \<Rightarrow> RenderInput \<Rightarrow> int \<Rightarrow> nat \<Rightarrow> RenderMessage list \<Rightarrow> string \<Rightarrow> TranscriptRef list
     \<Rightarrow> string \<times> TranscriptRef list" where
  "renderMessages L inp w i [] b refs = (b, refs)"
| "renderMessages L inp w i (msg # msgs) b refs =
     (let b1 = (if i > 0 then b @ NL @ NL else b);
          (row, refs1) =
            (if rm_Role msg = ''system''
             then (lg_Render L systemStyle (Some w) (rm_Content msg), refs)
             else if rm_Role msg = ''user'' then renderUserRow L inp i msg refs w
             else if rm_Role msg = ''event'' then (renderEventRow L msg w, refs)
             else if rm_Role msg = ''assistant'' then (renderAssistantRow L inp msg w, refs)
             else if rm_Role msg = ''host_info'' then (renderHostInfoRow L msg w, refs)
             else ([], refs))
      in renderMessages L inp w (Suc i) msgs (b1 @ row) refs1)"

fun renderQueue :: "lipgloss \<Rightarrow> RenderQueued list \<Rightarrow> string \<Rightarrow> string" where
  "renderQueue L [] b = b"
| "renderQueue L (q # qs) b =
     renderQueue L qs ((if b \<noteq> [] then b @ NL @ NL else b) @ renderQueuedRow L q)"

definition Render :: "lipgloss \<Rightarrow> RenderInput \<Rightarrow> RenderResult" where
  "Render L inp =
     (let w = (if ri_Width inp - 2 < 10 then 10 else ri_Width inp - 2);
          b0 = (if ri_Messages inp = [] \<and> ri_Queued inp = [] then renderWelcomeBlock L inp w else []);
          (b1, refs) = renderMessages L inp w 0 (ri_Messages inp) b0 [];
          b2 = renderQueue L (ri_Queued inp) b1;
          b3 = (if b2 \<noteq> [] then b2 @ NL @ NL else b2);
          st = renderChromeStatus L inp w;
          b4 = (if st \<noteq> [] then b3 @ st @ NL @ NL else b3)
      in \<lparr>rr_Content = b4 @ renderComposerSurface L inp, rr_TranscriptRefs = refs\<rparr>)"

subsection \<open>The projection of the state (model.go)\<close>

fun Role_string :: "Role \<Rightarrow> string" where
  "Role_string RoleUser = ''user''"
| "Role_string RoleAssistant = ''assistant''"
| "Role_string RoleSystem = ''system''"
| "Role_string RoleEvent = ''event''"
| "Role_string RoleHostInfo = ''host_info''"

definition toRenderFocus :: "FocusZone \<Rightarrow> RenderFocus" where
  "toRenderFocus f =
     (case f of FocusTranscript \<Rightarrow> RenderFocusTranscript | FocusSidebar \<Rightarrow> RenderFocusSidebar
      | FocusInput \<Rightarrow> RenderFocusInput)"

definition inputTokensToRender :: "InputToken list \<Rightarrow> RenderToken list" where
  "inputTokensToRender toks =
     map (\<lambda>t. \<lparr>rt_ID = tok_ID t, rt_Kind = TokenKind_string (tok_Kind t), rt_Label = tok_Label t,
               rt_Payload = tok_Payload t\<rparr>) toks"

definition expandedToIndexMap ::
  "(string \<times> bool) list \<Rightarrow> InputToken list \<Rightarrow> (nat \<times> bool) list" where
  "expandedToIndexMap expanded toks =
     (if expanded = [] \<or> toks = [] then []
      else map (\<lambda>(i, t). (i, True))
             (filter (\<lambda>(i, t). expanded_at expanded (tok_ID t)) (enumerate 0 toks)))"

definition transcriptItemToRender :: "TranscriptItem \<Rightarrow> RenderMessage" where
  "transcriptItemToRender item =
     \<lparr>rm_Role = Role_string (ti_Role item), rm_Content = ti_Text item,
      rm_Streaming = ti_Streaming item, rm_Tokens = inputTokensToRender (ti_Tokens item),
      rm_Expanded = expandedToIndexMap (ti_Expanded item) (ti_Tokens item),
      rm_Entries = ti_Entries item,
      rm_EventState = (case ti_Event item of None \<Rightarrow> [] | Some e \<Rightarrow> ev_Status e)\<rparr>"

text \<open>
  \<open>Duration.Round(time.Second)\<close> of a difference of clock readings: half away from zero, then
  whole seconds.  The status is unchanged at zero and below.
\<close>

definition round_seconds :: "int \<Rightarrow> int" where
  "round_seconds d = (if d \<ge> 0 then (d + 500000000) div 1000000000
                      else - ((- d + 500000000) div 1000000000))"

definition composeStatusWithElapsed :: "('ta, 'vp) state \<Rightarrow> string" where
  "composeStatusWithElapsed s =
     (if \<not> streaming s \<or> runStartedAt s = 0 then status s
      else (let secs = round_seconds (nowOrDefault s - runStartedAt s)
            in if secs \<le> 0 then status s
               else if status s = [] then ''('' @ itoa secs @ ''s)''
               else status s @ '' ('' @ itoa secs @ ''s)''))"

definition pendingPermissionView :: "('ta, 'vp) state \<Rightarrow> PendingPermission option" where
  "pendingPermissionView s =
     (if pendingPermissions s = [] then None
      else Some (pendingPermissions s
                 ! nat (clampIndex (activePermissionIndex s) (pendingPermissions s))))"

definition toRenderInput :: "('ta, 'vp) widgets \<Rightarrow> ('ta, 'vp) state \<Rightarrow> RenderInput" where
  "toRenderInput W s =
     \<lparr>ri_Width = vp_Width (viewport W) (transcript s), ri_Title = title s,
      ri_ModelLabel = label s,
      ri_Messages = map transcriptItemToRender (transcriptItems s),
      ri_Queued = map (\<lambda>q. \<lparr>rq_Content = qs_Text q, rq_Tokens = inputTokensToRender (qs_Tokens q),
                             rq_Entries = qs_Entries q\<rparr>) (queuedSubmissions s),
      ri_InputView = ta_View (textarea W) (input s),
      ri_InputTokens = inputTokensToRender (inputTokens s),
      ri_SelectedToken = selectedToken s, ri_SelectedTranscriptRef = selectedTranscriptRef s,
      ri_Focus = toRenderFocus (focus s), ri_Streaming = streaming s,
      ri_StreamPulse = streamPulse s, ri_InterruptArmed = interruptArmed s,
      ri_PendingPermission = map_option (\<lambda>p. \<lparr>
         rp_ToolLabel = req_ToolLabel (perm_Request p), rp_ToolTarget = req_Target (perm_Request p),
         rp_ToolSummary = req_Summary (perm_Request p), rp_SelectedAction = perm_SelectedAction p,
         rp_SessionPolicyOn = pol_SessionApproved (req_SessionPolicyState (perm_Request p)),
         rp_PendingTotal = int (length (pendingPermissions s)),
         rp_ActiveIndex = activePermissionIndex s\<rparr>) (pendingPermissionView s),
      ri_PermissionComposerActive =
        (pendingPermissionView s \<noteq> None \<and> focus s = FocusInput
         \<and> ta_Value (textarea W) (input s) = []),
      ri_QueuedCount = int (length (queuedSubmissions s)), ri_AgentCount = 0,
      ri_Status = composeStatusWithElapsed s, ri_StatusKind = statusKind s\<rparr>"

end
