(* ===== verification/Shell_Update.thy ===== *)
theory Shell_Update
  imports Shell_Render
begin

text \<open>
  The update loop of the shell (\<open>internal/harnessshell/model.go\<close>): key routing, the drain of
  queued actions and commands, the refresh of the transcript viewport, and \<open>Model.Update\<close>.
\<close>

subsection \<open>Keys\<close>

definition toggleSelectMode ::
  "('ta, 'vp) widgets \<Rightarrow> ('ta, 'vp) state \<Rightarrow> ('ta, 'vp) state \<times> tea_Cmd option" where
  "toggleSelectMode W s =
     (let s1 = syncInputHeight W (s\<lparr>input := ta_Reset (textarea W) (input s)\<rparr>);
          s2 = s1\<lparr>mouseCaptureDisabled := \<not> mouseCaptureDisabled s1\<rparr>
      in if \<not> mouseCaptureDisabled s2 then
           (s2\<lparr>status := ''Chat mode - mouse captured for scroll; type /select for terminal selection'',
               statusKind := StatusReady\<rparr>, Some EnableMouseAllMotionCmd)
         else
           (s2\<lparr>status := ''Selection mode - terminal handles mouse; type /select for mouse scroll'',
               statusKind := StatusReady\<rparr>, Some DisableMouseCmd))"

text \<open>
  \<open>handleKey\<close> is cut where its source has a sequence of guarded returns.  A part that consumes
  the key gives \<open>Some\<close>; \<open>None\<close> falls through to the next part.  Every part after the permission
  check of the composer keeps the clamp that check has made.
\<close>

type_synonym ('ta, 'vp) handled = "(('ta, 'vp) state \<times> tea_Cmd option) option"

definition handleEsc :: "KeyMsg \<Rightarrow> ('ta, 'vp) state \<Rightarrow> ('ta, 'vp) handled" where
  "handleEsc k s =
     (if key_Type k = KeyEsc \<and> preview s \<noteq> None
      then Some (s\<lparr>preview := None, status := ''Preview closed''\<rparr>, None)
      else if key_Type k = KeyEsc \<and> streaming s then
        (if interruptArmed s
         then Some (s\<lparr>pendingActions := pendingActions s @ [InterruptRunAction (activeRunID s)],
                      interruptArmed := False, status := ''Stopping run'',
                      statusKind := StatusStreaming\<rparr>, None)
         else Some (s\<lparr>interruptArmed := True, status := ''Press Esc again to interrupt'',
                      statusKind := StatusInterruptArmed\<rparr>, None))
      else None)"

definition handleTabScroll ::
  "('ta, 'vp) widgets \<Rightarrow> KeyMsg \<Rightarrow> ('ta, 'vp) state \<Rightarrow> ('ta, 'vp) handled" where
  "handleTabScroll W k s =
     (if key_Type k = KeyTab then
        (let s1 = s\<lparr>focus := nextFocus (focus s) (sidebarOpen s)\<rparr>
         in Some (s1\<lparr>input := (if focus s1 = FocusInput then ta_Focus (textarea W) (input s1)
                               else ta_Blur (textarea W) (input s1))\<rparr>, None))
      else if key_Type k = KeyPgUp
      then Some (s\<lparr>transcript := vp_PageUp (viewport W) (transcript s)\<rparr>, None)
      else if key_Type k = KeyPgDown
      then Some (s\<lparr>transcript := vp_PageDown (viewport W) (transcript s)\<rparr>, None)
      else if key_Alt k \<and> key_Type k = KeyUp
      then Some (s\<lparr>transcript := vp_ScrollUp (viewport W) 1 (transcript s)\<rparr>, None)
      else if key_Alt k \<and> key_Type k = KeyDown
      then Some (s\<lparr>transcript := vp_ScrollDown (viewport W) 1 (transcript s)\<rparr>, None)
      else None)"

definition handleCtrl :: "KeyMsg \<Rightarrow> ('ta, 'vp) state \<Rightarrow> ('ta, 'vp) handled" where
  "handleCtrl k s =
     (let name = to_lower (key_String k) in
      if name = ''ctrl+n'' then
        (if focus s = FocusInput \<and> inputTokens s \<noteq> [] then Some (moveTokenSelection 1 s, None)
         else None)
      else if name = ''ctrl+p'' then
        (if focus s = FocusInput \<and> inputTokens s \<noteq> [] then Some (moveTokenSelection (-1) s, None)
         else None)
      else if name = ''ctrl+o'' then
        (if focus s = FocusInput \<and> inputTokens s \<noteq> [] then Some (previewSelectedComposerToken s, None)
         else if focus s = FocusTranscript \<and> transcriptRefs s \<noteq> []
         then Some (previewSelectedTranscriptRef s, None)
         else None)
      else None)"

definition handleTranscriptKey :: "KeyMsg \<Rightarrow> ('ta, 'vp) state \<Rightarrow> ('ta, 'vp) handled" where
  "handleTranscriptKey k s =
     (if transcriptRefs s = [] then None
      else if key_Type k = KeyEnter then Some (activateSelectedTranscriptRef s, None)
      else if key_Type k = KeyUp then Some (moveTranscriptRef (-1) s, None)
      else if key_Type k = KeyDown then Some (moveTranscriptRef 1 s, None)
      else if key_String k = ''k'' then Some (moveTranscriptRef (-1) s, None)
      else if key_String k = ''j'' then Some (moveTranscriptRef 1 s, None)
      else None)"

definition newlineKey ::
  "('ta, 'vp) widgets \<Rightarrow> ('ta, 'vp) state \<Rightarrow> ('ta, 'vp) state \<times> tea_Cmd option" where
  "newlineKey W s =
     (syncInputHeight W (s\<lparr>input := ta_InsertRune (textarea W) (CHR 0x0A) (input s)\<rparr>), None)"

text \<open>
  The arrow keys of the composer, the end of the input branch: pending permissions when the
  composer is empty, then the command history unless the text has several lines.
\<close>

definition handleArrows ::
  "('ta, 'vp) widgets \<Rightarrow> KeyMsg \<Rightarrow> ('ta, 'vp) state
     \<Rightarrow> bool \<times> ('ta, 'vp) state \<times> tea_Cmd option" where
  "handleArrows W k s =
     (let v = ta_Value (textarea W) (input s) in
      if key_Type k = KeyUp \<and> v = [] \<and> snd (movePendingPermission (-1) s)
      then (True, fst (movePendingPermission (-1) s), None)
      else if key_Type k = KeyDown \<and> v = [] \<and> snd (movePendingPermission 1 s)
      then (True, fst (movePendingPermission 1 s), None)
      else if key_Type k = KeyUp \<and> CHR 0x0A \<notin> set v then (True, recallPreviousCommand W s, None)
      else if key_Type k = KeyDown \<and> CHR 0x0A \<notin> set v then (True, recallNextCommand W s, None)
      else (False, s, None))"

definition handlePermissionKey ::
  "('ta, 'vp) widgets \<Rightarrow> KeyMsg \<Rightarrow> ('ta, 'vp) state
     \<Rightarrow> bool \<times> ('ta, 'vp) state \<times> tea_Cmd option" where
  "handlePermissionKey W k s =
     (if ta_Value (textarea W) (input s) = [] then
        (case currentPendingPermission s of
           (s1, None) \<Rightarrow> handleArrows W k s1
         | (s1, Some i) \<Rightarrow>
             (if key_String k = ''y'' \<or> key_String k = ''Y''
              then (True, resolveActivePermission DecisionApproveOnce s1, None)
              else if key_String k = ''n'' \<or> key_String k = ''N''
              then (True, resolveActivePermission DecisionDeny s1, None)
              else if key_Type k = KeyLeft \<and> snd (movePermissionAction (-1) s1)
              then (True, fst (movePermissionAction (-1) s1), None)
              else if key_Type k = KeyRight \<and> snd (movePermissionAction 1 s1)
              then (True, fst (movePermissionAction 1 s1), None)
              else handleArrows W k s1))
      else handleArrows W k s)"

text \<open>
  The branch for the composer.  An Enter that \<open>emitSubmitOnEnter\<close> declines falls through to the
  permission keys on the state it left.
\<close>

definition handleInputKey ::
  "('ta, 'vp) widgets \<Rightarrow> KeyMsg \<Rightarrow> ('ta, 'vp) state
     \<Rightarrow> bool \<times> ('ta, 'vp) state \<times> tea_Cmd option" where
  "handleInputKey W k s =
     (if key_Type k = KeyEnter \<and> \<not> key_Alt k then
        (let v = ta_Value (textarea W) (input s) in
         if isShellNativeQuitCommand v \<and> inputTokens s = [] then
           (True, (syncInputHeight W (s\<lparr>input := ta_Reset (textarea W) (input s)\<rparr>))
                    \<lparr>status := ''Exiting''\<rparr>, Some QuitCmd)
         else if isShellNativeSelectCommand v \<and> inputTokens s = [] then
           (True, toggleSelectMode W s)
         else (case emitSubmitOnEnter W s of
                 (s1, True) \<Rightarrow> (True, s1, None)
               | (s1, False) \<Rightarrow> handlePermissionKey W k s1))
      else if key_Type k = KeyEnter \<and> key_Alt k then (True, newlineKey W s)
      else if key_Type k = KeyCtrlJ then (True, newlineKey W s)
      else handlePermissionKey W k s)"

text \<open>
  A key that is not consumed leaves the model as it was: the source returns a copy of the model
  in every branch and drops it on a miss.  What \<open>handleKey\<close> changed through slices it shares with
  the original is nothing on that path.
\<close>

definition handleKey ::
  "('ta, 'vp) widgets \<Rightarrow> KeyMsg \<Rightarrow> ('ta, 'vp) state
     \<Rightarrow> bool \<times> ('ta, 'vp) state \<times> tea_Cmd option" where
  "handleKey W k s =
     (case handleEsc k s of Some r \<Rightarrow> (True, r)
      | None \<Rightarrow>
     (case handleTabScroll W k s of Some r \<Rightarrow> (True, r)
      | None \<Rightarrow>
     (case handleCtrl k s of Some r \<Rightarrow> (True, r)
      | None \<Rightarrow>
     (case focus s of
        FocusTranscript \<Rightarrow>
          (case handleTranscriptKey k s of Some r \<Rightarrow> (True, r) | None \<Rightarrow> (False, s, None))
      | FocusInput \<Rightarrow> handleInputKey W k s
      | FocusSidebar \<Rightarrow> (False, s, None)))))"

definition routeKeyToFocus ::
  "('ta, 'vp) widgets \<Rightarrow> KeyMsg \<Rightarrow> ('ta, 'vp) state \<Rightarrow> ('ta, 'vp) state \<times> tea_Cmd option" where
  "routeKeyToFocus W k s =
     (case focus s of
        FocusInput \<Rightarrow>
          (let prev = ta_Value (textarea W) (input s);
               (ta, cmd) = ta_Update (textarea W) (TeaKeyMsg k) (input s);
               s1 = s\<lparr>input := ta\<rparr>
           in (syncInputHeight W
                 (handleInputMutation W prev (ta_Value (textarea W) (input s1)) s1),
               map_option WidgetCmd cmd))
      | FocusTranscript \<Rightarrow>
          (let (vp, cmd) = vp_Update (viewport W) (TeaKeyMsg k) (transcript s)
           in (s\<lparr>transcript := vp\<rparr>, map_option WidgetCmd cmd))
      | FocusSidebar \<Rightarrow> (s, None))"

subsection \<open>The end of every update\<close>

definition drainPendingActions :: "('ta, 'vp) state \<Rightarrow> ('ta, 'vp) state \<times> tea_Cmd option" where
  "drainPendingActions s =
     (if pendingActions s = [] then (s, None)
      else (s\<lparr>pendingActions := []\<rparr>, Some (ActionCmd (pendingActions s))))"

definition refresh ::
  "('ta, 'vp) widgets \<Rightarrow> lipgloss \<Rightarrow> ('ta, 'vp) state \<Rightarrow> ('ta, 'vp) state" where
  "refresh W L s =
     (let V = viewport W;
          result = Render L (toRenderInput W s);
          followTail = (vp_AtBottom V (transcript s) \<or> vp_TotalLineCount V (transcript s) = 0);
          savedOffset = vp_YOffset V (transcript s);
          vp = vp_SetContent V (rr_Content result) (transcript s)
      in s\<lparr>transcript := (if followTail then vp_GotoBottom V vp else vp_SetYOffset V savedOffset vp),
           transcriptRefs := rr_TranscriptRefs result\<rparr>)"

subsection \<open>Update\<close>

text \<open>The \<open>switch\<close> over the message: the new state and the commands appended, nil ones dropped.\<close>

definition cmd_list :: "tea_Cmd option \<Rightarrow> tea_Cmd list" where
  "cmd_list c = (case c of None \<Rightarrow> [] | Some x \<Rightarrow> [x])"

definition handleMsg ::
  "('ta, 'vp) widgets \<Rightarrow> tea_Msg \<Rightarrow> ('ta, 'vp) state \<Rightarrow> ('ta, 'vp) state \<times> tea_Cmd list" where
  "handleMsg W msg s =
     (case msg of
        WindowSizeMsg w h \<Rightarrow>
          (let inner = (if w - 4 < 1 then 1 else w - 4)
           in (s\<lparr>width := w, height := h, input := ta_SetWidth (textarea W) inner (input s),
                 transcript := vp_SetSize (viewport W) w h (transcript s)\<rparr>, []))
      | TeaKeyMsg k \<Rightarrow>
          (case handleKey W k s of
             (True, s1, cmd) \<Rightarrow> (s1, cmd_list cmd)
           | (False, s1, cmd) \<Rightarrow> (let (s2, pass) = routeKeyToFocus W k s in (s2, cmd_list pass)))
      | MouseMsg n \<Rightarrow>
          (let (vp, cmd) = vp_Update (viewport W) msg (transcript s)
           in (s\<lparr>transcript := vp\<rparr>, cmd_list (map_option WidgetCmd cmd)))
      | HostEventMsg e \<Rightarrow> (applyHostEvent W e s, [])
      | StreamTickMsg \<Rightarrow>
          (s, if streaming s \<and> runStartedAt s \<noteq> 0
              then (case streamTick s of None \<Rightarrow> [] | Some c \<Rightarrow> cmd_list (map_option TickCmd c)) else [])
      | OtherMsg n \<Rightarrow>
          (case focus s of
             FocusInput \<Rightarrow>
               (let (ta, cmd) = ta_Update (textarea W) msg (input s)
                in (s\<lparr>input := ta\<rparr>, cmd_list (map_option WidgetCmd cmd)))
           | FocusTranscript \<Rightarrow>
               (let (vp, cmd) = vp_Update (viewport W) msg (transcript s)
                in (s\<lparr>transcript := vp\<rparr>, cmd_list (map_option WidgetCmd cmd)))
           | FocusSidebar \<Rightarrow> (s, [])))"

definition Update ::
  "('ta, 'vp) widgets \<Rightarrow> lipgloss \<Rightarrow> tea_Msg \<Rightarrow> ('ta, 'vp) state
     \<Rightarrow> ('ta, 'vp) state \<times> tea_Cmd list" where
  "Update W L msg s =
     (let (s1, cmds) = handleMsg W msg s;
          (s2, drain) = drainPendingActions s1;
          cmds2 = cmds @ cmd_list drain @ pendingCmds s2;
          s3 = s2\<lparr>pendingCmds := []\<rparr>
      in (refresh W L s3, cmds2))"

text \<open>
  A step of the program: the environment's clock reading for the step, then \<open>Update\<close>.  The
  outputs a host sees are the actions inside the commands.
\<close>

definition shell_step ::
  "('ta, 'vp) widgets \<Rightarrow> lipgloss \<Rightarrow> ('ta, 'vp) state \<Rightarrow> gotime \<times> tea_Msg
     \<Rightarrow> ('ta, 'vp) state \<times> tea_Cmd list" where
  "shell_step W L s e = Update W L (snd e) (s\<lparr>clock := fst e\<rparr>)"

fun cmd_actions :: "tea_Cmd \<Rightarrow> Action list" where
  "cmd_actions (ActionCmd as) = as"
| "cmd_actions _ = []"

definition actions_of :: "tea_Cmd list \<Rightarrow> Action list" where
  "actions_of cs = concat (map cmd_actions cs)"

end
