(* ===== verification/Shell_Inv.thy ===== *)
theory Shell_Inv
  imports Shell_Update
begin

text \<open>
  The shell's invariant and its preservation by every operation, and what every operation does to
  the queue of outbound actions and to the counter that submission identifiers come from.
\<close>

subsection \<open>Transcript rows\<close>

text \<open>What correlation looks at in a row: who speaks and for which submission.\<close>

definition row_key :: "TranscriptItem \<Rightarrow> Role \<times> string" where
  "row_key it = (ti_Role it, ti_SubmissionID it)"

text \<open>Every user row is followed at once by an assistant row of the same submission.\<close>

fun paired :: "(Role \<times> string) list \<Rightarrow> bool" where
  "paired [] = True"
| "paired [(r, i)] = (r \<noteq> RoleUser)"
| "paired ((r, i) # (r2, i2) # ks) =
     (if r = RoleUser then r2 = RoleAssistant \<and> i2 = i \<and> paired ks
      else paired ((r2, i2) # ks))"

definition user_ids :: "(Role \<times> string) list \<Rightarrow> string list" where
  "user_ids ks = map snd (filter (\<lambda>k. fst k = RoleUser) ks)"

definition known_id :: "int \<Rightarrow> string \<Rightarrow> bool" where
  "known_id n i = (i = [] \<or> (\<exists>k. 1 \<le> k \<and> k \<le> n \<and> i = submission_id k))"

definition keys_inv :: "int \<Rightarrow> (Role \<times> string) list \<Rightarrow> bool" where
  "keys_inv n ks = (paired ks \<and> distinct (user_ids ks) \<and> (\<forall>k \<in> set ks. known_id n (snd k)))"

lemma paired_append: "paired xs \<Longrightarrow> paired ys \<Longrightarrow> paired (xs @ ys)"
proof (induction xs rule: paired.induct)
  case (2 r i)
  then show ?case by (cases ys) auto
qed auto

lemma paired_filter:
  "paired ks \<Longrightarrow> paired (filter (\<lambda>k. snd k \<noteq> sid) ks)"
proof (induction ks rule: paired.induct)
  case (3 r i r2 i2 ks)
  show ?case
  proof (cases "r = RoleUser")
    case True
    with "3.prems" "3.IH"(1) show ?thesis by auto
  next
    case False
    with "3.prems" "3.IH"(2) have ih: "paired (filter (\<lambda>k. snd k \<noteq> sid) ((r2, i2) # ks))" by simp
    have "paired ((r, i) # xs)" if "paired xs" for xs
      using that False by (cases xs) auto
    from this [OF ih] ih show ?thesis by simp
  qed
qed auto

lemma known_id_mono: "known_id n i \<Longrightarrow> n \<le> m \<Longrightarrow> known_id m i"
  by (force simp: known_id_def)

lemma known_id_fresh: "known_id n i \<Longrightarrow> 0 \<le> n \<Longrightarrow> i \<noteq> submission_id (n + 1)"
proof
  assume "known_id n i" "0 \<le> n" and i: "i = submission_id (n + 1)"
  then obtain k where k: "1 \<le> k" "k \<le> n" "submission_id k = submission_id (n + 1)"
    by (auto simp: known_id_def)
  with \<open>0 \<le> n\<close> have "k = n + 1" by (intro submission_id_inj) auto
  with k show False by simp
qed

lemma known_id_Nil [simp]: "known_id n []"
  by (simp add: known_id_def)

lemma keys_inv_Nil [simp]: "keys_inv n []"
  by (simp add: keys_inv_def user_ids_def)

lemma keys_inv_mono: "keys_inv n ks \<Longrightarrow> n \<le> m \<Longrightarrow> keys_inv m ks"
  by (auto simp: keys_inv_def intro: known_id_mono)

lemma keys_inv_other:
  "keys_inv n ks \<Longrightarrow> r \<noteq> RoleUser \<Longrightarrow> keys_inv n (ks @ [(r, [])])"
  by (auto simp: keys_inv_def user_ids_def intro: paired_append)

lemma keys_inv_filter: "keys_inv n ks \<Longrightarrow> keys_inv n (filter (\<lambda>k. snd k \<noteq> sid) ks)"
proof -
  assume k: "keys_inv n ks"
  have "user_ids (filter (\<lambda>k. snd k \<noteq> sid) ks) = filter (\<lambda>i. i \<noteq> sid) (user_ids ks)"
    by (induction ks) (auto simp: user_ids_def)
  with k show ?thesis by (auto simp: keys_inv_def paired_filter)
qed

lemma keys_inv_begin:
  assumes "keys_inv n ks" "0 \<le> n"
  shows "keys_inv (n + 1)
           (ks @ [(RoleUser, submission_id (n + 1)), (RoleAssistant, submission_id (n + 1))])"
proof -
  from assms have "submission_id (n + 1) \<notin> set (user_ids ks)"
    by (force simp: keys_inv_def user_ids_def dest: known_id_fresh)
  moreover from assms have "\<forall>k \<in> set ks. known_id (n + 1) (snd k)"
    by (auto simp: keys_inv_def intro: known_id_mono)
  moreover from assms have "known_id (n + 1) (submission_id (n + 1))"
    by (auto simp: known_id_def intro!: exI [of _ "n + 1"])
  ultimately show ?thesis using assms
    by (auto simp: keys_inv_def user_ids_def intro!: paired_append)
qed

definition keys :: "('ta, 'vp) state \<Rightarrow> (Role \<times> string) list" where
  "keys s = map row_key (transcriptItems s)"

lemma keys_update_at [simp]:
  "(\<And>it. row_key (f it) = row_key it) \<Longrightarrow> map row_key (update_at i f xs) = map row_key xs"
  by (rule map_update_at)

subsection \<open>The invariant\<close>

lemma actions_of_simps [simp]:
  "actions_of [] = []"
  "actions_of (c # cs) = cmd_actions c @ actions_of cs"
  "actions_of (cs @ ds) = actions_of cs @ actions_of ds"
  by (simp_all add: actions_of_def)

definition rows_inv :: "('ta, 'vp) state \<Rightarrow> bool" where
  "rows_inv s = (0 \<le> submissionCounter s \<and> keys_inv (submissionCounter s) (keys s))"

definition sel_inv :: "('ta, 'vp) state \<Rightarrow> bool" where
  "sel_inv s =
     (-1 \<le> historyIndex s \<and> historyIndex s < int (length (commandHistory s)) \<and>
      -1 \<le> selectedToken s \<and> selectedToken s < int (length (inputTokens s)) \<and>
      0 \<le> activePermissionIndex s \<and>
      (pendingPermissions s = [] \<longrightarrow> activePermissionIndex s \<le> 0) \<and>
      (pendingPermissions s \<noteq> [] \<longrightarrow>
         activePermissionIndex s < int (length (pendingPermissions s))) \<and>
      (\<forall>p \<in> set (pendingPermissions s). 0 \<le> perm_SelectedAction p \<and> perm_SelectedAction p \<le> 2) \<and>
      -1 \<le> selectedTranscriptRef s \<and> streamPulse s = 0 \<and>
      (interruptArmed s \<longrightarrow> streaming s) \<and> pendingSubmissions s = [] \<and>
      actions_of (pendingCmds s) = [])"

definition mid_inv :: "('ta, 'vp) state \<Rightarrow> bool" where
  "mid_inv s = (rows_inv s \<and> sel_inv s)"

text \<open>The tokens of the user rows in display order, which is what the references point at.\<close>

definition token_refs :: "TranscriptItem list \<Rightarrow> TranscriptRef list" where
  "token_refs items = concat (map (\<lambda>(i, it).
     if ti_Role it = RoleUser
     then map (\<lambda>j. \<lparr>ref_MessageIndex = int i, ref_TokenIndex = int j\<rparr>) [0..<length (ti_Tokens it)]
     else []) (enumerate 0 items))"

definition shell_inv :: "('ta, 'vp) state \<Rightarrow> bool" where
  "shell_inv s =
     (mid_inv s \<and> pendingActions s = [] \<and> pendingCmds s = []
      \<and> transcriptRefs s = token_refs (transcriptItems s))"

subsection \<open>What an operation emits\<close>

fun submit_ids :: "Action list \<Rightarrow> string list" where
  "submit_ids [] = []"
| "submit_ids (SubmitTurnAction sub # as) = sub_ID sub # submit_ids as"
| "submit_ids (_ # as) = submit_ids as"

lemma submit_ids_append [simp]: "submit_ids (xs @ ys) = submit_ids xs @ submit_ids ys"
  by (induction xs rule: submit_ids.induct) auto

text \<open>
  At most one submission is emitted, under an identifier above every earlier one, and the shell
  then waits for its run.
\<close>

definition emits_ok :: "('ta, 'vp) state \<Rightarrow> ('ta, 'vp) state \<Rightarrow> bool" where
  "emits_ok s s' =
     (submissionCounter s \<le> submissionCounter s' \<and>
      (\<exists>as. pendingActions s' = pendingActions s @ as \<and>
        (submit_ids as = [] \<or>
         (\<exists>k. submit_ids as = [submission_id k] \<and> submissionCounter s < k
              \<and> k \<le> submissionCounter s' \<and> streaming s'))))"

definition op_ok :: "('ta, 'vp) state \<Rightarrow> ('ta, 'vp) state \<Rightarrow> bool" where
  "op_ok s s' = ((mid_inv s \<longrightarrow> mid_inv s') \<and> emits_ok s s')"

text \<open>An operation that emits no submission.\<close>

definition op_quiet :: "('ta, 'vp) state \<Rightarrow> ('ta, 'vp) state \<Rightarrow> bool" where
  "op_quiet s s' =
     ((mid_inv s \<longrightarrow> mid_inv s') \<and> submissionCounter s \<le> submissionCounter s' \<and>
      (\<exists>as. pendingActions s' = pendingActions s @ as \<and> submit_ids as = []))"

lemma op_quietI:
  assumes "mid_inv s \<Longrightarrow> mid_inv s'" "submissionCounter s \<le> submissionCounter s'"
    and "pendingActions s' = pendingActions s @ as" "submit_ids as = []"
  shows "op_quiet s s'"
  using assms by (auto simp: op_quiet_def)

lemma op_quiet_ok: "op_quiet s s' \<Longrightarrow> op_ok s s'"
  by (auto simp: op_quiet_def op_ok_def emits_ok_def)

lemma op_quiet_refl [simp]: "op_quiet s s"
  by (simp add: op_quiet_def)

text \<open>A quiet first part does not disturb what follows.\<close>

lemma op_ok_trans_quiet:
  assumes "op_ok s1 s2" and "mid_inv s \<Longrightarrow> mid_inv s1"
    and "submissionCounter s \<le> submissionCounter s1" and "pendingActions s1 = pendingActions s"
  shows "op_ok s s2"
  using assms by (fastforce simp: op_ok_def emits_ok_def)

lemma op_quiet_trans:
  assumes "op_quiet s1 s2" and "mid_inv s \<Longrightarrow> mid_inv s1"
    and "submissionCounter s \<le> submissionCounter s1" and "pendingActions s1 = pendingActions s"
  shows "op_quiet s s2"
  using assms by (fastforce simp: op_quiet_def)

lemmas inv_defs = mid_inv_def rows_inv_def sel_inv_def keys_def

subsection \<open>input.go and tokens.go\<close>

lemma syncInputHeight_inv [simp]: "mid_inv (syncInputHeight W s) = mid_inv s"
  by (simp add: syncInputHeight_def Let_def inv_defs)

lemma syncInputHeight_frame [simp]:
  "pendingActions (syncInputHeight W s) = pendingActions s"
  "submissionCounter (syncInputHeight W s) = submissionCounter s"
  "streaming (syncInputHeight W s) = streaming s"
  "transcriptItems (syncInputHeight W s) = transcriptItems s"
  "queuedSubmissions (syncInputHeight W s) = queuedSubmissions s"
  "pendingSubmissions (syncInputHeight W s) = pendingSubmissions s"
  "inputTokens (syncInputHeight W s) = inputTokens s"
  "pendingCmds (syncInputHeight W s) = pendingCmds s"
  "historyIndex (syncInputHeight W s) = historyIndex s"
  "historyDraft (syncInputHeight W s) = historyDraft s"
  "commandHistory (syncInputHeight W s) = commandHistory s"
  by (simp_all add: syncInputHeight_def Let_def)

lemma mid_inv_input [simp]: "mid_inv (s\<lparr>input := x\<rparr>) = mid_inv s"
  by (simp add: inv_defs)

lemma mid_inv_status [simp]: "mid_inv (s\<lparr>status := x\<rparr>) = mid_inv s"
  by (simp add: inv_defs)

lemma mid_inv_statusKind [simp]: "mid_inv (s\<lparr>statusKind := x\<rparr>) = mid_inv s"
  by (simp add: inv_defs)

lemma mid_inv_pendingActions [simp]: "mid_inv (s\<lparr>pendingActions := x\<rparr>) = mid_inv s"
  by (simp add: inv_defs)

lemma mid_inv_pendingCmds [simp]:
  "actions_of x = actions_of (pendingCmds s) \<Longrightarrow> mid_inv (s\<lparr>pendingCmds := x\<rparr>) = mid_inv s"
  by (simp add: inv_defs)

lemma mid_inv_preview [simp]: "mid_inv (s\<lparr>preview := x\<rparr>) = mid_inv s"
  by (simp add: inv_defs)

lemma mid_inv_transcript [simp]: "mid_inv (s\<lparr>transcript := x\<rparr>) = mid_inv s"
  by (simp add: inv_defs)

lemma mid_inv_focus [simp]: "mid_inv (s\<lparr>focus := x\<rparr>) = mid_inv s"
  by (simp add: inv_defs)

lemma mid_inv_items [simp]:
  "map row_key xs = keys s \<Longrightarrow> mid_inv (s\<lparr>transcriptItems := xs\<rparr>) = mid_inv s"
  by (simp add: inv_defs)

lemma clampIndex_bounds:
  "xs \<noteq> [] \<Longrightarrow> 0 \<le> clampIndex i xs \<and> clampIndex i xs < int (length xs)"
  by (auto simp: clampIndex_def Let_def neq_Nil_conv)

lemma clampIndex_id:
  "0 \<le> i \<Longrightarrow> i < int (length xs) \<Longrightarrow> clampIndex i xs = i"
  by (simp add: clampIndex_def)

lemma pushHistory_ok: "op_quiet s (pushHistory content s)"
  by (rule op_quietI [where as = "[]"]) (auto simp: pushHistory_def Let_def inv_defs)

lemma pushHistory_frame [simp]:
  "pendingActions (pushHistory c s) = pendingActions s"
  "submissionCounter (pushHistory c s) = submissionCounter s"
  "streaming (pushHistory c s) = streaming s"
  "transcriptItems (pushHistory c s) = transcriptItems s"
  "queuedSubmissions (pushHistory c s) = queuedSubmissions s"
  "pendingSubmissions (pushHistory c s) = pendingSubmissions s"
  "inputTokens (pushHistory c s) = inputTokens s"
  "pendingCmds (pushHistory c s) = pendingCmds s"
  by (simp_all add: pushHistory_def Let_def)

lemma pushHistory_inv: "mid_inv s \<Longrightarrow> mid_inv (pushHistory c s)"
  using pushHistory_ok [of s c] by (simp add: op_quiet_def)

lemma showRecalled_inv [simp]: "mid_inv (showRecalled W v s) = mid_inv s"
  by (simp add: showRecalled_def)

lemma showRecalled_frame [simp]:
  "pendingActions (showRecalled W v s) = pendingActions s"
  "submissionCounter (showRecalled W v s) = submissionCounter s"
  "streaming (showRecalled W v s) = streaming s"
  "queuedSubmissions (showRecalled W v s) = queuedSubmissions s"
  "pendingCmds (showRecalled W v s) = pendingCmds s"
  "commandHistory (showRecalled W v s) = commandHistory s"
  "historyIndex (showRecalled W v s) = historyIndex s"
  "historyDraft (showRecalled W v s) = historyDraft s"
  by (simp_all add: showRecalled_def)

lemma mid_inv_history:
  "mid_inv s \<Longrightarrow> -1 \<le> i \<Longrightarrow> i < int (length (commandHistory s)) \<Longrightarrow>
     mid_inv (s\<lparr>historyIndex := i\<rparr>)"
  "mid_inv (s\<lparr>historyDraft := d\<rparr>) = mid_inv s"
  "mid_inv s \<Longrightarrow> -1 \<le> i \<Longrightarrow> i < int (length (commandHistory s)) \<Longrightarrow>
     mid_inv (s\<lparr>historyDraft := d, historyIndex := i\<rparr>)"
  "mid_inv s \<Longrightarrow> -1 \<le> historyIndex s \<and> historyIndex s < int (length (commandHistory s))"
  by (auto simp: inv_defs)

lemma recallPreviousCommand_ok: "op_quiet s (recallPreviousCommand W s)"
  by (rule op_quietI [where as = "[]"])
    (auto simp: recallPreviousCommand_def Let_def mid_inv_history
      dest: mid_inv_history(4) intro!: mid_inv_history)

lemma recallNextCommand_ok: "op_quiet s (recallNextCommand W s)"
  by (rule op_quietI [where as = "[]"])
    (auto simp: recallNextCommand_def Let_def mid_inv_history
      dest: mid_inv_history(4) intro!: mid_inv_history)

lemma moveTranscriptRef_ok: "op_quiet s (moveTranscriptRef d s)"
  by (rule op_quietI [where as = "[]"])
    (auto simp: moveTranscriptRef_def Let_def inv_defs
      dest: clampIndex_bounds [of "transcriptRefs s" "selectedTranscriptRef s + d"])

lemma addToken_ok: "op_quiet s (addToken k p s)"
  by (rule op_quietI [where as = "[]"]) (auto simp: addToken_def Let_def inv_defs)

lemma moveTokenSelection_ok: "op_quiet s (moveTokenSelection d s)"
  by (rule op_quietI [where as = "[]"])
    (auto simp: moveTokenSelection_def Let_def inv_defs
      dest: clampIndex_bounds [of "inputTokens s" "selectedToken s + d"])

lemma addToken_frame [simp]:
  "pendingActions (addToken k p s) = pendingActions s"
  "submissionCounter (addToken k p s) = submissionCounter s"
  "streaming (addToken k p s) = streaming s"
  "queuedSubmissions (addToken k p s) = queuedSubmissions s"
  "pendingCmds (addToken k p s) = pendingCmds s"
  by (simp_all add: addToken_def Let_def)

lemma addToken_inv: "mid_inv s \<Longrightarrow> mid_inv (addToken k p s)"
  using addToken_ok [of s k p] by (simp add: op_quiet_def)

lemma handleInputMutation_ok: "op_quiet s (handleInputMutation W p c s)"
  by (rule op_quietI [where as = "[]"])
    (auto simp: handleInputMutation_def Let_def addToken_inv split: option.splits)

lemma previewSelectedComposerToken_ok: "op_quiet s (previewSelectedComposerToken s)"
  by (auto simp: previewSelectedComposerToken_def Let_def op_quiet_def
      split: TokenKind.splits)

lemma activateSelectedTranscriptRef_ok: "op_quiet s (activateSelectedTranscriptRef s)"
  by (auto simp: activateSelectedTranscriptRef_def Let_def op_quiet_def
      transcriptPreviewAction_def keys_def row_key_def split: option.splits TokenKind.splits)

lemma previewSelectedTranscriptRef_ok: "op_quiet s (previewSelectedTranscriptRef s)"
  by (auto simp: previewSelectedTranscriptRef_def Let_def op_quiet_def
      transcriptPreviewAction_def split: option.splits TokenKind.splits)

subsection \<open>permissions.go\<close>

text \<open>Under the invariant the active index is in range, so the clamp is the identity.\<close>

lemma currentPendingPermission_eq:
  "sel_inv s \<Longrightarrow> currentPendingPermission s =
     (s, if pendingPermissions s = [] then None else Some (nat (activePermissionIndex s)))"
  by (auto simp: currentPendingPermission_def Let_def sel_inv_def clampIndex_id)

lemma currentPendingPermission_cases:
  obtains "pendingPermissions s = []" "currentPendingPermission s = (s, None)"
  | i where "pendingPermissions s \<noteq> []" "0 \<le> i" "i < int (length (pendingPermissions s))"
      "currentPendingPermission s = (s\<lparr>activePermissionIndex := i\<rparr>, Some (nat i))"
proof (cases "pendingPermissions s = []")
  case True
  then show ?thesis by (rule that(1)) (simp add: currentPendingPermission_def True)
next
  case False
  let ?i = "clampIndex (activePermissionIndex s) (pendingPermissions s)"
  from False have "0 \<le> ?i" "?i < int (length (pendingPermissions s))"
    using clampIndex_bounds [of "pendingPermissions s"] by blast+
  then show ?thesis
    by (rule that(2) [OF False]) (simp add: currentPendingPermission_def False Let_def)
qed

lemma mid_inv_active:
  "mid_inv s \<Longrightarrow> 0 \<le> i \<Longrightarrow> i < int (length (pendingPermissions s)) \<Longrightarrow>
     mid_inv (s\<lparr>activePermissionIndex := i\<rparr>)"
  by (auto simp: inv_defs)

lemma op_quiet_active:
  "0 \<le> i \<Longrightarrow> i < int (length (pendingPermissions s)) \<Longrightarrow> op_quiet s (s\<lparr>activePermissionIndex := i\<rparr>)"
  by (rule op_quietI [where as = "[]"]) (auto simp: mid_inv_active)

lemma currentPendingPermission_ok: "op_quiet s (fst (currentPendingPermission s))"
  by (rule currentPendingPermission_cases [of s]) (auto simp: op_quiet_active)

lemma mid_inv_perms:
  assumes "mid_inv s" "length ps = length (pendingPermissions s)"
    and "\<forall>p \<in> set ps. 0 \<le> perm_SelectedAction p \<and> perm_SelectedAction p \<le> 2"
  shows "mid_inv (s\<lparr>pendingPermissions := ps\<rparr>)"
proof -
  have "ps = [] \<longleftrightarrow> pendingPermissions s = []" using assms(2) by (metis length_0_conv)
  with assms show ?thesis by (auto simp: inv_defs split: if_splits)
qed

lemma mid_inv_select:
  assumes "mid_inv s"
  shows "mid_inv (s\<lparr>pendingPermissions :=
    update_at i (\<lambda>p. p\<lparr>perm_SelectedAction :=
      (if perm_SelectedAction p + d < 0 then 0
       else if perm_SelectedAction p + d > 2 then 2 else perm_SelectedAction p + d)\<rparr>)
      (pendingPermissions s)\<rparr>)"
proof (rule mid_inv_perms [OF assms])
  from assms show "\<forall>p \<in> set (update_at i (\<lambda>p. p\<lparr>perm_SelectedAction :=
      (if perm_SelectedAction p + d < 0 then 0
       else if perm_SelectedAction p + d > 2 then 2 else perm_SelectedAction p + d)\<rparr>)
      (pendingPermissions s)). 0 \<le> perm_SelectedAction p \<and> perm_SelectedAction p \<le> 2"
    by (force simp: mid_inv_def sel_inv_def dest!: set_update_at)
qed simp

lemma movePermissionAction_ok: "op_quiet s (fst (movePermissionAction d s))"
proof (rule currentPendingPermission_cases [of s])
  fix i assume i: "0 \<le> i" "i < int (length (pendingPermissions s))"
    "currentPendingPermission s = (s\<lparr>activePermissionIndex := i\<rparr>, Some (nat i))"
  from mid_inv_select [OF mid_inv_active [OF _ i(1,2)], of "nat i" d] i(3) show ?thesis
    by (intro op_quietI [where as = "[]"]) (simp_all add: movePermissionAction_def Let_def)
qed (simp add: movePermissionAction_def)

lemma movePendingPermission_ok: "op_quiet s (fst (movePendingPermission d s))"
proof (cases "length (pendingPermissions s) < 2")
  case False
  then have "pendingPermissions s \<noteq> []" by auto
  from clampIndex_bounds [OF this, of "activePermissionIndex s + d"] False show ?thesis
    by (intro op_quietI [where as = "[]"])
      (simp_all add: movePendingPermission_def Let_def mid_inv_active)
qed (simp add: movePendingPermission_def)

lemma removePendingPermissionByID_inv:
  "mid_inv s \<Longrightarrow> mid_inv (fst (removePendingPermissionByID pid s))"
  by (auto simp: removePendingPermissionByID_def Let_def inv_defs
      dest!: find_index_Some dest: set_remove_at split: option.splits)

lemma removePendingPermissionByID_frame [simp]:
  "pendingActions (fst (removePendingPermissionByID pid s)) = pendingActions s"
  "submissionCounter (fst (removePendingPermissionByID pid s)) = submissionCounter s"
  "streaming (fst (removePendingPermissionByID pid s)) = streaming s"
  "queuedSubmissions (fst (removePendingPermissionByID pid s)) = queuedSubmissions s"
  "transcriptItems (fst (removePendingPermissionByID pid s)) = transcriptItems s"
  by (auto simp: removePendingPermissionByID_def Let_def split: option.splits)

lemma resolveActivePermission_ok: "op_quiet s (resolveActivePermission d s)"
  by (rule currentPendingPermission_cases [of s])
    (auto simp: resolveActivePermission_def op_quiet_def mid_inv_active)

subsection \<open>queue.go\<close>

lemma enqueueSubmission_ok: "op_quiet s (enqueueSubmission c toks s)"
  by (auto simp: op_quiet_def enqueueSubmission_def nextSubmissionID_def Let_def inv_defs
      intro: keys_inv_mono)

lemma enqueueSubmission_frame [simp]:
  "pendingActions (enqueueSubmission c toks s) = pendingActions s"
  "submissionCounter (enqueueSubmission c toks s) = submissionCounter s + 1"
  "streaming (enqueueSubmission c toks s) = streaming s"
  "pendingSubmissions (enqueueSubmission c toks s) = pendingSubmissions s"
  "transcriptItems (enqueueSubmission c toks s) = transcriptItems s"
  "inputTokens (enqueueSubmission c toks s) = inputTokens s"
  "pendingCmds (enqueueSubmission c toks s) = pendingCmds s"
  "input (enqueueSubmission c toks s) = input s"
  by (simp_all add: enqueueSubmission_def nextSubmissionID_def Let_def)

lemma mid_inv_composer:
  "mid_inv s \<Longrightarrow> mid_inv (s\<lparr>inputTokens := [], selectedToken := -1\<rparr>)"
  by (simp add: inv_defs)

lemma resetComposer_inv: "mid_inv s \<Longrightarrow> mid_inv (resetComposer W s)"
  by (simp add: resetComposer_def Let_def mid_inv_composer)

lemma resetComposer_frame [simp]:
  "pendingActions (resetComposer W s) = pendingActions s"
  "submissionCounter (resetComposer W s) = submissionCounter s"
  "streaming (resetComposer W s) = streaming s"
  "transcriptItems (resetComposer W s) = transcriptItems s"
  "queuedSubmissions (resetComposer W s) = queuedSubmissions s"
  "pendingSubmissions (resetComposer W s) = pendingSubmissions s"
  "pendingCmds (resetComposer W s) = pendingCmds s"
  "inputTokens (resetComposer W s) = []"
  by (simp_all add: resetComposer_def Let_def)

lemma mid_inv_begin:
  assumes "mid_inv s"
  shows "mid_inv (s\<lparr>submissionCounter := submissionCounter s + 1,
    transcriptItems := transcriptItems s @
      [user_row (submission_id (submissionCounter s + 1)) c es toks,
       placeholder_row (submission_id (submissionCounter s + 1))]\<rparr>)"
  using assms keys_inv_begin [of "submissionCounter s" "map row_key (transcriptItems s)"]
  by (simp add: inv_defs row_key_def user_row_def placeholder_row_def)

lemma mid_inv_submitted:
  "mid_inv s \<Longrightarrow> mid_inv (s\<lparr>status := x, statusKind := k, streaming := True, streamPulse := 0,
     interruptArmed := False\<rparr>)"
  by (simp add: inv_defs)

lemma beginSubmission_inv: "mid_inv s \<Longrightarrow> mid_inv (beginSubmission W c es toks src s)"
  by (simp add: beginSubmission_def nextSubmissionID_def Let_def mid_inv_submitted
      resetComposer_inv mid_inv_begin)

lemma beginSubmission_frame [simp]:
  "submissionCounter (beginSubmission W c es toks src s) = submissionCounter s + 1"
  "streaming (beginSubmission W c es toks src s)"
  "queuedSubmissions (beginSubmission W c es toks src s) = queuedSubmissions s"
  "pendingSubmissions (beginSubmission W c es toks src s) = pendingSubmissions s"
  "pendingCmds (beginSubmission W c es toks src s) = pendingCmds s"
  "inputTokens (beginSubmission W c es toks src s) = []"
  "transcriptItems (beginSubmission W c es toks src s) = transcriptItems s @
     [user_row (submission_id (submissionCounter s + 1)) c es toks,
      placeholder_row (submission_id (submissionCounter s + 1))]"
  by (simp_all add: beginSubmission_def nextSubmissionID_def Let_def)

lemma beginSubmission_actions:
  "pendingActions (beginSubmission W c es toks src s) = pendingActions s @
     [SubmitTurnAction \<lparr>sub_ID = submission_id (submissionCounter s + 1), sub_Entries = es,
        sub_Text = trim_space c, sub_Tokens = toks, sub_Source = src, sub_RequestedAt = clock s\<rparr>]"
  by (simp add: beginSubmission_def nextSubmissionID_def Let_def nowOrDefault_def
      resetComposer_def syncInputHeight_def)

lemma beginSubmission_ok: "op_ok s (beginSubmission W c es toks src s)"
  by (auto simp: op_ok_def emits_ok_def beginSubmission_inv beginSubmission_actions)

lemma mid_inv_queue:
  "mid_inv s \<Longrightarrow> mid_inv (s\<lparr>queuedSubmissions := q, pendingSubmissions := []\<rparr>)"
  "mid_inv s \<Longrightarrow> mid_inv (s\<lparr>pendingSubmissions := []\<rparr>)"
  by (simp_all add: inv_defs)

text \<open>What a release does under the invariant: the whole queue, merged, is submitted.\<close>

lemma drainQueueIntoMerged_eq:
  "pendingSubmissions s = [] \<Longrightarrow> drainQueueIntoMerged s =
     (if queuedSubmissions s = [] then (s, None)
      else (s\<lparr>queuedSubmissions := [], pendingSubmissions := []\<rparr>,
            Some (mergeQueuedSubmissions (queuedSubmissions s))))"
  by (simp add: drainQueueIntoMerged_def Let_def)

lemma drainQueueIntoMerged_frame:
  assumes "drainQueueIntoMerged s = (s1, r)"
  shows "pendingActions s1 = pendingActions s" "submissionCounter s1 = submissionCounter s"
    "mid_inv s \<Longrightarrow> mid_inv s1"
  using assms
  by (auto simp: drainQueueIntoMerged_def Let_def mid_inv_queue split: if_splits)

lemma releaseQueuedSubmission_eq:
  "pendingSubmissions s = [] \<Longrightarrow> releaseQueuedSubmission W s =
     (if queuedSubmissions s = [] then s
      else beginSubmission W (qs_Text (mergeQueuedSubmissions (queuedSubmissions s)))
             (qs_Entries (mergeQueuedSubmissions (queuedSubmissions s)))
             (qs_Tokens (mergeQueuedSubmissions (queuedSubmissions s))) SourceQueueRelease
             (s\<lparr>queuedSubmissions := [], pendingSubmissions := []\<rparr>))"
  by (simp add: releaseQueuedSubmission_def drainQueueIntoMerged_eq)

lemma releaseQueuedSubmission_ok: "op_ok s (releaseQueuedSubmission W s)"
proof -
  obtain s1 r where d: "drainQueueIntoMerged s = (s1, r)" by (cases "drainQueueIntoMerged s")
  note f = drainQueueIntoMerged_frame [OF d]
  show ?thesis
  proof (cases r)
    case None
    with d f show ?thesis
      by (intro op_quiet_ok, intro op_quietI [where as = "[]"]) (auto simp: releaseQueuedSubmission_def)
  next
    case (Some m)
    with d have "releaseQueuedSubmission W s =
        beginSubmission W (qs_Text m) (qs_Entries m) (qs_Tokens m) SourceQueueRelease s1"
      by (simp add: releaseQueuedSubmission_def)
    with f show ?thesis
      by (auto intro: op_ok_trans_quiet [OF beginSubmission_ok])
  qed
qed

lemma dispatchHostCommand_ok: "op_quiet s (dispatchHostCommand W c s)"
  by (auto simp: dispatchHostCommand_def Let_def op_quiet_def resetComposer_inv
      split: prod.splits)

text \<open>
  The Enter key submits only when no run is streaming.  Both statements go through the same cases:
  a relation that the parts satisfy and that a quiet prefix does not disturb.
\<close>

lemma emitSubmitOnEnter_cases:
  assumes quiet: "\<And>s'. op_quiet s s' \<Longrightarrow> R s'"
    and idle: "\<And>s1 s'. \<not> streaming s \<Longrightarrow> op_ok s1 s' \<Longrightarrow> (mid_inv s \<Longrightarrow> mid_inv s1) \<Longrightarrow>
      submissionCounter s \<le> submissionCounter s1 \<Longrightarrow> pendingActions s1 = pendingActions s \<Longrightarrow> R s'"
  shows "R (fst (emitSubmitOnEnter W s))"
proof -
  let ?c = "trim_space (ta_Value (textarea W) (input s))"
  let ?s1 = "pushHistory ?c s"
  show ?thesis
  proof (cases "?c = [] \<and> inputTokens s = []")
    case True
    show ?thesis
    proof (rule currentPendingPermission_cases [of s])
      assume n: "currentPendingPermission s = (s, None)"
      have "R (releaseQueuedSubmission W (s\<lparr>status := x, statusKind := k\<rparr>))"
        if "\<not> streaming s" for x k
        by (rule idle [OF that releaseQueuedSubmission_ok]) simp_all
      with True n quiet [of s] show ?thesis by (simp add: emitSubmitOnEnter_def Let_def)
    next
      fix i assume i: "0 \<le> i" "i < int (length (pendingPermissions s))"
        "currentPendingPermission s = (s\<lparr>activePermissionIndex := i\<rparr>, Some (nat i))"
      have "op_quiet s (resolveActivePermission d (s\<lparr>activePermissionIndex := i\<rparr>))" for d
        by (rule op_quiet_trans [OF resolveActivePermission_ok]) (simp_all add: mid_inv_active i)
      with True i quiet show ?thesis by (simp add: emitSubmitOnEnter_def Let_def)
    qed
  next
    case False
    let ?s2 = "resetComposer W (enqueueSubmission ?c (inputTokens ?s1) ?s1)"
    have i: "mid_inv s \<Longrightarrow> mid_inv ?s2"
      using enqueueSubmission_ok [of ?s1 ?c "inputTokens ?s1"]
      by (simp add: op_quiet_def resetComposer_inv pushHistory_inv)
    have enq1: "R (releaseQueuedSubmission W ?s2)" if "\<not> streaming s"
      by (rule idle [OF that releaseQueuedSubmission_ok i]) simp_all
    have enq2: "R ?s2"
      by (rule quiet, rule op_quiet_trans [OF op_quiet_refl i]) simp_all
    have disp: "R (dispatchHostCommand W ?c ?s1)"
      by (rule quiet, rule op_quiet_trans [OF dispatchHostCommand_ok]) (simp_all add: pushHistory_inv)
    have beg: "R (beginSubmission W ?c [] toks SourceDirect ?s1)" if "\<not> streaming s" for toks
      by (rule idle [OF that beginSubmission_ok]) (simp_all add: pushHistory_inv)
    show ?thesis
      using disp enq1 enq2 beg unfolding emitSubmitOnEnter_def Let_def if_not_P [OF False] by simp
  qed
qed

lemma emitSubmitOnEnter_ok: "op_ok s (fst (emitSubmitOnEnter W s))"
  by (rule emitSubmitOnEnter_cases) (auto intro: op_quiet_ok op_ok_trans_quiet)

lemma emitSubmitOnEnter_quiet: "streaming s \<Longrightarrow> op_quiet s (fst (emitSubmitOnEnter W s))"
  by (rule emitSubmitOnEnter_cases) auto

subsection \<open>events.go\<close>

lemma mid_inv_activeRunID [simp]: "mid_inv (s\<lparr>activeRunID := x\<rparr>) = mid_inv s"
  by (simp add: inv_defs)

lemma mid_inv_label [simp]: "mid_inv (s\<lparr>label := x\<rparr>) = mid_inv s"
  by (simp add: inv_defs)

lemma mid_inv_runStartedAt [simp]: "mid_inv (s\<lparr>runStartedAt := x\<rparr>) = mid_inv s"
  by (simp add: inv_defs)

lemma mid_inv_ended:
  "mid_inv s \<Longrightarrow> mid_inv (s\<lparr>streaming := False, streamPulse := 0, interruptArmed := False\<rparr>)"
  by (simp add: inv_defs)

lemma mid_inv_streaming: "mid_inv s \<Longrightarrow> mid_inv (s\<lparr>streaming := True\<rparr>)"
  by (simp add: inv_defs)

lemma mid_inv_add_row:
  "mid_inv s \<Longrightarrow> ti_Role it \<noteq> RoleUser \<Longrightarrow> ti_SubmissionID it = [] \<Longrightarrow>
     mid_inv (s\<lparr>transcriptItems := transcriptItems s @ [it]\<rparr>)"
  by (auto simp: inv_defs row_key_def intro: keys_inv_other)

lemma assignRunIDToPlaceholder_inv [simp]:
  "mid_inv (assignRunIDToPlaceholder sid rid s) = mid_inv s"
  by (simp add: assignRunIDToPlaceholder_def keys_def row_key_def split: option.splits)

lemma assignRunIDToPlaceholder_frame [simp]:
  "pendingActions (assignRunIDToPlaceholder sid rid s) = pendingActions s"
  "submissionCounter (assignRunIDToPlaceholder sid rid s) = submissionCounter s"
  "queuedSubmissions (assignRunIDToPlaceholder sid rid s) = queuedSubmissions s"
  "streaming (assignRunIDToPlaceholder sid rid s) = streaming s"
  "pendingCmds (assignRunIDToPlaceholder sid rid s) = pendingCmds s"
  by (simp_all add: assignRunIDToPlaceholder_def split: option.splits)

lemma removePlaceholderForSubmission_inv:
  "mid_inv s \<Longrightarrow> mid_inv (removePlaceholderForSubmission sid s)"
proof -
  have "map row_key (filter (\<lambda>it. ti_SubmissionID it \<noteq> sid) xs) =
      filter (\<lambda>k. snd k \<noteq> sid) (map row_key xs)" for xs
    by (induction xs) (auto simp: row_key_def)
  then show "mid_inv s \<Longrightarrow> mid_inv (removePlaceholderForSubmission sid s)"
    by (simp add: removePlaceholderForSubmission_def inv_defs keys_inv_filter)
qed

lemma removePlaceholderForSubmission_frame [simp]:
  "pendingActions (removePlaceholderForSubmission sid s) = pendingActions s"
  "submissionCounter (removePlaceholderForSubmission sid s) = submissionCounter s"
  "queuedSubmissions (removePlaceholderForSubmission sid s) = queuedSubmissions s"
  "pendingCmds (removePlaceholderForSubmission sid s) = pendingCmds s"
  by (simp_all add: removePlaceholderForSubmission_def)

lemma startRunClock_inv [simp]: "mid_inv (startRunClock s) = mid_inv s"
  by (simp add: startRunClock_def Let_def split: option.splits)

lemma startRunClock_frame [simp]:
  "pendingActions (startRunClock s) = pendingActions s"
  "submissionCounter (startRunClock s) = submissionCounter s"
  "queuedSubmissions (startRunClock s) = queuedSubmissions s"
  "transcriptItems (startRunClock s) = transcriptItems s"
  by (simp_all add: startRunClock_def Let_def split: option.splits)

lemma correlateRun_inv: "mid_inv s \<Longrightarrow> mid_inv (correlateRun sid rid s)"
proof -
  assume "mid_inv s"
  then have "mid_inv (s\<lparr>activeRunID := rid, transcriptItems := transcriptItems s @ [replay_row rid]\<rparr>)"
    using mid_inv_add_row [of "s\<lparr>activeRunID := rid\<rparr>" "replay_row rid"]
    by (simp add: replay_row_def)
  with \<open>mid_inv s\<close> show ?thesis by (simp add: correlateRun_def Let_def)
qed

lemma correlateRun_frame [simp]:
  "pendingActions (correlateRun sid rid s) = pendingActions s"
  "submissionCounter (correlateRun sid rid s) = submissionCounter s"
  "queuedSubmissions (correlateRun sid rid s) = queuedSubmissions s"
  "streaming (correlateRun sid rid s) = streaming s"
  by (simp_all add: correlateRun_def Let_def)

lemma endRun_inv: "mid_inv s \<Longrightarrow> mid_inv (endRun rid s)"
  by (cases "assistantRowIndexForRun rid s")
    (simp_all add: endRun_def Let_def mid_inv_ended keys_def row_key_def)

lemma endRun_frame [simp]:
  "pendingActions (endRun rid s) = pendingActions s"
  "submissionCounter (endRun rid s) = submissionCounter s"
  "queuedSubmissions (endRun rid s) = queuedSubmissions s"
  "pendingSubmissions (endRun rid s) = pendingSubmissions s"
  "pendingCmds (endRun rid s) = pendingCmds s"
  "streaming (endRun rid s) = False"
  "interruptArmed (endRun rid s) = False"
  "runStartedAt (endRun rid s) = 0"
  "clock (endRun rid s) = clock s"
  by (simp_all add: endRun_def Let_def split: option.splits)

lemma endRun_ok: "op_quiet s ((endRun rid s)\<lparr>statusKind := k, status := x\<rparr>)"
  by (rule op_quietI [where as = "[]"]) (simp_all add: endRun_inv)

lemma applyPermissionRequested_inv:
  assumes "mid_inv s" shows "mid_inv (applyPermissionRequested req s)"
proof -
  have "mid_inv (s\<lparr>transcriptItems := transcriptItems s @ [it],
          pendingPermissions := pendingPermissions s @ [p],
          activePermissionIndex := int (length (pendingPermissions s)), statusKind := k, status := x\<rparr>)"
    if "ti_Role it \<noteq> RoleUser" "ti_SubmissionID it = []" "perm_SelectedAction p = 0" for it p k x
    using assms that by (auto simp: inv_defs row_key_def intro: keys_inv_other)
  with assms show ?thesis by (simp add: applyPermissionRequested_def Let_def)
qed

lemma applyPermissionResolved_ok: "op_quiet s (applyPermissionResolved rid out msg s)"
proof -
  define s1 where "s1 = (case find_index (isEventRowFor rid) (transcriptItems s) of
      None \<Rightarrow> s
    | Some i \<Rightarrow> s\<lparr>transcriptItems :=
        update_at i (setEventStatus (transcriptStatusForOutcome out)) (transcriptItems s)\<rparr>)"
  have s1: "mid_inv s1 = mid_inv s" "pendingActions s1 = pendingActions s"
    "submissionCounter s1 = submissionCounter s"
    by (simp_all add: s1_def keys_def row_key_def setEventStatus_def split: option.splits)
  obtain s2 b where s2: "removePendingPermissionByID rid s1 = (s2, b)"
    by (cases "removePendingPermissionByID rid s1")
  then have "mid_inv s \<Longrightarrow> mid_inv s2" "pendingActions s2 = pendingActions s"
    "submissionCounter s2 = submissionCounter s"
    using removePendingPermissionByID_inv [of s1 rid] removePendingPermissionByID_frame [of rid s1]
    by (simp_all add: s1)
  then show ?thesis
    by (intro op_quietI [where as = "[]"])
      (simp_all add: applyPermissionResolved_def Let_def s1_def [symmetric] s2)
qed

lemma applyRunCompleted_ok: "op_ok s (applyRunCompleted W rid s)"
proof -
  let ?s1 = "(endRun rid s)\<lparr>statusKind := StatusReady, status := ''Done''\<rparr>"
  have "op_ok s (releaseQueuedSubmission W ?s1)" "op_ok s ?s1"
    by (rule op_ok_trans_quiet [OF releaseQueuedSubmission_ok]; simp add: endRun_inv)
      (rule op_quiet_ok [OF op_quiet_trans [OF op_quiet_refl]]; simp add: endRun_inv)
  then show ?thesis by (simp add: applyRunCompleted_def Let_def)
qed

lemma applyRunStarted_ok: "op_quiet s (applyRunStarted sid rid lbl s)"
  by (rule op_quietI [where as = "[]"])
    (simp_all add: applyRunStarted_def Let_def correlateRun_inv mid_inv_streaming)

lemma applyHostInfo_inv: "mid_inv s \<Longrightarrow> mid_inv (applyHostInfo txt s)"
  by (simp add: applyHostInfo_def mid_inv_add_row)

lemma applyTranscriptClear_inv: "mid_inv s \<Longrightarrow> mid_inv (applyTranscriptClear s)"
  by (simp add: applyTranscriptClear_def inv_defs)

lemma applyHostEvent_quiet:
  assumes "\<And>rid. e \<noteq> RunCompletedEvent rid"
  shows "op_quiet s (applyHostEvent W e s)"
proof (cases e)
  case (RunStartedEvent)
  then show ?thesis by (simp add: applyHostEvent_def applyRunStarted_ok)
next
  case (RunCompletedEvent)
  with assms show ?thesis by blast
next
  case (PermissionResolvedEvent)
  then show ?thesis by (simp add: applyHostEvent_def applyPermissionResolved_ok)
next
  case (PermissionRequestedEvent)
  then show ?thesis
    by (intro op_quietI [where as = "[]"])
      (simp_all add: applyHostEvent_def applyPermissionRequested_inv,
       simp_all add: applyPermissionRequested_def Let_def)
next
  case (RunDeltaEvent)
  then show ?thesis
    by (intro op_quietI [where as = "[]"])
      (simp_all add: applyHostEvent_def applyRunDelta_def keys_def row_key_def split: option.splits)
next
  case (HostStatusEvent)
  then show ?thesis
    by (intro op_quietI [where as = "[]"])
      (simp_all add: applyHostEvent_def applyHostStatus_def Let_def split: option.splits)
next
  case (HostInfoEvent)
  then show ?thesis
    by (intro op_quietI [where as = "[]"])
      (simp_all add: applyHostEvent_def applyHostInfo_inv, simp_all add: applyHostInfo_def)
next
  case (TranscriptClearEvent)
  then show ?thesis
    by (intro op_quietI [where as = "[]"])
      (simp_all add: applyHostEvent_def applyTranscriptClear_inv,
       simp_all add: applyTranscriptClear_def)
next
  case (SubmissionFailedEvent sid msg)
  have "op_quiet s ((removePlaceholderForSubmission sid s)\<lparr>streaming := False, streamPulse := 0,
      interruptArmed := False, activeRunID := [], statusKind := k, status := x\<rparr>)" for k x
    by (rule op_quietI [where as = "[]"])
      (simp_all add: removePlaceholderForSubmission_inv mid_inv_ended)
  with SubmissionFailedEvent show ?thesis by (simp add: applyHostEvent_def applySubmissionFailed_def)
next
  case (RunStoppedEvent)
  then show ?thesis by (simp add: applyHostEvent_def applyRunStopped_def endRun_ok)
next
  case (RunFailedEvent)
  then show ?thesis by (simp add: applyHostEvent_def applyRunFailed_def endRun_ok)
next
  case (SubmissionAcceptedEvent)
  then show ?thesis
    by (intro op_quietI [where as = "[]"])
      (simp_all add: applyHostEvent_def applySubmissionAccepted_def)
next
  case (PreviewLoadedEvent)
  then show ?thesis
    by (intro op_quietI [where as = "[]"])
      (simp_all add: applyHostEvent_def applyPreviewLoaded_def Let_def)
qed

lemma applyHostEvent_ok: "op_ok s (applyHostEvent W e s)"
proof (cases e)
  case (RunCompletedEvent)
  then show ?thesis by (simp add: applyHostEvent_def applyRunCompleted_ok)
qed (auto intro: op_quiet_ok applyHostEvent_quiet)

subsection \<open>Key routing (model.go)\<close>

text \<open>No key but Enter touches the queue.\<close>

lemma queue_frames [frame_simps]:
  "queuedSubmissions (recallPreviousCommand W s) = queuedSubmissions s"
  "queuedSubmissions (recallNextCommand W s) = queuedSubmissions s"
  "queuedSubmissions (moveTranscriptRef d s) = queuedSubmissions s"
  "queuedSubmissions (moveTokenSelection d s) = queuedSubmissions s"
  "queuedSubmissions (handleInputMutation W p c s) = queuedSubmissions s"
  "queuedSubmissions (previewSelectedComposerToken s) = queuedSubmissions s"
  "queuedSubmissions (activateSelectedTranscriptRef s) = queuedSubmissions s"
  "queuedSubmissions (previewSelectedTranscriptRef s) = queuedSubmissions s"
  "queuedSubmissions (fst (currentPendingPermission s)) = queuedSubmissions s"
  "queuedSubmissions (fst (movePendingPermission d s)) = queuedSubmissions s"
  by (simp_all add: recallPreviousCommand_def recallNextCommand_def moveTranscriptRef_def
      moveTokenSelection_def handleInputMutation_def previewSelectedComposerToken_def
      activateSelectedTranscriptRef_def previewSelectedTranscriptRef_def
      currentPendingPermission_def movePendingPermission_def Let_def
      split: option.splits TokenKind.splits)

lemma queue_frames_permission [frame_simps]:
  "queuedSubmissions (resolveActivePermission dec s) = queuedSubmissions s"
  "queuedSubmissions (fst (movePermissionAction d s)) = queuedSubmissions s"
  by (rule currentPendingPermission_cases [of s];
      simp add: resolveActivePermission_def movePermissionAction_def Let_def)+

lemma queue_frame_toggle [frame_simps]:
  "queuedSubmissions (fst (toggleSelectMode W s)) = queuedSubmissions s"
  by (simp add: toggleSelectMode_def Let_def)

lemma toggleSelectMode_ok: "op_quiet s (fst (toggleSelectMode W s))"
  "actions_of (cmd_list (snd (toggleSelectMode W s))) = []"
proof -
  have m: "mid_inv (s\<lparr>mouseCaptureDisabled := x\<rparr>) = mid_inv s" for s :: "('a, 'b) state" and x
    by (simp add: inv_defs)
  show "op_quiet s (fst (toggleSelectMode W s))"
    by (rule op_quietI [where as = "[]"]) (simp_all add: toggleSelectMode_def Let_def m)
  show "actions_of (cmd_list (snd (toggleSelectMode W s))) = []"
    by (simp add: toggleSelectMode_def Let_def cmd_list_def)
qed

definition handled_ok :: "('ta, 'vp) state \<Rightarrow> ('ta, 'vp) state \<times> tea_Cmd option \<Rightarrow> bool" where
  "handled_ok s r = (op_ok s (fst r) \<and> actions_of (cmd_list (snd r)) = [])"

definition handled_quiet ::
  "('ta, 'vp) state \<Rightarrow> ('ta, 'vp) state \<times> tea_Cmd option \<Rightarrow> bool" where
  "handled_quiet s r = (op_quiet s (fst r) \<and> actions_of (cmd_list (snd r)) = [] \<and>
     queuedSubmissions (fst r) = queuedSubmissions s)"

lemma handled_quiet_ok: "handled_quiet s r \<Longrightarrow> handled_ok s r"
  by (simp add: handled_quiet_def handled_ok_def op_quiet_ok)

lemma handled_quiet_None [simp]:
  "handled_quiet s (s', None) = (op_quiet s s' \<and> queuedSubmissions s' = queuedSubmissions s)"
  by (simp add: handled_quiet_def cmd_list_def)

lemma handleEsc_ok: "handleEsc k s = Some r \<Longrightarrow> handled_quiet s r"
proof -
  have arm: "mid_inv s \<Longrightarrow> streaming s \<or> \<not> b \<Longrightarrow>
      mid_inv (s\<lparr>pendingActions := x, interruptArmed := b\<rparr>)"
    "mid_inv s \<Longrightarrow> streaming s \<Longrightarrow> mid_inv (s\<lparr>interruptArmed := True\<rparr>)" for b x
    by (auto simp: frame_simps inv_defs)
  show "handleEsc k s = Some r \<Longrightarrow> handled_quiet s r"
    by (auto simp: frame_simps handleEsc_def op_quiet_def arm split: if_splits)
qed

lemma handleTabScroll_ok: "handleTabScroll W k s = Some r \<Longrightarrow> handled_quiet s r"
  by (auto simp: frame_simps handleTabScroll_def Let_def op_quiet_def split: if_splits)

lemma handleCtrl_ok: "handleCtrl k s = Some r \<Longrightarrow> handled_quiet s r"
  by (auto simp: frame_simps handleCtrl_def Let_def moveTokenSelection_ok previewSelectedComposerToken_ok
      previewSelectedTranscriptRef_ok split: if_splits)

lemma handleTranscriptKey_ok: "handleTranscriptKey k s = Some r \<Longrightarrow> handled_quiet s r"
  by (auto simp: frame_simps handleTranscriptKey_def activateSelectedTranscriptRef_ok moveTranscriptRef_ok
      split: if_splits)

lemma newlineKey_ok: "handled_quiet s (newlineKey W s)"
  by (auto simp: frame_simps newlineKey_def op_quiet_def)

lemma handleArrows_ok: "handled_quiet s (snd (handleArrows W k s))"
  by (simp add: frame_simps handleArrows_def Let_def movePendingPermission_ok recallPreviousCommand_ok
      recallNextCommand_ok)

lemma handled_quiet_trans:
  assumes "handled_quiet s1 r" and "mid_inv s \<Longrightarrow> mid_inv s1"
    and "submissionCounter s \<le> submissionCounter s1" and "pendingActions s1 = pendingActions s"
    and "queuedSubmissions s1 = queuedSubmissions s"
  shows "handled_quiet s r"
  using assms by (auto simp: handled_quiet_def intro: op_quiet_trans)

lemma handlePermissionKey_ok: "handled_quiet s (snd (handlePermissionKey W k s))"
proof (rule currentPendingPermission_cases [of s])
  fix i assume i: "0 \<le> i" "i < int (length (pendingPermissions s))"
    "currentPendingPermission s = (s\<lparr>activePermissionIndex := i\<rparr>, Some (nat i))"
  let ?s1 = "s\<lparr>activePermissionIndex := i\<rparr>"
  have t: "handled_quiet ?s1 r \<Longrightarrow> handled_quiet s r" for r
    by (rule handled_quiet_trans [of ?s1]) (simp_all add: frame_simps mid_inv_active i)
  have t': "op_quiet ?s1 s2 \<Longrightarrow> op_quiet s s2" for s2
    by (erule op_quiet_trans) (simp_all add: mid_inv_active i)
  from i(3) show ?thesis
    by (simp add: frame_simps handlePermissionKey_def t [OF handleArrows_ok] handleArrows_ok
        t' resolveActivePermission_ok movePermissionAction_ok)
qed (simp add: frame_simps handlePermissionKey_def handleArrows_ok)

text \<open>An Enter that is not consumed has changed nothing that later parts look at.\<close>

lemma emitSubmitOnEnter_miss:
  "emitSubmitOnEnter W s = (s1, False) \<Longrightarrow> s1 = s"
proof (rule currentPendingPermission_cases [of s])
qed (auto simp: emitSubmitOnEnter_def Let_def split: if_splits)

lemma handleInputKey_cases:
  assumes quiet: "\<And>r. handled_quiet s r \<Longrightarrow> P r"
    and enter: "P (fst (emitSubmitOnEnter W s), None)"
  shows "P (snd (handleInputKey W k s))"
proof -
  let ?r = "emitSubmitOnEnter W s"
  have "P (snd (case ?r of (s1, True) \<Rightarrow> (True, s1, None)
      | (s1, False) \<Rightarrow> handlePermissionKey W k s1))"
    using enter emitSubmitOnEnter_miss [of W s] quiet [OF handlePermissionKey_ok [of s W k]]
    by (auto split: prod.splits bool.splits)
  moreover have "P ((syncInputHeight W (s\<lparr>input := ta_Reset (textarea W) (input s)\<rparr>))
      \<lparr>status := ''Exiting''\<rparr>, Some QuitCmd)"
    by (rule quiet) (auto simp: frame_simps handled_quiet_def cmd_list_def op_quiet_def)
  moreover have "P (toggleSelectMode W s)"
    by (rule quiet) (simp add: frame_simps handled_quiet_def toggleSelectMode_ok)
  ultimately show ?thesis
    by (simp add: frame_simps handleInputKey_def Let_def quiet newlineKey_ok handlePermissionKey_ok)
qed

lemma handleKey_cases:
  assumes quiet: "\<And>r. handled_quiet s r \<Longrightarrow> P r"
    and enter: "P (fst (emitSubmitOnEnter W s), None)"
  shows "P (snd (handleKey W k s))"
proof -
  have "P (s, None)" by (rule quiet) simp
  then show ?thesis
    using handleEsc_ok [of k s] handleTabScroll_ok [of W k s] handleCtrl_ok [of k s]
      handleTranscriptKey_ok [of k s] handleInputKey_cases [of s P W k, OF quiet enter]
    by (auto simp: handleKey_def quiet split: option.splits FocusZone.splits)
qed

lemma handleKey_ok: "handled_ok s (snd (handleKey W k s))"
  by (rule handleKey_cases [where P = "handled_ok s"])
    (simp_all add: handled_quiet_ok, simp add: handled_ok_def emitSubmitOnEnter_ok cmd_list_def)

lemma handleKey_quiet: "streaming s \<Longrightarrow> op_quiet s (fst (snd (handleKey W k s)))"
  by (rule handleKey_cases [where P = "\<lambda>r. op_quiet s (fst r)"])
    (simp_all add: emitSubmitOnEnter_quiet handled_quiet_def)

lemma routeKeyToFocus_ok: "handled_quiet s (routeKeyToFocus W k s)"
proof -
  have m: "op_quiet (s\<lparr>input := ta\<rparr>) s2 \<Longrightarrow> op_quiet s s2" for s2 ta
    by (erule op_quiet_trans) simp_all
  have "op_quiet s (syncInputHeight W (handleInputMutation W p c (s\<lparr>input := ta\<rparr>)))" for p c ta
    using m [OF handleInputMutation_ok] by (simp add: frame_simps op_quiet_def)
  moreover have "op_quiet s (s\<lparr>transcript := vp\<rparr>)" for vp
    by (rule op_quietI [where as = "[]"]) simp_all
  ultimately show ?thesis
    by (auto simp: frame_simps routeKeyToFocus_def Let_def handled_quiet_def cmd_list_def
        split: FocusZone.splits prod.splits option.splits)
qed

lemma handleMsg_other:
  assumes "\<And>k. msg \<noteq> TeaKeyMsg k" "\<And>e. msg \<noteq> HostEventMsg e"
  shows "op_quiet s (fst (handleMsg W msg s)) \<and> actions_of (snd (handleMsg W msg s)) = []"
proof (cases msg)
  case (WindowSizeMsg w h)
  have "mid_inv (s\<lparr>width := w, height := h, input := x, transcript := y\<rparr>) = mid_inv s" for x y
    by (simp add: inv_defs)
  with WindowSizeMsg show ?thesis
    by (auto simp: handleMsg_def op_quiet_def)
qed (use assms in \<open>auto simp: handleMsg_def Let_def op_quiet_def cmd_list_def
    split: prod.splits option.splits FocusZone.splits\<close>)

lemma handleMsg_ok: "op_ok s (fst (handleMsg W msg s)) \<and> actions_of (snd (handleMsg W msg s)) = []"
proof (cases msg)
  case (TeaKeyMsg k)
  with handleKey_ok [of s W k] routeKeyToFocus_ok [of s W k] show ?thesis
    by (auto simp: handleMsg_def handled_ok_def handled_quiet_def op_quiet_ok
        split: prod.splits bool.splits)
next
  case (HostEventMsg e)
  with applyHostEvent_ok [of s W e] show ?thesis by (simp add: handleMsg_def)
qed (use handleMsg_other [of msg s W] in \<open>simp_all add: op_quiet_ok\<close>)

lemma handleMsg_quiet:
  assumes "streaming s" "\<And>rid. msg \<noteq> HostEventMsg (RunCompletedEvent rid)"
  shows "op_quiet s (fst (handleMsg W msg s))"
proof (cases msg)
  case (TeaKeyMsg k)
  with handleKey_quiet [OF assms(1), of W k] routeKeyToFocus_ok [of s W k] show ?thesis
    by (auto simp: handleMsg_def handled_quiet_def split: prod.splits bool.splits)
next
  case (HostEventMsg e)
  with assms(2) applyHostEvent_quiet [of e s W] show ?thesis by (simp add: handleMsg_def)
qed (use handleMsg_other [of msg s W] in simp_all)

subsection \<open>The renderer's references\<close>

lemma renderUserTokens_refs:
  "snd (renderUserTokens L inp mi msg ti toks b refs) =
     refs @ map (\<lambda>j. \<lparr>ref_MessageIndex = int mi, ref_TokenIndex = int j\<rparr>) [ti..<ti + length toks]"
proof (induction toks arbitrary: ti b refs)
  case (Cons tok toks)
  have "[ti..<ti + length (tok # toks)] = ti # [Suc ti..<Suc ti + length toks]"
    by (simp add: upt_conv_Cons del: upt_Suc)
  then show ?case by (simp add: Let_def Cons.IH del: upt_Suc)
qed simp

definition message_refs :: "nat \<times> RenderMessage \<Rightarrow> TranscriptRef list" where
  "message_refs p = (if rm_Role (snd p) = ''user''
     then map (\<lambda>j. \<lparr>ref_MessageIndex = int (fst p), ref_TokenIndex = int j\<rparr>)
            [0..<length (rm_Tokens (snd p))]
     else [])"

lemma renderUserRow_refs:
  "snd (renderUserRow L inp mi msg refs w) =
     refs @ map (\<lambda>j. \<lparr>ref_MessageIndex = int mi, ref_TokenIndex = int j\<rparr>) [0..<length (rm_Tokens msg)]"
  using renderUserTokens_refs [of L inp mi msg 0 "rm_Tokens msg"]
  by (simp add: renderUserRow_def Let_def case_prod_unfold)

lemma renderMessages_refs:
  "snd (renderMessages L inp w i msgs b refs) = refs @ concat (map message_refs (enumerate i msgs))"
proof (induction msgs arbitrary: i b refs)
  case (Cons msg msgs)
  show ?case
    by (cases "rm_Role msg = ''user''")
      (simp_all add: Let_def Cons.IH message_refs_def renderUserRow_refs case_prod_unfold)
qed simp

lemma Role_string_user [simp]: "Role_string r = ''user'' \<longleftrightarrow> r = RoleUser"
  by (cases r) auto

lemma message_refs_projected:
  "concat (map message_refs (enumerate i (map transcriptItemToRender items))) =
   concat (map (\<lambda>(i, it). if ti_Role it = RoleUser
     then map (\<lambda>j. \<lparr>ref_MessageIndex = int i, ref_TokenIndex = int j\<rparr>) [0..<length (ti_Tokens it)]
     else []) (enumerate i items))"
  by (induction items arbitrary: i)
    (auto simp: message_refs_def transcriptItemToRender_def inputTokensToRender_def)

lemma Render_refs:
  "rr_TranscriptRefs (Render L (toRenderInput W s)) = token_refs (transcriptItems s)"
proof -
  have m: "ri_Messages (toRenderInput W s) = map transcriptItemToRender (transcriptItems s)"
    by (simp add: toRenderInput_def)
  show ?thesis
    by (simp add: Render_def Let_def case_prod_unfold renderMessages_refs m token_refs_def
        message_refs_projected)
qed

subsection \<open>The whole step\<close>

lemma refresh_frame [simp]:
  "pendingActions (refresh W L s) = pendingActions s"
  "pendingCmds (refresh W L s) = pendingCmds s"
  "submissionCounter (refresh W L s) = submissionCounter s"
  "transcriptItems (refresh W L s) = transcriptItems s"
  "queuedSubmissions (refresh W L s) = queuedSubmissions s"
  "streaming (refresh W L s) = streaming s"
  "transcriptRefs (refresh W L s) = token_refs (transcriptItems s)"
  by (simp_all add: refresh_def Let_def Render_refs)

lemma refresh_inv [simp]: "mid_inv (refresh W L s) = mid_inv s"
  by (simp add: refresh_def Let_def inv_defs)

lemma drainPendingActions_eq:
  "drainPendingActions s = (s\<lparr>pendingActions := []\<rparr>,
     if pendingActions s = [] then None else Some (ActionCmd (pendingActions s)))"
  by (simp add: drainPendingActions_def)

text \<open>\<open>Update\<close> in one line: the handler's state with both queues emptied, and refreshed.\<close>

lemma Update_eq:
  "fst (Update W L msg s) =
     refresh W L ((fst (handleMsg W msg s))\<lparr>pendingActions := [], pendingCmds := []\<rparr>)"
  by (simp add: Update_def drainPendingActions_eq split: prod.splits)

lemma Update_cmds:
  "snd (Update W L msg s) =
     snd (handleMsg W msg s)
     @ cmd_list (snd (drainPendingActions (fst (handleMsg W msg s))))
     @ pendingCmds (fst (handleMsg W msg s))"
  by (simp add: Update_def drainPendingActions_eq case_prod_unfold Let_def)

lemma Update_actions:
  assumes "mid_inv s"
  shows "actions_of (snd (Update W L msg s)) = pendingActions (fst (handleMsg W msg s))"
proof -
  let ?s1 = "fst (handleMsg W msg s)"
  from handleMsg_ok [of s W msg] assms have "mid_inv ?s1" by (simp add: op_ok_def)
  then have p: "actions_of (pendingCmds ?s1) = []" unfolding mid_inv_def sel_inv_def by blast
  from handleMsg_ok [of s W msg] have q: "actions_of (snd (handleMsg W msg s)) = []" by blast
  show ?thesis
    unfolding Update_cmds actions_of_simps p q drainPendingActions_eq
    by (simp add: cmd_list_def)
qed

lemma shell_inv_mid: "shell_inv s \<Longrightarrow> mid_inv s"
  by (simp add: shell_inv_def)

lemma mid_inv_clock [simp]: "mid_inv (s\<lparr>clock := t\<rparr>) = mid_inv s"
  by (simp add: inv_defs)

lemma shell_inv_clock [simp]: "shell_inv (s\<lparr>clock := t\<rparr>) = shell_inv s"
  by (simp add: shell_inv_def)

lemma Update_inv: "mid_inv s \<Longrightarrow> shell_inv (fst (Update W L msg s))"
proof -
  assume "mid_inv s"
  with handleMsg_ok [of s W msg] have m: "mid_inv (fst (handleMsg W msg s))" by (simp add: op_ok_def)
  then have "mid_inv ((fst (handleMsg W msg s))\<lparr>pendingActions := [], pendingCmds := []\<rparr>)"
    by (simp add: inv_defs)
  then show ?thesis by (simp add: shell_inv_def Update_eq)
qed

lemma New_inv: "shell_inv (New ta vp)"
  by (simp add: shell_inv_def New_def inv_defs token_refs_def)

end
