(* ===== verification/Shell_Props.thy ===== *)
theory Shell_Props
  imports Shell_Inv
begin

text \<open>
  What the conversation shell guarantees, over whole runs of its update loop and for each of the
  keys and events that move work between the composer, the queue, the transcript and the host.
\<close>

subsection \<open>Widgets for the concrete runs\<close>

text \<open>
  A composer that is its text and a viewport that is its offset: the smallest widgets that
  follow the documented behaviour of \<open>SetValue\<close>, \<open>Reset\<close>, \<open>Value\<close> and \<open>InsertRune\<close>.
\<close>

definition text_widgets :: "(string, int) widgets" where
  "text_widgets = \<lparr>
     textarea = \<lparr>ta_Value = (\<lambda>t. t), ta_SetValue = (\<lambda>v t. v), ta_Reset = (\<lambda>t. []),
       ta_SetHeight = (\<lambda>n t. t), ta_SetWidth = (\<lambda>n t. t), ta_CursorEnd = (\<lambda>t. t),
       ta_InsertRune = (\<lambda>c t. t @ [c]), ta_Focus = (\<lambda>t. t), ta_Blur = (\<lambda>t. t),
       ta_Update = (\<lambda>m t. (case m of TeaKeyMsg k \<Rightarrow> t @ key_String k | _ \<Rightarrow> t, None)),
       ta_View = (\<lambda>t. t)\<rparr>,
     viewport = \<lparr>vp_Width = (\<lambda>v. 80), vp_SetSize = (\<lambda>w h v. v), vp_PageUp = (\<lambda>v. v),
       vp_PageDown = (\<lambda>v. v), vp_ScrollUp = (\<lambda>n v. v), vp_ScrollDown = (\<lambda>n v. v),
       vp_Update = (\<lambda>m v. (v, None)), vp_AtBottom = (\<lambda>v. True), vp_TotalLineCount = (\<lambda>v. 0),
       vp_YOffset = (\<lambda>v. v), vp_SetContent = (\<lambda>c v. v), vp_GotoBottom = (\<lambda>v. v),
       vp_SetYOffset = (\<lambda>n v. n)\<rparr>\<rparr>"

definition plain_lipgloss :: lipgloss where
  "plain_lipgloss = \<lparr>lg_Render = (\<lambda>st w x. x), lg_Width = (\<lambda>x. int (length x)),
     lg_JoinVerticalLeft = join NL, lg_JoinHorizontalTop = concat, lg_JoinHorizontalLeft = concat\<rparr>"

definition enter_key :: KeyMsg where
  "enter_key = \<lparr>key_Type = KeyEnter, key_Alt = False, key_String = ''enter''\<rparr>"

definition esc_key :: KeyMsg where
  "esc_key = \<lparr>key_Type = KeyEsc, key_Alt = False, key_String = ''esc''\<rparr>"

definition typed :: "string \<Rightarrow> KeyMsg" where
  "typed x = \<lparr>key_Type = KeyOther, key_Alt = False, key_String = x\<rparr>"

subsection \<open>Runs of the update loop\<close>

definition submission_number :: "string \<Rightarrow> int" where
  "submission_number x = int (of_digits 0 (map (\<lambda>c. of_char c - 48) (drop 4 x)))"

lemma submission_number_id: "0 \<le> k \<Longrightarrow> submission_number (submission_id k) = k"
proof -
  assume k: "0 \<le> k"
  have "map (\<lambda>c. of_char c - 48) (map digit_char (digits n)) = digits n" for n
    by (rule trans [OF map_map map_idI]) (auto simp: digit_char_def dest!: digits_small)
  with k show ?thesis
    by (simp add: submission_number_def submission_id_def itoa_def nat_str_def of_digits_digits
        del: map_map)
qed

lemma step_counter:
  assumes "shell_inv s"
  shows "submissionCounter s \<le> submissionCounter (fst (shell_step W L s e)) \<and>
    (submit_ids (actions_of (snd (shell_step W L s e))) = [] \<or>
     (\<exists>k. submit_ids (actions_of (snd (shell_step W L s e))) = [submission_id k] \<and>
          submissionCounter s < k \<and> k \<le> submissionCounter (fst (shell_step W L s e)) \<and>
          streaming (fst (shell_step W L s e))))"
proof -
  let ?s = "s\<lparr>clock := fst e\<rparr>"
  have "mid_inv ?s" "pendingActions ?s = []" using assms by (simp_all add: shell_inv_def)
  moreover have "emits_ok ?s (fst (handleMsg W (snd e) ?s))"
    using handleMsg_ok [of ?s W "snd e"] by (simp add: op_ok_def)
  ultimately show ?thesis
    using Update_actions [of ?s W L "snd e"]
    by (auto simp: shell_step_def Update_eq emits_ok_def)
qed

lemma shell_inv_rest:
  "shell_inv s \<Longrightarrow> mid_inv (s\<lparr>clock := t\<rparr>) \<and> pendingActions s = [] \<and> pendingSubmissions s = []"
  by (simp add: shell_inv_def) (simp add: mid_inv_def sel_inv_def)

lemma counter_nonneg: "shell_inv s \<Longrightarrow> 0 \<le> submissionCounter s"
  by (simp add: shell_inv_def mid_inv_def rows_inv_def)

interpretation shell: ticket_machine "shell_step W L" shell_inv submissionCounter
  "\<lambda>cs. map submission_number (submit_ids (actions_of cs))" for W L
proof
  fix s :: "('a, 'b) state" and e
  assume i: "shell_inv s"
  then show "shell_inv (fst (shell_step W L s e))"
    by (simp add: shell_step_def Update_inv shell_inv_mid)
  note c = step_counter [OF i, of W L e] counter_nonneg [OF i]
  from c show "submissionCounter s \<le> submissionCounter (fst (shell_step W L s e))" by simp
  from c show "sorted_wrt (<) (map submission_number
      (submit_ids (actions_of (snd (shell_step W L s e)))))" by auto
  show "submissionCounter s < t \<and> t \<le> submissionCounter (fst (shell_step W L s e))"
    if "t \<in> set (map submission_number (submit_ids (actions_of (snd (shell_step W L s e)))))" for t
    using c that by (auto simp: submission_number_id)
qed simp_all

abbreviation shell_run ::
  "('ta, 'vp) widgets \<Rightarrow> lipgloss \<Rightarrow> ('ta, 'vp) state \<Rightarrow> (gotime \<times> tea_Msg) list
     \<Rightarrow> ('ta, 'vp) state \<times> tea_Cmd list" where
  "shell_run W L \<equiv> run_out (shell_step W L)"

text \<open>
  The transcript reference is put inside the references by every move and looked at only inside them.
  The code does not clamp it when rows with tokens are removed, so between two moves it may point past the last one.
\<close>

definition ref_selection_ok :: "('ta, 'vp) state \<Rightarrow> bool" where
  "ref_selection_ok s \<longleftrightarrow>
     (\<forall>d. transcriptRefs s \<noteq> [] \<longrightarrow>
        transcriptRefs (moveTranscriptRef d s) = transcriptRefs s \<and>
        in_range (selectedTranscriptRef (moveTranscriptRef d s)) (transcriptRefs s)) \<and>
     (\<forall>p. selectedTranscriptToken s = Some p \<longrightarrow> in_range (selectedTranscriptRef s) (transcriptRefs s))"

lemma ref_selection: "ref_selection_ok s"
  using clampIndex_bounds [of "transcriptRefs s"]
  by (auto simp: ref_selection_ok_def moveTranscriptRef_def selectedTranscriptToken_def in_range_def Let_def split: if_splits)

text \<open>
  C10: over every sequence of messages the shell keeps its invariant: the cursors of the history, of the
  composer's tokens and of the pending permissions, and the selected action of each permission, stay in range,
  the interrupt is armed only while a run streams, the transient merge buffer and both outbound queues
  are empty between updates, the transcript references are exactly the tokens of the user rows in
  display order, and rows and submission identifiers stay consistent.  The selected transcript
  reference is never below -1; every move puts it inside the references, and it is looked at only there.
\<close>

theorem shell_run_invariant:
  "shell_inv (fst (shell_run W L (New ta vp) es)) \<and> ref_selection_ok (fst (shell_run W L (New ta vp) es))"
  by (intro conjI shell.run_inv [OF New_inv] ref_selection)

text \<open>
  C19: the submissions the shell hands to the host over any run carry pairwise different
  identifiers, so a host can correlate every run event with one submission.
\<close>

theorem submission_ids_distinct:
  "distinct (submit_ids (actions_of (snd (shell_run W L (New ta vp) es))))"
  using shell.run_tickets_distinct [OF New_inv, of W L ta vp es] by (simp add: distinct_map)

lemma paired_nth:
  "paired ks \<Longrightarrow> i < length ks \<Longrightarrow> fst (ks ! i) = RoleUser \<Longrightarrow>
     Suc i < length ks \<and> fst (ks ! Suc i) = RoleAssistant \<and> snd (ks ! Suc i) = snd (ks ! i)"
proof (induction ks arbitrary: i rule: paired.induct)
  case (3 r a r2 a2 ks)
  show ?case
  proof (cases i)
    case 0
    with "3.prems" show ?thesis by auto
  next
    case (Suc j)
    show ?thesis
    proof (cases "r = RoleUser")
      case True
      with "3.prems" Suc obtain m where m: "j = Suc m" by (cases j) auto
      from "3.IH"(1) [OF True, of m] "3.prems" True Suc m show ?thesis by auto
    next
      case False
      with "3.IH"(2) [OF False, of j] "3.prems" Suc show ?thesis by auto
    qed
  qed
qed auto

lemma distinct_filter_nth:
  "distinct (map f (filter P xs)) \<Longrightarrow> i < length xs \<Longrightarrow> j < length xs \<Longrightarrow>
     P (xs ! i) \<Longrightarrow> P (xs ! j) \<Longrightarrow> f (xs ! i) = f (xs ! j) \<Longrightarrow> i = j"
proof (induction xs arbitrary: i j)
  case (Cons x xs)
  have other: "f (xs ! m) \<noteq> f x" if "m < length xs" "P (xs ! m)" "P x" for m
    using Cons.prems(1) that nth_mem [of m xs] by (auto simp: image_iff)
  from Cons show ?case
    by (cases i; cases j) (auto split: if_splits dest: other other [symmetric])
qed simp

text \<open>
  the user never sees a user row without its assistant row: at every moment each user row of
  the transcript is directly followed by an assistant row of the same submission, and no two user
  rows belong to the same submission.
\<close>

theorem user_row_has_placeholder:
  assumes "s = fst (shell_run W L (New ta vp) es)"
    and "i < length (transcriptItems s)" "ti_Role (transcriptItems s ! i) = RoleUser"
  shows "Suc i < length (transcriptItems s) \<and>
    ti_Role (transcriptItems s ! Suc i) = RoleAssistant \<and>
    ti_SubmissionID (transcriptItems s ! Suc i) = ti_SubmissionID (transcriptItems s ! i) \<and>
    (\<forall>j < length (transcriptItems s). ti_Role (transcriptItems s ! j) = RoleUser \<and>
       ti_SubmissionID (transcriptItems s ! j) = ti_SubmissionID (transcriptItems s ! i) \<longrightarrow> j = i)"
proof -
  let ?it = "transcriptItems s"
  from shell.run_inv [OF New_inv, of W L ta vp es] assms(1) have "keys_inv (submissionCounter s) (map row_key ?it)"
    by (auto simp: shell_inv_def mid_inv_def rows_inv_def keys_def)
  then have p: "paired (map row_key ?it)" and d: "distinct (user_ids (map row_key ?it))"
    by (simp_all add: keys_inv_def)
  from paired_nth [OF p, of i] assms(2,3) have
    "Suc i < length ?it \<and> fst (row_key (?it ! Suc i)) = RoleAssistant \<and>
     snd (row_key (?it ! Suc i)) = snd (row_key (?it ! i))"
    by (auto simp: row_key_def [of "?it ! i"])
  moreover have "j = i" if "j < length ?it" "ti_Role (?it ! j) = RoleUser"
    "ti_SubmissionID (?it ! j) = ti_SubmissionID (?it ! i)" for j
    using distinct_filter_nth [OF d [unfolded user_ids_def], of j i] that assms(2,3)
    by (simp add: row_key_def)
  ultimately show ?thesis by (simp add: row_key_def)
qed

theorem user_row_has_placeholder_witness:
  "let s = fst (shell_run text_widgets plain_lipgloss (New [] 0)
         [(1, TeaKeyMsg (typed ''hi'')), (2, TeaKeyMsg enter_key)])
   in Suc 0 < length (transcriptItems s) \<and> ti_Role (transcriptItems s ! Suc 0) = RoleAssistant"
proof -
  let ?s = "fst (shell_run text_widgets plain_lipgloss (New [] 0)
         [(1, TeaKeyMsg (typed ''hi'')), (2, TeaKeyMsg enter_key)])"
  have "0 < length (transcriptItems ?s) \<and> ti_Role (transcriptItems ?s ! 0) = RoleUser"
    by code_simp
  then show ?thesis
    using user_row_has_placeholder [OF refl, of 0 text_widgets plain_lipgloss "[]" 0
        "[(1, TeaKeyMsg (typed ''hi'')), (2, TeaKeyMsg enter_key)]"]
    by (simp only: Let_def simp_thms)
qed

lemma applyRunCompleted_unqueued:
  assumes "queuedSubmissions s = []" "pendingSubmissions s = []"
  shows "op_quiet s (applyRunCompleted W rid s)"
proof -
  have "queuedSubmissions (endRun rid s) = []" "pendingSubmissions (endRun rid s) = []"
    using assms by (simp_all add: endRun_def Let_def split: option.split)
  then show ?thesis by (intro op_quietI [where as = "[]"]) (simp_all add: applyRunCompleted_def Let_def endRun_inv)
qed

text \<open>
  C34: The shell submits work only when it is idle or told that a run has completed.  An update that emits a
  submission leaves the shell streaming, and started either idle or, with work in the queue, with a
  completion event; Enter, permissions, interrupts and every other event submit nothing while a run
  streams.  The code does not compare the run of the completion event with the one that streams, and the
  claim does not either: a completion of another run releases the queue as well.
\<close>

theorem submits_only_when_idle:
  assumes "shell_inv s"
    and "submit_ids (actions_of (snd (shell_step W L s (t, msg)))) \<noteq> []"
  shows "streaming (fst (shell_step W L s (t, msg))) \<and>
    (\<not> streaming s \<or> (\<exists>rid. msg = HostEventMsg (RunCompletedEvent rid)) \<and> queuedSubmissions s \<noteq> [])"
proof
  show "streaming (fst (shell_step W L s (t, msg)))"
    using step_counter [OF assms(1), of W L "(t, msg)"] assms(2) by auto
  show "\<not> streaming s \<or> (\<exists>rid. msg = HostEventMsg (RunCompletedEvent rid)) \<and> queuedSubmissions s \<noteq> []"
  proof (rule ccontr)
    assume n: "\<not> ?thesis"
    have "op_quiet (s\<lparr>clock := t\<rparr>) (fst (handleMsg W msg (s\<lparr>clock := t\<rparr>)))"
    proof (cases "\<exists>rid. msg = HostEventMsg (RunCompletedEvent rid)")
      case True
      then obtain rid where m: "msg = HostEventMsg (RunCompletedEvent rid)" by blast
      have "queuedSubmissions s = []" "pendingSubmissions s = []" using n True shell_inv_rest [OF assms(1)] by auto
      then show ?thesis by (simp add: m handleMsg_def applyHostEvent_def applyRunCompleted_unqueued)
    next
      case False
      with n show ?thesis by (intro handleMsg_quiet) auto
    qed
    with assms show False
      using Update_actions [of "s\<lparr>clock := t\<rparr>" W L msg]
      by (auto simp: shell_step_def op_quiet_def shell_inv_def)
  qed
qed

theorem submits_only_when_idle_witness:
  "streaming (fst (shell_step text_widgets plain_lipgloss (New ''hi'' 0) (2, TeaKeyMsg enter_key)))"
proof -
  have "submit_ids (actions_of (snd (shell_step text_widgets plain_lipgloss (New ''hi'' 0)
          (2, TeaKeyMsg enter_key)))) \<noteq> []"
    by code_simp
  from submits_only_when_idle [OF New_inv this] show ?thesis by blast
qed

text \<open>The run \<open>r2\<close> streams and a line is queued; the completion of \<open>r1\<close> submits it.\<close>

lemma stale_completion_submits:
  "submit_ids (actions_of (snd (shell_step text_widgets plain_lipgloss
     (fst (shell_run text_widgets plain_lipgloss (New ''hi'' 0)
        [(1, TeaKeyMsg enter_key), (2, HostEventMsg (RunStartedEvent ''sub-1'' ''r2'' [])),
         (3, TeaKeyMsg (typed ''more'')), (4, TeaKeyMsg enter_key)]))
     (5, HostEventMsg (RunCompletedEvent ''r1''))))) \<noteq> [] \<and>
   activeRunID (fst (shell_run text_widgets plain_lipgloss (New ''hi'' 0)
        [(1, TeaKeyMsg enter_key), (2, HostEventMsg (RunStartedEvent ''sub-1'' ''r2'' [])),
         (3, TeaKeyMsg (typed ''more'')), (4, TeaKeyMsg enter_key)])) = ''r2''"
  by code_simp

subsection \<open>The Enter key\<close>

text \<open>The Enter presses that reach the submit pipeline.\<close>

definition composer_enter :: "('ta, 'vp) widgets \<Rightarrow> KeyMsg \<Rightarrow> ('ta, 'vp) state \<Rightarrow> bool" where
  "composer_enter W k s =
     (key_Type k = KeyEnter \<and> \<not> key_Alt k \<and> focus s = FocusInput \<and> handleCtrl k s = None \<and>
      \<not> ((isShellNativeQuitCommand (ta_Value (textarea W) (input s)) \<or>
          isShellNativeSelectCommand (ta_Value (textarea W) (input s))) \<and> inputTokens s = []))"

lemma handleCtrl_None:
  "handleCtrl k s = None \<longleftrightarrow>
     (to_lower (key_String k) \<in> {''ctrl+n'', ''ctrl+p''} \<longrightarrow> \<not> (focus s = FocusInput \<and> inputTokens s \<noteq> [])) \<and>
     (to_lower (key_String k) = ''ctrl+o'' \<longrightarrow> \<not> (focus s = FocusInput \<and> inputTokens s \<noteq> []) \<and>
        \<not> (focus s = FocusTranscript \<and> transcriptRefs s \<noteq> []))"
  by (simp add: handleCtrl_def Let_def)

lemma composer_enter_clock [simp]: "composer_enter W k (s\<lparr>clock := t\<rparr>) = composer_enter W k s"
  by (simp add: composer_enter_def handleCtrl_None)

abbreviation composer_text :: "('ta, 'vp) widgets \<Rightarrow> ('ta, 'vp) state \<Rightarrow> string" where
  "composer_text W s \<equiv> trim_space (ta_Value (textarea W) (input s))"

lemma handleKey_enter:
  "composer_enter W k s \<Longrightarrow> handleKey W k s =
     (case emitSubmitOnEnter W s of (s1, True) \<Rightarrow> (True, s1, None)
      | (s1, False) \<Rightarrow> handlePermissionKey W k s1)"
  by (auto simp: composer_enter_def handleKey_def handleEsc_def handleTabScroll_def
      handleInputKey_def Let_def)

lemma emitSubmitOnEnter_hit:
  "composer_text W s \<noteq> [] \<or> inputTokens s \<noteq> [] \<Longrightarrow> snd (emitSubmitOnEnter W s)"
  by (auto simp: emitSubmitOnEnter_def Let_def)

lemma handleMsg_enter:
  assumes "composer_enter W k s" "composer_text W s \<noteq> [] \<or> inputTokens s \<noteq> []"
  shows "handleMsg W (TeaKeyMsg k) s = (fst (emitSubmitOnEnter W s), [])"
  using emitSubmitOnEnter_hit [OF assms(2)]
  by (cases "emitSubmitOnEnter W s") (simp add: handleMsg_def handleKey_enter [OF assms(1)] cmd_list_def)

lemma emitSubmitOnEnter_nonempty:
  assumes "composer_text W s \<noteq> [] \<or> inputTokens s \<noteq> []"
  shows "fst (emitSubmitOnEnter W s) =
    (let c = composer_text W s; s1 = pushHistory c s in
     if isSlashCommand c (inputTokens s) then dispatchHostCommand W c s1
     else if streaming s then resetComposer W (enqueueSubmission c (inputTokens s) s1)
     else if queuedSubmissions s \<noteq> [] \<or> pendingSubmissions s \<noteq> []
     then releaseQueuedSubmission W (resetComposer W (enqueueSubmission c (inputTokens s) s1))
     else beginSubmission W c [] (inputTokens s) SourceDirect s1)"
  using assms by (auto simp: emitSubmitOnEnter_def Let_def)

text \<open>
  what the user submits while a run streams waits its turn: Enter appends the trimmed text with
  its tokens to the end of the visible queue under the next identifier, empties the composer, and
  neither emits anything nor touches the transcript or the running stream.
\<close>

theorem enter_while_streaming_queues:
  assumes "shell_inv s" "streaming s" "composer_enter W k s"
    and "composer_text W s \<noteq> []" "\<not> isSlashCommand (composer_text W s) (inputTokens s)"
    and s': "s' = fst (shell_step W L s (t, TeaKeyMsg k))"
  shows "queuedSubmissions s' = queuedSubmissions s @
      [\<lparr>qs_ID = submission_id (submissionCounter s + 1), qs_Text = composer_text W s,
        qs_Tokens = inputTokens s,
        qs_Entries = (if trim_space (composer_text W s) = [] then [] else [composer_text W s])\<rparr>] \<and>
    inputTokens s' = [] \<and> transcriptItems s' = transcriptItems s \<and> streaming s' \<and>
    actions_of (snd (shell_step W L s (t, TeaKeyMsg k))) = []"
proof -
  let ?s = "s\<lparr>clock := t\<rparr>"
  have e: "composer_enter W k ?s" using assms(3) by simp
  have h: "fst (handleMsg W (TeaKeyMsg k) ?s) =
      resetComposer W (enqueueSubmission (composer_text W s) (inputTokens s)
        (pushHistory (composer_text W s) ?s))"
    using assms(2,4,5) handleMsg_enter [OF e] emitSubmitOnEnter_nonempty [of W ?s]
    by (simp add: Let_def)
  have a: "actions_of (snd (shell_step W L s (t, TeaKeyMsg k))) = []"
    using Update_actions [of ?s W L "TeaKeyMsg k"] assms(1)
    by (simp add: shell_step_def h shell_inv_def)
  have "inputTokens (refresh W L s1) = inputTokens s1" for s1
    by (simp add: refresh_def Let_def)
  with a show ?thesis
    by (simp add: s' shell_step_def Update_eq h assms(2))
      (simp add: enqueueSubmission_def nextSubmissionID_def Let_def)
qed

theorem enter_while_streaming_queues_witness:
  "let s = (New ''later'' (0::int))\<lparr>streaming := True\<rparr>
   in map qs_Text (queuedSubmissions (fst (shell_step text_widgets plain_lipgloss s
        (3, TeaKeyMsg enter_key)))) = [''later'']"
proof -
  let ?s = "(New ''later'' (0::int))\<lparr>streaming := True\<rparr>"
  have i: "shell_inv ?s" by (simp add: shell_inv_def New_def inv_defs token_refs_def)
  have c: "composer_enter text_widgets enter_key ?s" by code_simp
  have n: "composer_text text_widgets ?s \<noteq> []" by code_simp
  have l: "\<not> isSlashCommand (composer_text text_widgets ?s) (inputTokens ?s)" by code_simp
  have q: "queuedSubmissions ?s = []" by (simp add: New_def)
  have v: "composer_text text_widgets ?s = ''later''" by code_simp
  show ?thesis
    using enter_while_streaming_queues [OF i _ c n l refl, of plain_lipgloss 3]
    unfolding v q by (simp add: Let_def)
qed

text \<open>
  a slash command goes to the host at once, streaming or not: Enter emits exactly one host
  command with the name up to the first blank and the trimmed rest as its arguments, and leaves
  the queue, the transcript and the streaming state alone.
\<close>

theorem slash_command_dispatches:
  assumes "shell_inv s" "composer_enter W k s"
    and "isSlashCommand (composer_text W s) (inputTokens s)"
    and s': "s' = fst (shell_step W L s (t, TeaKeyMsg k))"
  shows "actions_of (snd (shell_step W L s (t, TeaKeyMsg k))) =
      [RunHostCommandAction
        \<lparr>cmd_Name = fst (splitCommand (drop 1 (composer_text W s))),
         cmd_Args = snd (splitCommand (drop 1 (composer_text W s))),
         cmd_Raw = composer_text W s\<rparr>] \<and>
    queuedSubmissions s' = queuedSubmissions s \<and> transcriptItems s' = transcriptItems s \<and>
    streaming s' = streaming s \<and> inputTokens s' = []"
proof -
  let ?s = "s\<lparr>clock := t\<rparr>" and ?c = "composer_text W s"
  have e: "composer_enter W k ?s" using assms(2) by simp
  from assms(3) have n: "?c \<noteq> []" by (auto simp: isSlashCommand_def)
  have h: "fst (handleMsg W (TeaKeyMsg k) ?s) = dispatchHostCommand W ?c (pushHistory ?c ?s)"
    using assms(3) n handleMsg_enter [OF e] emitSubmitOnEnter_nonempty [of W ?s]
    by (simp add: Let_def)
  have d: "trim_prefix ?c ''/'' = drop 1 ?c"
    using assms(3) by (simp add: isSlashCommand_def trim_prefix_def)
  have "inputTokens (refresh W L s1) = inputTokens s1" for s1
    by (simp add: refresh_def Let_def)
  then show ?thesis
    using Update_actions [of ?s W L "TeaKeyMsg k"] assms(1)
    by (simp add: s' shell_step_def Update_eq h shell_inv_def dispatchHostCommand_def d
        case_prod_unfold Let_def)
qed

theorem slash_command_dispatches_witness:
  "let s = (New ''/model  gpt '' (0::int))\<lparr>streaming := True\<rparr>
   in actions_of (snd (shell_step text_widgets plain_lipgloss s (3, TeaKeyMsg enter_key))) =
      [RunHostCommandAction \<lparr>cmd_Name = ''model'', cmd_Args = ''gpt'', cmd_Raw = ''/model  gpt''\<rparr>]"
proof -
  let ?s = "(New ''/model  gpt '' (0::int))\<lparr>streaming := True\<rparr>"
  have i: "shell_inv ?s" by (simp add: shell_inv_def New_def inv_defs token_refs_def)
  have c: "composer_enter text_widgets enter_key ?s" by code_simp
  have l: "isSlashCommand (composer_text text_widgets ?s) (inputTokens ?s)" by code_simp
  have v: "composer_text text_widgets ?s = ''/model  gpt''" by code_simp
  have p: "splitCommand (drop 1 ''/model  gpt'') = (''model'', ''gpt'')" by code_simp
  show ?thesis
    using slash_command_dispatches [OF i c l refl, of plain_lipgloss 3] p
    by (simp only: v Let_def fst_conv snd_conv simp_thms)
qed

subsection \<open>The queue is released whole and in order\<close>

text \<open>
  when the streaming run completes, everything that was queued meanwhile goes out as one
  submission: its entries and tokens are those of the queued items one after the other, its text
  the trimmed texts separated by an empty line; the queue is empty and the shell streams again.
\<close>

theorem run_completed_releases_queue:
  assumes "shell_inv s" "queuedSubmissions s \<noteq> []"
    and s': "s' = fst (shell_step W L s (t, HostEventMsg (RunCompletedEvent rid)))"
  shows "actions_of (snd (shell_step W L s (t, HostEventMsg (RunCompletedEvent rid)))) =
      [SubmitTurnAction
        \<lparr>sub_ID = submission_id (submissionCounter s + 1),
         sub_Entries = concat (map merge_entries (queuedSubmissions s)),
         sub_Text = trim_space (join [CHR 0x0A, CHR 0x0A]
                      (concat (map merge_parts (queuedSubmissions s)))),
         sub_Tokens = concat (map qs_Tokens (queuedSubmissions s)),
         sub_Source = SourceQueueRelease, sub_RequestedAt = t\<rparr>] \<and>
    queuedSubmissions s' = [] \<and> streaming s' \<and> activeRunID s' = []"
proof -
  let ?s = "s\<lparr>clock := t\<rparr>" and ?q = "queuedSubmissions s"
  let ?e = "(endRun rid ?s)\<lparr>statusKind := StatusReady, status := ''Done''\<rparr>"
  from shell_inv_rest [OF assms(1)]
  have p: "pendingSubmissions ?e = []" "mid_inv ?s" "pendingActions s = []" by simp_all
  have h: "fst (handleMsg W (HostEventMsg (RunCompletedEvent rid)) ?s) =
      beginSubmission W (qs_Text (mergeQueuedSubmissions ?q)) (qs_Entries (mergeQueuedSubmissions ?q))
        (qs_Tokens (mergeQueuedSubmissions ?q)) SourceQueueRelease
        (?e\<lparr>queuedSubmissions := [], pendingSubmissions := []\<rparr>)"
    using assms(2) p by (simp add: handleMsg_def applyHostEvent_def applyRunCompleted_def Let_def
        releaseQueuedSubmission_eq)
  have ids: "activeRunID (beginSubmission W c es toks src s1) = activeRunID s1"
    "activeRunID (refresh W L s1) = activeRunID s1" for c es toks src s1
    by (simp_all add: beginSubmission_def nextSubmissionID_def resetComposer_def
        syncInputHeight_def refresh_def Let_def)
  have "activeRunID ?e = []" by (simp add: endRun_def Let_def)
  then show ?thesis
    using Update_actions [OF p(2), of W L "HostEventMsg (RunCompletedEvent rid)"] p(3)
    by (simp add: s' shell_step_def Update_eq h ids beginSubmission_actions
        mergeQueuedSubmissions_eq)
qed

theorem run_completed_releases_queue_witness:
  "let s = (New ''later'' (0::int))\<lparr>streaming := True\<rparr>;
       s1 = fst (shell_step text_widgets plain_lipgloss s (3, TeaKeyMsg enter_key))
   in submit_ids (actions_of (snd (shell_step text_widgets plain_lipgloss s1
        (4, HostEventMsg (RunCompletedEvent ''r1''))))) = [''sub-2'']"
proof -
  let ?s = "(New ''later'' (0::int))\<lparr>streaming := True\<rparr>"
  let ?s1 = "fst (shell_step text_widgets plain_lipgloss ?s (3, TeaKeyMsg enter_key))"
  have "shell_inv ?s" by (simp add: shell_inv_def New_def inv_defs token_refs_def)
  then have i: "shell_inv ?s1" by (rule shell.step_inv)
  have q: "queuedSubmissions ?s1 \<noteq> []" by code_simp
  have n: "submission_id (submissionCounter ?s1 + 1) = ''sub-2''" by code_simp
  show ?thesis
    using run_completed_releases_queue [OF i q refl, of text_widgets plain_lipgloss 4 "''r1''"]
    by (simp add: Let_def n)
qed

text \<open>
  a stopped or failed run does not resume by itself: the queue keeps every follow-up, nothing
  is emitted, and the shell is idle with the interrupt disarmed, so the next Enter decides.
\<close>

theorem stop_keeps_queue:
  assumes "shell_inv s" "e = RunStoppedEvent rid reason msg \<or> e = RunFailedEvent rid msg"
    and s': "s' = fst (shell_step W L s (t, HostEventMsg e))"
  shows "actions_of (snd (shell_step W L s (t, HostEventMsg e))) = [] \<and>
    queuedSubmissions s' = queuedSubmissions s \<and> \<not> streaming s' \<and> \<not> interruptArmed s' \<and>
    runStartedAt s' = 0"
proof -
  have r: "interruptArmed (refresh W L s1) = interruptArmed s1"
    "runStartedAt (refresh W L s1) = runStartedAt s1" for s1
    by (simp_all add: refresh_def Let_def)
  from assms(1,2) show ?thesis
    using Update_actions [of "s\<lparr>clock := t\<rparr>" W L "HostEventMsg e"]
    by (auto simp: s' shell_step_def Update_eq handleMsg_def applyHostEvent_def applyRunStopped_def
        applyRunFailed_def r shell_inv_def)
qed

theorem stop_keeps_queue_witness:
  "let s = (New ''later'' (0::int))\<lparr>streaming := True\<rparr>;
       s1 = fst (shell_step text_widgets plain_lipgloss s (3, TeaKeyMsg enter_key));
       s2 = fst (shell_step text_widgets plain_lipgloss s1
              (4, HostEventMsg (RunStoppedEvent ''r'' StopReasonInterrupt [])))
   in \<not> streaming s2 \<and> map qs_Text (queuedSubmissions s2) = [''later'']"
proof -
  let ?s = "(New ''later'' (0::int))\<lparr>streaming := True\<rparr>"
  let ?s1 = "fst (shell_step text_widgets plain_lipgloss ?s (3, TeaKeyMsg enter_key))"
  have "shell_inv ?s" by (simp add: shell_inv_def New_def inv_defs token_refs_def)
  then have i: "shell_inv ?s1" by (rule shell.step_inv)
  have q: "map qs_Text (queuedSubmissions ?s1) = [''later'']" by code_simp
  show ?thesis
    using stop_keeps_queue [OF i disjI1 [OF refl] refl,
        of text_widgets plain_lipgloss 4 "''r''" StopReasonInterrupt "[]"] q
    by (simp only: Let_def simp_thms)
qed

end
