(* ===== verification/Shell_Flow.thy ===== *)
theory Shell_Flow
  imports Shell_Props
begin

text \<open>
  Laws over sequences of messages: nothing the user submits is lost, duplicated or reordered on
  its way through composer, queue and host; streamed text accumulates on the row of its run; the
  interrupt needs two presses; the history recall is undone by its reverse; permissions are
  answered one by one.
\<close>

subsection \<open>Conservation of submitted text\<close>

definition queue_texts :: "('ta, 'vp) state \<Rightarrow> string list" where
  "queue_texts s = concat (map merge_entries (queuedSubmissions s))"

fun action_texts :: "Action \<Rightarrow> string list" where
  "action_texts (SubmitTurnAction sub) =
     (if sub_Source sub = SourceDirect then (if sub_Text sub = [] then [] else [sub_Text sub])
      else sub_Entries sub)"
| "action_texts _ = []"

definition actions_texts :: "Action list \<Rightarrow> string list" where
  "actions_texts as = concat (map action_texts as)"

lemma actions_texts_simps [simp]:
  "actions_texts [] = []"
  "actions_texts (a # as) = action_texts a @ actions_texts as"
  "actions_texts (as @ bs) = actions_texts as @ actions_texts bs"
  by (simp_all add: actions_texts_def)

text \<open>The text a message makes the shell accept for submission, if any.\<close>

definition accepted_texts :: "('ta, 'vp) widgets \<Rightarrow> tea_Msg \<Rightarrow> ('ta, 'vp) state \<Rightarrow> string list" where
  "accepted_texts W msg s =
     (case msg of
        TeaKeyMsg k \<Rightarrow>
          (if composer_enter W k s \<and> composer_text W s \<noteq> []
              \<and> \<not> isSlashCommand (composer_text W s) (inputTokens s)
           then [composer_text W s] else [])
      | _ \<Rightarrow> [])"

fun accepted_run ::
  "('ta, 'vp) widgets \<Rightarrow> lipgloss \<Rightarrow> ('ta, 'vp) state \<Rightarrow> (gotime \<times> tea_Msg) list \<Rightarrow> string list" where
  "accepted_run W L s [] = []"
| "accepted_run W L s (e # es) =
     accepted_texts W (snd e) s @ accepted_run W L (fst (shell_step W L s e)) es"

lemma submit_ids_texts: "submit_ids as = [] \<Longrightarrow> actions_texts as = []"
  by (induction as rule: submit_ids.induct) auto

text \<open>The law of one operation: the texts it emits and those it leaves queued.\<close>

definition flow :: "('ta, 'vp) state \<Rightarrow> string list \<Rightarrow> ('ta, 'vp) state \<Rightarrow> bool" where
  "flow s acc s' =
     (\<exists>as. pendingActions s' = pendingActions s @ as \<and>
           queue_texts s @ acc = actions_texts as @ queue_texts s')"

lemma flow_quiet:
  "op_quiet s s' \<Longrightarrow> queuedSubmissions s' = queuedSubmissions s \<Longrightarrow> flow s [] s'"
  by (auto simp: flow_def op_quiet_def queue_texts_def submit_ids_texts)

lemma space_len_prefix: "space_len y \<noteq> 0 \<Longrightarrow> space_len (y @ z) \<noteq> 0"
  by (cases y rule: space_len.cases; cases z; cases "tl z") (auto split: if_splits)

lemma trim_right_prefix: "\<exists>z. x = trim_right x @ z"
proof -
  have "\<exists>z. r = z @ drop_runes f r" for f r
  proof (induction f r rule: drop_runes.induct)
    case (1 f s)
    show ?case
    proof (cases "s = [] \<or> f s = 0")
      case True
      then show ?thesis by (auto simp: drop_runes.simps [of f s])
    next
      case False
      with 1 obtain z where "drop (f s) s = z @ drop_runes f (drop (f s) s)" by blast
      then have "s = (take (f s) s @ z) @ drop_runes f s"
        using False by (metis append_assoc append_take_drop_id drop_runes.simps)
      then show ?thesis by blast
    qed
  qed
  then obtain z where "rev x = z @ drop_runes space_len_rev (rev x)" by blast
  then have "x = rev (drop_runes space_len_rev (rev x)) @ rev z" by (metis rev_append rev_rev_ident)
  then show ?thesis unfolding trim_right_def by blast
qed

lemma trim_space_idem [simp]: "trim_space (trim_space x) = trim_space x"
proof -
  let ?l = "trim_left x"
  obtain z where z: "?l = trim_right ?l @ z" using trim_right_prefix by blast
  have "trim_left (trim_right ?l) = trim_right ?l"
  proof (cases "trim_right ?l = [] \<or> space_len (trim_right ?l) = 0")
    case True
    then show ?thesis by (auto simp: trim_left_def drop_runes.simps)
  next
    case False
    with space_len_prefix [of "trim_right ?l" z] z have "space_len ?l \<noteq> 0" by simp
    moreover from False z have "?l \<noteq> []" by (metis append_is_Nil_conv)
    ultimately show ?thesis using drop_runes_stop [of space_len x] by (auto simp: trim_left_def)
  qed
  then show ?thesis by (simp add: trim_space_def trim_right_def)
qed

lemma queue_texts_enqueue:
  "queue_texts (enqueueSubmission c toks s) =
     queue_texts s @ (if trim_space c = [] then [] else [c])"
  by (simp add: queue_texts_def enqueueSubmission_def nextSubmissionID_def Let_def merge_entries_def)

lemma queue_texts_frame [simp]:
  "queue_texts (pushHistory c s) = queue_texts s"
  "queue_texts (resetComposer W s) = queue_texts s"
  by (simp_all add: queue_texts_def)

lemma flow_release:
  assumes "pendingSubmissions s1 = []" "pendingActions s1 = pendingActions s"
    and "queue_texts s1 = queue_texts s @ acc"
  shows "flow s acc (releaseQueuedSubmission W s1)"
  using assms
  by (auto simp: flow_def releaseQueuedSubmission_eq beginSubmission_actions
      mergeQueuedSubmissions_eq queue_texts_def)

lemma flow_emitSubmitOnEnter:
  assumes "pendingSubmissions s = []"
  shows "flow s (if composer_text W s \<noteq> [] \<and> \<not> isSlashCommand (composer_text W s) (inputTokens s)
                 then [composer_text W s] else [])
           (fst (emitSubmitOnEnter W s))"
proof (cases "composer_text W s \<noteq> [] \<or> inputTokens s \<noteq> []")
  case False
  have acc: "(if composer_text W s \<noteq> [] \<and> \<not> isSlashCommand (composer_text W s) (inputTokens s)
      then [composer_text W s] else []) = []" using False by simp
  show ?thesis unfolding acc
  proof (rule currentPendingPermission_cases [of s])
    assume n: "currentPendingPermission s = (s, None)"
    have "flow s [] (releaseQueuedSubmission W (s\<lparr>status := x, statusKind := k\<rparr>))" for x k
      by (rule flow_release) (simp_all add: assms queue_texts_def)
    with False n show "flow s [] (fst (emitSubmitOnEnter W s))"
      by (simp add: emitSubmitOnEnter_def Let_def flow_quiet)
  next
    fix i assume i: "0 \<le> i" "i < int (length (pendingPermissions s))"
      "currentPendingPermission s = (s\<lparr>activePermissionIndex := i\<rparr>, Some (nat i))"
    have "flow s [] (resolveActivePermission d (s\<lparr>activePermissionIndex := i\<rparr>))" for d
      by (rule flow_quiet, rule op_quiet_trans [OF resolveActivePermission_ok])
        (simp_all add: mid_inv_active i frame_simps)
    with False i show "flow s [] (fst (emitSubmitOnEnter W s))"
      by (simp add: emitSubmitOnEnter_def Let_def)
  qed
next
  case True
  let ?c = "composer_text W s"
  have "flow s (if ?c = [] then [] else [?c])
      (releaseQueuedSubmission W (resetComposer W
        (enqueueSubmission ?c (inputTokens s) (pushHistory ?c s))))"
    by (rule flow_release) (simp_all add: assms queue_texts_enqueue)
  moreover have "flow s [] (dispatchHostCommand W ?c (pushHistory ?c s))"
    by (auto simp: flow_def dispatchHostCommand_def Let_def queue_texts_def split: prod.splits)
  moreover have "flow s (if ?c = [] then [] else [?c])
      (resetComposer W (enqueueSubmission ?c (inputTokens s) (pushHistory ?c s)))"
    by (simp add: flow_def queue_texts_enqueue)
  moreover have "flow s (if ?c = [] then [] else [?c])
      (beginSubmission W ?c [] (inputTokens s) SourceDirect (pushHistory ?c s))"
    if "queuedSubmissions s = []"
    using that by (auto simp: flow_def beginSubmission_actions queue_texts_def)
  moreover have "\<not> isSlashCommand [] (inputTokens s)"
    by (simp add: isSlashCommand_def)
  ultimately show ?thesis
    unfolding emitSubmitOnEnter_nonempty [OF True] Let_def
    by (cases "isSlashCommand ?c (inputTokens s)"; cases "?c = []"; cases "streaming s";
        cases "queuedSubmissions s = []") (simp_all add: assms)
qed

text \<open>The other keys and events emit no text; they leave the queue as it is or end a run.\<close>

lemma not_composer_enter_quiet:
  assumes "\<not> composer_enter W k s"
  shows "handled_quiet s (snd (handleKey W k s))"
proof -
  have "handled_quiet s (s, None)" by simp
  moreover have "handled_quiet s (snd (handleInputKey W k s))"
    if "handleEsc k s = None" "handleTabScroll W k s = None" "handleCtrl k s = None"
      "focus s = FocusInput"
  proof (cases "key_Type k = KeyEnter \<and> \<not> key_Alt k")
    case True
    with assms that have q: "(isShellNativeQuitCommand (ta_Value (textarea W) (input s)) \<or>
        isShellNativeSelectCommand (ta_Value (textarea W) (input s))) \<and> inputTokens s = []"
      by (auto simp: composer_enter_def)
    have "handled_quiet s ((syncInputHeight W (s\<lparr>input := ta_Reset (textarea W) (input s)\<rparr>))
        \<lparr>status := ''Exiting''\<rparr>, Some QuitCmd)"
      by (auto simp: handled_quiet_def cmd_list_def op_quiet_def)
    moreover have "handled_quiet s (toggleSelectMode W s)"
      by (simp add: handled_quiet_def toggleSelectMode_ok frame_simps)
    ultimately show ?thesis using True q by (auto simp: handleInputKey_def Let_def)
  next
    case False
    then show ?thesis by (auto simp: handleInputKey_def newlineKey_ok handlePermissionKey_ok)
  qed
  ultimately show ?thesis
    using handleEsc_ok [of k s] handleTabScroll_ok [of W k s] handleCtrl_ok [of k s]
      handleTranscriptKey_ok [of k s]
    by (auto simp: handleKey_def split: option.splits FocusZone.splits)
qed

lemma flow_key:
  assumes "pendingSubmissions s = []"
  shows "flow s (accepted_texts W (TeaKeyMsg k) s) (fst (handleMsg W (TeaKeyMsg k) s))"
proof (cases "composer_enter W k s")
  case True
  show ?thesis
  proof (cases "snd (emitSubmitOnEnter W s)")
    case hit: True
    then have "fst (handleMsg W (TeaKeyMsg k) s) = fst (emitSubmitOnEnter W s)"
      by (cases "emitSubmitOnEnter W s")
        (simp add: handleMsg_def handleKey_enter [OF True] cmd_list_def)
    with flow_emitSubmitOnEnter [OF assms, of W] True show ?thesis
      by (simp add: accepted_texts_def)
  next
    case False
    then have e: "emitSubmitOnEnter W s = (s, False)"
      using emitSubmitOnEnter_miss [of W s "fst (emitSubmitOnEnter W s)"] by (metis prod.collapse)
    from emitSubmitOnEnter_hit [of W s] False have "composer_text W s = []" by auto
    moreover have "handleKey W k s = handlePermissionKey W k s"
      using True e by (simp add: handleKey_enter)
    ultimately show ?thesis
      using handlePermissionKey_ok [of s W k] routeKeyToFocus_ok [of s W k]
      by (auto simp: accepted_texts_def handleMsg_def handled_quiet_def flow_quiet
          split: prod.splits bool.splits)
  qed
next
  case False
  with not_composer_enter_quiet [OF False] routeKeyToFocus_ok [of s W k] show ?thesis
    by (auto simp: accepted_texts_def handleMsg_def handled_quiet_def flow_quiet
        split: prod.splits bool.splits)
qed

lemma applyHostEvent_queue:
  assumes "\<And>rid. e \<noteq> RunCompletedEvent rid" "e \<noteq> TranscriptClearEvent"
  shows "queuedSubmissions (applyHostEvent W e s) = queuedSubmissions s"
proof (cases e)
  case (PermissionResolvedEvent rid out msg)
  have "queuedSubmissions (fst (removePendingPermissionByID rid s1)) = queuedSubmissions s1"
    for s1 :: "('a, 'b) state" by simp
  with PermissionResolvedEvent show ?thesis
    by (auto simp: applyHostEvent_def applyPermissionResolved_def Let_def case_prod_unfold
        split: option.splits)
qed (use assms in \<open>auto simp: applyHostEvent_def applySubmissionAccepted_def applySubmissionFailed_def
    applyRunStarted_def applyRunDelta_def applyRunStopped_def applyRunFailed_def
    applyPermissionRequested_def applyPreviewLoaded_def applyHostStatus_def applyHostInfo_def
    Let_def split: option.splits\<close>)

lemma flow_event:
  assumes "pendingSubmissions s = []" "e \<noteq> TranscriptClearEvent"
  shows "flow s [] (applyHostEvent W e s)"
proof (cases "\<exists>rid. e = RunCompletedEvent rid")
  case True
  then obtain rid where e: "e = RunCompletedEvent rid" by blast
  let ?s1 = "(endRun rid s)\<lparr>statusKind := StatusReady, status := ''Done''\<rparr>"
  have "flow s [] (releaseQueuedSubmission W ?s1)"
    by (rule flow_release) (simp_all add: assms queue_texts_def)
  then show ?thesis
    by (simp add: e applyHostEvent_def applyRunCompleted_def Let_def)
      (simp add: flow_def queue_texts_def)
next
  case False
  with assms show ?thesis
    by (intro flow_quiet applyHostEvent_quiet applyHostEvent_queue) auto
qed

lemma flow_step:
  assumes "shell_inv s" "snd e \<noteq> HostEventMsg TranscriptClearEvent"
  shows "queue_texts s @ accepted_texts W (snd e) s =
    actions_texts (actions_of (snd (shell_step W L s e))) @ queue_texts (fst (shell_step W L s e))"
proof -
  let ?s = "s\<lparr>clock := fst e\<rparr>"
  from shell_inv_rest [OF assms(1)] have
    i: "mid_inv ?s" "pendingActions ?s = []" "pendingSubmissions ?s = []" by simp_all
  have acc: "accepted_texts W (snd e) ?s = accepted_texts W (snd e) s"
    by (simp add: accepted_texts_def split: tea_Msg.splits)
  have "flow ?s (accepted_texts W (snd e) ?s) (fst (handleMsg W (snd e) ?s))"
  proof (cases "snd e")
    case (TeaKeyMsg k)
    with flow_key [OF i(3)] show ?thesis by simp
  next
    case (HostEventMsg ev)
    with flow_event [OF i(3)] assms(2) show ?thesis
      by (simp add: accepted_texts_def handleMsg_def)
  qed (use handleMsg_other [of "snd e" ?s W] in
        \<open>auto simp: accepted_texts_def intro!: flow_quiet,
         auto simp: handleMsg_def Let_def split: prod.splits FocusZone.splits\<close>)
  then show ?thesis
    unfolding acc using i Update_actions [OF i(1), of W L "snd e"]
    by (simp add: flow_def shell_step_def Update_eq queue_texts_def)
qed

text \<open>
  C1: no follow-up is lost, duplicated or reordered: over any run without a transcript clear, the
  texts in the submissions the host received followed by the texts still queued are exactly the
  texts the user submitted, in the order in which Enter was pressed, however runs complete, stop
  or fail in between.
\<close>

theorem submitted_text_conserved:
  assumes "\<forall>e \<in> set es. snd e \<noteq> HostEventMsg TranscriptClearEvent"
  shows "actions_texts (actions_of (snd (shell_run W L (New ta vp) es)))
      @ queue_texts (fst (shell_run W L (New ta vp) es)) = accepted_run W L (New ta vp) es"
proof -
  have "shell_inv s \<Longrightarrow> queue_texts s @ accepted_run W L s es =
      actions_texts (actions_of (snd (shell_run W L s es))) @ queue_texts (fst (shell_run W L s es))"
    for s using assms
  proof (induction es arbitrary: s)
    case (Cons e es)
    let ?s1 = "fst (shell_step W L s e)"
    have "shell_inv ?s1" using Cons.prems(1) by (rule shell.step_inv)
    with Cons have "queue_texts ?s1 @ accepted_run W L ?s1 es =
        actions_texts (actions_of (snd (shell_run W L ?s1 es)))
        @ queue_texts (fst (shell_run W L ?s1 es))" by simp
    with flow_step [OF Cons.prems(1), of e W L] Cons.prems(2) show ?case
      by (simp add: case_prod_unfold Let_def) (metis append.assoc)
  qed simp
  from this [OF New_inv] show ?thesis by (simp add: queue_texts_def New_def)
qed

theorem submitted_text_conserved_witness:
  "let es = [(1, TeaKeyMsg (typed ''one'')), (2, TeaKeyMsg enter_key),
             (3, TeaKeyMsg (typed ''two'')), (4, TeaKeyMsg enter_key),
             (5, HostEventMsg (RunCompletedEvent ''r''))]
   in actions_texts (actions_of (snd (shell_run text_widgets plain_lipgloss (New [] 0) es))) =
      [''one'', ''two'']"
proof -
  let ?es = "[(1, TeaKeyMsg (typed ''one'')), (2, TeaKeyMsg enter_key),
             (3, TeaKeyMsg (typed ''two'')), (4, TeaKeyMsg enter_key),
             (5, HostEventMsg (RunCompletedEvent ''r''))]"
  have c: "\<forall>e \<in> set ?es. snd e \<noteq> HostEventMsg TranscriptClearEvent" by simp
  have a: "accepted_run text_widgets plain_lipgloss (New [] 0) ?es = [''one'', ''two'']"
    by code_simp
  have q: "queue_texts (fst (shell_run text_widgets plain_lipgloss (New [] 0) ?es)) = []"
    by code_simp
  show ?thesis
    using submitted_text_conserved [OF c, of text_widgets plain_lipgloss "[]" 0] a q
    by (simp only: Let_def append_Nil2)
qed

subsection \<open>The interrupt\<close>

text \<open>
  interrupting takes two presses of Esc: the first arms the interrupt and emits nothing, the
  second emits one interrupt for the active run and disarms it; the run stays streaming and the
  queue and the transcript are untouched until the host reports how the run ended.
\<close>

theorem double_esc_interrupts:
  assumes "shell_inv s" "streaming s" "\<not> interruptArmed s" "preview s = None"
    and "key_Type k = KeyEsc" "key_Type k' = KeyEsc"
    and s1: "s1 = fst (shell_step W L s (t, TeaKeyMsg k))"
    and s2: "s2 = fst (shell_step W L s1 (t', TeaKeyMsg k'))"
  shows "actions_of (snd (shell_step W L s (t, TeaKeyMsg k))) = [] \<and> interruptArmed s1 \<and>
    statusKind s1 = StatusInterruptArmed \<and>
    actions_of (snd (shell_step W L s1 (t', TeaKeyMsg k'))) = [InterruptRunAction (activeRunID s)] \<and>
    \<not> interruptArmed s2 \<and> streaming s2 \<and>
    queuedSubmissions s2 = queuedSubmissions s \<and> transcriptItems s2 = transcriptItems s"
proof -
  have r: "interruptArmed (refresh W L x) = interruptArmed x" "statusKind (refresh W L x) = statusKind x"
    "preview (refresh W L x) = preview x" "activeRunID (refresh W L x) = activeRunID x" for x
    by (simp_all add: refresh_def Let_def)
  from shell_inv_rest [OF assms(1)] have i: "mid_inv (s\<lparr>clock := t\<rparr>)" "pendingActions s = []"
    by simp_all
  have h: "handleMsg W (TeaKeyMsg k) (s\<lparr>clock := t\<rparr>) =
      ((s\<lparr>clock := t\<rparr>)\<lparr>interruptArmed := True, status := ''Press Esc again to interrupt'',
        statusKind := StatusInterruptArmed\<rparr>, [])"
    using assms(2-5) by (simp add: handleMsg_def handleKey_def handleEsc_def cmd_list_def)
  have x1: "interruptArmed s1" "statusKind s1 = StatusInterruptArmed" "streaming s1" "preview s1 = None"
    "activeRunID s1 = activeRunID s" "queuedSubmissions s1 = queuedSubmissions s"
    "transcriptItems s1 = transcriptItems s"
    using assms(2,4) by (simp_all add: s1 shell_step_def Update_eq h r)
  have a1: "actions_of (snd (shell_step W L s (t, TeaKeyMsg k))) = []"
    using Update_actions [OF i(1), of W L "TeaKeyMsg k"] i(2) by (simp add: shell_step_def h)
  have "shell_inv s1" unfolding s1 using assms(1) by (rule shell.step_inv)
  from shell_inv_rest [OF this] have j: "mid_inv (s1\<lparr>clock := t'\<rparr>)" "pendingActions s1 = []"
    by simp_all
  have h2: "handleMsg W (TeaKeyMsg k') (s1\<lparr>clock := t'\<rparr>) =
      ((s1\<lparr>clock := t'\<rparr>)\<lparr>pendingActions := [InterruptRunAction (activeRunID s)],
        interruptArmed := False, status := ''Stopping run'', statusKind := StatusStreaming\<rparr>, [])"
    using x1 j assms(6) by (simp add: handleMsg_def handleKey_def handleEsc_def cmd_list_def)
  have "actions_of (snd (shell_step W L s1 (t', TeaKeyMsg k'))) = [InterruptRunAction (activeRunID s)]"
    using Update_actions [OF j(1), of W L "TeaKeyMsg k'"] by (simp add: shell_step_def h2)
  with a1 x1 show ?thesis by (simp add: s2 shell_step_def Update_eq h2 r)
qed

theorem double_esc_interrupts_witness:
  "let s = (New [] (0::int))\<lparr>streaming := True, activeRunID := ''r7''\<rparr>;
       s1 = fst (shell_step text_widgets plain_lipgloss s (1, TeaKeyMsg esc_key))
   in actions_of (snd (shell_step text_widgets plain_lipgloss s1 (2, TeaKeyMsg esc_key))) =
      [InterruptRunAction ''r7'']"
proof -
  let ?s = "(New [] (0::int))\<lparr>streaming := True, activeRunID := ''r7''\<rparr>"
  have i: "shell_inv ?s" by (simp add: shell_inv_def New_def inv_defs token_refs_def)
  show ?thesis
    using double_esc_interrupts [OF i _ _ _ _ _ refl refl,
        of esc_key esc_key text_widgets plain_lipgloss 1 2]
    by (simp add: New_def esc_key_def)
qed

subsection \<open>Streaming into the row of a run\<close>

definition apply_deltas ::
  "string \<Rightarrow> string list \<Rightarrow> ('ta, 'vp) state \<Rightarrow> ('ta, 'vp) state" where
  "apply_deltas rid ds s = fold (\<lambda>d. applyRunDelta rid d) ds s"

lemma find_index_SomeI:
  "i < length xs \<Longrightarrow> P (xs ! i) \<Longrightarrow> (\<And>j. j < i \<Longrightarrow> \<not> P (xs ! j)) \<Longrightarrow> find_index P xs = Some i"
proof (induction xs arbitrary: i)
  case (Cons x xs)
  show ?case
  proof (cases i)
    case 0
    with Cons.prems show ?thesis by simp
  next
    case (Suc j)
    have "find_index P xs = Some j"
      by (rule Cons.IH) (use Cons.prems(1,2) Cons.prems(3) [of "Suc k" for k] Suc in auto)
    with Cons.prems(3) [of 0] Suc show ?thesis by simp
  qed
qed simp

text \<open>The row a run streams into: the first streaming assistant row with its identifier.\<close>

definition streams_into :: "string \<Rightarrow> nat \<Rightarrow> TranscriptItem list \<Rightarrow> bool" where
  "streams_into rid i items =
     (i < length items \<and>
      (\<forall>j \<le> i. (ti_Role (items ! j) = RoleAssistant \<and> ti_RunID (items ! j) = rid
                \<and> ti_Streaming (items ! j)) = (j = i)))"

lemma assistantRowIndexForRun_eq:
  "rid \<noteq> [] \<Longrightarrow> streams_into rid i (transcriptItems s) \<Longrightarrow> assistantRowIndexForRun rid s = Some i"
proof -
  assume r: "rid \<noteq> []" and s: "streams_into rid i (transcriptItems s)"
  have "find_index (\<lambda>it. ti_Role it = RoleAssistant \<and> ti_RunID it = rid \<and> ti_Streaming it)
      (transcriptItems s) = Some i"
    by (rule find_index_SomeI) (use s in \<open>auto simp: streams_into_def\<close>)
  with r show ?thesis by (simp add: assistantRowIndexForRun_def)
qed

lemma streams_into_text:
  "streams_into rid i items \<Longrightarrow> streams_into rid i
     (update_at i (\<lambda>it. it\<lparr>ti_Text := ti_Text it @ d\<rparr>) items)"
  by (auto simp: streams_into_def nth_update_at)

lemma streaming_same:
  "ti_Streaming x \<Longrightarrow> x\<lparr>ti_Text := u, ti_Streaming := True\<rparr> = x\<lparr>ti_Text := u\<rparr>"
  by (cases x) simp

lemma apply_deltas_items:
  assumes "rid \<noteq> []" "streams_into rid i (transcriptItems s)"
  shows "transcriptItems (apply_deltas rid ds s) =
    update_at i (\<lambda>it. it\<lparr>ti_Text := ti_Text it @ concat ds\<rparr>) (transcriptItems s) \<and>
    streams_into rid i (transcriptItems (apply_deltas rid ds s))"
  using assms(2)
proof (induction ds arbitrary: s)
  case Nil
  then show ?case by (simp add: apply_deltas_def update_at_def)
next
  case (Cons d ds)
  let ?s1 = "applyRunDelta rid d s"
  have row: "i < length (transcriptItems s)" "ti_Streaming (transcriptItems s ! i)"
    using Cons.prems by (auto simp: streams_into_def)
  have "transcriptItems ?s1 =
      update_at i (\<lambda>it. it\<lparr>ti_Text := ti_Text it @ d\<rparr>) (transcriptItems s)"
    using assistantRowIndexForRun_eq [OF assms(1) Cons.prems] row
    by (cases "d = []") (auto simp: applyRunDelta_def update_at_def streaming_same)
  moreover from this have "streams_into rid i (transcriptItems ?s1)"
    using streams_into_text [OF Cons.prems] by simp
  ultimately show ?case
    using Cons.IH [of ?s1] row streams_into_text [OF Cons.prems, of "d @ concat ds"]
    by (simp add: apply_deltas_def update_at_def)
qed

text \<open>
  the text of a reply is the concatenation of its deltas: from the row the run streams into,
  any number of deltas for the run and its completion leave that row with its old text followed by
  all deltas in order and no longer streaming, and every other row of the transcript as it was.
\<close>

theorem reply_accumulates:
  assumes "rid \<noteq> []" "streams_into rid i (transcriptItems s)"
  shows "transcriptItems (endRun rid (apply_deltas rid ds s)) =
    update_at i (\<lambda>it. it\<lparr>ti_Text := ti_Text it @ concat ds, ti_Streaming := False\<rparr>)
      (transcriptItems s)"
proof -
  let ?s1 = "apply_deltas rid ds s"
  note d = apply_deltas_items [OF assms, of ds]
  have "assistantRowIndexForRun rid ?s1 = Some i"
    using d assms(1) by (intro assistantRowIndexForRun_eq) auto
  then have "transcriptItems (endRun rid ?s1) =
      update_at i (\<lambda>it. it\<lparr>ti_Streaming := False\<rparr>) (transcriptItems ?s1)"
    by (simp add: endRun_def Let_def)
  with d assms(2) show ?thesis by (simp add: update_at_def streams_into_def)
qed

theorem reply_accumulates_witness:
  "let s = applyRunStarted ''sub-1'' ''r1'' [] (fst (shell_step text_widgets plain_lipgloss
             (New ''hi'' (0::int)) (1, TeaKeyMsg enter_key)))
   in map ti_Text (transcriptItems (endRun ''r1'' (apply_deltas ''r1'' [''he'', ''llo''] s))) =
      [''hi'', ''hello'']"
proof -
  let ?s = "applyRunStarted ''sub-1'' ''r1'' [] (fst (shell_step text_widgets plain_lipgloss
             (New ''hi'' (0::int)) (1, TeaKeyMsg enter_key)))"
  have k: "map (\<lambda>it. (ti_Role it, ti_RunID it, ti_Streaming it)) (transcriptItems ?s) =
      [(RoleUser, [], False), (RoleAssistant, ''r1'', True)]"
    "map ti_Text (transcriptItems ?s) = [''hi'', []]"
    by code_simp+
  then obtain a b where ab: "transcriptItems ?s = [a, b]" by (auto simp: map_eq_Cons_conv)
  have m: "streams_into ''r1'' 1 (transcriptItems ?s)"
    using k(1) unfolding ab by (auto simp: streams_into_def le_Suc_eq)
  from reply_accumulates [OF _ m, of "[''he'', ''llo'']"] k(2) show ?thesis
    unfolding ab by (simp add: update_at_def Let_def)
qed

subsection \<open>Command history\<close>

text \<open>What the shell relies on of the textarea: setters and layout calls as documented.\<close>

definition textarea_laws :: "('ta, 'vp) widgets \<Rightarrow> bool" where
  "textarea_laws W =
     ((\<forall>v t. ta_Value (textarea W) (ta_SetValue (textarea W) v t) = v) \<and>
      (\<forall>t. ta_Value (textarea W) (ta_CursorEnd (textarea W) t) = ta_Value (textarea W) t) \<and>
      (\<forall>n t. ta_Value (textarea W) (ta_SetHeight (textarea W) n t) = ta_Value (textarea W) t))"

lemma showRecalled_value:
  "textarea_laws W \<Longrightarrow> ta_Value (textarea W) (input (showRecalled W v s)) = v"
  by (simp add: showRecalled_def syncInputHeight_def Let_def textarea_laws_def)

lemma value_historyDraft [simp]: "input (s\<lparr>historyDraft := d\<rparr>) = input s"
  by simp

text \<open>The state after \<open>k\<close> steps back in a history \<open>H\<close> from a draft \<open>v\<close>.\<close>

definition recalled ::
  "('ta, 'vp) widgets \<Rightarrow> string list \<Rightarrow> string \<Rightarrow> nat \<Rightarrow> ('ta, 'vp) state \<Rightarrow> bool" where
  "recalled W H v k s =
     (1 \<le> k \<and> k \<le> length H \<and> commandHistory s = H \<and> historyDraft s = v \<and>
      historyIndex s = int (length H) - int k \<and>
      ta_Value (textarea W) (input s) = H ! (length H - k))"

lemma recalled_first:
  assumes "textarea_laws W" "historyIndex s = -1" "commandHistory s \<noteq> []"
  shows "recalled W (commandHistory s) (ta_Value (textarea W) (input s)) 1 (recallPreviousCommand W s)"
proof -
  have "nat (int (length (commandHistory s)) - 1) = length (commandHistory s) - 1" by simp
  moreover from assms(3) have "1 \<le> length (commandHistory s)" by (cases "commandHistory s") auto
  ultimately show ?thesis
    using assms by (simp add: recalled_def recallPreviousCommand_def Let_def showRecalled_value)
qed

lemma recalled_back:
  assumes "textarea_laws W" "recalled W H v k s" "k < length H"
  shows "recalled W H v (Suc k) (recallPreviousCommand W s)"
proof -
  have "nat (int (length H) - int k - 1) = length H - Suc k" using assms(3) by linarith
  with assms show ?thesis
    by (auto simp: recalled_def recallPreviousCommand_def Let_def showRecalled_value)
qed

lemma recalled_forth:
  assumes "textarea_laws W" "recalled W H v (Suc (Suc k)) s"
  shows "recalled W H v (Suc k) (recallNextCommand W s)"
proof -
  have "nat (int (length H) - int (Suc (Suc k)) + 1) = length H - Suc k"
    using assms(2) by (auto simp: recalled_def)
  with assms show ?thesis
    by (auto simp: recalled_def recallNextCommand_def Let_def showRecalled_value)
qed

lemma recalled_last:
  assumes "textarea_laws W" "recalled W H v (Suc 0) s"
  shows "ta_Value (textarea W) (input (recallNextCommand W s)) = v"
    and "historyIndex (recallNextCommand W s) = -1"
  using assms
  by (auto simp: recalled_def recallNextCommand_def Let_def showRecalled_value)

lemma recalled_n:
  assumes "textarea_laws W" "historyIndex s = -1" "Suc n \<le> length (commandHistory s)"
  shows "recalled W (commandHistory s) (ta_Value (textarea W) (input s)) (Suc n)
           ((recallPreviousCommand W ^^ Suc n) s)"
  using assms(3)
proof (induction n)
  case 0
  then have "commandHistory s \<noteq> []" by auto
  with recalled_first [OF assms(1,2)] show ?case by simp
next
  case (Suc n)
  with recalled_back [OF assms(1), of _ _ "Suc n"] show ?case by simp
qed

lemma recalled_return:
  "textarea_laws W \<Longrightarrow> recalled W H v (Suc n) s \<Longrightarrow>
     ta_Value (textarea W) (input ((recallNextCommand W ^^ Suc n) s)) = v \<and>
     historyIndex ((recallNextCommand W ^^ Suc n) s) = -1"
proof (induction n arbitrary: s)
  case 0
  then show ?case by (simp add: recalled_last)
next
  case (Suc n)
  from Suc.IH [OF Suc.prems(1) recalled_forth [OF Suc.prems]] show ?case
    by (simp only: funpow_Suc_right [of "Suc n"] comp_apply)
qed

text \<open>
  walking the command history loses nothing: \<open>n\<close> steps back show the \<open>n\<close>-th most recent
  command, and \<open>n\<close> steps forward from there bring back the unfinished draft and leave recall
  mode, whatever the draft was.
\<close>

theorem history_round_trip:
  assumes "textarea_laws W" "historyIndex s = -1" "0 < n" "n \<le> length (commandHistory s)"
  shows "ta_Value (textarea W) (input ((recallPreviousCommand W ^^ n) s)) =
      commandHistory s ! (length (commandHistory s) - n) \<and>
    ta_Value (textarea W) (input ((recallNextCommand W ^^ n) ((recallPreviousCommand W ^^ n) s))) =
      ta_Value (textarea W) (input s) \<and>
    historyIndex ((recallNextCommand W ^^ n) ((recallPreviousCommand W ^^ n) s)) = -1"
proof -
  from assms(3) obtain m where n: "n = Suc m" by (cases n) auto
  have r: "recalled W (commandHistory s) (ta_Value (textarea W) (input s)) n
      ((recallPreviousCommand W ^^ n) s)"
    using recalled_n [OF assms(1,2), of m] assms(4) n by simp
  then have "ta_Value (textarea W) (input ((recallPreviousCommand W ^^ n) s)) =
      commandHistory s ! (length (commandHistory s) - n)"
    by (simp add: recalled_def)
  with recalled_return [OF assms(1), of _ _ m] r n show ?thesis by blast
qed

theorem history_round_trip_witness:
  "let s = (New ''draft'' (0::int))\<lparr>commandHistory := [''a'', ''b'']\<rparr>
   in input ((recallNextCommand text_widgets ^^ 2) ((recallPreviousCommand text_widgets ^^ 2) s)) =
      ''draft''"
proof -
  let ?s = "(New ''draft'' (0::int))\<lparr>commandHistory := [''a'', ''b'']\<rparr>"
  have l: "textarea_laws text_widgets" by (simp add: textarea_laws_def text_widgets_def)
  have v: "ta_Value (textarea text_widgets) = (\<lambda>t. t)" by (simp add: text_widgets_def)
  show ?thesis
    using history_round_trip [OF l, of ?s 2] by (simp add: New_def v Let_def)
qed

subsection \<open>Permissions\<close>

text \<open>
  Enter on an empty composer answers the permission that is on display, with the decision
  that is selected, streaming or not: one resolution is emitted, for the identifier of the active
  request, and the request stays pending until the host confirms it.
\<close>

theorem enter_resolves_active_permission:
  assumes "shell_inv s" "composer_enter W k s" "composer_text W s = []" "inputTokens s = []"
    and "pendingPermissions s \<noteq> []"
    and p: "p = pendingPermissions s ! nat (activePermissionIndex s)"
  shows "actions_of (snd (shell_step W L s (t, TeaKeyMsg k))) =
      [ResolvePermissionAction (req_ID (perm_Request p))
        (permissionDecisionFromAction (perm_SelectedAction p))] \<and>
    p \<in> set (pendingPermissions s) \<and>
    pendingPermissions (fst (shell_step W L s (t, TeaKeyMsg k))) = pendingPermissions s"
proof -
  let ?s = "s\<lparr>clock := t\<rparr>"
  from shell_inv_rest [OF assms(1)] have i: "mid_inv ?s" "pendingActions s = []" by simp_all
  then have sel: "sel_inv ?s" by (simp add: mid_inv_def)
  have "composer_enter W k ?s" using assms(2) by simp
  note key = handleKey_enter [OF this]
  have h: "fst (handleMsg W (TeaKeyMsg k) ?s) = resolveActivePermission
      (permissionDecisionFromAction (perm_SelectedAction p)) ?s"
    using assms(3-5) currentPendingPermission_eq [OF sel]
    by (simp add: handleMsg_def key emitSubmitOnEnter_def p)
  have r: "pendingPermissions (refresh W L x) = pendingPermissions x" for x
    by (simp add: refresh_def Let_def)
  have m: "p \<in> set (pendingPermissions s)"
    unfolding p by (rule nth_mem) (use sel assms(5) in \<open>auto simp: sel_inv_def\<close>)
  have x: "resolveActivePermission d ?s = ?s\<lparr>pendingActions := pendingActions s @
        [ResolvePermissionAction (req_ID (perm_Request p)) d],
      status := ''Resolving permission'', statusKind := StatusPermissionPending\<rparr>" for d
    using currentPendingPermission_eq [OF sel] assms(5) by (simp add: resolveActivePermission_def p)
  show ?thesis
    using Update_actions [OF i(1), of W L "TeaKeyMsg k"] i(2) m
    by (simp add: shell_step_def Update_eq h x r)
qed

text \<open>
  the host's confirmation removes exactly the first pending request with its identifier, keeps
  the others in order, and the status says what is left: more requests to answer, the run resuming,
  or ready.
\<close>

theorem permission_resolved_removes_one:
  assumes "rid \<noteq> []" "pendingPermissions s = ps @ p # qs" "req_ID (perm_Request p) = rid"
    and "\<forall>q \<in> set ps. req_ID (perm_Request q) \<noteq> rid"
    and s': "s' = applyPermissionResolved rid out msg s"
  shows "pendingPermissions s' = ps @ qs \<and>
    statusKind s' = (if ps @ qs \<noteq> [] then StatusPermissionPending
                     else if streaming s then StatusStreaming else StatusReady)"
proof -
  have f: "find_index (\<lambda>q. req_ID (perm_Request q) = rid) (ps @ p # qs) = Some (length ps)"
    by (rule find_index_SomeI) (use assms(3,4) in \<open>auto simp: nth_append\<close>)
  have rm: "pendingPermissions (fst (removePendingPermissionByID rid s1)) = ps @ qs"
    if "pendingPermissions s1 = pendingPermissions s" for s1 :: "('a, 'b) state"
    using that assms(2) f by (simp add: removePendingPermissionByID_def Let_def remove_at_def)
  show ?thesis
    using assms(1)
    by (auto simp: s' applyPermissionResolved_def Let_def case_prod_unfold rm split: option.splits)
qed

theorem permission_resolved_removes_one_witness:
  "let r = (\<lambda>i. \<lparr>req_ID = i, req_ToolLabel = [], req_Target = [], req_Summary = [],
                  req_SessionPolicyState = \<lparr>pol_SessionApproved = False, pol_Note = []\<rparr>\<rparr>);
       s = applyPermissionRequested (r ''b'') (applyPermissionRequested (r ''a'') (New ([]::string) (0::int)))
   in map (\<lambda>q. req_ID (perm_Request q)) (pendingPermissions
        (applyPermissionResolved ''a'' OutcomeDenied [] s)) = [''b'']"
proof -
  let ?r = "\<lambda>i. \<lparr>req_ID = i, req_ToolLabel = [], req_Target = [], req_Summary = [],
                  req_SessionPolicyState = \<lparr>pol_SessionApproved = False, pol_Note = []\<rparr>\<rparr>"
  let ?p = "\<lambda>i. \<lparr>perm_Request = ?r i, perm_TranscriptID = ''perm-'' @ i, perm_SelectedAction = 0\<rparr>"
  let ?s = "applyPermissionRequested (?r ''b'') (applyPermissionRequested (?r ''a'') (New ([]::string) (0::int)))"
  have "pendingPermissions ?s = [] @ ?p ''a'' # [?p ''b'']"
    by (simp add: applyPermissionRequested_def Let_def New_def)
  from permission_resolved_removes_one [OF _ this _ _ refl, of "''a''" OutcomeDenied "[]"]
  show ?thesis by (simp add: Let_def)
qed

theorem enter_resolves_active_permission_witness:
  "let r = \<lparr>req_ID = ''a'', req_ToolLabel = [], req_Target = [], req_Summary = [],
            req_SessionPolicyState = \<lparr>pol_SessionApproved = False, pol_Note = []\<rparr>\<rparr>;
       s = fst (shell_step text_widgets plain_lipgloss (New [] (0::int))
             (0, HostEventMsg (PermissionRequestedEvent r)))
   in actions_of (snd (shell_step text_widgets plain_lipgloss s (1, TeaKeyMsg enter_key))) =
      [ResolvePermissionAction ''a'' DecisionApproveOnce]"
proof -
  let ?r = "\<lparr>req_ID = ''a'', req_ToolLabel = [], req_Target = [], req_Summary = [],
            req_SessionPolicyState = \<lparr>pol_SessionApproved = False, pol_Note = []\<rparr>\<rparr>"
  let ?s = "fst (shell_step text_widgets plain_lipgloss (New [] (0::int))
             (0, HostEventMsg (PermissionRequestedEvent ?r)))"
  have i: "shell_inv ?s" by (rule shell.step_inv [OF New_inv])
  have c: "composer_enter text_widgets enter_key ?s" by code_simp
  have e: "composer_text text_widgets ?s = []" by code_simp
  have n: "inputTokens ?s = []" by code_simp
  have p: "pendingPermissions ?s = [\<lparr>perm_Request = ?r, perm_TranscriptID = ''perm-a'',
      perm_SelectedAction = 0\<rparr>]" by code_simp
  have a: "nat (activePermissionIndex ?s) = 0" by code_simp
  show ?thesis
    using enter_resolves_active_permission [OF i c e n _ refl, of plain_lipgloss 1]
    by (simp add: p a permissionDecisionFromAction_def Let_def)
qed

end
