(* ===== verification/Store_Types.thy ===== *)
theory Store_Types
  imports Complex_Main GoStd "HOL-Library.List_Lexorder" "HOL-Library.Char_ord"
begin

text \<open>
  The rows of the SQLite store and the database they live in (\<open>internal/storage/store.go\<close>, the
  schemas of \<open>sqlite.go\<close>).  A table is a list of rows in insertion order.  Times are stored as
  RFC 3339 text with nanoseconds, which reads back as the time that was written, so a row holds
  the time itself; where SQL compares the text, the model compares the text.  \<open>REAL\<close> columns are
  rationals (the model does not round), JSON columns are their text, and Go's nil
  \<open>json.RawMessage\<close> is \<open>None\<close> where the code distinguishes it.
\<close>

subsection \<open>Statements, errors, environment\<close>

text \<open>
  The SQL statements and transaction steps that can fail.  A failure is an error of the driver
  (I/O, a cancelled context) that the environment decides on, or a violated constraint.
\<close>

datatype stmt =
    S_Begin | S_Commit
  | S_InsertRun | S_InsertAttachment | S_InsertEvent | S_InsertCheckpoint | S_UpdateRunSeq
  | S_InsertTurn | S_LinkTurn | S_InsertHistory
  | S_SelectRun | S_SelectRuns | S_ReadSeq | S_UpdateRun | S_UpdateAttachment
  | S_ListEvents | S_LatestCheckpoint | S_ListTurnIDs | S_CheckRun
  | S_InsertModelCall | S_ModelTotals | S_InsertToolResult | S_ToolTotals
  | S_SelectSession | S_InsertSession | S_UpdateSession | S_DeleteSession
  | S_LockSelect | S_LockUpdate | S_ListSessions | S_SessionSummaries | S_InsertServerEvent
  | S_ListServerEvents | S_SessionFiles | S_GetTurn | S_ListTurns | S_DeleteTurn | S_ListHistory

datatype store_error =
    ErrSessionNotFound | ErrSessionLockContended | ErrUserIDRequired | ErrInvalidStatus
  | ErrRunNotFound | ErrInvalidRunStatus | ErrInvalidRunStage | ErrInvalidWorkflowType
  | ErrTurnRequired
  | SqlError stmt

text \<open>
  What an operation takes from outside: the clock, fresh identifiers (numbered by the call that
  asks for one), the statements that fail, and the RFC 3339 text of a time.  A loop runs the same
  statement again and again, and each round can fail or not: \<open>env_round\<close> decides for the rounds, and
  \<open>at_round\<close> is the environment of one of them.
\<close>

record store_env =
  env_now :: gotime
  env_uuid :: "nat \<Rightarrow> string"
  env_fault :: "stmt \<Rightarrow> bool"
  env_round :: "nat \<Rightarrow> stmt \<Rightarrow> bool"
  env_time_text :: "gotime \<Rightarrow> string"

definition at_round :: "nat \<Rightarrow> store_env \<Rightarrow> store_env" where
  "at_round i E = E\<lparr>env_fault := env_round E i\<rparr>"

lemma at_round_simps [simp]:
  "env_now (at_round i E) = env_now E" "env_uuid (at_round i E) = env_uuid E"
  "env_fault (at_round i E) = env_round E i" "env_time_text (at_round i E) = env_time_text E"
  "env_round (at_round i E) = env_round E"
  by (simp_all add: at_round_def)

subsection \<open>Sessions, turns, history\<close>

record Session =
  sess_ID :: string
  sess_UserID :: string
  sess_Project :: string
  sess_Summary :: string
  sess_ActiveModel :: string
  sess_ModelOverride :: "string option"
  sess_RoutingOverrides :: "string option"
  sess_PinnedItems :: "string option"
  sess_CompactionState :: "string option"
  sess_TotalCost :: rat
  sess_TotalInputTokens :: int
  sess_TotalOutputTokens :: int
  sess_ContextPct :: rat
  sess_Status :: string
  sess_LockOwner :: "string option"
  sess_LockExpiresAt :: "gotime option"
  sess_CreatedAt :: gotime
  sess_UpdatedAt :: gotime

record Turn =
  turn_ID :: string
  turn_SessionID :: string
  turn_Sequence :: int
  turn_Role :: string
  turn_Content :: "string option"
  turn_Model :: string
  turn_Provider :: string
  turn_InputTokens :: int
  turn_OutputTokens :: int
  turn_Cost :: rat
  turn_LatencyMs :: int
  turn_ToolCalls :: "string option"
  turn_FilesTouched :: "string list"
  turn_FilesModified :: "string list"
  turn_Compacted :: bool
  turn_CompactedSummary :: string
  turn_OriginalTurns :: "int list"
  turn_CreatedAt :: gotime

record SessionFilter =
  sf_UserID :: string
  sf_Project :: string
  sf_Status :: string
  sf_Since :: "gotime option"
  sf_Limit :: int
  sf_Offset :: int

record ServerSessionEvent =
  sev_ID :: int
  sev_SessionID :: string
  sev_Type :: string
  sev_Detail :: string
  sev_Payload :: string
  sev_At :: gotime

record CommandHistoryFilter =
  hf_UserID :: string
  hf_Project :: string
  hf_SessionID :: string
  hf_Limit :: int
  hf_Before :: "gotime option"
  hf_BeforeID :: "int option"

record CommandHistoryEntry =
  hist_ID :: int
  hist_UserID :: string
  hist_Project :: string
  hist_SessionID :: "string option"
  hist_Content :: string
  hist_CreatedAt :: gotime

subsection \<open>Runs\<close>

definition RunStatusQueued :: string where "RunStatusQueued = ''queued''"
definition RunStatusRunning :: string where "RunStatusRunning = ''running''"
definition RunStatusWaitingPermission :: string where
  "RunStatusWaitingPermission = ''waiting_permission''"
definition RunStatusWaitingUser :: string where "RunStatusWaitingUser = ''waiting_user''"
definition RunStatusCheckpointed :: string where "RunStatusCheckpointed = ''checkpointed''"
definition RunStatusCompleted :: string where "RunStatusCompleted = ''completed''"
definition RunStatusFailed :: string where "RunStatusFailed = ''failed''"
definition RunStatusCancelled :: string where "RunStatusCancelled = ''cancelled''"

definition RunStagePreflight :: string where "RunStagePreflight = ''preflight''"
definition RunStageContextPlan :: string where "RunStageContextPlan = ''context_plan''"
definition RunStagePromptPlan :: string where "RunStagePromptPlan = ''prompt_plan''"
definition RunStageModelCall :: string where "RunStageModelCall = ''model_call''"
definition RunStageToolLoop :: string where "RunStageToolLoop = ''tool_loop''"
definition RunStageValidation :: string where "RunStageValidation = ''validation''"
definition RunStageArtifactCapture :: string where "RunStageArtifactCapture = ''artifact_capture''"
definition RunStageCheckpoint :: string where "RunStageCheckpoint = ''checkpoint''"
definition RunStageCompletion :: string where "RunStageCompletion = ''completion''"

definition RunAttachmentAttached :: string where "RunAttachmentAttached = ''attached''"
definition RunAttachmentDetached :: string where "RunAttachmentDetached = ''detached''"

definition RunWorkflowImplementation :: string where
  "RunWorkflowImplementation = ''implementation''"

lemmas run_status_defs = RunStatusQueued_def RunStatusRunning_def RunStatusWaitingPermission_def
  RunStatusWaitingUser_def RunStatusCheckpointed_def RunStatusCompleted_def RunStatusFailed_def
  RunStatusCancelled_def

definition validRunStatuses :: "string \<Rightarrow> bool" where
  "validRunStatuses st = (st \<in> set [RunStatusQueued, RunStatusRunning, RunStatusWaitingPermission,
     RunStatusWaitingUser, RunStatusCheckpointed, RunStatusCompleted, RunStatusFailed,
     RunStatusCancelled, []])"

definition validRunStages :: "string \<Rightarrow> bool" where
  "validRunStages st = (st \<in> set [RunStagePreflight, RunStageContextPlan, RunStagePromptPlan,
     RunStageModelCall, RunStageToolLoop, RunStageValidation, RunStageArtifactCapture,
     RunStageCheckpoint, RunStageCompletion, []])"

definition validWorkflowTypes :: "string \<Rightarrow> bool" where
  "validWorkflowTypes w = (w \<in> set [''exploration'', ''feature'', ''adr'', ''release'',
     RunWorkflowImplementation, ''debug'', ''docs'', ''devops''])"

record Run =
  run_ID :: string
  run_TraceID :: string
  run_IdempotencyKey :: string
  run_UserID :: string
  run_Project :: string
  run_SessionID :: string
  run_ParentRunID :: "string option"
  run_InitiatorType :: string
  run_Title :: string
  run_WorkflowType :: string
  run_Status :: string
  run_Stage :: string
  run_AttachmentState :: string
  run_AttachedConnectionID :: string
  run_AttachmentGraceDeadline :: "gotime option"
  run_Summary :: string
  run_LastAdvancedAt :: gotime
  run_Model :: string
  run_Provider :: string
  run_InputTokens :: int
  run_OutputTokens :: int
  run_TotalCost :: rat
  run_LastEventSeq :: int
  run_LastCheckpointID :: string
  run_ExtensionJSON :: "string option"
  run_RetentionClass :: string
  run_ExpiresAt :: "gotime option"
  run_SchemaVersion :: int
  run_CreatedAt :: gotime
  run_UpdatedAt :: gotime
  run_TerminalAt :: "gotime option"

record RunEvent =
  evt_RunID :: string
  evt_Seq :: int
  evt_Type :: string
  evt_Stage :: string
  evt_Status :: string
  evt_Reason :: string
  evt_PayloadJSON :: "string option"
  evt_PayloadSchemaVersion :: int
  evt_CreatedAt :: gotime

record RunCheckpoint =
  cp_ID :: string
  cp_RunID :: string
  cp_Seq :: int
  cp_Stage :: string
  cp_Status :: string
  cp_Reason :: string
  cp_TurnIDs :: "string list"
  cp_ModelCallIDs :: "string list"
  cp_PendingToolCallIDs :: "string list"
  cp_Summary :: string
  cp_PayloadJSON :: "string option"
  cp_SchemaVersion :: int
  cp_CreatedAt :: gotime

record RunStateUpdate =
  upd_Status :: "string option"
  upd_Stage :: "string option"
  upd_Reason :: string
  upd_AttachmentState :: "string option"
  upd_AttachedConnectionID :: "string option"
  upd_AttachmentGraceDeadline :: "gotime option"
  upd_Summary :: "string option"
  upd_Model :: "string option"
  upd_Provider :: "string option"
  upd_InputTokens :: "int option"
  upd_OutputTokens :: "int option"
  upd_TotalCost :: "rat option"
  upd_LastCheckpointID :: "string option"
  upd_TerminalAt :: "gotime option"
  upd_Checkpoint :: "RunCheckpoint option"

text \<open>The zero value \<open>RunStateUpdate{}\<close>, which changes no column of its own.\<close>

definition no_update :: RunStateUpdate where
  "no_update = \<lparr>upd_Status = None, upd_Stage = None, upd_Reason = [], upd_AttachmentState = None,
     upd_AttachedConnectionID = None, upd_AttachmentGraceDeadline = None, upd_Summary = None,
     upd_Model = None, upd_Provider = None, upd_InputTokens = None, upd_OutputTokens = None,
     upd_TotalCost = None, upd_LastCheckpointID = None, upd_TerminalAt = None,
     upd_Checkpoint = None\<rparr>"

record RunFilter =
  flt_UserID :: string
  flt_Project :: string
  flt_SessionID :: string
  flt_Status :: string
  flt_Limit :: int
  flt_Offset :: int

record RunModelCall =
  mc_ModelCallID :: string
  mc_RunID :: string
  mc_Provider :: string
  mc_Model :: string
  mc_Stage :: string
  mc_Status :: string
  mc_InputTokens :: int
  mc_OutputTokens :: int
  mc_TotalCost :: rat
  mc_LatencyMs :: int
  mc_PayloadJSON :: "string option"
  mc_CreatedAt :: gotime
  mc_UpdatedAt :: gotime

record RunToolResult =
  tr_ToolCallID :: string
  tr_RunID :: string
  tr_Tool :: string
  tr_Namespace :: string
  tr_Stage :: string
  tr_Status :: string
  tr_ResultID :: string
  tr_DurationMs :: int
  tr_EstimatedCost :: rat
  tr_PayloadJSON :: "string option"
  tr_CreatedAt :: gotime
  tr_UpdatedAt :: gotime

text \<open>Rows that have no Go struct of their own.\<close>

record AttachmentRow =
  att_RunID :: string
  att_State :: string
  att_ConnectionID :: string
  att_GraceDeadline :: "gotime option"
  att_UpdatedAt :: gotime

record RunTurnRow =
  link_RunID :: string
  link_TurnID :: string
  link_Sequence :: int
  link_Role :: string
  link_CreatedAt :: gotime

subsection \<open>The database\<close>

record db =
  db_sessions :: "Session list"
  db_turns :: "Turn list"
  db_session_events :: "ServerSessionEvent list"
  db_session_event_seq :: int
  db_history :: "CommandHistoryEntry list"
  db_runs :: "Run list"
  db_attachments :: "AttachmentRow list"
  db_events :: "RunEvent list"
  db_checkpoints :: "RunCheckpoint list"
  db_run_turns :: "RunTurnRow list"
  db_model_calls :: "RunModelCall list"
  db_tool_results :: "RunToolResult list"

definition empty_db :: db where
  "empty_db = \<lparr>db_sessions = [], db_turns = [], db_session_events = [], db_session_event_seq = 0, db_history = [], db_runs = [],
     db_attachments = [], db_events = [], db_checkpoints = [], db_run_turns = [],
     db_model_calls = [], db_tool_results = []\<rparr>"

subsection \<open>Statements and transactions\<close>

text \<open>A statement fails when the environment says so or a constraint is violated (\<open>None\<close>).\<close>

definition exec :: "store_env \<Rightarrow> stmt \<Rightarrow> db option \<Rightarrow> store_error + db" where
  "exec E st r = (if env_fault E st then Inl (SqlError st)
                  else case r of None \<Rightarrow> Inl (SqlError st) | Some d \<Rightarrow> Inr d)"

text \<open>
  A statement that fails leaves the database it ran on as it was: in a transaction that is what the
  statements before it have written, outside of one it commits by itself.
\<close>

definition autocommit :: "(store_error + db) \<Rightarrow> db \<Rightarrow> db \<times> (store_error + unit)" where
  "autocommit r d = (case r of Inl e \<Rightarrow> (d, Inl e) | Inr d' \<Rightarrow> (d', Inr ()))"

abbreviation in_tx :: "(store_error + db) \<Rightarrow> db \<Rightarrow> db \<times> (store_error + unit)" where
  "in_tx \<equiv> autocommit"

text \<open>
  The body of a transaction is a sequence of statements on the database as the transaction sees it.
  When one fails the body returns early, with everything written so far (\<open>bindT\<close>).
\<close>

definition bindT :: "db \<times> (store_error + 'a) \<Rightarrow> ('a \<Rightarrow> db \<Rightarrow> db \<times> (store_error + 'b)) \<Rightarrow> db \<times> (store_error + 'b)" where
  "bindT r k = (case r of (d, Inl e) \<Rightarrow> (d, Inl e) | (d, Inr x) \<Rightarrow> k x d)"

text \<open>
  \<open>BeginTx\<close>, the body, \<open>Commit\<close>.  An early return of the body and a failed commit run the deferred
  \<open>tx.Rollback()\<close>, which puts back the database the transaction began with.
\<close>

definition rollback :: "db \<Rightarrow> db \<Rightarrow> db" where
  "rollback before written = before"

definition run_tx ::
  "store_env \<Rightarrow> (db \<Rightarrow> db \<times> (store_error + 'a)) \<Rightarrow> db \<Rightarrow> db \<times> (store_error + 'a)" where
  "run_tx E body d =
     (if env_fault E S_Begin then (d, Inl (SqlError S_Begin))
      else (case body d of
              (d', Inl e) \<Rightarrow> (rollback d d', Inl e)
            | (d', Inr x) \<Rightarrow> (if env_fault E S_Commit then (rollback d d', Inl (SqlError S_Commit))
                              else (d', Inr x))))"

text \<open>Atomicity, once for all transactions.\<close>

lemma run_tx_error: "run_tx E body d = (d', Inl e) \<Longrightarrow> d' = d"
  by (auto simp: run_tx_def rollback_def split: if_splits sum.splits prod.splits)

lemma run_tx_success: "run_tx E body d = (d', Inr x) \<longleftrightarrow>
    \<not> env_fault E S_Begin \<and> \<not> env_fault E S_Commit \<and> body d = (d', Inr x)"
  by (auto simp: run_tx_def split: if_splits sum.splits prod.splits)

lemma bindT_Inr: "bindT r k = (d', Inr y) \<longleftrightarrow> (\<exists>d1 x. r = (d1, Inr x) \<and> k x d1 = (d', Inr y))"
  by (auto simp: bindT_def split: prod.splits sum.splits)

lemma bindT_simps [simp]: "bindT (d, Inl e) k = (d, Inl e)" "bindT (d, Inr x) k = k x d"
  by (simp_all add: bindT_def)

lemma autocommit_Inr: "autocommit r d = (d', Inr x) \<longleftrightarrow> r = Inr d'"
  by (auto simp: autocommit_def split: sum.splits)

lemma autocommit_simps [simp]: "autocommit (Inl e) d = (d, Inl e)" "autocommit (Inr d') d = (d', Inr ())"
  by (simp_all add: autocommit_def)

lemmas tx_Inr = run_tx_success bindT_Inr autocommit_Inr

lemma exec_Inr [simp]: "exec E st r = Inr d \<longleftrightarrow> \<not> env_fault E st \<and> r = Some d"
  by (auto simp: exec_def split: if_splits option.splits)

lemma bindR_Inr: "bindR r k = Inr y \<longleftrightarrow> (\<exists>x. r = Inr x \<and> k x = Inr y)"
  by (auto simp: bindR_def split: sum.splits)

text \<open>\<open>AUTOINCREMENT\<close> of the session events is the counter \<open>db_session_event_seq\<close>, since deletions leave gaps.\<close>

text \<open>\<open>ORDER BY ... DESC\<close>, rows that compare equal in insertion order.\<close>

definition sort_desc :: "('a \<Rightarrow> 'k::linorder) \<Rightarrow> 'a list \<Rightarrow> 'a list" where
  "sort_desc f xs = rev (sort_key f (rev xs))"

lemma set_sort_desc [simp]: "set (sort_desc f xs) = set xs"
  by (simp add: sort_desc_def)

end
