(* ===== verification/Session_Store.thy ===== *)
theory Session_Store
  imports Store_Types "HOL-Library.Product_Lexorder"
begin

text \<open>
  Sessions, turns and command history in SQLite (\<open>internal/storage/sessions.go\<close>, \<open>turns.go\<close>,
  \<open>command_history.go\<close>): the session rows with their lock columns, server events, the turns of a
  session, and the paged history.  A nil JSON column is written as its empty value; deletion of a
  session follows the schema, whose foreign keys cascade to turns and events but not to runs.
\<close>

subsection \<open>Session rows\<close>

definition ValidSessionStatuses :: "string \<Rightarrow> bool" where
  "ValidSessionStatuses st = (st \<in> set [''active'', ''suspended'', ''completed'', []])"

definition OrElseJ :: "string option \<Rightarrow> string \<Rightarrow> string option" where
  "OrElseJ x d = (case x of None \<Rightarrow> Some d | Some j \<Rightarrow> Some j)"

text \<open>The nil columns as both writers fill them.\<close>

definition fill_session :: "Session \<Rightarrow> Session" where
  "fill_session s = s\<lparr>sess_RoutingOverrides := OrElseJ (sess_RoutingOverrides s) ''{}'',
     sess_PinnedItems := OrElseJ (sess_PinnedItems s) ''[]'',
     sess_CompactionState := OrElseJ (sess_CompactionState s) ''{}''\<rparr>"

definition find_session :: "db \<Rightarrow> string \<Rightarrow> Session option" where
  "find_session d sid = find (\<lambda>s. sess_ID s = sid) (db_sessions d)"

definition has_session :: "db \<Rightarrow> string \<Rightarrow> bool" where
  "has_session d sid = (sid \<in> sess_ID ` set (db_sessions d))"

definition CreateSession :: "store_env \<Rightarrow> Session \<Rightarrow> db \<Rightarrow> db \<times> (store_error + unit)" where
  "CreateSession E s d = autocommit (exec E S_InsertSession
     (if has_session d (sess_ID s) then None
      else Some (d\<lparr>db_sessions := db_sessions d @ [fill_session s]\<rparr>))) d"

definition GetSession :: "store_env \<Rightarrow> string \<Rightarrow> db \<Rightarrow> store_error + Session" where
  "GetSession E sid d =
     (if env_fault E S_SelectSession then Inl (SqlError S_SelectSession)
      else (case find_session d sid of None \<Rightarrow> Inl ErrSessionNotFound | Some s \<Rightarrow> Inr s))"

text \<open>The update of a row that exists: every column but the identifier and the creation time.\<close>

definition map_session :: "string \<Rightarrow> (Session \<Rightarrow> Session) \<Rightarrow> db \<Rightarrow> db" where
  "map_session sid f d =
     d\<lparr>db_sessions := map (\<lambda>s. if sess_ID s = sid then f s else s) (db_sessions d)\<rparr>"

definition UpdateSession :: "store_env \<Rightarrow> Session \<Rightarrow> db \<Rightarrow> db \<times> (store_error + unit)" where
  "UpdateSession E s d =
     (if env_fault E S_UpdateSession then (d, Inl (SqlError S_UpdateSession))
      else if \<not> has_session d (sess_ID s) then (d, Inl ErrSessionNotFound)
      else (map_session (sess_ID s)
              (\<lambda>old. (fill_session s)\<lparr>sess_CreatedAt := sess_CreatedAt old\<rparr>) d, Inr ()))"

text \<open>
  The shared clauses of \<open>ListSessions\<close> and \<open>SessionSummaries\<close>.  SQLite rejects an \<open>OFFSET\<close>
  without a \<open>LIMIT\<close>, which is what a filter with an offset and no limit produces.
\<close>

definition session_rows :: "store_env \<Rightarrow> SessionFilter \<Rightarrow> db \<Rightarrow> Session list" where
  "session_rows E f d = sort_desc (\<lambda>s. env_time_text E (sess_UpdatedAt s))
     (filter (\<lambda>s. sess_UserID s = sf_UserID f
        \<and> (sf_Project f \<noteq> [] \<longrightarrow> sess_Project s = sf_Project f)
        \<and> (sf_Status f \<noteq> [] \<longrightarrow> sess_Status s = sf_Status f)) (db_sessions d))"

definition limit_offset :: "SessionFilter \<Rightarrow> 'a list \<Rightarrow> 'a list option" where
  "limit_offset f rows =
     (if sf_Limit f \<le> 0 then (if sf_Offset f > 0 then None else Some rows)
      else Some (take (nat (sf_Limit f))
                   (if sf_Offset f > 0 then drop (nat (sf_Offset f)) rows else rows)))"

definition ListSessions :: "store_env \<Rightarrow> SessionFilter \<Rightarrow> db \<Rightarrow> store_error + Session list" where
  "ListSessions E f d =
     (if sf_UserID f = [] then Inl ErrUserIDRequired
      else if \<not> ValidSessionStatuses (sf_Status f) then Inl ErrInvalidStatus
      else if env_fault E S_ListSessions then Inl (SqlError S_ListSessions)
      else (case limit_offset f
                   (filter (\<lambda>s. case sf_Since f of None \<Rightarrow> True
                      | Some t \<Rightarrow> env_time_text E (sess_UpdatedAt s) \<ge> env_time_text E t)
                     (session_rows E f d)) of
              None \<Rightarrow> Inl (SqlError S_ListSessions)
            | Some rows \<Rightarrow> Inr rows))"

definition turns_of :: "db \<Rightarrow> string \<Rightarrow> Turn list" where
  "turns_of d sid = filter (\<lambda>t. turn_SessionID t = sid) (db_turns d)"

text \<open>
  The columns \<open>SessionSummaries\<close> computes: the number of turns and the compacted summary of the
  last one.  Counting the pinned items parses their JSON text, the parameter \<open>pins\<close>.
\<close>

record SessionSummary =
  sum_Session :: Session
  sum_TurnCount :: int
  sum_LastTurnSummary :: string
  sum_PinnedCount :: int

definition session_summary :: "(string \<Rightarrow> int) \<Rightarrow> db \<Rightarrow> Session \<Rightarrow> SessionSummary" where
  "session_summary pins d s =
     \<lparr>sum_Session = s, sum_TurnCount = int (length (turns_of d (sess_ID s))),
      sum_LastTurnSummary = (case sort_desc turn_Sequence (turns_of d (sess_ID s)) of
         [] \<Rightarrow> [] | t # ts \<Rightarrow> turn_CompactedSummary t),
      sum_PinnedCount = (case sess_PinnedItems s of None \<Rightarrow> 0 | Some j \<Rightarrow> pins j)\<rparr>"

definition SessionSummaries ::
  "store_env \<Rightarrow> (string \<Rightarrow> int) \<Rightarrow> SessionFilter \<Rightarrow> db \<Rightarrow> store_error + SessionSummary list" where
  "SessionSummaries E pins f d =
     (if sf_UserID f = [] then Inl ErrUserIDRequired
      else if \<not> ValidSessionStatuses (sf_Status f) then Inl ErrInvalidStatus
      else if env_fault E S_SessionSummaries then Inl (SqlError S_SessionSummaries)
      else (case limit_offset f (session_rows E f d) of
              None \<Rightarrow> Inl (SqlError S_SessionSummaries)
            | Some rows \<Rightarrow> Inr (map (session_summary pins d) rows)))"

text \<open>Deletion is one statement: a run that refers to one of the sessions makes it fail whole.\<close>

definition old_session :: "store_env \<Rightarrow> gotime \<Rightarrow> Session \<Rightarrow> bool" where
  "old_session E before s = (env_time_text E (sess_UpdatedAt s) < env_time_text E before)"

definition DeleteSessionsBefore ::
  "store_env \<Rightarrow> gotime \<Rightarrow> db \<Rightarrow> db \<times> (store_error + int)" where
  "DeleteSessionsBefore E before d =
     (let victims = map sess_ID (filter (old_session E before) (db_sessions d)) in
      if env_fault E S_DeleteSession \<or> (\<exists>r \<in> set (db_runs d). run_SessionID r \<in> set victims)
      then (d, Inl (SqlError S_DeleteSession))
      else (d\<lparr>db_sessions := filter (\<lambda>s. \<not> old_session E before s) (db_sessions d),
              db_turns := filter (\<lambda>t. turn_SessionID t \<notin> set victims) (db_turns d),
              db_session_events :=
                filter (\<lambda>e. sev_SessionID e \<notin> set victims) (db_session_events d)\<rparr>,
            Inr (int (length victims))))"

subsection \<open>Session locks\<close>

text \<open>
  The \<open>WHERE\<close> clause of \<open>AcquireSessionLock\<close>.  A comparison with a \<open>NULL\<close> expiry is not true.
\<close>

definition lock_available :: "store_env \<Rightarrow> string \<Rightarrow> Session \<Rightarrow> bool" where
  "lock_available E owner s =
     (case sess_LockOwner s of
        None \<Rightarrow> True
      | Some cur \<Rightarrow>
          (case sess_LockExpiresAt s of
             None \<Rightarrow> False | Some t \<Rightarrow> env_time_text E t < env_time_text E (env_now E))
          \<or> cur = owner)"

definition AcquireSessionLock ::
  "store_env \<Rightarrow> string \<Rightarrow> string \<Rightarrow> gotime \<Rightarrow> db \<Rightarrow> db \<times> (store_error + bool \<times> string)" where
  "AcquireSessionLock E sid owner expiresAt d =
     (if env_fault E S_LockUpdate then (d, Inl (SqlError S_LockUpdate))
      else (case find_session d sid of
              Some s \<Rightarrow>
                (if lock_available E owner s
                 then (map_session sid (\<lambda>s. s\<lparr>sess_LockOwner := Some owner,
                         sess_LockExpiresAt := Some expiresAt, sess_UpdatedAt := env_now E\<rparr>) d,
                       Inr (True, []))
                 else if env_fault E S_LockSelect then (d, Inl (SqlError S_LockSelect))
                 else (d, Inr (False,
                         case sess_LockOwner s of None \<Rightarrow> [] | Some cur \<Rightarrow> cur)))
            | None \<Rightarrow>
                (if env_fault E S_LockSelect then (d, Inl (SqlError S_LockSelect))
                 else (d, Inl ErrSessionNotFound))))"

definition unlock :: "store_env \<Rightarrow> Session \<Rightarrow> Session" where
  "unlock E s = s\<lparr>sess_LockOwner := None, sess_LockExpiresAt := None, sess_UpdatedAt := env_now E\<rparr>"

definition ReleaseSessionLock ::
  "store_env \<Rightarrow> string \<Rightarrow> string \<Rightarrow> db \<Rightarrow> db \<times> (store_error + unit)" where
  "ReleaseSessionLock E sid owner d =
     (if env_fault E S_LockUpdate then (d, Inl (SqlError S_LockUpdate))
      else (map_session sid (\<lambda>s. if sess_LockOwner s = Some owner then unlock E s else s) d, Inr ()))"

definition ForceReleaseSessionLock ::
  "store_env \<Rightarrow> string \<Rightarrow> db \<Rightarrow> db \<times> (store_error + unit)" where
  "ForceReleaseSessionLock E sid d =
     (if env_fault E S_LockUpdate then (d, Inl (SqlError S_LockUpdate))
      else (map_session sid (unlock E) d, Inr ()))"

subsection \<open>Server events and files\<close>

definition MaxServerEventsPerListCall :: nat where
  "MaxServerEventsPerListCall = 500"

definition AppendServerEvent ::
  "store_env \<Rightarrow> ServerSessionEvent \<Rightarrow> db \<Rightarrow> db \<times> (store_error + unit)" where
  "AppendServerEvent E e d = autocommit (exec E S_InsertServerEvent
     (if has_session d (sev_SessionID e)
      then Some (d\<lparr>db_session_events :=
                     db_session_events d @ [e\<lparr>sev_ID := db_session_event_seq d + 1\<rparr>],
                   db_session_event_seq := db_session_event_seq d + 1\<rparr>) else None)) d"

definition ListServerEvents ::
  "store_env \<Rightarrow> string \<Rightarrow> db \<Rightarrow> store_error + ServerSessionEvent list" where
  "ListServerEvents E sid d =
     (if env_fault E S_ListServerEvents then Inl (SqlError S_ListServerEvents)
      else Inr (take MaxServerEventsPerListCall (sort_desc (\<lambda>e. env_time_text E (sev_At e))
             (filter (\<lambda>e. sev_SessionID e = sid) (db_session_events d)))))"

text \<open>The distinct files of a session's turns, in the order in which they first appear.\<close>

definition sessionFiles ::
  "store_env \<Rightarrow> (Turn \<Rightarrow> string list) \<Rightarrow> string \<Rightarrow> db \<Rightarrow> store_error + string list" where
  "sessionFiles E column sid d =
     (if env_fault E S_SessionFiles then Inl (SqlError S_SessionFiles)
      else Inr (fold (\<lambda>f seen. if f \<in> set seen then seen else seen @ [f])
                  (concat (map column (turns_of d sid))) []))"

definition SessionFilesTouched :: "store_env \<Rightarrow> string \<Rightarrow> db \<Rightarrow> store_error + string list" where
  "SessionFilesTouched E = sessionFiles E turn_FilesTouched"

definition SessionFilesModified :: "store_env \<Rightarrow> string \<Rightarrow> db \<Rightarrow> store_error + string list" where
  "SessionFilesModified E = sessionFiles E turn_FilesModified"

subsection \<open>Turns\<close>

text \<open>\<open>insertTurn\<close>, shared with the creation of a foreground run; nil JSON columns get their empty values.\<close>

definition insertTurn :: "store_env \<Rightarrow> Turn \<Rightarrow> db \<Rightarrow> store_error + db" where
  "insertTurn E t d = exec E S_InsertTurn
     (if has_session d (turn_SessionID t) \<and> turn_ID t \<notin> turn_ID ` set (db_turns d)
      then Some (d\<lparr>db_turns := db_turns d @
             [t\<lparr>turn_Content := OrElseJ (turn_Content t) [CHR 0x22, CHR 0x22],
                turn_ToolCalls := OrElseJ (turn_ToolCalls t) ''[]''\<rparr>]\<rparr>) else None)"

definition CreateTurn :: "store_env \<Rightarrow> Turn \<Rightarrow> db \<Rightarrow> db \<times> (store_error + unit)" where
  "CreateTurn E t d = autocommit (insertTurn E t d) d"

definition GetTurn :: "store_env \<Rightarrow> string \<Rightarrow> db \<Rightarrow> store_error + Turn option" where
  "GetTurn E tid d =
     (if env_fault E S_GetTurn then Inl (SqlError S_GetTurn)
      else Inr (find (\<lambda>t. turn_ID t = tid) (db_turns d)))"

definition MaxTurnsPerListCall :: nat where
  "MaxTurnsPerListCall = 2000"

definition ListTurns :: "store_env \<Rightarrow> string \<Rightarrow> db \<Rightarrow> store_error + Turn list" where
  "ListTurns E sid d =
     (if env_fault E S_ListTurns then Inl (SqlError S_ListTurns)
      else Inr (take MaxTurnsPerListCall (sort_key turn_Sequence (turns_of d sid))))"

definition DeleteTurn :: "store_env \<Rightarrow> string \<Rightarrow> string \<Rightarrow> db \<Rightarrow> db \<times> (store_error + unit)" where
  "DeleteTurn E sid tid d = autocommit (exec E S_DeleteTurn (Some (d\<lparr>db_turns :=
     filter (\<lambda>t. \<not> (turn_ID t = tid \<and> turn_SessionID t = sid)) (db_turns d)\<rparr>))) d"

subsection \<open>Command history\<close>

definition MaxCommandHistoryPerListCall :: int where
  "MaxCommandHistoryPerListCall = 500"

definition insertHistory :: "store_env \<Rightarrow> CommandHistoryEntry \<Rightarrow> db \<Rightarrow> store_error + db" where
  "insertHistory E h d = exec E S_InsertHistory
     (Some (d\<lparr>db_history := db_history d @
        [h\<lparr>hist_ID := int (length (db_history d)) + 1\<rparr>]\<rparr>))"

definition AppendCommandHistory ::
  "store_env \<Rightarrow> CommandHistoryEntry \<Rightarrow> db \<Rightarrow> db \<times> (store_error + unit)" where
  "AppendCommandHistory E h d = autocommit (insertHistory E h d) d"

definition hist_key :: "store_env \<Rightarrow> CommandHistoryEntry \<Rightarrow> string \<times> int" where
  "hist_key E h = (env_time_text E (hist_CreatedAt h), hist_ID h)"

text \<open>The scope of a lookup: session, else project, else user.\<close>

definition in_scope :: "CommandHistoryFilter \<Rightarrow> CommandHistoryEntry \<Rightarrow> bool" where
  "in_scope f h =
     (hist_UserID h = hf_UserID f \<and>
      (if hf_SessionID f \<noteq> [] then hist_SessionID h = Some (hf_SessionID f)
       else if hf_Project f \<noteq> [] then hist_Project h = hf_Project f else True))"

text \<open>The cursor: entries strictly older than it, the identifier breaking ties.\<close>

definition before_cursor :: "store_env \<Rightarrow> CommandHistoryFilter \<Rightarrow> CommandHistoryEntry \<Rightarrow> bool" where
  "before_cursor E f h =
     (case hf_Before f of
        None \<Rightarrow> True
      | Some t \<Rightarrow>
          (case hf_BeforeID f of
             Some i \<Rightarrow> env_time_text E (hist_CreatedAt h) < env_time_text E t \<or>
                       (env_time_text E (hist_CreatedAt h) = env_time_text E t \<and> hist_ID h < i)
           | None \<Rightarrow> env_time_text E (hist_CreatedAt h) < env_time_text E t))"

definition history_limit :: "int \<Rightarrow> int" where
  "history_limit n = (if n \<le> 0 then MaxCommandHistoryPerListCall
                      else if n > MaxCommandHistoryPerListCall then MaxCommandHistoryPerListCall
                      else n)"

definition ListCommandHistory ::
  "store_env \<Rightarrow> CommandHistoryFilter \<Rightarrow> db \<Rightarrow> store_error + CommandHistoryEntry list" where
  "ListCommandHistory E f d =
     (if env_fault E S_ListHistory then Inl (SqlError S_ListHistory)
      else Inr (take (nat (history_limit (hf_Limit f)))
             (sort_desc (hist_key E) (filter (\<lambda>h. in_scope f h \<and> before_cursor E f h)
                (db_history d)))))"

end
