(* ===== verification/Run_Store.thy ===== *)
theory Run_Store
  imports Session_Store
begin

text \<open>
  Durable runs in SQLite (\<open>internal/storage/runs.go\<close>): creation in one
  transaction, the append-only event log with the run's state, checkpoints, turn links, and the
  idempotent accounting of model calls and tool results.  Constraints are those of the schema
  (\<open>sqlite.go\<close>): primary keys, the unique idempotency key, and the foreign keys, which the
  connection string turns on.
\<close>

definition OrElse :: "'a::zero \<Rightarrow> 'a \<Rightarrow> 'a" where
  "OrElse x d = (if x = 0 then d else x)"

definition OrElseS :: "string \<Rightarrow> string \<Rightarrow> string" where
  "OrElseS x d = (if x = [] then d else x)"

subsection \<open>Defaults\<close>

definition cp_default_payload :: string where
  "cp_default_payload = concat [[CHR ''{''],
     [CHR 0x22] @ ''context'' @ [CHR 0x22] @ '':{},'', [CHR 0x22] @ ''artifacts'' @ [CHR 0x22] @ '':{},'',
     [CHR 0x22] @ ''policy'' @ [CHR 0x22] @ '':{},'', [CHR 0x22] @ ''workspace'' @ [CHR 0x22] @ '':{},'',
     [CHR 0x22] @ ''memory'' @ [CHR 0x22] @ '':{},'', [CHR 0x22] @ ''routing'' @ [CHR 0x22] @ '':{}'',
     [CHR ''}'']]"

definition normalizeRunForCreate :: "store_env \<Rightarrow> Run \<Rightarrow> store_error + Run" where
  "normalizeRunForCreate E r0 =
     (let r1 = r0\<lparr>run_ID := OrElseS (run_ID r0) (''run-'' @ env_uuid E 0),
                  run_TraceID := OrElseS (run_TraceID r0) (''trace-'' @ env_uuid E 1),
                  run_WorkflowType := OrElseS (run_WorkflowType r0) RunWorkflowImplementation\<rparr> in
      if \<not> validWorkflowTypes (run_WorkflowType r1) then Inl ErrInvalidWorkflowType
      else
        (let r2 = r1\<lparr>run_Status := OrElseS (run_Status r1) RunStatusQueued\<rparr> in
         if \<not> validRunStatuses (run_Status r2) then Inl ErrInvalidRunStatus
         else
           (let r3 = r2\<lparr>run_Stage := OrElseS (run_Stage r2) RunStagePreflight\<rparr> in
            if \<not> validRunStages (run_Stage r3) then Inl ErrInvalidRunStage
            else
              (let c = OrElse (run_CreatedAt r3) (env_now E)
               in Inr (r3\<lparr>
                    run_AttachmentState := OrElseS (run_AttachmentState r3) RunAttachmentDetached,
                    run_ExtensionJSON := OrElseJ (run_ExtensionJSON r3) ''{}'',
                    run_RetentionClass := OrElseS (run_RetentionClass r3) ''standard'',
                    run_SchemaVersion := OrElse (run_SchemaVersion r3) 1,
                    run_CreatedAt := c,
                    run_UpdatedAt := OrElse (run_UpdatedAt r3) c,
                    run_LastAdvancedAt := OrElse (run_LastAdvancedAt r3) c,
                    run_InitiatorType := OrElseS (run_InitiatorType r3) ''user''\<rparr>)))))"

definition normalizeCheckpointForAppend ::
  "store_env \<Rightarrow> string \<Rightarrow> int \<Rightarrow> RunCheckpoint \<Rightarrow> RunCheckpoint" where
  "normalizeCheckpointForAppend E runID seq cp =
     cp\<lparr>cp_ID := OrElseS (cp_ID cp) (''cp-'' @ env_uuid E 2),
        cp_RunID := OrElseS (cp_RunID cp) runID,
        cp_Seq := OrElse (cp_Seq cp) seq,
        cp_PayloadJSON := OrElseJ (cp_PayloadJSON cp) cp_default_payload,
        cp_SchemaVersion := OrElse (cp_SchemaVersion cp) 1,
        cp_CreatedAt := OrElse (cp_CreatedAt cp) (env_now E)\<rparr>"

definition normalizeCheckpointForCreate ::
  "store_env \<Rightarrow> Run \<Rightarrow> int \<Rightarrow> RunCheckpoint \<Rightarrow> RunCheckpoint" where
  "normalizeCheckpointForCreate E r seq cp0 =
     (let cp = normalizeCheckpointForAppend E (run_ID r) seq
                 (cp0\<lparr>cp_RunID := OrElseS (cp_RunID cp0) (run_ID r)\<rparr>)
      in cp\<lparr>cp_Stage := OrElseS (cp_Stage cp) (run_Stage r),
            cp_Status := OrElseS (cp_Status cp) (run_Status r),
            cp_Summary := OrElseS (cp_Summary cp) (run_Summary r)\<rparr>)"

text \<open>The defaults \<open>CreateRun\<close> gives the initial event, and its place in the log.\<close>

definition normalizeInitialEvent :: "Run \<Rightarrow> RunEvent \<Rightarrow> RunEvent" where
  "normalizeInitialEvent r ev =
     ev\<lparr>evt_Type := OrElseS (evt_Type ev) ''run.started'',
        evt_Stage := OrElseS (evt_Stage ev) (run_Stage r),
        evt_Status := OrElseS (evt_Status ev) (run_Status r),
        evt_PayloadJSON := OrElseJ (evt_PayloadJSON ev) ''{}'',
        evt_PayloadSchemaVersion := OrElse (evt_PayloadSchemaVersion ev) 1,
        evt_CreatedAt := OrElse (evt_CreatedAt ev) (run_CreatedAt r),
        evt_RunID := run_ID r, evt_Seq := 1\<rparr>"

subsection \<open>Inserting rows\<close>

definition has_run :: "db \<Rightarrow> string \<Rightarrow> bool" where
  "has_run d rid = (rid \<in> run_ID ` set (db_runs d))"

definition run_key :: "Run \<Rightarrow> string \<times> string \<times> string" where
  "run_key r = (run_UserID r, run_Project r, run_IdempotencyKey r)"

definition insertRun :: "store_env \<Rightarrow> Run \<Rightarrow> db \<Rightarrow> store_error + db" where
  "insertRun E r d = exec E S_InsertRun
     (if \<not> has_run d (run_ID r) \<and> run_key r \<notin> run_key ` set (db_runs d)
         \<and> has_session d (run_SessionID r)
         \<and> (case run_ParentRunID r of None \<Rightarrow> True | Some p \<Rightarrow> has_run d p \<or> p = run_ID r)
      then Some (d\<lparr>db_runs := db_runs d @ [r]\<rparr>) else None)"

definition insertAttachment :: "store_env \<Rightarrow> Run \<Rightarrow> db \<Rightarrow> store_error + db" where
  "insertAttachment E r d = exec E S_InsertAttachment
     (if has_run d (run_ID r) \<and> run_ID r \<notin> att_RunID ` set (db_attachments d)
      then Some (d\<lparr>db_attachments := db_attachments d @
             [\<lparr>att_RunID = run_ID r, att_State = run_AttachmentState r,
               att_ConnectionID = run_AttachedConnectionID r,
               att_GraceDeadline = run_AttachmentGraceDeadline r,
               att_UpdatedAt = run_UpdatedAt r\<rparr>]\<rparr>) else None)"

definition insertRunEvent :: "store_env \<Rightarrow> RunEvent \<Rightarrow> db \<Rightarrow> store_error + db" where
  "insertRunEvent E ev d = exec E S_InsertEvent
     (if has_run d (evt_RunID ev)
         \<and> (evt_RunID ev, evt_Seq ev) \<notin> (\<lambda>e. (evt_RunID e, evt_Seq e)) ` set (db_events d)
      then Some (d\<lparr>db_events := db_events d @ [ev]\<rparr>) else None)"

definition insertRunCheckpoint :: "store_env \<Rightarrow> RunCheckpoint \<Rightarrow> db \<Rightarrow> store_error + db" where
  "insertRunCheckpoint E cp d = exec E S_InsertCheckpoint
     (if has_run d (cp_RunID cp) \<and> cp_ID cp \<notin> cp_ID ` set (db_checkpoints d)
      then Some (d\<lparr>db_checkpoints := db_checkpoints d @ [cp]\<rparr>) else None)"

definition insertRunTurn ::
  "store_env \<Rightarrow> string \<Rightarrow> string \<Rightarrow> string \<Rightarrow> int \<Rightarrow> db \<Rightarrow> store_error + db" where
  "insertRunTurn E rid tid role seq d = exec E S_LinkTurn
     (if has_run d rid \<and> tid \<notin> link_TurnID ` set (db_run_turns d)
      then Some (d\<lparr>db_run_turns := db_run_turns d @
             [\<lparr>link_RunID = rid, link_TurnID = tid, link_Sequence = seq, link_Role = role,
               link_CreatedAt = env_now E\<rparr>]\<rparr>) else None)"

definition updateRunSeq :: "store_env \<Rightarrow> Run \<Rightarrow> int \<Rightarrow> string \<Rightarrow> db \<Rightarrow> store_error + db" where
  "updateRunSeq E r seq cpID d = exec E S_UpdateRunSeq
     (Some (d\<lparr>db_runs := map (\<lambda>x. if run_ID x = run_ID r
        then x\<lparr>run_LastEventSeq := seq, run_LastCheckpointID := cpID, run_UpdatedAt := run_UpdatedAt r\<rparr>
        else x) (db_runs d)\<rparr>))"

subsection \<open>Creating runs\<close>

text \<open>
  \<open>CreateRun\<close> and \<open>CreateRunWithTurn\<close> are one sequence of statements with a middle part that only
  the second one has.  The result is the run as the caller's struct holds it afterwards.
\<close>

definition create_run_tx ::
  "store_env \<Rightarrow> Run \<Rightarrow> RunEvent \<Rightarrow> RunCheckpoint \<Rightarrow> (db \<Rightarrow> db \<times> (store_error + unit)) \<Rightarrow> db
     \<Rightarrow> db \<times> (store_error + Run)" where
  "create_run_tx E r initial cp extra d =
     (let ev = normalizeInitialEvent r initial;
          cp' = normalizeCheckpointForCreate E r (evt_Seq ev) cp
      in run_tx E (\<lambda>d0.
           bindT (in_tx (insertRun E r d0) d0) (\<lambda>_ d1.
           bindT (in_tx (insertAttachment E r d1) d1) (\<lambda>_ d2.
           bindT (in_tx (insertRunEvent E ev d2) d2) (\<lambda>_ d3.
           bindT (in_tx (insertRunCheckpoint E cp' d3) d3) (\<lambda>_ d4.
           bindT (extra d4) (\<lambda>_ d5.
           bindT (in_tx (updateRunSeq E r (evt_Seq ev) (cp_ID cp') d5) d5) (\<lambda>_ d6.
           (d6, Inr (r\<lparr>run_LastEventSeq := evt_Seq ev, run_LastCheckpointID := cp_ID cp'\<rparr>))))))))) d)"

text \<open>The part \<open>CreateRun\<close> does not have.\<close>

definition no_statement :: "db \<Rightarrow> db \<times> (store_error + unit)" where
  "no_statement d = (d, Inr ())"

text \<open>The turn of a foreground run, its link and the line of the history.\<close>

definition foreground_statements ::
  "store_env \<Rightarrow> string \<Rightarrow> Turn \<Rightarrow> string \<Rightarrow> int \<Rightarrow> CommandHistoryEntry option \<Rightarrow> db
     \<Rightarrow> db \<times> (store_error + unit)" where
  "foreground_statements E rid t linkRole linkSeq history d =
     bindT (in_tx (insertTurn E t d) d) (\<lambda>_ d2.
     bindT (in_tx (insertRunTurn E rid (turn_ID t) linkRole linkSeq d2) d2) (\<lambda>_ d3.
     (case history of
        None \<Rightarrow> (d3, Inr ())
      | Some h \<Rightarrow> (if hist_Content h \<noteq> [] then in_tx (insertHistory E h d3) d3 else (d3, Inr ())))))"

definition CreateRun ::
  "store_env \<Rightarrow> Run \<Rightarrow> RunEvent \<Rightarrow> RunCheckpoint \<Rightarrow> db \<Rightarrow> db \<times> (store_error + Run)" where
  "CreateRun E r0 initial cp d =
     (case normalizeRunForCreate E r0 of
        Inl e \<Rightarrow> (d, Inl e)
      | Inr r \<Rightarrow> create_run_tx E r initial cp no_statement d)"

definition CreateRunWithTurn ::
  "store_env \<Rightarrow> Run \<Rightarrow> RunEvent \<Rightarrow> RunCheckpoint \<Rightarrow> Turn option \<Rightarrow> string \<Rightarrow> int
     \<Rightarrow> CommandHistoryEntry option \<Rightarrow> db \<Rightarrow> db \<times> (store_error + Run)" where
  "CreateRunWithTurn E r0 initial cp turn linkRole linkSeq history d =
     (case turn of
        None \<Rightarrow> (d, Inl ErrTurnRequired)
      | Some t \<Rightarrow>
          (case normalizeRunForCreate E r0 of
             Inl e \<Rightarrow> (d, Inl e)
           | Inr r \<Rightarrow> create_run_tx E r initial cp
               (foreground_statements E (run_ID r) t linkRole linkSeq history) d))"

subsection \<open>Reading runs\<close>

definition find_run :: "db \<Rightarrow> string \<Rightarrow> Run option" where
  "find_run d rid = find (\<lambda>r. run_ID r = rid) (db_runs d)"

definition GetRun :: "store_env \<Rightarrow> string \<Rightarrow> db \<Rightarrow> store_error + Run" where
  "GetRun E rid d =
     (if env_fault E S_SelectRun then Inl (SqlError S_SelectRun)
      else (case find_run d rid of None \<Rightarrow> Inl ErrRunNotFound | Some r \<Rightarrow> Inr r))"

definition GetRunByIdempotency ::
  "store_env \<Rightarrow> string \<Rightarrow> string \<Rightarrow> string \<Rightarrow> db \<Rightarrow> store_error + Run" where
  "GetRunByIdempotency E user project key d =
     (if env_fault E S_SelectRun then Inl (SqlError S_SelectRun)
      else (case find (\<lambda>r. run_key r = (user, project, key)) (db_runs d) of
              None \<Rightarrow> Inl ErrRunNotFound | Some r \<Rightarrow> Inr r))"

definition ListRuns :: "store_env \<Rightarrow> RunFilter \<Rightarrow> db \<Rightarrow> store_error + Run list" where
  "ListRuns E f d =
     (if flt_UserID f = [] then Inl ErrUserIDRequired
      else if \<not> validRunStatuses (flt_Status f) then Inl ErrInvalidRunStatus
      else if env_fault E S_SelectRuns then Inl (SqlError S_SelectRuns)
      else
        (let rows = filter (\<lambda>r. run_UserID r = flt_UserID f
                  \<and> (flt_Project f \<noteq> [] \<longrightarrow> run_Project r = flt_Project f)
                  \<and> (flt_SessionID f \<noteq> [] \<longrightarrow> run_SessionID r = flt_SessionID f)
                  \<and> (flt_Status f \<noteq> [] \<longrightarrow> run_Status r = flt_Status f)) (db_runs d);
             limit = (if flt_Limit f \<le> 0 \<or> flt_Limit f > 100 then 50 else flt_Limit f);
             sorted = sort_desc (\<lambda>r. env_time_text E (run_UpdatedAt r)) rows;
             rest = (if flt_Offset f > 0 then drop (nat (flt_Offset f)) sorted else sorted)
         in Inr (take (nat limit) rest)))"

subsection \<open>Appending events\<close>

definition set_opt :: "('a \<Rightarrow> 'b \<Rightarrow> 'b) \<Rightarrow> 'a option \<Rightarrow> 'b \<Rightarrow> 'b" where
  "set_opt f x b = (case x of None \<Rightarrow> b | Some a \<Rightarrow> f a b)"

lemma set_opt_simps [simp]:
  "set_opt f None b = b"
  "set_opt f (Some a) b = f a b"
  by (simp_all add: set_opt_def)

text \<open>The \<open>SET\<close> list of the update of the run's row.\<close>

definition update_run_row :: "int \<Rightarrow> RunStateUpdate \<Rightarrow> gotime \<Rightarrow> Run \<Rightarrow> Run" where
  "update_run_row seq u tm r =
     (let r1 = r\<lparr>run_LastEventSeq := seq, run_UpdatedAt := tm, run_LastAdvancedAt := tm\<rparr>;
          r2 = set_opt (\<lambda>x r. r\<lparr>run_Status := x\<rparr>) (upd_Status u) r1;
          r3 = set_opt (\<lambda>x r. r\<lparr>run_Stage := x\<rparr>) (upd_Stage u) r2;
          r4 = set_opt (\<lambda>x r. r\<lparr>run_AttachmentState := x\<rparr>) (upd_AttachmentState u) r3;
          r5 = set_opt (\<lambda>x r. r\<lparr>run_AttachedConnectionID := x\<rparr>) (upd_AttachedConnectionID u) r4;
          r6 = set_opt (\<lambda>x r. r\<lparr>run_AttachmentGraceDeadline := Some x\<rparr>)
                 (upd_AttachmentGraceDeadline u) r5;
          r7 = set_opt (\<lambda>x r. r\<lparr>run_Summary := x\<rparr>) (upd_Summary u) r6;
          r8 = set_opt (\<lambda>x r. r\<lparr>run_Model := x\<rparr>) (upd_Model u) r7;
          r9 = set_opt (\<lambda>x r. r\<lparr>run_Provider := x\<rparr>) (upd_Provider u) r8;
          r10 = set_opt (\<lambda>x r. r\<lparr>run_InputTokens := x\<rparr>) (upd_InputTokens u) r9;
          r11 = set_opt (\<lambda>x r. r\<lparr>run_OutputTokens := x\<rparr>) (upd_OutputTokens u) r10;
          r12 = set_opt (\<lambda>x r. r\<lparr>run_TotalCost := x\<rparr>) (upd_TotalCost u) r11;
          r13 = set_opt (\<lambda>x r. r\<lparr>run_LastCheckpointID := x\<rparr>) (upd_LastCheckpointID u) r12
      in set_opt (\<lambda>x r. r\<lparr>run_TerminalAt := Some x\<rparr>) (upd_TerminalAt u) r13)"

definition update_attachment_row :: "RunStateUpdate \<Rightarrow> gotime \<Rightarrow> AttachmentRow \<Rightarrow> AttachmentRow" where
  "update_attachment_row u tm a =
     (let a1 = a\<lparr>att_UpdatedAt := tm\<rparr>;
          a2 = set_opt (\<lambda>x a. a\<lparr>att_State := x\<rparr>) (upd_AttachmentState u) a1;
          a3 = set_opt (\<lambda>x a. a\<lparr>att_ConnectionID := x\<rparr>) (upd_AttachedConnectionID u) a2
      in set_opt (\<lambda>x a. a\<lparr>att_GraceDeadline := Some x\<rparr>) (upd_AttachmentGraceDeadline u) a3)"

definition applyRunStateUpdate ::
  "store_env \<Rightarrow> string \<Rightarrow> int \<Rightarrow> RunStateUpdate \<Rightarrow> gotime \<Rightarrow> db \<Rightarrow> db \<times> (store_error + unit)" where
  "applyRunStateUpdate E rid seq u tm d =
     (if (case upd_Status u of None \<Rightarrow> False | Some st \<Rightarrow> \<not> validRunStatuses st)
      then (d, Inl ErrInvalidRunStatus)
      else if (case upd_Stage u of None \<Rightarrow> False | Some st \<Rightarrow> \<not> validRunStages st)
      then (d, Inl ErrInvalidRunStage)
      else
        bindT (in_tx (exec E S_UpdateRun (Some (d\<lparr>db_runs :=
                 map (\<lambda>r. if run_ID r = rid then update_run_row seq u tm r else r) (db_runs d)\<rparr>))) d)
          (\<lambda>_ d1.
             if \<not> has_run d rid then (d1, Inl ErrRunNotFound)
             else if upd_AttachmentState u \<noteq> None \<or> upd_AttachedConnectionID u \<noteq> None
                     \<or> upd_AttachmentGraceDeadline u \<noteq> None
             then in_tx (exec E S_UpdateAttachment (Some (d1\<lparr>db_attachments :=
                    map (\<lambda>a. if att_RunID a = rid then update_attachment_row u tm a else a)
                      (db_attachments d1)\<rparr>))) d1
             else (d1, Inr ())))"

text \<open>The event as it is stored: its run, the next number, the defaults.\<close>

definition stamp :: "store_env \<Rightarrow> string \<Rightarrow> int \<Rightarrow> RunEvent \<Rightarrow> RunEvent" where
  "stamp E rid n ev =
     ev\<lparr>evt_RunID := rid, evt_Seq := n,
        evt_PayloadJSON := OrElseJ (evt_PayloadJSON ev) ''{}'',
        evt_PayloadSchemaVersion := OrElse (evt_PayloadSchemaVersion ev) 1,
        evt_CreatedAt := OrElse (evt_CreatedAt ev) (env_now E)\<rparr>"

text \<open>The checkpoint of an append, if it has one: inserted, and its identifier put in the update.\<close>

definition appendCheckpoint ::
  "store_env \<Rightarrow> string \<Rightarrow> int \<Rightarrow> RunStateUpdate \<Rightarrow> db \<Rightarrow> db \<times> (store_error + RunStateUpdate)" where
  "appendCheckpoint E rid seq u d =
     (case upd_Checkpoint u of
        None \<Rightarrow> (d, Inr u)
      | Some cp0 \<Rightarrow>
          (let cp = normalizeCheckpointForAppend E rid seq cp0
           in bindT (in_tx (insertRunCheckpoint E cp d) d)
                (\<lambda>_ d1. (d1, Inr (u\<lparr>upd_LastCheckpointID := Some (cp_ID cp)\<rparr>)))))"

definition AppendRunEvent ::
  "store_env \<Rightarrow> string \<Rightarrow> RunEvent \<Rightarrow> RunStateUpdate \<Rightarrow> db \<Rightarrow> db \<times> (store_error + int)" where
  "AppendRunEvent E rid ev0 u0 = run_tx E (\<lambda>d.
     if env_fault E S_ReadSeq then (d, Inl (SqlError S_ReadSeq))
     else (case find_run d rid of
        None \<Rightarrow> (d, Inl ErrRunNotFound)
      | Some r \<Rightarrow>
          (let n = run_LastEventSeq r + 1;
               ev = stamp E rid n ev0
           in bindT (in_tx (insertRunEvent E ev d) d) (\<lambda>_ d1.
              bindT (appendCheckpoint E rid n u0 d1) (\<lambda>u d2.
              bindT (applyRunStateUpdate E rid n u (evt_CreatedAt ev) d2) (\<lambda>_ d3.
              (d3, Inr n)))))))"

subsection \<open>Checkpoints, events, turn links\<close>

definition CreateRunCheckpoint ::
  "store_env \<Rightarrow> RunCheckpoint \<Rightarrow> db \<Rightarrow> db \<times> (store_error + unit)" where
  "CreateRunCheckpoint E cp d =
     (if env_fault E S_CheckRun then (d, Inl (SqlError S_CheckRun))
      else autocommit (insertRunCheckpoint E
             (normalizeCheckpointForAppend E (cp_RunID cp) (cp_Seq cp) cp) d) d)"

definition GetLatestRunCheckpoint ::
  "store_env \<Rightarrow> string \<Rightarrow> db \<Rightarrow> store_error + RunCheckpoint option" where
  "GetLatestRunCheckpoint E rid d =
     (if env_fault E S_LatestCheckpoint then Inl (SqlError S_LatestCheckpoint)
      else (case sort_desc cp_Seq (filter (\<lambda>c. cp_RunID c = rid) (db_checkpoints d)) of
              [] \<Rightarrow> Inr None | c # cs \<Rightarrow> Inr (Some c)))"

definition events_of :: "db \<Rightarrow> string \<Rightarrow> RunEvent list" where
  "events_of d rid = filter (\<lambda>e. evt_RunID e = rid) (db_events d)"

definition ListRunEvents ::
  "store_env \<Rightarrow> string \<Rightarrow> int \<Rightarrow> int \<Rightarrow> db \<Rightarrow> store_error + RunEvent list" where
  "ListRunEvents E rid afterSeq limit0 d =
     (let limit = (if limit0 \<le> 0 \<or> limit0 > 500 then 100 else limit0) in
      if env_fault E S_ListEvents then Inl (SqlError S_ListEvents)
      else Inr (take (nat limit)
             (sort_key evt_Seq (filter (\<lambda>e. evt_Seq e > afterSeq) (events_of d rid)))))"

definition LinkTurnToRun ::
  "store_env \<Rightarrow> string \<Rightarrow> string \<Rightarrow> string \<Rightarrow> int \<Rightarrow> db \<Rightarrow> db \<times> (store_error + unit)" where
  "LinkTurnToRun E rid tid role seq d = autocommit (insertRunTurn E rid tid role seq d) d"

definition ListRunTurnIDs :: "store_env \<Rightarrow> string \<Rightarrow> db \<Rightarrow> store_error + string list" where
  "ListRunTurnIDs E rid d =
     (if env_fault E S_ListTurnIDs then Inl (SqlError S_ListTurnIDs)
      else Inr (map link_TurnID
             (sort_key link_Sequence (filter (\<lambda>t. link_RunID t = rid) (db_run_turns d)))))"

subsection \<open>Idempotent accounting\<close>

text \<open>
  \<open>INSERT OR IGNORE\<close> skips a row whose primary key exists; a foreign-key violation is still an
  error.  The totals of the run move only when a row was inserted.
\<close>

definition add_model_call :: "RunModelCall \<Rightarrow> gotime \<Rightarrow> Run \<Rightarrow> Run" where
  "add_model_call c tm r =
     r\<lparr>run_InputTokens := run_InputTokens r + mc_InputTokens c,
       run_OutputTokens := run_OutputTokens r + mc_OutputTokens c,
       run_TotalCost := run_TotalCost r + mc_TotalCost c,
       run_Model := OrElseS (run_Model r) (mc_Model c),
       run_Provider := OrElseS (run_Provider r) (mc_Provider c), run_UpdatedAt := tm\<rparr>"

definition normalizeModelCall :: "store_env \<Rightarrow> RunModelCall \<Rightarrow> RunModelCall" where
  "normalizeModelCall E c =
     c\<lparr>mc_PayloadJSON := OrElseJ (mc_PayloadJSON c) ''{}'',
       mc_Stage := OrElseS (mc_Stage c) RunStageModelCall,
       mc_CreatedAt := OrElse (mc_CreatedAt c) (env_now E),
       mc_UpdatedAt := OrElse (mc_UpdatedAt c) (env_now E)\<rparr>"

definition RecordRunModelCall ::
  "store_env \<Rightarrow> RunModelCall \<Rightarrow> db \<Rightarrow> db \<times> (store_error + bool)" where
  "RecordRunModelCall E c0 =
     (let c = normalizeModelCall E c0
      in run_tx E (\<lambda>d.
        let known = mc_ModelCallID c \<in> mc_ModelCallID ` set (db_model_calls d) in
        bindT (in_tx (exec E S_InsertModelCall
                 (if known then Some d
                  else if has_run d (mc_RunID c)
                  then Some (d\<lparr>db_model_calls := db_model_calls d @ [c]\<rparr>) else None)) d)
          (\<lambda>_ d1. if known then (d1, Inr False)
                else bindT (in_tx (exec E S_ModelTotals (Some (d1\<lparr>db_runs :=
                       map (\<lambda>r. if run_ID r = mc_RunID c then add_model_call c (env_now E) r else r)
                         (db_runs d1)\<rparr>))) d1)
                       (\<lambda>_ d2. (d2, Inr True)))))"

definition normalizeToolResult :: "store_env \<Rightarrow> RunToolResult \<Rightarrow> RunToolResult" where
  "normalizeToolResult E t =
     t\<lparr>tr_PayloadJSON := OrElseJ (tr_PayloadJSON t) ''{}'',
       tr_Stage := OrElseS (tr_Stage t) RunStageToolLoop,
       tr_CreatedAt := OrElse (tr_CreatedAt t) (env_now E),
       tr_UpdatedAt := OrElse (tr_UpdatedAt t) (env_now E)\<rparr>"

definition RecordRunToolResult ::
  "store_env \<Rightarrow> RunToolResult \<Rightarrow> db \<Rightarrow> db \<times> (store_error + bool)" where
  "RecordRunToolResult E t0 =
     (let t = normalizeToolResult E t0
      in run_tx E (\<lambda>d.
        let known = tr_ToolCallID t \<in> tr_ToolCallID ` set (db_tool_results d) in
        bindT (in_tx (exec E S_InsertToolResult
                 (if known then Some d
                  else if has_run d (tr_RunID t)
                  then Some (d\<lparr>db_tool_results := db_tool_results d @ [t]\<rparr>) else None)) d)
          (\<lambda>_ d1. if known \<or> tr_EstimatedCost t = 0 then (d1, Inr (\<not> known))
                else bindT (in_tx (exec E S_ToolTotals (Some (d1\<lparr>db_runs :=
                       map (\<lambda>r. if run_ID r = tr_RunID t
                                then r\<lparr>run_TotalCost := run_TotalCost r + tr_EstimatedCost t,
                                       run_UpdatedAt := env_now E\<rparr> else r) (db_runs d1)\<rparr>))) d1)
                       (\<lambda>_ d2. (d2, Inr True)))))"

end
