(* ===== verification/Run_Registry.thy ===== *)
theory Run_Registry
  imports Prelude "HOL-Library.AList"
begin

text \<open>
  The runs that have a live provider stream (\<open>internal/runtime/run_registry.go\<close>): two maps, by run
  and by turn, bounded by \<open>maxTrackedRuns\<close>.  A Go map is an association list with distinct keys;
  which entry an overflow evicts depends on the iteration order and is the parameter \<open>pick\<close>.  A
  cancel function is named by a number, and calling it is an output of the operation.
\<close>

definition maxTrackedRuns :: nat where
  "maxTrackedRuns = 4096"

record activeRun =
  ar_id :: string
  ar_turnID :: string
  ar_sessionID :: string
  ar_attachedConnectionID :: string
  ar_cancel :: "nat option"

record runRegistry =
  byRunID :: "(string \<times> activeRun) list"
  byTurnID :: "(string \<times> string) list"

definition newRunRegistry :: runRegistry where
  "newRunRegistry = \<lparr>byRunID = [], byTurnID = []\<rparr>"

text \<open>Dropping the turn of a run, when it has one.\<close>

definition forget_turn :: "string \<Rightarrow> (string \<times> string) list \<Rightarrow> (string \<times> string) list" where
  "forget_turn tid m = (if tid \<noteq> [] then AList.delete tid m else m)"

definition evict :: "(nat \<Rightarrow> nat) \<Rightarrow> runRegistry \<Rightarrow> runRegistry" where
  "evict pick rr =
     (case byRunID rr of
        [] \<Rightarrow> rr
      | _ \<Rightarrow> (let (rid, r) = byRunID rr ! (pick (length (byRunID rr)) mod length (byRunID rr))
             in rr\<lparr>byRunID := AList.delete rid (byRunID rr),
                   byTurnID := forget_turn (ar_turnID r) (byTurnID rr)\<rparr>))"

definition register ::
  "(nat \<Rightarrow> nat) \<Rightarrow> string \<Rightarrow> string \<Rightarrow> string \<Rightarrow> string \<Rightarrow> nat option \<Rightarrow> runRegistry \<Rightarrow> runRegistry" where
  "register pick runID turnID sessionID connectionID cancel rr =
     (let rr1 = (case map_of (byRunID rr) runID of
            Some existing \<Rightarrow> (if ar_turnID existing \<noteq> [] \<and> ar_turnID existing \<noteq> turnID
                              then rr\<lparr>byTurnID := AList.delete (ar_turnID existing) (byTurnID rr)\<rparr>
                              else rr)
          | None \<Rightarrow> rr);
          rr2 = (if map_of (byRunID rr1) runID = None \<and> length (byRunID rr1) \<ge> maxTrackedRuns
                 then evict pick rr1 else rr1);
          rr3 = rr2\<lparr>byRunID := AList.update runID
                  \<lparr>ar_id = runID, ar_turnID = turnID, ar_sessionID = sessionID,
                   ar_attachedConnectionID = connectionID, ar_cancel = cancel\<rparr> (byRunID rr2)\<rparr>
      in if turnID \<noteq> [] then rr3\<lparr>byTurnID := AList.update turnID runID (byTurnID rr3)\<rparr> else rr3)"

text \<open>The new registry, the cancel functions that are called, and whether the run was live.\<close>

definition cancel_run :: "string \<Rightarrow> runRegistry \<Rightarrow> runRegistry \<times> nat list \<times> bool" where
  "cancel_run runID rr =
     (case map_of (byRunID rr) runID of
        None \<Rightarrow> (rr, [], False)
      | Some r \<Rightarrow>
          (case ar_cancel r of
             None \<Rightarrow> (rr, [], False)
           | Some c \<Rightarrow> (rr\<lparr>byRunID := AList.delete runID (byRunID rr),
                          byTurnID := forget_turn (ar_turnID r) (byTurnID rr)\<rparr>, [c], True)))"

definition runIDForTurn :: "string \<Rightarrow> runRegistry \<Rightarrow> string" where
  "runIDForTurn turnID rr = (case map_of (byTurnID rr) turnID of None \<Rightarrow> [] | Some r \<Rightarrow> r)"

definition deregister :: "string \<Rightarrow> string \<Rightarrow> runRegistry \<Rightarrow> runRegistry" where
  "deregister runID turnID rr =
     rr\<lparr>byRunID := AList.delete runID (byRunID rr), byTurnID := forget_turn turnID (byTurnID rr)\<rparr>"

end
