(* ===== verification/GoJson.thy ===== *)
theory GoJson
  imports GoStd
begin

text \<open>
  JSON as \<open>encoding/json\<close> reads and writes it.  A text is read into its syntax tree, which keeps
  numbers and string bodies as they are written, so that a \<open>json.RawMessage\<close> is a tree too and
  writing a tree gives its compact form.  Strings hold valid UTF-8 without the separators U+2028
  and U+2029, the nesting limit of the decoder (10000) is not modelled, and the white space inside
  a raw message is not kept.
\<close>

datatype json =
    JNull
  | JBool bool
  | JNum string
  | JStr string
  | JArr "json list"
  | JObj "(string \<times> json) list"

subsection \<open>Writing strings\<close>

definition hex_digit :: "nat \<Rightarrow> char" where
  "hex_digit n = (if n < 10 then char_of (48 + n) else char_of (87 + n))"

text \<open>
  A byte of a string as the encoder writes it, for strings of valid UTF-8 without the separators
  U+2028 and U+2029: quotes, backslashes and control characters are escaped, and the characters
  that HTML gives a meaning.
\<close>

definition json_char :: "char \<Rightarrow> string" where
  "json_char c =
     (let n = (of_char c :: nat); bs = CHR 0x5C in
      if n = 0x22 \<or> n = 0x5C then [bs, c]
      else if n = 8 then [bs, CHR ''b'']
      else if n = 12 then [bs, CHR ''f'']
      else if n = 10 then [bs, CHR ''n'']
      else if n = 13 then [bs, CHR ''r'']
      else if n = 9 then [bs, CHR ''t'']
      else if n < 32 \<or> c \<in> set ''<>&''
      then bs # ''u00'' @ [hex_digit (n div 16), hex_digit (n mod 16)]
      else [c])"

definition json_string :: "string \<Rightarrow> string" where
  "json_string s = [CHR 0x22] @ concat (map json_char s) @ [CHR 0x22]"

text \<open>An object with its members in the order given; maps are written in the order of their keys.\<close>

definition json_object :: "(string \<times> string) list \<Rightarrow> string" where
  "json_object kvs = ''{'' @ join '','' (map (\<lambda>(k, v). json_string k @ '':'' @ v) kvs) @ ''}''"

subsection \<open>Printing\<close>

definition json_quoted :: "string \<Rightarrow> string" where
  "json_quoted body = [CHR 0x22] @ body @ [CHR 0x22]"

text \<open>The body of the literal that stands for a Go string.\<close>

definition json_lit :: "string \<Rightarrow> string" where
  "json_lit s = concat (map json_char s)"

definition jstr :: "string \<Rightarrow> json" where
  "jstr s = JStr (json_lit s)"

definition jint :: "int \<Rightarrow> json" where
  "jint i = JNum (itoa i)"

fun json_print :: "json \<Rightarrow> string"
  and json_elems :: "json list \<Rightarrow> string"
  and json_members :: "(string \<times> json) list \<Rightarrow> string"
where
  "json_print JNull = ''null''"
| "json_print (JBool b) = (if b then ''true'' else ''false'')"
| "json_print (JNum n) = n"
| "json_print (JStr b) = json_quoted b"
| "json_print (JArr vs) = CHR ''['' # json_elems vs @ '']''"
| "json_print (JObj ms) = CHR ''{'' # json_members ms @ ''}''"
| "json_elems [] = []"
| "json_elems (v # vs) = json_print v @ (if vs = [] then [] else CHR '','' # json_elems vs)"
| "json_members [] = []"
| "json_members (m # ms) = json_quoted (fst m) @ CHR '':'' # json_print (snd m)
     @ (if ms = [] then [] else CHR '','' # json_members ms)"

subsection \<open>Scanning\<close>

definition is_ws :: "char \<Rightarrow> bool" where
  "is_ws c = (c = CHR '' '' \<or> c = CHR 0x09 \<or> c = CHR 0x0A \<or> c = CHR 0x0D)"

definition skip_ws :: "string \<Rightarrow> string" where
  "skip_ws s = dropWhile is_ws s"

definition is_hex :: "char \<Rightarrow> bool" where
  "is_hex c = (is_digit c \<or> (65 \<le> (of_char c :: nat) \<and> (of_char c :: nat) \<le> 70)
     \<or> (97 \<le> (of_char c :: nat) \<and> (of_char c :: nat) \<le> 102))"

definition cons_fst :: "'a list \<Rightarrow> ('a list \<times> 'b) option \<Rightarrow> ('a list \<times> 'b) option" where
  "cons_fst p r = (case r of None \<Rightarrow> None | Some (b, rest) \<Rightarrow> Some (p @ b, rest))"

text \<open>A \<open>\u\<close> escape with its four hexadecimal digits at the start of a string.\<close>

definition hex_val :: "char \<Rightarrow> nat" where
  "hex_val c = (let n = of_char c in if n \<le> 57 then n - 48 else if n \<le> 70 then n - 55 else n - 87)"

definition getu4 :: "string \<Rightarrow> nat option" where
  "getu4 s = (if length s \<ge> 6 \<and> s ! 0 = CHR 0x5C \<and> s ! 1 = CHR ''u'' \<and> list_all is_hex (take 4 (drop 2 s))
              then Some (foldl (\<lambda>n c. 16 * n + hex_val c) 0 (take 4 (drop 2 s))) else None)"

definition simple_escape :: "char \<Rightarrow> bool" where
  "simple_escape e = (e \<in> set ''/bfnrt'' \<or> e = CHR 0x22 \<or> e = CHR 0x5C)"

text \<open>The body of a string literal up to its closing quote, with its escapes checked.\<close>

fun scan_str :: "string \<Rightarrow> (string \<times> string) option" where
  "scan_str [] = None"
| "scan_str (c # r) =
     (if c = CHR 0x22 then Some ([], r)
      else if c = CHR 0x5C then
        (if getu4 (c # r) \<noteq> None then cons_fst (take 6 (c # r)) (scan_str (drop 6 (c # r)))
         else (case r of
                 [] \<Rightarrow> None
               | e # r' \<Rightarrow> (if simple_escape e then cons_fst [c, e] (scan_str r') else None)))
      else if (of_char c :: nat) < 32 then None
      else cons_fst [c] (scan_str r))"

definition num_char :: "char \<Rightarrow> bool" where
  "num_char c = (is_digit c \<or> c \<in> set ''+-.eE'')"

definition drop_sign :: "char set \<Rightarrow> string \<Rightarrow> string" where
  "drop_sign S s = (case s of [] \<Rightarrow> [] | c # r \<Rightarrow> if c \<in> S then r else s)"

definition is_exponent :: "string \<Rightarrow> bool" where
  "is_exponent s = (case s of [] \<Rightarrow> True
     | c # r \<Rightarrow> c \<in> set ''eE'' \<and> drop_sign {CHR ''+'', CHR ''-''} r \<noteq> []
                \<and> list_all is_digit (drop_sign {CHR ''+'', CHR ''-''} r))"

definition is_fraction :: "string \<Rightarrow> bool" where
  "is_fraction s = (case s of [] \<Rightarrow> True
     | c # r \<Rightarrow> (if c = CHR ''.'' then takeWhile is_digit r \<noteq> [] \<and> is_exponent (dropWhile is_digit r)
                 else is_exponent s))"

definition is_number :: "string \<Rightarrow> bool" where
  "is_number lit =
     (let s = drop_sign {CHR ''-''} lit; i = takeWhile is_digit s
      in i \<noteq> [] \<and> (hd i = CHR ''0'' \<longrightarrow> i = ''0'') \<and> is_fraction (dropWhile is_digit s))"

subsection \<open>Parsing\<close>

text \<open>
  Recursive descent with a bound on its depth of calls; every call consumes a byte before the next,
  so a bound above the length of the text is never met (\<open>parse_bound\<close> below).
\<close>

fun parse_value :: "nat \<Rightarrow> string \<Rightarrow> (json \<times> string) option"
  and parse_elems :: "nat \<Rightarrow> string \<Rightarrow> (json list \<times> string) option"
  and parse_members :: "nat \<Rightarrow> string \<Rightarrow> ((string \<times> json) list \<times> string) option"
where
  "parse_value 0 s = None"
| "parse_value (Suc n) s =
     (case skip_ws s of
        [] \<Rightarrow> None
      | c # r \<Rightarrow>
          (if c = CHR 0x22 then
             (case scan_str r of None \<Rightarrow> None | Some (b, r') \<Rightarrow> Some (JStr b, r'))
           else if c = CHR ''['' then
             (case skip_ws r of
                [] \<Rightarrow> None
              | d # r' \<Rightarrow>
                  (if d = CHR '']'' then Some (JArr [], r')
                   else (case parse_elems n (d # r') of
                           None \<Rightarrow> None | Some (vs, r'') \<Rightarrow> Some (JArr vs, r''))))
           else if c = CHR ''{'' then
             (case skip_ws r of
                [] \<Rightarrow> None
              | d # r' \<Rightarrow>
                  (if d = CHR ''}'' then Some (JObj [], r')
                   else (case parse_members n (d # r') of
                           None \<Rightarrow> None | Some (ms, r'') \<Rightarrow> Some (JObj ms, r''))))
           else if has_prefix (c # r) ''null'' then Some (JNull, drop 4 (c # r))
           else if has_prefix (c # r) ''true'' then Some (JBool True, drop 4 (c # r))
           else if has_prefix (c # r) ''false'' then Some (JBool False, drop 5 (c # r))
           else if is_number (takeWhile num_char (c # r))
           then Some (JNum (takeWhile num_char (c # r)), dropWhile num_char (c # r))
           else None))"
| "parse_elems 0 s = None"
| "parse_elems (Suc n) s =
     (case parse_value n s of
        None \<Rightarrow> None
      | Some (v, r) \<Rightarrow>
          (case skip_ws r of
             [] \<Rightarrow> None
           | c # r' \<Rightarrow>
               (if c = CHR '','' then cons_fst [v] (parse_elems n r')
                else if c = CHR '']'' then Some ([v], r') else None)))"
| "parse_members 0 s = None"
| "parse_members (Suc n) s =
     (case skip_ws s of
        [] \<Rightarrow> None
      | q # r \<Rightarrow>
          (if q \<noteq> CHR 0x22 then None
           else (case scan_str r of
                   None \<Rightarrow> None
                 | Some (k, r1) \<Rightarrow>
                     (case skip_ws r1 of
                        [] \<Rightarrow> None
                      | c # r2 \<Rightarrow>
                          (if c \<noteq> CHR '':'' then None
                           else (case parse_value n r2 of
                                   None \<Rightarrow> None
                                 | Some (v, r3) \<Rightarrow>
                                     (case skip_ws r3 of
                                        [] \<Rightarrow> None
                                      | d # r4 \<Rightarrow>
                                          (if d = CHR '','' then cons_fst [(k, v)] (parse_members n r4)
                                           else if d = CHR ''}'' then Some ([(k, v)], r4)
                                           else None))))))))"

definition json_parse :: "string \<Rightarrow> json option" where
  "json_parse s =
     (case parse_value (2 * length s + 1) s of
        None \<Rightarrow> None
      | Some (v, r) \<Rightarrow> if skip_ws r = [] then Some v else None)"

definition json_valid :: "string \<Rightarrow> bool" where
  "json_valid s = (json_parse s \<noteq> None)"

subsection \<open>Reading strings\<close>

text \<open>The UTF-8 bytes of a code point.\<close>

definition utf8 :: "nat \<Rightarrow> string" where
  "utf8 n =
     (if n < 0x80 then [char_of n]
      else if n < 0x800 then [char_of (0xC0 + n div 64), char_of (0x80 + n mod 64)]
      else if n < 0x10000
      then [char_of (0xE0 + n div 4096), char_of (0x80 + n div 64 mod 64), char_of (0x80 + n mod 64)]
      else [char_of (0xF0 + n div 262144), char_of (0x80 + n div 4096 mod 64),
            char_of (0x80 + n div 64 mod 64), char_of (0x80 + n mod 64)])"

definition unescape :: "char \<Rightarrow> char" where
  "unescape e =
     (if e = CHR ''b'' then CHR 0x08 else if e = CHR ''f'' then CHR 0x0C
      else if e = CHR ''n'' then CHR 0x0A else if e = CHR ''r'' then CHR 0x0D
      else if e = CHR ''t'' then CHR 0x09 else e)"

text \<open>Half of a surrogate pair without the other half reads as U+FFFD.\<close>

fun unlit :: "string \<Rightarrow> string" where
  "unlit [] = []"
| "unlit (c # r) =
     (if c = CHR 0x5C then
        (case getu4 (c # r) of
           Some n \<Rightarrow>
             (if 0xD800 \<le> n \<and> n < 0xE000 then
                (case getu4 (drop 6 (c # r)) of
                   Some m \<Rightarrow>
                     (if n < 0xDC00 \<and> 0xDC00 \<le> m \<and> m < 0xE000
                      then utf8 (0x10000 + (n - 0xD800) * 1024 + (m - 0xDC00)) @ unlit (drop 12 (c # r))
                      else utf8 0xFFFD @ unlit (drop 6 (c # r)))
                 | None \<Rightarrow> utf8 0xFFFD @ unlit (drop 6 (c # r)))
              else utf8 n @ unlit (drop 6 (c # r)))
         | None \<Rightarrow> (case r of [] \<Rightarrow> [] | e # r' \<Rightarrow> unescape e # unlit r'))
      else c # unlit r)"

subsection \<open>Reading into Go values\<close>

text \<open>
  \<open>json.Unmarshal\<close> into a struct: a member belongs to the field whose name it has, ignoring the
  case of ASCII letters; of several members the last one counts.  A missing member and \<open>null\<close>
  leave the field at its zero value; a value of another kind is an error, here \<open>None\<close>.
\<close>

definition lower :: "char \<Rightarrow> char" where
  "lower c = (let n = (of_char c :: nat) in if 65 \<le> n \<and> n \<le> 90 then char_of (n + 32) else c)"

definition same_key :: "string \<Rightarrow> string \<Rightarrow> bool" where
  "same_key k name = (map lower (unlit k) = map lower name)"

definition jfield :: "string \<Rightarrow> json \<Rightarrow> json" where
  "jfield name j =
     (case j of
        JObj ms \<Rightarrow> (case find (\<lambda>(k, v). same_key k name) (rev ms) of None \<Rightarrow> JNull | Some (k, v) \<Rightarrow> v)
      | _ \<Rightarrow> JNull)"

definition is_struct :: "json \<Rightarrow> bool" where
  "is_struct j = (case j of JObj ms \<Rightarrow> True | JNull \<Rightarrow> True | _ \<Rightarrow> False)"

definition as_string :: "json \<Rightarrow> string option" where
  "as_string j = (case j of JNull \<Rightarrow> Some [] | JStr b \<Rightarrow> Some (unlit b) | _ \<Rightarrow> None)"

definition as_int :: "json \<Rightarrow> int option" where
  "as_int j = (case j of JNull \<Rightarrow> Some 0 | JNum n \<Rightarrow> parse_int n | _ \<Rightarrow> None)"

definition as_bool :: "json \<Rightarrow> bool option" where
  "as_bool j = (case j of JNull \<Rightarrow> Some False | JBool b \<Rightarrow> Some b | _ \<Rightarrow> None)"

fun all_some :: "'a option list \<Rightarrow> 'a list option" where
  "all_some [] = Some []"
| "all_some (None # xs) = None"
| "all_some (Some x # xs) = map_option (Cons x) (all_some xs)"

definition as_list :: "(json \<Rightarrow> 'a option) \<Rightarrow> json \<Rightarrow> 'a list option" where
  "as_list f j = (case j of JNull \<Rightarrow> Some [] | JArr vs \<Rightarrow> all_some (map f vs) | _ \<Rightarrow> None)"

definition as_struct :: "(json \<Rightarrow> 'a option) \<Rightarrow> json \<Rightarrow> 'a option" where
  "as_struct f j = (if is_struct j then f j else None)"

text \<open>\<open>json.Unmarshal\<close> of a text; the text of the error is not modelled.\<close>

definition json_unmarshal :: "(json \<Rightarrow> 'a option) \<Rightarrow> string \<Rightarrow> 'a option" where
  "json_unmarshal f s = (case json_parse s of None \<Rightarrow> None | Some j \<Rightarrow> f j)"

text \<open>Writing a raw message checks it, compacts it and escapes the characters that HTML gives a meaning.\<close>

definition html_lit :: "string \<Rightarrow> string" where
  "html_lit b = concat (map (\<lambda>c. if c \<in> set ''<>&'' then json_char c else [c]) b)"

fun html_escape :: "json \<Rightarrow> json" where
  "html_escape (JStr b) = JStr (html_lit b)"
| "html_escape (JArr vs) = JArr (map html_escape vs)"
| "html_escape (JObj ms) = JObj (map (\<lambda>(k, v). (html_lit k, html_escape v)) ms)"
| "html_escape j = j"

definition raw_json :: "string \<Rightarrow> json option" where
  "raw_json s = map_option html_escape (json_parse s)"

subsection \<open>A string survives writing and reading\<close>

lemma hex_digit_val: "n < 16 \<Longrightarrow> hex_val (hex_digit n) = n"
  by (auto simp: hex_val_def hex_digit_def Let_def)

lemma hex_digit_hex: "n < 16 \<Longrightarrow> is_hex (hex_digit n)"
  by (auto simp: is_hex_def is_digit_def hex_digit_def)

lemma getu4_u00: "m < 16 \<Longrightarrow> n < 16 \<Longrightarrow>
    getu4 (CHR 0x5C # CHR ''u'' # CHR ''0'' # CHR ''0'' # hex_digit m # hex_digit n # r) = Some (16 * m + n)"
  by (simp add: getu4_def hex_digit_hex hex_digit_val) (simp add: hex_val_def is_hex_def is_digit_def Let_def)

lemma getu4_simple: "e \<noteq> CHR ''u'' \<Longrightarrow> getu4 (CHR 0x5C # e # r) = None"
  by (simp add: getu4_def)

lemma getu4_other: "c \<noteq> CHR 0x5C \<Longrightarrow> getu4 (c # r) = None"
  by (simp add: getu4_def)

lemma char_of_of_char_nat: "char_of (of_char c :: nat) = c"
  by simp

lemma json_char_simple:
  "json_char CHR 0x22 = [CHR 0x5C, CHR 0x22]"
  "json_char CHR 0x5C = [CHR 0x5C, CHR 0x5C]"
  "json_char CHR 0x08 = [CHR 0x5C, CHR ''b'']"
  "json_char CHR 0x0C = [CHR 0x5C, CHR ''f'']"
  "json_char CHR 0x0A = [CHR 0x5C, CHR ''n'']"
  "json_char CHR 0x0D = [CHR 0x5C, CHR ''r'']"
  "json_char CHR 0x09 = [CHR 0x5C, CHR ''t'']"
  by (simp_all add: json_char_def Let_def)

lemma of_char_code:
  assumes "c \<notin> {CHR 0x22, CHR 0x5C, CHR 0x08, CHR 0x0C, CHR 0x0A, CHR 0x0D, CHR 0x09}"
  shows "(of_char c :: nat) \<notin> {0x22, 0x5C, 8, 12, 10, 13, 9}"
proof -
  have "(of_char c :: nat) \<noteq> of_char d" if "d \<in> {CHR 0x22, CHR 0x5C, CHR 0x08, CHR 0x0C, CHR 0x0A, CHR 0x0D, CHR 0x09}" for d
    using assms that by auto
  from this [of "CHR 0x22"] this [of "CHR 0x5C"] this [of "CHR 0x08"] this [of "CHR 0x0C"]
    this [of "CHR 0x0A"] this [of "CHR 0x0D"] this [of "CHR 0x09"]
  show ?thesis by simp
qed

text \<open>The three shapes of a written byte.\<close>

lemma json_char_cases:
  obtains (quote) e where "json_char c = [CHR 0x5C, e]" "simple_escape e" "unescape e = c" "e \<noteq> CHR ''u''"
  | (hex) m n where "json_char c = [CHR 0x5C, CHR ''u'', CHR ''0'', CHR ''0'', hex_digit m, hex_digit n]"
      "m < 16" "n < 16" "of_char c = 16 * m + n" "16 * m + n < 128"
  | (plain) "json_char c = [c]" "c \<noteq> CHR 0x22" "c \<noteq> CHR 0x5C" "32 \<le> (of_char c :: nat)"
proof -
  consider "c \<in> {CHR 0x22, CHR 0x5C, CHR 0x08, CHR 0x0C, CHR 0x0A, CHR 0x0D, CHR 0x09}"
    | "c \<notin> {CHR 0x22, CHR 0x5C, CHR 0x08, CHR 0x0C, CHR 0x0A, CHR 0x0D, CHR 0x09}"
        "(of_char c :: nat) < 32 \<or> c \<in> set ''<>&''"
    | "c \<notin> {CHR 0x22, CHR 0x5C, CHR 0x08, CHR 0x0C, CHR 0x0A, CHR 0x0D, CHR 0x09}"
        "32 \<le> (of_char c :: nat)" "c \<notin> set ''<>&''"
    by fastforce
  then show ?thesis
  proof cases
    case 1
    then show ?thesis
      by (elim insertE; (intro quote, simp add: json_char_simple))
        (simp_all add: simple_escape_def unescape_def)
  next
    case 2
    define n where "n = (of_char c :: nat)"
    have codes: "n \<notin> {0x22, 0x5C, 8, 12, 10, 13, 9}"
      using of_char_code [OF 2(1)] by (simp add: n_def)
    have "n < 64" using 2(2) by (auto simp: n_def)
    moreover have "json_char c = [CHR 0x5C, CHR ''u'', CHR ''0'', CHR ''0'', hex_digit (n div 16), hex_digit (n mod 16)]"
      using 2(2) codes by (auto simp: json_char_def Let_def n_def [symmetric])
    ultimately show ?thesis
      by (intro hex [of "n div 16" "n mod 16"]) (auto simp: n_def [symmetric])
  next
    case 3
    define n where "n = (of_char c :: nat)"
    have codes: "n \<notin> {0x22, 0x5C, 8, 12, 10, 13, 9}"
      using of_char_code [OF 3(1)] by (simp add: n_def)
    with 3 have "json_char c = [c]" by (auto simp: json_char_def Let_def n_def [symmetric])
    with 3 show ?thesis by (intro plain) auto
  qed
qed

lemma scan_json_char: "scan_str (json_char c @ r) = cons_fst (json_char c) (scan_str r)"
  by (cases c rule: json_char_cases)
    (simp_all add: getu4_simple getu4_u00 getu4_other)

lemma unlit_json_char: "unlit (json_char c @ r) = c # unlit r"
proof (cases c rule: json_char_cases)
  case (hex m n)
  then have "utf8 (16 * m + n) = [c]" by (simp add: utf8_def) (metis char_of_of_char_nat)
  with hex show ?thesis by (simp add: getu4_u00)
qed (simp_all add: getu4_simple)

lemma scan_json_lit [simp]: "scan_str (json_lit s @ CHR 0x22 # r) = Some (json_lit s, r)"
  by (induction s) (simp_all add: json_lit_def scan_json_char cons_fst_def)

lemma unlit_json_lit [simp]: "unlit (json_lit s) = s"
  by (induction s) (simp_all add: json_lit_def unlit_json_char)
lemma getu4_append: "getu4 s \<noteq> None \<Longrightarrow> getu4 (s @ t) = getu4 s"
  by (auto simp: getu4_def nth_append split: if_splits)

lemma getu4_length: "getu4 s \<noteq> None \<Longrightarrow> 6 \<le> length s"
  by (simp add: getu4_def split: if_splits)

lemma simple_escape_not_u: "simple_escape e \<Longrightarrow> e \<noteq> CHR ''u''"
  by (auto simp: simple_escape_def)

lemma cons_fst_Some: "cons_fst p x = Some (b, r) \<longleftrightarrow> (\<exists>b'. x = Some (b', r) \<and> b = p @ b')"
  by (auto simp: cons_fst_def split: option.splits)

lemma scan_str_append: "scan_str s = Some (b, r) \<Longrightarrow> scan_str (s @ t) = Some (b, r @ t)"
proof (induction s arbitrary: b r rule: scan_str.induct)
  case 1
  then show ?case by simp
next
  case (2 c s)
  consider "c = CHR 0x22" | "c = CHR 0x5C" "getu4 (c # s) \<noteq> None" | "c = CHR 0x5C" "getu4 (c # s) = None"
    | "c \<noteq> CHR 0x22" "c \<noteq> CHR 0x5C" by blast
  then show ?case
  proof cases
    case 1
    with "2.prems" show ?thesis by simp
  next
    case 2
    then obtain b' where b': "scan_str (drop 6 (c # s)) = Some (b', r)" "b = take 6 (c # s) @ b'"
      using "2.prems" by (auto simp: cons_fst_Some)
    from "2.IH"(1) [OF _ _ _ b'(1)] 2 have "scan_str (drop 6 (c # s) @ t) = Some (b', r @ t)" by simp
    moreover have "drop 6 ((c # s) @ t) = drop 6 (c # s) @ t" "take 6 ((c # s) @ t) = take 6 (c # s)"
      using getu4_length [OF 2(2)] by simp_all
    ultimately show ?thesis
      using 2 b' getu4_append [OF 2(2), of t] by (simp add: cons_fst_def)
  next
    case 3
    then obtain e s' b' where e: "s = e # s'" "simple_escape e" "scan_str s' = Some (b', r)" "b = [c, e] @ b'"
      using "2.prems" by (auto simp: cons_fst_Some split: list.splits if_splits)
    then show ?thesis
      using 3 "2.IH"(2) [of e s'] by (simp add: getu4_simple simple_escape_not_u cons_fst_def)
  next
    case 4
    then show ?thesis using "2.prems" "2.IH"(3)
      by (auto simp: cons_fst_Some split: if_splits)
  qed
qed

subsection \<open>Parsing what was printed\<close>

text \<open>Trees whose numbers and strings are literals.\<close>

definition wf_lit :: "string \<Rightarrow> bool" where
  "wf_lit b = (scan_str (b @ [CHR 0x22]) = Some (b, []))"

lemma wf_json_lit [simp]: "wf_lit (json_lit s)"
  by (simp add: wf_lit_def)

lemma scan_wf_lit: "wf_lit b \<Longrightarrow> scan_str (b @ CHR 0x22 # r) = Some (b, r)"
  using scan_str_append [of "b @ [CHR 0x22]" b "[]" r] by (simp add: wf_lit_def)

fun wf_json :: "json \<Rightarrow> bool"
  and wf_elems :: "json list \<Rightarrow> bool"
  and wf_members :: "(string \<times> json) list \<Rightarrow> bool"
where
  "wf_json (JNum n) = (is_number n \<and> list_all num_char n)"
| "wf_json (JStr b) = wf_lit b"
| "wf_json (JArr vs) = wf_elems vs"
| "wf_json (JObj ms) = wf_members ms"
| "wf_json JNull = True"
| "wf_json (JBool b) = True"
| "wf_elems [] = True"
| "wf_elems (v # vs) = (wf_json v \<and> wf_elems vs)"
| "wf_members [] = True"
| "wf_members (m # ms) = (wf_lit (fst m) \<and> wf_json (snd m) \<and> wf_members ms)"

definition ends_value :: "string \<Rightarrow> bool" where
  "ends_value r = (case r of [] \<Rightarrow> True | c # _ \<Rightarrow> \<not> num_char c)"

lemma number_start:
  assumes "is_number n" "list_all num_char n"
  obtains c n' where "n = c # n'" "c = CHR ''-'' \<or> is_digit c"
proof -
  from assms obtain c n' where n: "n = c # n'" by (cases n) (simp_all add: is_number_def drop_sign_def)
  have "c = CHR ''-'' \<or> is_digit c"
    using assms(1) by (auto simp: n is_number_def drop_sign_def Let_def split: if_splits)
  with n that show ?thesis by blast
qed

lemma takeWhile_ends: "list_all P n \<Longrightarrow> (case r of [] \<Rightarrow> True | c # _ \<Rightarrow> \<not> P c) \<Longrightarrow>
    takeWhile P (n @ r) = n \<and> dropWhile P (n @ r) = r"
  by (induction n) (auto split: list.splits)

lemma parse_number:
  assumes "is_number n" "list_all num_char n" "ends_value r"
  shows "parse_value (Suc k) (n @ r) = Some (JNum n, r)"
proof -
  obtain c n' where n: "n = c # n'" "c = CHR ''-'' \<or> is_digit c" by (rule number_start [OF assms(1,2)])
  have "\<not> is_ws c" "c \<noteq> CHR 0x22" "c \<noteq> CHR ''[''" "c \<noteq> CHR ''{''" "c \<noteq> CHR ''n''" "c \<noteq> CHR ''t''" "c \<noteq> CHR ''f''"
    using n(2) by (auto simp: is_ws_def is_digit_def)
  moreover have "takeWhile num_char (n @ r) = n" "dropWhile num_char (n @ r) = r"
    using takeWhile_ends [OF assms(2), of r] assms(3) by (simp_all add: ends_value_def)
  ultimately show ?thesis
    using assms(1) by (simp add: skip_ws_def n has_prefix_def)
qed

lemma skip_ws_print:
  "wf_json j \<Longrightarrow> skip_ws (json_print j @ r) = json_print j @ r"
  "wf_elems vs \<Longrightarrow> vs \<noteq> [] \<Longrightarrow> skip_ws (json_elems vs @ r) = json_elems vs @ r"
  "ms \<noteq> [] \<Longrightarrow> skip_ws (json_members ms @ r) = json_members ms @ r"
proof -
  show A: "skip_ws (json_print j @ r) = json_print j @ r" if "wf_json j" for j r
  proof (cases j)
    case (JNum n)
    with that show ?thesis
      by (auto elim!: number_start simp: skip_ws_def is_ws_def is_digit_def)
  qed (auto simp: skip_ws_def is_ws_def json_quoted_def)
  show "skip_ws (json_elems vs @ r) = json_elems vs @ r" if "wf_elems vs" "vs \<noteq> []"
    using that A by (cases vs) auto
  show "skip_ws (json_members ms @ r) = json_members ms @ r" if "ms \<noteq> []"
    using that by (cases ms) (auto simp: json_quoted_def skip_ws_def is_ws_def)
qed
lemma print_nonempty: "wf_json j \<Longrightarrow> json_print j \<noteq> []"
  by (cases j) (auto simp: json_quoted_def is_number_def drop_sign_def)

lemma ends_value_punct [simp]: "ends_value (CHR '','' # r)" "ends_value (CHR '']'' # r)"
    "ends_value (CHR ''}'' # r)" "ends_value []"
  by (simp_all add: ends_value_def num_char_def is_digit_def)

lemma skip_ws_punct [simp]: "skip_ws (CHR '','' # r) = CHR '','' # r" "skip_ws (CHR '']'' # r) = CHR '']'' # r"
    "skip_ws (CHR ''}'' # r) = CHR ''}'' # r" "skip_ws (CHR '':'' # r) = CHR '':'' # r"
    "skip_ws (CHR ''['' # r) = CHR ''['' # r" "skip_ws (CHR ''{'' # r) = CHR ''{'' # r"
    "skip_ws (CHR 0x22 # r) = CHR 0x22 # r" "skip_ws [] = []"
  by (simp_all add: skip_ws_def is_ws_def)

lemma print_head:
  assumes "wf_json j"
  obtains c s where "json_print j = c # s" "c \<noteq> CHR '']''" "c \<noteq> CHR ''}''"
proof (cases j)
  case (JNum n)
  with assms obtain c n' where c: "n = c # n'" "c = CHR ''-'' \<or> is_digit c" by (auto elim: number_start)
  then have "c \<noteq> CHR '']''" "c \<noteq> CHR ''}''" by (auto simp: is_digit_def)
  with JNum c that show ?thesis by simp
next
  case (JBool b)
  with that show ?thesis by (cases b) auto
qed (use that in \<open>auto simp: json_quoted_def\<close>)

lemma parse_print:
  "wf_json j \<Longrightarrow> ends_value r \<Longrightarrow> length (json_print j) \<le> n \<Longrightarrow>
     parse_value n (json_print j @ r) = Some (j, r)"
  "wf_elems vs \<Longrightarrow> vs \<noteq> [] \<Longrightarrow> length (json_elems vs) < n \<Longrightarrow>
     parse_elems n (json_elems vs @ CHR '']'' # r) = Some (vs, r)"
  "wf_members ms \<Longrightarrow> ms \<noteq> [] \<Longrightarrow> length (json_members ms) < n \<Longrightarrow>
     parse_members n (json_members ms @ CHR ''}'' # r) = Some (ms, r)"
proof (induction j and vs and ms arbitrary: n r and n r and n r
    rule: json_print_json_elems_json_members.induct)
  case 1
  then show ?case by (cases n) (auto simp: skip_ws_def is_ws_def has_prefix_def)
next
  case (2 b)
  then show ?case by (cases n; cases b) (auto simp: skip_ws_def is_ws_def has_prefix_def)
next
  case (3 k)
  then have "k \<noteq> []" by (auto simp: is_number_def drop_sign_def)
  with 3 obtain n' where "n = Suc n'" by (cases n) auto
  with 3 show ?case using parse_number [of k r n'] by simp
next
  case (4 b)
  then obtain n' where "n = Suc n'" by (cases n) (auto simp: json_quoted_def)
  with 4 show ?case by (simp add: json_quoted_def scan_wf_lit)
next
  case (5 vs)
  then obtain n' where n: "n = Suc n'" "length (json_elems vs) < n'" by (cases n) auto
  show ?case
  proof (cases "vs = []")
    case False
    then obtain v vs' where vs: "vs = v # vs'" by (cases vs) auto
    with 5 obtain c s where c: "json_print v = c # s" "c \<noteq> CHR '']''" by (auto elim: print_head)
    have "skip_ws (json_elems vs @ CHR '']'' # r) = json_elems vs @ CHR '']'' # r"
      using 5 False by (intro skip_ws_print) auto
    moreover have "parse_elems n' (json_elems vs @ CHR '']'' # r) = Some (vs, r)"
      using 5 False n by simp
    ultimately show ?thesis using n c by (simp add: vs)
  qed (use n in simp)
next
  case (6 ms)
  then obtain n' where n: "n = Suc n'" "length (json_members ms) < n'" by (cases n) auto
  show ?case
  proof (cases "ms = []")
    case False
    then obtain m ms' where ms: "ms = m # ms'" by (cases ms) auto
    have "skip_ws (json_members ms @ CHR ''}'' # r) = json_members ms @ CHR ''}'' # r"
      using False by (intro skip_ws_print)
    moreover have "parse_members n' (json_members ms @ CHR ''}'' # r) = Some (ms, r)"
      using 6 False n by simp
    ultimately show ?thesis using n by (simp add: ms json_quoted_def)
  qed (use n in simp)
next
  case 7
  then show ?case by simp
next
  case (8 v vs)
  then obtain n' where n: "n = Suc n'" by (cases n) auto
  show ?case
  proof (cases "vs = []")
    case True
    then show ?thesis using 8 n by simp
  next
    case False
    have "parse_value n' (json_print v @ CHR '','' # json_elems vs @ CHR '']'' # r)
        = Some (v, CHR '','' # json_elems vs @ CHR '']'' # r)"
      using 8 n False by simp
    moreover have "parse_elems n' (json_elems vs @ CHR '']'' # r) = Some (vs, r)"
      using 8 n False print_nonempty [of v] by simp
    ultimately show ?thesis using n False by (simp add: cons_fst_def)
  qed
next
  case 9
  then show ?case by simp
next
  case (10 m ms)
  obtain k v where m: "m = (k, v)" by (cases m)
  from 10 obtain n' where n: "n = Suc n'" by (cases n) auto
  show ?case
  proof (cases "ms = []")
    case True
    then show ?thesis using 10 n m by (simp add: json_quoted_def scan_wf_lit)
  next
    case False
    have "parse_value n' (json_print v @ CHR '','' # json_members ms @ CHR ''}'' # r)
        = Some (v, CHR '','' # json_members ms @ CHR ''}'' # r)"
      using 10 n m False by (simp add: json_quoted_def)
    moreover have "parse_members n' (json_members ms @ CHR ''}'' # r) = Some (ms, r)"
      using 10 n m False by (simp add: json_quoted_def)
    ultimately show ?thesis using n m False "10.prems" by (simp add: json_quoted_def scan_wf_lit cons_fst_def)
  qed
qed

lemma json_parse_print [simp]: "wf_json j \<Longrightarrow> json_parse (json_print j) = Some j"
  using parse_print(1) [of j "[]" "2 * length (json_print j) + 1"] by (simp add: json_parse_def)
lemma skip_ws_length: "length (skip_ws s) \<le> length s"
  by (simp add: skip_ws_def length_dropWhile_le)

lemma scan_str_length: "scan_str s = Some (b, r) \<Longrightarrow> length r < length s"
proof (induction s arbitrary: b r rule: scan_str.induct)
  case (2 c s)
  from "2.prems" show ?case
    using "2.IH"(1) "2.IH"(2) "2.IH"(3)
    by (fastforce simp: cons_fst_Some split: if_splits list.splits)
qed simp

lemma skip_ws_ConsD: "skip_ws s = c # t \<Longrightarrow> Suc (length t) \<le> length s"
  using skip_ws_length [of s] by simp

lemma has_prefix_length: "has_prefix s p \<Longrightarrow> length p \<le> length s"
  by (metis has_prefix_def length_take min.cobounded1)

lemma dropWhile_number_length:
  assumes "is_number (takeWhile num_char s)"
  shows "length (dropWhile num_char s) < length s"
proof -
  have "takeWhile num_char s \<noteq> []" using assms by (auto simp: is_number_def drop_sign_def)
  then show ?thesis
    by (metis length_append length_greater_0_conv less_add_same_cancel2 takeWhile_dropWhile_id)
qed

lemma parse_length_all:
  "(\<forall>s v r. parse_value n s = Some (v, r) \<longrightarrow> length r < length s) \<and>
   (\<forall>s vs r. parse_elems n s = Some (vs, r) \<longrightarrow> length r < length s) \<and>
   (\<forall>s ms r. parse_members n s = Some (ms, r) \<longrightarrow> length r < length s)"
proof (induction n)
  case (Suc n)
  then have IH: "\<And>s v r. parse_value n s = Some (v, r) \<Longrightarrow> length r < length s"
    "\<And>s vs r. parse_elems n s = Some (vs, r) \<Longrightarrow> length r < length s"
    "\<And>s ms r. parse_members n s = Some (ms, r) \<Longrightarrow> length r < length s" by blast+
  have V: "length r < length s" if "parse_value (Suc n) s = Some (v, r)" for s v r
  proof -
    from that obtain c t where s: "skip_ws s = c # t" by (cases "skip_ws s") auto
    then have le: "Suc (length t) \<le> length s" by (rule skip_ws_ConsD)
    have "length r < Suc (length t)"
      using that dropWhile_number_length [of "c # t"]
      by (auto simp: s simp del: takeWhile.simps dropWhile.simps split: if_splits option.splits list.splits
          dest!: IH scan_str_length skip_ws_ConsD has_prefix_length)
    with le show ?thesis by simp
  qed
  have E: "length r < length s" if "parse_elems (Suc n) s = Some (vs, r)" for s vs r
    using that
    by (auto simp: cons_fst_Some split: if_splits option.splits list.splits dest!: IH skip_ws_ConsD)
  have M: "length r < length s" if "parse_members (Suc n) s = Some (ms, r)" for s ms r
    using that
    by (auto simp: cons_fst_Some split: if_splits option.splits list.splits
        dest!: IH skip_ws_ConsD scan_str_length)
  from V E M show ?case by blast
qed simp

lemmas parse_length = parse_length_all [THEN conjunct1, rule_format]
  parse_length_all [THEN conjunct2, THEN conjunct1, rule_format]
  parse_length_all [THEN conjunct2, THEN conjunct2, rule_format]

text \<open>A bound above twice the length of the text is never met: any two such bounds agree.\<close>

lemma parse_bound_all:
  "(\<forall>s m. 2 * length s < n \<longrightarrow> 2 * length s < m \<longrightarrow> parse_value n s = parse_value m s) \<and>
   (\<forall>s m. 2 * length s + 1 < n \<longrightarrow> 2 * length s + 1 < m \<longrightarrow> parse_elems n s = parse_elems m s) \<and>
   (\<forall>s m. 2 * length s + 1 < n \<longrightarrow> 2 * length s + 1 < m \<longrightarrow> parse_members n s = parse_members m s)"
proof (induction n)
  case (Suc n)
  then have IH: "\<And>s m. 2 * length s < n \<Longrightarrow> 2 * length s < m \<Longrightarrow> parse_value n s = parse_value m s"
    "\<And>s m. 2 * length s + 1 < n \<Longrightarrow> 2 * length s + 1 < m \<Longrightarrow> parse_elems n s = parse_elems m s"
    "\<And>s m. 2 * length s + 1 < n \<Longrightarrow> 2 * length s + 1 < m \<Longrightarrow> parse_members n s = parse_members m s"
    by blast+
  have V: "parse_value (Suc n) s = parse_value m s" if le: "2 * length s < Suc n" "2 * length s < m" for s m
  proof -
    obtain k where m: "m = Suc k" using le(2) by (cases m) auto
    have "parse_elems n (d # r') = parse_elems k (d # r')" "parse_members n (d # r') = parse_members k (d # r')"
      if "skip_ws s = c # r" "skip_ws r = d # r'" for c r d r'
      using skip_ws_ConsD [OF that(1)] skip_ws_ConsD [OF that(2)] \<open>2 * length s < Suc n\<close>
        \<open>2 * length s < m\<close> m
      by (auto intro!: IH)
    then show ?thesis by (auto simp: m split: list.splits)
  qed
  have E: "parse_elems (Suc n) s = parse_elems m s" if le: "2 * length s + 1 < Suc n" "2 * length s + 1 < m" for s m
  proof -
    obtain k where m: "m = Suc k" using le(2) by (cases m) auto
    have v: "parse_value n s = parse_value k s" using le m by (intro IH) auto
    have "parse_elems n r' = parse_elems k r'"
      if "parse_value k s = Some (v, r)" "skip_ws r = c # r'" for v r c r'
      using parse_length(1) [OF that(1)] skip_ws_ConsD [OF that(2)] \<open>2 * length s + 1 < Suc n\<close>
        \<open>2 * length s + 1 < m\<close> m
      by (intro IH) auto
    with v show ?thesis by (auto simp: m split: list.splits option.splits)
  qed
  have M: "parse_members (Suc n) s = parse_members m s"
    if le: "2 * length s + 1 < Suc n" "2 * length s + 1 < m" for s m
  proof -
    obtain k where m: "m = Suc k" using le(2) by (cases m) auto
    have v: "parse_value n r2 = parse_value k r2"
      if "skip_ws s = q # r" "scan_str r = Some (x, r1)" "skip_ws r1 = c # r2" for q r x r1 c r2
      using skip_ws_ConsD [OF that(1)] scan_str_length [OF that(2)] skip_ws_ConsD [OF that(3)]
        \<open>2 * length s + 1 < Suc n\<close> \<open>2 * length s + 1 < m\<close> m
      by (intro IH) auto
    have w: "parse_members n r4 = parse_members k r4"
      if "skip_ws s = q # r" "scan_str r = Some (x, r1)" "skip_ws r1 = c # r2"
        "parse_value k r2 = Some (v, r3)" "skip_ws r3 = d # r4" for q r x r1 c r2 v r3 d r4
      using skip_ws_ConsD [OF that(1)] scan_str_length [OF that(2)] skip_ws_ConsD [OF that(3)]
        parse_length(1) [OF that(4)] skip_ws_ConsD [OF that(5)]
        \<open>2 * length s + 1 < Suc n\<close> \<open>2 * length s + 1 < m\<close> m
      by (intro IH) auto
    show ?thesis
    proof (cases "skip_ws s")
      case (Cons q r)
      show ?thesis
      proof (cases "scan_str r")
        case (Some kr)
        obtain x r1 where x: "scan_str r = Some (x, r1)" using Some by (cases kr) auto
        show ?thesis
        proof (cases "skip_ws r1")
          case Nil
          with Cons x show ?thesis by (simp add: m)
        next
          case (Cons c r2)
          note s = \<open>skip_ws s = q # r\<close> x Cons
          have vv: "parse_value n r2 = parse_value k r2" by (rule v [OF s])
          show ?thesis
          proof (cases "parse_value k r2")
            case None
            with s vv show ?thesis by (simp add: m)
          next
            case (Some vr)
            obtain y r3 where y: "parse_value k r2 = Some (y, r3)" using Some by (cases vr) auto
            show ?thesis
            proof (cases "skip_ws r3")
              case Nil
              with s vv y show ?thesis by (simp add: m)
            next
              case (Cons d r4)
              from w [OF s y this] s vv y Cons show ?thesis by (simp add: m)
            qed
          qed
        qed
      qed (use Cons in \<open>simp add: m\<close>)
    qed (simp add: m)
  qed
  show ?case by (intro conjI allI impI V E M)
qed simp

lemma parse_bound: "2 * length s < n \<Longrightarrow> parse_value n s = parse_value (2 * length s + 1) s"
  by (rule parse_bound_all [THEN conjunct1, rule_format]) simp_all
lemma getu4_take: "getu4 (take 6 s) = getu4 s"
  by (simp add: getu4_def drop_take min_def)

text \<open>What is parsed is a tree of literals.\<close>

lemma scan_str_sound: "scan_str s = Some (b, r) \<Longrightarrow> s = b @ CHR 0x22 # r \<and> wf_lit b"
proof (induction s arbitrary: b r rule: scan_str.induct)
  case (2 c s)
  consider "c = CHR 0x22" | "c = CHR 0x5C" "getu4 (c # s) \<noteq> None" | "c = CHR 0x5C" "getu4 (c # s) = None"
    | "c \<noteq> CHR 0x22" "c \<noteq> CHR 0x5C" by blast
  then show ?case
  proof cases
    case 1
    with "2.prems" show ?thesis by (simp add: wf_lit_def)
  next
    case 2
    then obtain b' where b': "scan_str (drop 6 (c # s)) = Some (b', r)" "b = take 6 (c # s) @ b'"
      using "2.prems" by (auto simp: cons_fst_Some)
    have IH: "drop 6 (c # s) = b' @ CHR 0x22 # r" "wf_lit b'"
      using "2.IH"(1) [OF _ _ _ b'(1)] 2 by auto
    have s: "c # s = b @ CHR 0x22 # r"
      unfolding b'(2) append_assoc IH(1) [symmetric] by (rule append_take_drop_id [symmetric])
    have len: "6 \<le> length (c # s)" using 2 getu4_length by blast
    obtain b1 where b1: "b = c # b1" using b'(2) 2(1) by simp
    have t: "take 6 (b @ [CHR 0x22]) = take 6 (c # s)" "drop 6 (b @ [CHR 0x22]) = b' @ [CHR 0x22]"
      using len by (simp_all add: b'(2))
    moreover have "getu4 (b @ [CHR 0x22]) = getu4 (c # s)"
      by (metis getu4_take t(1))
    ultimately show ?thesis
      using s 2 IH(2) b'(2) by (simp add: wf_lit_def b1 cons_fst_def)
  next
    case 3
    then obtain e s' b' where e: "s = e # s'" "simple_escape e" "scan_str s' = Some (b', r)" "b = [c, e] @ b'"
      using "2.prems" by (auto simp: cons_fst_Some split: list.splits if_splits)
    then show ?thesis
      using 3 "2.IH"(2) [of e s'] by (simp add: wf_lit_def getu4_simple simple_escape_not_u cons_fst_def)
  next
    case 4
    then show ?thesis using "2.prems" "2.IH"(3)
      by (auto simp: cons_fst_Some wf_lit_def getu4_other split: if_splits)
  qed
qed simp

lemma list_all_takeWhile: "list_all P (takeWhile P s)"
  by (induction s) auto

lemma wf_cons: "wf_elems (v # vs) = (wf_json v \<and> wf_elems vs)" by simp

lemma parse_wf_all:
  "(\<forall>s v r. parse_value n s = Some (v, r) \<longrightarrow> wf_json v) \<and>
   (\<forall>s vs r. parse_elems n s = Some (vs, r) \<longrightarrow> wf_elems vs) \<and>
   (\<forall>s ms r. parse_members n s = Some (ms, r) \<longrightarrow> wf_members ms)"
proof (induction n)
  case (Suc n)
  then have IH: "\<And>s v r. parse_value n s = Some (v, r) \<Longrightarrow> wf_json v"
    "\<And>s vs r. parse_elems n s = Some (vs, r) \<Longrightarrow> wf_elems vs"
    "\<And>s ms r. parse_members n s = Some (ms, r) \<Longrightarrow> wf_members ms" by blast+
  have V: "wf_json v" if "parse_value (Suc n) s = Some (v, r)" for s v r
    using that
    by (auto simp: list_all_takeWhile simp del: takeWhile.simps dropWhile.simps
        split: if_splits option.splits list.splits dest!: IH scan_str_sound)
  have E: "wf_elems vs" if "parse_elems (Suc n) s = Some (vs, r)" for s vs r
    using that by (auto simp: cons_fst_Some split: if_splits option.splits list.splits dest!: IH)
  have M: "wf_members ms" if "parse_members (Suc n) s = Some (ms, r)" for s ms r
    using that
    by (auto simp: cons_fst_Some split: if_splits option.splits list.splits dest!: IH scan_str_sound)
  show ?case by (intro conjI allI impI; (erule V | erule E | erule M))
qed simp

lemma json_parse_wf: "json_parse s = Some j \<Longrightarrow> wf_json j"
  by (auto simp: json_parse_def simp del: parse_value.simps split: option.splits if_splits
      dest: parse_wf_all [THEN conjunct1, rule_format])

lemma scan_html_lit: "scan_str s = Some (b, r) \<Longrightarrow> scan_str (html_lit b @ CHR 0x22 # r) = Some (html_lit b, r)"
proof (induction s arbitrary: b r rule: scan_str.induct)
  case (2 c s)
  consider "c = CHR 0x22" | "c = CHR 0x5C" "getu4 (c # s) \<noteq> None" | "c = CHR 0x5C" "getu4 (c # s) = None"
    | "c \<noteq> CHR 0x22" "c \<noteq> CHR 0x5C" by blast
  then show ?case
  proof cases
    case 1
    with "2.prems" show ?thesis by (simp add: html_lit_def)
  next
    case 2
    then obtain b' where b': "scan_str (drop 6 (c # s)) = Some (b', r)" "b = take 6 (c # s) @ b'"
      using "2.prems" by (auto simp: cons_fst_Some)
    have IH: "scan_str (html_lit b' @ CHR 0x22 # r) = Some (html_lit b', r)"
      using "2.IH"(1) [OF _ _ _ b'(1)] 2 by auto
    have hex: "\<not> is_hex x" if "x \<in> set ''<>&''" for x using that by (auto simp: is_hex_def is_digit_def)
    obtain x1 x2 x3 x4 where x: "take 6 (c # s) = [c, CHR ''u'', x1, x2, x3, x4]"
        "is_hex x1" "is_hex x2" "is_hex x3" "is_hex x4"
    proof -
      from 2(2) have g: "6 \<le> length (c # s)" "(c # s) ! 1 = CHR ''u''" "list_all is_hex (take 4 (drop 2 (c # s)))"
        by (auto simp: getu4_def split: if_splits)
      then obtain u x1 x2 x3 x4 s' where "s = u # x1 # x2 # x3 # x4 # s'"
        by (auto simp: neq_Nil_conv Suc_le_length_iff eval_nat_numeral)
      with g that show ?thesis by auto
    qed
    then have t: "html_lit b = [c, CHR ''u'', x1, x2, x3, x4] @ html_lit b'"
      using b'(2) hex 2(1) by (auto simp: html_lit_def)
    have "getu4 (html_lit b @ CHR 0x22 # r) \<noteq> None"
      using x 2(1) by (auto simp: t getu4_def)
    then show ?thesis using 2(1) IH by (simp add: t cons_fst_def)
  next
    case 3
    then obtain e s' b' where e: "s = e # s'" "simple_escape e" "scan_str s' = Some (b', r)" "b = [c, e] @ b'"
      using "2.prems" by (auto simp: cons_fst_Some split: list.splits if_splits)
    moreover have "e \<notin> set ''<>&''" using e(2) by (auto simp: simple_escape_def)
    ultimately show ?thesis
      using 3 "2.IH"(2) [of e s']
      by (auto simp: html_lit_def getu4_simple simple_escape_not_u cons_fst_def)
  next
    case 4
    then obtain b' where b': "scan_str s = Some (b', r)" "b = c # b'" "32 \<le> (of_char c :: nat)"
      using "2.prems" by (auto simp: cons_fst_Some split: if_splits)
    then have IH: "scan_str (html_lit b' @ CHR 0x22 # r) = Some (html_lit b', r)"
      using "2.IH"(3) 4 by simp
    show ?thesis
    proof (cases "c \<in> set ''<>&''")
      case True
      then have "html_lit b = json_char c @ html_lit b'" by (simp add: b' html_lit_def)
      with IH show ?thesis by (simp add: scan_json_char cons_fst_def)
    next
      case False
      then have "html_lit b = c # html_lit b'" using b' by (auto simp: html_lit_def)
      with IH b' 4 show ?thesis by (simp add: cons_fst_def)
    qed
  qed
qed simp

lemma wf_html_lit: "wf_lit b \<Longrightarrow> wf_lit (html_lit b)"
  using scan_html_lit [of "b @ [CHR 0x22]" b "[]"] by (simp add: wf_lit_def)

lemma wf_elems_all: "wf_elems vs = (\<forall>v \<in> set vs. wf_json v)"
  by (induction vs) auto

lemma wf_members_all: "wf_members ms = (\<forall>m \<in> set ms. wf_lit (fst m) \<and> wf_json (snd m))"
  by (induction ms) auto

lemma wf_html_escape: "wf_json j \<Longrightarrow> wf_json (html_escape j)"
  by (induction j rule: html_escape.induct)
    (auto simp: wf_html_lit wf_elems_all wf_members_all)

lemma raw_json_wf: "raw_json s = Some j \<Longrightarrow> wf_json j"
  by (auto simp: raw_json_def dest: json_parse_wf intro: wf_html_escape)

text \<open>Two values in a row are not a JSON text.\<close>

lemma json_two_values: "skip_ws s \<noteq> [] \<Longrightarrow> json_parse (''{}'' @ s) = None"
  by (simp add: json_parse_def numeral_eq_Suc)

end
