(* ===== verification/Runtime_Types.thy ===== *)
theory Runtime_Types
  imports Store_Types GoJson
begin

text \<open>
  What the request handlers of \<open>internal/runtime\<close> share: the JSON-RPC error they return
  (\<open>transport.go\<close>), the fields of a connection they read (\<open>connection.go\<close>), and quoted
  text.  A handler takes its request as \<open>json.Unmarshal\<close> leaves
  it: the decoded request or the text of the decoding error.
\<close>

subsection \<open>Errors\<close>

definition CodeInvalidParams :: int where "CodeInvalidParams = - 32602"
definition CodeInternalError :: int where "CodeInternalError = - 32603"
definition CodeSessionLocked :: int where "CodeSessionLocked = - 32001"
definition CodeSessionNotFound :: int where "CodeSessionNotFound = - 32005"

lemmas code_defs = CodeInvalidParams_def CodeInternalError_def CodeSessionLocked_def
  CodeSessionNotFound_def

text \<open>
  The error of a handler: its code, its message, and the error of the store whose text the code
  appends to the message.
\<close>

datatype TransportError = TransportError (te_Code: int) (te_Message: string) (te_Cause: "store_error option")

definition transportInvalidParams :: "string \<Rightarrow> TransportError" where
  "transportInvalidParams msg = TransportError CodeInvalidParams msg None"

definition transportInternal :: "string \<Rightarrow> store_error \<Rightarrow> TransportError" where
  "transportInternal op err = TransportError CodeInternalError (op @ '': '') (Some err)"

subsection \<open>Connections\<close>

text \<open>\<open>conn_Root\<close> is the root of the project the harness announced.\<close>

record Conn =
  conn_ID :: string
  conn_UserID :: string
  conn_SessionID :: string
  conn_Root :: string

subsection \<open>Quoted text\<close>

text \<open>
  The verb \<open>%q\<close> of \<open>fmt\<close>, for strings of ASCII and printable UTF-8.
\<close>

definition quote_char :: "char \<Rightarrow> string" where
  "quote_char c =
     (let n = (of_char c :: nat); bs = CHR 0x5C in
      if n = 0x22 \<or> n = 0x5C then [bs, c]
      else if n = 7 then [bs, CHR ''a'']
      else if n = 8 then [bs, CHR ''b'']
      else if n = 12 then [bs, CHR ''f'']
      else if n = 10 then [bs, CHR ''n'']
      else if n = 13 then [bs, CHR ''r'']
      else if n = 9 then [bs, CHR ''t'']
      else if n = 11 then [bs, CHR ''v'']
      else if n < 32 \<or> n = 127 then [bs, CHR ''x'', hex_digit (n div 16), hex_digit (n mod 16)]
      else [c])"

definition go_quote :: "string \<Rightarrow> string" where
  "go_quote s = [CHR 0x22] @ concat (map quote_char s) @ [CHR 0x22]"

subsection \<open>Access to sessions\<close>

text \<open>An owner or a user that is empty is not checked.\<close>

definition verifySessionAccess :: "Conn \<Rightarrow> Session \<Rightarrow> TransportError option" where
  "verifySessionAccess conn sess =
     (if sess_UserID sess \<noteq> [] \<and> conn_UserID conn \<noteq> [] \<and> sess_UserID sess \<noteq> conn_UserID conn
      then Some (TransportError CodeSessionNotFound
             (''session '' @ go_quote (sess_ID sess) @ '' not found'') None)
      else None)"

end
