(* ===== verification/Run_Control.thy ===== *)
theory Run_Control
  imports Run_Store Run_Registry Runtime_Types
begin

text \<open>
  The run services of the server (\<open>internal/runtime/run_runtime.go\<close> and \<open>run_controls.go\<close>): creation
  of runs, the lifecycle append with its notification, the projections sent to clients, and the
  \<open>run.*\<close> request handlers.  A handler is a function of the environment, the connection, the decoded
  request and the server's state; it returns the new state, what it emits (notifications on the
  connection and cancelled contexts, in order) and its reply or error.
\<close>

subsection \<open>Server state, outputs, protocol events\<close>

record Server =
  sv_db :: db
  sv_runs :: runRegistry

definition EventRunStarted :: string where "EventRunStarted = ''run.started''"
definition EventRunBlocked :: string where "EventRunBlocked = ''run.blocked''"
definition EventRunUnblocked :: string where "EventRunUnblocked = ''run.unblocked''"
definition EventRunProgress :: string where "EventRunProgress = ''run.progress''"
definition EventRunAttached :: string where "EventRunAttached = ''run.attached''"
definition EventRunDetached :: string where "EventRunDetached = ''run.detached''"
definition EventRunCompleted :: string where "EventRunCompleted = ''run.completed''"
definition EventRunFailed :: string where "EventRunFailed = ''run.failed''"
definition EventRunCancelled :: string where "EventRunCancelled = ''run.cancelled''"
definition RunReplayFull :: string where "RunReplayFull = ''full''"
definition RunReplaySummary :: string where "RunReplaySummary = ''summary''"

record RunEventPayload =
  rep_RunID :: string
  rep_Seq :: int
  rep_Type :: string
  rep_SessionID :: string
  rep_TurnID :: string
  rep_Stage :: string
  rep_Status :: string
  rep_Reason :: string
  rep_CreatedAt :: string
  rep_Payload :: "string option"

datatype run_output = Notify string RunEventPayload | CancelContext nat

subsection \<open>Requests and replies\<close>

record RunCreate =
  rc_SessionID :: string
  rc_IdempotencyKey :: string
  rc_WorkflowType :: string
  rc_Title :: string
  rc_ParentRunID :: string

record RunList =
  rl_SessionID :: string
  rl_Status :: string
  rl_Limit :: int
  rl_Offset :: int

record RunControl =
  ctl_RunID :: string
  ctl_Reason :: string

record RunAttach =
  ra_RunID :: string
  ra_LastObservedSeq :: int

record RunEvents =
  re_RunID :: string
  re_AfterSeq :: int
  re_Limit :: int

record RunPermissions =
  rp_RunID :: string
  rp_SessionID :: string

record RunResolvePermission =
  rrp_RunID :: string
  rrp_RequestID :: string
  rrp_Decision :: string

record RunHeartbeat =
  rh_RunID :: string
  rh_HostFingerprint :: string
  rh_LastObservedSeq :: int
  rh_Stage :: string

record RunSummary =
  rs_RunID :: string
  rs_TraceID :: string
  rs_SessionID :: string
  rs_ParentRunID :: string
  rs_Title :: string
  rs_WorkflowType :: string
  rs_Status :: string
  rs_Stage :: string
  rs_AttachmentState :: string
  rs_Model :: string
  rs_Provider :: string
  rs_InputTokens :: int
  rs_OutputTokens :: int
  rs_TotalCost :: rat
  rs_LastEventSeq :: int
  rs_LastCheckpointID :: string
  rs_CreatedAt :: string
  rs_UpdatedAt :: string
  rs_LastAdvancedAt :: string
  rs_TerminalAt :: string
  rs_InputRequired :: bool
  rs_Stuck :: bool
  rs_StuckSeconds :: int
  rs_Summary :: string

record RunCheckpointSummary =
  rcs_CheckpointID :: string
  rcs_RunID :: string
  rcs_Sequence :: int
  rcs_Stage :: string
  rcs_Status :: string
  rcs_Reason :: string
  rcs_TurnIDs :: "string list"
  rcs_ModelCallIDs :: "string list"
  rcs_PendingToolCallIDs :: "string list"
  rcs_Summary :: string
  rcs_CreatedAt :: string
  rcs_SchemaVersion :: int

record RunDetailsResponse =
  rdr_Run :: RunSummary
  rdr_TurnIDs :: "string list"
  rdr_Checkpoint :: "RunCheckpointSummary option"
  rdr_Events :: "RunEventPayload list"

record RunAttachResponse =
  rar_Run :: RunSummary
  rar_AttachmentState :: string
  rar_ReplayAvailable :: bool
  rar_Fidelity :: string
  rar_Events :: "RunEventPayload list"
  rar_Checkpoint :: "RunCheckpointSummary option"

record RunDetachResponse =
  rdt_RunID :: string
  rdt_AttachmentState :: string

record RunControlResponse =
  rcr_RunID :: string
  rcr_Accepted :: bool
  rcr_Status :: string
  rcr_Run :: "RunSummary option"
  rcr_Message :: string

record RunEventsResponse =
  rer_Events :: "RunEventPayload list"
  rer_LatestSeq :: int
  rer_HasMore :: bool
  rer_ReplayAvailable :: bool
  rer_Fidelity :: string
  rer_Checkpoint :: "RunCheckpointSummary option"

record RunPermission =
  rpm_RunID :: string
  rpm_RequestID :: string
  rpm_Type :: string
  rpm_Reason :: string

record RunHeartbeatResponse =
  rhr_RunID :: string
  rhr_Status :: string
  rhr_Stage :: string
  rhr_LatestSeq :: int

type_synonym 'a handled = "Server \<times> run_output list \<times> (TransportError + 'a)"

subsection \<open>Projections\<close>

definition isTerminalRunStatus :: "string \<Rightarrow> bool" where
  "isTerminalRunStatus st =
     (st = RunStatusCompleted \<or> st = RunStatusFailed \<or> st = RunStatusCancelled)"

definition stringPtrOrNil :: "string \<Rightarrow> string option" where
  "stringPtrOrNil s = (if s = [] then None else Some s)"

definition defaultCheckpointPayload :: string where
  "defaultCheckpointPayload = cp_default_payload"

text \<open>\<open>time.Time.Sub\<close>, which saturates at the range of a 64-bit count of nanoseconds.\<close>

definition time_sub :: "gotime \<Rightarrow> gotime \<Rightarrow> int" where
  "time_sub a b = max (- (2 ^ 63)) (min (2 ^ 63 - 1) (a - b))"

text \<open>\<open>int64(d.Seconds())\<close> truncates towards zero.\<close>

definition whole_seconds :: "int \<Rightarrow> int" where
  "whole_seconds d = (if d < 0 then - ((- d) div 1000000000) else d div 1000000000)"

definition runStuckThreshold :: int where
  "runStuckThreshold = 300 * 1000000000"

definition runSummary :: "store_env \<Rightarrow> Run \<Rightarrow> RunSummary" where
  "runSummary E r =
     (let terminal = isTerminalRunStatus (run_Status r);
          idle = time_sub (env_now E) (run_LastAdvancedAt r)
      in \<lparr>rs_RunID = run_ID r, rs_TraceID = run_TraceID r, rs_SessionID = run_SessionID r,
          rs_ParentRunID = (case run_ParentRunID r of None \<Rightarrow> [] | Some p \<Rightarrow> p),
          rs_Title = run_Title r, rs_WorkflowType = run_WorkflowType r, rs_Status = run_Status r,
          rs_Stage = run_Stage r, rs_AttachmentState = run_AttachmentState r,
          rs_Model = run_Model r, rs_Provider = run_Provider r,
          rs_InputTokens = run_InputTokens r, rs_OutputTokens = run_OutputTokens r,
          rs_TotalCost = run_TotalCost r, rs_LastEventSeq = run_LastEventSeq r,
          rs_LastCheckpointID = run_LastCheckpointID r,
          rs_CreatedAt = env_time_text E (run_CreatedAt r),
          rs_UpdatedAt = env_time_text E (run_UpdatedAt r),
          rs_LastAdvancedAt = env_time_text E (run_LastAdvancedAt r),
          rs_TerminalAt = (case run_TerminalAt r of None \<Rightarrow> [] | Some t \<Rightarrow> env_time_text E t),
          rs_InputRequired = (run_Status r = RunStatusWaitingPermission \<or>
                              run_Status r = RunStatusWaitingUser),
          rs_Stuck = (\<not> terminal \<and> idle \<ge> runStuckThreshold),
          rs_StuckSeconds = (if terminal then 0 else whole_seconds idle),
          rs_Summary = run_Summary r\<rparr>)"

definition protocolRunEvent :: "store_env \<Rightarrow> Run \<Rightarrow> RunEvent \<Rightarrow> RunEventPayload" where
  "protocolRunEvent E r ev =
     \<lparr>rep_RunID = evt_RunID ev, rep_Seq = evt_Seq ev, rep_Type = evt_Type ev,
      rep_SessionID = run_SessionID r, rep_TurnID = [], rep_Stage = evt_Stage ev,
      rep_Status = evt_Status ev, rep_Reason = evt_Reason ev,
      rep_CreatedAt = env_time_text E (evt_CreatedAt ev),
      rep_Payload = (case evt_PayloadJSON ev of
         None \<Rightarrow> None
       | Some j \<Rightarrow> (if j \<noteq> [] \<and> j \<noteq> ''{}'' then Some j else None))\<rparr>"

definition checkpointSummary :: "store_env \<Rightarrow> RunCheckpoint \<Rightarrow> RunCheckpointSummary" where
  "checkpointSummary E cp =
     \<lparr>rcs_CheckpointID = cp_ID cp, rcs_RunID = cp_RunID cp, rcs_Sequence = cp_Seq cp,
      rcs_Stage = cp_Stage cp, rcs_Status = cp_Status cp, rcs_Reason = cp_Reason cp,
      rcs_TurnIDs = cp_TurnIDs cp, rcs_ModelCallIDs = cp_ModelCallIDs cp,
      rcs_PendingToolCallIDs = cp_PendingToolCallIDs cp, rcs_Summary = cp_Summary cp,
      rcs_CreatedAt = env_time_text E (cp_CreatedAt cp), rcs_SchemaVersion = cp_SchemaVersion cp\<rparr>"

text \<open>The notification of an event that was stored; failures of the transport are ignored.\<close>

definition emitStoredRunEvent :: "store_env \<Rightarrow> Run \<Rightarrow> RunEvent \<Rightarrow> string \<Rightarrow> run_output" where
  "emitStoredRunEvent E r ev turnID = Notify (evt_Type ev)
     \<lparr>rep_RunID = run_ID r, rep_Seq = evt_Seq ev, rep_Type = evt_Type ev,
      rep_SessionID = run_SessionID r, rep_TurnID = turnID, rep_Stage = evt_Stage ev,
      rep_Status = evt_Status ev, rep_Reason = evt_Reason ev,
      rep_CreatedAt = env_time_text E (evt_CreatedAt ev), rep_Payload = evt_PayloadJSON ev\<rparr>"

subsection \<open>Creating runs\<close>

record createRunOptions =
  opt_IdempotencyKey :: string
  opt_WorkflowType :: string
  opt_Title :: string
  opt_ParentRunID :: string
  opt_Status :: string
  opt_AttachmentState :: string
  opt_AttachedConnectionID :: string

text \<open>The run, event and checkpoint that both ways of creation hand to the store.\<close>

definition new_run :: "store_env \<Rightarrow> Session \<Rightarrow> string \<Rightarrow> createRunOptions \<Rightarrow> Run" where
  "new_run E sess key opts =
     \<lparr>run_ID = ''run-'' @ env_uuid E 0, run_TraceID = ''trace-'' @ env_uuid E 1,
      run_IdempotencyKey = key, run_UserID = sess_UserID sess, run_Project = sess_Project sess,
      run_SessionID = sess_ID sess, run_ParentRunID = stringPtrOrNil (opt_ParentRunID opts),
      run_InitiatorType = ''user'', run_Title = opt_Title opts,
      run_WorkflowType = opt_WorkflowType opts, run_Status = opt_Status opts,
      run_Stage = RunStagePreflight, run_AttachmentState = opt_AttachmentState opts,
      run_AttachedConnectionID = opt_AttachedConnectionID opts, run_AttachmentGraceDeadline = None,
      run_Summary = [], run_LastAdvancedAt = env_now E, run_Model = [], run_Provider = [],
      run_InputTokens = 0, run_OutputTokens = 0, run_TotalCost = 0, run_LastEventSeq = 0,
      run_LastCheckpointID = [], run_ExtensionJSON = None, run_RetentionClass = [],
      run_ExpiresAt = None, run_SchemaVersion = 0, run_CreatedAt = env_now E,
      run_UpdatedAt = env_now E, run_TerminalAt = None\<rparr>"

definition started_event :: "store_env \<Rightarrow> Run \<Rightarrow> RunEvent" where
  "started_event E r =
     \<lparr>evt_RunID = [], evt_Seq = 0, evt_Type = EventRunStarted, evt_Stage = run_Stage r,
      evt_Status = run_Status r, evt_Reason = [],
      evt_PayloadJSON = Some (json_object [(''trace_id'', json_string (run_TraceID r)),
                                           (''workflow_type'', json_string (run_WorkflowType r))]),
      evt_PayloadSchemaVersion = 0, evt_CreatedAt = env_now E\<rparr>"

definition new_checkpoint ::
  "store_env \<Rightarrow> string \<Rightarrow> string \<Rightarrow> string \<Rightarrow> string \<Rightarrow> string list \<Rightarrow> RunCheckpoint" where
  "new_checkpoint E stage status reason summary turns =
     \<lparr>cp_ID = [], cp_RunID = [], cp_Seq = 0, cp_Stage = stage, cp_Status = status,
      cp_Reason = reason, cp_TurnIDs = turns, cp_ModelCallIDs = [], cp_PendingToolCallIDs = [],
      cp_Summary = summary, cp_PayloadJSON = Some defaultCheckpointPayload, cp_SchemaVersion = 0,
      cp_CreatedAt = env_now E\<rparr>"

definition createRunRecord ::
  "store_env \<Rightarrow> Session \<Rightarrow> createRunOptions \<Rightarrow> Server
     \<Rightarrow> Server \<times> run_output list \<times> (store_error + Run)" where
  "createRunRecord E sess opts srv =
     (let key = (if opt_IdempotencyKey opts = [] then ''run:'' @ env_uuid E 3
                 else opt_IdempotencyKey opts)
      in case GetRunByIdempotency E (sess_UserID sess) (sess_Project sess) key (sv_db srv) of
           Inr existing \<Rightarrow> (srv, [], Inr existing)
         | Inl e \<Rightarrow>
             (if e \<noteq> ErrRunNotFound then (srv, [], Inl e)
              else
                (let r = new_run E sess key opts;
                     initial = started_event E r;
                     cp = new_checkpoint E (run_Stage r) (run_Status r) [] (run_Summary r) []
                 in case CreateRun E r initial cp (sv_db srv) of
                      (d, Inl e) \<Rightarrow> (srv\<lparr>sv_db := d\<rparr>, [], Inl e)
                    | (d, Inr r') \<Rightarrow>
                        (srv\<lparr>sv_db := d\<rparr>,
                         [emitStoredRunEvent E r' (initial\<lparr>evt_RunID := run_ID r', evt_Seq := 1\<rparr>) []],
                         Inr r'))))"

definition createForegroundRunWithTurn ::
  "store_env \<Rightarrow> Session \<Rightarrow> createRunOptions \<Rightarrow> Turn \<Rightarrow> CommandHistoryEntry option \<Rightarrow> Server
     \<Rightarrow> Server \<times> run_output list \<times> (store_error + Run)" where
  "createForegroundRunWithTurn E sess opts turn history srv =
     (let key = (if opt_IdempotencyKey opts = []
                 then ''turn:'' @ sess_ID sess @ '':'' @ turn_ID turn else opt_IdempotencyKey opts);
          r = new_run E sess key opts;
          initial = started_event E r;
          cp = new_checkpoint E (run_Stage r) (run_Status r) [] (run_Summary r) [turn_ID turn]
      in case CreateRunWithTurn E r initial cp (Some turn) (turn_Role turn) (turn_Sequence turn)
                history (sv_db srv) of
           (d, Inl e) \<Rightarrow> (srv\<lparr>sv_db := d\<rparr>, [], Inl e)
         | (d, Inr r') \<Rightarrow>
             (srv\<lparr>sv_db := d\<rparr>,
              [emitStoredRunEvent E r' (initial\<lparr>evt_RunID := run_ID r', evt_Seq := 1\<rparr>) (turn_ID turn)],
              Inr r'))"

text \<open>
  One step of a run's life: the event, the update and a checkpoint in one append, then the
  notification.  The result is also the run as the caller's struct holds it afterwards.
\<close>

definition lifecycle_update ::
  "store_env \<Rightarrow> Run \<Rightarrow> string \<Rightarrow> string \<Rightarrow> string \<Rightarrow> string \<Rightarrow> RunStateUpdate" where
  "lifecycle_update E r typ stage status reason =
     no_update\<lparr>upd_Stage := stringPtrOrNil stage, upd_Status := stringPtrOrNil status,
       upd_TerminalAt := (if typ = EventRunCompleted \<or> typ = EventRunFailed \<or> typ = EventRunCancelled
                          then Some (env_now E) else None),
       upd_Checkpoint := Some (new_checkpoint E stage status reason (run_Summary r) [])\<rparr>"

definition appendRunLifecycle ::
  "store_env \<Rightarrow> Run \<Rightarrow> string \<Rightarrow> string \<Rightarrow> string \<Rightarrow> string \<Rightarrow> string option \<Rightarrow> Server
     \<Rightarrow> Server \<times> run_output list \<times> (store_error + Run)" where
  "appendRunLifecycle E r typ stage status reason payload srv =
     (let ev = \<lparr>evt_RunID = [], evt_Seq = 0, evt_Type = typ, evt_Stage = stage,
                evt_Status = status, evt_Reason = reason,
                evt_PayloadJSON = Some (case payload of None \<Rightarrow> ''{}'' | Some j \<Rightarrow> j),
                evt_PayloadSchemaVersion = 0, evt_CreatedAt = env_now E\<rparr>
      in case AppendRunEvent E (run_ID r) ev (lifecycle_update E r typ stage status reason)
                (sv_db srv) of
           (d, Inl e) \<Rightarrow> (srv\<lparr>sv_db := d\<rparr>, [], Inl e)
         | (d, Inr seq) \<Rightarrow>
             (srv\<lparr>sv_db := d\<rparr>,
              [emitStoredRunEvent E r (ev\<lparr>evt_RunID := run_ID r, evt_Seq := seq\<rparr>) []],
              Inr (r\<lparr>run_LastEventSeq := seq, run_Stage := stage, run_Status := status,
                     run_UpdatedAt := env_now E, run_LastAdvancedAt := env_now E\<rparr>)))"

subsection \<open>Authorization\<close>

definition run_not_found :: TransportError where
  "run_not_found = TransportError CodeSessionNotFound ''run not found'' None"

definition getAuthorizedRun :: "store_env \<Rightarrow> Conn \<Rightarrow> string \<Rightarrow> Server \<Rightarrow> TransportError + Run" where
  "getAuthorizedRun E conn runID srv =
     (if runID = [] then Inl (transportInvalidParams ''run_id is required'')
      else (case GetRun E runID (sv_db srv) of
              Inl e \<Rightarrow> (if e = ErrRunNotFound then Inl run_not_found
                        else Inl (transportInternal ''get run'' e))
            | Inr r \<Rightarrow> (if run_UserID r \<noteq> conn_UserID conn then Inl run_not_found else Inr r)))"

text \<open>
  The common opening of the handlers that address one run: the decoded request, then the run of
  the identifier in it, then the rest; an error of either ends the request.
\<close>

definition with_run ::
  "store_env \<Rightarrow> Conn \<Rightarrow> string \<Rightarrow> ('q \<Rightarrow> string) \<Rightarrow> string + 'q \<Rightarrow> Server
     \<Rightarrow> ('q \<Rightarrow> Run \<Rightarrow> 'a handled) \<Rightarrow> 'a handled" where
  "with_run E conn method rid params srv k =
     (case params of
        Inl e \<Rightarrow> (srv, [], Inl (transportInvalidParams (''decode '' @ method @ '': '' @ e)))
      | Inr req \<Rightarrow>
          (case getAuthorizedRun E conn (rid req) srv of
             Inl e \<Rightarrow> (srv, [], Inl e)
           | Inr r \<Rightarrow> k req r))"

subsection \<open>Replay\<close>

definition replayAvailable :: "RunEvent list \<Rightarrow> int \<Rightarrow> bool" where
  "replayAvailable events afterSeq = (events = [] \<or> evt_Seq (hd events) \<le> afterSeq + 1)"

definition replayFidelity :: "RunEvent list \<Rightarrow> int \<Rightarrow> int \<Rightarrow> string" where
  "replayFidelity events afterSeq latestSeq =
     (if \<not> replayAvailable events afterSeq then RunReplaySummary
      else if events = [] \<and> afterSeq < latestSeq then RunReplaySummary
      else RunReplayFull)"

text \<open>The result of a read whose error the caller drops (\<open>x, _ :=\<close>).\<close>

definition or_default :: "'a \<Rightarrow> 'e + 'a \<Rightarrow> 'a" where
  "or_default x r = (case r of Inl _ \<Rightarrow> x | Inr y \<Rightarrow> y)"

definition latest_checkpoint :: "store_env \<Rightarrow> string \<Rightarrow> db \<Rightarrow> RunCheckpointSummary option" where
  "latest_checkpoint E rid d =
     map_option (checkpointSummary E) (or_default None (GetLatestRunCheckpoint E rid d))"

subsection \<open>Handlers\<close>

definition handleRunCreate ::
  "store_env \<Rightarrow> Conn \<Rightarrow> string + RunCreate \<Rightarrow> Server \<Rightarrow> RunSummary handled" where
  "handleRunCreate E conn params srv =
     (case params of
        Inl e \<Rightarrow> (srv, [], Inl (transportInvalidParams (''decode run.create: '' @ e)))
      | Inr req \<Rightarrow>
          (if rc_SessionID req = []
           then (srv, [], Inl (transportInvalidParams ''session_id is required''))
           else
             (case GetSession E (rc_SessionID req) (sv_db srv) of
                Inl e \<Rightarrow> (srv, [], Inl (TransportError CodeSessionNotFound ''session not found'' None))
              | Inr sess \<Rightarrow>
                  (case verifySessionAccess conn sess of
                     Some e \<Rightarrow> (srv, [], Inl e)
                   | None \<Rightarrow>
                       (case createRunRecord E sess
                               \<lparr>opt_IdempotencyKey = rc_IdempotencyKey req,
                                opt_WorkflowType = rc_WorkflowType req, opt_Title = rc_Title req,
                                opt_ParentRunID = rc_ParentRunID req,
                                opt_Status = RunStatusQueued,
                                opt_AttachmentState = RunAttachmentDetached,
                                opt_AttachedConnectionID = []\<rparr> srv of
                          (srv', out, Inl e) \<Rightarrow>
                            (srv', out, Inl (if e = ErrInvalidWorkflowType
                               then transportInvalidParams ''invalid workflow_type''
                               else transportInternal ''create run'' e))
                        | (srv', out, Inr r) \<Rightarrow> (srv', out, Inr (runSummary E r)))))))"

definition handleRunList ::
  "store_env \<Rightarrow> Conn \<Rightarrow> string + RunList \<Rightarrow> Server \<Rightarrow> RunSummary list handled" where
  "handleRunList E conn params srv =
     (case params of
        Inl e \<Rightarrow> (srv, [], Inl (transportInvalidParams (''decode run.list: '' @ e)))
      | Inr req \<Rightarrow>
          (case ListRuns E \<lparr>flt_UserID = conn_UserID conn, flt_Project = conn_Root conn,
                  flt_SessionID = rl_SessionID req, flt_Status = rl_Status req,
                  flt_Limit = rl_Limit req, flt_Offset = rl_Offset req\<rparr> (sv_db srv) of
             Inl e \<Rightarrow> (srv, [], Inl (transportInternal ''list runs'' e))
           | Inr runs \<Rightarrow> (srv, [], Inr (map (runSummary E) runs))))"

definition handleRunDetails ::
  "store_env \<Rightarrow> Conn \<Rightarrow> string + string \<Rightarrow> Server \<Rightarrow> RunDetailsResponse handled" where
  "handleRunDetails E conn params srv =
     with_run E conn ''run.details'' id params srv (\<lambda>_ r.
       case ListRunEvents E (run_ID r) (max 0 (run_LastEventSeq r - 25)) 25 (sv_db srv) of
         Inl e \<Rightarrow> (srv, [], Inl (transportInternal ''list run events'' e))
       | Inr events \<Rightarrow>
           (srv, [], Inr \<lparr>rdr_Run = runSummary E r,
              rdr_TurnIDs = or_default [] (ListRunTurnIDs E (run_ID r) (sv_db srv)),
              rdr_Checkpoint = latest_checkpoint E (run_ID r) (sv_db srv),
              rdr_Events = map (protocolRunEvent E r) events\<rparr>))"

text \<open>An event that carries the run's own stage and status.\<close>

definition plain_event :: "store_env \<Rightarrow> string \<Rightarrow> string \<Rightarrow> string \<Rightarrow> string option \<Rightarrow> RunEvent" where
  "plain_event E typ stage status payload =
     \<lparr>evt_RunID = [], evt_Seq = 0, evt_Type = typ, evt_Stage = stage, evt_Status = status,
      evt_Reason = [], evt_PayloadJSON = payload, evt_PayloadSchemaVersion = 0,
      evt_CreatedAt = env_now E\<rparr>"

definition handleRunAttach ::
  "store_env \<Rightarrow> Conn \<Rightarrow> string + RunAttach \<Rightarrow> Server \<Rightarrow> RunAttachResponse handled" where
  "handleRunAttach E conn params srv =
     with_run E conn ''run.attach'' ra_RunID params srv (\<lambda>req r.
       if isTerminalRunStatus (run_Status r)
       then (srv, [], Inl (transportInvalidParams ''cannot attach terminal run''))
       else if run_AttachmentState r = RunAttachmentAttached \<and> run_AttachedConnectionID r \<noteq> []
               \<and> run_AttachedConnectionID r \<noteq> conn_ID conn
       then (srv, [], Inl (transportInvalidParams
               ''attachment conflict: run is attached elsewhere''))
       else
         (case AppendRunEvent E (run_ID r)
                 (plain_event E EventRunAttached (run_Stage r) (run_Status r) None)
                 (no_update\<lparr>upd_AttachmentState := Some RunAttachmentAttached,
                            upd_AttachedConnectionID := Some (conn_ID conn)\<rparr>) (sv_db srv) of
            (d, Inl e) \<Rightarrow> (srv\<lparr>sv_db := d\<rparr>, [], Inl (transportInternal ''attach run'' e))
          | (d, Inr seq) \<Rightarrow>
              (let r' = r\<lparr>run_AttachmentState := RunAttachmentAttached,
                          run_AttachedConnectionID := conn_ID conn, run_LastEventSeq := seq\<rparr>;
                   events = or_default [] (ListRunEvents E (run_ID r) (ra_LastObservedSeq req) 100 d)
               in (srv\<lparr>sv_db := d\<rparr>, [], Inr \<lparr>rar_Run = runSummary E r',
                     rar_AttachmentState = RunAttachmentAttached,
                     rar_ReplayAvailable = replayAvailable events (ra_LastObservedSeq req),
                     rar_Fidelity = replayFidelity events (ra_LastObservedSeq req) seq,
                     rar_Events = map (protocolRunEvent E r') events,
                     rar_Checkpoint = latest_checkpoint E (run_ID r) d\<rparr>))))"

text \<open>
  \<open>run.detach\<close> decodes the same JSON a second time into \<open>RunControl\<close> when the identifier is empty,
  which names the same field, so the second decoding gives the same identifier.
\<close>

definition handleRunDetach ::
  "store_env \<Rightarrow> Conn \<Rightarrow> string + string \<Rightarrow> Server \<Rightarrow> RunDetachResponse handled" where
  "handleRunDetach E conn params srv =
     with_run E conn ''run.detach'' id params srv (\<lambda>_ r.
       case AppendRunEvent E (run_ID r)
              (plain_event E EventRunDetached (run_Stage r) (run_Status r) None)
              (no_update\<lparr>upd_AttachmentState := Some RunAttachmentDetached,
                         upd_AttachedConnectionID := Some []\<rparr>) (sv_db srv) of
         (d, Inl e) \<Rightarrow> (srv\<lparr>sv_db := d\<rparr>, [], Inl (transportInternal ''detach run'' e))
       | (d, Inr _) \<Rightarrow> (srv\<lparr>sv_db := d\<rparr>, [],
             Inr \<lparr>rdt_RunID = run_ID r, rdt_AttachmentState = RunAttachmentDetached\<rparr>))"

definition control_reply :: "Run \<Rightarrow> bool \<Rightarrow> string \<Rightarrow> string \<Rightarrow> RunControlResponse" where
  "control_reply r accepted status msg =
     \<lparr>rcr_RunID = run_ID r, rcr_Accepted = accepted, rcr_Status = status, rcr_Run = None,
      rcr_Message = msg\<rparr>"

definition handleRunCancel ::
  "store_env \<Rightarrow> Conn \<Rightarrow> string + RunControl \<Rightarrow> Server \<Rightarrow> RunControlResponse handled" where
  "handleRunCancel E conn params srv =
     with_run E conn ''run.cancel'' ctl_RunID params srv (\<lambda>req r.
       if isTerminalRunStatus (run_Status r)
       then (srv, [], Inr (control_reply r False (run_Status r) ''run is already terminal''))
       else
         (let (runs, cancels, cancelled) = cancel_run (run_ID r) (sv_runs srv);
              out = map CancelContext cancels
          in case AppendRunEvent E (run_ID r)
                    ((plain_event E EventRunCancelled (run_Stage r) RunStatusCancelled None)
                       \<lparr>evt_Reason := ctl_Reason req\<rparr>)
                    (no_update\<lparr>upd_Status := Some RunStatusCancelled,
                       upd_Stage := Some (run_Stage r), upd_TerminalAt := Some (env_now E),
                       upd_Checkpoint := Some (new_checkpoint E (run_Stage r) RunStatusCancelled
                                                 (ctl_Reason req) [] [])\<rparr>) (sv_db srv) of
               (d, Inl e) \<Rightarrow>
                 (srv\<lparr>sv_db := d, sv_runs := runs\<rparr>, out, Inl (transportInternal ''cancel run'' e))
             | (d, Inr _) \<Rightarrow>
                 (srv\<lparr>sv_db := d, sv_runs := runs\<rparr>, out,
                  Inr (control_reply r True RunStatusCancelled
                         (if cancelled then ''active run cancelled'' else ''run marked cancelled'')))))"

definition handleRunRetry ::
  "store_env \<Rightarrow> Conn \<Rightarrow> string + RunControl \<Rightarrow> Server \<Rightarrow> RunControlResponse handled" where
  "handleRunRetry E conn params srv =
     with_run E conn ''run.retry'' ctl_RunID params srv (\<lambda>_ r.
       (srv, [], Inr (control_reply r False (run_Status r)
          ''retry is checkpoint-aware but not enabled in v0.3.0'')))"

definition handleRunContinue ::
  "store_env \<Rightarrow> Conn \<Rightarrow> string + RunControl \<Rightarrow> Server \<Rightarrow> RunControlResponse handled" where
  "handleRunContinue E conn params srv =
     with_run E conn ''run.continue'' ctl_RunID params srv (\<lambda>_ r.
       (srv, [], Inr (control_reply r False (run_Status r)
          ''continue is limited to future checkpointed stages'')))"

text \<open>\<open>run.fork\<close> builds the session it passes on from the parent run's columns alone.\<close>

definition session_of_run :: "Run \<Rightarrow> Session" where
  "session_of_run r =
     \<lparr>sess_ID = run_SessionID r, sess_UserID = run_UserID r, sess_Project = run_Project r,
      sess_Summary = [], sess_ActiveModel = [], sess_ModelOverride = None,
      sess_RoutingOverrides = None, sess_PinnedItems = None, sess_CompactionState = None,
      sess_TotalCost = 0, sess_TotalInputTokens = 0, sess_TotalOutputTokens = 0,
      sess_ContextPct = 0, sess_Status = [], sess_LockOwner = None, sess_LockExpiresAt = None,
      sess_CreatedAt = 0, sess_UpdatedAt = 0\<rparr>"

definition handleRunFork ::
  "store_env \<Rightarrow> Conn \<Rightarrow> string + RunControl \<Rightarrow> Server \<Rightarrow> RunControlResponse handled" where
  "handleRunFork E conn params srv =
     with_run E conn ''run.fork'' ctl_RunID params srv (\<lambda>_ parent.
       case createRunRecord E (session_of_run parent)
              \<lparr>opt_IdempotencyKey = ''fork:'' @ run_ID parent @ '':'' @ env_uuid E 4,
               opt_WorkflowType = run_WorkflowType parent, opt_Title = run_Title parent,
               opt_ParentRunID = run_ID parent, opt_Status = RunStatusQueued,
               opt_AttachmentState = RunAttachmentDetached, opt_AttachedConnectionID = []\<rparr> srv of
         (srv', out, Inl e) \<Rightarrow> (srv', out, Inl (transportInternal ''fork run'' e))
       | (srv', out, Inr child) \<Rightarrow>
           (srv', out, Inr \<lparr>rcr_RunID = run_ID child, rcr_Accepted = True,
              rcr_Status = run_Status child, rcr_Run = Some (runSummary E child),
              rcr_Message = []\<rparr>))"

definition handleRunEvents ::
  "store_env \<Rightarrow> Conn \<Rightarrow> string + RunEvents \<Rightarrow> Server \<Rightarrow> RunEventsResponse handled" where
  "handleRunEvents E conn params srv =
     with_run E conn ''run.events'' re_RunID params srv (\<lambda>req r.
       case ListRunEvents E (run_ID r) (re_AfterSeq req) (re_Limit req) (sv_db srv) of
         Inl e \<Rightarrow> (srv, [], Inl (transportInternal ''list run events'' e))
       | Inr events \<Rightarrow>
           (srv, [], Inr \<lparr>rer_Events = map (protocolRunEvent E r) events,
              rer_LatestSeq = run_LastEventSeq r,
              rer_HasMore = (events \<noteq> [] \<and>
                int (length events) + re_AfterSeq req < run_LastEventSeq r),
              rer_ReplayAvailable = replayAvailable events (re_AfterSeq req),
              rer_Fidelity = replayFidelity events (re_AfterSeq req) (run_LastEventSeq r),
              rer_Checkpoint = latest_checkpoint E (run_ID r) (sv_db srv)\<rparr>))"

text \<open>
  The blocker of a waiting run: the last \<open>run.blocked\<close> event among the events read.  Decoding its
  payload is the parameter \<open>parse\<close>: the request, type and reason in it, empty where absent.
\<close>

definition latestRunBlocker ::
  "store_env \<Rightarrow> (string \<Rightarrow> (string \<times> string \<times> string) option) \<Rightarrow> Run \<Rightarrow> db \<Rightarrow> RunPermission" where
  "latestRunBlocker E parse r d =
     (let perm = \<lparr>rpm_RunID = run_ID r, rpm_RequestID = [], rpm_Type = run_Status r, rpm_Reason = []\<rparr>
      in case ListRunEvents E (run_ID r) 0 500 d of
           Inl e \<Rightarrow> perm
         | Inr events \<Rightarrow>
             (case find (\<lambda>ev. evt_Type ev = EventRunBlocked) (rev events) of
                None \<Rightarrow> perm
              | Some ev \<Rightarrow>
                  (case parse (case evt_PayloadJSON ev of None \<Rightarrow> [] | Some j \<Rightarrow> j) of
                     None \<Rightarrow> perm
                   | Some (req, typ, reason) \<Rightarrow>
                       perm\<lparr>rpm_RequestID := OrElseS req (rpm_RequestID perm),
                            rpm_Type := OrElseS typ (rpm_Type perm),
                            rpm_Reason := OrElseS reason (rpm_Reason perm)\<rparr>)))"

definition handleRunPermissions ::
  "store_env \<Rightarrow> (string \<Rightarrow> (string \<times> string \<times> string) option) \<Rightarrow> Conn \<Rightarrow> string + RunPermissions
     \<Rightarrow> Server \<Rightarrow> RunPermission list handled" where
  "handleRunPermissions E parse conn params srv =
     (case params of
        Inl e \<Rightarrow> (srv, [], Inl (transportInvalidParams (''decode run.permissions: '' @ e)))
      | Inr req \<Rightarrow>
          (if rp_RunID req = [] then (srv, [], Inr [])
           else (case getAuthorizedRun E conn (rp_RunID req) srv of
                   Inl e \<Rightarrow> (srv, [], Inl e)
                 | Inr r \<Rightarrow>
                     (srv, [], Inr (if run_Status r = RunStatusWaitingPermission
                                       \<or> run_Status r = RunStatusWaitingUser
                                    then [latestRunBlocker E parse r (sv_db srv)] else [])))))"

definition handleRunResolvePermission ::
  "store_env \<Rightarrow> Conn \<Rightarrow> string + RunResolvePermission \<Rightarrow> Server \<Rightarrow> RunControlResponse handled" where
  "handleRunResolvePermission E conn params srv =
     with_run E conn ''run.resolve_permission'' rrp_RunID params srv (\<lambda>req r.
       if isTerminalRunStatus (run_Status r)
       then (srv, [], Inr (control_reply r False (run_Status r) ''run is already terminal''))
       else if rrp_RequestID req = [] \<or> rrp_Decision req = []
       then (srv, [], Inl (transportInvalidParams ''request_id and decision are required''))
       else if run_Status r = RunStatusWaitingPermission
       then
         (case AppendRunEvent E (run_ID r)
                 (plain_event E EventRunUnblocked (run_Stage r) RunStatusRunning
                    (Some (json_object [(''decision'', json_string (rrp_Decision req)),
                                        (''request_id'', json_string (rrp_RequestID req))])))
                 (no_update\<lparr>upd_Status := Some RunStatusRunning, upd_Stage := Some (run_Stage r),
                    upd_Checkpoint := Some (new_checkpoint E (run_Stage r) RunStatusRunning
                                              [] [] [])\<rparr>) (sv_db srv) of
            (d, Inl e) \<Rightarrow>
              (srv\<lparr>sv_db := d\<rparr>, [], Inl (transportInternal ''resolve run permission'' e))
          | (d, Inr _) \<Rightarrow> (srv\<lparr>sv_db := d\<rparr>, [], Inr (control_reply r True RunStatusRunning [])))
       else (srv, [], Inr (control_reply r True RunStatusRunning [])))"

definition handleRunHeartbeat ::
  "store_env \<Rightarrow> Conn \<Rightarrow> string + RunHeartbeat \<Rightarrow> Server \<Rightarrow> RunHeartbeatResponse handled" where
  "handleRunHeartbeat E conn params srv =
     with_run E conn ''run.heartbeat'' rh_RunID params srv (\<lambda>req r.
       if isTerminalRunStatus (run_Status r)
       then (srv, [], Inr \<lparr>rhr_RunID = run_ID r, rhr_Status = run_Status r,
                          rhr_Stage = run_Stage r, rhr_LatestSeq = run_LastEventSeq r\<rparr>)
       else
         (let stage = (if rh_Stage req \<noteq> [] then rh_Stage req else run_Stage r);
              raw = json_object
                [(''host_fingerprint'', json_string (rh_HostFingerprint req)),
                 (''last_observed_seq'', itoa (rh_LastObservedSeq req)),
                 (''stage'', json_string stage)]
          in case AppendRunEvent E (run_ID r)
                    (plain_event E EventRunProgress stage (run_Status r) (Some raw))
                    no_update (sv_db srv) of
               (d, Inl e) \<Rightarrow> (srv\<lparr>sv_db := d\<rparr>, [], Inl (transportInternal ''heartbeat run'' e))
             | (d, Inr seq) \<Rightarrow>
                 (srv\<lparr>sv_db := d\<rparr>, [], Inr \<lparr>rhr_RunID = run_ID r, rhr_Status = run_Status r,
                    rhr_Stage = stage, rhr_LatestSeq = seq\<rparr>)))"

end
