(* ===== verification/Run_Store_Inv.thy ===== *)
theory Run_Store_Inv
  imports Run_Store
begin

text \<open>
  The invariant of the run tables and its preservation by every operation of \<open>runs.go\<close>: keys are
  unique, every run's events are numbered from 1 to its last sequence number without a gap, events
  belong to existing runs, every run has one attachment row that mirrors its attachment columns,
  and status, stage and workflow are declared values.
\<close>

subsection \<open>The invariant\<close>

definition att_mirrors :: "Run \<Rightarrow> AttachmentRow \<Rightarrow> bool" where
  "att_mirrors r a =
     (att_RunID a = run_ID r \<and> att_State a = run_AttachmentState r \<and>
      att_ConnectionID a = run_AttachedConnectionID r \<and>
      att_GraceDeadline a = run_AttachmentGraceDeadline r)"

definition run_row_ok :: "Run \<Rightarrow> bool" where
  "run_row_ok r = (validRunStatuses (run_Status r) \<and> validRunStages (run_Stage r) \<and>
     validWorkflowTypes (run_WorkflowType r) \<and> 1 \<le> run_LastEventSeq r)"

definition log_ok :: "db \<Rightarrow> Run \<Rightarrow> bool" where
  "log_ok d r = (map evt_Seq (events_of d (run_ID r)) = [1..run_LastEventSeq r])"

definition run_db_inv :: "db \<Rightarrow> bool" where
  "run_db_inv d =
     (distinct (map run_ID (db_runs d)) \<and> distinct (map run_key (db_runs d)) \<and>
      distinct (map cp_ID (db_checkpoints d)) \<and>
      distinct (map mc_ModelCallID (db_model_calls d)) \<and>
      distinct (map tr_ToolCallID (db_tool_results d)) \<and>
      distinct (map link_TurnID (db_run_turns d)) \<and>
      (\<forall>r \<in> set (db_runs d). run_row_ok r \<and> log_ok d r) \<and>
      (\<forall>e \<in> set (db_events d). has_run d (evt_RunID e)) \<and>
      list_all2 att_mirrors (db_runs d) (db_attachments d))"

lemma empty_db_inv: "run_db_inv empty_db"
  by (simp add: run_db_inv_def empty_db_def)

subsection \<open>Rows by identifier\<close>

lemma find_run_Some: "find_run d rid = Some r \<Longrightarrow> r \<in> set (db_runs d) \<and> run_ID r = rid"
  by (auto simp: find_run_def find_Some_iff)

lemma find_run_None: "find_run d rid = None \<longleftrightarrow> \<not> has_run d rid"
  by (auto simp: find_run_def has_run_def find_None_iff)

lemma not_has_run: "\<not> has_run d rid \<longleftrightarrow> (\<forall>x \<in> set (db_runs d). run_ID x \<noteq> rid)"
  by (force simp: has_run_def)

lemma run_db_inv_distinct:
  "run_db_inv d \<Longrightarrow> distinct (map cp_ID (db_checkpoints d)) \<and>
     distinct (map mc_ModelCallID (db_model_calls d)) \<and>
     distinct (map tr_ToolCallID (db_tool_results d)) \<and>
     distinct (map link_TurnID (db_run_turns d))"
  by (simp add: run_db_inv_def)

lemma find_run_eq:
  assumes "distinct (map run_ID (db_runs d))" "r \<in> set (db_runs d)"
  shows "find_run d (run_ID r) = Some r"
proof -
  have "find (\<lambda>x. run_ID x = run_ID r) xs = Some r"
    if "distinct (map run_ID xs)" "r \<in> set xs" for xs
    using that by (induction xs) (auto simp: image_iff)
  with assms show ?thesis by (simp add: find_run_def)
qed

text \<open>An optional assignment changes its own column only.\<close>

lemma set_opt_frames:
  "(\<And>x r. run_ID (f x r) = run_ID r) \<Longrightarrow> run_ID (set_opt f y r) = run_ID r"
  "(\<And>x r. run_key (f x r) = run_key r) \<Longrightarrow> run_key (set_opt f y r) = run_key r"
  "(\<And>x r. run_WorkflowType (f x r) = run_WorkflowType r) \<Longrightarrow> run_WorkflowType (set_opt f y r) = run_WorkflowType r"
  "(\<And>x r. run_LastEventSeq (f x r) = run_LastEventSeq r) \<Longrightarrow> run_LastEventSeq (set_opt f y r) = run_LastEventSeq r"
  "(\<And>x r. run_UserID (f x r) = run_UserID r) \<Longrightarrow> run_UserID (set_opt f y r) = run_UserID r"
  "(\<And>x r. run_Status (f x r) = run_Status r) \<Longrightarrow> run_Status (set_opt f y r) = run_Status r"
  "(\<And>x r. run_Stage (f x r) = run_Stage r) \<Longrightarrow> run_Stage (set_opt f y r) = run_Stage r"
  "(\<And>x r. run_AttachmentState (f x r) = run_AttachmentState r) \<Longrightarrow> run_AttachmentState (set_opt f y r) = run_AttachmentState r"
  "(\<And>x r. run_AttachedConnectionID (f x r) = run_AttachedConnectionID r) \<Longrightarrow> run_AttachedConnectionID (set_opt f y r) = run_AttachedConnectionID r"
  "(\<And>x r. run_AttachmentGraceDeadline (f x r) = run_AttachmentGraceDeadline r) \<Longrightarrow> run_AttachmentGraceDeadline (set_opt f y r) = run_AttachmentGraceDeadline r"
  "(\<And>x r. run_TerminalAt (f x r) = run_TerminalAt r) \<Longrightarrow> run_TerminalAt (set_opt f y r) = run_TerminalAt r"
  "(\<And>x r. run_SessionID (f x r) = run_SessionID r) \<Longrightarrow> run_SessionID (set_opt f y r) = run_SessionID r"
  by (auto simp: set_opt_def split: option.splits)

lemma set_opt_sets:
  "run_Status (set_opt (\<lambda>x r. r\<lparr>run_Status := x\<rparr>) y r) = (case y of None \<Rightarrow> run_Status r | Some x \<Rightarrow> x)"
  "run_Stage (set_opt (\<lambda>x r. r\<lparr>run_Stage := x\<rparr>) y r) = (case y of None \<Rightarrow> run_Stage r | Some x \<Rightarrow> x)"
  "run_AttachmentState (set_opt (\<lambda>x r. r\<lparr>run_AttachmentState := x\<rparr>) y r) = (case y of None \<Rightarrow> run_AttachmentState r | Some x \<Rightarrow> x)"
  "run_AttachedConnectionID (set_opt (\<lambda>x r. r\<lparr>run_AttachedConnectionID := x\<rparr>) y r) = (case y of None \<Rightarrow> run_AttachedConnectionID r | Some x \<Rightarrow> x)"
  "run_AttachmentGraceDeadline (set_opt (\<lambda>x r. r\<lparr>run_AttachmentGraceDeadline := Some x\<rparr>) z r) = (case z of None \<Rightarrow> run_AttachmentGraceDeadline r | Some x \<Rightarrow> Some x)"
  "run_TerminalAt (set_opt (\<lambda>x r. r\<lparr>run_TerminalAt := Some x\<rparr>) z r) = (case z of None \<Rightarrow> run_TerminalAt r | Some x \<Rightarrow> Some x)"
  by (auto simp: set_opt_def split: option.splits)

lemma run_key_frames [simp]:
  "run_key (r\<lparr>run_Status := x\<rparr>) = run_key r"
  "run_key (r\<lparr>run_Stage := x\<rparr>) = run_key r"
  "run_key (r\<lparr>run_AttachmentState := x\<rparr>) = run_key r"
  "run_key (r\<lparr>run_AttachedConnectionID := x\<rparr>) = run_key r"
  "run_key (r\<lparr>run_AttachmentGraceDeadline := y\<rparr>) = run_key r"
  "run_key (r\<lparr>run_Summary := x\<rparr>) = run_key r"
  "run_key (r\<lparr>run_Model := x\<rparr>) = run_key r"
  "run_key (r\<lparr>run_Provider := x\<rparr>) = run_key r"
  "run_key (r\<lparr>run_InputTokens := i\<rparr>) = run_key r"
  "run_key (r\<lparr>run_OutputTokens := i\<rparr>) = run_key r"
  "run_key (r\<lparr>run_TotalCost := q\<rparr>) = run_key r"
  "run_key (r\<lparr>run_LastCheckpointID := x\<rparr>) = run_key r"
  "run_key (r\<lparr>run_LastEventSeq := i\<rparr>) = run_key r"
  "run_key (r\<lparr>run_UpdatedAt := i\<rparr>) = run_key r"
  "run_key (r\<lparr>run_LastAdvancedAt := i\<rparr>) = run_key r"
  "run_key (r\<lparr>run_TerminalAt := y\<rparr>) = run_key r"
  by (simp_all add: run_key_def)

lemma update_run_row_keys [simp]:
  "run_ID (update_run_row seq u tm r) = run_ID r"
  "run_key (update_run_row seq u tm r) = run_key r"
  "run_WorkflowType (update_run_row seq u tm r) = run_WorkflowType r"
  "run_LastEventSeq (update_run_row seq u tm r) = seq"
  "run_UserID (update_run_row seq u tm r) = run_UserID r"
  "run_SessionID (update_run_row seq u tm r) = run_SessionID r"
  by (simp_all add: update_run_row_def Let_def set_opt_frames del: set_opt_simps)

lemma update_run_row_cols:
  "run_Status (update_run_row seq u tm r) = (case upd_Status u of None \<Rightarrow> run_Status r | Some x \<Rightarrow> x)"
  "run_Stage (update_run_row seq u tm r) = (case upd_Stage u of None \<Rightarrow> run_Stage r | Some x \<Rightarrow> x)"
  "run_AttachmentState (update_run_row seq u tm r) =
     (case upd_AttachmentState u of None \<Rightarrow> run_AttachmentState r | Some x \<Rightarrow> x)"
  "run_AttachedConnectionID (update_run_row seq u tm r) =
     (case upd_AttachedConnectionID u of None \<Rightarrow> run_AttachedConnectionID r | Some x \<Rightarrow> x)"
  "run_AttachmentGraceDeadline (update_run_row seq u tm r) =
     (case upd_AttachmentGraceDeadline u of None \<Rightarrow> run_AttachmentGraceDeadline r | Some x \<Rightarrow> Some x)"
  "run_TerminalAt (update_run_row seq u tm r) =
     (case upd_TerminalAt u of None \<Rightarrow> run_TerminalAt r | Some x \<Rightarrow> Some x)"
  by (simp_all add: update_run_row_def Let_def set_opt_frames set_opt_sets del: set_opt_simps
      cong: option.case_cong)

lemma update_attachment_row_cols [simp]:
  "att_RunID (update_attachment_row u tm a) = att_RunID a"
  "att_State (update_attachment_row u tm a) =
     (case upd_AttachmentState u of None \<Rightarrow> att_State a | Some x \<Rightarrow> x)"
  "att_ConnectionID (update_attachment_row u tm a) =
     (case upd_AttachedConnectionID u of None \<Rightarrow> att_ConnectionID a | Some x \<Rightarrow> x)"
  "att_GraceDeadline (update_attachment_row u tm a) =
     (case upd_AttachmentGraceDeadline u of None \<Rightarrow> att_GraceDeadline a | Some x \<Rightarrow> Some x)"
  by (simp_all add: update_attachment_row_def Let_def set_opt_def split: option.splits)

subsection \<open>What an append does\<close>

definition attaches :: "RunStateUpdate \<Rightarrow> bool" where
  "attaches u = (upd_AttachmentState u \<noteq> None \<or> upd_AttachedConnectionID u \<noteq> None
     \<or> upd_AttachmentGraceDeadline u \<noteq> None)"

lemma applyRunStateUpdate_Inr:
  assumes "applyRunStateUpdate E rid seq u tm d = (d', Inr x)"
  shows "has_run d rid" "(\<forall>st. upd_Status u = Some st \<longrightarrow> validRunStatuses st)"
    "(\<forall>st. upd_Stage u = Some st \<longrightarrow> validRunStages st)"
    "d' = d\<lparr>db_runs := map (\<lambda>r. if run_ID r = rid then update_run_row seq u tm r else r) (db_runs d),
        db_attachments := (if attaches u
          then map (\<lambda>a. if att_RunID a = rid then update_attachment_row u tm a else a) (db_attachments d)
          else db_attachments d)\<rparr>"
  using assms
  by (auto simp: applyRunStateUpdate_def tx_Inr attaches_def split: if_splits option.splits)

text \<open>The whole effect of a successful append, and what made it succeed.\<close>

lemma AppendRunEvent_Inr:
  assumes "AppendRunEvent E rid ev u d = (d', Inr n)"
  obtains r u' cps where "find_run d rid = Some r" "n = run_LastEventSeq r + 1"
    "(\<forall>st. upd_Status u = Some st \<longrightarrow> validRunStatuses st)"
    "(\<forall>st. upd_Stage u = Some st \<longrightarrow> validRunStages st)"
    "u' = u \<or> (\<exists>c. u' = u\<lparr>upd_LastCheckpointID := Some c\<rparr>)"
    "distinct (map cp_ID (db_checkpoints d)) \<longrightarrow> distinct (map cp_ID (db_checkpoints d @ cps))"
    "d' = d\<lparr>db_events := db_events d @ [stamp E rid n ev],
        db_checkpoints := db_checkpoints d @ cps,
        db_runs := map (\<lambda>r. if run_ID r = rid
          then update_run_row n u' (evt_CreatedAt (stamp E rid n ev)) r else r) (db_runs d),
        db_attachments := (if attaches u
          then map (\<lambda>a. if att_RunID a = rid
                 then update_attachment_row u (evt_CreatedAt (stamp E rid n ev)) a else a)
                 (db_attachments d)
          else db_attachments d)\<rparr>"
proof -
  from assms obtain r where r: "find_run d rid = Some r"
    by (auto simp: AppendRunEvent_def run_tx_success split: if_splits option.splits)
  let ?n = "run_LastEventSeq r + 1"
  let ?ev = "stamp E rid ?n ev"
  let ?d1 = "d\<lparr>db_events := db_events d @ [?ev]\<rparr>"
  from assms r obtain d2 u' where
    n: "n = ?n" and cp: "appendCheckpoint E rid ?n u ?d1 = (d2, Inr u')"
    and ap: "applyRunStateUpdate E rid ?n u' (evt_CreatedAt ?ev) d2 = (d', Inr ())"
    by (auto simp: AppendRunEvent_def tx_Inr Let_def insertRunEvent_def
        split: if_splits)
  from cp obtain cps where cps: "d2 = ?d1\<lparr>db_checkpoints := db_checkpoints d @ cps\<rparr>"
    "distinct (map cp_ID (db_checkpoints d)) \<longrightarrow> distinct (map cp_ID (db_checkpoints d @ cps))"
    "u' = u \<or> (\<exists>c. u' = u\<lparr>upd_LastCheckpointID := Some c\<rparr>)"
  proof (cases "upd_Checkpoint u")
    case None
    with cp have "d2 = ?d1" "u' = u" by (simp_all add: appendCheckpoint_def)
    then show ?thesis by (intro that [of "[]"]) simp_all
  next
    case (Some cp0)
    let ?cp = "normalizeCheckpointForAppend E rid ?n cp0"
    from cp Some have "d2 = ?d1\<lparr>db_checkpoints := db_checkpoints d @ [?cp]\<rparr>"
      "cp_ID ?cp \<notin> cp_ID ` set (db_checkpoints d)" "u' = u\<lparr>upd_LastCheckpointID := Some (cp_ID ?cp)\<rparr>"
      by (auto simp: appendCheckpoint_def Let_def tx_Inr insertRunCheckpoint_def split: if_splits)
    then show ?thesis by (intro that [of "[?cp]"]) auto
  qed
  from cps(3) have same: "upd_Status u' = upd_Status u" "upd_Stage u' = upd_Stage u"
    "attaches u' = attaches u" "update_attachment_row u' = update_attachment_row u"
    by (auto simp: attaches_def update_attachment_row_def fun_eq_iff)
  note a = applyRunStateUpdate_Inr [OF ap, unfolded same]
  show ?thesis
    by (rule that [OF r n _ _ cps(3,2)]) (use a cps(1) n in auto)
qed

lemma events_of_append:
  "events_of (d\<lparr>db_events := db_events d @ [e]\<rparr>) rid =
     events_of d rid @ (if evt_RunID e = rid then [e] else [])"
  by (simp add: events_of_def)

lemma events_of_cong: "db_events d = db_events d' \<Longrightarrow> events_of d rid = events_of d' rid"
  by (simp add: events_of_def)

lemma list_all2_map_both:
  assumes "list_all2 P xs ys" "\<And>x y. P x y \<Longrightarrow> P (f x) (g y)"
  shows "list_all2 P (map f xs) (map g ys)"
  using assms by (induction rule: list_all2_induct) auto

lemma upto_snoc: "1 \<le> n \<Longrightarrow> [1..n + 1] = [1..n] @ [n + 1]" for n :: int
  by (simp add: upto_rec2)

lemma AppendRunEvent_inv:
  assumes i: "run_db_inv d" and a: "AppendRunEvent E rid ev u d = (d', res)"
  shows "run_db_inv d'"
proof (cases res)
  case (Inl e)
  with a show ?thesis unfolding AppendRunEvent_def by (auto dest: run_tx_error simp: i)
next
  case (Inr n)
  from a [unfolded Inr] obtain r u' cps where
    r: "find_run d rid = Some r" "n = run_LastEventSeq r + 1" and
    v: "\<forall>st. upd_Status u = Some st \<longrightarrow> validRunStatuses st"
       "\<forall>st. upd_Stage u = Some st \<longrightarrow> validRunStages st" and
    u': "u' = u \<or> (\<exists>c. u' = u\<lparr>upd_LastCheckpointID := Some c\<rparr>)" and
    cps: "distinct (map cp_ID (db_checkpoints d)) \<longrightarrow> distinct (map cp_ID (db_checkpoints d @ cps))" and
    d': "d' = d\<lparr>db_events := db_events d @ [stamp E rid n ev],
        db_checkpoints := db_checkpoints d @ cps,
        db_runs := map (\<lambda>r. if run_ID r = rid
          then update_run_row n u' (evt_CreatedAt (stamp E rid n ev)) r else r) (db_runs d),
        db_attachments := (if attaches u
          then map (\<lambda>a. if att_RunID a = rid
                 then update_attachment_row u (evt_CreatedAt (stamp E rid n ev)) a else a)
                 (db_attachments d)
          else db_attachments d)\<rparr>"
    by (rule AppendRunEvent_Inr)
  let ?tm = "evt_CreatedAt (stamp E rid n ev)"
  let ?f = "\<lambda>r. if run_ID r = rid then update_run_row n u' ?tm r else r"
  note rr = find_run_Some [OF r(1)]
  have ids: "map run_ID (map ?f (db_runs d)) = map run_ID (db_runs d)"
    "map run_key (map ?f (db_runs d)) = map run_key (db_runs d)" by auto
  have uu: "upd_Status u' = upd_Status u" "upd_Stage u' = upd_Stage u"
    "upd_AttachmentState u' = upd_AttachmentState u"
    "upd_AttachedConnectionID u' = upd_AttachedConnectionID u"
    "upd_AttachmentGraceDeadline u' = upd_AttachmentGraceDeadline u" using u' by auto
  have has: "has_run d' x = has_run d x" for x
  proof -
    have "run_ID ` set (db_runs d') = set (map run_ID (map ?f (db_runs d)))" by (auto simp: d')
    then show ?thesis unfolding has_run_def ids(1) by simp
  qed
  have ev: "events_of d' x = events_of d x @ (if x = rid then [stamp E rid n ev] else [])" for x
    by (auto simp: events_of_def d' stamp_def)
  have rows: "run_row_ok (?f x) \<and> log_ok d' (?f x)" if x: "x \<in> set (db_runs d)" for x
  proof -
    from i x have ok: "run_row_ok x" "log_ok d x" by (simp_all add: run_db_inv_def)
    show ?thesis
    proof (cases "run_ID x = rid")
      case True
      with x r(1) i have "x = r" using find_run_eq [of d x] by (simp add: run_db_inv_def)
      with ok True v uu r(2) show ?thesis
        by (auto simp: run_row_ok_def log_ok_def ev update_run_row_cols upto_snoc stamp_def
            split: option.splits)
    next
      case False
      with ok show ?thesis by (simp add: log_ok_def ev)
    qed
  qed
  have att: "list_all2 att_mirrors (db_runs d') (db_attachments d')"
  proof (cases "attaches u")
    case True
    with i show ?thesis unfolding d'
      by (auto simp: run_db_inv_def att_mirrors_def uu update_run_row_cols split: option.splits
          intro!: list_all2_map_both [where P = att_mirrors])
  next
    case False
    then have "att_mirrors x y \<Longrightarrow> att_mirrors (?f x) y" for x y
      by (simp add: att_mirrors_def attaches_def uu update_run_row_cols)
    with i False show ?thesis unfolding d'
      using list_all2_map_both [of att_mirrors "db_runs d" "db_attachments d" ?f id]
      by (simp add: run_db_inv_def)
  qed
  have evs: "\<forall>e \<in> set (db_events d'). has_run d' (evt_RunID e)"
  proof -
    have "set (db_events d') = insert (stamp E rid n ev) (set (db_events d))" by (simp add: d')
    moreover have "has_run d rid" using rr by (auto simp: has_run_def)
    ultimately show ?thesis using i by (auto simp: has run_db_inv_def stamp_def)
  qed
  have R: "db_runs d' = map ?f (db_runs d)" "db_checkpoints d' = db_checkpoints d @ cps"
    "db_model_calls d' = db_model_calls d" "db_tool_results d' = db_tool_results d"
    "db_run_turns d' = db_run_turns d" by (simp_all add: d')
  have "\<forall>r \<in> set (db_runs d'). run_row_ok r \<and> log_ok d' r"
    unfolding R(1) set_map using rows by blast
  moreover have "distinct (map run_ID (db_runs d'))" "distinct (map run_key (db_runs d'))"
    unfolding R(1) ids using i by (simp_all add: run_db_inv_def)
  ultimately show ?thesis
    using i cps att evs unfolding run_db_inv_def R(2-5) by blast
qed

subsection \<open>Creating runs\<close>

text \<open>What the middle statements of a creation may touch: turns, links and history only.\<close>

definition touches_turns :: "(db \<Rightarrow> db \<times> (store_error + unit)) \<Rightarrow> bool" where
  "touches_turns extra = (\<forall>d d'. extra d = (d', Inr ()) \<longrightarrow>
     db_runs d' = db_runs d \<and> db_attachments d' = db_attachments d \<and> db_events d' = db_events d \<and>
     db_checkpoints d' = db_checkpoints d \<and> db_model_calls d' = db_model_calls d \<and>
     db_tool_results d' = db_tool_results d \<and>
     (distinct (map link_TurnID (db_run_turns d)) \<longrightarrow> distinct (map link_TurnID (db_run_turns d'))))"

lemma normalizeRunForCreate_ok:
  "normalizeRunForCreate E r0 = Inr r \<Longrightarrow>
     validRunStatuses (run_Status r) \<and> validRunStages (run_Stage r) \<and>
     validWorkflowTypes (run_WorkflowType r)"
  by (auto simp: normalizeRunForCreate_def Let_def split: if_splits)

lemma normalizeInitialEvent_id [simp]:
  "evt_RunID (normalizeInitialEvent r ev) = run_ID r"
  "evt_Seq (normalizeInitialEvent r ev) = 1"
  by (simp_all add: normalizeInitialEvent_def)

text \<open>The whole effect of a successful creation.\<close>

lemma create_run_tx_Inr:
  assumes "touches_turns extra" "create_run_tx E r initial cp extra d = (d', Inr r')"
  obtains c a where
    "r' = r\<lparr>run_LastEventSeq := 1, run_LastCheckpointID := cp_ID c\<rparr>"
    "\<not> has_run d (run_ID r)" "run_key r \<notin> run_key ` set (db_runs d)" "has_session d (run_SessionID r)"
    "cp_ID c \<notin> cp_ID ` set (db_checkpoints d)" "att_mirrors r a"
    "db_runs d' = db_runs d @ [r']"
    "db_attachments d' = db_attachments d @ [a]"
    "db_events d' = db_events d @ [normalizeInitialEvent r initial]"
    "db_checkpoints d' = db_checkpoints d @ [c]"
    "db_model_calls d' = db_model_calls d" "db_tool_results d' = db_tool_results d"
    "distinct (map link_TurnID (db_run_turns d)) \<longrightarrow> distinct (map link_TurnID (db_run_turns d'))"
proof -
  let ?ev = "normalizeInitialEvent r initial" and ?c = "normalizeCheckpointForCreate E r 1 cp"
  from assms(2) obtain d1 d2 d3 d4 d5 where
    s: "insertRun E r d = Inr d1" "insertAttachment E r d1 = Inr d2" "insertRunEvent E ?ev d2 = Inr d3"
       "insertRunCheckpoint E ?c d3 = Inr d4" "extra d4 = (d5, Inr ())"
       "updateRunSeq E r 1 (cp_ID ?c) d5 = Inr d'" and
    r': "r' = r\<lparr>run_LastEventSeq := 1, run_LastCheckpointID := cp_ID ?c\<rparr>"
    by (auto simp: create_run_tx_def Let_def tx_Inr)
  from s(1) have 1: "\<not> has_run d (run_ID r)" "run_key r \<notin> run_key ` set (db_runs d)"
    "has_session d (run_SessionID r)" "d1 = d\<lparr>db_runs := db_runs d @ [r]\<rparr>"
    by (auto simp: insertRun_def split: if_splits)
  from s(2) obtain a where 2: "d2 = d1\<lparr>db_attachments := db_attachments d1 @ [a]\<rparr>" "att_mirrors r a"
    by (auto simp: insertAttachment_def att_mirrors_def split: if_splits)
  from s(3) have 3: "d3 = d2\<lparr>db_events := db_events d2 @ [?ev]\<rparr>"
    by (auto simp: insertRunEvent_def split: if_splits)
  from s(4) have 4: "d4 = d3\<lparr>db_checkpoints := db_checkpoints d3 @ [?c]\<rparr>"
    "cp_ID ?c \<notin> cp_ID ` set (db_checkpoints d3)"
    by (auto simp: insertRunCheckpoint_def split: if_splits)
  from assms(1) s(5) have 5: "db_runs d5 = db_runs d4" "db_attachments d5 = db_attachments d4"
    "db_events d5 = db_events d4" "db_checkpoints d5 = db_checkpoints d4"
    "db_model_calls d5 = db_model_calls d4" "db_tool_results d5 = db_tool_results d4"
    "distinct (map link_TurnID (db_run_turns d4)) \<longrightarrow> distinct (map link_TurnID (db_run_turns d5))"
    unfolding touches_turns_def by blast+
  have "\<forall>x \<in> set (db_runs d). run_ID x \<noteq> run_ID r" using 1(1) by (simp add: not_has_run)
  then have "map (\<lambda>x. if run_ID x = run_ID r
      then x\<lparr>run_LastEventSeq := 1, run_LastCheckpointID := cp_ID ?c, run_UpdatedAt := run_UpdatedAt r\<rparr>
      else x) (db_runs d @ [r]) = db_runs d @ [r']"
    by (simp add: r' map_idI)
  with s(6) have 6: "d' = d5\<lparr>db_runs := db_runs d @ [r']\<rparr>"
    by (simp add: updateRunSeq_def 5 4 3 2 1)
  show ?thesis
    by (rule that [of ?c a]) (use r' 1 2 3 4 5 6 in simp_all)
qed

lemma create_run_tx_inv:
  assumes i: "run_db_inv d" and t: "touches_turns extra"
    and v: "validRunStatuses (run_Status r) \<and> validRunStages (run_Stage r) \<and>
      validWorkflowTypes (run_WorkflowType r)"
    and c: "create_run_tx E r initial cp extra d = (d', res)"
  shows "run_db_inv d'"
proof (cases res)
  case (Inl e)
  with c i show ?thesis by (auto simp: create_run_tx_def Let_def dest: run_tx_error)
next
  case (Inr r')
  from create_run_tx_Inr [OF t c [unfolded Inr]] obtain c a where
    r': "r' = r\<lparr>run_LastEventSeq := 1, run_LastCheckpointID := cp_ID c\<rparr>" and
    n: "\<not> has_run d (run_ID r)" "run_key r \<notin> run_key ` set (db_runs d)"
      "cp_ID c \<notin> cp_ID ` set (db_checkpoints d)" "att_mirrors r a" and
    d': "db_runs d' = db_runs d @ [r']" "db_attachments d' = db_attachments d @ [a]"
      "db_events d' = db_events d @ [normalizeInitialEvent r initial]"
      "db_checkpoints d' = db_checkpoints d @ [c]"
      "db_model_calls d' = db_model_calls d" "db_tool_results d' = db_tool_results d"
      "distinct (map link_TurnID (db_run_turns d)) \<longrightarrow> distinct (map link_TurnID (db_run_turns d'))"
    by metis
  have k: "run_ID r' = run_ID r" "run_key r' = run_key r" "att_mirrors r' a"
    using n(4) by (simp_all add: r' run_key_def att_mirrors_def)
  have fresh: "\<forall>e \<in> set (db_events d). evt_RunID e \<noteq> run_ID r"
    using i n(1) by (auto simp: run_db_inv_def)
  then have "events_of d (run_ID r) = []" by (auto simp: events_of_def filter_empty_conv)
  then have ev: "events_of d' x = (if x = run_ID r then [normalizeInitialEvent r initial]
      else events_of d x)" for x
    by (auto simp: events_of_def d')
  have "run_row_ok r' \<and> log_ok d' r'"
    using v by (simp add: run_row_ok_def log_ok_def ev r')
  moreover have "run_row_ok x \<and> log_ok d' x" if "x \<in> set (db_runs d)" for x
    using that i n(1) by (auto simp: run_db_inv_def log_ok_def ev not_has_run)
  moreover have "has_run d' (evt_RunID e)" if "e \<in> set (db_events d')" for e
    using that i k by (auto simp: run_db_inv_def has_run_def d')
  moreover have "list_all2 att_mirrors (db_runs d') (db_attachments d')"
    unfolding d'(1,2) using i k(3) by (intro list_all2_appendI) (simp_all add: run_db_inv_def)
  moreover have "distinct (map run_ID (db_runs d'))" "distinct (map run_key (db_runs d'))"
    "distinct (map cp_ID (db_checkpoints d'))"
    using i n k by (simp_all add: run_db_inv_def d' has_run_def)
  moreover have "\<forall>x \<in> set (db_runs d'). x = r' \<or> x \<in> set (db_runs d)" by (simp add: d')
  ultimately show ?thesis
    using i d'(5-7) unfolding run_db_inv_def by metis
qed

lemma touches_turns_none [simp]: "touches_turns no_statement"
  by (simp add: touches_turns_def no_statement_def)

lemma touches_turns_foreground:
  "touches_turns (foreground_statements E rid t role seq history)"
  by (auto simp: touches_turns_def foreground_statements_def tx_Inr insertTurn_def insertRunTurn_def insertHistory_def
      split: if_splits option.splits)

lemma CreateRun_inv: "run_db_inv d \<Longrightarrow> CreateRun E r0 ev cp d = (d', res) \<Longrightarrow> run_db_inv d'"
  by (auto simp: CreateRun_def split: sum.splits
      dest: create_run_tx_inv [OF _ touches_turns_none normalizeRunForCreate_ok])

lemma CreateRunWithTurn_inv:
  "run_db_inv d \<Longrightarrow> CreateRunWithTurn E r0 ev cp t role n h d = (d', res) \<Longrightarrow> run_db_inv d'"
  by (auto simp: CreateRunWithTurn_def split: sum.splits option.splits
      dest: create_run_tx_inv [OF _ touches_turns_foreground normalizeRunForCreate_ok])

subsection \<open>The other writers\<close>

lemma run_db_inv_cong:
  assumes "run_db_inv d" "db_runs d' = db_runs d" "db_attachments d' = db_attachments d"
    "db_events d' = db_events d" "distinct (map cp_ID (db_checkpoints d'))"
    "distinct (map mc_ModelCallID (db_model_calls d'))"
    "distinct (map tr_ToolCallID (db_tool_results d'))"
    "distinct (map link_TurnID (db_run_turns d'))"
  shows "run_db_inv d'"
  using assms by (simp add: run_db_inv_def has_run_def log_ok_def events_of_def)

lemma CreateRunCheckpoint_inv:
  assumes i: "run_db_inv d" and c: "CreateRunCheckpoint E cp d = (d', res)"
  shows "run_db_inv d'"
proof (cases "d' = d")
  case False
  with c obtain x where x: "d' = d\<lparr>db_checkpoints := db_checkpoints d @ [x]\<rparr>"
    "cp_ID x \<notin> cp_ID ` set (db_checkpoints d)"
    by (auto simp: CreateRunCheckpoint_def autocommit_def insertRunCheckpoint_def
        split: if_splits sum.splits)
  show ?thesis
    by (rule run_db_inv_cong [OF i]) (use x run_db_inv_distinct [OF i] in simp_all)
qed (simp add: i)

lemma LinkTurnToRun_inv:
  assumes i: "run_db_inv d" and c: "LinkTurnToRun E rid tid role n d = (d', res)"
  shows "run_db_inv d'"
proof (cases "d' = d")
  case False
  with c obtain x where x: "d' = d\<lparr>db_run_turns := db_run_turns d @ [x]\<rparr>"
    "link_TurnID x \<notin> link_TurnID ` set (db_run_turns d)"
    by (auto simp: LinkTurnToRun_def autocommit_def insertRunTurn_def split: if_splits sum.splits)
  show ?thesis
    by (rule run_db_inv_cong [OF i]) (use x run_db_inv_distinct [OF i] in simp_all)
qed (simp add: i)

text \<open>An update of columns the invariant does not look at.\<close>

lemma run_db_inv_map:
  assumes i: "run_db_inv d"
    and f: "\<And>r. run_ID (f r) = run_ID r" "\<And>r. run_key (f r) = run_key r"
      "\<And>r. run_row_ok (f r) = run_row_ok r" "\<And>r. run_LastEventSeq (f r) = run_LastEventSeq r"
      "\<And>r a. att_mirrors (f r) a = att_mirrors r a"
  shows "run_db_inv (d\<lparr>db_runs := map f (db_runs d)\<rparr>)"
proof -
  have "run_ID \<circ> f = run_ID" "run_key \<circ> f = run_key" by (simp_all add: fun_eq_iff f)
  moreover have "has_run (d\<lparr>db_runs := map f (db_runs d)\<rparr>) x = has_run d x" for x
    by (simp add: has_run_def image_image f)
  moreover have "list_all2 att_mirrors (map f (db_runs d)) (db_attachments d)"
    using i list_all2_map_both [of att_mirrors "db_runs d" "db_attachments d" f id]
    by (simp add: run_db_inv_def f)
  ultimately show ?thesis
    using i by (simp add: run_db_inv_def log_ok_def events_of_def f)
qed

text \<open>A model call that was recorded before changes nothing; a new one adds its numbers once.\<close>

lemma normalizeModelCall_cols [simp]:
  "mc_ModelCallID (normalizeModelCall E c) = mc_ModelCallID c"
  "mc_RunID (normalizeModelCall E c) = mc_RunID c"
  "add_model_call (normalizeModelCall E c) = add_model_call c"
  by (simp_all add: normalizeModelCall_def add_model_call_def fun_eq_iff)

lemma normalizeToolResult_cols [simp]:
  "tr_ToolCallID (normalizeToolResult E t) = tr_ToolCallID t"
  "tr_RunID (normalizeToolResult E t) = tr_RunID t"
  "tr_EstimatedCost (normalizeToolResult E t) = tr_EstimatedCost t"
  by (simp_all add: normalizeToolResult_def)

lemma RecordRunModelCall_Inr:
  assumes "RecordRunModelCall E c d = (d', Inr b)"
  shows "b = (mc_ModelCallID c \<notin> mc_ModelCallID ` set (db_model_calls d))"
    "\<not> b \<Longrightarrow> d' = d"
    "b \<Longrightarrow> has_run d (mc_RunID c) \<and>
       d' = d\<lparr>db_model_calls := db_model_calls d @ [normalizeModelCall E c],
              db_runs := map (\<lambda>r. if run_ID r = mc_RunID c then add_model_call c (env_now E) r else r)
                (db_runs d)\<rparr>"
  using assms
  by (auto simp: RecordRunModelCall_def Let_def tx_Inr split: if_splits)

lemma RecordRunModelCall_inv:
  assumes "run_db_inv d" "RecordRunModelCall E c d = (d', res)"
  shows "run_db_inv d'"
proof (cases res)
  case (Inl e)
  with assms show ?thesis by (auto simp: RecordRunModelCall_def Let_def dest: run_tx_error)
next
  case (Inr b)
  note e = RecordRunModelCall_Inr [OF assms(2) [unfolded Inr]]
  show ?thesis
  proof (cases b)
    case False
    with e assms(1) show ?thesis by simp
  next
    case True
    note c' = e(3) [OF True]
    have "run_db_inv (d\<lparr>db_runs :=
        map (\<lambda>r. if run_ID r = mc_RunID c then add_model_call c (env_now E) r else r) (db_runs d)\<rparr>)"
      by (rule run_db_inv_map [OF assms(1)])
        (simp_all add: add_model_call_def run_key_def run_row_ok_def att_mirrors_def)
    then show ?thesis
      by (rule run_db_inv_cong) (use c' True e(1) assms(1) in \<open>auto simp: run_db_inv_def\<close>)
  qed
qed

lemma RecordRunToolResult_Inr:
  assumes "RecordRunToolResult E t d = (d', Inr b)"
  shows "b = (tr_ToolCallID t \<notin> tr_ToolCallID ` set (db_tool_results d))"
    "\<not> b \<Longrightarrow> d' = d"
    "b \<Longrightarrow> has_run d (tr_RunID t) \<and>
       d' = d\<lparr>db_tool_results := db_tool_results d @ [normalizeToolResult E t],
              db_runs := (if tr_EstimatedCost t = 0 then db_runs d else
                map (\<lambda>r. if run_ID r = tr_RunID t
                         then r\<lparr>run_TotalCost := run_TotalCost r + tr_EstimatedCost t,
                                run_UpdatedAt := env_now E\<rparr> else r) (db_runs d))\<rparr>"
  using assms
  by (auto simp: RecordRunToolResult_def Let_def tx_Inr split: if_splits)

lemma RecordRunToolResult_inv:
  assumes "run_db_inv d" "RecordRunToolResult E t d = (d', res)"
  shows "run_db_inv d'"
proof (cases res)
  case (Inl e)
  with assms show ?thesis by (auto simp: RecordRunToolResult_def Let_def dest: run_tx_error)
next
  case (Inr b)
  note e = RecordRunToolResult_Inr [OF assms(2) [unfolded Inr]]
  show ?thesis
  proof (cases b)
    case False
    with e assms(1) show ?thesis by simp
  next
    case True
    let ?f = "\<lambda>r. if run_ID r = tr_RunID t \<and> tr_EstimatedCost t \<noteq> 0
        then r\<lparr>run_TotalCost := run_TotalCost r + tr_EstimatedCost t, run_UpdatedAt := env_now E\<rparr> else r"
    from e(3) [OF True] have t': "d' = d\<lparr>db_tool_results :=
        db_tool_results d @ [normalizeToolResult E t], db_runs := map ?f (db_runs d)\<rparr>"
      by (cases "tr_EstimatedCost t = 0") simp_all
    have "run_db_inv (d\<lparr>db_runs := map ?f (db_runs d)\<rparr>)"
      by (rule run_db_inv_map [OF assms(1)])
        (simp_all add: run_key_def run_row_ok_def att_mirrors_def)
    then show ?thesis
      by (rule run_db_inv_cong) (use t' True e(1) assms(1) in \<open>auto simp: run_db_inv_def\<close>)
  qed
qed

end
