(* ===== verification/History.thy ===== *)
theory History
  imports Session_Store Runtime_Types
begin

text \<open>
  The command history service (\<open>internal/runtime/history.go\<close>): \<open>history.append\<close>, \<open>history.list\<close> with
  its opaque cursor \<open>TIMESTAMP|ID\<close>, and the cursor's codec.  \<open>time.Parse\<close> is the parameter
  \<open>parse_time\<close>.
\<close>

record HistoryAppend =
  ha_Content :: string
  ha_SessionID :: string

record HistoryList =
  hl_Scope :: string
  hl_Limit :: int
  hl_Before :: string

record HistoryEntry =
  he_Content :: string
  he_Timestamp :: string
  he_SessionID :: string

record HistoryListResponse =
  hr_Entries :: "HistoryEntry list"
  hr_HasMore :: bool
  hr_Cursor :: string

definition handleHistoryAppend ::
  "store_env \<Rightarrow> Conn \<Rightarrow> string + HistoryAppend \<Rightarrow> db \<Rightarrow> db \<times> (TransportError + bool)" where
  "handleHistoryAppend E conn params d =
     (case params of
        Inl e \<Rightarrow> (d, Inl (transportInvalidParams (''decode history.append: '' @ e)))
      | Inr req \<Rightarrow>
          (if ha_Content req = [] then (d, Inl (transportInvalidParams ''content is required''))
           else
             (let entry = \<lparr>hist_ID = 0, hist_UserID = conn_UserID conn, hist_Project = conn_Root conn,
                    hist_SessionID = (if ha_SessionID req \<noteq> [] then Some (ha_SessionID req) else None),
                    hist_Content = ha_Content req, hist_CreatedAt = env_now E\<rparr>
              in (case AppendCommandHistory E entry d of
                    (d', Inl e) \<Rightarrow> (d', Inl (transportInternal ''append history'' e))
                  | (d', Inr _) \<Rightarrow> (d', Inr True)))))"

definition encodeBeforeCursor :: "store_env \<Rightarrow> gotime \<Rightarrow> int \<Rightarrow> string" where
  "encodeBeforeCursor E ts i = env_time_text E ts @ ''|'' @ itoa i"

text \<open>\<open>strings.SplitN(cursor, "|", 2)\<close> has two parts when a bar occurs, and splits at the first.\<close>

definition decodeBeforeCursor ::
  "(string \<Rightarrow> gotime option) \<Rightarrow> string \<Rightarrow> (gotime \<times> int) option" where
  "decodeBeforeCursor parse_time cursor =
     (let a = takeWhile (\<lambda>c. c \<noteq> CHR ''|'') cursor; b = dropWhile (\<lambda>c. c \<noteq> CHR ''|'') cursor in
      if b = [] then None
      else (case parse_time a of
              None \<Rightarrow> None
            | Some ts \<Rightarrow> (case parse_int (tl b) of None \<Rightarrow> None | Some i \<Rightarrow> Some (ts, i))))"

text \<open>The scope of a request, as project and session of the filter.\<close>

definition history_scope :: "Conn \<Rightarrow> string \<Rightarrow> TransportError + string \<times> string" where
  "history_scope conn scope =
     (if scope = ''user'' then Inr ([], [])
      else if scope = ''project'' then Inr (conn_Root conn, [])
      else if scope = ''session'' then
        (if conn_SessionID conn = []
         then Inl (transportInvalidParams
                ''scope=session requires an active session bound to the connection'')
         else Inr ([], conn_SessionID conn))
      else if scope = [] then Inr (conn_Root conn, [])
      else Inl (transportInvalidParams (''unknown scope '' @ go_quote scope)))"

definition history_entry :: "store_env \<Rightarrow> CommandHistoryEntry \<Rightarrow> HistoryEntry" where
  "history_entry E h =
     \<lparr>he_Content = hist_Content h, he_Timestamp = env_time_text E (hist_CreatedAt h),
      he_SessionID = (case hist_SessionID h of None \<Rightarrow> [] | Some s \<Rightarrow> s)\<rparr>"

definition page_limit :: "HistoryList \<Rightarrow> int" where
  "page_limit req = (if hl_Limit req \<le> 0 then 50 else hl_Limit req)"

definition history_filter ::
  "(string \<Rightarrow> gotime option) \<Rightarrow> Conn \<Rightarrow> HistoryList \<Rightarrow> TransportError + CommandHistoryFilter" where
  "history_filter parse_time conn req =
     bindR (history_scope conn (hl_Scope req)) (\<lambda>(project, session).
       let f = \<lparr>hf_UserID = conn_UserID conn, hf_Project = project, hf_SessionID = session,
                hf_Limit = page_limit req + 1, hf_Before = None, hf_BeforeID = None\<rparr>
       in if hl_Before req = [] then Inr f
          else (case decodeBeforeCursor parse_time (hl_Before req) of
                  None \<Rightarrow> Inl (transportInvalidParams ''invalid before cursor'')
                | Some (ts, i) \<Rightarrow> Inr (f\<lparr>hf_Before := Some ts, hf_BeforeID := Some i\<rparr>)))"

text \<open>The page of a result that was read with one entry more than asked for.\<close>

definition history_page :: "store_env \<Rightarrow> int \<Rightarrow> CommandHistoryEntry list \<Rightarrow> HistoryListResponse" where
  "history_page E limit entries0 =
     (let hasMore = int (length entries0) > limit;
          entries = (if hasMore then take (nat limit) entries0 else entries0)
      in \<lparr>hr_Entries = map (history_entry E) entries, hr_HasMore = hasMore,
          hr_Cursor = (if hasMore \<and> entries \<noteq> []
             then encodeBeforeCursor E (hist_CreatedAt (last entries)) (hist_ID (last entries))
             else [])\<rparr>)"

definition handleHistoryList ::
  "store_env \<Rightarrow> (string \<Rightarrow> gotime option) \<Rightarrow> Conn \<Rightarrow> string + HistoryList \<Rightarrow> db
     \<Rightarrow> TransportError + HistoryListResponse" where
  "handleHistoryList E parse_time conn params d =
     (case params of
        Inl e \<Rightarrow> Inl (transportInvalidParams (''decode history.list: '' @ e))
      | Inr req \<Rightarrow>
          bindR (history_filter parse_time conn req) (\<lambda>f.
            case ListCommandHistory E f d of
              Inl e \<Rightarrow> Inl (transportInternal ''list history'' e)
            | Inr entries \<Rightarrow> Inr (history_page E (page_limit req) entries)))"

end
