(* ===== verification/Session_Props.thy ===== *)
theory Session_Props
  imports History
begin

text \<open>
  Sessions, turns and history: the lock of a session is a lease, the cursor of the command history
  reads everything in scope, and the tables keep their keys and references.
\<close>

subsection \<open>The session lock as a lease\<close>

definition lock_acquire ::
  "store_env \<Rightarrow> string \<Rightarrow> string \<Rightarrow> gotime \<Rightarrow> db \<Rightarrow> db \<times> bool" where
  "lock_acquire E sid x t d =
     (case AcquireSessionLock E sid x t d of (d', r) \<Rightarrow>
        (d', case r of Inl e \<Rightarrow> False | Inr (b, _) \<Rightarrow> b))"

definition lock_release :: "store_env \<Rightarrow> string \<Rightarrow> string \<Rightarrow> db \<Rightarrow> db" where
  "lock_release E sid x d = fst (ReleaseSessionLock E sid x d)"

definition lock_holder :: "db \<Rightarrow> string \<Rightarrow> (string \<times> gotime) option" where
  "lock_holder d sid =
     (case find_session d sid of
        None \<Rightarrow> None
      | Some s \<Rightarrow> (case (sess_LockOwner s, sess_LockExpiresAt s) of
                    (Some x, Some t) \<Rightarrow> Some (x, t) | _ \<Rightarrow> None))"

definition lock_expired :: "store_env \<Rightarrow> gotime \<Rightarrow> bool" where
  "lock_expired E t = (env_time_text E t < env_time_text E (env_now E))"

lemma find_map_session:
  assumes "\<And>s. sess_ID (f s) = sess_ID s"
  shows "find_session (map_session sid f d) x =
    (if x = sid then map_option f (find_session d x) else find_session d x)"
proof -
  have "find (\<lambda>s. sess_ID s = x) (map (\<lambda>s. if sess_ID s = sid then f s else s) xs) =
      (if x = sid then map_option f (find (\<lambda>s. sess_ID s = x) xs)
       else find (\<lambda>s. sess_ID s = x) xs)" for xs
    using assms by (induction xs) auto
  then show ?thesis by (simp add: find_session_def map_session_def)
qed

lemma unlock_ID [simp]: "sess_ID (unlock E s) = sess_ID s"
  by (simp add: unlock_def)

interpretation session_lock: lease lock_acquire lock_release lock_holder lock_expired
proof
  show "lock_acquire E k y t' s = (s, False)"
    if "lock_holder s k = Some (x, t)" "\<not> lock_expired E t" "y \<noteq> x" for s k x t E y t'
    using that
    by (auto simp: lock_acquire_def AcquireSessionLock_def lock_holder_def lock_available_def
        lock_expired_def split: option.splits)
  show "lock_holder s' k = Some (x, t)" if "lock_acquire E k x t s = (s', True)" for E k x t s s'
    using that
    by (auto simp: lock_acquire_def AcquireSessionLock_def lock_holder_def find_map_session
        split: option.splits if_splits)
  show "lock_holder (fst (lock_acquire E k x t s)) k' = lock_holder s k'"
    if "k' \<noteq> k" for k' k E x t s
    using that
    by (auto simp: lock_acquire_def AcquireSessionLock_def lock_holder_def find_map_session
        split: option.splits if_splits)
  show "lock_holder (lock_release E k y s) k = Some (x, t)"
    if "lock_holder s k = Some (x, t)" "y \<noteq> x" for s k x t y E
    using that
    by (auto simp: lock_release_def ReleaseSessionLock_def lock_holder_def find_map_session
        split: option.splits)
  show "lock_holder (lock_release E k x s) k' = lock_holder s k'" if "k' \<noteq> k" for k' k E x s
    using that
    by (auto simp: lock_release_def ReleaseSessionLock_def lock_holder_def find_map_session
        split: option.splits)
qed

subsection \<open>The history cursor\<close>

definition time_codec :: "store_env \<Rightarrow> (string \<Rightarrow> gotime option) \<Rightarrow> bool" where
  "time_codec E parse_time =
     (\<forall>t. parse_time (env_time_text E t) = Some t \<and> CHR ''|'' \<notin> set (env_time_text E t))"

lemma takeWhile_bar: "c \<notin> set xs \<Longrightarrow> takeWhile (\<lambda>x. x \<noteq> c) (xs @ c # ys) = xs \<and>
    dropWhile (\<lambda>x. x \<noteq> c) (xs @ c # ys) = c # ys"
  by (induction xs) auto

lemma decode_encode_cursor:
  assumes "time_codec E parse_time" "- (2 ^ 63) \<le> i" "i < 2 ^ 63"
  shows "decodeBeforeCursor parse_time (encodeBeforeCursor E t i) = Some (t, i)"
proof -
  from assms(1) have "CHR ''|'' \<notin> set (env_time_text E t)" "parse_time (env_time_text E t) = Some t"
    by (simp_all add: time_codec_def)
  with takeWhile_bar [of "CHR ''|''" "env_time_text E t" "itoa i"] parse_int_itoa [OF assms(2,3)]
  show ?thesis
    unfolding decodeBeforeCursor_def encodeBeforeCursor_def by (simp add: Let_def)
qed

lemma encodeBeforeCursor_nonempty [simp]: "encodeBeforeCursor E t i \<noteq> []"
  by (simp add: encodeBeforeCursor_def)

text \<open>Identifiers of the history are the positions of its rows.\<close>

definition history_ids :: "db \<Rightarrow> bool" where
  "history_ids d = (map hist_ID (db_history d) = [1..int (length (db_history d))])"

text \<open>A client that follows the cursor while the server says that there is more.\<close>

fun read_history ::
  "store_env \<Rightarrow> (string \<Rightarrow> gotime option) \<Rightarrow> Conn \<Rightarrow> string \<Rightarrow> int \<Rightarrow> db \<Rightarrow> nat \<Rightarrow> string
     \<Rightarrow> HistoryEntry list" where
  "read_history E pt conn scope n d 0 cursor = []"
| "read_history E pt conn scope n d (Suc fuel) cursor =
     (case handleHistoryList E pt conn
             (Inr \<lparr>hl_Scope = scope, hl_Limit = n, hl_Before = cursor\<rparr>) d of
        Inl e \<Rightarrow> []
      | Inr r \<Rightarrow> hr_Entries r @
          (if hr_HasMore r then read_history E pt conn scope n d fuel (hr_Cursor r) else []))"

text \<open>The specification: everything in scope, newest first.\<close>

definition scope_filter :: "Conn \<Rightarrow> string \<times> string \<Rightarrow> CommandHistoryFilter" where
  "scope_filter conn ps =
     \<lparr>hf_UserID = conn_UserID conn, hf_Project = fst ps, hf_SessionID = snd ps, hf_Limit = 0,
      hf_Before = None, hf_BeforeID = None\<rparr>"

definition history_in_scope ::
  "store_env \<Rightarrow> Conn \<Rightarrow> string \<times> string \<Rightarrow> db \<Rightarrow> CommandHistoryEntry list" where
  "history_in_scope E conn ps d =
     sort_desc (hist_key E) (filter (in_scope (scope_filter conn ps)) (db_history d))"

lemma sort_desc_sorted: "sorted_wrt (\<lambda>x y. f y \<le> f x) (sort_desc f xs)"
  unfolding sort_desc_def sorted_wrt_rev
  by (metis sorted_map sorted_sort_key)

lemma length_sort_desc: "length (sort_desc f xs) = length xs"
  by (simp add: sort_desc_def)

lemma filter_sort_desc: "filter P (sort_desc f xs) = sort_desc f (filter P xs)"
  by (simp add: sort_desc_def filter_sort rev_filter [symmetric])

lemma history_in_scope_sorted:
  assumes "history_ids d"
  shows "sorted_wrt (\<lambda>x y. hist_key E y < hist_key E x) (history_in_scope E conn ps d)"
proof -
  let ?xs = "history_in_scope E conn ps d"
  have "distinct (map hist_ID (db_history d))"
    unfolding assms [unfolded history_ids_def] by simp
  then have "distinct (map hist_ID (filter (in_scope (scope_filter conn ps)) (db_history d)))"
    by (rule distinct_map_filter)
  then have "distinct (map hist_ID ?xs)"
    by (simp add: history_in_scope_def sort_desc_def distinct_map inj_on_def)
  then have d: "sorted_wrt (\<lambda>x y. hist_ID x \<noteq> hist_ID y) ?xs"
    by (simp add: distinct_conv_nth sorted_wrt_iff_nth_less)
  have "sorted_wrt (\<lambda>x y. hist_key E y \<le> hist_key E x) ?xs"
    by (simp add: history_in_scope_def sort_desc_sorted)
  moreover have "hist_key E y < hist_key E x"
    if "hist_ID x \<noteq> hist_ID y" "hist_key E y \<le> hist_key E x" for x y
    using that unfolding hist_key_def by (metis order.not_eq_order_implies_strict prod.inject)
  ultimately show ?thesis
    using d unfolding sorted_wrt_iff_nth_less by blast
qed

text \<open>One request with the cursor at an entry, or with none.\<close>

definition cursor_text :: "store_env \<Rightarrow> CommandHistoryEntry option \<Rightarrow> string" where
  "cursor_text E c = (case c of None \<Rightarrow> [] | Some h \<Rightarrow> encodeBeforeCursor E (hist_CreatedAt h) (hist_ID h))"

definition rest :: "store_env \<Rightarrow> Conn \<Rightarrow> string \<times> string \<Rightarrow> db \<Rightarrow> (string \<times> int) option
    \<Rightarrow> CommandHistoryEntry list" where
  "rest E conn ps d k = filter (below (hist_key E) k) (history_in_scope E conn ps d)"

lemma history_ids_bound:
  assumes "history_ids d" "length (db_history d) < 2 ^ 62" "h \<in> set (db_history d)"
  shows "- (2 ^ 63) \<le> hist_ID h \<and> hist_ID h < 2 ^ 63"
proof -
  from assms(3) have "hist_ID h \<in> set (map hist_ID (db_history d))" by simp
  then have "hist_ID h \<in> set [1..int (length (db_history d))]"
    unfolding assms(1) [unfolded history_ids_def] .
  with assms(2) show ?thesis by simp
qed

lemma list_request:
  fixes d :: db
  assumes sc: "history_scope conn scope = Inr ps" and pt: "time_codec E pt"
    and nf: "\<not> env_fault E S_ListHistory" and n: "0 < n" "n < 500"
    and c: "\<And>h. c = Some h \<Longrightarrow> - (2 ^ 63) \<le> hist_ID h \<and> hist_ID h < 2 ^ 63"
  defines "xs \<equiv> rest E conn ps d (map_option (hist_key E) c)"
  shows "handleHistoryList E pt conn
      (Inr \<lparr>hl_Scope = scope, hl_Limit = n, hl_Before = cursor_text E c\<rparr>) d =
    Inr (history_page E n (take (nat n + 1) xs))"
proof -
  obtain p s where ps: "ps = (p, s)" by (cases ps)
  let ?f = "\<lparr>hf_UserID = conn_UserID conn, hf_Project = p, hf_SessionID = s, hf_Limit = n + 1,
    hf_Before = map_option hist_CreatedAt c, hf_BeforeID = map_option hist_ID c\<rparr>"
  have f: "history_filter pt conn \<lparr>hl_Scope = scope, hl_Limit = n, hl_Before = cursor_text E c\<rparr> = Inr ?f"
  proof (cases c)
    case None
    then show ?thesis using sc n
      by (simp add: history_filter_def ps page_limit_def cursor_text_def)
  next
    case (Some h)
    with c [of h] have "decodeBeforeCursor pt (cursor_text E c) = Some (hist_CreatedAt h, hist_ID h)"
      by (simp add: cursor_text_def decode_encode_cursor [OF pt])
    then show ?thesis using sc n Some
      by (simp add: history_filter_def ps page_limit_def cursor_text_def)
  qed
  have "in_scope ?f h = in_scope (scope_filter conn ps) h" for h
    by (simp add: in_scope_def scope_filter_def ps)
  moreover have "before_cursor E ?f h = below (hist_key E) (map_option (hist_key E) c) h" for h
    by (auto simp: before_cursor_def below_def hist_key_def split: option.splits)
  ultimately have "sort_desc (hist_key E) (filter (\<lambda>h. in_scope ?f h \<and> before_cursor E ?f h)
      (db_history d)) = xs"
    unfolding xs_def rest_def history_in_scope_def filter_sort_desc by (simp add: conj_commute)
  moreover have "nat (history_limit (n + 1)) = nat n + 1"
    using n by (simp add: history_limit_def MaxCommandHistoryPerListCall_def)
  ultimately have "ListCommandHistory E ?f d = Inr (take (nat n + 1) xs)"
    using nf by (simp add: ListCommandHistory_def)
  with f show ?thesis using n by (simp add: handleHistoryList_def page_limit_def)
qed

lemma history_page_take:
  assumes "0 < n"
  shows "hr_Entries (history_page E n (take (nat n + 1) xs)) = map (history_entry E) (take (nat n) xs)"
    "hr_HasMore (history_page E n (take (nat n + 1) xs)) = (nat n < length xs)"
    "nat n < length xs \<Longrightarrow>
      hr_Cursor (history_page E n (take (nat n + 1) xs)) = cursor_text E (Some (last (take (nat n) xs)))"
  using assms by (auto simp: history_page_def Let_def cursor_text_def min_def)

lemma read_history_read_back:
  fixes d :: db
  assumes sc: "history_scope conn scope = Inr ps" and pt: "time_codec E pt"
    and nf: "\<not> env_fault E S_ListHistory" and n: "0 < n" "n < 500"
    and ids: "history_ids d" "length (db_history d) < 2 ^ 62"
    and c: "\<And>h. c = Some h \<Longrightarrow> h \<in> set (db_history d)"
  shows "read_history E pt conn scope n d fuel (cursor_text E c) =
    map (history_entry E) (read_back (\<lambda>k. take (nat n) (rest E conn ps d k))
      (\<lambda>k. nat n < length (rest E conn ps d k)) (hist_key E) fuel (map_option (hist_key E) c))"
  using c
proof (induction fuel arbitrary: c)
  case 0
  then show ?case by simp
next
  case (Suc fuel)
  let ?xs = "rest E conn ps d (map_option (hist_key E) c)"
  have req: "handleHistoryList E pt conn
      (Inr \<lparr>hl_Scope = scope, hl_Limit = n, hl_Before = cursor_text E c\<rparr>) d =
    Inr (history_page E n (take (nat n + 1) ?xs))"
    by (rule list_request [OF sc pt nf n]) (use Suc.prems history_ids_bound [OF ids] in blast)
  show ?case
  proof (cases "nat n < length ?xs")
    case False
    then show ?thesis
      using history_page_take [OF n(1), where E = E and xs = ?xs] by (simp add: req)
  next
    case True
    let ?h = "last (take (nat n) ?xs)"
    have "take (nat n) ?xs \<noteq> []" using True n(1) by auto
    then have "?h \<in> set (take (nat n) ?xs)" by (rule last_in_set)
    then have "?h \<in> set ?xs" by (rule in_set_takeD)
    then have "?h \<in> set (db_history d)" by (simp add: rest_def history_in_scope_def)
    then have "read_history E pt conn scope n d fuel (cursor_text E (Some ?h)) =
      map (history_entry E) (read_back (\<lambda>k. take (nat n) (rest E conn ps d k))
        (\<lambda>k. nat n < length (rest E conn ps d k)) (hist_key E) fuel (Some (hist_key E ?h)))"
      using Suc.IH [of "Some ?h"] by simp
    then show ?thesis
      using True history_page_take [OF n(1), where E = E and xs = ?xs] by (simp add: req)
  qed
qed

text \<open>
  C38: With pages of fewer than 500 entries, a client that lists its command history page by page, following
  the cursor as long as the server reports more, receives every entry in scope exactly once, in
  descending order of the text of the time and then of the identifier; so the compound cursor never skips
  or repeats an entry, also when several entries have the same time.  (With 500 or more the server never
  reports more: \<open>history_large_page_hides_rest\<close>.)
\<close>

theorem history_pages_complete:
  assumes "history_scope conn scope = Inr ps" "time_codec E pt"
    and "\<not> env_fault E S_ListHistory" "0 < n" "n < 500"
    and "history_ids d" "length (db_history d) < 2 ^ 62" "length (db_history d) \<le> fuel"
  shows "read_history E pt conn scope n d fuel [] =
    map (history_entry E) (history_in_scope E conn ps d)"
proof -
  have "length (history_in_scope E conn ps d) \<le> length (db_history d)"
    by (simp add: history_in_scope_def length_sort_desc)
  with assms(8) have "length (history_in_scope E conn ps d) \<le> fuel" by linarith
  then have "read_back (\<lambda>k. take (nat n) (rest E conn ps d k)) (\<lambda>k. nat n < length (rest E conn ps d k))
      (hist_key E) fuel None = history_in_scope E conn ps d"
    using assms(4) by (intro read_back_all [OF history_in_scope_sorted [OF assms(6)]])
      (simp_all add: rest_def)
  with read_history_read_back [OF assms(1-7), of None fuel] show ?thesis
    by (simp add: cursor_text_def)
qed

text \<open>
  With a page size of 500 or more the server never reports more entries, whatever the history
  holds: it asks for one entry more than the page, but the store caps the request at 500.
\<close>

theorem history_large_page_hides_rest:
  assumes "handleHistoryList E pt conn (Inr req) d = Inr r" "500 \<le> hl_Limit req"
  shows "\<not> hr_HasMore r \<and> hr_Cursor r = [] \<and> length (hr_Entries r) \<le> 500"
proof -
  obtain f where f: "history_filter pt conn req = Inr f"
    using assms(1) by (cases "history_filter pt conn req") (simp_all add: handleHistoryList_def)
  obtain es where es: "ListCommandHistory E f d = Inr es"
    "r = history_page E (page_limit req) es"
    using assms(1) f
    by (cases "ListCommandHistory E f d") (simp_all add: handleHistoryList_def)
  from es(1) have "length es \<le> nat (history_limit (hf_Limit f))"
    by (auto simp: ListCommandHistory_def split: if_splits)
  then have "length es \<le> 500"
    by (auto simp: history_limit_def MaxCommandHistoryPerListCall_def split: if_splits)
  with assms(2) show ?thesis
    by (simp_all add: es(2) history_page_def Let_def page_limit_def)
qed

subsection \<open>Concrete data for the witnesses\<close>

text \<open>A clock text that is injective and has no bar: one letter per nanosecond.\<close>

definition letters :: "gotime \<Rightarrow> string" where
  "letters t = (if 0 \<le> t then replicate (nat t) CHR ''a'' else replicate (nat (- t)) CHR ''b'')"

definition unletters :: "string \<Rightarrow> gotime option" where
  "unletters s = (if s \<noteq> [] \<and> hd s = CHR ''b'' then Some (- int (length s)) else Some (int (length s)))"

definition env_at :: "gotime \<Rightarrow> store_env" where
  "env_at t = \<lparr>env_now = t, env_uuid = (\<lambda>n. nat_str n), env_fault = (\<lambda>_. False), env_round = (\<lambda>_ _. False),
     env_time_text = letters\<rparr>"

lemma env_at_simps [simp]:
  "env_now (env_at t) = t" "env_uuid (env_at t) n = nat_str n" "env_fault (env_at t) st = False" "env_round (env_at t) n st = False"
  "env_time_text (env_at t) = letters"
  by (simp_all add: env_at_def)

lemma env_at_codec: "time_codec (env_at t) unletters"
  by (auto simp: time_codec_def unletters_def letters_def)

definition conn_w :: Conn where
  "conn_w = \<lparr>conn_ID = ''c1'', conn_UserID = ''u'', conn_SessionID = [], conn_Root = ''/p''\<rparr>"

definition hist_w :: "int \<Rightarrow> gotime \<Rightarrow> string \<Rightarrow> CommandHistoryEntry" where
  "hist_w i t c = \<lparr>hist_ID = i, hist_UserID = ''u'', hist_Project = ''/p'', hist_SessionID = None,
     hist_Content = c, hist_CreatedAt = t\<rparr>"

definition history_db_w :: db where
  "history_db_w = empty_db\<lparr>db_history := [hist_w 1 5 ''ls'', hist_w 2 5 ''cd'', hist_w 3 4 ''pwd'']\<rparr>"

lemma history_pages_complete_witness:
  "read_history (env_at 9) unletters conn_w ''user'' 2 history_db_w 3 [] =
     map (history_entry (env_at 9)) (history_in_scope (env_at 9) conn_w ([], []) history_db_w)"
  by (rule history_pages_complete)
    (simp_all add: env_at_codec history_scope_def history_ids_def history_db_w_def hist_w_def
       empty_db_def upto_rec1)

lemma history_large_page_hides_rest_witness:
  "\<exists>r. handleHistoryList (env_at 9) unletters conn_w
          (Inr \<lparr>hl_Scope = ''user'', hl_Limit = 500, hl_Before = []\<rparr>) history_db_w = Inr r \<and>
        \<not> hr_HasMore r"
proof -
  have "\<exists>r. handleHistoryList (env_at 9) unletters conn_w
      (Inr \<lparr>hl_Scope = ''user'', hl_Limit = 500, hl_Before = []\<rparr>) history_db_w = Inr r"
    by (simp add: handleHistoryList_def history_filter_def history_scope_def ListCommandHistory_def
        page_limit_def Let_def)
  then show ?thesis using history_large_page_hides_rest by fastforce
qed

subsection \<open>Mutual exclusion of session locks\<close>

text \<open>
  C39: While the lock of a session is held and has not expired, no sequence of acquisitions and
  releases by other connections, interleaved with any operations on other sessions, takes it: the
  holder and the expiry stay, and every such acquisition is refused with the holder's name and
  changes nothing.
\<close>

theorem session_lock_exclusive:
  assumes "lock_holder d sid = Some (x, t)"
    and "\<forall>a \<in> set ops. case a of
           Acquire E k y t' \<Rightarrow> k = sid \<longrightarrow> y \<noteq> x \<and> \<not> lock_expired E t
         | Release E k y \<Rightarrow> k = sid \<longrightarrow> y \<noteq> x"
    and "d' = fold (\<lambda>a d. case a of
           Acquire E k y t' \<Rightarrow> fst (AcquireSessionLock E k y t' d)
         | Release E k y \<Rightarrow> fst (ReleaseSessionLock E k y d)) ops d"
  shows "lock_holder d' sid = Some (x, t) \<and>
    (\<forall>E y t'. y \<noteq> x \<and> \<not> lock_expired E t \<and> \<not> env_fault E S_LockUpdate \<and> \<not> env_fault E S_LockSelect \<longrightarrow>
       AcquireSessionLock E sid y t' d' = (d', Inr (False, x)))"
proof -
  have "(\<lambda>a d. case a of Acquire E k y t' \<Rightarrow> fst (AcquireSessionLock E k y t' d)
         | Release E k y \<Rightarrow> fst (ReleaseSessionLock E k y d)) =
      (\<lambda>a d. fst (session_lock.lease_step a d))"
    by (simp add: fun_eq_iff session_lock.lease_step_def lock_acquire_def lock_release_def
        split: lease_op.split prod.split)
  then have h: "lock_holder d' sid = Some (x, t)"
    using session_lock.lease_held [OF assms(1), of ops] assms(2,3)
    by (simp add: session_lock.intrusion_def)
  then obtain s where s: "find_session d' sid = Some s" "sess_LockOwner s = Some x"
    "sess_LockExpiresAt s = Some t"
    by (auto simp: lock_holder_def split: option.splits)
  then have "AcquireSessionLock E sid y t' d' = (d', Inr (False, x))"
    if "y \<noteq> x" "\<not> lock_expired E t" "\<not> env_fault E S_LockUpdate" "\<not> env_fault E S_LockSelect"
    for E y t'
    using that by (simp add: AcquireSessionLock_def lock_available_def lock_expired_def)
  with h show ?thesis by blast
qed

definition session_w :: Session where
  "session_w = \<lparr>sess_ID = ''s1'', sess_UserID = ''u'', sess_Project = ''/p'', sess_Summary = [],
     sess_ActiveModel = [], sess_ModelOverride = None, sess_RoutingOverrides = None,
     sess_PinnedItems = None, sess_CompactionState = None, sess_TotalCost = 0,
     sess_TotalInputTokens = 0, sess_TotalOutputTokens = 0, sess_ContextPct = 0,
     sess_Status = ''active'', sess_LockOwner = Some ''c1'', sess_LockExpiresAt = Some 5,
     sess_CreatedAt = 1, sess_UpdatedAt = 1\<rparr>"

definition locked_db_w :: db where
  "locked_db_w = empty_db\<lparr>db_sessions := [session_w]\<rparr>"

lemma session_lock_exclusive_witness:
  "lock_holder (fold (\<lambda>a d. case a of
       Acquire E k y t' \<Rightarrow> fst (AcquireSessionLock E k y t' d)
     | Release E k y \<Rightarrow> fst (ReleaseSessionLock E k y d))
     [Acquire (env_at 3) ''s1'' ''c2'' 8, Release (env_at 4) ''s1'' ''c2''] locked_db_w) ''s1''
   = Some (''c1'', 5)"
  using session_lock_exclusive [OF _ _ refl, of locked_db_w "''s1''" "''c1''" 5
    "[Acquire (env_at 3) ''s1'' ''c2'' 8, Release (env_at 4) ''s1'' ''c2'']"]
  by (simp add: lock_holder_def find_session_def locked_db_w_def session_w_def lock_expired_def
      letters_def eval_nat_numeral)

text \<open>
  A session that a durable run belongs to makes the deletion of old sessions fail as a whole:
  no session, turn or event is deleted, since the foreign key from runs does not cascade.
\<close>

theorem run_blocks_session_deletion:
  assumes "s \<in> set (db_sessions d)" "old_session E before s"
    and "r \<in> set (db_runs d)" "run_SessionID r = sess_ID s"
  shows "DeleteSessionsBefore E before d = (d, Inl (SqlError S_DeleteSession))"
  using assms by (auto simp: DeleteSessionsBefore_def Let_def)

definition run_w :: Run where
  "run_w = \<lparr>run_ID = ''r1'', run_TraceID = ''t1'', run_IdempotencyKey = ''k1'', run_UserID = ''u'',
     run_Project = ''/p'', run_SessionID = ''s1'', run_ParentRunID = None, run_InitiatorType = ''user'',
     run_Title = [], run_WorkflowType = ''debug'', run_Status = ''running'', run_Stage = ''preflight'',
     run_AttachmentState = ''detached'', run_AttachedConnectionID = [],
     run_AttachmentGraceDeadline = None, run_Summary = [], run_LastAdvancedAt = 1, run_Model = [],
     run_Provider = [], run_InputTokens = 0, run_OutputTokens = 0, run_TotalCost = 0,
     run_LastEventSeq = 1, run_LastCheckpointID = [], run_ExtensionJSON = Some ''{}'',
     run_RetentionClass = ''standard'', run_ExpiresAt = None, run_SchemaVersion = 1,
     run_CreatedAt = 1, run_UpdatedAt = 1, run_TerminalAt = None\<rparr>"

lemma run_blocks_session_deletion_witness:
  "DeleteSessionsBefore (env_at 9) 8 (locked_db_w\<lparr>db_runs := [run_w]\<rparr>) =
     (locked_db_w\<lparr>db_runs := [run_w]\<rparr>, Inl (SqlError S_DeleteSession))"
  by (rule run_blocks_session_deletion [of session_w _ _ _ run_w])
    (simp_all add: locked_db_w_def old_session_def session_w_def run_w_def letters_def
       eval_nat_numeral)

end
