(* ===== verification/Store_Inv.thy ===== *)
theory Store_Inv
  imports Run_Store_Inv Session_Props
begin

text \<open>
  The store as one machine: every operation of the session, turn, history and run files as a step
  on the database, its invariant (keys, references, the run tables), and the log service that the
  run events provide.
\<close>

subsection \<open>Sessions, turns and references\<close>

definition session_db_inv :: "db \<Rightarrow> bool" where
  "session_db_inv d =
     (distinct (map sess_ID (db_sessions d)) \<and> distinct (map turn_ID (db_turns d)) \<and>
      (\<forall>t \<in> set (db_turns d). has_session d (turn_SessionID t)) \<and>
      (\<forall>e \<in> set (db_session_events d). has_session d (sev_SessionID e)) \<and>
      (\<forall>r \<in> set (db_runs d). has_session d (run_SessionID r)) \<and> history_ids d)"

definition store_inv :: "db \<Rightarrow> bool" where
  "store_inv d = (run_db_inv d \<and> session_db_inv d)"

lemma session_db_invD:
  assumes "session_db_inv d"
  shows "distinct (map sess_ID (db_sessions d))" "distinct (map turn_ID (db_turns d))"
    "\<forall>t \<in> set (db_turns d). has_session d (turn_SessionID t)"
    "\<forall>e \<in> set (db_session_events d). has_session d (sev_SessionID e)"
    "\<forall>r \<in> set (db_runs d). has_session d (run_SessionID r)" "history_ids d"
  using assms by (simp_all add: session_db_inv_def)

lemma empty_store_inv: "store_inv empty_db"
  by (simp add: store_inv_def empty_db_inv) (simp add: session_db_inv_def empty_db_def history_ids_def)

lemma history_ids_snoc:
  "map hist_ID xs = [1..int (length xs)] \<Longrightarrow>
   map hist_ID (xs @ [h\<lparr>hist_ID := int (length xs) + 1\<rparr>]) = [1..int (length xs) + 1]"
  by (simp add: upto_rec2)

text \<open>An operation on other tables.\<close>

lemma session_db_inv_cong:
  assumes "session_db_inv d" "db_sessions d' = db_sessions d" "db_turns d' = db_turns d"
    "db_session_events d' = db_session_events d" "db_history d' = db_history d"
    "run_SessionID ` set (db_runs d') \<subseteq> run_SessionID ` set (db_runs d)"
  shows "session_db_inv d'"
proof -
  from assms(2) have h: "has_session d' = has_session d" by (simp add: has_session_def fun_eq_iff)
  have "\<forall>r \<in> set (db_runs d'). has_session d (run_SessionID r)"
    using assms(6) session_db_invD(5) [OF assms(1)] by (metis image_iff image_eqI subsetD)
  then show ?thesis
    using session_db_invD(1-4,6) [OF assms(1)] assms(2-5)
    by (simp add: session_db_inv_def h history_ids_def)
qed

lemma run_db_inv_tables:
  assumes "run_db_inv d" "db_runs d' = db_runs d" "db_attachments d' = db_attachments d"
    "db_events d' = db_events d" "db_checkpoints d' = db_checkpoints d"
    "db_model_calls d' = db_model_calls d" "db_tool_results d' = db_tool_results d"
    "db_run_turns d' = db_run_turns d"
  shows "run_db_inv d'"
  by (rule run_db_inv_cong [OF assms(1-4)]) (use assms run_db_inv_distinct [OF assms(1)] in simp_all)

text \<open>Columns of session rows other than the identifier are free.\<close>

lemma map_session_inv:
  assumes "\<And>s. sess_ID (f s) = sess_ID s" "store_inv d"
  shows "store_inv (map_session sid f d)"
proof -
  have ids: "map sess_ID (db_sessions (map_session sid f d)) = map sess_ID (db_sessions d)"
    using assms(1) by (simp add: map_session_def)
  then have h: "has_session (map_session sid f d) x = has_session d x" for x
    unfolding has_session_def by (metis set_map)
  have "run_db_inv (map_session sid f d)"
    by (rule run_db_inv_tables) (use assms(2) in \<open>simp_all add: store_inv_def map_session_def\<close>)
  moreover have "session_db_inv (map_session sid f d)"
    using assms(2) unfolding store_inv_def session_db_inv_def ids h
    by (simp add: map_session_def history_ids_def)
  ultimately show ?thesis by (simp add: store_inv_def)
qed

lemma autocommit_cases:
  "autocommit r d = (d', res) \<Longrightarrow> d' = d \<or> r = Inr d'"
  by (auto simp: autocommit_def split: sum.splits)

lemma CreateSession_inv:
  assumes i: "store_inv d" and c: "CreateSession E s d = (d', res)"
  shows "store_inv d'"
proof (cases "d' = d")
  case False
  with autocommit_cases [OF c [unfolded CreateSession_def]]
  have d': "d' = d\<lparr>db_sessions := db_sessions d @ [fill_session s]\<rparr>" "\<not> has_session d (sess_ID s)"
    by (auto split: if_splits)
  have "run_db_inv d'"
    by (rule run_db_inv_tables) (use i in \<open>simp_all add: store_inv_def d'\<close>)
  moreover have "has_session d x \<Longrightarrow> has_session d' x" for x
    by (simp add: has_session_def d')
  with i d'(2) have "session_db_inv d'"
    by (auto simp: store_inv_def session_db_inv_def d'(1) history_ids_def has_session_def fill_session_def)
  ultimately show ?thesis by (simp add: store_inv_def)
qed (simp add: i)

lemma UpdateSession_inv:
  "store_inv d \<Longrightarrow> UpdateSession E s d = (d', res) \<Longrightarrow> store_inv d'"
proof -
  assume i: "store_inv d" and u: "UpdateSession E s d = (d', res)"
  show ?thesis
  proof (cases "d' = d")
    case False
    with u have "d' = d\<lparr>db_sessions := map (\<lambda>x. if sess_ID x = sess_ID s
        then (fill_session s)\<lparr>sess_CreatedAt := sess_CreatedAt x\<rparr> else x) (db_sessions d)\<rparr>"
      by (auto simp: UpdateSession_def map_session_def split: if_splits)
    then have "d' = map_session (sess_ID s) (\<lambda>x. if sess_ID x = sess_ID s
        then (fill_session s)\<lparr>sess_CreatedAt := sess_CreatedAt x\<rparr> else x) d"
      by (simp add: map_session_def cong: if_cong)
    then show ?thesis using i by (auto intro!: map_session_inv simp: fill_session_def)
  qed (simp add: i)
qed

lemma DeleteSessionsBefore_inv:
  assumes i: "store_inv d" and x: "DeleteSessionsBefore E before d = (d', res)"
  shows "store_inv d'"
proof (cases "d' = d")
  case False
  let ?v = "map sess_ID (filter (old_session E before) (db_sessions d))"
  from False x have n: "\<forall>r \<in> set (db_runs d). run_SessionID r \<notin> set ?v" and
    d': "d' = d\<lparr>db_sessions := filter (\<lambda>s. \<not> old_session E before s) (db_sessions d),
              db_turns := filter (\<lambda>t. turn_SessionID t \<notin> set ?v) (db_turns d),
              db_session_events := filter (\<lambda>e. sev_SessionID e \<notin> set ?v) (db_session_events d)\<rparr>"
    by (auto simp: DeleteSessionsBefore_def Let_def split: if_splits)
  have k: "has_session d' s" if "has_session d s" "s \<notin> set ?v" for s
    using that by (auto simp: has_session_def d' image_iff)
  have "run_db_inv d'"
    by (rule run_db_inv_tables) (use i in \<open>simp_all add: store_inv_def d'\<close>)
  moreover have "session_db_inv d'"
    unfolding session_db_inv_def
  proof (intro conjI ballI)
    note s = session_db_invD [OF i [unfolded store_inv_def, THEN conjunct2]]
    show "distinct (map sess_ID (db_sessions d'))" "distinct (map turn_ID (db_turns d'))"
      using s(1,2) by (simp_all add: d' distinct_map_filter)
    show "history_ids d'" using s(6) by (simp add: d' history_ids_def)
    show "has_session d' (turn_SessionID t)" if "t \<in> set (db_turns d')" for t
      using that s(3) by (intro k) (simp_all add: d')
    show "has_session d' (sev_SessionID e)" if "e \<in> set (db_session_events d')" for e
      using that s(4) by (intro k) (simp_all add: d')
    show "has_session d' (run_SessionID r)" if "r \<in> set (db_runs d')" for r
      using that s(5) n by (intro k) (simp_all add: d')
  qed
  ultimately show ?thesis by (simp add: store_inv_def)
qed (simp add: i)

lemma AcquireSessionLock_inv:
  assumes i: "store_inv d" and a: "AcquireSessionLock E sid x t d = (d', res)"
  shows "store_inv d'"
proof (cases "d' = d")
  case False
  with a have "d' = map_session sid (\<lambda>s. s\<lparr>sess_LockOwner := Some x,
      sess_LockExpiresAt := Some t, sess_UpdatedAt := env_now E\<rparr>) d"
    by (auto simp: AcquireSessionLock_def split: if_splits option.splits)
  then show ?thesis using i by (auto intro!: map_session_inv)
qed (simp add: i)

lemma ReleaseSessionLock_inv:
  "store_inv d \<Longrightarrow> ReleaseSessionLock E sid x d = (d', res) \<Longrightarrow> store_inv d'"
  by (auto simp: ReleaseSessionLock_def split: if_splits intro!: map_session_inv)

lemma ForceReleaseSessionLock_inv:
  "store_inv d \<Longrightarrow> ForceReleaseSessionLock E sid d = (d', res) \<Longrightarrow> store_inv d'"
  by (auto simp: ForceReleaseSessionLock_def split: if_splits intro!: map_session_inv)

lemma insertTurn_Inr:
  "insertTurn E t d = Inr d' \<Longrightarrow> has_session d (turn_SessionID t) \<and> turn_ID t \<notin> turn_ID ` set (db_turns d) \<and>
     (\<exists>t'. turn_ID t' = turn_ID t \<and> turn_SessionID t' = turn_SessionID t \<and>
       d' = d\<lparr>db_turns := db_turns d @ [t']\<rparr>)"
  by (auto simp: insertTurn_def split: if_splits
      intro!: exI [of _ "t\<lparr>turn_Content := OrElseJ (turn_Content t) [CHR 0x22, CHR 0x22],
                turn_ToolCalls := OrElseJ (turn_ToolCalls t) ''[]''\<rparr>"])

lemma insertTurn_session:
  assumes i: "session_db_inv d" and t: "insertTurn E t d = Inr d'"
  shows "session_db_inv d' \<and> db_runs d' = db_runs d \<and> (run_db_inv d \<longrightarrow> run_db_inv d')"
proof -
  from insertTurn_Inr [OF t] obtain t' where
    h: "has_session d (turn_SessionID t)" "turn_ID t \<notin> turn_ID ` set (db_turns d)" and
    t': "turn_ID t' = turn_ID t" "turn_SessionID t' = turn_SessionID t"
        "d' = d\<lparr>db_turns := db_turns d @ [t']\<rparr>" by blast
  have "run_db_inv d'" if "run_db_inv d"
    by (rule run_db_inv_tables) (use that in \<open>simp_all add: t'\<close>)
  moreover have "session_db_inv d'"
    using i h t' by (auto simp: session_db_inv_def has_session_def history_ids_def)
  ultimately show ?thesis by (simp add: t')
qed

lemma CreateTurn_inv:
  "store_inv d \<Longrightarrow> CreateTurn E t d = (d', res) \<Longrightarrow> store_inv d'"
  unfolding CreateTurn_def store_inv_def by (drule autocommit_cases) (auto dest: insertTurn_session)

lemma DeleteTurn_inv:
  assumes i: "store_inv d" and x: "DeleteTurn E sid tid d = (d', res)"
  shows "store_inv d'"
proof (cases "d' = d")
  case False
  with autocommit_cases [OF x [unfolded DeleteTurn_def]] have d': "d' = d\<lparr>db_turns :=
      filter (\<lambda>t. \<not> (turn_ID t = tid \<and> turn_SessionID t = sid)) (db_turns d)\<rparr>" by auto
  have "run_db_inv d'"
    by (rule run_db_inv_tables) (use i in \<open>simp_all add: store_inv_def d'\<close>)
  moreover have "session_db_inv d'"
    using i by (auto simp: store_inv_def session_db_inv_def has_session_def history_ids_def d'
        intro: distinct_map_filter)
  ultimately show ?thesis by (simp add: store_inv_def)
qed (simp add: i)

lemma insertHistory_session:
  assumes i: "session_db_inv d" and h: "insertHistory E h d = Inr d'"
  shows "session_db_inv d' \<and> db_runs d' = db_runs d \<and> (run_db_inv d \<longrightarrow> run_db_inv d')"
proof -
  from h have d': "d' = d\<lparr>db_history := db_history d @
      [h\<lparr>hist_ID := int (length (db_history d)) + 1\<rparr>]\<rparr>" by (auto simp: insertHistory_def)
  have "run_db_inv d'" if "run_db_inv d"
    by (rule run_db_inv_tables) (use that in \<open>simp_all add: d'\<close>)
  moreover have "session_db_inv d'"
    using i history_ids_snoc [of "db_history d" h]
    by (simp add: session_db_inv_def has_session_def history_ids_def d' add.commute)
  ultimately show ?thesis by (simp add: d')
qed

lemma AppendCommandHistory_inv:
  "store_inv d \<Longrightarrow> AppendCommandHistory E h d = (d', res) \<Longrightarrow> store_inv d'"
  unfolding AppendCommandHistory_def store_inv_def
  by (drule autocommit_cases) (auto dest: insertHistory_session)

lemma AppendServerEvent_inv:
  assumes i: "store_inv d" and x: "AppendServerEvent E e d = (d', res)"
  shows "store_inv d'"
proof (cases "d' = d")
  case False
  with autocommit_cases [OF x [unfolded AppendServerEvent_def]] have
    h: "has_session d (sev_SessionID e)" and d': "d' = d\<lparr>db_session_events :=
      db_session_events d @ [e\<lparr>sev_ID := db_session_event_seq d + 1\<rparr>],
      db_session_event_seq := db_session_event_seq d + 1\<rparr>"
    by (auto split: if_splits)
  have "run_db_inv d'"
    by (rule run_db_inv_tables) (use i in \<open>simp_all add: store_inv_def d'\<close>)
  moreover have "session_db_inv d'"
    using i h by (auto simp: store_inv_def session_db_inv_def has_session_def history_ids_def d')
  ultimately show ?thesis by (simp add: store_inv_def)
qed (simp add: i)

subsection \<open>The run operations on the session tables\<close>

lemma AppendRunEvent_session:
  assumes i: "session_db_inv d" and a: "AppendRunEvent E rid ev u d = (d', res)"
  shows "session_db_inv d'"
proof (cases res)
  case (Inl e)
  with a i show ?thesis unfolding AppendRunEvent_def by (auto dest: run_tx_error)
next
  case (Inr n)
  from a [unfolded Inr] obtain r u' cps where d': "d' = d\<lparr>db_events := db_events d @ [stamp E rid n ev],
        db_checkpoints := db_checkpoints d @ cps,
        db_runs := map (\<lambda>r. if run_ID r = rid
          then update_run_row n u' (evt_CreatedAt (stamp E rid n ev)) r else r) (db_runs d),
        db_attachments := (if attaches u
          then map (\<lambda>a. if att_RunID a = rid
                 then update_attachment_row u (evt_CreatedAt (stamp E rid n ev)) a else a)
                 (db_attachments d)
          else db_attachments d)\<rparr>"
    by (rule AppendRunEvent_Inr)
  show ?thesis by (rule session_db_inv_cong [OF i]) (auto simp: d')
qed

lemma insertRun_session:
  "session_db_inv d \<Longrightarrow> insertRun E r d = Inr d' \<Longrightarrow> session_db_inv d'"
  by (auto simp: insertRun_def session_db_inv_def has_session_def history_ids_def split: if_splits)

lemma create_run_tx_session:
  assumes i: "session_db_inv d" and x: "create_run_tx E r initial cp extra d = (d', res)"
    and e: "\<And>d d'. session_db_inv d \<Longrightarrow> extra d = (d', Inr ()) \<Longrightarrow> session_db_inv d'"
  shows "session_db_inv d'"
proof (cases res)
  case (Inl err)
  with x i show ?thesis by (auto simp: create_run_tx_def Let_def dest: run_tx_error)
next
  case (Inr r')
  let ?ev = "normalizeInitialEvent r initial" and ?c = "normalizeCheckpointForCreate E r 1 cp"
  from x [unfolded Inr] obtain d1 d2 d3 d4 d5 where
    s: "insertRun E r d = Inr d1" "insertAttachment E r d1 = Inr d2" "insertRunEvent E ?ev d2 = Inr d3"
       "insertRunCheckpoint E ?c d3 = Inr d4" "extra d4 = (d5, Inr ())"
       "updateRunSeq E r 1 (cp_ID ?c) d5 = Inr d'"
    by (auto simp: create_run_tx_def Let_def tx_Inr)
  have 1: "session_db_inv d1" by (rule insertRun_session [OF i s(1)])
  have 2: "session_db_inv d2"
    by (rule session_db_inv_cong [OF 1]) (use s(2) in \<open>auto simp: insertAttachment_def split: if_splits\<close>)
  have 3: "session_db_inv d3"
    by (rule session_db_inv_cong [OF 2]) (use s(3) in \<open>auto simp: insertRunEvent_def split: if_splits\<close>)
  have 4: "session_db_inv d4"
    by (rule session_db_inv_cong [OF 3]) (use s(4) in \<open>auto simp: insertRunCheckpoint_def split: if_splits\<close>)
  have 5: "session_db_inv d5" by (rule e [OF 4 s(5)])
  show ?thesis
    by (rule session_db_inv_cong [OF 5]) (use s(6) in \<open>auto simp: updateRunSeq_def\<close>)
qed

lemma insertRunTurn_session:
  "session_db_inv d \<Longrightarrow> insertRunTurn E rid tid role n d = Inr d' \<Longrightarrow> session_db_inv d'"
  by (erule session_db_inv_cong) (auto simp: insertRunTurn_def split: if_splits)

lemma CreateRun_session:
  "session_db_inv d \<Longrightarrow> CreateRun E r0 ev cp d = (d', res) \<Longrightarrow> session_db_inv d'"
  by (auto simp: CreateRun_def no_statement_def split: sum.splits elim: create_run_tx_session)

lemma CreateRunWithTurn_session:
  assumes i: "session_db_inv d" and x: "CreateRunWithTurn E r0 ev cp t role n h d = (d', res)"
  shows "session_db_inv d'"
proof (cases "d' = d")
  case False
  from False x obtain tu r where tu: "t = Some tu" "normalizeRunForCreate E r0 = Inr r"
    by (auto simp: CreateRunWithTurn_def split: option.splits sum.splits)
  show ?thesis
  proof (rule create_run_tx_session [OF i x [unfolded CreateRunWithTurn_def tu, simplified]])
    fix d1 d2
    assume "session_db_inv d1" "foreground_statements E (run_ID r) tu role n h d1 = (d2, Inr ())"
    then obtain a b where s: "insertTurn E tu d1 = Inr a"
      "insertRunTurn E (run_ID r) (turn_ID tu) role n a = Inr b"
      "b = d2 \<or> (\<exists>h. insertHistory E h b = Inr d2)"
      unfolding foreground_statements_def tx_Inr by (auto simp: tx_Inr split: option.splits if_splits)
    have "session_db_inv a" using insertTurn_session [OF \<open>session_db_inv d1\<close> s(1)] by simp
    then have "session_db_inv b" using s(2) by (rule insertRunTurn_session)
    then show "session_db_inv d2" using s(3) insertHistory_session by blast
  qed
qed (simp add: i)

lemma other_writers_session:
  "session_db_inv d \<Longrightarrow> CreateRunCheckpoint E cp d = (d', r1) \<Longrightarrow> session_db_inv d'"
  "session_db_inv d \<Longrightarrow> LinkTurnToRun E rid tid role n d = (d', r1) \<Longrightarrow> session_db_inv d'"
proof -
  show "session_db_inv d'" if "session_db_inv d" "CreateRunCheckpoint E cp d = (d', r1)"
    by (rule session_db_inv_cong [OF that(1)])
      (use that(2) in \<open>auto simp: CreateRunCheckpoint_def autocommit_def insertRunCheckpoint_def
         split: if_splits sum.splits\<close>)
  show "session_db_inv d'" if "session_db_inv d" "LinkTurnToRun E rid tid role n d = (d', r1)"
    by (rule session_db_inv_cong [OF that(1)])
      (use that(2) in \<open>auto simp: LinkTurnToRun_def autocommit_def insertRunTurn_def
         split: if_splits sum.splits\<close>)
qed

lemma RecordRunModelCall_session:
  assumes i: "session_db_inv d" and c: "RecordRunModelCall E c d = (d', res)"
  shows "session_db_inv d'"
proof (cases "d' = d")
  case False
  with c obtain b where "res = Inr b" by (cases res) (auto simp: RecordRunModelCall_def Let_def dest: run_tx_error)
  note e = RecordRunModelCall_Inr [OF c [unfolded this]]
  from False e(2) have b by blast
  note d' = e(3) [OF this, THEN conjunct2]
  have "run_SessionID (add_model_call c t r) = run_SessionID r" for t r
    by (simp add: add_model_call_def)
  then show ?thesis by (intro session_db_inv_cong [OF i]) (auto simp: d')
qed (simp add: i)

lemma RecordRunToolResult_session:
  assumes i: "session_db_inv d" and c: "RecordRunToolResult E t d = (d', res)"
  shows "session_db_inv d'"
proof (cases "d' = d")
  case False
  with c obtain b where "res = Inr b" by (cases res) (auto simp: RecordRunToolResult_def Let_def dest: run_tx_error)
  note e = RecordRunToolResult_Inr [OF c [unfolded this]]
  from False e(2) have b by blast
  note d' = e(3) [OF this, THEN conjunct2]
  show ?thesis by (intro session_db_inv_cong [OF i]) (auto simp: d')
qed (simp add: i)

subsection \<open>The store machine\<close>

datatype store_op =
    OpCreateSession Session
  | OpUpdateSession Session
  | OpDeleteSessionsBefore gotime
  | OpAcquireSessionLock string string gotime
  | OpReleaseSessionLock string string
  | OpForceReleaseSessionLock string
  | OpAppendServerEvent ServerSessionEvent
  | OpCreateTurn Turn
  | OpDeleteTurn string string
  | OpAppendCommandHistory CommandHistoryEntry
  | OpCreateRun Run RunEvent RunCheckpoint
  | OpCreateRunWithTurn Run RunEvent RunCheckpoint "Turn option" string int "CommandHistoryEntry option"
  | OpAppendRunEvent string RunEvent RunStateUpdate
  | OpCreateRunCheckpoint RunCheckpoint
  | OpLinkTurnToRun string string string int
  | OpRecordRunModelCall RunModelCall
  | OpRecordRunToolResult RunToolResult

text \<open>What an operation reports, reduced to its error.\<close>

definition outcome :: "db \<times> (store_error + 'a) \<Rightarrow> db \<times> store_error option list" where
  "outcome r = (fst r, [case snd r of Inl e \<Rightarrow> Some e | Inr _ \<Rightarrow> None])"

fun store_step :: "db \<Rightarrow> store_env \<times> store_op \<Rightarrow> db \<times> store_error option list" where
  "store_step d (E, OpCreateSession s) = outcome (CreateSession E s d)"
| "store_step d (E, OpUpdateSession s) = outcome (UpdateSession E s d)"
| "store_step d (E, OpDeleteSessionsBefore t) = outcome (DeleteSessionsBefore E t d)"
| "store_step d (E, OpAcquireSessionLock sid x t) = outcome (AcquireSessionLock E sid x t d)"
| "store_step d (E, OpReleaseSessionLock sid x) = outcome (ReleaseSessionLock E sid x d)"
| "store_step d (E, OpForceReleaseSessionLock sid) = outcome (ForceReleaseSessionLock E sid d)"
| "store_step d (E, OpAppendServerEvent e) = outcome (AppendServerEvent E e d)"
| "store_step d (E, OpCreateTurn t) = outcome (CreateTurn E t d)"
| "store_step d (E, OpDeleteTurn sid tid) = outcome (DeleteTurn E sid tid d)"
| "store_step d (E, OpAppendCommandHistory h) = outcome (AppendCommandHistory E h d)"
| "store_step d (E, OpCreateRun r ev cp) = outcome (CreateRun E r ev cp d)"
| "store_step d (E, OpCreateRunWithTurn r ev cp t role n h) =
     outcome (CreateRunWithTurn E r ev cp t role n h d)"
| "store_step d (E, OpAppendRunEvent rid ev u) = outcome (AppendRunEvent E rid ev u d)"
| "store_step d (E, OpCreateRunCheckpoint cp) = outcome (CreateRunCheckpoint E cp d)"
| "store_step d (E, OpLinkTurnToRun rid tid role n) = outcome (LinkTurnToRun E rid tid role n d)"
| "store_step d (E, OpRecordRunModelCall c) = outcome (RecordRunModelCall E c d)"
| "store_step d (E, OpRecordRunToolResult t) = outcome (RecordRunToolResult E t d)"

lemma run_writers_inv:
  "store_inv d \<Longrightarrow> CreateRun E r ev cp d = (d', x1) \<Longrightarrow> store_inv d'"
  "store_inv d \<Longrightarrow> CreateRunWithTurn E r ev cp t role n h d = (d', x1) \<Longrightarrow> store_inv d'"
  "store_inv d \<Longrightarrow> AppendRunEvent E rid ev u d = (d', x2) \<Longrightarrow> store_inv d'"
  "store_inv d \<Longrightarrow> CreateRunCheckpoint E cp d = (d', x3) \<Longrightarrow> store_inv d'"
  "store_inv d \<Longrightarrow> LinkTurnToRun E rid tid role n d = (d', x3) \<Longrightarrow> store_inv d'"
  "store_inv d \<Longrightarrow> RecordRunModelCall E c d = (d', x4) \<Longrightarrow> store_inv d'"
  "store_inv d \<Longrightarrow> RecordRunToolResult E tr d = (d', x4) \<Longrightarrow> store_inv d'"
  unfolding store_inv_def
  by (blast intro: CreateRun_inv CreateRun_session,
      blast intro: CreateRunWithTurn_inv CreateRunWithTurn_session,
      blast intro: AppendRunEvent_inv AppendRunEvent_session,
      blast intro: CreateRunCheckpoint_inv other_writers_session(1),
      blast intro: LinkTurnToRun_inv other_writers_session(2),
      blast intro: RecordRunModelCall_inv RecordRunModelCall_session,
      blast intro: RecordRunToolResult_inv RecordRunToolResult_session)

lemmas store_writers_inv = CreateSession_inv UpdateSession_inv DeleteSessionsBefore_inv
  AcquireSessionLock_inv ReleaseSessionLock_inv ForceReleaseSessionLock_inv AppendServerEvent_inv
  CreateTurn_inv DeleteTurn_inv AppendCommandHistory_inv run_writers_inv

lemma fst_outcome [simp]: "fst (outcome r) = fst r"
  by (simp add: outcome_def)

lemma store_step_inv: "store_inv d \<Longrightarrow> store_inv (fst (store_step d (E, op)))"
  by (cases op; simp; rule store_writers_inv [OF _ surjective_pairing]; assumption)

interpretation store: machine store_step store_inv
proof
  show "store_inv (fst (store_step s e))" if "store_inv s" for s e
    using store_step_inv [OF that] by (cases e) simp
qed

text \<open>
  C31: After any sequence of store operations, whatever statements fail, the tables are consistent:
  identifiers are unique, turns, events and runs refer to existing sessions, the events of every
  run are numbered 1 to its last sequence number without a gap, every run has one attachment row
  that agrees with it, and statuses, stages and workflow types are declared values.
\<close>

theorem store_invariant: "store_inv (fst (run_out store_step empty_db ops))"
  by (rule store.run_inv [OF empty_store_inv])

subsection \<open>The event log\<close>

definition fault_free :: store_env where
  "fault_free = env_at 0"

definition append_event ::
  "string \<Rightarrow> store_env \<times> RunEvent \<times> RunStateUpdate \<Rightarrow> db \<Rightarrow> db option" where
  "append_event rid x d = (case x of (E, ev, u) \<Rightarrow>
     (case AppendRunEvent E rid ev u d of (d', Inl e) \<Rightarrow> None | (d', Inr n) \<Rightarrow> Some d'))"

definition events_page :: "db \<Rightarrow> string \<Rightarrow> nat \<Rightarrow> int \<Rightarrow> RunEvent list" where
  "events_page d rid n c =
     (case ListRunEvents fault_free rid c (int n) d of Inl e \<Rightarrow> [] | Inr es \<Rightarrow> es)"

lemma append_event_Some:
  assumes "append_event rid x d = Some d'"
  obtains E ev u n where "x = (E, ev, u)" "AppendRunEvent E rid ev u d = (d', Inr n)"
  using assms by (cases x) (auto simp: append_event_def split: prod.splits sum.splits)

lemma events_of_Append:
  assumes "AppendRunEvent E rid ev u d = (d', Inr n)"
  shows "events_of d' x = events_of d x @ (if x = rid then [stamp E rid n ev] else [])"
proof -
  from assms obtain r u' cps where "d' = d\<lparr>db_events := db_events d @ [stamp E rid n ev],
        db_checkpoints := db_checkpoints d @ cps,
        db_runs := map (\<lambda>r. if run_ID r = rid
          then update_run_row n u' (evt_CreatedAt (stamp E rid n ev)) r else r) (db_runs d),
        db_attachments := (if attaches u
          then map (\<lambda>a. if att_RunID a = rid
                 then update_attachment_row u (evt_CreatedAt (stamp E rid n ev)) a else a)
                 (db_attachments d)
          else db_attachments d)\<rparr>"
    by (rule AppendRunEvent_Inr)
  then show ?thesis by (auto simp: events_of_def stamp_def)
qed

lemma events_seqno:
  assumes "run_db_inv d"
  shows "map evt_Seq (events_of d rid) = [1..int (length (events_of d rid))]"
proof (cases "has_run d rid")
  case True
  then obtain r where r: "r \<in> set (db_runs d)" "run_ID r = rid" by (auto simp: has_run_def)
  with assms have l: "map evt_Seq (events_of d rid) = [1..run_LastEventSeq r]" "1 \<le> run_LastEventSeq r"
    by (auto simp: run_db_inv_def log_ok_def run_row_ok_def)
  then have "length (events_of d rid) = length [1..run_LastEventSeq r]" by (metis length_map)
  with l show ?thesis by simp
next
  case False
  with assms have "events_of d rid = []"
    by (auto simp: run_db_inv_def events_of_def filter_empty_conv)
  then show ?thesis by simp
qed

lemma sort_key_sorted: "sorted (map f xs) \<Longrightarrow> sort_key f xs = xs"
  by (rule sort_key_id_if_sorted)

lemma events_page_log:
  assumes "run_db_inv d" "0 < n" "n \<le> 500"
  shows "events_page d rid n c = take n (filter (\<lambda>e. c < evt_Seq e) (events_of d rid))"
proof -
  have "sorted (map evt_Seq (events_of d rid))"
    unfolding events_seqno [OF assms(1)] by simp
  then have "sorted (map evt_Seq (filter (\<lambda>e. c < evt_Seq e) (events_of d rid)))"
    by (rule sorted_filter)
  then show ?thesis
    using assms(2,3) by (simp add: events_page_def ListRunEvents_def fault_free_def sort_key_sorted)
qed

interpretation run_log: event_log append_event events_of events_page evt_Seq run_db_inv 500
proof
  show "run_db_inv s'" if "run_db_inv s" "append_event k e s = Some s'" for s k e s'
    using that(2) by (rule append_event_Some) (use AppendRunEvent_inv that(1) in blast)
  show "\<exists>r. events_of s' k = events_of s k @ [r]"
    if "run_db_inv s" "append_event k e s = Some s'" for s k e s'
    using that(2) by (rule append_event_Some) (simp add: events_of_Append)
  show "events_of s' k' = events_of s k'"
    if "run_db_inv s" "append_event k e s = Some s'" "k' \<noteq> k" for s k e s' k'
    using that(2) by (rule append_event_Some) (simp add: events_of_Append that(3))
qed (rule events_seqno, assumption, rule events_page_log)

end
