(* ===== verification/Run_Machine.thy ===== *)
theory Run_Machine
  imports Run_Control Store_Inv
begin

text \<open>
  The run services as a machine over requests of any connections, and the one lemma per handler
  from which the properties of whole request sequences follow: what a handler may do to the
  database.
\<close>

subsection \<open>Requests\<close>

datatype run_request =
    ReqCreate "string + RunCreate"
  | ReqList "string + RunList"
  | ReqDetails "string + string"
  | ReqAttach "string + RunAttach"
  | ReqDetach "string + string"
  | ReqCancel "string + RunControl"
  | ReqRetry "string + RunControl"
  | ReqContinue "string + RunControl"
  | ReqFork "string + RunControl"
  | ReqEvents "string + RunEvents"
  | ReqPermissions "string + RunPermissions"
  | ReqResolvePermission "string + RunResolvePermission"
  | ReqHeartbeat "string + RunHeartbeat"

definition served :: "'a handled \<Rightarrow> Server \<times> run_output list" where
  "served h = (fst h, fst (snd h))"

lemma served_fst [simp]: "fst (served h) = fst h"
  by (simp add: served_def)

fun serve ::
  "(string \<Rightarrow> (string \<times> string \<times> string) option) \<Rightarrow> Server \<Rightarrow> store_env \<times> Conn \<times> run_request
     \<Rightarrow> Server \<times> run_output list" where
  "serve parse srv (E, conn, ReqCreate q) = served (handleRunCreate E conn q srv)"
| "serve parse srv (E, conn, ReqList q) = served (handleRunList E conn q srv)"
| "serve parse srv (E, conn, ReqDetails q) = served (handleRunDetails E conn q srv)"
| "serve parse srv (E, conn, ReqAttach q) = served (handleRunAttach E conn q srv)"
| "serve parse srv (E, conn, ReqDetach q) = served (handleRunDetach E conn q srv)"
| "serve parse srv (E, conn, ReqCancel q) = served (handleRunCancel E conn q srv)"
| "serve parse srv (E, conn, ReqRetry q) = served (handleRunRetry E conn q srv)"
| "serve parse srv (E, conn, ReqContinue q) = served (handleRunContinue E conn q srv)"
| "serve parse srv (E, conn, ReqFork q) = served (handleRunFork E conn q srv)"
| "serve parse srv (E, conn, ReqEvents q) = served (handleRunEvents E conn q srv)"
| "serve parse srv (E, conn, ReqPermissions q) = served (handleRunPermissions E parse conn q srv)"
| "serve parse srv (E, conn, ReqResolvePermission q) =
     served (handleRunResolvePermission E conn q srv)"
| "serve parse srv (E, conn, ReqHeartbeat q) = served (handleRunHeartbeat E conn q srv)"

subsection \<open>What a handler does to the database\<close>

text \<open>
  The events of the handlers carry the status the run has after them, and an event of a run that
  is over changes neither its status nor its stage nor its end.  The attachment is written only with
  an event that says so, and an attach only over an attachment that is free or the caller's own.
\<close>

definition attachable :: "Conn \<Rightarrow> Run \<Rightarrow> bool" where
  "attachable conn r = (run_AttachmentState r \<noteq> RunAttachmentAttached \<or>
     run_AttachedConnectionID r = [] \<or> run_AttachedConnectionID r = conn_ID conn)"

definition faithful_update :: "Conn \<Rightarrow> Run \<Rightarrow> RunEvent \<Rightarrow> RunStateUpdate \<Rightarrow> bool" where
  "faithful_update conn r ev u =
     ((upd_AttachmentState u = None \<and> upd_AttachedConnectionID u = None \<or>
       evt_Type ev = EventRunDetached \<or>
       attachable conn r \<and> upd_AttachmentState u = Some RunAttachmentAttached \<and>
         upd_AttachedConnectionID u = Some (conn_ID conn)) \<and>
      evt_Status ev = (case upd_Status u of None \<Rightarrow> run_Status r | Some st \<Rightarrow> st) \<and>
      (isTerminalRunStatus (run_Status r) \<longrightarrow>
         upd_Status u = None \<and> upd_Stage u = None \<and> upd_TerminalAt u = None))"

inductive run_effect :: "store_env \<Rightarrow> Conn \<Rightarrow> db \<Rightarrow> db \<Rightarrow> bool" for E conn where
  stay: "run_effect E conn d d"
| append: "find_run d (run_ID r) = Some r \<Longrightarrow> run_UserID r = conn_UserID conn \<Longrightarrow>
    faithful_update conn r ev u \<Longrightarrow> AppendRunEvent E (run_ID r) ev u d = (d', res) \<Longrightarrow>
    run_effect E conn d d'"
| create: "run_Status r0 \<noteq> [] \<Longrightarrow> evt_Status ev = run_Status r0 \<Longrightarrow>
    CreateRun E r0 ev cp d = (d', res) \<Longrightarrow> run_effect E conn d d'"

inductive_cases run_effectE: "run_effect E conn d d'"

lemma getAuthorizedRun_Inr:
  "getAuthorizedRun E conn rid srv = Inr r \<Longrightarrow>
     find_run (sv_db srv) (run_ID r) = Some r \<and> run_ID r = rid \<and> run_UserID r = conn_UserID conn"
  by (auto simp: getAuthorizedRun_def GetRun_def split: if_splits option.splits sum.splits
      dest: find_run_Some)

text \<open>The opening of a handler either ends the request or hands over a run of the caller.\<close>

lemma with_run_cases:
  assumes "with_run E conn m rid params srv k = h"
  obtains e where "h = (srv, [], Inl e)"
  | q r where "params = Inr q" "find_run (sv_db srv) (run_ID r) = Some r" "run_ID r = rid q"
      "run_UserID r = conn_UserID conn" "h = k q r"
proof (cases params)
  case (Inl e)
  with assms show ?thesis
    by (intro that(1) [of "transportInvalidParams (''decode '' @ m @ '': '' @ e)"])
      (simp add: with_run_def)
next
  case (Inr req)
  show ?thesis
  proof (cases "getAuthorizedRun E conn (rid req) srv")
    case (Inl e)
    with assms Inr show ?thesis by (intro that(1) [of e]) (simp add: with_run_def)
  next
    case (Inr r)
    with assms \<open>params = Inr req\<close> getAuthorizedRun_Inr [OF Inr] show ?thesis
      by (intro that(2) [of req r]) (auto simp: with_run_def)
  qed
qed

lemma with_run_effect:
  assumes "\<And>q r. find_run (sv_db srv) (run_ID r) = Some r \<Longrightarrow> run_UserID r = conn_UserID conn \<Longrightarrow>
      P (sv_db (fst (k q r)))"
    and "P (sv_db srv)"
  shows "P (sv_db (fst (with_run E conn m rid params srv k)))"
  by (rule with_run_cases [OF refl, of E conn m rid params srv k]) (auto simp: assms)

lemma createRunRecord_effect:
  assumes "opt_Status opts \<noteq> []"
  shows "run_effect E conn (sv_db srv) (sv_db (fst (createRunRecord E sess opts srv)))"
proof -
  have "run_Status (new_run E sess key opts) \<noteq> []"
    "evt_Status (started_event E (new_run E sess key opts)) = run_Status (new_run E sess key opts)" for key
    using assms by (simp_all add: new_run_def started_event_def)
  then show ?thesis
    by (auto simp: createRunRecord_def Let_def split: sum.splits prod.splits
        intro: run_effect.intros)
qed

lemmas terminal_defs = isTerminalRunStatus_def run_status_defs
lemmas update_defs = attachable_def faithful_update_def no_update_def plain_event_def

lemma handleRunCreate_effect: "run_effect E conn (sv_db srv) (sv_db (fst (handleRunCreate E conn q srv)))"
proof -
  have "run_effect E conn (sv_db srv) (sv_db (fst (createRunRecord E sess
      \<lparr>opt_IdempotencyKey = k, opt_WorkflowType = w, opt_Title = t, opt_ParentRunID = p,
       opt_Status = RunStatusQueued, opt_AttachmentState = a, opt_AttachedConnectionID = c\<rparr> srv)))"
    for sess k w t p a c
    by (rule createRunRecord_effect) (simp add: RunStatusQueued_def)
  then show ?thesis
    by (auto simp: handleRunCreate_def split: sum.splits option.splits prod.splits
        intro: run_effect.stay) (metis fst_conv)+
qed

lemma handleRunFork_effect: "run_effect E conn (sv_db srv) (sv_db (fst (handleRunFork E conn q srv)))"
  unfolding handleRunFork_def
proof (rule with_run_effect [where P = "run_effect E conn (sv_db srv)"])
  fix q and r :: Run
  let ?opts = "\<lparr>opt_IdempotencyKey = ''fork:'' @ run_ID r @ '':'' @ env_uuid E 4,
    opt_WorkflowType = run_WorkflowType r, opt_Title = run_Title r, opt_ParentRunID = run_ID r,
    opt_Status = RunStatusQueued, opt_AttachmentState = RunAttachmentDetached,
    opt_AttachedConnectionID = []\<rparr>"
  have "run_effect E conn (sv_db srv) (sv_db (fst (createRunRecord E (session_of_run r) ?opts srv)))"
    by (rule createRunRecord_effect) (simp add: RunStatusQueued_def)
  then show "run_effect E conn (sv_db srv) (sv_db (fst (case createRunRecord E (session_of_run r) ?opts srv of
      (srv', out, Inl e) \<Rightarrow> (srv', out, Inl (transportInternal ''fork run'' e))
    | (srv', out, Inr child) \<Rightarrow> (srv', out, Inr \<lparr>rcr_RunID = run_ID child, rcr_Accepted = True,
        rcr_Status = run_Status child, rcr_Run = Some (runSummary E child), rcr_Message = []\<rparr>))))"
    by (auto split: prod.splits sum.splits)
qed (rule run_effect.stay)

lemma read_only_handlers:
  "fst (handleRunList E conn q1 srv) = srv"
  "fst (handleRunDetails E conn q2 srv) = srv"
  "fst (handleRunRetry E conn q3 srv) = srv"
  "fst (handleRunContinue E conn q3 srv) = srv"
  "fst (handleRunEvents E conn q4 srv) = srv"
  "fst (handleRunPermissions E parse conn q5 srv) = srv"
  by (auto simp: handleRunList_def handleRunDetails_def handleRunRetry_def handleRunContinue_def
      handleRunEvents_def handleRunPermissions_def with_run_def split: sum.splits)

text \<open>A handler that appends one event to the run it addresses.\<close>

lemma append_effect:
  assumes "find_run (sv_db srv) (run_ID r) = Some r" "run_UserID r = conn_UserID conn"
    and "faithful_update conn r ev u"
  shows "run_effect E conn (sv_db srv) (fst (AppendRunEvent E (run_ID r) ev u (sv_db srv)))"
  using run_effect.append [OF assms surjective_pairing] .

lemma handleRunAttach_effect: "run_effect E conn (sv_db srv) (sv_db (fst (handleRunAttach E conn q srv)))"
  unfolding handleRunAttach_def
proof (rule with_run_effect [where P = "run_effect E conn (sv_db srv)"], goal_cases)
  case (1 q r)
  note a = append_effect [OF 1, of "plain_event E EventRunAttached (run_Stage r) (run_Status r) None"
    "no_update\<lparr>upd_AttachmentState := Some RunAttachmentAttached,
               upd_AttachedConnectionID := Some (conn_ID conn)\<rparr>" E]
  show ?case using a
    by (auto simp: update_defs Let_def split: prod.splits sum.splits intro: run_effect.stay)
qed (rule run_effect.stay)

lemma handleRunDetach_effect: "run_effect E conn (sv_db srv) (sv_db (fst (handleRunDetach E conn q srv)))"
  unfolding handleRunDetach_def
proof (rule with_run_effect [where P = "run_effect E conn (sv_db srv)"], goal_cases)
  case (1 q r)
  note a = append_effect [OF 1, of "plain_event E EventRunDetached (run_Stage r) (run_Status r) None"
    "no_update\<lparr>upd_AttachmentState := Some RunAttachmentDetached, upd_AttachedConnectionID := Some []\<rparr>" E]
  show ?case using a
    by (auto simp: update_defs Let_def split: prod.splits sum.splits intro: run_effect.stay)
qed (rule run_effect.stay)

lemma handleRunCancel_effect: "run_effect E conn (sv_db srv) (sv_db (fst (handleRunCancel E conn q srv)))"
  unfolding handleRunCancel_def
proof (rule with_run_effect [where P = "run_effect E conn (sv_db srv)"], goal_cases)
  case (1 q r)
  note a = append_effect [OF 1, of "(plain_event E EventRunCancelled (run_Stage r) RunStatusCancelled None)
      \<lparr>evt_Reason := ctl_Reason q\<rparr>"
    "no_update\<lparr>upd_Status := Some RunStatusCancelled, upd_Stage := Some (run_Stage r),
       upd_TerminalAt := Some (env_now E), upd_Checkpoint := Some (new_checkpoint E (run_Stage r)
         RunStatusCancelled (ctl_Reason q) [] [])\<rparr>" E]
  show ?case using a
    by (auto simp: update_defs Let_def split: prod.splits sum.splits intro: run_effect.stay)
qed (rule run_effect.stay)

lemma handleRunResolvePermission_effect:
  "run_effect E conn (sv_db srv) (sv_db (fst (handleRunResolvePermission E conn q srv)))"
  unfolding handleRunResolvePermission_def
proof (rule with_run_effect [where P = "run_effect E conn (sv_db srv)"], goal_cases)
  case (1 q r)
  note a = append_effect [OF 1, of "plain_event E EventRunUnblocked (run_Stage r) RunStatusRunning
      (Some (json_object [(''decision'', json_string (rrp_Decision q)),
                          (''request_id'', json_string (rrp_RequestID q))]))"
    "no_update\<lparr>upd_Status := Some RunStatusRunning, upd_Stage := Some (run_Stage r),
       upd_Checkpoint := Some (new_checkpoint E (run_Stage r) RunStatusRunning [] [] [])\<rparr>" E]
  show ?case using a
    by (auto simp: update_defs Let_def split: prod.splits sum.splits intro: run_effect.stay)
qed (rule run_effect.stay)

lemma handleRunHeartbeat_effect:
  "run_effect E conn (sv_db srv) (sv_db (fst (handleRunHeartbeat E conn q srv)))"
  unfolding handleRunHeartbeat_def
proof (rule with_run_effect [where P = "run_effect E conn (sv_db srv)"], goal_cases)
  case (1 q r)
  let ?stage = "if rh_Stage q \<noteq> [] then rh_Stage q else run_Stage r"
  note a = append_effect [OF 1, of "plain_event E EventRunProgress ?stage (run_Status r)
      (Some (json_object
                [(''host_fingerprint'', json_string (rh_HostFingerprint q)),
                 (''last_observed_seq'', itoa (rh_LastObservedSeq q)),
                 (''stage'', json_string ?stage)]))" no_update E]
  show ?case using a
    by (auto simp: update_defs Let_def split: prod.splits sum.splits intro: run_effect.stay)
qed (rule run_effect.stay)

lemma serve_effect: "run_effect E conn (sv_db srv) (sv_db (fst (serve parse srv (E, conn, q))))"
  by (cases q)
    (simp_all add: read_only_handlers run_effect.stay handleRunCreate_effect handleRunFork_effect
      handleRunAttach_effect handleRunDetach_effect handleRunCancel_effect
      handleRunResolvePermission_effect handleRunHeartbeat_effect)

end
