(* ===== verification/Run_Props.thy ===== *)
theory Run_Props
  imports Run_Machine
begin

text \<open>
  Properties of the run services over whole request sequences: consistency, isolation of users,
  finality of runs that are over, append-only logs that agree with the runs' status, and replay.
\<close>

subsection \<open>Rows after an append and after a creation\<close>

lemma find_run_map:
  assumes "db_runs d' = map (\<lambda>r. if run_ID r = x then f r else r) (db_runs d)"
    and "\<And>r. run_ID (f r) = run_ID r"
  shows "find_run d' rid = (if rid = x then map_option f (find_run d rid) else find_run d rid)"
proof -
  have "find (\<lambda>r. run_ID r = rid) (map (\<lambda>r. if run_ID r = x then f r else r) xs) =
      (if rid = x then map_option f (find (\<lambda>r. run_ID r = rid) xs)
       else find (\<lambda>r. run_ID r = rid) xs)" for xs
    using assms(2) by (induction xs) auto
  then show ?thesis by (simp add: find_run_def assms(1))
qed

lemma AppendRunEvent_row:
  assumes a: "AppendRunEvent E x ev u d = (d', Inr n)" and r: "find_run d x = Some r"
  obtains r' where "find_run d' x = Some r'" "run_LastEventSeq r' = n" "n = run_LastEventSeq r + 1"
    "run_UserID r' = run_UserID r" "run_SessionID r' = run_SessionID r"
    "run_Status r' = (case upd_Status u of None \<Rightarrow> run_Status r | Some s \<Rightarrow> s)"
    "run_Stage r' = (case upd_Stage u of None \<Rightarrow> run_Stage r | Some s \<Rightarrow> s)"
    "run_AttachmentState r' = (case upd_AttachmentState u of None \<Rightarrow> run_AttachmentState r | Some s \<Rightarrow> s)"
    "run_AttachedConnectionID r' =
       (case upd_AttachedConnectionID u of None \<Rightarrow> run_AttachedConnectionID r | Some s \<Rightarrow> s)"
    "run_TerminalAt r' = (case upd_TerminalAt u of None \<Rightarrow> run_TerminalAt r | Some t \<Rightarrow> Some t)"
    "\<And>rid. rid \<noteq> x \<Longrightarrow> find_run d' rid = find_run d rid"
proof -
  from a obtain r0 u' cps where
    r0: "find_run d x = Some r0" "n = run_LastEventSeq r0 + 1" and
    u': "u' = u \<or> (\<exists>c. u' = u\<lparr>upd_LastCheckpointID := Some c\<rparr>)" and
    d': "d' = d\<lparr>db_events := db_events d @ [stamp E x n ev],
        db_checkpoints := db_checkpoints d @ cps,
        db_runs := map (\<lambda>r. if run_ID r = x
          then update_run_row n u' (evt_CreatedAt (stamp E x n ev)) r else r) (db_runs d),
        db_attachments := (if attaches u
          then map (\<lambda>a. if att_RunID a = x
                 then update_attachment_row u (evt_CreatedAt (stamp E x n ev)) a else a)
                 (db_attachments d)
          else db_attachments d)\<rparr>"
    by (rule AppendRunEvent_Inr)
  let ?f = "update_run_row n u' (evt_CreatedAt (stamp E x n ev))"
  have uu: "upd_Status u' = upd_Status u" "upd_Stage u' = upd_Stage u"
    "upd_AttachmentState u' = upd_AttachmentState u" "upd_TerminalAt u' = upd_TerminalAt u"
    "upd_AttachedConnectionID u' = upd_AttachedConnectionID u" using u' by auto
  have f: "find_run d' rid = (if rid = x then map_option ?f (find_run d rid) else find_run d rid)" for rid
    by (rule find_run_map) (simp_all add: d')
  show ?thesis
    by (rule that [of "?f r"]) (use r r0 f in \<open>simp_all add: uu update_run_row_cols\<close>)
qed

lemma normalizeRunForCreate_cols:
  assumes "normalizeRunForCreate E r0 = Inr r"
  shows "run_Status r = OrElseS (run_Status r0) RunStatusQueued"
    "run_AttachmentState r = OrElseS (run_AttachmentState r0) RunAttachmentDetached"
    "run_ID r = OrElseS (run_ID r0) (''run-'' @ env_uuid E 0)"
    "run_UserID r = run_UserID r0" "run_SessionID r = run_SessionID r0"
    "run_Project r = run_Project r0" "run_IdempotencyKey r = run_IdempotencyKey r0"
    "run_TerminalAt r = run_TerminalAt r0"
  using assms by (auto simp: normalizeRunForCreate_def Let_def split: if_splits)

text \<open>The row a creation leaves, whatever statements its middle part adds for turns.\<close>

lemma create_tx_row:
  assumes "touches_turns extra" "create_run_tx E r ev cp extra d = (d', Inr r')"
    and "normalizeRunForCreate E r0 = Inr r"
  shows "db_runs d' = db_runs d @ [r']" "\<not> has_run d (run_ID r')"
    "db_events d' = db_events d @ [normalizeInitialEvent r' ev]"
    "run_LastEventSeq r' = 1" "\<And>rid. has_run d rid \<Longrightarrow> find_run d' rid = find_run d rid"
    "run_Status r0 \<noteq> [] \<Longrightarrow> run_Status r' = run_Status r0"
    "run_AttachmentState r0 \<noteq> [] \<Longrightarrow> run_AttachmentState r' = run_AttachmentState r0"
    "run_UserID r' = run_UserID r0" "run_SessionID r' = run_SessionID r0"
    "run_Project r' = run_Project r0" "run_IdempotencyKey r' = run_IdempotencyKey r0"
    "run_ID r0 \<noteq> [] \<Longrightarrow> run_ID r' = run_ID r0"
proof -
  note n = normalizeRunForCreate_cols [OF assms(3)]
  obtain c :: RunCheckpoint and a :: AttachmentRow where
    t: "r' = r\<lparr>run_LastEventSeq := 1, run_LastCheckpointID := cp_ID c\<rparr>" "\<not> has_run d (run_ID r)"
      "db_runs d' = db_runs d @ [r']" "db_events d' = db_events d @ [normalizeInitialEvent r ev]"
      "att_mirrors r a"
    by (rule create_run_tx_Inr [OF assms(1,2)]) (rule that; assumption)
  have "normalizeInitialEvent r' ev = normalizeInitialEvent r ev"
    by (simp add: t(1) normalizeInitialEvent_def)
  then show "db_runs d' = db_runs d @ [r']" "\<not> has_run d (run_ID r')"
    "db_events d' = db_events d @ [normalizeInitialEvent r' ev]"
    "run_LastEventSeq r' = 1"
    "run_Status r0 \<noteq> [] \<Longrightarrow> run_Status r' = run_Status r0"
    "run_AttachmentState r0 \<noteq> [] \<Longrightarrow> run_AttachmentState r' = run_AttachmentState r0"
    "run_UserID r' = run_UserID r0" "run_SessionID r' = run_SessionID r0"
    "run_Project r' = run_Project r0" "run_IdempotencyKey r' = run_IdempotencyKey r0"
    "run_ID r0 \<noteq> [] \<Longrightarrow> run_ID r' = run_ID r0"
    using t n by (simp_all add: OrElseS_def)
  show "find_run d' rid = find_run d rid" if "has_run d rid" for rid
  proof -
    have "find P (xs @ ys) = (case find P xs of None \<Rightarrow> find P ys | Some x \<Rightarrow> Some x)"
      for P :: "Run \<Rightarrow> bool" and xs ys by (induction xs) auto
    moreover have "find_run d rid \<noteq> None" using that by (simp add: find_run_None)
    ultimately show ?thesis by (auto simp: find_run_def t(3) split: option.splits)
  qed
qed

lemma CreateRun_row:
  assumes "CreateRun E r0 ev cp d = (d', Inr r')"
  shows "db_runs d' = db_runs d @ [r']" "\<not> has_run d (run_ID r')"
    "db_events d' = db_events d @ [normalizeInitialEvent r' ev]"
    "run_LastEventSeq r' = 1" "\<And>rid. has_run d rid \<Longrightarrow> find_run d' rid = find_run d rid"
    "run_Status r0 \<noteq> [] \<Longrightarrow> run_Status r' = run_Status r0"
    "run_AttachmentState r0 \<noteq> [] \<Longrightarrow> run_AttachmentState r' = run_AttachmentState r0"
    "run_UserID r' = run_UserID r0" "run_SessionID r' = run_SessionID r0"
    "run_Project r' = run_Project r0" "run_IdempotencyKey r' = run_IdempotencyKey r0"
    "run_ID r0 \<noteq> [] \<Longrightarrow> run_ID r' = run_ID r0"
proof -
  from assms obtain r where r: "create_run_tx E r ev cp no_statement d = (d', Inr r')" "normalizeRunForCreate E r0 = Inr r"
    by (auto simp: CreateRun_def split: sum.splits)
  note row = create_tx_row [OF touches_turns_none r]
  show "db_runs d' = db_runs d @ [r']" "\<not> has_run d (run_ID r')"
    "db_events d' = db_events d @ [normalizeInitialEvent r' ev]"
    "run_LastEventSeq r' = 1" "\<And>rid. has_run d rid \<Longrightarrow> find_run d' rid = find_run d rid"
    "run_Status r0 \<noteq> [] \<Longrightarrow> run_Status r' = run_Status r0"
    "run_AttachmentState r0 \<noteq> [] \<Longrightarrow> run_AttachmentState r' = run_AttachmentState r0"
    "run_UserID r' = run_UserID r0" "run_SessionID r' = run_SessionID r0"
    "run_Project r' = run_Project r0" "run_IdempotencyKey r' = run_IdempotencyKey r0"
    "run_ID r0 \<noteq> [] \<Longrightarrow> run_ID r' = run_ID r0"
    using row by simp_all
qed

lemma CreateRunWithTurn_row:
  assumes "CreateRunWithTurn E r0 ev cp t role n h d = (d', Inr r')"
  obtains r extra where "touches_turns extra" "create_run_tx E r ev cp extra d = (d', Inr r')"
    "normalizeRunForCreate E r0 = Inr r"
proof -
  from assms obtain tu r where tu: "t = Some tu" "normalizeRunForCreate E r0 = Inr r"
    by (auto simp: CreateRunWithTurn_def split: option.splits sum.splits)
  show ?thesis
    by (rule that [OF touches_turns_foreground assms [unfolded CreateRunWithTurn_def tu, simplified] tu(2)])
qed

lemma AppendRunEvent_others:
  assumes "AppendRunEvent E x ev u d = (d', Inr n)" "rid \<noteq> x"
  shows "find_run d' rid = find_run d rid"
proof -
  from assms(1) obtain r where "find_run d x = Some r" by (rule AppendRunEvent_Inr)
  from AppendRunEvent_row [OF assms(1) this] assms(2) show ?thesis by metis
qed

lemma AppendRunEvent_error: "AppendRunEvent E x ev u d = (d', Inl e) \<Longrightarrow> d' = d"
  unfolding AppendRunEvent_def by (erule run_tx_error)

lemma create_run_tx_error: "create_run_tx E r ev cp extra d = (d', Inl e) \<Longrightarrow> d' = d"
  unfolding create_run_tx_def Let_def by (erule run_tx_error)

lemma CreateRun_error: "CreateRun E r0 ev cp d = (d', Inl e) \<Longrightarrow> d' = d"
  by (auto simp: CreateRun_def dest: create_run_tx_error split: sum.splits)

text \<open>The cases of an effect: nothing, one event of the caller's run, one new run.\<close>

lemma run_effect_cases:
  assumes "run_effect E conn d d'"
  obtains "d' = d"
  | r ev u n where "find_run d (run_ID r) = Some r" "run_UserID r = conn_UserID conn"
      "faithful_update conn r ev u" "AppendRunEvent E (run_ID r) ev u d = (d', Inr n)"
  | r0 ev cp r' where "run_Status r0 \<noteq> []" "evt_Status ev = run_Status r0"
      "CreateRun E r0 ev cp d = (d', Inr r')"
proof -
  note rules = that
  from assms show thesis
  proof (rule run_effectE)
    assume "d' = d"
    then show thesis by (rule rules(1))
  next
    fix r ev u res
    assume "find_run d (run_ID r) = Some r" "run_UserID r = conn_UserID conn"
      "faithful_update conn r ev u" "AppendRunEvent E (run_ID r) ev u d = (d', res)"
    then show thesis
      using rules(1) rules(2) [of r ev u] AppendRunEvent_error by (cases res) blast+
  next
    fix r0 ev cp res
    assume "run_Status r0 \<noteq> []" "evt_Status ev = run_Status r0" "CreateRun E r0 ev cp d = (d', res)"
    then show thesis
      using rules(1) rules(3) [of r0 ev cp] CreateRun_error by (cases res) blast+
  qed
qed

lemma effect_inv: "run_effect E conn d d' \<Longrightarrow> store_inv d \<Longrightarrow> store_inv d'"
  by (erule run_effectE) (auto dest: run_writers_inv)

lemma effect_log:
  assumes "run_effect E conn d d'"
  shows "\<exists>rs. events_of d' rid = events_of d rid @ rs"
  using assms
proof (cases rule: run_effect_cases)
  case (2 r ev u n)
  then show ?thesis by (simp add: events_of_Append)
next
  case (3 r0 ev cp r')
  then show ?thesis by (simp add: events_of_def CreateRun_row(3))
qed simp

lemma effect_foreign:
  assumes "run_effect E conn d d'" "find_run d rid = Some r" "run_UserID r \<noteq> conn_UserID conn"
  shows "find_run d' rid = Some r \<and> events_of d' rid = events_of d rid"
  using assms(1)
proof (cases rule: run_effect_cases)
  case (2 x ev u n)
  then have "rid \<noteq> run_ID x" using assms(2,3) by auto
  then show ?thesis
    using assms(2) events_of_Append [OF 2(4)] AppendRunEvent_others [OF 2(4)] by simp
next
  case (3 r0 ev cp r')
  have h: "has_run d rid" using assms(2) by (metis find_run_None option.distinct(1))
  then have "run_ID r' \<noteq> rid" using CreateRun_row(2) [OF 3(3)] by blast
  with h show ?thesis using assms(2) CreateRun_row(3,5) [OF 3(3)] by (simp add: events_of_def)
qed (simp add: assms(2))

lemma effect_terminal:
  assumes "run_effect E conn d d'" "find_run d rid = Some r" "isTerminalRunStatus (run_Status r)"
  shows "\<exists>r'. find_run d' rid = Some r' \<and> run_Status r' = run_Status r \<and> run_Stage r' = run_Stage r \<and>
    run_TerminalAt r' = run_TerminalAt r \<and> run_UserID r' = run_UserID r"
  using assms(1)
proof (cases rule: run_effect_cases)
  case (2 x ev u n)
  show ?thesis
  proof (cases "rid = run_ID x")
    case True
    then have x: "x = r" using 2(1) assms(2) by simp
    from AppendRunEvent_row [OF 2(4,1)] obtain r' where "find_run d' (run_ID x) = Some r'"
      "run_UserID r' = run_UserID x"
      "run_Status r' = (case upd_Status u of None \<Rightarrow> run_Status x | Some s \<Rightarrow> s)"
      "run_Stage r' = (case upd_Stage u of None \<Rightarrow> run_Stage x | Some s \<Rightarrow> s)"
      "run_TerminalAt r' = (case upd_TerminalAt u of None \<Rightarrow> run_TerminalAt x | Some t \<Rightarrow> Some t)"
      by blast
    then show ?thesis using 2(3) assms(3) True x by (simp add: faithful_update_def)
  next
    case False
    then show ?thesis using assms(2) AppendRunEvent_others [OF 2(4)] by simp
  qed
next
  case (3 r0 ev cp r')
  have h: "has_run d rid" using assms(2) by (metis find_run_None option.distinct(1))
  then show ?thesis using assms(2) CreateRun_row(5) [OF 3(3)] by simp
qed (simp add: assms(2))

subsection \<open>The log as the specification of the status\<close>

text \<open>The status a client computes from the events it has read: that of the last one.\<close>

definition replay_status :: "RunEvent list \<Rightarrow> string option" where
  "replay_status es = (if es = [] then None else Some (evt_Status (last es)))"

definition log_status_agrees :: "db \<Rightarrow> bool" where
  "log_status_agrees d =
     (\<forall>rid r. find_run d rid = Some r \<longrightarrow> replay_status (events_of d rid) = Some (run_Status r))"

lemma append_status:
  assumes a: "AppendRunEvent E x ev u d = (d', Inr n)" and x: "find_run d x = Some r"
    and s: "evt_Status ev = (case upd_Status u of None \<Rightarrow> run_Status r | Some st \<Rightarrow> st)"
    and l: "log_status_agrees d"
  shows "log_status_agrees d'"
  unfolding log_status_agrees_def
proof (intro allI impI)
  fix rid r1
  assume r: "find_run d' rid = Some r1"
  show "replay_status (events_of d' rid) = Some (run_Status r1)"
  proof (cases "rid = x")
    case True
    from AppendRunEvent_row [OF a x] obtain r' where "find_run d' x = Some r'"
      "run_Status r' = (case upd_Status u of None \<Rightarrow> run_Status r | Some s \<Rightarrow> s)" by metis
    with True r s show ?thesis by (simp add: events_of_Append [OF a] replay_status_def stamp_def)
  next
    case False
    with r l AppendRunEvent_others [OF a False] show ?thesis
      by (simp add: events_of_Append [OF a] log_status_agrees_def)
  qed
qed

lemma create_status:
  assumes x: "touches_turns extra" "create_run_tx E r ev cp extra d = (d', Inr r')"
      "normalizeRunForCreate E r0 = Inr r"
    and s: "run_Status r0 \<noteq> []" "evt_Status ev = run_Status r0"
    and i: "store_inv d" and l: "log_status_agrees d"
  shows "log_status_agrees d'"
proof -
  note c = create_tx_row [OF x]
  have none: "events_of d (run_ID r') = []"
    using c(2) i by (auto simp: store_inv_def run_db_inv_def events_of_def filter_empty_conv)
  have ev: "events_of d' rid = events_of d rid @
      (if rid = run_ID r' then [normalizeInitialEvent r' ev] else [])" for rid
    by (simp add: events_of_def c(3))
  have st: "evt_Status (normalizeInitialEvent r' ev) = run_Status r'"
    using s c(6) by (simp add: normalizeInitialEvent_def OrElseS_def)
  have new: "find_run d' (run_ID r') = Some r'"
  proof -
    have "find (\<lambda>x. run_ID x = run_ID r') (xs @ [r']) = Some r'"
      if "\<forall>x \<in> set xs. run_ID x \<noteq> run_ID r'" for xs using that by (induction xs) auto
    with c(2) show ?thesis by (simp add: find_run_def c(1) not_has_run)
  qed
  show ?thesis
    unfolding log_status_agrees_def
  proof (intro allI impI)
    fix rid r
    assume r: "find_run d' rid = Some r"
    show "replay_status (events_of d' rid) = Some (run_Status r)"
    proof (cases "rid = run_ID r'")
      case True
      with r new have "r = r'" by simp
      show ?thesis unfolding True \<open>r = r'\<close> by (simp add: ev none replay_status_def st)
    next
      case False
      from r have "has_run d' rid" by (metis find_run_None option.distinct(1))
      with False have "has_run d rid" by (simp add: has_run_def c(1))
      with False r l c(5) show ?thesis by (simp add: ev log_status_agrees_def)
    qed
  qed
qed

lemma effect_status:
  assumes e: "run_effect E conn d d'" and i: "store_inv d" and l: "log_status_agrees d"
  shows "log_status_agrees d'"
  using e
proof (cases rule: run_effect_cases)
  case (2 x ev u n)
  then show ?thesis using append_status [OF 2(4,1) _ l] by (simp add: faithful_update_def)
next
  case (3 r0 ev cp r')
  then obtain r where "create_run_tx E r ev cp no_statement d = (d', Inr r')" "normalizeRunForCreate E r0 = Inr r"
    by (auto simp: CreateRun_def split: sum.splits)
  then show ?thesis by (rule create_status [OF touches_turns_none _ _ 3(1,2) i l])
qed (simp add: l)

subsection \<open>The run services as a machine\<close>

definition runs_inv :: "Server \<Rightarrow> bool" where
  "runs_inv srv = (store_inv (sv_db srv) \<and> log_status_agrees (sv_db srv))"

interpretation runs: machine "serve parse" runs_inv for parse
proof
  show "runs_inv (fst (serve parse s e))" if "runs_inv s" for s e
    using that serve_effect [of "fst e" "fst (snd e)" s parse "snd (snd e)"]
    by (simp add: runs_inv_def) (metis effect_inv effect_status)
qed

definition empty_server :: Server where
  "empty_server = \<lparr>sv_db = empty_db, sv_runs = newRunRegistry\<rparr>"

text \<open>
  C27: Starting from a consistent store, any sequence of run requests, from any connections and with
  any statements failing, keeps the tables consistent and the log authoritative: the status of
  every run is the status that its event log ends with, so a client that has replayed the log
  knows the status.
\<close>

theorem run_log_determines_status:
  assumes "runs_inv srv" "srv' = fst (run_out (serve parse) srv reqs)"
  shows "store_inv (sv_db srv') \<and>
    (\<forall>rid r. find_run (sv_db srv') rid = Some r \<longrightarrow>
       replay_status (events_of (sv_db srv') rid) = Some (run_Status r))"
  using runs.run_inv [OF assms(1), of parse reqs] assms(2)
  by (simp add: runs_inv_def log_status_agrees_def)

lemma fst_run_out_Cons: "fst (run_out step s (e # es)) = fst (run_out step (fst (step s e)) es)"
  by (simp add: Let_def case_prod_beta)

text \<open>Induction over requests for facts about one step's effect.\<close>

lemma serve_induct:
  assumes step: "\<And>E conn d d'. (E, conn) \<in> (\<lambda>(E, conn, q). (E, conn)) ` set reqs \<Longrightarrow>
      run_effect E conn d d' \<Longrightarrow> P d \<Longrightarrow> P d'"
    and "P (sv_db srv)"
  shows "P (sv_db (fst (run_out (serve parse) srv reqs)))"
  using assms
proof (induction reqs arbitrary: srv)
  case Nil
  then show ?case by simp
next
  case (Cons e reqs)
  obtain E conn q where e: "e = (E, conn, q)" by (cases e) auto
  let ?srv = "fst (serve parse srv e)"
  have 1: "P (sv_db ?srv)"
    unfolding e by (rule Cons.prems(1) [OF _ serve_effect Cons.prems(2)]) (simp add: e)
  have "P (sv_db (fst (run_out (serve parse) ?srv reqs)))"
    by (rule Cons.IH [OF _ 1], rule Cons.prems(1)) auto
  then show ?case by (simp only: fst_run_out_Cons)
qed

text \<open>
  C28: A user's runs are out of reach of everybody else: over any sequence of requests by
  connections of other users, the row and the event log of a run stay exactly as they are.
\<close>

theorem foreign_runs_untouched:
  assumes "find_run (sv_db srv) rid = Some r"
    and "\<forall>(E, conn, q) \<in> set reqs. conn_UserID conn \<noteq> run_UserID r"
    and "srv' = fst (run_out (serve parse) srv reqs)"
  shows "find_run (sv_db srv') rid = Some r \<and>
    events_of (sv_db srv') rid = events_of (sv_db srv) rid"
  unfolding assms(3)
proof (rule serve_induct)
  fix E conn d d'
  assume "(E, conn) \<in> (\<lambda>(E, conn, q). (E, conn)) ` set reqs" "run_effect E conn d d'"
    "find_run d rid = Some r \<and> events_of d rid = events_of (sv_db srv) rid"
  moreover from this(1) assms(2) have "run_UserID r \<noteq> conn_UserID conn" by auto
  ultimately show "find_run d' rid = Some r \<and> events_of d' rid = events_of (sv_db srv) rid"
    using effect_foreign by metis
qed (simp add: assms(1))

text \<open>
  C29: A run that is completed, failed or cancelled stays so: no sequence of run requests, by its
  owner or anybody, changes its status, its stage or the time it ended.
\<close>

theorem terminal_run_is_final:
  assumes "find_run (sv_db srv) rid = Some r" "isTerminalRunStatus (run_Status r)"
    and "srv' = fst (run_out (serve parse) srv reqs)"
  shows "\<exists>r'. find_run (sv_db srv') rid = Some r' \<and> run_Status r' = run_Status r \<and>
    run_Stage r' = run_Stage r \<and> run_TerminalAt r' = run_TerminalAt r"
proof -
  have "\<exists>r'. find_run (sv_db srv') rid = Some r' \<and> run_Status r' = run_Status r \<and>
    run_Stage r' = run_Stage r \<and> run_TerminalAt r' = run_TerminalAt r"
    unfolding assms(3)
  proof (rule serve_induct)
    fix E conn d d'
    assume "run_effect E conn d d'" and "\<exists>r'. find_run d rid = Some r' \<and>
      run_Status r' = run_Status r \<and> run_Stage r' = run_Stage r \<and> run_TerminalAt r' = run_TerminalAt r"
    then show "\<exists>r'. find_run d' rid = Some r' \<and> run_Status r' = run_Status r \<and>
      run_Stage r' = run_Stage r \<and> run_TerminalAt r' = run_TerminalAt r"
      using effect_terminal assms(2) by metis
  qed (use assms(1) in blast)
  then show ?thesis .
qed

text \<open>
  C30: Logs are append-only: whatever a client has read of a run's events stays the beginning of
  the log under any sequence of run requests.
\<close>

theorem run_log_append_only:
  "\<exists>rs. events_of (sv_db (fst (run_out (serve parse) srv reqs))) rid = events_of (sv_db srv) rid @ rs"
proof (rule serve_induct [where P = "\<lambda>d. \<exists>rs. events_of d rid = events_of (sv_db srv) rid @ rs"])
  fix E conn d d'
  assume "run_effect E conn d d'" "\<exists>rs. events_of d rid = events_of (sv_db srv) rid @ rs"
  then show "\<exists>rs. events_of d' rid = events_of (sv_db srv) rid @ rs"
    using effect_log by (metis append_assoc)
qed simp

end
