(* ===== verification/Run_Requests.thy ===== *)
theory Run_Requests
  imports Run_Props
begin

text \<open>
  Properties of single run requests: replay by pages, idempotent creation, attachment, cancellation,
  permissions, and the accounting of model calls and tool results.
\<close>

subsection \<open>Reading events page by page\<close>

lemma ListRunEvents_page:
  assumes "run_db_inv d" "\<not> env_fault E S_ListEvents" "0 < n" "n \<le> 500" "0 \<le> c"
  shows "ListRunEvents E rid c (int n) d = Inr (take n (drop (nat c) (events_of d rid)))"
proof -
  have "ListRunEvents E rid c (int n) d = Inr (events_page d rid n c)"
    using assms(2) by (simp add: ListRunEvents_def events_page_def fault_free_def)
  then show ?thesis using run_log.page_drop [OF assms(1,3-5)] by simp
qed

lemma events_of_length:
  assumes "run_db_inv d" "find_run d rid = Some r"
  shows "int (length (events_of d rid)) = run_LastEventSeq r \<and> 1 \<le> run_LastEventSeq r"
proof -
  from find_run_Some [OF assms(2)] have r: "r \<in> set (db_runs d)" "run_ID r = rid" by auto
  with assms(1) have l: "map evt_Seq (events_of d rid) = [1..run_LastEventSeq r]" "1 \<le> run_LastEventSeq r"
    by (auto simp: run_db_inv_def log_ok_def run_row_ok_def)
  then have "length (events_of d rid) = length [1..run_LastEventSeq r]" by (metis length_map)
  with l(2) show ?thesis by simp
qed

lemma event_seq_nth:
  "run_db_inv d \<Longrightarrow> i < length (events_of d rid) \<Longrightarrow> evt_Seq (events_of d rid ! i) = int i + 1"
  by (rule run_log.seqno_nth)

text \<open>A client that follows the sequence numbers while the server says that there is more.\<close>

fun read_run_events ::
  "store_env \<Rightarrow> Conn \<Rightarrow> string \<Rightarrow> int \<Rightarrow> Server \<Rightarrow> nat \<Rightarrow> int \<Rightarrow> RunEventPayload list" where
  "read_run_events E conn rid n srv 0 c = []"
| "read_run_events E conn rid n srv (Suc fuel) c =
     (case snd (snd (handleRunEvents E conn
             (Inr \<lparr>re_RunID = rid, re_AfterSeq = c, re_Limit = n\<rparr>) srv)) of
        Inl e \<Rightarrow> []
      | Inr r \<Rightarrow> rer_Events r @
          (if rer_HasMore r then read_run_events E conn rid n srv fuel (rep_Seq (last (rer_Events r)))
           else []))"

text \<open>One reply, for a caller that owns the run and a cursor that is not negative.\<close>

lemma events_reply:
  assumes i: "run_db_inv (sv_db srv)" and r: "find_run (sv_db srv) rid = Some r"
    and o: "run_UserID r = conn_UserID conn" "rid \<noteq> []"
    and f: "\<not> env_fault E S_SelectRun" "\<not> env_fault E S_ListEvents"
    and n: "0 < n" "n \<le> 500" and c: "0 \<le> c"
  shows "\<exists>rep. handleRunEvents E conn (Inr \<lparr>re_RunID = rid, re_AfterSeq = c, re_Limit = int n\<rparr>) srv =
      (srv, [], Inr rep) \<and>
    rer_Events rep = map (protocolRunEvent E r) (take n (drop (nat c) (events_of (sv_db srv) rid))) \<and>
    rer_LatestSeq rep = run_LastEventSeq r \<and>
    rer_HasMore rep = (nat c + n < length (events_of (sv_db srv) rid)) \<and>
    rer_ReplayAvailable rep \<and> rer_Fidelity rep = RunReplayFull"
proof -
  let ?l = "events_of (sv_db srv) rid" and ?q = "\<lparr>re_RunID = rid, re_AfterSeq = c, re_Limit = int n\<rparr>"
  let ?p = "take n (drop (nat c) ?l)"
  have a: "getAuthorizedRun E conn rid srv = Inr r"
    using r o f by (simp add: getAuthorizedRun_def GetRun_def)
  have id: "run_ID r = rid" using find_run_Some [OF r] by simp
  note len = events_of_length [OF i r]
  have hd: "?p \<noteq> [] \<Longrightarrow> evt_Seq (hd ?p) = c + 1"
    using event_seq_nth [OF i, of "nat c" rid] c n(1) by (simp add: hd_drop_conv_nth)
  have empty: "?p = [] \<longleftrightarrow> run_LastEventSeq r \<le> c"
    using len n(1) c by auto
  have more: "(?p \<noteq> [] \<and> int (length ?p) + c < run_LastEventSeq r) = (nat c + n < length ?l)"
    using len n c by auto
  have av: "replayAvailable ?p c" 
    unfolding replayAvailable_def using hd by (metis order_refl)
  have "replayFidelity ?p c (run_LastEventSeq r) = RunReplayFull"
    using av empty by (auto simp: replayFidelity_def)
  with a id av more ListRunEvents_page [OF i f(2) n c, of rid] show ?thesis
    by (simp add: handleRunEvents_def with_run_def)
qed

text \<open>
  C37: A client that asks its run's events page by page, continuing after the last sequence number it
  received as long as the server reports more, reads the log from where it started to its end,
  every event once and in order, for every page size the store accepts.
\<close>

theorem run_events_pages_complete:
  assumes "run_db_inv (sv_db srv)" "find_run (sv_db srv) rid = Some r"
    and "run_UserID r = conn_UserID conn" "rid \<noteq> []"
    and "\<not> env_fault E S_SelectRun" "\<not> env_fault E S_ListEvents"
    and "0 < n" "n \<le> 500" "0 \<le> c" "length (events_of (sv_db srv) rid) \<le> nat c + fuel"
  shows "read_run_events E conn rid (int n) srv fuel c =
    map (protocolRunEvent E r) (drop (nat c) (events_of (sv_db srv) rid))"
  using assms(9,10)
proof (induction fuel arbitrary: c)
  case 0
  then show ?case by simp
next
  case (Suc fuel)
  let ?l = "events_of (sv_db srv) rid"
  obtain rep where rep: "handleRunEvents E conn
      (Inr \<lparr>re_RunID = rid, re_AfterSeq = c, re_Limit = int n\<rparr>) srv = (srv, [], Inr rep)"
    "rer_Events rep = map (protocolRunEvent E r) (take n (drop (nat c) ?l))"
    "rer_HasMore rep = (nat c + n < length ?l)"
    using events_reply [OF assms(1-8) Suc.prems(1)] by blast
  show ?case
  proof (cases "nat c + n < length ?l")
    case False
    with rep show ?thesis by simp
  next
    case True
    have ne: "take n (drop (nat c) ?l) \<noteq> []" using True assms(7) by auto
    have "last (take n (drop (nat c) ?l)) = ?l ! (nat c + n - 1)"
      using last_conv_nth [OF ne] True assms(7) by simp
    then have s: "rep_Seq (last (rer_Events rep)) = int (nat c + n)"
      using event_seq_nth [OF assms(1), of "nat c + n - 1" rid] True assms(7) ne
      by (simp add: rep(2) last_map protocolRunEvent_def of_nat_diff)
    have "read_run_events E conn rid (int n) srv fuel (int (nat c + n)) =
        map (protocolRunEvent E r) (drop (nat c + n) ?l)"
      using Suc.IH [of "int (nat c + n)", unfolded nat_int] Suc.prems(2) assms(7) by linarith
    moreover have "take n (drop (nat c) ?l) @ drop (nat c + n) ?l = drop (nat c) ?l"
      by (metis append_take_drop_id drop_drop add.commute)
    ultimately show ?thesis using True rep s
      by (simp del: of_nat_add add: map_append [symmetric])
  qed
qed

text \<open>
  Replay is never degraded: for every page size and every cursor that is not negative, a
  \<open>run.events\<close> reply says that replay is available in full, and it reports more events exactly when
  the log goes on after the page.
\<close>

theorem run_events_replay_full:
  assumes "run_db_inv (sv_db srv)" "find_run (sv_db srv) rid = Some r"
    and "run_UserID r = conn_UserID conn" "rid \<noteq> []"
    and "\<not> env_fault E S_SelectRun" "\<not> env_fault E S_ListEvents"
    and "0 < n" "n \<le> 500" "0 \<le> c"
  shows "\<exists>rep. handleRunEvents E conn (Inr \<lparr>re_RunID = rid, re_AfterSeq = c, re_Limit = int n\<rparr>) srv =
      (srv, [], Inr rep) \<and> rer_ReplayAvailable rep \<and> rer_Fidelity rep = RunReplayFull \<and>
    (rer_HasMore rep \<longleftrightarrow> c + int (length (rer_Events rep)) < run_LastEventSeq r \<and> rer_Events rep \<noteq> [])"
proof -
  obtain rep where rep: "handleRunEvents E conn
      (Inr \<lparr>re_RunID = rid, re_AfterSeq = c, re_Limit = int n\<rparr>) srv = (srv, [], Inr rep)"
    "rer_Events rep = map (protocolRunEvent E r) (take n (drop (nat c) (events_of (sv_db srv) rid)))"
    "rer_HasMore rep = (nat c + n < length (events_of (sv_db srv) rid))"
    "rer_ReplayAvailable rep" "rer_Fidelity rep = RunReplayFull"
    using events_reply [OF assms] by blast
  have "rer_HasMore rep \<longleftrightarrow> c + int (length (rer_Events rep)) < run_LastEventSeq r \<and> rer_Events rep \<noteq> []"
    using events_of_length [OF assms(1,2)] assms(7-9) by (auto simp: rep(2,3))
  with rep show ?thesis by blast
qed

subsection \<open>Attachment\<close>

definition attached_to :: "db \<Rightarrow> string \<Rightarrow> string \<Rightarrow> bool" where
  "attached_to d rid c = (\<exists>r. find_run d rid = Some r \<and>
     run_AttachmentState r = RunAttachmentAttached \<and> run_AttachedConnectionID r = c)"

lemma effect_attached:
  assumes e: "run_effect E conn d d'" and a: "attached_to d rid c" and c: "c \<noteq> []"
    and l: "events_of d' rid = events_of d rid @ rs" "\<forall>x \<in> set rs. evt_Type x \<noteq> EventRunDetached"
  shows "attached_to d' rid c"
  using e
proof (cases rule: run_effect_cases)
  case (2 x ev u n)
  show ?thesis
  proof (cases "rid = run_ID x")
    case True
    from AppendRunEvent_row [OF 2(4,1)] obtain r' where r': "find_run d' (run_ID x) = Some r'"
      "run_AttachmentState r' = (case upd_AttachmentState u of None \<Rightarrow> run_AttachmentState x | Some s \<Rightarrow> s)"
      "run_AttachedConnectionID r' =
         (case upd_AttachedConnectionID u of None \<Rightarrow> run_AttachedConnectionID x | Some s \<Rightarrow> s)"
      by metis
    have "rs = [stamp E (run_ID x) n ev]" using l(1) events_of_Append [OF 2(4), of rid] True by simp
    then have "evt_Type ev \<noteq> EventRunDetached" using l(2) by (simp add: stamp_def)
    with r' a c 2(1,3) True show ?thesis
      by (auto simp: attached_to_def faithful_update_def attachable_def)
  next
    case False
    then show ?thesis using a AppendRunEvent_others [OF 2(4) False] by (simp add: attached_to_def)
  qed
next
  case (3 r0 ev cp r')
  have "has_run d rid" using a by (metis attached_to_def find_run_None option.distinct(1))
  then show ?thesis using a CreateRun_row(5) [OF 3(3)] by (simp add: attached_to_def)
qed (simp add: a)

text \<open>
  C35: An attachment is exclusive: as long as nobody detaches the run, that is as long as its log
  gains no \<open>run.detached\<close> event, the connection it is attached to stays the only one, over any
  sequence of requests of any connections.
\<close>

theorem attachment_exclusive:
  assumes "attached_to (sv_db srv) rid c" "c \<noteq> []"
    and "srv' = fst (run_out (serve parse) srv reqs)"
    and "events_of (sv_db srv') rid = events_of (sv_db srv) rid @ rs"
    and "\<forall>e \<in> set rs. evt_Type e \<noteq> EventRunDetached"
  shows "attached_to (sv_db srv') rid c"
proof -
  let ?P = "\<lambda>d. \<exists>rs. events_of d rid = events_of (sv_db srv) rid @ rs \<and>
    ((\<forall>e \<in> set rs. evt_Type e \<noteq> EventRunDetached) \<longrightarrow> attached_to d rid c)"
  have "?P (sv_db srv')"
    unfolding assms(3)
  proof (rule serve_induct [where P = ?P])
    fix E conn d d'
    assume e: "run_effect E conn d d'" and p: "?P d"
    from p obtain rs where rs: "events_of d rid = events_of (sv_db srv) rid @ rs"
      "(\<forall>e \<in> set rs. evt_Type e \<noteq> EventRunDetached) \<longrightarrow> attached_to d rid c" by blast
    from effect_log [OF e] obtain xs where xs: "events_of d' rid = events_of d rid @ xs" by blast
    have "attached_to d' rid c" if "\<forall>e \<in> set (rs @ xs). evt_Type e \<noteq> EventRunDetached"
      using effect_attached [OF e _ assms(2) xs] rs(2) that by simp
    then show "?P d'" using rs(1) xs by (intro exI [of _ "rs @ xs"]) simp
  qed (use assms(1) in simp)
  then show ?thesis using assms(4,5) by auto
qed

subsection \<open>Idempotent creation\<close>

lemma CreateRun_sessions:
  assumes "CreateRun E r0 ev cp d = (d', res)"
  shows "db_sessions d' = db_sessions d"
proof (cases res)
  case (Inl e)
  with assms CreateRun_error show ?thesis by blast
next
  case (Inr r')
  with assms obtain r where "create_run_tx E r ev cp no_statement d = (d', Inr r')"
    by (auto simp: CreateRun_def split: sum.splits)
  then show ?thesis
    by (auto simp: create_run_tx_def no_statement_def Let_def tx_Inr insertRun_def
        insertAttachment_def insertRunEvent_def insertRunCheckpoint_def updateRunSeq_def split: if_splits)
qed

lemma find_key:
  assumes "distinct (map run_key (db_runs d))" "r \<in> set (db_runs d)"
  shows "find (\<lambda>x. run_key x = run_key r) (db_runs d) = Some r"
proof -
  have "find (\<lambda>x. run_key x = run_key r) xs = Some r"
    if "distinct (map run_key xs)" "r \<in> set xs" for xs
    using that by (induction xs) (auto simp: image_iff)
  with assms show ?thesis by blast
qed

text \<open>After a creation, the run with the key is the one it returned.\<close>

lemma createRunRecord_key:
  assumes i: "store_inv (sv_db srv)" and c: "createRunRecord E sess opts srv = (srv1, out, Inr r)"
    and k: "opt_IdempotencyKey opts \<noteq> []"
  shows "store_inv (sv_db srv1) \<and> db_sessions (sv_db srv1) = db_sessions (sv_db srv) \<and>
    sv_runs srv1 = sv_runs srv \<and> r \<in> set (db_runs (sv_db srv1)) \<and>
    run_key r = (sess_UserID sess, sess_Project sess, opt_IdempotencyKey opts)"
proof (cases "GetRunByIdempotency E (sess_UserID sess) (sess_Project sess) (opt_IdempotencyKey opts) (sv_db srv)")
  case (Inr existing)
  with c k have "srv1 = srv" "r = existing" by (simp_all add: createRunRecord_def)
  moreover from Inr have "existing \<in> set (db_runs (sv_db srv))"
    "run_key existing = (sess_UserID sess, sess_Project sess, opt_IdempotencyKey opts)"
    by (auto simp: GetRunByIdempotency_def find_Some_iff split: if_splits option.splits)
  ultimately show ?thesis using i by simp
next
  case (Inl e)
  let ?r = "new_run E sess (opt_IdempotencyKey opts) opts"
  from c k Inl obtain d ev cp where d: "CreateRun E ?r ev cp (sv_db srv) = (d, Inr r)"
    "srv1 = srv\<lparr>sv_db := d\<rparr>"
    by (auto simp: createRunRecord_def Let_def split: if_splits prod.splits sum.splits)
  note row = CreateRun_row [OF d(1)]
  have "store_inv d" using run_writers_inv(1) [OF i d(1)] .
  moreover have "run_key r = (sess_UserID sess, sess_Project sess, opt_IdempotencyKey opts)"
    using row(8,10,11) by (simp add: run_key_def new_run_def)
  ultimately show ?thesis using row(1) CreateRun_sessions [OF d(1)] by (simp add: d(2))
qed

text \<open>
  C36: Creating a run is idempotent: repeating a \<open>run.create\<close> with the same idempotency key returns
  the run of the first request, changes nothing and emits nothing, whatever identifiers and time the
  second request would have drawn.
\<close>

theorem run_create_idempotent:
  assumes "runs_inv srv" "handleRunCreate E conn (Inr req) srv = (srv1, out1, Inr s1)"
    and "rc_IdempotencyKey req \<noteq> []"
    and "\<not> env_fault E' S_SelectSession" "\<not> env_fault E' S_SelectRun"
  shows "\<exists>s2. handleRunCreate E' conn (Inr req) srv1 = (srv1, [], Inr s2) \<and>
    rs_RunID s2 = rs_RunID s1"
proof -
  let ?opts = "\<lparr>opt_IdempotencyKey = rc_IdempotencyKey req, opt_WorkflowType = rc_WorkflowType req,
    opt_Title = rc_Title req, opt_ParentRunID = rc_ParentRunID req, opt_Status = RunStatusQueued,
    opt_AttachmentState = RunAttachmentDetached, opt_AttachedConnectionID = []\<rparr>"
  from assms(2) obtain sess r where s: "rc_SessionID req \<noteq> []"
    "GetSession E (rc_SessionID req) (sv_db srv) = Inr sess" "verifySessionAccess conn sess = None"
    "createRunRecord E sess ?opts srv = (srv1, out1, Inr r)" "s1 = runSummary E r"
    by (auto simp: handleRunCreate_def split: if_splits sum.splits option.splits prod.splits)
  have "store_inv (sv_db srv)" using assms(1) by (simp add: runs_inv_def)
  from createRunRecord_key [OF this s(4)] assms(3) have k: "store_inv (sv_db srv1)"
    "db_sessions (sv_db srv1) = db_sessions (sv_db srv)" "r \<in> set (db_runs (sv_db srv1))"
    "run_key r = (sess_UserID sess, sess_Project sess, rc_IdempotencyKey req)" by simp_all
  have "GetSession E' (rc_SessionID req) (sv_db srv1) = Inr sess"
    using s(2) assms(4) k(2)
    by (auto simp: GetSession_def find_session_def split: if_splits option.splits)
  moreover have "distinct (map run_key (db_runs (sv_db srv1)))"
    using k(1) by (simp add: store_inv_def run_db_inv_def)
  then have "GetRunByIdempotency E' (sess_UserID sess) (sess_Project sess) (rc_IdempotencyKey req)
      (sv_db srv1) = Inr r"
    using find_key [OF _ k(3)] assms(5) by (simp add: GetRunByIdempotency_def k(4))
  then have "createRunRecord E' sess ?opts srv1 = (srv1, [], Inr r)"
    using assms(3) by (simp add: createRunRecord_def)
  ultimately show ?thesis using s(1,3,5)
    by (simp add: handleRunCreate_def runSummary_def Let_def)
qed

subsection \<open>Cancellation\<close>

text \<open>An append succeeds when no statement fails, the run exists and the update is well-formed.\<close>

lemma AppendRunEvent_ok:
  assumes i: "run_db_inv d" and r: "find_run d rid = Some r" and f: "\<And>st. \<not> env_fault E st"
    and u: "\<And>st. upd_Status u = Some st \<Longrightarrow> validRunStatuses st"
      "\<And>st. upd_Stage u = Some st \<Longrightarrow> validRunStages st"
    and c: "\<And>cp. upd_Checkpoint u = Some cp \<Longrightarrow> cp_RunID cp = [] \<and> cp_ID cp = [] \<and>
      ''cp-'' @ env_uuid E 2 \<notin> cp_ID ` set (db_checkpoints d)"
  shows "\<exists>d'. AppendRunEvent E rid ev u d = (d', Inr (run_LastEventSeq r + 1))"
proof -
  let ?n = "run_LastEventSeq r + 1" and ?ev = "stamp E rid (run_LastEventSeq r + 1) ev"
  have h: "has_run d rid" using r by (metis find_run_None option.distinct(1))
  have id: "evt_RunID ?ev = rid" "evt_Seq ?ev = ?n" by (simp_all add: stamp_def)
  have "evt_Seq e \<noteq> ?n" if "e \<in> set (events_of d rid)" for e
  proof -
    have "evt_Seq e \<in> set (map evt_Seq (events_of d rid))" using that by simp
    then show ?thesis unfolding run_log.log_seqno [OF i] using events_of_length [OF i r] by simp
  qed
  then have "(rid, ?n) \<notin> (\<lambda>e. (evt_RunID e, evt_Seq e)) ` set (db_events d)"
    by (force simp: events_of_def)
  with h f have 1: "insertRunEvent E ?ev d = Inr (d\<lparr>db_events := db_events d @ [?ev]\<rparr>)"
    by (simp add: insertRunEvent_def id exec_def)
  let ?d1 = "d\<lparr>db_events := db_events d @ [?ev]\<rparr>"
  obtain d2 u' where 2: "appendCheckpoint E rid ?n u ?d1 = (d2, Inr u')"
    "has_run d2 rid" "upd_Status u' = upd_Status u" "upd_Stage u' = upd_Stage u"
  proof (cases "upd_Checkpoint u")
    case None
    then show ?thesis using h by (intro that [of ?d1 u]) (simp_all add: appendCheckpoint_def has_run_def)
  next
    case (Some cp)
    let ?cp = "normalizeCheckpointForAppend E rid ?n cp"
    have "cp_ID ?cp = ''cp-'' @ env_uuid E 2" "cp_RunID ?cp = rid"
      using c [OF Some] by (simp_all add: normalizeCheckpointForAppend_def OrElseS_def)
    then have "insertRunCheckpoint E ?cp ?d1 = Inr (?d1\<lparr>db_checkpoints := db_checkpoints d @ [?cp]\<rparr>)"
      using c [OF Some] h f by (simp add: insertRunCheckpoint_def exec_def has_run_def)
    then show ?thesis using Some h
      by (intro that [of "?d1\<lparr>db_checkpoints := db_checkpoints d @ [?cp]\<rparr>"
            "u\<lparr>upd_LastCheckpointID := Some (cp_ID ?cp)\<rparr>"])
        (simp_all add: appendCheckpoint_def Let_def has_run_def)
  qed
  have v: "\<not> (case upd_Status u' of None \<Rightarrow> False | Some st \<Rightarrow> \<not> validRunStatuses st)"
    "\<not> (case upd_Stage u' of None \<Rightarrow> False | Some st \<Rightarrow> \<not> validRunStages st)"
    using u 2(3,4) by (simp_all split: option.splits)
  have "\<exists>d3. applyRunStateUpdate E rid ?n u' (evt_CreatedAt ?ev) d2 = (d3, Inr ())"
    unfolding applyRunStateUpdate_def using v 2(2) f by (simp only: if_False) (simp add: exec_def)
  then obtain d3 where 3: "applyRunStateUpdate E rid ?n u' (evt_CreatedAt ?ev) d2 = (d3, Inr ())" by blast
  show ?thesis
    unfolding AppendRunEvent_def
    by (intro exI [of _ d3]) (use f r 1 2(1) 3 in \<open>simp add: run_tx_def Let_def\<close>)
qed

lemma run_row_valid:
  "run_db_inv d \<Longrightarrow> find_run d rid = Some r \<Longrightarrow> validRunStatuses (run_Status r) \<and> validRunStages (run_Stage r)"
  by (auto dest!: find_run_Some simp: run_db_inv_def run_row_ok_def)

text \<open>
  Cancelling a run that is not over succeeds: its provider stream, if it has one, is cancelled
  exactly once and forgotten, the run is marked cancelled with its end, and the reply says so.
\<close>

theorem run_cancel_effect:
  assumes "run_db_inv (sv_db srv)" "find_run (sv_db srv) rid = Some r" "rid \<noteq> []"
    and "run_UserID r = conn_UserID conn" "\<not> isTerminalRunStatus (run_Status r)"
    and "\<forall>st. \<not> env_fault E st"
    and "''cp-'' @ env_uuid E 2 \<notin> cp_ID ` set (db_checkpoints (sv_db srv))"
    and "cancel_run rid (sv_runs srv) = (runs', cs, live)"
  shows "\<exists>d' msg r'. handleRunCancel E conn (Inr \<lparr>ctl_RunID = rid, ctl_Reason = why\<rparr>) srv =
      (srv\<lparr>sv_db := d', sv_runs := runs'\<rparr>, map CancelContext cs,
       Inr (control_reply r True RunStatusCancelled msg)) \<and>
    find_run d' rid = Some r' \<and> run_Status r' = RunStatusCancelled \<and>
    run_TerminalAt r' = Some (env_now E) \<and>
    events_of d' rid = events_of (sv_db srv) rid @ [last (events_of d' rid)] \<and>
    evt_Type (last (events_of d' rid)) = EventRunCancelled \<and>
    evt_Reason (last (events_of d' rid)) = why \<and> fst (snd (cancel_run rid runs')) = []"
proof -
  have id: "run_ID r = rid" using find_run_Some [OF assms(2)] by simp
  have a: "getAuthorizedRun E conn rid srv = Inr r"
    using assms(2-4,6) by (simp add: getAuthorizedRun_def GetRun_def)
  let ?ev = "(plain_event E EventRunCancelled (run_Stage r) RunStatusCancelled None)\<lparr>evt_Reason := why\<rparr>"
  let ?u = "no_update\<lparr>upd_Status := Some RunStatusCancelled, upd_Stage := Some (run_Stage r),
    upd_TerminalAt := Some (env_now E), upd_Checkpoint := Some (new_checkpoint E (run_Stage r)
      RunStatusCancelled why [] [])\<rparr>"
  have v: "validRunStages (run_Stage r)" using run_row_valid [OF assms(1,2)] by simp
  obtain d' where d': "AppendRunEvent E rid ?ev ?u (sv_db srv) = (d', Inr (run_LastEventSeq r + 1))"
    using AppendRunEvent_ok [OF assms(1,2), of E ?u ?ev] assms(6,7) v
    by (auto simp: no_update_def new_checkpoint_def validRunStatuses_def)
  from AppendRunEvent_row [OF d' assms(2)] obtain r' where r': "find_run d' rid = Some r'"
    "run_Status r' = RunStatusCancelled" "run_TerminalAt r' = Some (env_now E)" by auto
  have e: "events_of d' rid = events_of (sv_db srv) rid @ [stamp E rid (run_LastEventSeq r + 1) ?ev]"
    using events_of_Append [OF d'] by simp
  have "fst (snd (cancel_run rid runs')) = []"
    using assms(8) by (auto simp: cancel_run_def AList.delete_conv' split: option.splits)
  then show ?thesis
    using a d' r' e assms(5,8) id
    by (intro exI [of _ d'] exI [of _ "if live then ''active run cancelled'' else ''run marked cancelled''"]
          exI [of _ r'])
      (simp add: handleRunCancel_def with_run_def stamp_def plain_event_def)
qed

subsection \<open>Permissions of runs\<close>

text \<open>
  A decision sent to a run that is not over and not waiting for a permission is accepted, and the
  reply says that the run is running, though nothing is recorded and the run's status is unchanged.
\<close>

theorem resolve_permission_without_request:
  assumes "find_run (sv_db srv) rid = Some r" "rid \<noteq> []" "run_UserID r = conn_UserID conn"
    and "\<not> env_fault E S_SelectRun" "\<not> isTerminalRunStatus (run_Status r)"
    and "run_Status r \<noteq> RunStatusWaitingPermission" "q \<noteq> []" "dec \<noteq> []"
  shows "handleRunResolvePermission E conn
      (Inr \<lparr>rrp_RunID = rid, rrp_RequestID = q, rrp_Decision = dec\<rparr>) srv =
    (srv, [], Inr \<lparr>rcr_RunID = rid, rcr_Accepted = True, rcr_Status = RunStatusRunning,
       rcr_Run = None, rcr_Message = []\<rparr>)"
proof -
  have id: "run_ID r = rid" using find_run_Some [OF assms(1)] by simp
  have "getAuthorizedRun E conn rid srv = Inr r"
    using assms(1-4) by (simp add: getAuthorizedRun_def GetRun_def)
  then show ?thesis using assms(5-8) id
    by (simp add: handleRunResolvePermission_def with_run_def control_reply_def)
qed

text \<open>
  The blocker of a waiting run is looked for among its first 500 events only: when they hold no
  \<open>run.blocked\<close> event, the pending request of a longer log is reported without its identifier, so
  the client cannot answer it.
\<close>

theorem blocker_after_500_events_lost:
  assumes "run_db_inv (sv_db srv)" "find_run (sv_db srv) rid = Some r" "rid \<noteq> []"
    and "run_UserID r = conn_UserID conn" "\<forall>st. \<not> env_fault E st"
    and "run_Status r = RunStatusWaitingPermission"
    and "\<forall>e \<in> set (take 500 (events_of (sv_db srv) rid)). evt_Type e \<noteq> EventRunBlocked"
  shows "handleRunPermissions E parse conn (Inr \<lparr>rp_RunID = rid, rp_SessionID = s\<rparr>) srv =
    (srv, [], Inr [\<lparr>rpm_RunID = rid, rpm_RequestID = [], rpm_Type = RunStatusWaitingPermission,
                   rpm_Reason = []\<rparr>])"
proof -
  have id: "run_ID r = rid" using find_run_Some [OF assms(2)] by simp
  have a: "getAuthorizedRun E conn rid srv = Inr r"
    using assms(2-5) by (simp add: getAuthorizedRun_def GetRun_def)
  let ?es = "take 500 (events_of (sv_db srv) rid)"
  have "ListRunEvents E rid 0 500 (sv_db srv) = Inr ?es"
    using ListRunEvents_page [OF assms(1), of E 500 0 rid] assms(5) by simp
  moreover have "find (\<lambda>ev. evt_Type ev = EventRunBlocked) (rev ?es) = None"
    using assms(7) by (auto simp: find_None_iff)
  ultimately show ?thesis using a assms(3,6) id
    by (simp add: handleRunPermissions_def latestRunBlocker_def Let_def)
qed

end
