(* ===== verification/Run_Accounting.thy ===== *)
theory Run_Accounting
  imports Run_Requests
begin

text \<open>
  Atomicity of the store's operations, the exact accounting of model calls and tool results, and the
  registry of live runs.
\<close>

subsection \<open>Atomicity\<close>

lemma autocommit_error: "autocommit r d = (d', Inl e) \<Longrightarrow> d' = d"
  by (auto simp: autocommit_def split: sum.splits)

lemma CreateRunWithTurn_error: "CreateRunWithTurn E r0 ev cp t role n h d = (d', Inl e) \<Longrightarrow> d' = d"
  by (auto simp: CreateRunWithTurn_def dest: create_run_tx_error split: sum.splits option.splits)

lemma store_op_error:
  "CreateSession E s d = (d', Inl e) \<Longrightarrow> d' = d"
  "UpdateSession E s d = (d', Inl e) \<Longrightarrow> d' = d"
  "DeleteSessionsBefore E t d = (d', Inl e) \<Longrightarrow> d' = d"
  "AcquireSessionLock E sid x t d = (d', Inl e) \<Longrightarrow> d' = d"
  "ReleaseSessionLock E sid x d = (d', Inl e) \<Longrightarrow> d' = d"
  "ForceReleaseSessionLock E sid d = (d', Inl e) \<Longrightarrow> d' = d"
  "AppendServerEvent E se d = (d', Inl e) \<Longrightarrow> d' = d"
  "CreateTurn E tu d = (d', Inl e) \<Longrightarrow> d' = d"
  "DeleteTurn E sid tid d = (d', Inl e) \<Longrightarrow> d' = d"
  "AppendCommandHistory E h d = (d', Inl e) \<Longrightarrow> d' = d"
  "CreateRunCheckpoint E cp d = (d', Inl e) \<Longrightarrow> d' = d"
  "LinkTurnToRun E rid tid role n d = (d', Inl e) \<Longrightarrow> d' = d"
  by (auto simp: CreateSession_def UpdateSession_def DeleteSessionsBefore_def AcquireSessionLock_def
      ReleaseSessionLock_def ForceReleaseSessionLock_def AppendServerEvent_def CreateTurn_def
      DeleteTurn_def AppendCommandHistory_def CreateRunCheckpoint_def LinkTurnToRun_def Let_def
      dest: autocommit_error split: if_splits option.splits)

lemma Record_error:
  "RecordRunModelCall E c d = (d', Inl e) \<Longrightarrow> d' = d"
  "RecordRunToolResult E t d = (d', Inl e) \<Longrightarrow> d' = d"
  by (auto simp: RecordRunModelCall_def RecordRunToolResult_def Let_def dest: run_tx_error)

lemma outcome_error: "outcome r = (d', [Some e]) \<Longrightarrow> r = (d', Inl e)"
  by (cases r) (auto simp: outcome_def split: sum.splits)

lemmas store_writer_errors = store_op_error Record_error AppendRunEvent_error CreateRun_error
  CreateRunWithTurn_error

text \<open>
  C32: Store operations are atomic: one that reports an error leaves the database as it was, at whatever
  statement it failed and whatever the statements before it had written in the same transaction.
\<close>

theorem store_error_atomic:
  assumes "store_step d (E, op) = (d', [Some e])"
  shows "d' = d"
  by (insert assms, (cases op; simp only: store_step.simps; drule outcome_error;
        erule store_writer_errors))

subsection \<open>Exact accounting\<close>

text \<open>What a run's totals should be: the sums over its recorded calls and results, each once.\<close>

definition calls_of :: "db \<Rightarrow> string \<Rightarrow> RunModelCall list" where
  "calls_of d rid = filter (\<lambda>c. mc_RunID c = rid) (db_model_calls d)"

definition results_of :: "db \<Rightarrow> string \<Rightarrow> RunToolResult list" where
  "results_of d rid = filter (\<lambda>t. tr_RunID t = rid) (db_tool_results d)"

definition totals_exact :: "db \<Rightarrow> bool" where
  "totals_exact d = (\<forall>r \<in> set (db_runs d).
     run_InputTokens r = sum_list (map mc_InputTokens (calls_of d (run_ID r))) \<and>
     run_OutputTokens r = sum_list (map mc_OutputTokens (calls_of d (run_ID r))) \<and>
     run_TotalCost r = sum_list (map mc_TotalCost (calls_of d (run_ID r))) +
                       sum_list (map tr_EstimatedCost (results_of d (run_ID r))))"

datatype recording = ModelCall RunModelCall | ToolResult RunToolResult

fun record_one :: "db \<Rightarrow> store_env \<times> recording \<Rightarrow> db" where
  "record_one d (E, ModelCall c) = fst (RecordRunModelCall E c d)"
| "record_one d (E, ToolResult t) = fst (RecordRunToolResult E t d)"

lemma normalize_numbers [simp]:
  "mc_InputTokens (normalizeModelCall E c) = mc_InputTokens c"
  "mc_OutputTokens (normalizeModelCall E c) = mc_OutputTokens c"
  "mc_TotalCost (normalizeModelCall E c) = mc_TotalCost c"
  by (simp_all add: normalizeModelCall_def)

lemma record_call_totals:
  assumes t: "totals_exact d"
  shows "totals_exact (fst (RecordRunModelCall E c d))"
proof (cases "RecordRunModelCall E c d")
  case (Pair d' res)
  show ?thesis
  proof (cases "d' = d")
    case False
    with Pair obtain b where b: "res = Inr b"
      using Record_error(1) by (cases res) blast+
    note e = RecordRunModelCall_Inr [OF Pair [unfolded b]]
    from False e(2) have b by blast
    note d' = e(3) [OF this, THEN conjunct2]
    show ?thesis using t
      by (auto simp: totals_exact_def Pair d' calls_of_def results_of_def add_model_call_def)
  qed (simp add: Pair t)
qed

lemma record_result_totals:
  assumes t: "totals_exact d"
  shows "totals_exact (fst (RecordRunToolResult E c d))"
proof (cases "RecordRunToolResult E c d")
  case (Pair d' res)
  show ?thesis
  proof (cases "d' = d")
    case False
    with Pair obtain b where b: "res = Inr b"
      using Record_error(2) by (cases res) blast+
    note e = RecordRunToolResult_Inr [OF Pair [unfolded b]]
    from False e(2) have b by blast
    note d' = e(3) [OF this, THEN conjunct2]
    show ?thesis using t
      by (auto simp: totals_exact_def Pair d' calls_of_def results_of_def)
  qed (simp add: Pair t)
qed

text \<open>
  C40: Accounting is exact under retries: over any sequence of recordings, with repeated identifiers
  and failing statements, every run's token and cost totals are the sums over its stored model calls
  and tool results, and every identifier is stored at most once.
\<close>

theorem accounting_exact:
  assumes "store_inv d" "totals_exact d" "d' = foldl record_one d recs"
  shows "totals_exact d' \<and> distinct (map mc_ModelCallID (db_model_calls d')) \<and>
    distinct (map tr_ToolCallID (db_tool_results d'))"
proof -
  have "store_inv (record_one d x) \<and> totals_exact (record_one d x)"
    if "store_inv d" "totals_exact d" for d x
    using that record_call_totals record_result_totals
      run_writers_inv(6) [OF that(1) surjective_pairing] run_writers_inv(7) [OF that(1) surjective_pairing]
    by (cases x; cases "snd x") auto
  then have "store_inv d' \<and> totals_exact d'"
    using assms(1,2) unfolding assms(3) by (induction recs arbitrary: d) simp_all
  then show ?thesis by (simp add: store_inv_def run_db_inv_def)
qed

text \<open>
  Recording the same model call again is not an error and changes nothing, whatever numbers the
  second record carries: the first one counts.
\<close>

theorem model_call_counted_once:
  assumes "RecordRunModelCall E c d = (d', Inr b)" "mc_ModelCallID c2 = mc_ModelCallID c"
    and "\<forall>st. \<not> env_fault E2 st"
  shows "RecordRunModelCall E2 c2 d' = (d', Inr False)"
proof -
  have "mc_ModelCallID c2 \<in> mc_ModelCallID ` set (db_model_calls d')"
    using RecordRunModelCall_Inr [OF assms(1)] assms(2) by (cases b) auto
  then show ?thesis
    using assms(3) by (simp add: RecordRunModelCall_def Let_def run_tx_def exec_def)
qed

subsection \<open>The registry of live runs\<close>

definition registry_inv :: "runRegistry \<Rightarrow> bool" where
  "registry_inv rr =
     (distinct (map fst (byRunID rr)) \<and> length (byRunID rr) \<le> maxTrackedRuns \<and>
      (\<forall>tid rid. map_of (byTurnID rr) tid = Some rid \<longleftrightarrow>
         tid \<noteq> [] \<and> (\<exists>r. map_of (byRunID rr) rid = Some r \<and> ar_turnID r = tid)) \<and>
      (\<forall>rid r. map_of (byRunID rr) rid = Some r \<longrightarrow> ar_id r = rid))"

text \<open>The operations, and when the code may call them: a turn belongs to one run.\<close>

datatype registry_op =
    Register "nat \<Rightarrow> nat" string string string string nat
  | CancelRun string
  | Deregister string string

fun registry_step :: "runRegistry \<Rightarrow> registry_op \<Rightarrow> runRegistry" where
  "registry_step rr (Register pick rid tid sid cid c) = register pick rid tid sid cid (Some c) rr"
| "registry_step rr (CancelRun rid) = fst (cancel_run rid rr)"
| "registry_step rr (Deregister rid tid) = deregister rid tid rr"

fun own_turn :: "runRegistry \<Rightarrow> registry_op \<Rightarrow> bool" where
  "own_turn rr (Register pick rid tid sid cid c) =
     (\<forall>x. map_of (byTurnID rr) tid = Some x \<longrightarrow> x = rid)"
| "own_turn rr (CancelRun rid) = True"
| "own_turn rr (Deregister rid tid) =
     ((\<forall>r. map_of (byRunID rr) rid = Some r \<longrightarrow> ar_turnID r = tid) \<and>
      (\<forall>x. map_of (byTurnID rr) tid = Some x \<longrightarrow> x = rid))"

lemma registry_invD:
  assumes "registry_inv rr"
  shows "distinct (map fst (byRunID rr))" "length (byRunID rr) \<le> maxTrackedRuns"
    "map_of (byTurnID rr) tid = Some rid \<longleftrightarrow>
       tid \<noteq> [] \<and> (\<exists>r. map_of (byRunID rr) rid = Some r \<and> ar_turnID r = tid)"
    "map_of (byRunID rr) rid = Some r \<Longrightarrow> ar_id r = rid"
  using assms by (auto simp: registry_inv_def)

text \<open>Forgetting a run and the turn that belongs to it.\<close>

lemma registry_inv_delete:
  assumes i: "registry_inv rr"
    and t: "\<forall>r. map_of (byRunID rr) rid = Some r \<longrightarrow> ar_turnID r = tid"
    and u: "\<forall>x. map_of (byTurnID rr) tid = Some x \<longrightarrow> x = rid"
  shows "registry_inv (rr\<lparr>byRunID := AList.delete rid (byRunID rr),
                         byTurnID := forget_turn tid (byTurnID rr)\<rparr>)"
proof -
  have m: "map_of (forget_turn tid (byTurnID rr)) x =
      (if x = tid \<and> tid \<noteq> [] then None else map_of (byTurnID rr) x)" for x
    by (simp add: forget_turn_def AList.delete_conv')
  have n: "map_of (byTurnID rr) [] = None"
    using registry_invD(3) [OF i, of "[]"] by (metis not_None_eq)
  have "length (AList.delete rid (byRunID rr)) \<le> maxTrackedRuns"
    using length_delete_le [of rid "byRunID rr"] registry_invD(2) [OF i] by linarith
  moreover have "(if x = tid \<and> tid \<noteq> [] then None else map_of (byTurnID rr) x) = Some y \<longleftrightarrow>
      x \<noteq> [] \<and> (\<exists>r. (if y = rid then None else map_of (byRunID rr) y) = Some r \<and> ar_turnID r = x)" for x y
  proof (cases "y = rid")
    case True
    have "x = tid \<and> tid \<noteq> []" if "map_of (byTurnID rr) x = Some rid"
      using that registry_invD(3) [OF i, of x rid] t by blast
    with True show ?thesis by auto
  next
    case False
    have "map_of (byTurnID rr) tid \<noteq> Some y" using u False by blast
    then show ?thesis using False registry_invD(3) [OF i, of x y] by auto
  qed
  ultimately show ?thesis
    using registry_invD(1,4) [OF i]
    by (simp add: registry_inv_def AList.delete_conv' m distinct_delete fun_upd_apply)
qed

lemma registry_own_turn:
  assumes i: "registry_inv rr" and r: "map_of (byRunID rr) rid = Some r"
  shows "\<forall>x. map_of (byTurnID rr) (ar_turnID r) = Some x \<longrightarrow> x = rid"
proof (intro allI impI)
  fix x
  assume x: "map_of (byTurnID rr) (ar_turnID r) = Some x"
  then have "ar_turnID r \<noteq> []" using registry_invD(3) [OF i] by blast
  then have "map_of (byTurnID rr) (ar_turnID r) = Some rid" using r registry_invD(3) [OF i] by blast
  with x show "x = rid" by simp
qed

lemma evict_length:
  "byRunID rr \<noteq> [] \<Longrightarrow> length (byRunID (evict pick rr)) < length (byRunID rr)"
proof -
  assume ne: "byRunID rr \<noteq> []"
  let ?j = "pick (length (byRunID rr)) mod length (byRunID rr)"
  obtain rid r where kr: "byRunID rr ! ?j = (rid, r)" by (cases "byRunID rr ! ?j")
  have "(rid, r) \<in> set (byRunID rr)" using ne kr nth_mem [of ?j "byRunID rr"] by simp
  then have "length (AList.delete rid (byRunID rr)) < length (byRunID rr)"
    unfolding AList.delete_eq by (intro length_filter_less) auto
  then show ?thesis using ne kr by (auto simp: evict_def neq_Nil_conv)
qed

lemma evict_inv: "registry_inv rr \<Longrightarrow> registry_inv (evict pick rr)"
proof (cases "byRunID rr")
  case (Cons kv kvs)
  assume i: "registry_inv rr"
  let ?j = "pick (length (byRunID rr)) mod length (byRunID rr)"
  obtain rid r where kr: "byRunID rr ! ?j = (rid, r)" by (cases "byRunID rr ! ?j")
  have "?j < length (byRunID rr)" using Cons by simp
  then have "(rid, r) \<in> set (byRunID rr)" using kr nth_mem by metis
  then have r: "map_of (byRunID rr) rid = Some r" using registry_invD(1) [OF i] by simp
  have "registry_inv (rr\<lparr>byRunID := AList.delete rid (byRunID rr),
                       byTurnID := forget_turn (ar_turnID r) (byTurnID rr)\<rparr>)"
    by (rule registry_inv_delete [OF i]) (use r registry_own_turn [OF i r] in simp_all)
  then show ?thesis using Cons kr by (simp add: evict_def)
qed (simp add: evict_def)

lemma length_update: "length (AList.update k v al) = length al + (if k \<in> fst ` set al then 0 else 1)"
  by (induction al) auto

text \<open>Adding a run that the registry does not know.\<close>

lemma registry_inv_add:
  assumes i: "registry_inv rr" and n: "map_of (byRunID rr) rid = None"
    and t: "map_of (byTurnID rr) tid = None"
    and R: "map_of (byRunID rr') = (map_of (byRunID rr))(rid \<mapsto> r)" and r: "ar_id r = rid" "ar_turnID r = tid"
    and T: "map_of (byTurnID rr') =
      (if tid = [] then map_of (byTurnID rr) else (map_of (byTurnID rr))(tid \<mapsto> rid))"
    and d: "distinct (map fst (byRunID rr'))" "length (byRunID rr') \<le> maxTrackedRuns"
  shows "registry_inv rr'"
proof -
  have "(map_of (byTurnID rr') x = Some y) \<longleftrightarrow>
      x \<noteq> [] \<and> (\<exists>r. map_of (byRunID rr') y = Some r \<and> ar_turnID r = x)" for x y
  proof (cases "y = rid")
    case True
    have "map_of (byTurnID rr) x \<noteq> Some rid" using registry_invD(3) [OF i, of x rid] n by simp
    with True r show ?thesis by (auto simp: R T)
  next
    case False
    have "map_of (byTurnID rr) tid \<noteq> Some y" using t by simp
    with False show ?thesis using registry_invD(3) [OF i, of x y] registry_invD(3) [OF i, of tid y]
      by (auto simp: R T)
  qed
  with d r(1) registry_invD(4) [OF i] show ?thesis
    by (auto simp: registry_inv_def R)
qed

lemma register_inv:
  assumes i: "registry_inv rr" and o: "\<forall>x. map_of (byTurnID rr) tid = Some x \<longrightarrow> x = rid"
  shows "registry_inv (register pick rid tid sid cid (Some c) rr)"
proof -
  let ?new = "\<lparr>ar_id = rid, ar_turnID = tid, ar_sessionID = sid, ar_attachedConnectionID = cid,
    ar_cancel = Some c\<rparr>"
  have u: "map_of (if tid = [] then m else AList.update tid rid m) =
      (if tid = [] then map_of m else (map_of m)(tid \<mapsto> rid))" for m :: "(string \<times> string) list"
    by (simp add: AList.update_conv')
  show ?thesis
  proof (cases "map_of (byRunID rr) rid")
    case (Some e)
    let ?old = "ar_turnID e"
    let ?rr0 = "rr\<lparr>byRunID := AList.delete rid (byRunID rr), byTurnID := forget_turn ?old (byTurnID rr)\<rparr>"
    have i0: "registry_inv ?rr0"
      by (rule registry_inv_delete [OF i]) (use Some registry_own_turn [OF i Some] in simp_all)
    have n0: "map_of (byRunID ?rr0) rid = None" by (simp add: AList.delete_conv')
    have t0: "map_of (byTurnID ?rr0) tid = None"
    proof (rule ccontr)
      assume "map_of (byTurnID ?rr0) tid \<noteq> None"
      then obtain x where x: "map_of (byTurnID ?rr0) tid = Some x" by blast
      then have "map_of (byTurnID rr) tid = Some x"
        by (auto simp: forget_turn_def AList.delete_conv' fun_upd_apply split: if_splits)
      with o have "x = rid" by blast
      with x registry_invD(3) [OF i0, of tid rid] n0 show False by simp
    qed
    let ?rr1 = "if ?old \<noteq> [] \<and> ?old \<noteq> tid then rr\<lparr>byTurnID := AList.delete ?old (byTurnID rr)\<rparr> else rr"
    have reg: "register pick rid tid sid cid (Some c) rr = ?rr1\<lparr>byRunID := AList.update rid ?new (byRunID rr),
        byTurnID := (if tid = [] then byTurnID ?rr1 else AList.update tid rid (byTurnID ?rr1))\<rparr>"
      using Some by (simp add: register_def Let_def)
    have T1: "map_of (byTurnID ?rr1) x = map_of (byTurnID ?rr0) x" if "x \<noteq> tid \<or> tid = []" for x
      using that registry_own_turn [OF i Some] registry_invD(3) [OF i, of "[]"]
      by (auto simp: forget_turn_def AList.delete_conv')
    have "map_of (byTurnID (register pick rid tid sid cid (Some c) rr)) =
        (if tid = [] then map_of (byTurnID ?rr0) else (map_of (byTurnID ?rr0))(tid \<mapsto> rid))"
      unfolding reg using T1 by (auto simp: u fun_eq_iff)
    moreover have "map_of (byRunID (register pick rid tid sid cid (Some c) rr)) =
        (map_of (byRunID ?rr0))(rid \<mapsto> ?new)"
      by (simp add: reg AList.update_conv' AList.delete_conv')
    moreover have "rid \<in> fst ` set (byRunID rr)" using Some by (force dest: map_of_SomeD)
    then have "length (byRunID (register pick rid tid sid cid (Some c) rr)) \<le> maxTrackedRuns"
      using registry_invD(2) [OF i] by (simp add: reg length_update)
    moreover have "distinct (map fst (byRunID (register pick rid tid sid cid (Some c) rr)))"
      using registry_invD(1) [OF i] by (simp add: reg distinct_update)
    ultimately show ?thesis by (intro registry_inv_add [OF i0 n0 t0, where r = ?new]) simp_all
  next
    case None
    let ?full = "length (byRunID rr) \<ge> maxTrackedRuns"
    let ?rr0 = "if ?full then evict pick rr else rr"
    have i0: "registry_inv ?rr0" using i evict_inv by simp
    have sub: "map_of (byRunID ?rr0) x = Some y \<Longrightarrow> map_of (byRunID rr) x = Some y" for x y
      by (auto simp: evict_def AList.delete_conv' Let_def fun_upd_apply split: if_splits list.splits prod.splits)
    have n0: "map_of (byRunID ?rr0) rid = None"
      using sub None by (metis not_None_eq)
    have subT: "map_of (byTurnID ?rr0) x = Some y \<Longrightarrow> map_of (byTurnID rr) x = Some y" for x y
      by (auto simp: evict_def forget_turn_def AList.delete_conv' Let_def fun_upd_apply
          split: if_splits list.splits prod.splits)
    have t0: "map_of (byTurnID ?rr0) tid = None"
    proof (rule ccontr)
      assume "map_of (byTurnID ?rr0) tid \<noteq> None"
      then obtain x where x: "map_of (byTurnID ?rr0) tid = Some x" by blast
      with subT o have "x = rid" by blast
      with x registry_invD(3) [OF i0, of tid rid] n0 show False by simp
    qed
    have reg: "register pick rid tid sid cid (Some c) rr = ?rr0\<lparr>byRunID := AList.update rid ?new (byRunID ?rr0),
        byTurnID := (if tid = [] then byTurnID ?rr0 else AList.update tid rid (byTurnID ?rr0))\<rparr>"
      using None by (simp add: register_def Let_def)
    have "length (byRunID ?rr0) < maxTrackedRuns"
      using evict_length [of rr pick] registry_invD(2) [OF i]
      by (cases "byRunID rr = []") (auto simp: maxTrackedRuns_def)
    then have "length (byRunID (register pick rid tid sid cid (Some c) rr)) \<le> maxTrackedRuns"
      by (simp add: reg length_update)
    moreover have "distinct (map fst (byRunID (register pick rid tid sid cid (Some c) rr)))"
      using registry_invD(1) [OF i0] by (simp add: reg distinct_update)
    ultimately show ?thesis
      by (intro registry_inv_add [OF i0 n0 t0, where r = ?new]) (simp_all add: reg u AList.update_conv')
  qed
qed

text \<open>
  The registry of live runs stays consistent and bounded: over any sequence of registrations,
  cancellations and removals in which a turn is used by one run only, a turn leads to the run that
  registered it and every live run with a turn is found by it, and there are never more than 4096.
\<close>

theorem registry_consistent:
  assumes "registry_inv rr"
    and "\<And>i. i < length ops \<Longrightarrow> own_turn (foldl registry_step rr (take i ops)) (ops ! i)"
    and "rr' = foldl registry_step rr ops"
  shows "registry_inv rr' \<and> length (byRunID rr') \<le> 4096"
proof -
  have step: "registry_inv (registry_step x op)" if "registry_inv x" "own_turn x op" for x op
  proof (cases op)
    case (CancelRun rid)
    then show ?thesis using that
      by (auto simp: cancel_run_def split: option.splits
          intro!: registry_inv_delete dest: registry_own_turn)
  qed (use that in \<open>simp_all add: register_inv deregister_def registry_inv_delete\<close>)
  have "registry_inv (foldl registry_step rr (take i ops))" if "i \<le> length ops" for i
    using that
  proof (induction i)
    case (Suc i)
    then have "registry_inv (foldl registry_step rr (take i ops))" "i < length ops" by simp_all
    then show ?case using step assms(2) [of i] by (simp add: take_Suc_conv_app_nth)
  qed (simp add: assms(1))
  from this [of "length ops"] have "registry_inv rr'" by (simp add: assms(3))
  then show ?thesis using registry_invD(2) by (simp add: maxTrackedRuns_def)
qed

end
