(* ===== verification/Run_Witnesses.thy ===== *)
theory Run_Witnesses
  imports Run_Accounting
begin

text \<open>The properties of the run services applied to a concrete server with one session and one run.\<close>

definition event_w :: "int \<Rightarrow> string \<Rightarrow> string \<Rightarrow> RunEvent" where
  "event_w i typ st = \<lparr>evt_RunID = ''r1'', evt_Seq = i, evt_Type = typ, evt_Stage = ''preflight'',
     evt_Status = st, evt_Reason = [], evt_PayloadJSON = Some ''{}'', evt_PayloadSchemaVersion = 1,
     evt_CreatedAt = 1\<rparr>"

text \<open>A server whose run has a status, an attachment and a log; \<open>n\<close> is its last sequence number.\<close>

definition db_w :: "string \<Rightarrow> string \<Rightarrow> string \<Rightarrow> int \<Rightarrow> RunEvent list \<Rightarrow> db" where
  "db_w st att c n evs = locked_db_w\<lparr>
     db_runs := [run_w\<lparr>run_Status := st, run_AttachmentState := att, run_AttachedConnectionID := c,
                       run_LastEventSeq := n\<rparr>],
     db_attachments := [\<lparr>att_RunID = ''r1'', att_State = att, att_ConnectionID = c,
                         att_GraceDeadline = None, att_UpdatedAt = 1\<rparr>],
     db_events := evs\<rparr>"

definition server_w :: "string \<Rightarrow> string \<Rightarrow> string \<Rightarrow> int \<Rightarrow> RunEvent list \<Rightarrow> Server" where
  "server_w st att c n evs = \<lparr>sv_db = db_w st att c n evs, sv_runs = newRunRegistry\<rparr>"

definition running_w :: Server where
  "running_w = server_w ''running'' ''attached'' ''c1'' 2
     [event_w 1 ''run.started'' ''queued'', event_w 2 ''run.stage_changed'' ''running'']"

lemmas w_defs = server_w_def db_w_def locked_db_w_def run_w_def event_w_def empty_db_def
  session_w_def newRunRegistry_def

lemma find_run_w: "find_run (sv_db (server_w st att c n evs)) ''r1'' =
    Some (run_w\<lparr>run_Status := st, run_AttachmentState := att, run_AttachedConnectionID := c,
                run_LastEventSeq := n\<rparr>)"
  by (simp add: find_run_def w_defs)

lemma find_run_w_other: "rid \<noteq> ''r1'' \<Longrightarrow> find_run (sv_db (server_w st att c n evs)) rid = None"
  by (simp add: find_run_def w_defs)

lemma store_inv_w:
  assumes "validRunStatuses st" "1 \<le> n" "\<forall>e \<in> set evs. evt_RunID e = ''r1''"
    "map evt_Seq evs = [1..n]"
  shows "store_inv (sv_db (server_w st att c n evs))"
proof -
  have "events_of (sv_db (server_w st att c n evs)) ''r1'' = evs"
    using assms(3) by (simp add: events_of_def server_w_def db_w_def filter_id_conv)
  then have "run_db_inv (sv_db (server_w st att c n evs))"
    using assms by (simp add: run_db_inv_def w_defs run_row_ok_def log_ok_def has_run_def
        att_mirrors_def validRunStages_def validWorkflowTypes_def RunStagePreflight_def)
  moreover have "session_db_inv (sv_db (server_w st att c n evs))"
    by (simp add: session_db_inv_def w_defs has_session_def history_ids_def)
  ultimately show ?thesis by (simp add: store_inv_def)
qed

lemma running_inv: "runs_inv running_w"
proof -
  have "store_inv (sv_db running_w)"
    unfolding running_w_def
    by (rule store_inv_w) (simp_all add: validRunStatuses_def run_status_defs event_w_def upto_rec1)
  moreover have "log_status_agrees (sv_db running_w)"
    unfolding log_status_agrees_def
  proof (intro allI impI)
    fix rid r
    assume r: "find_run (sv_db running_w) rid = Some r"
    then have "rid = ''r1''" using find_run_w_other unfolding running_w_def by fastforce
    with r show "replay_status (events_of (sv_db running_w) rid) = Some (run_Status r)"
      by (auto simp: running_w_def find_run_w) (simp add: replay_status_def events_of_def w_defs)
  qed
  ultimately show ?thesis by (simp add: runs_inv_def)
qed

lemma running_find: "find_run (sv_db running_w) ''r1'' =
    Some (run_w\<lparr>run_Status := ''running'', run_AttachmentState := ''attached'',
                run_AttachedConnectionID := ''c1'', run_LastEventSeq := 2\<rparr>)"
  by (simp add: running_w_def find_run_w)

definition intruder :: Conn where
  "intruder = conn_w\<lparr>conn_ID := ''c9'', conn_UserID := ''v''\<rparr>"

definition no_parse :: "string \<Rightarrow> (string \<times> string \<times> string) option" where
  "no_parse j = None"

definition cancel_req :: run_request where
  "cancel_req = ReqCancel (Inr \<lparr>ctl_RunID = ''r1'', ctl_Reason = ''x''\<rparr>)"

lemma run_log_determines_status_witness:
  "store_inv (sv_db (fst (run_out (serve no_parse) running_w [(env_at 5, conn_w, cancel_req)])))"
  using run_log_determines_status [OF running_inv refl] by blast

lemma foreign_runs_untouched_witness:
  "find_run (sv_db (fst (run_out (serve no_parse) running_w [(env_at 5, intruder, cancel_req)]))) ''r1''
     = find_run (sv_db running_w) ''r1''"
  using foreign_runs_untouched [OF running_find _ refl, of "[(env_at 5, intruder, cancel_req)]" no_parse]
  by (simp add: running_find run_w_def intruder_def)

definition finished_w :: Server where
  "finished_w = server_w ''completed'' ''attached'' ''c1'' 1 [event_w 1 ''run.completed'' ''completed'']"

lemma finished_find: "find_run (sv_db finished_w) ''r1'' =
    Some (run_w\<lparr>run_Status := ''completed'', run_AttachmentState := ''attached'',
                run_AttachedConnectionID := ''c1'', run_LastEventSeq := 1\<rparr>)"
  by (simp add: finished_w_def find_run_w)

lemma terminal_run_is_final_witness:
  "\<exists>r'. find_run (sv_db (fst (run_out (serve no_parse) finished_w [(env_at 5, conn_w, cancel_req)]))) ''r1''
      = Some r' \<and> run_Status r' = ''completed''"
  using terminal_run_is_final [OF finished_find _ refl, of no_parse "[(env_at 5, conn_w, cancel_req)]"]
  by (auto simp: terminal_defs)

lemma running_db_inv: "run_db_inv (sv_db running_w)"
  using running_inv by (simp add: runs_inv_def store_inv_def)

lemma running_owner: "run_UserID (run_w\<lparr>run_Status := st, run_AttachmentState := a,
    run_AttachedConnectionID := c, run_LastEventSeq := n\<rparr>) = conn_UserID conn_w"
  by (simp add: run_w_def conn_w_def)

lemma running_events: "length (events_of (sv_db running_w) ''r1'') = 2"
  by (simp add: running_w_def events_of_def w_defs)

lemma run_events_pages_complete_witness:
  "length (read_run_events (env_at 5) conn_w ''r1'' 1 running_w 2 0) = 2"
  using run_events_pages_complete [OF running_db_inv running_find running_owner, of "env_at 5" 1 0 2]
  by (simp add: running_events)

lemma run_events_replay_full_witness:
  "\<exists>rep. handleRunEvents (env_at 5) conn_w
       (Inr \<lparr>re_RunID = ''r1'', re_AfterSeq = 0, re_Limit = 1\<rparr>) running_w = (running_w, [], Inr rep) \<and>
     rer_Fidelity rep = RunReplayFull"
  using run_events_replay_full [OF running_db_inv running_find running_owner, of "env_at 5" 1 0]
  by auto

definition attach_req :: run_request where
  "attach_req = ReqAttach (Inr \<lparr>ra_RunID = ''r1'', ra_LastObservedSeq = 0\<rparr>)"

lemma intruder_refused: "fst (run_out (serve no_parse) running_w [(env_at 5, intruder, attach_req)]) = running_w"
  by (simp add: attach_req_def handleRunAttach_def with_run_def getAuthorizedRun_def GetRun_def
      running_find served_def intruder_def conn_w_def run_w_def Let_def)

lemma attachment_exclusive_witness:
  "attached_to (sv_db (fst (run_out (serve no_parse) running_w [(env_at 5, intruder, attach_req)])))
     ''r1'' ''c1''"
  by (rule attachment_exclusive [of running_w _ _ _ no_parse "[(env_at 5, intruder, attach_req)]" "[]"])
    (simp_all only: intruder_refused, simp_all add: attached_to_def running_find RunAttachmentAttached_def)

definition create_w :: RunCreate where
  "create_w = \<lparr>rc_SessionID = ''s1'', rc_IdempotencyKey = ''k1'', rc_WorkflowType = ''debug'',
     rc_Title = [], rc_ParentRunID = []\<rparr>"

lemma create_w_reply: "\<exists>s. handleRunCreate (env_at t) conn_w (Inr create_w) running_w = (running_w, [], Inr s)"
  by (simp add: handleRunCreate_def create_w_def GetSession_def find_session_def running_w_def w_defs
      verifySessionAccess_def conn_w_def createRunRecord_def GetRunByIdempotency_def run_key_def Let_def)

lemma run_create_idempotent_witness:
  "\<exists>s1 s2. handleRunCreate (env_at 5) conn_w (Inr create_w) running_w = (running_w, [], Inr s1) \<and>
     handleRunCreate (env_at 7) conn_w (Inr create_w) running_w = (running_w, [], Inr s2) \<and>
     rs_RunID s2 = rs_RunID s1"
proof -
  obtain s1 where s1: "handleRunCreate (env_at 5) conn_w (Inr create_w) running_w = (running_w, [], Inr s1)"
    using create_w_reply by blast
  from run_create_idempotent [OF running_inv s1, of "env_at 7"] s1 show ?thesis
    by (simp add: create_w_def)
qed

lemma run_cancel_effect_witness:
  "\<exists>d' r'. find_run d' ''r1'' = Some r' \<and> run_Status r' = RunStatusCancelled \<and>
     fst (handleRunCancel (env_at 5) conn_w (Inr \<lparr>ctl_RunID = ''r1'', ctl_Reason = ''x''\<rparr>) running_w) =
       running_w\<lparr>sv_db := d', sv_runs := newRunRegistry\<rparr>"
  using run_cancel_effect [OF running_db_inv running_find _ running_owner, of "env_at 5"
      newRunRegistry "[]" False "''x''"]
  by (simp add: terminal_defs cancel_run_def running_w_def w_defs) (metis fst_conv)

lemma resolve_permission_without_request_witness:
  "handleRunResolvePermission (env_at 5) conn_w
      (Inr \<lparr>rrp_RunID = ''r1'', rrp_RequestID = ''q'', rrp_Decision = ''allow''\<rparr>) running_w =
    (running_w, [], Inr \<lparr>rcr_RunID = ''r1'', rcr_Accepted = True, rcr_Status = RunStatusRunning,
       rcr_Run = None, rcr_Message = []\<rparr>)"
  by (rule resolve_permission_without_request [OF running_find _ running_owner])
    (simp_all add: terminal_defs)

text \<open>A log whose only blocker is its event 501.\<close>

definition last_seq :: int where "last_seq = 501"

definition long_log :: "RunEvent list" where
  "long_log = map (\<lambda>i. event_w i (if i = last_seq then ''run.blocked'' else ''run.progress'')
     ''waiting_permission'') [1..last_seq]"

definition blocked_w :: Server where
  "blocked_w = server_w ''waiting_permission'' ''detached'' [] last_seq long_log"

lemma long_log_events: "events_of (sv_db blocked_w) ''r1'' = long_log"
  by (simp add: blocked_w_def events_of_def w_defs long_log_def filter_map comp_def)

lemma take_upto: "0 \<le> m \<Longrightarrow> m \<le> n \<Longrightarrow> take (nat m) [1..n] = [1..m]" for m n :: int
  by (simp add: list_eq_iff_nth_eq)

lemma blocker_after_500_events_lost_witness:
  "handleRunPermissions (env_at 5) no_parse conn_w (Inr \<lparr>rp_RunID = ''r1'', rp_SessionID = []\<rparr>)
      blocked_w =
    (blocked_w, [], Inr [\<lparr>rpm_RunID = ''r1'', rpm_RequestID = [],
       rpm_Type = RunStatusWaitingPermission, rpm_Reason = []\<rparr>]) \<and>
   (\<exists>e \<in> set (events_of (sv_db blocked_w) ''r1''). evt_Type e = EventRunBlocked)"
proof -
  have i: "run_db_inv (sv_db blocked_w)"
    unfolding blocked_w_def
    by (rule store_inv_w [unfolded store_inv_def, THEN conjunct1])
      (auto simp: validRunStatuses_def run_status_defs last_seq_def [THEN arg_cong, of "(\<le>) 1"]
         long_log_def event_w_def comp_def)
  have f: "find_run (sv_db blocked_w) ''r1'' = Some (run_w\<lparr>run_Status := ''waiting_permission'',
      run_AttachmentState := ''detached'', run_AttachedConnectionID := [], run_LastEventSeq := last_seq\<rparr>)"
    by (simp add: blocked_w_def find_run_w)
  have t: "take 500 (events_of (sv_db blocked_w) ''r1'') =
      map (\<lambda>i. event_w i (if i = last_seq then ''run.blocked'' else ''run.progress'')
        ''waiting_permission'') [1..500]"
    using take_upto [of 500 last_seq] unfolding long_log_events long_log_def take_map
    by (simp add: last_seq_def [THEN arg_cong, of "(\<le>) 500"] del: upto_rec_numeral)
  have "handleRunPermissions (env_at 5) no_parse conn_w (Inr \<lparr>rp_RunID = ''r1'', rp_SessionID = []\<rparr>)
      blocked_w = (blocked_w, [], Inr [\<lparr>rpm_RunID = ''r1'', rpm_RequestID = [],
       rpm_Type = RunStatusWaitingPermission, rpm_Reason = []\<rparr>])"
  proof (rule blocker_after_500_events_lost [OF i f _ running_owner])
    show "\<forall>e \<in> set (take 500 (events_of (sv_db blocked_w) ''r1'')). evt_Type e \<noteq> EventRunBlocked"
      unfolding t by (auto simp: event_w_def EventRunBlocked_def last_seq_def simp del: upto_rec_numeral)
  qed (simp_all add: RunStatusWaitingPermission_def)
  moreover have "event_w last_seq ''run.blocked'' ''waiting_permission'' \<in> set long_log"
    unfolding long_log_def by (auto simp: last_seq_def [THEN arg_cong, of "(\<le>) 1"] intro!: image_eqI [of _ _ last_seq])
  ultimately show ?thesis
    unfolding long_log_events
    by (intro conjI bexI [of _ "event_w last_seq ''run.blocked'' ''waiting_permission''"])
      (simp_all add: event_w_def EventRunBlocked_def)
qed

definition call_w :: "int \<Rightarrow> RunModelCall" where
  "call_w n = \<lparr>mc_ModelCallID = ''m1'', mc_RunID = ''r1'', mc_Provider = ''p'', mc_Model = ''m'',
     mc_Stage = [], mc_Status = ''completed'', mc_InputTokens = n, mc_OutputTokens = 2,
     mc_TotalCost = 1, mc_LatencyMs = 3, mc_PayloadJSON = None, mc_CreatedAt = 0, mc_UpdatedAt = 0\<rparr>"

lemma accounting_exact_witness:
  "totals_exact (foldl record_one (sv_db running_w)
     [(env_at 5, ModelCall (call_w 10)), (env_at 6, ModelCall (call_w 99))])"
proof -
  have "totals_exact (sv_db running_w)"
    by (simp add: totals_exact_def calls_of_def results_of_def running_w_def w_defs)
  with accounting_exact [OF _ _ refl] running_inv show ?thesis
    by (simp add: runs_inv_def del: foldl.simps)
qed

text \<open>The call is inserted, then the update of the totals fails: the row is gone again.\<close>

lemma store_error_atomic_witness:
  "(let E = (env_at 5)\<lparr>env_fault := (\<lambda>st. st = S_ModelTotals)\<rparr> in
     store_step (sv_db running_w) (E, OpRecordRunModelCall (call_w 10)) =
       (sv_db running_w, [Some (SqlError S_ModelTotals)]))"
proof -
  let ?E = "(env_at 5)\<lparr>env_fault := (\<lambda>st. st = S_ModelTotals)\<rparr>"
  let ?l = "store_step (sv_db running_w) (?E, OpRecordRunModelCall (call_w 10))"
  have "snd ?l = [Some (SqlError S_ModelTotals)]"
    by (simp add: outcome_def RecordRunModelCall_def Let_def run_tx_def exec_def running_w_def w_defs call_w_def
        normalizeModelCall_def has_run_def split_beta)
  then have "?l = (fst ?l, [Some (SqlError S_ModelTotals)])" by (metis prod.collapse)
  from store_error_atomic [OF this] this show ?thesis unfolding Let_def by simp
qed

lemma model_call_counted_once_witness:
  "\<exists>d b. RecordRunModelCall (env_at 5) (call_w 10) (sv_db running_w) = (d, Inr b) \<and>
     RecordRunModelCall (env_at 6) (call_w 99) d = (d, Inr False)"
proof -
  have "\<exists>d b. RecordRunModelCall (env_at 5) (call_w 10) (sv_db running_w) = (d, Inr b)"
    by (simp add: RecordRunModelCall_def Let_def run_tx_def exec_def running_w_def w_defs call_w_def
        normalizeModelCall_def has_run_def) (rule exI [of _ True], simp)
  then obtain d b where "RecordRunModelCall (env_at 5) (call_w 10) (sv_db running_w) = (d, Inr b)" by blast
  with model_call_counted_once [OF this, of "call_w 99" "env_at 6"] show ?thesis
    by (auto simp: call_w_def)
qed

lemma registry_consistent_witness:
  "registry_inv (foldl registry_step newRunRegistry
     [Register id ''r1'' ''t1'' ''s1'' ''c1'' 7, CancelRun ''r1''])"
proof -
  let ?ops = "[Register id ''r1'' ''t1'' ''s1'' ''c1'' 7, CancelRun ''r1'']"
  have i: "registry_inv newRunRegistry"
    by (simp add: registry_inv_def newRunRegistry_def maxTrackedRuns_def)
  have "own_turn (foldl registry_step newRunRegistry (take i ?ops)) (?ops ! i)" if "i < length ?ops" for i
    using that by (cases i) (simp_all add: newRunRegistry_def)
  from registry_consistent [OF i this refl] show ?thesis by blast
qed

end
