(* ===== verification/Provider_Types.thy ===== *)
theory Provider_Types
  imports GoJson
begin

text \<open>
  The canonical conversation the runtime keeps and the adapters of the model providers translate
  (\<open>internal/provider/message.go\<close>, \<open>provider.go\<close>), with its JSON text, and the truncation of a
  conversation to a context window (\<open>truncate.go\<close>).  A \<open>json.RawMessage\<close> is its text, \<open>None\<close> when
  nil; nil and empty slices, which the code never tells apart, are the empty list.
\<close>

subsection \<open>Messages\<close>

record ToolCall =
  call_ID :: string
  call_Name :: string
  call_Input :: "string option"

record ToolResult =
  res_ToolCallID :: string
  res_Output :: string
  res_Status :: string
  res_Error :: string
  res_Reason :: string

record Attachment =
  atm_Path :: string
  atm_Raw :: string
  atm_Content :: string
  atm_ContentType :: string
  atm_Transform :: string

record Message =
  msg_Role :: string
  msg_Content :: string
  msg_ToolCalls :: "ToolCall list"
  msg_ToolResults :: "ToolResult list"
  msg_Attachments :: "Attachment list"
  msg_Metadata :: "(string \<times> json) list"

definition MetaKeyTurnID :: string where
  "MetaKeyTurnID = ''turn_id''"

definition empty_message :: Message where
  "empty_message = \<lparr>msg_Role = [], msg_Content = [], msg_ToolCalls = [], msg_ToolResults = [],
     msg_Attachments = [], msg_Metadata = []\<rparr>"

record ToolDefinition =
  tool_Name :: string
  tool_Namespace :: string
  tool_Description :: string
  tool_InputSchema :: "string option"
  tool_OutputEnvelope :: string
  tool_RiskLevel :: string

subsection \<open>Messages as JSON\<close>

text \<open>A nil raw message is written as \<open>null\<close>; a text that is not JSON makes the encoding fail.\<close>

definition rawmsg_json :: "string option \<Rightarrow> json option" where
  "rawmsg_json r = (case r of None \<Rightarrow> Some JNull | Some s \<Rightarrow> raw_json s)"

definition toolcall_json :: "ToolCall \<Rightarrow> json option" where
  "toolcall_json tc = map_option (\<lambda>inp. JObj [(''id'', jstr (call_ID tc)),
     (''name'', jstr (call_Name tc)), (''input'', inp)]) (rawmsg_json (call_Input tc))"

definition omitempty :: "string \<Rightarrow> string \<Rightarrow> (string \<times> json) list" where
  "omitempty k s = (if s = [] then [] else [(k, jstr s)])"

definition toolresult_json :: "ToolResult \<Rightarrow> json" where
  "toolresult_json r = JObj ([(''tool_call_id'', jstr (res_ToolCallID r)),
     (''output'', jstr (res_Output r)), (''status'', jstr (res_Status r))]
     @ omitempty ''error'' (res_Error r) @ omitempty ''reason'' (res_Reason r))"

definition attachment_json :: "Attachment \<Rightarrow> json" where
  "attachment_json a = JObj [(''path'', jstr (atm_Path a)), (''raw'', jstr (atm_Raw a)),
     (''content'', jstr (atm_Content a)), (''content_type'', jstr (atm_ContentType a)),
     (''transform'', jstr (atm_Transform a))]"

definition omitempty_list :: "string \<Rightarrow> json list \<Rightarrow> (string \<times> json) list" where
  "omitempty_list k vs = (if vs = [] then [] else [(k, JArr vs)])"

definition message_json :: "Message \<Rightarrow> json option" where
  "message_json m = map_option (\<lambda>calls.
     JObj ([(''role'', jstr (msg_Role m)), (''content'', jstr (msg_Content m))]
       @ omitempty_list ''tool_calls'' calls
       @ omitempty_list ''tool_results'' (map toolresult_json (msg_ToolResults m))
       @ omitempty_list ''attachments'' (map attachment_json (msg_Attachments m))
       @ (if msg_Metadata m = [] then []
          else [(''metadata'', JObj (map (\<lambda>(k, v). (json_lit k, v)) (msg_Metadata m)))])))
     (all_some (map toolcall_json (msg_ToolCalls m)))"

definition obind :: "'a option \<Rightarrow> ('a \<Rightarrow> 'b option) \<Rightarrow> 'b option" where
  "obind x f = (case x of None \<Rightarrow> None | Some y \<Rightarrow> f y)"

lemma obind_simps [simp]: "obind None f = None" "obind (Some y) f = f y"
  by (simp_all add: obind_def)

lemma obind_Some: "obind x f = Some z \<longleftrightarrow> (\<exists>y. x = Some y \<and> f y = Some z)"
  by (cases x) auto

text \<open>A member that is a raw message: nil when it is missing.\<close>

definition has_member :: "string \<Rightarrow> json \<Rightarrow> bool" where
  "has_member name j = (case j of JObj ms \<Rightarrow> list_ex (\<lambda>(k, v). same_key k name) ms | _ \<Rightarrow> False)"

definition raw_member :: "string \<Rightarrow> json \<Rightarrow> string option" where
  "raw_member name j = (if has_member name j then Some (json_print (jfield name j)) else None)"

definition toolcall_of :: "json \<Rightarrow> ToolCall option" where
  "toolcall_of = as_struct (\<lambda>j.
     obind (as_string (jfield ''id'' j)) (\<lambda>i.
     obind (as_string (jfield ''name'' j)) (\<lambda>n.
     Some \<lparr>call_ID = i, call_Name = n, call_Input = raw_member ''input'' j\<rparr>)))"

definition toolresult_of :: "json \<Rightarrow> ToolResult option" where
  "toolresult_of = as_struct (\<lambda>j.
     obind (as_string (jfield ''tool_call_id'' j)) (\<lambda>i.
     obind (as_string (jfield ''output'' j)) (\<lambda>out.
     obind (as_string (jfield ''status'' j)) (\<lambda>st.
     obind (as_string (jfield ''error'' j)) (\<lambda>err.
     obind (as_string (jfield ''reason'' j)) (\<lambda>rs.
     Some \<lparr>res_ToolCallID = i, res_Output = out, res_Status = st, res_Error = err,
           res_Reason = rs\<rparr>))))))"

definition attachment_of :: "json \<Rightarrow> Attachment option" where
  "attachment_of = as_struct (\<lambda>j.
     obind (as_string (jfield ''path'' j)) (\<lambda>p.
     obind (as_string (jfield ''raw'' j)) (\<lambda>r.
     obind (as_string (jfield ''content'' j)) (\<lambda>c.
     obind (as_string (jfield ''content_type'' j)) (\<lambda>t.
     obind (as_string (jfield ''transform'' j)) (\<lambda>tf.
     Some \<lparr>atm_Path = p, atm_Raw = r, atm_Content = c, atm_ContentType = t,
           atm_Transform = tf\<rparr>))))))"

definition as_map :: "json \<Rightarrow> (string \<times> json) list option" where
  "as_map j = (case j of JNull \<Rightarrow> Some [] | JObj ms \<Rightarrow> Some (map (\<lambda>(k, v). (unlit k, v)) ms) | _ \<Rightarrow> None)"

definition message_of :: "json \<Rightarrow> Message option" where
  "message_of = as_struct (\<lambda>j.
     obind (as_string (jfield ''role'' j)) (\<lambda>r.
     obind (as_string (jfield ''content'' j)) (\<lambda>c.
     obind (as_list toolcall_of (jfield ''tool_calls'' j)) (\<lambda>tcs.
     obind (as_list toolresult_of (jfield ''tool_results'' j)) (\<lambda>trs.
     obind (as_list attachment_of (jfield ''attachments'' j)) (\<lambda>ats.
     obind (as_map (jfield ''metadata'' j)) (\<lambda>md.
     Some \<lparr>msg_Role = r, msg_Content = c, msg_ToolCalls = tcs, msg_ToolResults = trs,
           msg_Attachments = ats, msg_Metadata = md\<rparr>)))))))"

subsection \<open>Token estimates\<close>

definition EstimateTokens :: "string \<Rightarrow> nat" where
  "EstimateTokens s = length s div 4"

definition EstimateMessageTokens :: "Message \<Rightarrow> nat" where
  "EstimateMessageTokens m =
     EstimateTokens (msg_Content m)
     + (if msg_ToolCalls m = [] then 0
        else (case all_some (map toolcall_json (msg_ToolCalls m)) of
                None \<Rightarrow> 0 | Some cs \<Rightarrow> EstimateTokens (json_print (JArr cs))))
     + (if msg_ToolResults m = [] then 0
        else EstimateTokens (json_print (JArr (map toolresult_json (msg_ToolResults m)))))
     + sum_list (map (\<lambda>a. EstimateTokens (atm_Content a)) (msg_Attachments m))"

subsection \<open>Truncation\<close>

datatype provider_error =
    ErrEmptyMessages | ErrWindowTooSmall | ErrTruncationEmpty | ErrInvalidToolInput string | ErrMarshal

text \<open>The walk from the newest message (of the reversed list) to the oldest that still fits.\<close>

fun newest_fitting :: "nat \<Rightarrow> Message list \<Rightarrow> Message list" where
  "newest_fitting remaining [] = []"
| "newest_fitting remaining (m # ms) =
     (if EstimateMessageTokens m > remaining then []
      else m # newest_fitting (remaining - EstimateMessageTokens m) ms)"

definition tool_use_ids :: "Message list \<Rightarrow> string set" where
  "tool_use_ids ms = set (concat (map (\<lambda>m. if msg_Role m = ''assistant''
     then map call_ID (msg_ToolCalls m) else []) ms))"

definition tool_result_ids :: "Message list \<Rightarrow> string set" where
  "tool_result_ids ms = set (concat (map (\<lambda>m. map res_ToolCallID (msg_ToolResults m)) ms))"

definition reconcile :: "Message list \<Rightarrow> Message list" where
  "reconcile kept = map (\<lambda>m. m\<lparr>
     msg_ToolResults := filter (\<lambda>r. res_ToolCallID r \<in> tool_use_ids kept) (msg_ToolResults m),
     msg_ToolCalls := filter (\<lambda>c. call_ID c \<in> tool_result_ids kept) (msg_ToolCalls m)\<rparr>) kept"

definition carries :: "Message \<Rightarrow> bool" where
  "carries m = (msg_Content m \<noteq> [] \<or> msg_ToolCalls m \<noteq> [] \<or> msg_ToolResults m \<noteq> []
     \<or> msg_Attachments m \<noteq> [])"

definition Truncate :: "Message list \<Rightarrow> string \<Rightarrow> int \<Rightarrow> provider_error + Message list" where
  "Truncate msgs systemPrompt windowSize =
     (if msgs = [] then Inl ErrEmptyMessages
      else if windowSize \<le> 0 then Inr msgs
      else if int (EstimateTokens systemPrompt) \<ge> windowSize then Inl ErrWindowTooSmall
      else
        (let remaining = nat windowSize - EstimateTokens systemPrompt;
             kept = rev (newest_fitting remaining (rev msgs))
         in if kept = [] then Inl ErrTruncationEmpty
            else (let result = filter carries (reconcile kept)
                  in if result = [] then Inl ErrTruncationEmpty
                     else if list_ex (\<lambda>m. msg_Role m = ''user'' \<or> msg_Role m = ''tool'') result
                     then Inr result else Inl ErrTruncationEmpty)))"

end
