(* ===== verification/Conversation.thy ===== *)
theory Conversation
  imports Provider_Types Runtime_Types
begin

text \<open>
  The in-memory conversation of a session (\<open>internal/runtime/conversation.go\<close>): the canonical
  messages, the sequence of the wire, which counts user turns, and the sequence of the storage,
  which counts messages; how turns are appended and persisted, and how a conversation is restored
  from its persisted turns.
\<close>

subsection \<open>Requests\<close>

text \<open>The tool results of the wire carry an output type that the canonical ones do not have.\<close>

record WireToolResult =
  wtr_ToolCallID :: string
  wtr_Status :: string
  wtr_Output :: string
  wtr_OutputType :: string
  wtr_Error :: string
  wtr_Reason :: string

record TurnSubmit =
  ts_TurnID :: string
  ts_SessionID :: string
  ts_Sequence :: int
  ts_Mode :: string
  ts_Content :: string
  ts_IdempotencyKey :: string
  ts_Attachments :: "Attachment list"
  ts_ToolResults :: "WireToolResult list"

subsection \<open>State\<close>

record Conversation =
  cv_sessionID :: string
  cv_turns :: "Message list"
  cv_userSequence :: int
  cv_storageSequence :: int

definition NewConversation :: "string \<Rightarrow> Conversation" where
  "NewConversation sid = \<lparr>cv_sessionID = sid, cv_turns = [], cv_userSequence = 0, cv_storageSequence = 0\<rparr>"

definition TurnCount :: "Conversation \<Rightarrow> int" where
  "TurnCount c = int (length (cv_turns c))"

definition Reset :: "Conversation \<Rightarrow> Conversation \<times> int" where
  "Reset c = (c\<lparr>cv_turns := [], cv_userSequence := 0, cv_storageSequence := 0\<rparr>, TurnCount c)"

record TurnMetadata =
  tmd_Model :: string
  tmd_Provider :: string
  tmd_InputTokens :: int
  tmd_OutputTokens :: int
  tmd_Cost :: rat
  tmd_LatencyMs :: int
  tmd_FilesTouched :: "string list"
  tmd_FilesModified :: "string list"

definition no_metadata :: TurnMetadata where
  "no_metadata = \<lparr>tmd_Model = [], tmd_Provider = [], tmd_InputTokens = 0, tmd_OutputTokens = 0,
     tmd_Cost = 0, tmd_LatencyMs = 0, tmd_FilesTouched = [], tmd_FilesModified = []\<rparr>"

record AssistantResponse =
  ar_Content :: string
  ar_ToolCalls :: "ToolCall list"
  ar_Model :: string
  ar_Provider :: string
  ar_InputTokens :: int
  ar_OutputTokens :: int
  ar_Cost :: rat
  ar_LatencyMs :: int

subsection \<open>Messages and rows\<close>

text \<open>A message that cannot be encoded is stored as \<open>null\<close>.\<close>

definition messageToTurn ::
  "store_env \<Rightarrow> string \<Rightarrow> int \<Rightarrow> Message \<Rightarrow> TurnMetadata \<Rightarrow> Turn" where
  "messageToTurn E sid sequence msg md =
     \<lparr>turn_ID = [], turn_SessionID = sid, turn_Sequence = sequence, turn_Role = msg_Role msg,
      turn_Content = Some (case message_json msg of None \<Rightarrow> ''null'' | Some j \<Rightarrow> json_print j),
      turn_Model = tmd_Model md, turn_Provider = tmd_Provider md,
      turn_InputTokens = tmd_InputTokens md, turn_OutputTokens = tmd_OutputTokens md,
      turn_Cost = tmd_Cost md, turn_LatencyMs = tmd_LatencyMs md,
      turn_ToolCalls = (if msg_ToolCalls msg = [] then None
                        else map_option (\<lambda>cs. json_print (JArr cs))
                               (all_some (map toolcall_json (msg_ToolCalls msg)))),
      turn_FilesTouched = tmd_FilesTouched md, turn_FilesModified = tmd_FilesModified md,
      turn_Compacted = False, turn_CompactedSummary = [], turn_OriginalTurns = [],
      turn_CreatedAt = env_now E\<rparr>"

definition turnToMessage :: "Turn \<Rightarrow> Message option" where
  "turnToMessage t =
     (case turn_Content t of
        None \<Rightarrow> None
      | Some s \<Rightarrow> (if s = [] then None else json_unmarshal message_of s))"

subsection \<open>Appending\<close>

definition canonical_result :: "WireToolResult \<Rightarrow> ToolResult" where
  "canonical_result r = \<lparr>res_ToolCallID = wtr_ToolCallID r, res_Output = wtr_Output r,
     res_Status = wtr_Status r, res_Error = wtr_Error r, res_Reason = wtr_Reason r\<rparr>"

definition user_message :: "TurnSubmit \<Rightarrow> Message" where
  "user_message submit =
     \<lparr>msg_Role = ''user'', msg_Content = ts_Content submit, msg_ToolCalls = [],
      msg_ToolResults = map canonical_result (ts_ToolResults submit),
      msg_Attachments = ts_Attachments submit,
      msg_Metadata = [(MetaKeyTurnID, jstr (ts_TurnID submit))]\<rparr>"

definition AppendUserTurn ::
  "store_env \<Rightarrow> TurnSubmit \<Rightarrow> Conversation \<Rightarrow> Conversation \<times> (TransportError + Turn)" where
  "AppendUserTurn E submit c =
     (if ts_Sequence submit \<noteq> cv_userSequence c + 1
      then (c, Inl (transportInvalidParams (''turn.submit sequence '' @ itoa (ts_Sequence submit)
                 @ '' does not follow current '' @ itoa (cv_userSequence c))))
      else
        (let msg = user_message submit;
             c' = c\<lparr>cv_turns := cv_turns c @ [msg], cv_userSequence := ts_Sequence submit,
                    cv_storageSequence := cv_storageSequence c + 1\<rparr>;
             turn = messageToTurn E (cv_sessionID c) (cv_storageSequence c') msg no_metadata
         in (c', Inr (turn\<lparr>turn_ID := if ts_TurnID submit = [] then env_uuid E 6
                                      else ts_TurnID submit\<rparr>))))"

definition assistant_message :: "AssistantResponse \<Rightarrow> Message" where
  "assistant_message resp =
     \<lparr>msg_Role = ''assistant'', msg_Content = ar_Content resp, msg_ToolCalls = ar_ToolCalls resp,
      msg_ToolResults = [], msg_Attachments = [], msg_Metadata = []\<rparr>"

definition AppendAssistantTurn ::
  "store_env \<Rightarrow> AssistantResponse \<Rightarrow> Conversation \<Rightarrow> Conversation \<times> Turn" where
  "AppendAssistantTurn E resp c =
     (let msg = assistant_message resp;
          c' = c\<lparr>cv_turns := cv_turns c @ [msg], cv_storageSequence := cv_storageSequence c + 1\<rparr>
      in (c', (messageToTurn E (cv_sessionID c) (cv_storageSequence c') msg
                \<lparr>tmd_Model = ar_Model resp, tmd_Provider = ar_Provider resp,
                 tmd_InputTokens = ar_InputTokens resp, tmd_OutputTokens = ar_OutputTokens resp,
                 tmd_Cost = ar_Cost resp, tmd_LatencyMs = ar_LatencyMs resp,
                 tmd_FilesTouched = [], tmd_FilesModified = []\<rparr>)\<lparr>turn_ID := env_uuid E 7\<rparr>))"

subsection \<open>Restoring\<close>

text \<open>An unreadable turn ends the restoration with an error and leaves the turns before it.\<close>

fun restore_loop :: "Turn list \<Rightarrow> Conversation \<Rightarrow> Conversation \<times> string option" where
  "restore_loop [] c = (c, None)"
| "restore_loop (t # ts) c =
     (case turnToMessage t of
        None \<Rightarrow> (c, Some (turn_ID t))
      | Some msg \<Rightarrow>
          restore_loop ts
            (c\<lparr>cv_turns := cv_turns c @ [msg],
               cv_storageSequence := (if turn_Sequence t > cv_storageSequence c then turn_Sequence t
                                      else cv_storageSequence c),
               cv_userSequence := (if msg_Role msg = ''user'' then cv_userSequence c + 1
                                   else cv_userSequence c)\<rparr>))"

definition RestoreFromTurns :: "Turn list \<Rightarrow> Conversation \<Rightarrow> Conversation \<times> string option" where
  "RestoreFromTurns turns c =
     restore_loop turns (c\<lparr>cv_turns := [], cv_userSequence := 0, cv_storageSequence := 0\<rparr>)"

subsection \<open>Pending tool calls\<close>

text \<open>The messages after the last assistant message, newest last, and that message.\<close>

definition PendingToolCalls :: "Conversation \<Rightarrow> ToolCall list" where
  "PendingToolCalls c =
     (let later = rev (takeWhile (\<lambda>m. msg_Role m \<noteq> ''assistant'') (rev (cv_turns c)));
          resolved = set (concat (map (\<lambda>m. map res_ToolCallID (msg_ToolResults m)) later))
      in case dropWhile (\<lambda>m. msg_Role m \<noteq> ''assistant'') (rev (cv_turns c)) of
           [] \<Rightarrow> []
         | m # _ \<Rightarrow> filter (\<lambda>tc. call_ID tc \<notin> resolved) (msg_ToolCalls m))"

definition MatchToolResult :: "string \<Rightarrow> Conversation \<Rightarrow> ToolCall option" where
  "MatchToolResult i c = find (\<lambda>tc. call_ID tc = i) (PendingToolCalls c)"

end
