(* ===== verification/Provider_Props.thy ===== *)
theory Provider_Props
  imports Provider_Types
begin

text \<open>
  What the canonical conversation promises: a message survives its JSON text up to the compact form
  of raw tool inputs, and truncation to a context window is sound.
\<close>

subsection \<open>Members of objects\<close>

definition plain_char :: "char \<Rightarrow> bool" where
  "plain_char c = (c = CHR ''_'' \<or> (97 \<le> (of_char c :: nat) \<and> (of_char c :: nat) \<le> 122))"

definition plain :: "string \<Rightarrow> bool" where
  "plain k = list_all plain_char k"

lemma plain_lower: "plain_char c \<Longrightarrow> lower c = c"
  by (auto simp: plain_char_def lower_def)

lemma plain_map_lower: "list_all plain_char k \<Longrightarrow> map lower k = k"
  by (induction k) (auto simp: plain_lower)

lemma plain_unlit: "list_all plain_char k \<Longrightarrow> unlit k = k"
  by (induction k) (auto simp: plain_char_def)

lemma same_key_plain: "plain k \<Longrightarrow> plain n \<Longrightarrow> same_key k n = (k = n)"
  by (simp add: same_key_def plain_unlit plain_map_lower plain_def)

lemma find_map_of: "distinct (map fst ms) \<Longrightarrow>
    map_option snd (find (\<lambda>(k, v). k = n) (rev ms)) = map_of ms n"
proof (induction ms rule: rev_induct)
  case (snoc m ms)
  then show ?case
    by (cases m) (auto simp: map_add_def image_iff split: option.splits dest: map_of_SomeD)
qed simp

lemma jfield_plain:
  assumes "plain n" "list_all plain (map fst ms)" "distinct (map fst ms)"
  shows "jfield n (JObj ms) = (case map_of ms n of None \<Rightarrow> JNull | Some v \<Rightarrow> v)"
proof -
  have "find (\<lambda>(k, v). same_key k n) (rev ms) = find (\<lambda>(k, v). k = n) (rev ms)"
    using assms(1,2) by (intro find_cong) (auto simp: same_key_plain list_all_iff)
  with find_map_of [OF assms(3), of n] show ?thesis
    by (auto simp: jfield_def split: option.splits)
qed

lemma has_member_plain:
  assumes "plain n" "list_all plain (map fst ms)"
  shows "has_member n (JObj ms) = (n \<in> fst ` set ms)"
  using assms by (force simp: has_member_def list_ex_iff same_key_plain list_all_iff)

lemma plain_json_char: "plain_char c \<Longrightarrow> json_char c = [c]"
  by (auto simp: plain_char_def json_char_def Let_def)

lemma plain_json_lit: "list_all plain_char k \<Longrightarrow> json_lit k = k"
  by (induction k) (auto simp: json_lit_def plain_json_char)

lemma wf_plain: "plain k \<Longrightarrow> wf_lit k"
  using wf_json_lit [of k] by (simp add: plain_json_lit plain_def)

lemma plain_names [simp]:
  "plain ''id''" "plain ''name''" "plain ''input''"
  "plain ''tool_call_id''" "plain ''output''" "plain ''status''"
  "plain ''error''" "plain ''reason''"
  "plain ''path''" "plain ''raw''" "plain ''content''"
  "plain ''content_type''" "plain ''transform''"
  "plain ''role''" "plain ''tool_calls''" "plain ''tool_results''"
  "plain ''attachments''" "plain ''metadata''"
  by (simp_all add: plain_def plain_char_def)

lemma as_string_jstr [simp]: "as_string (jstr s) = Some s"
  by (simp add: as_string_def jstr_def)

lemma wf_jstr [simp]: "wf_json (jstr s)"
  by (simp add: jstr_def)

lemma as_string_null [simp]: "as_string JNull = Some []"
  by (simp add: as_string_def)

definition compact_call :: "ToolCall \<Rightarrow> ToolCall" where
  "compact_call tc = tc\<lparr>call_Input := map_option json_print (rawmsg_json (call_Input tc))\<rparr>"

lemma toolcall_codec:
  assumes "toolcall_json tc = Some j"
  shows "toolcall_of j = Some (compact_call tc)"
proof -
  from assms obtain inp where inp: "rawmsg_json (call_Input tc) = Some inp"
      "j = JObj [(''id'', jstr (call_ID tc)), (''name'', jstr (call_Name tc)), (''input'', inp)]"
    by (auto simp: toolcall_json_def)
  then show ?thesis
    by (cases tc) (simp add: toolcall_of_def as_struct_def is_struct_def jfield_plain has_member_plain
        raw_member_def compact_call_def)
qed

lemma toolresult_codec [simp]: "toolresult_of (toolresult_json r) = Some r"
  by (cases r) (simp add: toolresult_of_def toolresult_json_def as_struct_def is_struct_def jfield_plain
      omitempty_def)

lemma attachment_codec [simp]: "attachment_of (attachment_json a) = Some a"
  by (cases a) (simp add: attachment_of_def attachment_json_def as_struct_def is_struct_def jfield_plain)

lemma all_some_map: "(\<And>x. x \<in> set xs \<Longrightarrow> f x = Some (g x)) \<Longrightarrow> all_some (map f xs) = Some (map g xs)"
  by (induction xs) auto

lemma all_some_Some: "all_some xs = Some ys \<longleftrightarrow> xs = map Some ys"
  by (induction xs arbitrary: ys rule: all_some.induct) auto

lemma as_list_empty: "as_list f (if xs = [] then JNull else JArr xs) = all_some (map f xs)"
  by (simp add: as_list_def)

definition compact_message :: "Message \<Rightarrow> Message" where
  "compact_message m = m\<lparr>msg_ToolCalls := map compact_call (msg_ToolCalls m)\<rparr>"

definition meta_map :: "(string \<times> json) list \<Rightarrow> json" where
  "meta_map md = (if md = [] then JNull else JObj (map (\<lambda>(k, v). (json_lit k, v)) md))"

lemma as_map_meta: "as_map (meta_map md) = Some md"
  by (auto simp: as_map_def meta_map_def case_prod_unfold o_def)

lemma message_codec:
  assumes "message_json m = Some j"
  shows "message_of j = Some (compact_message m)"
proof -
  from assms obtain calls where c: "all_some (map toolcall_json (msg_ToolCalls m)) = Some calls"
    and j: "j = JObj ([(''role'', jstr (msg_Role m)), (''content'', jstr (msg_Content m))]
       @ omitempty_list ''tool_calls'' calls
       @ omitempty_list ''tool_results'' (map toolresult_json (msg_ToolResults m))
       @ omitempty_list ''attachments'' (map attachment_json (msg_Attachments m))
       @ (if msg_Metadata m = [] then []
          else [(''metadata'', JObj (map (\<lambda>(k, v). (json_lit k, v)) (msg_Metadata m)))]))"
    by (auto simp: message_json_def)
  have calls: "all_some (map toolcall_of calls) = Some (map compact_call (msg_ToolCalls m))"
    using c unfolding all_some_Some by (auto simp: list_eq_iff_nth_eq intro!: toolcall_codec) 
  have f: "jfield ''role'' j = jstr (msg_Role m)" "jfield ''content'' j = jstr (msg_Content m)"
    "jfield ''tool_calls'' j = (if calls = [] then JNull else JArr calls)"
    "jfield ''tool_results'' j = (if map toolresult_json (msg_ToolResults m) = [] then JNull
        else JArr (map toolresult_json (msg_ToolResults m)))"
    "jfield ''attachments'' j = (if map attachment_json (msg_Attachments m) = [] then JNull
        else JArr (map attachment_json (msg_Attachments m)))"
    "jfield ''metadata'' j = meta_map (msg_Metadata m)"
    by (simp_all add: j jfield_plain omitempty_list_def meta_map_def)
  have g: "as_list toolcall_of (jfield ''tool_calls'' j) = Some (map compact_call (msg_ToolCalls m))"
    unfolding f(3) as_list_empty by (rule calls)
  have h: "as_list toolresult_of (jfield ''tool_results'' j) = Some (msg_ToolResults m)"
    unfolding f(4) as_list_empty by (simp add: all_some_Some list_eq_iff_nth_eq)
  have k: "as_list attachment_of (jfield ''attachments'' j) = Some (msg_Attachments m)"
    unfolding f(5) as_list_empty by (simp add: all_some_Some list_eq_iff_nth_eq)
  have "is_struct j" by (simp add: j is_struct_def)
  with f(1,2,6) g h k show ?thesis
    by (cases m) (simp add: message_of_def as_struct_def compact_message_def as_map_meta)
qed
subsection \<open>Truncation\<close>

lemma newest_fitting_spec:
  "newest_fitting n ms = take (length (newest_fitting n ms)) ms"
  "sum_list (map EstimateMessageTokens (newest_fitting n ms)) \<le> n"
  "length (newest_fitting n ms) < length ms \<Longrightarrow>
     n < sum_list (map EstimateMessageTokens (take (Suc (length (newest_fitting n ms))) ms))"
proof -
  show "newest_fitting n ms = take (length (newest_fitting n ms)) ms"
    by (induction n ms rule: newest_fitting.induct) auto
  show "sum_list (map EstimateMessageTokens (newest_fitting n ms)) \<le> n"
    by (induction n ms rule: newest_fitting.induct) auto
  show "length (newest_fitting n ms) < length ms \<Longrightarrow>
     n < sum_list (map EstimateMessageTokens (take (Suc (length (newest_fitting n ms))) ms))"
    by (induction n ms rule: newest_fitting.induct) (auto split: if_splits)
qed

lemma json_elems_filter: "length (json_elems (map f (filter P xs))) \<le> length (json_elems (map f xs))"
proof (induction xs)
  case (Cons x xs)
  then show ?case by (cases "filter P xs = []") (auto simp: filter_empty_conv)
qed simp

lemma all_some_filter:
  assumes "all_some (map f xs) = Some ys"
  shows "\<exists>g. ys = map g xs \<and> all_some (map f (filter P xs)) = Some (map g (filter P xs))"
proof -
  from assms have f: "map f xs = map Some ys" by (simp add: all_some_Some)
  have "f x = Some (the (f x))" if "x \<in> set xs" for x
  proof -
    have "f x \<in> Some ` set ys" using that f by (metis image_eqI list.set_map)
    then show ?thesis by auto
  qed
  then have "all_some (map f zs) = Some (map (\<lambda>x. the (f x)) zs)" if "set zs \<subseteq> set xs" for zs
    using that by (intro all_some_map) auto
  from this [of xs] this [of "filter P xs"] assms show ?thesis
    by (intro exI [of _ "\<lambda>x. the (f x)"]) (auto simp del: map_map)
qed

definition valid_calls :: "Message \<Rightarrow> bool" where
  "valid_calls m = (\<forall>c \<in> set (msg_ToolCalls m). toolcall_json c \<noteq> None)"

lemma valid_calls_all_some: "valid_calls m \<Longrightarrow> \<exists>ys. all_some (map toolcall_json (msg_ToolCalls m)) = Some ys"
  unfolding valid_calls_def by (rule exI, rule all_some_map [where g = "\<lambda>c. the (toolcall_json c)"]) auto

lemma tokens_mono: "length s \<le> length t \<Longrightarrow> EstimateTokens s \<le> EstimateTokens t"
  by (simp add: EstimateTokens_def div_le_mono)

lemma print_array_mono: "length (json_elems xs) \<le> length (json_elems ys) \<Longrightarrow>
    EstimateTokens (json_print (JArr xs)) \<le> EstimateTokens (json_print (JArr ys))"
  by (rule tokens_mono) simp

lemma tokens_filter_calls:
  assumes "valid_calls m"
  shows "EstimateMessageTokens (m\<lparr>msg_ToolResults := filter P (msg_ToolResults m),
      msg_ToolCalls := filter Q (msg_ToolCalls m)\<rparr>) \<le> EstimateMessageTokens m"
proof -
  obtain ys where ys: "all_some (map toolcall_json (msg_ToolCalls m)) = Some ys"
    using valid_calls_all_some [OF assms] by blast
  then obtain g where g: "ys = map g (msg_ToolCalls m)"
      "all_some (map toolcall_json (filter Q (msg_ToolCalls m))) = Some (map g (filter Q (msg_ToolCalls m)))"
    using all_some_filter by blast
  have c: "(if filter Q (msg_ToolCalls m) = [] then 0
        else EstimateTokens (json_print (JArr (map g (filter Q (msg_ToolCalls m))))))
      \<le> (if msg_ToolCalls m = [] then 0 else EstimateTokens (json_print (JArr ys)))"
    unfolding g(1) using print_array_mono [OF json_elems_filter [of g Q "msg_ToolCalls m"]] by (cases "msg_ToolCalls m = []") (auto simp del: json_print.simps)
  have r: "(if filter P (msg_ToolResults m) = [] then 0
        else EstimateTokens (json_print (JArr (map toolresult_json (filter P (msg_ToolResults m))))))
      \<le> (if msg_ToolResults m = [] then 0
        else EstimateTokens (json_print (JArr (map toolresult_json (msg_ToolResults m)))))"
    using print_array_mono [OF json_elems_filter [of toolresult_json P "msg_ToolResults m"]] by (cases "msg_ToolResults m = []") (auto simp del: json_print.simps)
  let ?m = "m\<lparr>msg_ToolResults := filter P (msg_ToolResults m), msg_ToolCalls := filter Q (msg_ToolCalls m)\<rparr>"
  have "msg_ToolCalls ?m = filter Q (msg_ToolCalls m)" "msg_ToolResults ?m = filter P (msg_ToolResults m)"
    "msg_Content ?m = msg_Content m" "msg_Attachments ?m = msg_Attachments m"
    by simp_all
  with c r show ?thesis
    unfolding EstimateMessageTokens_def ys g(2) option.case by (simp only: add_mono le_refl g(2) option.case)
qed

lemma reconcile_tokens:
  assumes "\<forall>m \<in> set kept. valid_calls m"
  shows "sum_list (map EstimateMessageTokens (filter carries (reconcile kept)))
    \<le> sum_list (map EstimateMessageTokens kept)"
proof -
  have "sum_list (map EstimateMessageTokens (filter carries (reconcile kept)))
      \<le> sum_list (map EstimateMessageTokens (reconcile kept))"
    by (induction "reconcile kept" rule: list.induct) (auto intro: sum_list_filter_le_nat)
  also have "\<dots> \<le> sum_list (map EstimateMessageTokens kept)"
    unfolding reconcile_def map_map using assms
    by (intro sum_list_mono) (simp add: tokens_filter_calls)
  finally show ?thesis .
qed

lemma tool_use_idsI: "m \<in> set ms \<Longrightarrow> msg_Role m = ''assistant'' \<Longrightarrow> c \<in> set (msg_ToolCalls m) \<Longrightarrow>
    call_ID c \<in> tool_use_ids ms"
  by (force simp: tool_use_ids_def)

lemma tool_result_idsI: "m \<in> set ms \<Longrightarrow> r \<in> set (msg_ToolResults m) \<Longrightarrow>
    res_ToolCallID r \<in> tool_result_ids ms"
  by (force simp: tool_result_ids_def)

definition pairs_closed :: "Message list \<Rightarrow> bool" where
  "pairs_closed ms = (\<forall>m \<in> set ms. (\<forall>r \<in> set (msg_ToolResults m). res_ToolCallID r \<in> tool_use_ids ms) \<and>
     (msg_Role m = ''assistant'' \<longrightarrow> (\<forall>c \<in> set (msg_ToolCalls m). call_ID c \<in> tool_result_ids ms)))"

lemma reconcile_closed: "pairs_closed (filter carries (reconcile kept))"
proof -
  let ?f = "\<lambda>m. m\<lparr>msg_ToolResults := filter (\<lambda>r. res_ToolCallID r \<in> tool_use_ids kept) (msg_ToolResults m),
     msg_ToolCalls := filter (\<lambda>c. call_ID c \<in> tool_result_ids kept) (msg_ToolCalls m)\<rparr>"
  let ?R = "filter carries (reconcile kept)"
  have use: "call_ID c \<in> tool_use_ids ?R"
    if "m \<in> set kept" "msg_Role m = ''assistant''" "c \<in> set (msg_ToolCalls m)" "call_ID c \<in> tool_result_ids kept" for m c
  proof -
    have c: "c \<in> set (msg_ToolCalls (?f m))" using that by simp
    then have "carries (?f m)" unfolding carries_def by (metis empty_iff empty_set)
    then have "?f m \<in> set ?R" using that(1) by (simp add: reconcile_def)
    then show ?thesis using c that(2) by (intro tool_use_idsI [of "?f m"]) simp_all
  qed
  have res: "res_ToolCallID r \<in> tool_result_ids ?R"
    if "m \<in> set kept" "r \<in> set (msg_ToolResults m)" "res_ToolCallID r \<in> tool_use_ids kept" for m r
  proof -
    have r: "r \<in> set (msg_ToolResults (?f m))" using that by simp
    then have "carries (?f m)" unfolding carries_def by (metis empty_iff empty_set)
    then have "?f m \<in> set ?R" using that(1) by (simp add: reconcile_def)
    then show ?thesis using r by (rule tool_result_idsI)
  qed
  show ?thesis
    unfolding pairs_closed_def
  proof (intro ballI conjI impI)
    fix m' r assume "m' \<in> set ?R" "r \<in> set (msg_ToolResults m')"
    then obtain m where m: "m \<in> set kept" "r \<in> set (msg_ToolResults m)" "res_ToolCallID r \<in> tool_use_ids kept"
      by (auto simp: reconcile_def)
    then obtain a c where "a \<in> set kept" "msg_Role a = ''assistant''" "c \<in> set (msg_ToolCalls a)"
        "call_ID c = res_ToolCallID r"
      by (auto simp: tool_use_ids_def split: if_splits)
    with use [of a c] m show "res_ToolCallID r \<in> tool_use_ids ?R"
      by (auto simp: tool_result_ids_def)
  next
    fix m' c assume m': "m' \<in> set ?R" "msg_Role m' = ''assistant''" "c \<in> set (msg_ToolCalls m')"
    then obtain m where m: "m \<in> set kept" "msg_Role m = ''assistant''" "c \<in> set (msg_ToolCalls m)"
        "call_ID c \<in> tool_result_ids kept"
      by (auto simp: reconcile_def)
    then obtain b r where b: "b \<in> set kept" "r \<in> set (msg_ToolResults b)" "res_ToolCallID r = call_ID c"
      by (auto simp: tool_result_ids_def)
    from m have "call_ID c \<in> tool_use_ids kept" by (force simp: tool_use_ids_def)
    with res [of b r] b show "call_ID c \<in> tool_result_ids ?R" by simp
  qed
qed

text \<open>
  C21: Truncation to a context window is sound: it keeps a suffix of the conversation that cannot be
  longer, then drops tool calls and results whose partner is gone; the outcome fits the window with
  the system prompt, has a message of the user, and pairs every tool result with the call of an
  assistant message and every such call with a result.
\<close>

theorem truncate_sound:
  assumes "Truncate msgs prompt window = Inr ms" "0 < window" "\<forall>m \<in> set msgs. valid_calls m"
  shows "\<exists>older kept. msgs = older @ kept \<and> ms = filter carries (reconcile kept) \<and>
    (older \<noteq> [] \<longrightarrow> window < int (EstimateTokens prompt
       + sum_list (map EstimateMessageTokens (last older # kept)))) \<and>
    int (EstimateTokens prompt + sum_list (map EstimateMessageTokens ms)) \<le> window \<and>
    pairs_closed ms \<and> (\<exists>m \<in> set ms. msg_Role m = ''user'' \<or> msg_Role m = ''tool'')"
proof -
  define n where "n = nat window - EstimateTokens prompt"
  define new where "new = newest_fitting n (rev msgs)"
  define kept where "kept = rev new"
  define older where "older = take (length msgs - length new) msgs"
  from assms(1,2) have win: "int (EstimateTokens prompt) < window" and ms: "ms = filter carries (reconcile kept)"
    and user: "\<exists>m \<in> set ms. msg_Role m = ''user'' \<or> msg_Role m = ''tool''"
    by (auto simp: Truncate_def Let_def kept_def new_def n_def list_ex_iff split: if_splits)
  have new: "new = take (length new) (rev msgs)"
    unfolding new_def by (rule newest_fitting_spec(1))
  then have le: "length new \<le> length msgs" by (metis length_rev length_take min.cobounded1 min.commute)
  have kept: "kept = drop (length msgs - length new) msgs"
    unfolding kept_def by (subst new) (simp add: rev_take)
  have split: "msgs = older @ kept" by (simp add: older_def kept)
  have "sum_list (map EstimateMessageTokens kept) \<le> n"
    using newest_fitting_spec(2) [of n "rev msgs"] by (simp add: kept_def new_def rev_map [symmetric])
  moreover have "sum_list (map EstimateMessageTokens ms) \<le> sum_list (map EstimateMessageTokens kept)"
    unfolding ms using assms(3) split by (intro reconcile_tokens) auto
  ultimately have fits: "int (EstimateTokens prompt + sum_list (map EstimateMessageTokens ms)) \<le> window"
    using win by (simp add: n_def)
  have maximal: "window < int (EstimateTokens prompt + sum_list (map EstimateMessageTokens (last older # kept)))"
    if "older \<noteq> []"
  proof -
    have lt: "length new < length (rev msgs)" using that by (simp add: older_def)
    have "take (Suc (length new)) (rev msgs) = new @ [rev msgs ! length new]"
      using lt new by (metis take_Suc_conv_app_nth)
    moreover have "rev msgs ! length new = last older"
      using lt that by (simp add: rev_nth older_def last_conv_nth)
    ultimately have "n < sum_list (map EstimateMessageTokens (new @ [last older]))"
      using newest_fitting_spec(3) [of n "rev msgs"] lt by (simp add: new_def)
    then show ?thesis using win by (simp add: n_def kept_def rev_map [symmetric])
  qed
  from split ms maximal fits user reconcile_closed show ?thesis by blast
qed

definition greeting :: "string \<Rightarrow> string \<Rightarrow> Message" where
  "greeting role text = empty_message\<lparr>msg_Role := role, msg_Content := text\<rparr>"

lemma greeting_tokens [simp]: "EstimateMessageTokens (greeting role text) = length text div 4"
  by (simp add: greeting_def empty_message_def EstimateMessageTokens_def EstimateTokens_def)

lemma truncate_example:
  "Truncate [greeting ''user'' ''an old question'', greeting ''user'' ''hello''] ''be nice'' 3
     = Inr [greeting ''user'' ''hello'']"
proof -
  have k: "rev (newest_fitting 2 (rev [greeting ''user'' ''an old question'', greeting ''user'' ''hello'']))
      = [greeting ''user'' ''hello'']" by simp
  have c: "filter carries (reconcile [greeting ''user'' ''hello'']) = [greeting ''user'' ''hello'']"
    by (simp add: reconcile_def carries_def greeting_def empty_message_def)
  show ?thesis unfolding Truncate_def
    by (simp add: EstimateTokens_def Let_def k [simplified] c [simplified])
      (simp add: reconcile_def carries_def greeting_def empty_message_def)
qed

lemma truncate_sound_witness:
  "\<exists>older kept. [greeting ''user'' ''an old question'', greeting ''user'' ''hello''] = older @ kept \<and>
     [greeting ''user'' ''hello''] = filter carries (reconcile kept)"
proof -
  have "\<forall>m \<in> set [greeting ''user'' ''an old question'', greeting ''user'' ''hello'']. valid_calls m"
    by (simp add: valid_calls_def greeting_def empty_message_def)
  from truncate_sound [OF truncate_example _ this, simplified] show ?thesis by blast
qed

end
