(* ===== verification/Conversation_Props.thy ===== *)
theory Conversation_Props
  imports Conversation Provider_Props Session_Props
begin

text \<open>
  A conversation and its persisted turns say the same: appending keeps the sequences in step with
  the messages, and restoring from the store after a restart gives the conversation back.
\<close>

subsection \<open>A message as a row\<close>

definition content_text :: "Message \<Rightarrow> string" where
  "content_text m = (case message_json m of None \<Rightarrow> ''null'' | Some j \<Rightarrow> json_print j)"

definition wf_metadata :: "Message \<Rightarrow> bool" where
  "wf_metadata m = (\<forall>(k, v) \<in> set (msg_Metadata m). wf_json v)"

lemma wf_toolcall: "toolcall_json tc = Some j \<Longrightarrow> wf_json j"
  by (auto simp: toolcall_json_def rawmsg_json_def wf_plain jstr_def split: option.splits dest: raw_json_wf)

lemma wf_toolresult: "wf_json (toolresult_json r)"
  by (simp add: toolresult_json_def omitempty_def wf_members_all wf_plain jstr_def)

lemma wf_attachment: "wf_json (attachment_json a)"
  by (simp add: attachment_json_def wf_plain jstr_def)

lemma wf_message:
  assumes "message_json m = Some j" "wf_metadata m"
  shows "wf_json j"
proof -
  from assms(1) obtain calls where c: "all_some (map toolcall_json (msg_ToolCalls m)) = Some calls"
    and j: "j = JObj ([(''role'', jstr (msg_Role m)), (''content'', jstr (msg_Content m))]
       @ omitempty_list ''tool_calls'' calls
       @ omitempty_list ''tool_results'' (map toolresult_json (msg_ToolResults m))
       @ omitempty_list ''attachments'' (map attachment_json (msg_Attachments m))
       @ (if msg_Metadata m = [] then []
          else [(''metadata'', JObj (map (\<lambda>(k, v). (json_lit k, v)) (msg_Metadata m)))]))"
    by (auto simp: message_json_def)
  have "wf_json v" if "v \<in> set calls" for v
  proof -
    from c that have "Some v \<in> toolcall_json ` set (msg_ToolCalls m)"
      unfolding all_some_Some by (metis image_eqI list.set_map)
    then show ?thesis using wf_toolcall by force
  qed
  then show ?thesis using assms(2)
    by (auto simp: j wf_members_all wf_elems_all omitempty_list_def wf_plain jstr_def wf_toolresult
        wf_attachment wf_metadata_def)
qed

lemma message_json_valid: "valid_calls m \<Longrightarrow> \<exists>j. message_json m = Some j"
  using valid_calls_all_some [of m] by (auto simp: message_json_def)

lemma read_content:
  assumes "valid_calls m" "wf_metadata m"
  shows "json_unmarshal message_of (content_text m) = Some (compact_message m)"
proof -
  from message_json_valid [OF assms(1)] obtain j where j: "message_json m = Some j" by blast
  with wf_message [OF j assms(2)] show ?thesis
    by (simp add: content_text_def json_unmarshal_def message_codec)
qed

lemma content_nonempty: "wf_metadata m \<Longrightarrow> content_text m \<noteq> []"
  by (auto simp: content_text_def split: option.splits dest: wf_message print_nonempty)

lemma compact_role [simp]: "msg_Role (compact_message m) = msg_Role m"
  by (simp add: compact_message_def)

subsection \<open>Appending\<close>

datatype conv_op = Submit store_env TurnSubmit | Answer store_env AssistantResponse

fun conv_step :: "Conversation \<Rightarrow> conv_op \<Rightarrow> Conversation \<times> Turn list" where
  "conv_step c (Submit E s) =
     (case AppendUserTurn E s c of (c', Inl _) \<Rightarrow> (c', []) | (c', Inr t) \<Rightarrow> (c', [t]))"
| "conv_step c (Answer E r) = (case AppendAssistantTurn E r c of (c', t) \<Rightarrow> (c', [t]))"

definition user_count :: "Message list \<Rightarrow> int" where
  "user_count ms = int (length (filter (\<lambda>m. msg_Role m = ''user'') ms))"

text \<open>The sequences count the messages and those of the user.\<close>

definition conv_inv :: "Conversation \<Rightarrow> bool" where
  "conv_inv c = (cv_storageSequence c = int (length (cv_turns c)) \<and>
     cv_userSequence c = user_count (cv_turns c) \<and> (\<forall>m \<in> set (cv_turns c). wf_metadata m))"

text \<open>Rows that mirror messages numbered from a start.\<close>

definition mirrors :: "string \<Rightarrow> int \<Rightarrow> Message list \<Rightarrow> Turn list \<Rightarrow> bool" where
  "mirrors sid n ms rows = (map turn_Content rows = map (\<lambda>m. Some (content_text m)) ms \<and>
     map turn_Sequence rows = [n + 1..n + int (length ms)] \<and> (\<forall>t \<in> set rows. turn_SessionID t = sid))"

lemma conv_inv_new [simp]: "conv_inv (NewConversation sid)"
  by (simp add: conv_inv_def NewConversation_def user_count_def)

lemma conv_step_inv: "conv_inv c \<Longrightarrow> conv_inv (fst (conv_step c e))"
  by (cases e) (auto simp: AppendUserTurn_def AppendAssistantTurn_def conv_inv_def user_count_def
      user_message_def assistant_message_def wf_metadata_def Let_def)

interpretation conversation: machine conv_step conv_inv
  by unfold_locales (rule conv_step_inv)

lemma messageToTurn_row [simp]:
  "turn_Content (messageToTurn E sid n m md) = Some (content_text m)"
  "turn_Sequence (messageToTurn E sid n m md) = n"
  "turn_SessionID (messageToTurn E sid n m md) = sid"
  by (simp_all add: messageToTurn_def content_text_def)

lemma conv_step_rows:
  assumes "conv_inv c" "conv_step c e = (c', rows)"
  shows "\<exists>ms. cv_turns c' = cv_turns c @ ms \<and> cv_sessionID c' = cv_sessionID c \<and>
    mirrors (cv_sessionID c) (int (length (cv_turns c))) ms rows"
  using assms
  by (cases e) (auto simp: AppendUserTurn_def AppendAssistantTurn_def mirrors_def conv_inv_def Let_def
      split: if_splits)

lemma upto_join: "a \<le> b + 1 \<Longrightarrow> b \<le> c \<Longrightarrow> [a..b] @ [b + 1..c] = [a..c]"
  using upto_split1 [of a "b + 1" c] by (cases "b < c") auto

lemma mirrors_append:
  assumes "mirrors sid n ms rows" "mirrors sid (n + int (length ms)) ms' rows'"
  shows "mirrors sid n (ms @ ms') (rows @ rows')"
  using assms upto_join [of "n + 1" "n + int (length ms)" "n + int (length ms) + int (length ms')"]
  by (simp add: mirrors_def add.assoc) (simp add: ac_simps; blast)

lemma conv_run_rows:
  assumes "conv_inv c" "run_out conv_step c ops = (c', rows)"
  shows "\<exists>ms. cv_turns c' = cv_turns c @ ms \<and> mirrors (cv_sessionID c) (int (length (cv_turns c))) ms rows"
  using assms
proof (induction ops arbitrary: c rows)
  case Nil
  then show ?case by (simp add: mirrors_def)
next
  case (Cons e ops)
  obtain c1 r1 where s: "conv_step c e = (c1, r1)" by (cases "conv_step c e")
  obtain r2 where r: "run_out conv_step c1 ops = (c', r2)" "rows = r1 @ r2"
    using Cons.prems(2) s by (auto split: prod.splits)
  from conv_step_rows [OF Cons.prems(1) s] obtain ms where m: "cv_turns c1 = cv_turns c @ ms"
      "cv_sessionID c1 = cv_sessionID c" "mirrors (cv_sessionID c) (int (length (cv_turns c))) ms r1" by blast
  have "conv_inv c1" using conv_step_inv [OF Cons.prems(1), of e] s by simp
  from Cons.IH [OF this r(1)] m obtain ms' where m': "cv_turns c' = cv_turns c1 @ ms'"
      "mirrors (cv_sessionID c) (int (length (cv_turns c)) + int (length ms)) ms' r2" by auto
  with m r(2) mirrors_append [OF m(3) m'(2)] show ?case by auto
qed

subsection \<open>Restoring\<close>

text \<open>Rows stored one after the other; no result when one of them is refused.\<close>

fun persist :: "store_env \<Rightarrow> Turn list \<Rightarrow> db \<Rightarrow> db option" where
  "persist E [] d = Some d"
| "persist E (t # ts) d =
     (case CreateTurn E t d of (d', Inr _) \<Rightarrow> persist E ts d' | (_, Inl _) \<Rightarrow> None)"

definition stored_turn :: "Turn \<Rightarrow> Turn" where
  "stored_turn t = t\<lparr>turn_Content := OrElseJ (turn_Content t) [CHR 0x22, CHR 0x22],
     turn_ToolCalls := OrElseJ (turn_ToolCalls t) ''[]''\<rparr>"

lemma persist_rows: "persist E rows d = Some d' \<Longrightarrow> db_turns d' = db_turns d @ map stored_turn rows"
  by (induction rows arbitrary: d)
     (auto simp: CreateTurn_def autocommit_def insertTurn_def stored_turn_def
       split: prod.splits sum.splits if_splits)

lemma stored_turn_simps [simp]:
  "turn_Sequence (stored_turn t) = turn_Sequence t" "turn_SessionID (stored_turn t) = turn_SessionID t"
  by (simp_all add: stored_turn_def)

lemma mirrors_stored:
  assumes "mirrors sid n ms rows" "\<forall>m \<in> set ms. wf_metadata m"
  shows "mirrors sid n ms (map stored_turn rows)"
proof -
  have "turn_Content (stored_turn t) = turn_Content t" if "t \<in> set rows" for t
  proof -
    from assms(1) that have "turn_Content t \<in> (\<lambda>m. Some (content_text m)) ` set ms"
      unfolding mirrors_def by (metis image_eqI list.set_map)
    then show ?thesis using assms(2) content_nonempty by (auto simp: stored_turn_def OrElseJ_def)
  qed
  with assms(1) show ?thesis by (simp add: mirrors_def o_def cong: map_cong)
qed

lemma take_upto_min: "take k [a..b] = [a..min b (a + int k - 1)]"
  by (rule nth_equalityI) (auto simp: min_def nat_le_iff)

lemma mirrors_take: "mirrors sid n ms rows \<Longrightarrow> mirrors sid n (take k ms) (take k rows)"
proof -
  assume m: "mirrors sid n ms rows"
  have "min (n + int (length ms)) (n + 1 + int k - 1) = n + int (length (take k ms))"
    by (simp add: min_def)
  with m have "take k (map turn_Sequence rows) = [n + 1..n + int (length (take k ms))]"
    by (simp only: mirrors_def take_upto_min)
  moreover from m have "take k (map turn_Content rows) = take k (map (\<lambda>m. Some (content_text m)) ms)"
    by (simp only: mirrors_def)
  ultimately show ?thesis using m by (simp add: mirrors_def take_map) (auto dest: in_set_takeD)
qed

lemma restore_rows:
  assumes "mirrors sid (cv_storageSequence c) ms rows" "\<forall>m \<in> set ms. valid_calls m \<and> wf_metadata m"
  shows "restore_loop rows c = (c\<lparr>cv_turns := cv_turns c @ map compact_message ms,
    cv_storageSequence := cv_storageSequence c + int (length ms),
    cv_userSequence := cv_userSequence c + user_count ms\<rparr>, None)"
  using assms
proof (induction ms arbitrary: rows c)
  case Nil
  then show ?case by (simp add: mirrors_def user_count_def)
next
  case (Cons m ms)
  from Cons.prems(1) obtain t ts where r: "rows = t # ts" by (auto simp: mirrors_def)
  with Cons.prems(1) have t: "turn_Content t = Some (content_text m)"
      "turn_Sequence t = cv_storageSequence c + 1"
    and ts: "mirrors sid (cv_storageSequence c + 1) ms ts"
    by (auto simp: mirrors_def upto_rec1 ac_simps)
  from t Cons.prems(2) have tm: "turnToMessage t = Some (compact_message m)"
    by (simp add: turnToMessage_def content_nonempty read_content)
  have u: "user_count (m # ms) = user_count [m] + user_count ms" by (simp add: user_count_def)
  have "restore_loop rows c = restore_loop ts (c\<lparr>cv_turns := cv_turns c @ [compact_message m],
        cv_storageSequence := cv_storageSequence c + 1,
        cv_userSequence := cv_userSequence c + user_count [m]\<rparr>)"
    by (simp add: r tm t user_count_def)
  with Cons.IH [of "c\<lparr>cv_turns := cv_turns c @ [compact_message m],
        cv_storageSequence := cv_storageSequence c + 1,
        cv_userSequence := cv_userSequence c + user_count [m]\<rparr>" ts] ts Cons.prems(2)
  show ?case by (simp add: u ac_simps del: restore_loop.simps)
qed

lemma listed_rows:
  assumes "persist E rows d = Some d'" "turns_of d sid = []" "mirrors sid n ms rows"
    "\<not> env_fault E' S_ListTurns"
  shows "ListTurns E' sid d' = Inr (take MaxTurnsPerListCall (map stored_turn rows))"
proof -
  have "turns_of d' sid = map stored_turn rows"
    using persist_rows [OF assms(1)] assms(2,3)
    by (auto simp: turns_of_def mirrors_def filter_empty_conv intro!: filter_True)
  moreover have "sorted (map turn_Sequence (map stored_turn rows))"
    using assms(3) by (simp add: mirrors_def o_def)
  ultimately show ?thesis using assms(4) by (simp add: ListTurns_def sort_key_id_if_sorted)
qed

text \<open>
  a conversation survives a restart.  Whatever user turns and answers were submitted to a new
  conversation (the rejected ones included), when the turns it returned are persisted in that
  order, then listing the turns of the session and restoring from them gives back its messages and
  both sequence counters: all of them up to the 2000 turns one listing returns, and the oldest 2000
  of a longer conversation.
\<close>

theorem conversation_survives_restart:
  assumes "run_out conv_step (NewConversation sid) ops = (c, rows)"
    and "persist E rows d = Some d'" and "turns_of d sid = []"
    and "\<forall>m \<in> set (cv_turns c). valid_calls m" and "\<not> env_fault E' S_ListTurns"
  shows "\<exists>stored. ListTurns E' sid d' = Inr stored \<and>
    RestoreFromTurns stored (NewConversation sid) =
      (\<lparr>cv_sessionID = sid, cv_turns = map compact_message (take 2000 (cv_turns c)),
        cv_userSequence = user_count (take 2000 (cv_turns c)),
        cv_storageSequence = min 2000 (int (length (cv_turns c)))\<rparr>, None) \<and>
    cv_userSequence c = user_count (cv_turns c) \<and> cv_storageSequence c = int (length (cv_turns c))"
proof -
  let ?ms = "take MaxTurnsPerListCall (cv_turns c)"
  have inv: "conv_inv c"
    using conversation.run_inv [of "NewConversation sid" ops] assms(1) by simp
  from conv_run_rows [OF conv_inv_new assms(1)] have m: "mirrors sid 0 (cv_turns c) rows"
    by (auto simp: NewConversation_def)
  have w: "\<forall>m \<in> set (cv_turns c). valid_calls m \<and> wf_metadata m"
    using inv assms(4) by (simp add: conv_inv_def)
  from mirrors_take [OF mirrors_stored [OF m]] w
  have "mirrors sid 0 ?ms (take MaxTurnsPerListCall (map stored_turn rows))" by blast
  then have "restore_loop (take MaxTurnsPerListCall (map stored_turn rows)) (NewConversation sid) =
    (NewConversation sid\<lparr>cv_turns := map compact_message ?ms,
      cv_storageSequence := int (length ?ms), cv_userSequence := user_count ?ms\<rparr>, None)"
    using restore_rows [of sid "NewConversation sid" ?ms "take MaxTurnsPerListCall (map stored_turn rows)"] w
    by (auto simp: NewConversation_def dest: in_set_takeD)
  then show ?thesis using listed_rows [OF assms(2,3) m assms(5)] inv
    by (simp add: RestoreFromTurns_def NewConversation_def MaxTurnsPerListCall_def conv_inv_def min_def)
qed

definition hello_submit :: TurnSubmit where
  "hello_submit = \<lparr>ts_TurnID = ''t1'', ts_SessionID = ''s1'', ts_Sequence = 1, ts_Mode = ''build'',
     ts_Content = ''hello'', ts_IdempotencyKey = [], ts_Attachments = [], ts_ToolResults = []\<rparr>"

definition hi_response :: AssistantResponse where
  "hi_response = \<lparr>ar_Content = ''hi'', ar_ToolCalls = [], ar_Model = ''m'', ar_Provider = ''p'',
     ar_InputTokens = 1, ar_OutputTokens = 1, ar_Cost = 0, ar_LatencyMs = 0\<rparr>"

lemma hello_simps [simp]: "ts_Sequence hello_submit = 1" "ts_TurnID hello_submit = ''t1''"
  by (simp_all add: hello_submit_def)

lemma conversation_survives_restart_witness:
  "\<exists>c rows d'. run_out conv_step (NewConversation ''s1'')
       [Submit (env_at 1) hello_submit, Submit (env_at 2) hello_submit, Answer (env_at 3) hi_response]
     = (c, rows) \<and> persist (env_at 4) rows locked_db_w = Some d' \<and>
     length (cv_turns c) = 2 \<and> cv_storageSequence c = 2 \<and>
     (\<exists>stored. ListTurns (env_at 5) ''s1'' d' = Inr stored \<and>
       fst (RestoreFromTurns stored (NewConversation ''s1'')) =
         c\<lparr>cv_turns := map compact_message (cv_turns c)\<rparr>)"
proof -
  let ?ops = "[Submit (env_at 1) hello_submit, Submit (env_at 2) hello_submit, Answer (env_at 3) hi_response]"
  obtain c rows where r: "run_out conv_step (NewConversation ''s1'') ?ops = (c, rows)"
    by (meson surj_pair)
  then have c: "cv_turns c = [user_message hello_submit, assistant_message hi_response]"
      "cv_sessionID c = ''s1''" and rs: "map turn_ID rows = [''t1'', nat_str 7]" "\<forall>t \<in> set rows. turn_SessionID t = ''s1''"
    by (auto simp: AppendUserTurn_def AppendAssistantTurn_def NewConversation_def Let_def)
  from rs obtain a b where ab: "rows = [a, b]" "turn_ID a = ''t1''" "turn_ID b = nat_str 7" by auto
  have "nat_str 7 \<noteq> ''t1''" by code_simp
  with rs(2) ab obtain d' where p: "persist (env_at 4) rows locked_db_w = Some d'"
    by (simp add: CreateTurn_def autocommit_def insertTurn_def exec_def locked_db_w_def empty_db_def
        has_session_def session_w_def)
  have "turns_of locked_db_w ''s1'' = []" by (simp add: turns_of_def locked_db_w_def empty_db_def)
  moreover have "\<forall>m \<in> set (cv_turns c). valid_calls m"
    by (simp add: c valid_calls_def user_message_def assistant_message_def hi_response_def)
  ultimately show ?thesis
    using conversation_survives_restart [OF r p, of "env_at 5"] r p c by (cases c) auto
qed

end
