(* ===== verification/Sse_Reader.thy ===== *)
theory Sse_Reader
  imports GoStd
begin

text \<open>
  The reader of a provider's streamed response (\<open>SSEParser\<close> of \<open>internal/runtime/streaming.go\<close>):
  lines read through a buffered reader with a bound on their size, and the payloads in them.  The
  body of a response is the bytes still to come and the way they end: \<open>None\<close> at the end of the
  stream, or the text of the reader's error.
\<close>

subsection \<open>Bounded lines\<close>

definition sseMaxLineBytes :: nat where
  "sseMaxLineBytes = 2 ^ 20"

definition sseBuffer :: nat where
  "sseBuffer = 64 * 1024"

text \<open>
  \<open>ReadSlice\<close> of \<open>bufio\<close>: up to the newline, or the whole buffer when it is full, or what is left.
\<close>

datatype slice_end = SliceOk | BufferFull | SliceEnd

definition ReadSlice :: "string \<Rightarrow> string \<times> slice_end \<times> string" where
  "ReadSlice s =
     (if CHR 0x0A \<in> set (take sseBuffer s)
      then (let l = takeWhile (\<lambda>c. c \<noteq> CHR 0x0A) s @ [CHR 0x0A] in (l, SliceOk, drop (length l) s))
      else if length s \<ge> sseBuffer then (take sseBuffer s, BufferFull, drop sseBuffer s)
      else (s, SliceEnd, []))"

datatype line_error = LineTooLarge | LineEOF | LineError string

function read_line :: "nat \<Rightarrow> string option \<Rightarrow> string \<Rightarrow> string \<Rightarrow> string \<times> line_error option \<times> string" where
  "read_line cap e sb s =
     (let (chunk, how, rest) = ReadSlice s; sb' = sb @ chunk
      in if length sb' > cap then (sb', Some LineTooLarge, rest)
         else case how of
                SliceOk \<Rightarrow> (sb', None, rest)
              | BufferFull \<Rightarrow> read_line cap e sb' rest
              | SliceEnd \<Rightarrow> (sb', Some (case e of None \<Rightarrow> LineEOF | Some m \<Rightarrow> LineError m), rest))"
  by pat_completeness auto
termination
  by (relation "measure (\<lambda>(cap, e, sb, s). length s)")
     (auto simp: ReadSlice_def sseBuffer_def Let_def split: if_splits)

declare read_line.simps [simp del]

definition readBoundedLine :: "string option \<Rightarrow> string \<Rightarrow> string \<times> line_error option \<times> string" where
  "readBoundedLine e s = read_line sseMaxLineBytes e [] s"

text \<open>What is read is the front of what was to be read.\<close>

lemma ReadSlice_split: "ReadSlice s = (chunk, how, rest) \<Longrightarrow> s = chunk @ rest"
proof -
  assume r: "ReadSlice s = (chunk, how, rest)"
  show ?thesis
  proof (cases "CHR 0x0A \<in> set (take sseBuffer s)")
    case True
    then have "CHR 0x0A \<in> set s" by (rule in_set_takeD)
    then obtain a b where ab: "s = a @ CHR 0x0A # b" "CHR 0x0A \<notin> set a" by (meson split_list_first)
    then have "takeWhile (\<lambda>c. c \<noteq> CHR 0x0A) s = a" by (auto simp: takeWhile_tail)
    with r True ab show ?thesis by (auto simp: ReadSlice_def Let_def)
  qed (use r in \<open>auto simp: ReadSlice_def split: if_splits\<close>)
qed

lemma read_line_split:
  "read_line cap e sb s = (line, err, rest) \<Longrightarrow> sb @ s = line @ rest"
proof (induction cap e sb s arbitrary: line err rest rule: read_line.induct)
  case (1 cap e sb s)
  obtain chunk how r where c: "ReadSlice s = (chunk, how, r)" by (cases "ReadSlice s")
  note s = ReadSlice_split [OF c]
  show ?case
    using "1.prems" "1.IH" [OF c [symmetric] refl refl] c s
    by (subst (asm) read_line.simps) (auto simp: Let_def split: if_splits slice_end.splits)
qed

lemma read_line_ok: "read_line cap e sb s = (line, None, rest) \<Longrightarrow> line \<noteq> []"
proof (induction cap e sb s arbitrary: line rest rule: read_line.induct)
  case (1 cap e sb s)
  obtain chunk how r where c: "ReadSlice s = (chunk, how, r)" by (cases "ReadSlice s")
  have "how = SliceOk \<Longrightarrow> chunk \<noteq> []"
    using c by (auto simp: ReadSlice_def Let_def split: if_splits)
  then show ?case
    using "1.prems" "1.IH" [OF c [symmetric] refl refl] c
    by (subst (asm) read_line.simps) (auto simp: Let_def split: if_splits slice_end.splits)
qed

lemma readBoundedLine_shorter:
  assumes "readBoundedLine e s = (line, err, rest)" "err = None \<or> line \<noteq> []"
  shows "length rest < length s"
proof -
  from assms have "line \<noteq> []"
    using read_line_ok [of sseMaxLineBytes e "[]" s line rest] by (auto simp: readBoundedLine_def)
  with read_line_split [of sseMaxLineBytes e "[]" s line err rest] assms(1) show ?thesis
    by (cases line) (auto simp: readBoundedLine_def)
qed

subsection \<open>Payloads\<close>

datatype next_result = Payload string | StreamEOF | StreamErr string

definition trim_crlf :: "string \<Rightarrow> string" where
  "trim_crlf s = rev (dropWhile (\<lambda>c. c = CHR 0x0D \<or> c = CHR 0x0A) (rev s))"

text \<open>What a line carries: a payload, or nothing for separators, comments and other fields.\<close>

definition line_payload :: "string \<Rightarrow> string option" where
  "line_payload line0 =
     (let line = trim_crlf line0
      in if line = [] then None
         else if has_prefix line '':'' then None
         else if has_prefix line ''data:'' then Some (trim_space (trim_prefix line ''data:''))
         else if has_prefix line ''{'' then Some line
         else None)"

function sse_next :: "string option \<Rightarrow> string \<Rightarrow> next_result \<times> string" where
  "sse_next e s =
     (let (line, err, rest) = readBoundedLine e s
      in case err of
           Some LineTooLarge \<Rightarrow> (StreamErr ''sse line exceeds max size'', rest)
         | Some (LineError m) \<Rightarrow> (StreamErr m, rest)
         | _ \<Rightarrow>
             (if err = Some LineEOF \<and> line = [] then (StreamEOF, rest)
              else (case line_payload line of
                      Some p \<Rightarrow> (Payload p, rest)
                    | None \<Rightarrow> sse_next e rest)))"
  by pat_completeness auto
termination
  by (relation "measure (\<lambda>(e, s). length s)") (auto dest: readBoundedLine_shorter [OF sym])

declare sse_next.simps [simp del]

subsection \<open>What the line reader does\<close>

abbreviation up_to_newline :: "string \<Rightarrow> string" where
  "up_to_newline s \<equiv> takeWhile (\<lambda>c. c \<noteq> CHR 0x0A) s"

lemma ReadSlice_cases:
  assumes "ReadSlice s = (chunk, how, rest)"
  obtains "how = SliceOk" "CHR 0x0A \<in> set s" "chunk = up_to_newline s @ [CHR 0x0A]"
      "length chunk \<le> sseBuffer"
  | "how = BufferFull" "length chunk = sseBuffer" "CHR 0x0A \<notin> set chunk" "s = chunk @ rest"
  | "how = SliceEnd" "chunk = s" "CHR 0x0A \<notin> set s" "length s < sseBuffer"
proof (cases "CHR 0x0A \<in> set (take sseBuffer s)")
  case True
  have "length (up_to_newline s) < sseBuffer"
  proof (rule ccontr)
    assume "\<not> ?thesis"
    then have "take sseBuffer s = take sseBuffer (up_to_newline s)"
      by (metis not_less takeWhile_eq_take take_take min.absorb1)
    with True show False by (metis (mono_tags, lifting) in_set_takeD set_takeWhileD)
  qed
  with True assms show thesis
    by (intro that(1)) (auto simp: ReadSlice_def Let_def dest: in_set_takeD)
next
  case False
  show thesis
  proof (cases "length s \<ge> sseBuffer")
    case True
    with False assms show thesis by (intro that(2)) (auto simp: ReadSlice_def)
  next
    case short: False
    with False assms show thesis by (intro that(3)) (auto simp: ReadSlice_def)
  qed
qed

lemma up_to_newline_append: "CHR 0x0A \<notin> set a \<Longrightarrow> up_to_newline (a @ b) = a @ up_to_newline b"
  by (simp add: takeWhile_append)

lemma read_line_spec:
  assumes "read_line cap e sb s = (line, err, rest)" "length sb \<le> cap"
  shows "length line \<le> cap + sseBuffer \<and>
    (if CHR 0x0A \<in> set s
     then (if length sb + length (up_to_newline s) < cap
           then err = None \<and> line = sb @ up_to_newline s @ [CHR 0x0A]
           else err = Some LineTooLarge)
     else (if length sb + length s \<le> cap
           then err = Some (case e of None \<Rightarrow> LineEOF | Some m \<Rightarrow> LineError m) \<and> line = sb @ s
           else err = Some LineTooLarge))"
  using assms
proof (induction cap e sb s arbitrary: line err rest rule: read_line.induct)
  case (1 cap e sb s)
  obtain chunk how r where c: "ReadSlice s = (chunk, how, r)" by (cases "ReadSlice s")
  note step = "1.prems"(1) [unfolded read_line.simps [of cap e sb s] c, simplified]
  show ?case
  proof (rule ReadSlice_cases [OF c])
    assume "how = SliceOk" "CHR 0x0A \<in> set s" "chunk = up_to_newline s @ [CHR 0x0A]"
      "length chunk \<le> sseBuffer"
    with step "1.prems"(2) show ?thesis by (auto split: if_splits)
  next
    assume f: "how = BufferFull" "length chunk = sseBuffer" "CHR 0x0A \<notin> set chunk" "s = chunk @ r"
    show ?thesis
    proof (cases "length (sb @ chunk) > cap")
      case True
      with step f "1.prems"(2) show ?thesis by (auto simp: up_to_newline_append split: if_splits)
    next
      case False
      with step f have "read_line cap e (sb @ chunk) r = (line, err, rest)" by simp
      from "1.IH" [OF c [symmetric] refl refl refl False f(1) this] False f show ?thesis
        by (simp add: up_to_newline_append add.assoc)
    qed
  next
    assume "how = SliceEnd" "chunk = s" "CHR 0x0A \<notin> set s" "length s < sseBuffer"
    with step "1.prems"(2) show ?thesis by (auto split: if_splits)
  qed
qed

text \<open>
  C26: reading a streamed line is bounded.  For every response body, however its lines are
  cut by the 64 KiB buffer: a line (with its newline) of at most 1 MiB is returned whole and the
  bytes after it are left; a longer one is refused; and no more than 1 MiB and one
  buffer of it is ever held.
\<close>

theorem line_reader_bounded:
  assumes "readBoundedLine e s = (line, err, rest)"
  shows "s = line @ rest \<and> length line \<le> sseMaxLineBytes + sseBuffer \<and>
    (if CHR 0x0A \<in> set s
     then (if length (up_to_newline s) < sseMaxLineBytes
           then err = None \<and> line = up_to_newline s @ [CHR 0x0A]
           else err = Some LineTooLarge)
     else (if length s \<le> sseMaxLineBytes
           then err = Some (case e of None \<Rightarrow> LineEOF | Some m \<Rightarrow> LineError m) \<and> line = s
           else err = Some LineTooLarge))"
    (is "_ \<and> _ \<and> ?line_result")
proof -
  note r = assms [unfolded readBoundedLine_def]
  have "length [] \<le> sseMaxLineBytes" by simp
  from read_line_spec [OF r this] have "length line \<le> sseMaxLineBytes + sseBuffer \<and> ?line_result"
    unfolding append_Nil list.size add_0 .
  moreover from read_line_split [OF r] have "s = line @ rest" by (simp only: append_Nil)
  ultimately show ?thesis by blast
qed

lemma line_reader_bounded_witness:
  "\<exists>line. readBoundedLine None (''data: x'' @ CHR 0x0A # ''rest'') = (line, None, ''rest'') \<and>
     line = ''data: x'' @ [CHR 0x0A]"
proof -
  obtain line err rest where r: "readBoundedLine None (''data: x'' @ CHR 0x0A # ''rest'') = (line, err, rest)"
    by (metis prod_cases3)
  from line_reader_bounded [OF r] have "line = ''data: x'' @ [CHR 0x0A]" "err = None"
    "''data: x'' @ CHR 0x0A # ''rest'' = line @ rest"
    by (auto simp: sseMaxLineBytes_def)
  with r show ?thesis by simp
qed

end
