(* ===== verification/Provider_Stream.thy ===== *)
theory Provider_Stream
  imports Provider_Types
begin

text \<open>
  Reading what model providers send (\<open>internal/provider/anthropic.go\<close>, \<open>openai.go\<close>, \<open>ollama.go\<close>):
  one streamed payload as a canonical event, a captured stream put together again, and the
  metadata of requests and responses.  A Go pair \<open>(nil, nil)\<close>, an event to skip, is
  \<open>Some None\<close>; an error is \<open>None\<close>.
\<close>

subsection \<open>Events\<close>

datatype StreamEvent =
    StreamText string
  | StreamToolCallStart (sc_ID: string) (sc_Name: string) (sc_Input: string)
  | StreamToolCallDelta string
  | StreamToolCallEnd
  | StreamUsage int int
  | StreamDone "(int \<times> int) option"
  | StreamError string

text \<open>A member that holds a struct, an integer or a string; each is decoded or the whole fails.\<close>

definition jint_at :: "string \<Rightarrow> json \<Rightarrow> int option" where
  "jint_at k j = as_int (jfield k j)"

definition jstr_at :: "string \<Rightarrow> json \<Rightarrow> string option" where
  "jstr_at k j = as_string (jfield k j)"

definition jobj_at :: "string \<Rightarrow> json \<Rightarrow> json option" where
  "jobj_at k j = (if is_struct (jfield k j) then Some (jfield k j) else None)"

text \<open>A pointer member: \<open>None\<close> inside for nil.\<close>

definition jptr_at :: "(json \<Rightarrow> 'a option) \<Rightarrow> string \<Rightarrow> json \<Rightarrow> 'a option option" where
  "jptr_at f k j = (if jfield k j = JNull then Some None else map_option Some (f (jfield k j)))"

subsection \<open>Anthropic\<close>

definition anthropic_delta :: "json \<Rightarrow> StreamEvent option option" where
  "anthropic_delta j =
     obind (jint_at ''index'' j) (\<lambda>_.
     obind (jobj_at ''delta'' j) (\<lambda>d.
     obind (jstr_at ''type'' d) (\<lambda>typ.
     obind (jstr_at ''text'' d) (\<lambda>txt.
     obind (jstr_at ''partial_json'' d) (\<lambda>pj.
       Some (if typ = ''text_delta'' then (if txt = [] then None else Some (StreamText txt))
             else if typ = ''input_json_delta'' then Some (StreamToolCallDelta pj)
             else None))))))"

definition anthropic_block_start :: "json \<Rightarrow> StreamEvent option option" where
  "anthropic_block_start j =
     obind (jint_at ''index'' j) (\<lambda>_.
     obind (jobj_at ''content_block'' j) (\<lambda>b.
     obind (jstr_at ''type'' b) (\<lambda>typ.
     obind (jstr_at ''id'' b) (\<lambda>i.
     obind (jstr_at ''name'' b) (\<lambda>n.
       Some (if typ \<noteq> ''tool_use'' then None
             else Some (StreamToolCallStart i n
                    (case raw_member ''input'' b of None \<Rightarrow> [] | Some s \<Rightarrow> s))))))))"

definition anthropic_message_delta :: "json \<Rightarrow> StreamEvent option option" where
  "anthropic_message_delta j =
     obind (jobj_at ''delta'' j) (\<lambda>d.
     obind (jstr_at ''stop_reason'' d) (\<lambda>_.
     obind (jobj_at ''usage'' j) (\<lambda>u.
     obind (jint_at ''output_tokens'' u) (\<lambda>n. Some (Some (StreamUsage 0 n))))))"

definition anthropic_message_start :: "json \<Rightarrow> StreamEvent option option" where
  "anthropic_message_start j =
     obind (jobj_at ''message'' j) (\<lambda>m.
     obind (jobj_at ''usage'' m) (\<lambda>u.
     obind (jint_at ''input_tokens'' u) (\<lambda>n.
       Some (if n = 0 then None else Some (StreamUsage n 0)))))"

definition anthropic_event :: "string \<Rightarrow> StreamEvent option option" where
  "anthropic_event data = json_unmarshal (as_struct (\<lambda>j.
     obind (jstr_at ''type'' j) (\<lambda>typ.
       if typ = ''content_block_delta'' then anthropic_delta j
       else if typ = ''content_block_start'' then anthropic_block_start j
       else if typ = ''content_block_stop'' then Some (Some StreamToolCallEnd)
       else if typ = ''message_delta'' then anthropic_message_delta j
       else if typ = ''message_start'' then anthropic_message_start j
       else if typ = ''message_stop'' then Some (Some (StreamDone None))
       else Some None))) data"

subsection \<open>OpenAI\<close>

record openai_call =
  oc_ID :: string
  oc_Name :: string
  oc_Arguments :: string

record openai_choice =
  och_Content :: string
  och_ToolCalls :: "openai_call list"
  och_FinishReason :: "string option"

definition openai_call_of :: "json \<Rightarrow> openai_call option" where
  "openai_call_of = as_struct (\<lambda>j.
     obind (jint_at ''index'' j) (\<lambda>_.
     obind (jstr_at ''id'' j) (\<lambda>i.
     obind (jobj_at ''function'' j) (\<lambda>f.
     obind (jstr_at ''name'' f) (\<lambda>n.
     obind (jstr_at ''arguments'' f) (\<lambda>a.
       Some \<lparr>oc_ID = i, oc_Name = n, oc_Arguments = a\<rparr>))))))"

definition openai_choice_of :: "json \<Rightarrow> openai_choice option" where
  "openai_choice_of = as_struct (\<lambda>j.
     obind (jobj_at ''delta'' j) (\<lambda>d.
     obind (jstr_at ''content'' d) (\<lambda>c.
     obind (as_list openai_call_of (jfield ''tool_calls'' d)) (\<lambda>tcs.
     obind (jptr_at as_string ''finish_reason'' j) (\<lambda>fr.
       Some \<lparr>och_Content = c, och_ToolCalls = tcs, och_FinishReason = fr\<rparr>)))))"

definition openai_usage_of :: "json \<Rightarrow> (int \<times> int) option" where
  "openai_usage_of = as_struct (\<lambda>j.
     obind (jint_at ''prompt_tokens'' j) (\<lambda>p.
     obind (jint_at ''completion_tokens'' j) (\<lambda>c. Some (p, c))))"

definition openai_choice_event :: "openai_choice \<Rightarrow> StreamEvent option" where
  "openai_choice_event c =
     (case och_ToolCalls c of
        tc # _ \<Rightarrow> Some (if oc_ID tc \<noteq> [] then StreamToolCallStart (oc_ID tc) (oc_Name tc) (oc_Arguments tc)
                       else StreamToolCallDelta (oc_Arguments tc))
      | [] \<Rightarrow> (if och_Content c \<noteq> [] then Some (StreamText (och_Content c))
              else if och_FinishReason c \<noteq> None then Some StreamToolCallEnd
              else None))"

definition openai_event :: "string \<Rightarrow> StreamEvent option option" where
  "openai_event data =
     (if trim_space data = ''[DONE]'' then Some (Some (StreamDone None))
      else json_unmarshal (as_struct (\<lambda>j.
        obind (as_list openai_choice_of (jfield ''choices'' j)) (\<lambda>choices.
        obind (jptr_at openai_usage_of ''usage'' j) (\<lambda>usage.
          Some (case usage of
                  Some (p, c) \<Rightarrow> Some (StreamUsage p c)
                | None \<Rightarrow> (case choices of [] \<Rightarrow> None | ch # _ \<Rightarrow> openai_choice_event ch)))))) data)"

subsection \<open>Ollama\<close>

record ollama_reply =
  or_Model :: string
  or_Content :: string
  or_Done :: bool
  or_DoneReason :: string
  or_PromptEvalCount :: int
  or_EvalCount :: int

definition ollama_reply_of :: "json \<Rightarrow> ollama_reply option" where
  "ollama_reply_of = as_struct (\<lambda>j.
     obind (jstr_at ''model'' j) (\<lambda>m.
     obind (jobj_at ''message'' j) (\<lambda>msg.
     obind (jstr_at ''role'' msg) (\<lambda>_.
     obind (jstr_at ''content'' msg) (\<lambda>c.
     obind (as_bool (jfield ''done'' j)) (\<lambda>d.
     obind (jstr_at ''done_reason'' j) (\<lambda>dr.
     obind (jint_at ''prompt_eval_count'' j) (\<lambda>p.
     obind (jint_at ''eval_count'' j) (\<lambda>e.
       Some \<lparr>or_Model = m, or_Content = c, or_Done = d, or_DoneReason = dr,
             or_PromptEvalCount = p, or_EvalCount = e\<rparr>)))))))))"

definition ollama_event :: "string \<Rightarrow> StreamEvent option option" where
  "ollama_event data =
     (if data = [] then Some None
      else obind (json_unmarshal ollama_reply_of data) (\<lambda>r.
        Some (if or_Done r
              then Some (StreamDone (if or_PromptEvalCount r > 0 \<or> or_EvalCount r > 0
                     then Some (or_PromptEvalCount r, or_EvalCount r) else None))
              else if or_Content r = [] then None
              else Some (StreamText (or_Content r)))))"

subsection \<open>The adapters\<close>

datatype adapter = Anthropic | OpenAI | Ollama

definition adapter_Name :: "adapter \<Rightarrow> string" where
  "adapter_Name a = (case a of Anthropic \<Rightarrow> ''anthropic'' | OpenAI \<Rightarrow> ''openai'' | Ollama \<Rightarrow> ''ollama'')"

definition ParseStreamEvent :: "adapter \<Rightarrow> string \<Rightarrow> StreamEvent option option" where
  "ParseStreamEvent a data = (case a of Anthropic \<Rightarrow> anthropic_event data
     | OpenAI \<Rightarrow> openai_event data | Ollama \<Rightarrow> ollama_event data)"

end
