(* ===== verification/Routing.thy ===== *)
theory Routing
  imports Provider_Types Runtime_Types Run_Registry
begin

text \<open>
  How the server chooses a model and knows what it costs: the endpoints of the providers and their
  health (\<open>internal/runtime/providers.go\<close>), the catalog of models merged from built-in, discovered
  and configured entries (\<open>registry.go\<close>), the routing policy (\<open>routing.go\<close>) and the cost of a turn
  (\<open>cost.go\<close>).  Go maps that are only looked up are maps; those that are listed are association
  lists with distinct keys, in an order nothing here depends on.  A float64 is a rational.
\<close>

subsection \<open>Provider endpoints\<close>

definition ProviderStatusReady :: string where "ProviderStatusReady = ''ready''"
definition ProviderStatusUnavailable :: string where "ProviderStatusUnavailable = ''unavailable''"
definition ProviderStatusError :: string where "ProviderStatusError = ''error''"

definition ProviderTypeAnthropic :: string where "ProviderTypeAnthropic = ''anthropic''"
definition ProviderTypeOpenAI :: string where "ProviderTypeOpenAI = ''openai''"
definition ProviderTypeOllama :: string where "ProviderTypeOllama = ''ollama''"
definition ProviderTypeMLX :: string where "ProviderTypeMLX = ''mlx''"

lemmas provider_type_defs = ProviderTypeAnthropic_def ProviderTypeOpenAI_def ProviderTypeOllama_def
  ProviderTypeMLX_def

record ProviderEndpoint =
  ep_Name :: string
  ep_Type :: string
  ep_APIKey :: string
  ep_Host :: string
  ep_Upstream :: string
  ep_Discover :: bool
  ep_status :: string
  ep_errMsg :: string
  ep_models :: "string list"
  ep_lastCheck :: gotime

definition endpoint_Status :: "ProviderEndpoint \<Rightarrow> string" where
  "endpoint_Status ep = (if ep_status ep = [] then ProviderStatusUnavailable else ep_status ep)"

text \<open>A nil list of models keeps those known.\<close>

definition setStatus ::
  "store_env \<Rightarrow> string \<Rightarrow> string \<Rightarrow> string list option \<Rightarrow> ProviderEndpoint \<Rightarrow> ProviderEndpoint" where
  "setStatus E s msg models ep = ep\<lparr>ep_status := s, ep_errMsg := msg,
     ep_models := (case models of None \<Rightarrow> ep_models ep | Some ms \<Rightarrow> ms), ep_lastCheck := env_now E\<rparr>"

definition isValidProviderType :: "string \<Rightarrow> bool" where
  "isValidProviderType t = (t = ProviderTypeAnthropic \<or> t = ProviderTypeOpenAI
     \<or> t = ProviderTypeOllama \<or> t = ProviderTypeMLX)"

definition defaultHostFor :: "string \<Rightarrow> string" where
  "defaultHostFor t =
     (if t = ProviderTypeAnthropic then ''https://api.anthropic.com''
      else if t = ProviderTypeOpenAI then ''https://api.openai.com''
      else if t = ProviderTypeOllama then ''http://localhost:11434''
      else if t = ProviderTypeMLX then ''http://localhost:8080'' else [])"

text \<open>The environment of the process is the parameter \<open>getenv\<close>.\<close>

definition ExpandEnvAPIKey :: "(string \<Rightarrow> string) \<Rightarrow> string \<Rightarrow> string" where
  "ExpandEnvAPIKey getenv v =
     (if has_prefix v ''${'' \<and> has_suffix v ''}'' then getenv (butlast (drop 2 v)) else v)"

definition MaskAPIKey :: "string \<Rightarrow> string" where
  "MaskAPIKey key =
     (if length key \<le> 11 then replicate (length key) (CHR ''*'')
      else take 7 key @ ''****'' @ drop (length key - 4) key)"

text \<open>The registry: the endpoints in the order of their registration, by distinct names.\<close>

type_synonym ProviderRegistry = "ProviderEndpoint list"

definition endpoint_Get :: "string \<Rightarrow> ProviderRegistry \<Rightarrow> ProviderEndpoint option" where
  "endpoint_Get name reg = find (\<lambda>ep. ep_Name ep = name) reg"

datatype add_error = NameRequired | UnsupportedType string | AlreadyRegistered string

definition endpoint_Add ::
  "(string \<Rightarrow> string) \<Rightarrow> ProviderEndpoint \<Rightarrow> ProviderRegistry \<Rightarrow> add_error + ProviderRegistry" where
  "endpoint_Add getenv ep reg =
     (if ep_Name ep = [] then Inl NameRequired
      else if \<not> isValidProviderType (ep_Type ep) then Inl (UnsupportedType (ep_Type ep))
      else if endpoint_Get (ep_Name ep) reg \<noteq> None then Inl (AlreadyRegistered (ep_Name ep))
      else Inr (reg @ [ep\<lparr>ep_Host := (if ep_Host ep = [] then defaultHostFor (ep_Type ep) else ep_Host ep),
                          ep_APIKey := ExpandEnvAPIKey getenv (ep_APIKey ep)\<rparr>]))"

subsection \<open>Health checks\<close>

text \<open>What the probe met: a request that could not be built, no answer, or an answer.\<close>

datatype probe_result = BadRequest string | NoAnswer string | Answered nat string

definition http_status_text :: "nat \<Rightarrow> string" where
  "http_status_text n = ''HTTP '' @ nat_str n"

definition checkCloudEndpoint :: "store_env \<Rightarrow> probe_result \<Rightarrow> ProviderEndpoint \<Rightarrow> ProviderEndpoint" where
  "checkCloudEndpoint E r ep =
     (if ep_APIKey ep = [] then setStatus E ProviderStatusUnavailable ''api_key is empty'' None ep
      else (case r of
              BadRequest m \<Rightarrow> setStatus E ProviderStatusError m None ep
            | NoAnswer m \<Rightarrow> setStatus E ProviderStatusUnavailable m None ep
            | Answered code _ \<Rightarrow>
                (if code < 500 then setStatus E ProviderStatusReady [] None ep
                 else setStatus E ProviderStatusError (http_status_text code) None ep)))"

text \<open>
  A list of named models in the body: the member and the field it is read from.  A decoder reads the
  first value of the body; the text of a decoding error is the parameter \<open>derr\<close>.
\<close>

definition listed_names :: "string \<Rightarrow> string \<Rightarrow> string \<Rightarrow> string list option" where
  "listed_names member field body =
     (case parse_value (2 * length body + 1) body of
        None \<Rightarrow> None
      | Some (v, _) \<Rightarrow> as_struct (\<lambda>j. as_list (as_struct (\<lambda>m. as_string (jfield field m)))
                                        (jfield member j)) v)"

definition check_local ::
  "string \<Rightarrow> string \<Rightarrow> string \<Rightarrow> string \<Rightarrow> store_env \<Rightarrow> probe_result \<Rightarrow> ProviderEndpoint \<Rightarrow> ProviderEndpoint" where
  "check_local path member field derr E r ep =
     (case r of
        BadRequest m \<Rightarrow> setStatus E ProviderStatusError m None ep
      | NoAnswer m \<Rightarrow> setStatus E ProviderStatusUnavailable m None ep
      | Answered code body \<Rightarrow>
          (if code \<noteq> 200 then setStatus E ProviderStatusError (http_status_text code) None ep
           else (case listed_names member field body of
                   None \<Rightarrow> setStatus E ProviderStatusError (''decode '' @ path @ '': '' @ derr) None ep
                 | Some names \<Rightarrow> setStatus E ProviderStatusReady [] (Some names) ep)))"

definition checkOllama :: "string \<Rightarrow> store_env \<Rightarrow> probe_result \<Rightarrow> ProviderEndpoint \<Rightarrow> ProviderEndpoint" where
  "checkOllama = check_local ''/api/tags'' ''models'' ''name''"

definition checkMLX :: "string \<Rightarrow> store_env \<Rightarrow> probe_result \<Rightarrow> ProviderEndpoint \<Rightarrow> ProviderEndpoint" where
  "checkMLX = check_local ''/v1/models'' ''data'' ''id''"

definition CheckEndpoint :: "string \<Rightarrow> store_env \<Rightarrow> probe_result \<Rightarrow> ProviderEndpoint \<Rightarrow> ProviderEndpoint" where
  "CheckEndpoint derr E r ep =
     (if ep_Type ep = ProviderTypeAnthropic \<or> ep_Type ep = ProviderTypeOpenAI
      then checkCloudEndpoint E r ep
      else if ep_Type ep = ProviderTypeOllama then checkOllama derr E r ep
      else if ep_Type ep = ProviderTypeMLX then checkMLX derr E r ep
      else setStatus E ProviderStatusError (''unknown provider type '' @ go_quote (ep_Type ep)) None ep)"

subsection \<open>The catalog of models\<close>

record ModelInfo =
  mi_Name :: string
  mi_Provider :: string
  mi_Roles :: "string list"
  mi_Capabilities :: "string list"
  mi_ContextWindow :: int
  mi_CostPer1kInput :: rat
  mi_CostPer1kOutput :: rat
  mi_Description :: string
  mi_Status :: string
  mi_Access :: string

definition no_info :: ModelInfo where
  "no_info = \<lparr>mi_Name = [], mi_Provider = [], mi_Roles = [], mi_Capabilities = [],
     mi_ContextWindow = 0, mi_CostPer1kInput = 0, mi_CostPer1kOutput = 0, mi_Description = [],
     mi_Status = [], mi_Access = []\<rparr>"

datatype ModelSource = ModelSourceBuiltin | ModelSourceDiscovered | ModelSourceManual

record ModelEntry =
  me_Info :: ModelInfo
  me_Provider :: string
  me_Source :: ModelSource
  me_Available :: bool

record ModelOverrideConfig =
  mo_Provider :: string
  mo_ContextWindow :: int
  mo_Capabilities :: "string list"
  mo_Description :: string

definition builtin :: "string \<Rightarrow> string \<Rightarrow> int \<Rightarrow> rat \<Rightarrow> rat \<Rightarrow> string list \<Rightarrow> ModelInfo" where
  "builtin name prov window cin cout caps = no_info\<lparr>mi_Name := name, mi_Provider := prov,
     mi_ContextWindow := window, mi_CostPer1kInput := cin, mi_CostPer1kOutput := cout,
     mi_Capabilities := caps\<rparr>"

definition DefaultBuiltinModels :: "(string \<times> ModelInfo list) list" where
  "DefaultBuiltinModels =
     [(ProviderTypeAnthropic,
       [builtin ''claude-opus-4-6'' ProviderTypeAnthropic 1000000 (15 / 1000) (75 / 1000) [''tool_use'', ''vision''],
        builtin ''claude-sonnet-4-6'' ProviderTypeAnthropic 200000 (3 / 1000) (15 / 1000) [''tool_use'', ''vision''],
        builtin ''claude-haiku-4-5'' ProviderTypeAnthropic 200000 (8 / 10000) (4 / 1000) [''tool_use'']]),
      (ProviderTypeOpenAI,
       [builtin ''gpt-5'' ProviderTypeOpenAI 256000 (5 / 1000) (15 / 1000) [''tool_use'', ''vision''],
        builtin ''o4-mini'' ProviderTypeOpenAI 200000 (11 / 10000) (44 / 10000) [''tool_use'']])]"

type_synonym catalog = "(string \<times> ModelEntry) list"

definition endpoint_ready :: "ProviderEndpoint \<Rightarrow> bool" where
  "endpoint_ready ep = (endpoint_Status ep = ProviderStatusReady)"

text \<open>The entries of the three passes; later entries replace earlier ones of the same name.\<close>

definition builtin_entries ::
  "(string \<times> ModelInfo list) list \<Rightarrow> ProviderRegistry \<Rightarrow> catalog" where
  "builtin_entries builtins reg = concat (map (\<lambda>(pt, models).
     case find (\<lambda>ep. ep_Type ep = pt) reg of
       None \<Rightarrow> []
     | Some ep \<Rightarrow> map (\<lambda>m. (mi_Name m, \<lparr>me_Info = m, me_Provider = ep_Name ep,
         me_Source = ModelSourceBuiltin, me_Available = endpoint_ready ep\<rparr>)) models) builtins)"

definition discovered_entries :: "ProviderRegistry \<Rightarrow> catalog" where
  "discovered_entries reg = concat (map (\<lambda>ep.
     if \<not> ep_Discover ep then []
     else map (\<lambda>name. (name, \<lparr>me_Info = no_info\<lparr>mi_Name := name, mi_Provider := ep_Name ep\<rparr>,
            me_Provider = ep_Name ep, me_Source = ModelSourceDiscovered,
            me_Available = endpoint_ready ep\<rparr>)) (ep_models ep)) reg)"

definition manual_entries ::
  "(string \<times> ModelOverrideConfig) list \<Rightarrow> ProviderRegistry \<Rightarrow> catalog" where
  "manual_entries manual reg = map (\<lambda>(name, ov).
     (name, \<lparr>me_Info = no_info\<lparr>mi_Name := name, mi_Provider := mo_Provider ov,
               mi_ContextWindow := mo_ContextWindow ov, mi_Capabilities := mo_Capabilities ov,
               mi_Description := mo_Description ov\<rparr>,
             me_Provider = mo_Provider ov, me_Source = ModelSourceManual,
             me_Available = (case endpoint_Get (mo_Provider ov) reg of
                None \<Rightarrow> False | Some ep \<Rightarrow> endpoint_ready ep)\<rparr>)) manual"

definition rebuild ::
  "(string \<times> ModelInfo list) list \<Rightarrow> (string \<times> ModelOverrideConfig) list \<Rightarrow> ProviderRegistry \<Rightarrow> catalog" where
  "rebuild builtins manual reg =
     fold (\<lambda>(name, e) m. AList.update name e m)
       (builtin_entries builtins reg @ discovered_entries reg @ manual_entries manual reg) []"

definition model_Get :: "string \<Rightarrow> catalog \<Rightarrow> ModelEntry option" where
  "model_Get name models = map_of models name"

definition model_Has :: "string \<Rightarrow> catalog \<Rightarrow> bool" where
  "model_Has name models = (model_Get name models \<noteq> None)"

text \<open>An element moves left past those with a greater name.\<close>

definition sift :: "ModelInfo list \<Rightarrow> ModelInfo \<Rightarrow> ModelInfo list" where
  "sift front m =
     rev (dropWhile (\<lambda>x. mi_Name x > mi_Name m) (rev front)) @ [m]
     @ rev (takeWhile (\<lambda>x. mi_Name x > mi_Name m) (rev front))"

definition sortModelInfoByName :: "ModelInfo list \<Rightarrow> ModelInfo list" where
  "sortModelInfoByName models = foldl sift [] models"

definition model_All :: "catalog \<Rightarrow> ModelInfo list" where
  "model_All models = sortModelInfoByName (map (\<lambda>(_, e).
     (me_Info e)\<lparr>mi_Status := (if me_Available e then ''ready'' else ''unavailable'')\<rparr>) models)"

definition ByProvider :: "string \<Rightarrow> catalog \<Rightarrow> ModelInfo list" where
  "ByProvider endpointName models = sortModelInfoByName
     (map (me_Info \<circ> snd) (filter (\<lambda>(_, e). me_Provider e = endpointName) models))"

subsection \<open>Routing\<close>

text \<open>The policy maps dotted paths to raw JSON: one model or a list of models.\<close>

type_synonym RoutingTree = "string \<rightharpoonup> string"

definition extract_models :: "RoutingTree \<Rightarrow> string \<Rightarrow> (string list \<times> bool) option" where
  "extract_models tree key =
     (case tree key of
        None \<Rightarrow> None
      | Some raw \<Rightarrow>
          (case json_unmarshal as_string raw of
             Some single \<Rightarrow> Some ([single], False)
           | None \<Rightarrow>
               (case json_unmarshal (as_list as_string) raw of
                  None \<Rightarrow> None
                | Some arr \<Rightarrow> if arr = [] then None else Some (arr, length arr > 1))))"

text \<open>The path with its last segment replaced, when it has more than one.\<close>

definition default_sibling :: "string \<Rightarrow> string option" where
  "default_sibling path =
     (if CHR ''.'' \<in> set path
      then Some (rev (tl (dropWhile (\<lambda>c. c \<noteq> CHR ''.'') (rev path))) @ ''.default'') else None)"

definition Resolve :: "RoutingTree \<Rightarrow> string \<Rightarrow> (string list \<times> bool) option" where
  "Resolve tree path =
     (case extract_models tree path of
        Some r \<Rightarrow> Some r
      | None \<Rightarrow>
          (case (case default_sibling path of None \<Rightarrow> None | Some fb \<Rightarrow> extract_models tree fb) of
             Some r \<Rightarrow> Some r
           | None \<Rightarrow> if path \<noteq> ''default'' then extract_models tree ''default'' else None))"

text \<open>The override of the session comes first; the second component marks several models.\<close>

definition ResolveForTurn :: "string \<Rightarrow> string \<Rightarrow> RoutingTree \<Rightarrow> string list \<times> bool" where
  "ResolveForTurn override mode tree =
     (if override \<noteq> [] then ([override], False)
      else case Resolve tree mode of Some r \<Rightarrow> r | None \<Rightarrow> ([], False))"

subsection \<open>Cost\<close>

definition side_cost :: "int \<Rightarrow> rat \<Rightarrow> rat" where
  "side_cost tokens per1k = of_int tokens / 1000 * per1k"

definition ComputeTurnCost :: "catalog \<Rightarrow> string \<Rightarrow> int \<Rightarrow> int \<Rightarrow> rat" where
  "ComputeTurnCost models model inputTokens outputTokens =
     (case model_Get model models of
        None \<Rightarrow> 0
      | Some e \<Rightarrow> side_cost inputTokens (mi_CostPer1kInput (me_Info e))
                + side_cost outputTokens (mi_CostPer1kOutput (me_Info e)))"

end
