(* ===== verification/Stream_Relay.thy ===== *)
theory Stream_Relay
  imports Sse_Reader Conversation Provider_Stream Run_Control Routing
begin

text \<open>
  The relay of a streamed turn (\<open>internal/runtime/streaming.go\<close>): one goroutine per turn that turns
  the provider's events into notifications, persists the answer, and ends the run; and what the
  goroutine of \<open>turn.go\<close> does afterwards, with the cost tracker of \<open>cost.go\<close>.  The goroutine runs
  beside the request handlers, so one iteration of its loop is a step on the server's state; what
  follows the loop is another.  A cancelled context makes every statement of the store fail and the read
  of the response body return an error; where in the iteration the goroutine was when it was cancelled
  is part of the step.
\<close>

subsection \<open>The active session\<close>

record ActiveSession =
  as_ID :: string
  as_UserID :: string
  as_Project :: string
  as_ConnID :: string
  as_Conversation :: Conversation
  as_ModelOverride :: string
  as_TotalCost :: rat
  as_TotalInputTokens :: int
  as_TotalOutputTokens :: int
  as_ContextPct :: rat

subsection \<open>Notifications\<close>

record TokenDelta =
  td_TurnID :: string
  td_RunID :: string
  td_BranchID :: string
  td_Text :: string

record ToolCallEvent =
  tce_TurnID :: string
  tce_ToolCallID :: string
  tce_Tool :: string
  tce_Input :: string

record TurnComplete =
  tcm_RunID :: string
  tcm_TurnID :: string
  tcm_FinalInputTokens :: int
  tcm_FinalOutputTokens :: int
  tcm_TotalCost :: rat
  tcm_Model :: string
  tcm_Provider :: string
  tcm_LatencyMs :: int
  tcm_Cancelled :: bool

record Diagnostic =
  dg_Code :: string
  dg_Category :: string
  dg_Cause :: string

record ServerError =
  sve_TurnID :: string
  sve_Code :: string
  sve_Message :: string
  sve_Diagnostic :: Diagnostic

record CostUpdate =
  cu_InputTokens :: int
  cu_OutputTokens :: int
  cu_InputCost :: rat
  cu_OutputCost :: rat
  cu_TotalCost :: rat

record ModelSelected =
  ms_Model :: string
  ms_Provider :: string
  ms_Reason :: string

datatype rt_output =
    RunOut run_output
  | NTokenDelta TokenDelta
  | NToolCall ToolCallEvent
  | NTurnComplete TurnComplete
  | NServerError ServerError
  | NCostUpdate CostUpdate
  | NModelSelected ModelSelected
  | CancelTurn nat

definition DiagProviderUnavailable :: string where
  "DiagProviderUnavailable = ''MT-CONN-009''"

definition EventRunToolCallRequested :: string where
  "EventRunToolCallRequested = ''run.tool_call_requested''"

subsection \<open>The relay\<close>

record StreamRelay =
  sr_turnID :: string
  sr_branchID :: string
  sr_model :: string
  sr_provider :: string
  sr_runID :: string

record relayResult =
  rr_Content :: string
  rr_ToolCalls :: "ToolCall list"
  rr_InputTokens :: int
  rr_OutputTokens :: int

record toolBuilder =
  tb_id :: string
  tb_name :: string
  tb_input :: string

text \<open>The variables of the loop: the accumulated answer and the tool calls started, oldest first.\<close>

record relay_vars =
  rv_acc :: relayResult
  rv_tools :: "toolBuilder list"

definition relay_start :: relay_vars where
  "relay_start = \<lparr>rv_acc = \<lparr>rr_Content = [], rr_ToolCalls = [], rr_InputTokens = 0,
     rr_OutputTokens = 0\<rparr>, rv_tools = []\<rparr>"

text \<open>The environment of a store call under a context.\<close>

definition under :: "bool \<Rightarrow> store_env \<Rightarrow> store_env" where
  "under cancelled E = (if cancelled then E\<lparr>env_fault := (\<lambda>_. True), env_round := (\<lambda>_ _. True)\<rparr> else E)"

subsection \<open>Run events of the relay\<close>

definition appendRunProgress :: "store_env \<Rightarrow> string \<Rightarrow> string \<Rightarrow> Server \<Rightarrow> Server" where
  "appendRunProgress E runID raw srv =
     (if runID = [] then srv
      else case GetRun E runID (sv_db srv) of
             Inl _ \<Rightarrow> srv
           | Inr run \<Rightarrow> srv\<lparr>sv_db := fst (AppendRunEvent E runID
                 (plain_event E EventRunProgress (run_Stage run) (run_Status run) (Some raw))
                 no_update (sv_db srv))\<rparr>)"

definition relay_run_event ::
  "store_env \<Rightarrow> string \<Rightarrow> string \<Rightarrow> string \<Rightarrow> string \<Rightarrow> string \<Rightarrow> string option \<Rightarrow> Server
     \<Rightarrow> Server \<times> rt_output list" where
  "relay_run_event E runID typ stage status reason payload srv =
     (if runID = [] then (srv, [])
      else case GetRun E runID (sv_db srv) of
             Inl _ \<Rightarrow> (srv, [])
           | Inr run \<Rightarrow>
               (case appendRunLifecycle E run typ stage status reason payload srv of
                  (srv', out, _) \<Rightarrow> (srv', map RunOut out)))"

definition appendTerminalRunEvent ::
  "store_env \<Rightarrow> string \<Rightarrow> string \<Rightarrow> string \<Rightarrow> string \<Rightarrow> string option \<Rightarrow> Server \<Rightarrow> Server \<times> rt_output list" where
  "appendTerminalRunEvent E runID typ status reason payload =
     relay_run_event E runID typ RunStageCompletion status reason payload"

subsection \<open>One event\<close>

text \<open>How the loop goes on: the next iteration, or the end with the error text (empty for none).\<close>

datatype loop_end = GoOn | Leave string

definition tool_call_of :: "toolBuilder \<Rightarrow> ToolCall" where
  "tool_call_of tb = \<lparr>call_ID = tb_id tb, call_Name = tb_name tb, call_Input = Some (tb_input tb)\<rparr>"

text \<open>A notification whose raw input is not JSON cannot be encoded and is dropped.\<close>

definition tool_call_note :: "StreamRelay \<Rightarrow> toolBuilder \<Rightarrow> rt_output list" where
  "tool_call_note sr tb =
     (if raw_json (tb_input tb) = None then []
      else [NToolCall \<lparr>tce_TurnID = sr_turnID sr, tce_ToolCallID = tb_id tb, tce_Tool = tb_name tb,
                       tce_Input = tb_input tb\<rparr>])"

fun relay_event ::
  "store_env \<Rightarrow> StreamRelay \<Rightarrow> StreamEvent \<Rightarrow> relay_vars \<Rightarrow> Server
     \<Rightarrow> relay_vars \<times> Server \<times> rt_output list \<times> loop_end" where
  "relay_event E sr (StreamText txt) v srv =
     (v\<lparr>rv_acc := (rv_acc v)\<lparr>rr_Content := rr_Content (rv_acc v) @ txt\<rparr>\<rparr>,
      appendRunProgress E (sr_runID sr) (json_object [(''text'', json_string txt),
        (''turn_id'', json_string (sr_turnID sr)), (''type'', json_string ''token_delta'')]) srv,
      [NTokenDelta \<lparr>td_TurnID = sr_turnID sr, td_RunID = sr_runID sr, td_BranchID = sr_branchID sr,
                    td_Text = txt\<rparr>], GoOn)"
| "relay_event E sr (StreamToolCallStart i n inp) v srv =
     (v\<lparr>rv_tools := rv_tools v @ [\<lparr>tb_id = i, tb_name = n, tb_input = inp\<rparr>]\<rparr>, srv, [], GoOn)"
| "relay_event E sr (StreamToolCallDelta inp) v srv =
     ((if rv_tools v = [] then v
       else v\<lparr>rv_tools := butlast (rv_tools v)
                @ [(last (rv_tools v))\<lparr>tb_input := tb_input (last (rv_tools v)) @ inp\<rparr>]\<rparr>), srv, [], GoOn)"
| "relay_event E sr StreamToolCallEnd v srv =
     (if rv_tools v = [] then (v, srv, [], GoOn)
      else (let tb = last (rv_tools v);
                (srv', out) = relay_run_event E (sr_runID sr) EventRunToolCallRequested
                   RunStageToolLoop RunStatusRunning [] (Some (json_object
                     [(''tool'', json_string (tb_name tb)), (''tool_call_id'', json_string (tb_id tb)),
                      (''turn_id'', json_string (sr_turnID sr))])) srv
            in (v\<lparr>rv_acc := (rv_acc v)\<lparr>rr_ToolCalls := rr_ToolCalls (rv_acc v) @ [tool_call_of tb]\<rparr>\<rparr>,
                srv', tool_call_note sr tb @ out, GoOn)))"
| "relay_event E sr (StreamUsage i out) v srv =
     (v\<lparr>rv_acc := (rv_acc v)\<lparr>
        rr_InputTokens := (if i > 0 then i else rr_InputTokens (rv_acc v)),
        rr_OutputTokens := (if out > 0 then out else rr_OutputTokens (rv_acc v))\<rparr>\<rparr>, srv, [], GoOn)"
| "relay_event E sr (StreamDone usage) v srv = (v, srv, [], Leave [])"
| "relay_event E sr (StreamError m) v srv = (v, srv, [], Leave m)"

text \<open>
  Where an iteration was when its context was cancelled: not yet past the \<open>select\<close> that looks at it; in
  \<open>Next\<close>, whose read returns the error of the cancelled request, with the text \<open>m\<close>; or past \<open>Next\<close>,
  with a payload in hand.
\<close>

datatype cancel_point = AtSelect | InNext (next_text: string) | InEvent

text \<open>
  One iteration: the context is looked at first, then the next payload is read and given to the
  adapter; a payload that does not parse is skipped.
\<close>

definition relay_iter ::
  "store_env \<Rightarrow> cancel_point option \<Rightarrow> StreamRelay \<Rightarrow> adapter \<Rightarrow> string option \<Rightarrow> string \<Rightarrow> relay_vars \<Rightarrow> Server
     \<Rightarrow> string \<times> relay_vars \<times> Server \<times> rt_output list \<times> loop_end" where
  "relay_iter E cancelled sr a e body v srv =
     (case cancelled of
        Some AtSelect \<Rightarrow> (body, v, srv, [], Leave ''cancelled'')
      | Some (InNext m) \<Rightarrow> (body, v, srv, [], Leave m)
      | _ \<Rightarrow>
          (case sse_next e body of
             (StreamEOF, rest) \<Rightarrow> (rest, v, srv, [], Leave [])
           | (StreamErr m, rest) \<Rightarrow> (rest, v, srv, [], Leave m)
           | (Payload raw, rest) \<Rightarrow>
               (case ParseStreamEvent a raw of
                  Some (Some ev) \<Rightarrow>
                    (case relay_event (under (cancelled \<noteq> None) E) sr ev v srv of
                       (v', srv', out, how) \<Rightarrow> (rest, v', srv', out, how))
                | _ \<Rightarrow> (rest, v, srv, [], GoOn))))"

subsection \<open>After the loop\<close>

text \<open>
  The text of a store error is the parameter \<open>et\<close>.  The turn is in the conversation whether or not
  it reaches the store.
\<close>

definition relay_response :: "StreamRelay \<Rightarrow> relayResult \<Rightarrow> AssistantResponse" where
  "relay_response sr acc = \<lparr>ar_Content = rr_Content acc, ar_ToolCalls = rr_ToolCalls acc,
     ar_Model = sr_model sr, ar_Provider = sr_provider sr, ar_InputTokens = rr_InputTokens acc,
     ar_OutputTokens = rr_OutputTokens acc, ar_Cost = 0, ar_LatencyMs = 0\<rparr>"

definition persistAssistant ::
  "(store_error \<Rightarrow> string) \<Rightarrow> store_env \<Rightarrow> StreamRelay \<Rightarrow> relayResult \<Rightarrow> ActiveSession \<Rightarrow> Server
     \<Rightarrow> ActiveSession \<times> Server \<times> Turn \<times> string" where
  "persistAssistant et E sr acc sess srv =
     (let (c, turn) = AppendAssistantTurn E (relay_response sr acc) (as_Conversation sess);
          sess' = sess\<lparr>as_Conversation := c\<rparr>
      in case CreateTurn E turn (sv_db srv) of
           (d, Inl err) \<Rightarrow> (sess', srv\<lparr>sv_db := d\<rparr>, turn, ''persist turn: '' @ et err)
         | (d, Inr _) \<Rightarrow>
             (sess', srv\<lparr>sv_db := (if sr_runID sr = [] then d
                 else fst (LinkTurnToRun E (sr_runID sr) (turn_ID turn) (turn_Role turn)
                             (turn_Sequence turn) d))\<rparr>, turn, []))"

definition whole_millis :: "int \<Rightarrow> int" where
  "whole_millis d = (if d < 0 then - ((- d) div 1000000) else d div 1000000)"

definition relay_call :: "StreamRelay \<Rightarrow> relayResult \<Rightarrow> rat \<Rightarrow> int \<Rightarrow> RunModelCall" where
  "relay_call sr acc cost latency =
     \<lparr>mc_ModelCallID = sr_runID sr @ '':'' @ sr_turnID sr, mc_RunID = sr_runID sr,
      mc_Provider = sr_provider sr, mc_Model = sr_model sr, mc_Stage = [], mc_Status = ''completed'',
      mc_InputTokens = rr_InputTokens acc, mc_OutputTokens = rr_OutputTokens acc,
      mc_TotalCost = cost, mc_LatencyMs = latency, mc_PayloadJSON = Some ''{}'',
      mc_CreatedAt = 0, mc_UpdatedAt = 0\<rparr>"

definition provider_error_note :: "string \<Rightarrow> string \<Rightarrow> rt_output" where
  "provider_error_note turnID msg = NServerError \<lparr>sve_TurnID = turnID, sve_Code = ''provider_error'',
     sve_Message = msg, sve_Diagnostic = \<lparr>dg_Code = DiagProviderUnavailable,
       dg_Category = ''provider'', dg_Cause = msg\<rparr>\<rparr>"

text \<open>
  The result is the persisted turn and the error of \<open>Relay\<close>, empty for none.  \<open>E\<close> is the environment
  under the relay's context, \<open>started\<close> the time its first line took.
\<close>

definition relay_finish ::
  "(store_error \<Rightarrow> string) \<Rightarrow> store_env \<Rightarrow> gotime \<Rightarrow> StreamRelay \<Rightarrow> relay_vars \<Rightarrow> string \<Rightarrow> ActiveSession
     \<Rightarrow> Server \<Rightarrow> ActiveSession \<times> Server \<times> rt_output list \<times> Turn \<times> string" where
  "relay_finish et E started sr v loopErr sess srv =
     (let acc = rv_acc v;
          (sess1, srv1, turn, persistErr) = persistAssistant et E sr acc sess srv;
          streamErr = (if loopErr = [] then persistErr else loopErr);
          cancelled = (streamErr = ''cancelled'');
          latency = whole_millis (time_sub (env_now E) started);
          cost = as_TotalCost sess1;
          complete = NTurnComplete \<lparr>tcm_RunID = sr_runID sr, tcm_TurnID = sr_turnID sr,
            tcm_FinalInputTokens = rr_InputTokens acc, tcm_FinalOutputTokens = rr_OutputTokens acc,
            tcm_TotalCost = cost, tcm_Model = sr_model sr, tcm_Provider = sr_provider sr,
            tcm_LatencyMs = latency, tcm_Cancelled = cancelled\<rparr>;
          srv2 = (if sr_runID sr = [] then srv1
                  else srv1\<lparr>sv_db := fst (RecordRunModelCall E (relay_call sr acc cost latency)
                                            (sv_db srv1))\<rparr>)
      in if streamErr \<noteq> [] \<and> \<not> cancelled
         then (case appendTerminalRunEvent E (sr_runID sr) EventRunFailed RunStatusFailed
                      ''provider_stream_failed''
                      (Some (json_object [(''error'', json_string streamErr)])) srv2 of
                 (srv3, out) \<Rightarrow> (sess1, srv3, complete # out @ [provider_error_note (sr_turnID sr) streamErr],
                                turn, ''relay: '' @ streamErr))
         else if cancelled
         then (case appendTerminalRunEvent E (sr_runID sr) EventRunCancelled RunStatusCancelled
                      ''cancelled'' None srv2 of
                 (srv3, out) \<Rightarrow> (sess1, srv3, complete # out, turn, []))
         else (case appendTerminalRunEvent E (sr_runID sr) EventRunCompleted RunStatusCompleted []
                      (Some (json_object [(''input_tokens'', itoa (rr_InputTokens acc)),
                        (''model'', json_string (sr_model sr)),
                        (''output_tokens'', itoa (rr_OutputTokens acc)),
                        (''provider'', json_string (sr_provider sr)),
                        (''turn_id'', json_string (sr_turnID sr))])) srv2 of
                 (srv3, out) \<Rightarrow> (sess1, srv3, complete # out, turn, [])))"

subsection \<open>Cost\<close>

text \<open>The session row that \<open>UpdateAfterTurn\<close> writes has nothing but the identifier and the totals.\<close>

definition totals_row :: "ActiveSession \<Rightarrow> Session" where
  "totals_row s =
     \<lparr>sess_ID = as_ID s, sess_UserID = [], sess_Project = [], sess_Summary = [],
      sess_ActiveModel = [], sess_ModelOverride = None, sess_RoutingOverrides = None,
      sess_PinnedItems = None, sess_CompactionState = None, sess_TotalCost = as_TotalCost s,
      sess_TotalInputTokens = as_TotalInputTokens s, sess_TotalOutputTokens = as_TotalOutputTokens s,
      sess_ContextPct = 0, sess_Status = [], sess_LockOwner = None, sess_LockExpiresAt = None,
      sess_CreatedAt = 0, sess_UpdatedAt = 0\<rparr>"

definition cost_update :: "catalog \<Rightarrow> Turn \<Rightarrow> rat \<Rightarrow> rt_output" where
  "cost_update models turn turnCost =
     (let (cin, cout) = (case model_Get (turn_Model turn) models of
            None \<Rightarrow> (0, 0)
          | Some e \<Rightarrow> (side_cost (turn_InputTokens turn) (mi_CostPer1kInput (me_Info e)),
                      side_cost (turn_OutputTokens turn) (mi_CostPer1kOutput (me_Info e))))
      in NCostUpdate \<lparr>cu_InputTokens = turn_InputTokens turn, cu_OutputTokens = turn_OutputTokens turn,
           cu_InputCost = cin, cu_OutputCost = cout, cu_TotalCost = turnCost\<rparr>)"

definition UpdateAfterTurn ::
  "store_env \<Rightarrow> catalog \<Rightarrow> Turn \<Rightarrow> ActiveSession \<Rightarrow> Server \<Rightarrow> ActiveSession \<times> Server \<times> rt_output list" where
  "UpdateAfterTurn E models turn sess srv =
     (let turnCost = ComputeTurnCost models (turn_Model turn) (turn_InputTokens turn) (turn_OutputTokens turn);
          sess' = sess\<lparr>as_TotalCost := as_TotalCost sess + turnCost,
                      as_TotalInputTokens := as_TotalInputTokens sess + turn_InputTokens turn,
                      as_TotalOutputTokens := as_TotalOutputTokens sess + turn_OutputTokens turn\<rparr>
      in (sess', srv\<lparr>sv_db := fst (UpdateSession E (totals_row sess') (sv_db srv))\<rparr>,
          [cost_update models turn turnCost]))"

text \<open>
  The goroutine after \<open>Relay\<close> returned: a failed relay whose run is not over yet ends it under a
  fresh context (\<open>Eb\<close>); the cost is recorded under the connection's (\<open>Ec\<close>).
\<close>

definition relay_settle ::
  "store_env \<Rightarrow> store_env \<Rightarrow> catalog \<Rightarrow> StreamRelay \<Rightarrow> Turn \<Rightarrow> string \<Rightarrow> ActiveSession \<Rightarrow> Server
     \<Rightarrow> ActiveSession \<times> Server \<times> rt_output list" where
  "relay_settle Eb Ec models sr turn relayErr sess srv =
     (let (srv1, out1) =
            (if relayErr = [] then (srv, [])
             else case GetRun Eb (sr_runID sr) (sv_db srv) of
                    Inl _ \<Rightarrow> (srv, [])
                  | Inr got \<Rightarrow>
                      (if isTerminalRunStatus (run_Status got) then (srv, [])
                       else (case appendRunLifecycle Eb got EventRunFailed (run_Stage got)
                                    RunStatusFailed ''relay_failed''
                                    (Some (json_object [(''error'', json_string relayErr)])) srv of
                               (srv', out, _) \<Rightarrow> (srv', map RunOut out))));
          (sess2, srv2, out2) = UpdateAfterTurn Ec models turn sess srv1
      in (sess2, srv2\<lparr>sv_runs := deregister (sr_runID sr) (sr_turnID sr) (sv_runs srv2)\<rparr>, out1 @ out2))"

end
