(* ===== verification/Stream_Relay_Props.thy ===== *)
theory Stream_Relay_Props
  imports Stream_Relay Run_Requests
begin

text \<open>
  Properties of the relay of a streamed turn: its loop ends, the text it streams is the text it
  keeps and persists, and how the run of the turn ends.  Between two iterations of the loop other
  goroutines may change the server, so the loop is run against whatever server each iteration finds.
\<close>

subsection \<open>The loop\<close>

text \<open>
  One observation per iteration: its environment, the point at which it found the context cancelled, if it did, the server.
  The result has \<open>None\<close> when the observations ran out before the loop ended.
\<close>

fun relay_loop ::
  "StreamRelay \<Rightarrow> adapter \<Rightarrow> string option \<Rightarrow> (store_env \<times> cancel_point option \<times> Server) list \<Rightarrow> string \<Rightarrow> relay_vars
     \<Rightarrow> relay_vars \<times> rt_output list \<times> string option" where
  "relay_loop sr a e [] body v = (v, [], None)"
| "relay_loop sr a e ((E, cancelled, srv) # seen) body v =
     (case relay_iter E cancelled sr a e body v srv of
        (body', v', srv', out, Leave m) \<Rightarrow> (v', out, Some m)
      | (body', v', srv', out, GoOn) \<Rightarrow>
          (case relay_loop sr a e seen body' v' of (v'', out', r) \<Rightarrow> (v'', out @ out', r)))"

lemma sse_next_shorter: "sse_next e s = (Payload p, left) \<Longrightarrow> length left < length s"
proof (induction e s rule: sse_next.induct)
  case (1 e s)
  obtain line err r where l: "readBoundedLine e s = (line, err, r)" by (metis prod_cases3)
  have short: "err = None \<or> line \<noteq> [] \<Longrightarrow> length r < length s"
    using readBoundedLine_shorter [OF l] .
  note step = "1.prems" [unfolded sse_next.simps [of e s] l prod.case]
  show ?case
  proof (cases "line_payload line")
    case None
    with step have n: "err = None \<or> line \<noteq> []" "sse_next e r = (Payload p, left)"
      by (auto split: option.splits line_error.splits if_splits)
    from step n have "length left < length r"
      using "1.IH" [OF l [symmetric] refl] None by (auto split: option.splits line_error.splits if_splits)
    with short [OF n(1)] show ?thesis by simp
  next
    case (Some q)
    with step have "r = left" "err = None \<or> line \<noteq> []"
      by (auto split: option.splits line_error.splits if_splits)
    with short show ?thesis by simp
  qed
qed

lemma relay_event_body:
  "relay_iter E c sr a e body v srv = (body', v', srv', out, GoOn) \<Longrightarrow> length body' < length body"
  by (auto simp: relay_iter_def split: if_splits cancel_point.splits next_result.splits prod.splits option.splits
      dest: sse_next_shorter)

text \<open>
  C12: The relay's loop ends.  Whatever the provider sends and whatever the rest of the server does
  meanwhile, the loop has ended after at most one iteration more than the response has bytes.
\<close>

theorem relay_loop_ends:
  assumes "length body < length seen"
  shows "\<exists>v' out m. relay_loop sr a e seen body v = (v', out, Some m)"
  using assms
proof (induction sr a e seen body v rule: relay_loop.induct)
  case (2 sr a e E c srv seen body v)
  obtain body' v' srv' out how where i: "relay_iter E c sr a e body v srv = (body', v', srv', out, how)"
    by (metis prod_cases5)
  show ?case
  proof (cases how)
    case GoOn
    with "2.prems" relay_event_body i have "length body' < length seen" by fastforce
    with "2.IH" [OF i [symmetric] refl refl refl GoOn] i GoOn show ?thesis by (auto split: prod.splits)
  qed (simp add: i)
qed simp

subsection \<open>What is streamed is what is kept\<close>

fun delta_text :: "rt_output \<Rightarrow> string" where
  "delta_text (NTokenDelta d) = td_Text d"
| "delta_text _ = []"

definition streamed_text :: "rt_output list \<Rightarrow> string" where
  "streamed_text out = concat (map delta_text out)"

lemma streamed_text_simps [simp]:
  "streamed_text [] = []"
  "streamed_text (o1 # out) = delta_text o1 @ streamed_text out"
  "streamed_text (out @ out') = streamed_text out @ streamed_text out'"
  "streamed_text (map RunOut rs) = []"
  by (simp_all add: streamed_text_def comp_def)

lemma relay_run_event_text [simp]:
  "relay_run_event E r t s st why p srv = (srv', out) \<Longrightarrow> streamed_text out = []"
  by (auto simp: relay_run_event_def split: if_splits sum.splits prod.splits)

text \<open>A tool call announced to the client: its identifier, its name and its input.\<close>

fun announced_call :: "rt_output \<Rightarrow> ToolCall list" where
  "announced_call (NToolCall t) =
     [\<lparr>call_ID = tce_ToolCallID t, call_Name = tce_Tool t, call_Input = Some (tce_Input t)\<rparr>]"
| "announced_call _ = []"

definition announced :: "rt_output list \<Rightarrow> ToolCall list" where
  "announced out = concat (map announced_call out)"

definition sendable :: "ToolCall \<Rightarrow> bool" where
  "sendable tc = (case call_Input tc of None \<Rightarrow> False | Some i \<Rightarrow> raw_json i \<noteq> None)"

lemma announced_simps [simp]:
  "announced [] = []"
  "announced (o1 # out) = announced_call o1 @ announced out"
  "announced (out @ out') = announced out @ announced out'"
  "announced (map RunOut rs) = []"
  by (simp_all add: announced_def comp_def)

lemma relay_run_event_announced [simp]:
  "relay_run_event E r t s st why p srv = (srv', out) \<Longrightarrow> announced out = []"
  by (auto simp: relay_run_event_def split: if_splits sum.splits prod.splits)

lemma relay_event_kept:
  assumes "relay_event E sr ev v srv = (v', srv', out, how)"
  shows "rr_Content (rv_acc v') = rr_Content (rv_acc v) @ streamed_text out"
    "filter sendable (rr_ToolCalls (rv_acc v')) = filter sendable (rr_ToolCalls (rv_acc v)) @ announced out"
  using assms
  by (cases ev; auto simp: tool_call_note_def tool_call_of_def sendable_def Let_def split: if_splits prod.splits)+

lemma relay_iter_kept:
  assumes "relay_iter E c sr a e body v srv = (body', v', srv', out, how)"
  shows "rr_Content (rv_acc v') = rr_Content (rv_acc v) @ streamed_text out \<and>
    filter sendable (rr_ToolCalls (rv_acc v')) = filter sendable (rr_ToolCalls (rv_acc v)) @ announced out"
  using assms
  by (auto simp: relay_iter_def relay_event_kept split: if_splits cancel_point.splits next_result.splits prod.splits option.splits)

lemma relay_loop_kept:
  assumes "relay_loop sr a e seen body v = (v', out, r)"
  shows "rr_Content (rv_acc v') = rr_Content (rv_acc v) @ streamed_text out \<and>
    filter sendable (rr_ToolCalls (rv_acc v')) = filter sendable (rr_ToolCalls (rv_acc v)) @ announced out"
  using assms
proof (induction sr a e seen body v arbitrary: v' out r rule: relay_loop.induct)
  case (2 sr a e E c srv seen body v)
  obtain body' v1 srv' out1 how where i: "relay_iter E c sr a e body v srv = (body', v1, srv', out1, how)"
    by (metis prod_cases5)
  note k = relay_iter_kept [OF i]
  show ?case
  proof (cases how)
    case GoOn
    obtain v2 out2 r2 where l: "relay_loop sr a e seen body' v1 = (v2, out2, r2)" by (metis prod_cases3)
    from "2.IH" [OF i [symmetric] refl refl refl GoOn l] "2.prems" i l k GoOn show ?thesis by auto
  qed (use "2.prems" i k in auto)
qed simp

lemma persistAssistant_turns:
  assumes "persistAssistant et E sr acc sess srv = (sess', srv', turn, err)"
  shows "cv_turns (as_Conversation sess') = cv_turns (as_Conversation sess) @
      [assistant_message (relay_response sr acc)]"
    "turn = snd (AppendAssistantTurn E (relay_response sr acc) (as_Conversation sess))"
    "err = [] \<or> sv_db srv' = sv_db srv"
  using assms
  by (auto simp: persistAssistant_def AppendAssistantTurn_def CreateTurn_def autocommit_def Let_def
      split: prod.splits sum.splits)

text \<open>
  C11: What a client saw streamed is what the conversation keeps.  When the loop has ended, whatever
  it met, the turn appended to the conversation and handed to the store has as content the texts of
  the deltas that were sent, in order, and as its calls whose input is JSON the tool calls that were
  announced, in order.
\<close>

theorem relay_keeps_what_it_streams:
  assumes "relay_loop sr a e seen body relay_start = (v, out, Some m)"
    and "relay_finish et E started sr v m sess srv = (sess', srv', out', turn, err)"
  shows "\<exists>msg. cv_turns (as_Conversation sess') = cv_turns (as_Conversation sess) @ [msg] \<and>
    msg_Role msg = ''assistant'' \<and> msg_Content msg = streamed_text out \<and>
    filter sendable (msg_ToolCalls msg) = announced out \<and>
    turn_Content turn = Some (case message_json msg of None \<Rightarrow> ''null'' | Some j \<Rightarrow> json_print j) \<and>
    turn_Sequence turn = cv_storageSequence (as_Conversation sess) + 1"
proof -
  let ?msg = "assistant_message (relay_response sr (rv_acc v))"
  obtain sess1 srv1 t perr where p: "persistAssistant et E sr (rv_acc v) sess srv = (sess1, srv1, t, perr)"
    by (metis prod_cases4)
  have "sess' = sess1" "turn = t"
    using assms(2) p by (auto simp: relay_finish_def Let_def split: if_splits prod.splits)
  moreover have "rr_Content (rv_acc v) = streamed_text out"
    "filter sendable (rr_ToolCalls (rv_acc v)) = announced out"
    using relay_loop_kept [OF assms(1)] by (simp_all add: relay_start_def)
  ultimately show ?thesis
    using persistAssistant_turns [OF p]
    by (intro exI [of _ ?msg])
      (simp add: assistant_message_def relay_response_def AppendAssistantTurn_def messageToTurn_def Let_def)
qed

end
