(* ===== verification/Relay_End.thy ===== *)
theory Relay_End
  imports Stream_Relay_Props Run_Witnesses
begin

text \<open>
  How a streamed turn ends: the run of the turn, the row of its session, what a cancelled context
  leaves undone; and the witnesses of the relay's properties.
\<close>

subsection \<open>What the statements before the last event leave as it was\<close>

definition same_run :: "string \<Rightarrow> db \<Rightarrow> db \<Rightarrow> bool" where
  "same_run rid d d' = (run_db_inv d' \<and> db_checkpoints d' = db_checkpoints d \<and>
     (\<forall>r. find_run d rid = Some r \<longrightarrow> (\<exists>r'. find_run d' rid = Some r' \<and> run_Status r' = run_Status r \<and>
        run_Stage r' = run_Stage r \<and> run_LastEventSeq r' = run_LastEventSeq r)))"

lemma same_run_refl: "run_db_inv d \<Longrightarrow> same_run rid d d"
  by (simp add: same_run_def)

lemma same_run_trans: "same_run rid d d1 \<Longrightarrow> same_run rid d1 d2 \<Longrightarrow> same_run rid d d2"
  by (fastforce simp: same_run_def)

lemma find_run_tables: "db_runs d' = db_runs d \<Longrightarrow> find_run d' rid = find_run d rid"
  by (simp add: find_run_def)

lemma CreateTurn_same_run:
  assumes "run_db_inv d" "CreateTurn E t d = (d', res)" shows "same_run rid d d'"
proof (cases "d' = d")
  case False
  with assms(2) have "insertTurn E t d = Inr d'"
    by (auto simp: CreateTurn_def autocommit_def split: sum.splits)
  then obtain t' where d': "d' = d\<lparr>db_turns := db_turns d @ [t']\<rparr>" using insertTurn_Inr by blast
  then have r: "db_runs d' = db_runs d" "db_checkpoints d' = db_checkpoints d" by simp_all
  have "run_db_inv d'" by (rule run_db_inv_tables [OF assms(1)]) (simp_all add: d')
  with r show ?thesis by (simp add: same_run_def find_run_tables [OF r(1)])
qed (simp add: assms same_run_refl)

lemma LinkTurn_same_run:
  assumes "run_db_inv d" shows "same_run rid d (fst (LinkTurnToRun E x tid role n d))"
proof -
  obtain d' res where l: "LinkTurnToRun E x tid role n d = (d', res)" by (cases "LinkTurnToRun E x tid role n d")
  have r: "db_runs d' = db_runs d" "db_checkpoints d' = db_checkpoints d"
    using l by (auto simp: LinkTurnToRun_def autocommit_def insertRunTurn_def split: sum.splits if_splits)
  with LinkTurnToRun_inv [OF assms l] l show ?thesis by (simp add: same_run_def find_run_tables [OF r(1)])
qed

lemma RecordCall_same_run:
  assumes "run_db_inv d" shows "same_run rid d (fst (RecordRunModelCall E c d))"
proof -
  obtain d' res where l: "RecordRunModelCall E c d = (d', res)" by (cases "RecordRunModelCall E c d")
  note inv = RecordRunModelCall_inv [OF assms l]
  show ?thesis
  proof (cases "d' = d")
    case False
    with l obtain b where b: "res = Inr b" by (cases res) (auto dest: Record_error)
    with l False have d': "d' = d\<lparr>db_model_calls := db_model_calls d @ [normalizeModelCall E c],
        db_runs := map (\<lambda>r. if run_ID r = mc_RunID c then add_model_call c (env_now E) r else r) (db_runs d)\<rparr>"
      using RecordRunModelCall_Inr [of E c d d' b] by blast
    have "find_run d' rid = (if rid = mc_RunID c then map_option (add_model_call c (env_now E)) (find_run d rid)
        else find_run d rid)"
      by (rule find_run_map) (simp_all add: d' add_model_call_def)
    with inv l d' show ?thesis by (auto simp: same_run_def add_model_call_def)
  qed (use l assms in \<open>simp add: same_run_refl\<close>)
qed

lemma persist_same_run:
  assumes "run_db_inv (sv_db srv)" "persistAssistant et E sr acc sess srv = (sess', srv', turn, err)"
  shows "same_run rid (sv_db srv) (sv_db srv')"
proof -
  obtain c t where a: "AppendAssistantTurn E (relay_response sr acc) (as_Conversation sess) = (c, t)"
    by (cases "AppendAssistantTurn E (relay_response sr acc) (as_Conversation sess)")
  obtain d res where d: "CreateTurn E t (sv_db srv) = (d, res)" by (cases "CreateTurn E t (sv_db srv)")
  note s = CreateTurn_same_run [OF assms(1) d]
  then have "run_db_inv d" by (simp add: same_run_def)
  from same_run_trans [OF s LinkTurn_same_run [OF this]] s assms(2) a d show ?thesis
    by (auto simp: persistAssistant_def Let_def split: sum.splits if_splits)
qed

subsection \<open>The run of the turn ends\<close>

lemma terminal_append:
  assumes i: "run_db_inv (sv_db srv)" and r: "find_run (sv_db srv) rid = Some r" "rid \<noteq> []"
    and f: "\<forall>st. \<not> env_fault E st"
    and fresh: "''cp-'' @ env_uuid E 2 \<notin> cp_ID ` set (db_checkpoints (sv_db srv))"
    and st: "validRunStatuses st" "st \<noteq> []" "typ \<in> {EventRunCompleted, EventRunFailed, EventRunCancelled}"
    and a: "appendTerminalRunEvent E rid typ st why p srv = (srv', out)"
  shows "\<exists>r'. find_run (sv_db srv') rid = Some r' \<and> run_Status r' = st \<and> run_Stage r' = RunStageCompletion \<and>
    run_TerminalAt r' = Some (env_now E)"
proof -
  let ?u = "lifecycle_update E r typ RunStageCompletion st why"
  let ?ev = "\<lparr>evt_RunID = [], evt_Seq = 0, evt_Type = typ, evt_Stage = RunStageCompletion,
    evt_Status = st, evt_Reason = why, evt_PayloadJSON = Some (case p of None \<Rightarrow> ''{}'' | Some j \<Rightarrow> j),
    evt_PayloadSchemaVersion = 0, evt_CreatedAt = env_now E\<rparr>"
  have id: "run_ID r = rid" using find_run_Some [OF r(1)] by simp
  have u: "upd_Status ?u = Some st" "upd_Stage ?u = Some RunStageCompletion"
    "upd_TerminalAt ?u = Some (env_now E)"
    "upd_Checkpoint ?u = Some (new_checkpoint E RunStageCompletion st why (run_Summary r) [])"
    using st by (auto simp: lifecycle_update_def no_update_def stringPtrOrNil_def RunStageCompletion_def
        validRunStatuses_def run_status_defs)
  obtain d' where d': "AppendRunEvent E rid ?ev ?u (sv_db srv) = (d', Inr (run_LastEventSeq r + 1))"
    using AppendRunEvent_ok [OF i r(1), of E ?u ?ev] f fresh st(1) u
    by (auto simp: new_checkpoint_def validRunStages_def RunStageCompletion_def)
  from AppendRunEvent_row [OF d' r(1)] obtain r' where "find_run d' rid = Some r'"
    "run_Status r' = st" "run_Stage r' = RunStageCompletion" "run_TerminalAt r' = Some (env_now E)"
    using u by auto
  moreover have "sv_db srv' = d'"
    using a d' f r id by (auto simp: appendTerminalRunEvent_def relay_run_event_def GetRun_def
        appendRunLifecycle_def Let_def)
  ultimately show ?thesis by auto
qed

text \<open>
  A relay whose context is alive ends the run of its turn.  Whatever ended the loop, and whether or not
  the answer could be persisted: afterwards the run is over, at the completion stage, completed
  exactly when the relay returns no error and the stream was not cancelled; the client has been told that the turn is
  complete before it is told how the run ended.
\<close>

theorem relay_ends_run:
  assumes "run_db_inv (sv_db srv)" "find_run (sv_db srv) (sr_runID sr) = Some r" "sr_runID sr \<noteq> []"
    and "\<forall>st. \<not> env_fault E st"
    and "''cp-'' @ env_uuid E 2 \<notin> cp_ID ` set (db_checkpoints (sv_db srv))"
    and "relay_finish et E started sr v m sess srv = (sess', srv', out, turn, err)"
  shows "\<exists>r'. find_run (sv_db srv') (sr_runID sr) = Some r' \<and> isTerminalRunStatus (run_Status r') \<and>
    run_Status r' = (if err \<noteq> [] then RunStatusFailed else if m = ''cancelled'' then RunStatusCancelled
                     else RunStatusCompleted) \<and>
    run_Stage r' = RunStageCompletion \<and> run_TerminalAt r' = Some (env_now E) \<and>
    (\<exists>t rest. out = NTurnComplete t # rest \<and> tcm_Cancelled t = (run_Status r' = RunStatusCancelled))"
proof -
  obtain sess1 srv1 t perr where p: "persistAssistant et E sr (rv_acc v) sess srv = (sess1, srv1, t, perr)"
    by (metis prod_cases4)
  let ?c = "relay_call sr (rv_acc v) (as_TotalCost sess1) (whole_millis (time_sub (env_now E) started))"
  let ?srv2 = "srv1\<lparr>sv_db := fst (RecordRunModelCall E ?c (sv_db srv1))\<rparr>"
  note s1 = persist_same_run [OF assms(1) p, of "sr_runID sr"]
  then have "run_db_inv (sv_db srv1)" by (simp add: same_run_def)
  note s = same_run_trans [OF s1 RecordCall_same_run [OF this, of "sr_runID sr" E ?c]]
  then obtain r2 where r2: "run_db_inv (sv_db ?srv2)" "find_run (sv_db ?srv2) (sr_runID sr) = Some r2"
    "''cp-'' @ env_uuid E 2 \<notin> cp_ID ` set (db_checkpoints (sv_db ?srv2))"
    using assms(2,5) by (auto simp: same_run_def)
  note ends = terminal_append [OF r2(1,2) assms(3,4) r2(3)]
  have perr: "perr \<noteq> ''cancelled''"
    using p by (auto simp: persistAssistant_def Let_def split: prod.splits sum.splits)
  let ?m = "if m = [] then perr else m"
  note fin = assms(6) [unfolded relay_finish_def p Let_def prod.case, simplified assms(3) if_False]
  have v: "validRunStatuses RunStatusFailed" "validRunStatuses RunStatusCancelled"
    "validRunStatuses RunStatusCompleted"
    "RunStatusFailed \<noteq> []" "RunStatusCancelled \<noteq> []" "RunStatusCompleted \<noteq> []"
    by (simp_all add: validRunStatuses_def run_status_defs)
  consider (failed) "?m \<noteq> []" "?m \<noteq> ''cancelled''" | (cancelled) "?m = ''cancelled''" | (ok) "?m = []" by blast
  then show ?thesis
  proof cases
    case failed
    obtain srv3 o3 where t: "appendTerminalRunEvent E (sr_runID sr) EventRunFailed RunStatusFailed
        ''provider_stream_failed'' (Some (json_object [(''error'', json_string ?m)])) ?srv2 = (srv3, o3)"
      by fastforce
    from failed have "m \<noteq> ''cancelled''" by (auto split: if_splits)
    with ends [OF v(1,4) _ t] fin t failed show ?thesis by (auto simp: terminal_defs)
  next
    case cancelled
    with perr have m: "m = ''cancelled''" by (auto split: if_splits)
    obtain srv3 o3 where t: "appendTerminalRunEvent E (sr_runID sr) EventRunCancelled RunStatusCancelled
        ''cancelled'' None ?srv2 = (srv3, o3)" by fastforce
    from ends [OF v(2,5) _ t] fin t m show ?thesis by (auto simp: terminal_defs)
  next
    case ok
    then have m: "m = []" "perr = []" by (auto split: if_splits)
    obtain srv3 o3 where t: "appendTerminalRunEvent E (sr_runID sr) EventRunCompleted RunStatusCompleted []
        (Some (json_object [(''input_tokens'', itoa (rr_InputTokens (rv_acc v))),
          (''model'', json_string (sr_model sr)), (''output_tokens'', itoa (rr_OutputTokens (rv_acc v))),
          (''provider'', json_string (sr_provider sr)), (''turn_id'', json_string (sr_turnID sr))]))
        ?srv2 = (srv3, o3)" by fastforce
    from ends [OF v(3,6) _ t] fin t m show ?thesis by (auto simp: terminal_defs)
  qed
qed

subsection \<open>A cancelled relay\<close>

lemma under_fails:
  "env_fault (under True E) st" "env_round (under True E) i st"
  by (simp_all add: under_def)

lemma cancelled_writes:
  fixes f :: "db \<Rightarrow> db \<times> (store_error + 'x)"
  shows "run_tx (under True E) f d = (d, Inl (SqlError S_Begin))"
    and "CreateTurn (under True E) t d = (d, Inl (SqlError S_InsertTurn))"
    and "fst (RecordRunModelCall (under True E) mc d) = d"
    and "appendRunProgress (under True E) rid raw srv = srv"
    and "relay_run_event (under True E) rid ty stage st reason p srv = (srv, [])"
    and "appendTerminalRunEvent (under True E) rid ty st reason p srv = (srv, [])"
  by (simp_all add: run_tx_def under_fails CreateTurn_def insertTurn_def exec_def autocommit_def
      RecordRunModelCall_def Let_def appendRunProgress_def relay_run_event_def appendTerminalRunEvent_def GetRun_def)

lemma cancelled_event:
  assumes "relay_event (under True E) sr ev v srv = (v', srv', out, how)"
  shows "srv' = srv"
  using assms by (cases ev) (auto simp: cancelled_writes Let_def split: if_splits)

lemma cancelled_iter:
  assumes "relay_iter E (Some pt) sr a e body v srv = (body', v', srv', out, how)"
  shows "srv' = srv"
  using assms
  by (auto simp: relay_iter_def dest: cancelled_event
      split: cancel_point.splits next_result.splits prod.splits option.splits)

lemma settle_turns:
  "db_turns (sv_db (fst (snd (relay_settle Eb Ec models sr turn err sess srv)))) = db_turns (sv_db srv) \<and>
   db_model_calls (sv_db (fst (snd (relay_settle Eb Ec models sr turn err sess srv)))) = db_model_calls (sv_db srv)"
proof -
  have u: "db_turns (fst (UpdateSession E s d)) = db_turns d" "db_model_calls (fst (UpdateSession E s d)) = db_model_calls d" for E s d
    by (simp_all add: UpdateSession_def map_session_def)
  have a: "db_turns d' = db_turns d \<and> db_model_calls d' = db_model_calls d" if "AppendRunEvent E rid ev u d = (d', r)" for E rid ev u d d' r
    using that by (cases r) (auto elim: AppendRunEvent_Inr dest: AppendRunEvent_error)
  have l: "db_turns (sv_db s1) = db_turns (sv_db srv) \<and> db_model_calls (sv_db s1) = db_model_calls (sv_db srv)"
    if "appendRunLifecycle Eb got EventRunFailed (run_Stage got) RunStatusFailed why p srv = (s1, o1, r1)"
    for got why p s1 o1 r1
    using that by (auto simp: appendRunLifecycle_def Let_def dest: a split: prod.splits sum.splits)
  show ?thesis
    by (auto simp: relay_settle_def UpdateAfterTurn_def Let_def u dest: l split: prod.splits sum.splits if_splits)
qed

text \<open>
  C13: A cancelled relay stores no turn, no model call and no last event.  Wherever the iteration was when
  the context was cancelled, the iteration and what follows the loop leave the database as it was (what
  earlier iterations had stored, the progress events of their deltas, stays); the partial answer is in the
  conversation in memory only, and what the goroutine does afterwards adds no turn and no model call.  If
  the cancellation was seen before the read, the client is told that the turn was cancelled, and the run
  is still marked as running after the goroutine has ended; if it came later and the loop ended, the client
  is told that the turn was not cancelled, and an error of the provider.
\<close>

theorem cancelled_relay_persists_no_turn:
  assumes "relay_iter E (Some pt) sr a e body v srv = (body', v', srv1, out1, how)"
    and "relay_finish et (under True E1) started sr v' m sess srv1 = (sess', srv', out, turn, err)"
  shows "sv_db srv1 = sv_db srv \<and> sv_db srv' = sv_db srv \<and>
    cv_turns (as_Conversation sess') = cv_turns (as_Conversation sess) @ [assistant_message (relay_response sr (rv_acc v'))] \<and>
    (\<forall>Eb Ec models. db_turns (sv_db (fst (snd (relay_settle Eb Ec models sr turn err sess' srv')))) = db_turns (sv_db srv) \<and>
       db_model_calls (sv_db (fst (snd (relay_settle Eb Ec models sr turn err sess' srv')))) = db_model_calls (sv_db srv)) \<and>
    (pt = AtSelect \<longrightarrow> how = Leave ''cancelled'' \<and> v' = v \<and> out1 = []) \<and>
    (m = ''cancelled'' \<longrightarrow> err = [] \<and> (\<exists>t. out = [NTurnComplete t] \<and> tcm_Cancelled t) \<and>
       (\<forall>Eb Ec models. db_runs (sv_db (fst (snd (relay_settle Eb Ec models sr turn err sess' srv')))) = db_runs (sv_db srv))) \<and>
    (m \<noteq> ''cancelled'' \<longrightarrow> err \<noteq> [] \<and>
       (\<exists>t msg. out = [NTurnComplete t, provider_error_note (sr_turnID sr) msg] \<and> \<not> tcm_Cancelled t))"
proof -
  have i: "srv1 = srv" by (rule cancelled_iter [OF assms(1)])
  have f: "sv_db srv' = sv_db srv \<and>
    cv_turns (as_Conversation sess') = cv_turns (as_Conversation sess) @ [assistant_message (relay_response sr (rv_acc v'))] \<and>
    (m = ''cancelled'' \<longrightarrow> err = [] \<and> (\<exists>t. out = [NTurnComplete t] \<and> tcm_Cancelled t)) \<and>
    (m \<noteq> ''cancelled'' \<longrightarrow> err \<noteq> [] \<and>
       (\<exists>t msg. out = [NTurnComplete t, provider_error_note (sr_turnID sr) msg] \<and> \<not> tcm_Cancelled t))"
    using assms(2) i
    by (auto simp: relay_finish_def persistAssistant_def AppendAssistantTurn_def cancelled_writes Let_def
        split: prod.splits if_splits)
  have runs: "db_runs (sv_db (fst (snd (relay_settle Eb Ec models sr turn [] sess' srv')))) = db_runs (sv_db srv)"
    for Eb Ec models
    using f by (auto simp: relay_settle_def UpdateAfterTurn_def UpdateSession_def map_session_def Let_def
        split: prod.splits)
  have "pt = AtSelect \<longrightarrow> how = Leave ''cancelled'' \<and> v' = v \<and> out1 = []"
    using assms(1) by (auto simp: relay_iter_def)
  then show ?thesis using i f runs settle_turns by (metis (no_types, lifting))
qed

subsection \<open>The session's row after a turn\<close>

text \<open>
  C14: Recording the cost of a turn erases the rest of the session's row.  The totals in memory and in the
  store become those before plus the turn's, but the stored session has lost its owner, its
  project, its status and its lock, and neither \<open>ListSessions\<close> nor \<open>SessionSummaries\<close>, which answers
  \<open>session.list\<close>, returns it for any user.
\<close>

theorem cost_update_wipes_session:
  assumes "has_session (sv_db srv) (as_ID sess)" "\<not> env_fault E S_UpdateSession"
    and "UpdateAfterTurn E models turn sess srv = (sess', srv', out)"
  shows "as_TotalCost sess' = as_TotalCost sess +
      ComputeTurnCost models (turn_Model turn) (turn_InputTokens turn) (turn_OutputTokens turn) \<and>
    (\<exists>s. find_session (sv_db srv') (as_ID sess) = Some s \<and> sess_TotalCost s = as_TotalCost sess' \<and>
       sess_TotalInputTokens s = as_TotalInputTokens sess + turn_InputTokens turn \<and>
       sess_TotalOutputTokens s = as_TotalOutputTokens sess + turn_OutputTokens turn \<and>
       sess_UserID s = [] \<and> sess_Project s = [] \<and> sess_Status s = [] \<and> sess_LockOwner s = None) \<and>
    (\<forall>E' f rows. ListSessions E' f (sv_db srv') = Inr rows \<longrightarrow> as_ID sess \<notin> sess_ID ` set rows) \<and>
    (\<forall>E' pins f rows. SessionSummaries E' pins f (sv_db srv') = Inr rows \<longrightarrow>
       as_ID sess \<notin> (\<lambda>s. sess_ID (sum_Session s)) ` set rows)"
proof -
  let ?d = "sv_db srv'"
  let ?f = "\<lambda>old::Session. (fill_session (totals_row sess'))\<lparr>sess_CreatedAt := sess_CreatedAt old\<rparr>"
  have s': "as_TotalCost sess' = as_TotalCost sess +
      ComputeTurnCost models (turn_Model turn) (turn_InputTokens turn) (turn_OutputTokens turn)"
    "as_TotalInputTokens sess' = as_TotalInputTokens sess + turn_InputTokens turn"
    "as_TotalOutputTokens sess' = as_TotalOutputTokens sess + turn_OutputTokens turn" "as_ID sess' = as_ID sess"
    using assms(3) by (auto simp: UpdateAfterTurn_def Let_def)
  have d: "?d = map_session (as_ID sess) ?f (sv_db srv)"
    using assms s' by (auto simp: UpdateAfterTurn_def UpdateSession_def Let_def totals_row_def)
  have f: "sess_UserID (?f old) = []" "sess_ID (?f old) = as_ID sess" for old
    by (simp_all add: fill_session_def totals_row_def s')
  have rows: "sess_UserID s = []" if "s \<in> set (db_sessions ?d)" "sess_ID s = as_ID sess" for s
    using that f by (auto simp: d map_session_def split: if_splits)
  have "as_ID sess \<notin> sess_ID ` set rs" if l: "ListSessions E' fl ?d = Inr rs" for E' fl rs
  proof
    assume "as_ID sess \<in> sess_ID ` set rs"
    then obtain s where s: "s \<in> set rs" "sess_ID s = as_ID sess" by auto
    have "set rs \<subseteq> {s \<in> set (db_sessions ?d). sess_UserID s = sf_UserID fl}" "sf_UserID fl \<noteq> []"
      using l by (auto simp: ListSessions_def limit_offset_def session_rows_def split: if_splits
          dest!: in_set_takeD in_set_dropD)
    with s rows show False by auto
  qed
  moreover have "as_ID sess \<notin> (\<lambda>s. sess_ID (sum_Session s)) ` set rs"
    if l: "SessionSummaries E' pins fl ?d = Inr rs" for E' pins fl rs
  proof
    assume "as_ID sess \<in> (\<lambda>s. sess_ID (sum_Session s)) ` set rs"
    then obtain s where s: "s \<in> set rs" "sess_ID (sum_Session s) = as_ID sess" by auto
    have "sum_Session ` set rs \<subseteq> {s \<in> set (db_sessions ?d). sess_UserID s = sf_UserID fl}" "sf_UserID fl \<noteq> []"
      using l by (auto simp: SessionSummaries_def session_summary_def limit_offset_def session_rows_def split: if_splits
          dest!: in_set_takeD in_set_dropD)
    with s rows show False by auto
  qed
  moreover have "\<exists>s. find_session ?d (as_ID sess) = Some s \<and> (\<exists>old. s = ?f old)"
  proof -
    obtain x where x: "x \<in> set (db_sessions (sv_db srv))" "sess_ID x = as_ID sess"
      using assms(1) unfolding has_session_def by force
    then have "?f x \<in> set (db_sessions ?d)" unfolding d by (force simp: map_session_def)
    with f(2) have "\<exists>s \<in> set (db_sessions ?d). sess_ID s = as_ID sess" by blast
    then have "find_session ?d (as_ID sess) \<noteq> None" unfolding find_session_def find_None_iff by blast
    then obtain s where s: "find_session ?d (as_ID sess) = Some s" by blast
    then have "s \<in> set (db_sessions ?d)" "sess_ID s = as_ID sess"
      unfolding find_session_def find_Some_iff by (metis nth_mem)+
    then have "\<exists>old. s = ?f old" unfolding d map_session_def by (auto split: if_splits)
    with s show ?thesis by blast
  qed
  ultimately show ?thesis using s' by (auto simp: fill_session_def totals_row_def)
qed

subsection \<open>Witnesses\<close>

definition sess_as_w :: ActiveSession where
  "sess_as_w = \<lparr>as_ID = ''s1'', as_UserID = ''u'', as_Project = ''/p'', as_ConnID = ''c1'',
     as_Conversation = NewConversation ''s1'', as_ModelOverride = [], as_TotalCost = 0,
     as_TotalInputTokens = 0, as_TotalOutputTokens = 0, as_ContextPct = 0\<rparr>"

definition relay_w :: StreamRelay where
  "relay_w = \<lparr>sr_turnID = ''t1'', sr_branchID = [], sr_model = ''m'', sr_provider = ''p'', sr_runID = ''r1''\<rparr>"

definition turn_w7 :: Turn where
  "turn_w7 = snd (AppendAssistantTurn (env_at 5) (relay_response relay_w (rv_acc relay_start))
     (as_Conversation sess_as_w))"

definition no_text :: "store_error \<Rightarrow> string" where
  "no_text e = []"

lemma relay_loop_ends_witness:
  "\<exists>v' out m. relay_loop relay_w Anthropic None [(env_at 5, None, running_w)] [] relay_start = (v', out, Some m)"
  using relay_loop_ends [of "[]" "[(env_at 5, None, running_w)]"] by simp

lemma relay_keeps_what_it_streams_witness:
  "\<exists>msg. cv_turns (as_Conversation (fst (relay_finish no_text (env_at 5) 1 relay_w relay_start [] sess_as_w running_w)))
     = [msg] \<and> msg_Content msg = []"
proof -
  obtain sess' srv' out' turn err where
    f: "relay_finish no_text (env_at 5) 1 relay_w relay_start [] sess_as_w running_w = (sess', srv', out', turn, err)"
    by (metis prod_cases5)
  have "sse_next None [] = (StreamEOF, [])"
    by (subst sse_next.simps) (simp add: readBoundedLine_def read_line.simps ReadSlice_def sseBuffer_def)
  then have "relay_loop relay_w Anthropic None [(env_at 5, None, running_w)] [] relay_start
      = (relay_start, [], Some [])"
    by (simp add: relay_iter_def)
  moreover have "cv_turns (as_Conversation sess_as_w) = []" by (simp add: sess_as_w_def NewConversation_def)
  ultimately show ?thesis using relay_keeps_what_it_streams [OF _ f] f by fastforce
qed

lemma relay_ends_run_witness:
  "\<exists>r'. find_run (sv_db (fst (snd (relay_finish no_text (env_at 5) 1 relay_w relay_start [] sess_as_w running_w))))
     ''r1'' = Some r' \<and> isTerminalRunStatus (run_Status r')"
proof -
  obtain sess' srv' out' turn err where
    f: "relay_finish no_text (env_at 5) 1 relay_w relay_start [] sess_as_w running_w = (sess', srv', out', turn, err)"
    by (metis prod_cases5)
  have w: "sr_runID relay_w = ''r1''" by (simp add: relay_w_def)
  from relay_ends_run [OF running_db_inv _ _ _ _ f, unfolded w, OF running_find] f show ?thesis
    by (auto simp: running_w_def w_defs)
qed

lemma cancelled_relay_persists_no_turn_witness:
  "sv_db (fst (snd (relay_finish no_text (under True (env_at 5)) 1 relay_w relay_start ''cancelled'' sess_as_w
     running_w))) = sv_db running_w"
proof -
  obtain sess' srv' out' turn err where
    f: "relay_finish no_text (under True (env_at 5)) 1 relay_w relay_start ''cancelled'' sess_as_w running_w
      = (sess', srv', out', turn, err)" by (metis prod_cases5)
  have "relay_iter (env_at 5) (Some AtSelect) relay_w Anthropic None [] relay_start running_w =
      ([], relay_start, running_w, [], Leave ''cancelled'')" by (simp add: relay_iter_def)
  from cancelled_relay_persists_no_turn [OF this f] f show ?thesis by simp
qed

lemma cost_update_wipes_session_witness:
  "\<exists>s. find_session (sv_db (fst (snd (UpdateAfterTurn (env_at 5) [] turn_w7 sess_as_w running_w)))) ''s1'' = Some s \<and>
     sess_UserID s = []"
proof -
  obtain sess' srv' out where u: "UpdateAfterTurn (env_at 5) [] turn_w7 sess_as_w running_w = (sess', srv', out)"
    by (metis prod_cases3)
  have "has_session (sv_db running_w) (as_ID sess_as_w)"
    by (simp add: has_session_def running_w_def w_defs sess_as_w_def)
  from cost_update_wipes_session [OF this _ u] u show ?thesis by (auto simp: sess_as_w_def)
qed

end
