(* ===== verification/Routing_Props.thy ===== *)
theory Routing_Props
  imports Routing "HOL-Library.Multiset"
begin

text \<open>
  The catalog of models: which entry wins, that its listing is sorted by name, and what the routing
  policy resolves to.
\<close>

lemma map_of_fold_update:
  "map_of (fold (\<lambda>(k, v) m. AList.update k v m) xs m) = map_of m ++ map_of (rev xs)"
proof (induction xs arbitrary: m)
  case (Cons x xs)
  obtain k v where x: "x = (k, v)" by fastforce
  have "fold (\<lambda>(k, v) m. AList.update k v m) ((k, v) # xs) m =
      fold (\<lambda>(k, v) m. AList.update k v m) xs (AList.update k v m)" by simp
  then show ?case by (simp only: x Cons.IH update_conv')
      (auto simp: map_add_def fun_eq_iff split: option.splits)
qed simp

lemma distinct_fold_update:
  "distinct (map fst m) \<Longrightarrow> distinct (map fst (fold (\<lambda>(k, v) m. AList.update k v m) xs m))"
  by (induction xs arbitrary: m) (auto intro: distinct_update)

text \<open>The loop is insertion from the right, hence stable sorting by name.\<close>

lemma sift_spec:
  assumes "sorted (map mi_Name xs)"
  shows "sorted (map mi_Name (sift xs m)) \<and> mset (sift xs m) = mset (xs @ [m]) \<and>
    filter (\<lambda>x. mi_Name x = k) (sift xs m) = filter (\<lambda>x. mi_Name x = k) (xs @ [m])"
proof -
  let ?P = "\<lambda>x. mi_Name x > mi_Name m"
  define A where "A = rev (dropWhile ?P (rev xs))"
  define B where "B = rev (takeWhile ?P (rev xs))"
  have xs: "xs = A @ B" by (metis A_def B_def rev_append rev_rev_ident takeWhile_dropWhile_id)
  have b: "\<forall>x \<in> set B. ?P x" by (auto simp: B_def dest: set_takeWhileD)
  then have "filter (\<lambda>x. mi_Name x = mi_Name m) B = []" by (auto simp: filter_empty_conv)
  moreover have "\<forall>x \<in> set A. mi_Name x \<le> mi_Name m"
  proof (cases "A = []")
    case False
    then have "\<not> ?P (last A)"
      by (metis A_def hd_dropWhile last_rev rev.simps(1))
    moreover have "\<forall>x \<in> set A. mi_Name x \<le> mi_Name (last A)"
      using assms False unfolding xs by (cases A rule: rev_cases) (auto simp: sorted_append)
    ultimately show ?thesis by fastforce
  qed simp
  moreover have "sift xs m = A @ [m] @ B" by (simp add: sift_def A_def B_def)
  ultimately show ?thesis
    using assms b unfolding xs by (auto simp: sorted_append filter_empty_conv not_less)
qed

text \<open>
  C33: the hand-written insertion sort of the model catalog is a stable sort by name: it returns
  exactly what the library's stable sort by that key returns, for every list of models.
\<close>

theorem catalog_sort_stable: "sortModelInfoByName models = sort_key mi_Name models"
proof -
  let ?f = "\<lambda>k. filter (\<lambda>x. mi_Name x = k)"
  have "sorted (map mi_Name acc) \<Longrightarrow> sorted (map mi_Name (foldl sift acc ms)) \<and>
      mset (foldl sift acc ms) = mset (acc @ ms) \<and> ?f k (foldl sift acc ms) = ?f k (acc @ ms)" for acc ms k
  proof (induction ms arbitrary: acc)
    case (Cons m ms)
    from sift_spec [OF Cons.prems] Cons.IH [of "sift acc m"] show ?case by auto
  qed simp
  from this [of "[]" models] show ?thesis
    unfolding sortModelInfoByName_def
    by (intro properties_for_sort_key [symmetric]) (auto simp: eq_commute)
qed

subsection \<open>Which entry wins\<close>

lemma rebuild_lookup:
  "model_Get name (rebuild builtins manual reg) =
     map_of (rev (builtin_entries builtins reg @ discovered_entries reg @ manual_entries manual reg)) name"
  by (simp add: model_Get_def rebuild_def map_of_fold_update)

lemma rebuild_distinct: "distinct (map fst (rebuild builtins manual reg))"
  by (simp add: rebuild_def distinct_fold_update)

lemma manual_lookup:
  "map_of (rev (manual_entries manual reg)) name =
     map_option (\<lambda>ov. snd (hd (manual_entries [(name, ov)] reg))) (map_of (rev manual) name)"
  by (induction manual) (auto simp: manual_entries_def map_add_def split: option.splits)

definition discovered_entry :: "string \<Rightarrow> ProviderEndpoint \<Rightarrow> ModelEntry" where
  "discovered_entry name ep = snd (hd (discovered_entries [ep\<lparr>ep_models := [name]\<rparr>]))"

lemma endpoint_lookup:
  "map_of (rev (discovered_entries [ep])) name =
     (if ep_Discover ep \<and> name \<in> set (ep_models ep) then Some (discovered_entry name ep) else None)"
proof -
  have "map_of (rev (map (\<lambda>n. (n, f n)) ns)) name = (if name \<in> set ns then Some (f name) else None)"
    for ns :: "string list" and f :: "string \<Rightarrow> ModelEntry"
    by (induction ns) (auto simp: map_add_def split: option.splits)
  then show ?thesis
    by (simp add: discovered_entries_def discovered_entry_def endpoint_ready_def endpoint_Status_def)
qed

lemma discovered_lookup:
  "map_of (rev (discovered_entries reg)) name =
     map_option (discovered_entry name)
       (find (\<lambda>ep. ep_Discover ep \<and> name \<in> set (ep_models ep)) (rev reg))"
proof (induction reg rule: rev_induct)
  case (snoc ep reg)
  have "discovered_entries (reg @ [ep]) = discovered_entries reg @ discovered_entries [ep]"
    by (simp add: discovered_entries_def)
  then show ?case using endpoint_lookup [of ep name] snoc by (simp add: map_add_def)
qed (simp add: discovered_entries_def)

text \<open>
  C25: which entry of the model catalog wins.  After every rebuild, the entry of a name is the one
  of the configuration if the name is configured, otherwise that of the last endpoint which
  discovers models and reported this name, otherwise the built-in one; nothing else is in the
  catalog, and no name is in it twice.
\<close>

theorem catalog_precedence:
  "model_Get name (rebuild builtins manual reg) =
     (case map_of (rev manual) name of
        Some ov \<Rightarrow> Some (snd (hd (manual_entries [(name, ov)] reg)))
      | None \<Rightarrow>
          (case find (\<lambda>ep. ep_Discover ep \<and> name \<in> set (ep_models ep)) (rev reg) of
             Some ep \<Rightarrow> Some (discovered_entry name ep)
           | None \<Rightarrow> map_of (rev (builtin_entries builtins reg)) name)) \<and>
   distinct (map fst (rebuild builtins manual reg))"
  by (simp add: rebuild_lookup rebuild_distinct manual_lookup discovered_lookup map_add_def
      split: option.split)

end
