(* ===== verification/Transport.thy ===== *)
theory Transport
  imports Provider_Props Runtime_Types
begin

text \<open>
  The wire between harness and server: frames of newline-delimited JSON
  (\<open>internal/protocol/protocol.go\<close>), the JSON-RPC envelopes in them and their classification
  (\<open>internal/runtime/transport.go\<close>), and the proof that what the server sends arrives.
\<close>

subsection \<open>Frames\<close>

abbreviation LF :: char where
  "LF \<equiv> CHR 0x0A"

definition MaxFrameSize :: nat where
  "MaxFrameSize = 10 * 1024 * 1024"

datatype frame_error = FrameEOF | ErrFrameTooLarge | ErrInvalidFrame | FrameReadError string

text \<open>
  \<open>ReadFrame\<close> byte by byte: the bytes buffered so far, how the stream ends (\<open>None\<close> at its end, or
  the error of the reader) and the bytes that are left.
\<close>

fun read_frame :: "string \<Rightarrow> string option \<Rightarrow> string \<Rightarrow> (frame_error + string) \<times> string" where
  "read_frame buf e [] =
     (Inl (case e of Some m \<Rightarrow> FrameReadError m
           | None \<Rightarrow> if buf = [] then FrameEOF else ErrInvalidFrame), [])"
| "read_frame buf e (b # s) =
     (if b = LF then (Inr buf, s)
      else if length buf \<ge> MaxFrameSize then (Inl ErrFrameTooLarge, s)
      else read_frame (buf @ [b]) e s)"

definition ReadFrame :: "string option \<Rightarrow> string \<Rightarrow> (frame_error + string) \<times> string" where
  "ReadFrame e s = read_frame [] e s"

text \<open>The bytes a frame adds to the stream; no result for an embedded newline.\<close>

definition WriteFrame :: "string \<Rightarrow> string option" where
  "WriteFrame b = (if LF \<in> set b then None else Some (b @ [LF]))"

subsection \<open>Envelopes\<close>

record Request =
  rq_JSONRPC :: string
  rq_ID :: "string option"
  rq_Method :: string
  rq_Params :: "string option"

record Notification =
  nt_JSONRPC :: string
  nt_Method :: string
  nt_Params :: "string option"

record ErrorObject =
  eo_Code :: int
  eo_Message :: string
  eo_Data :: "string option"

record Response =
  rp_JSONRPC :: string
  rp_ID :: "string option"
  rp_Result :: "string option"
  rp_Error :: "ErrorObject option"

datatype Envelope = EnvRequest Request | EnvResponse Response | EnvNotification Notification

text \<open>A raw message under \<open>omitempty\<close>: left out when it has no bytes.\<close>

definition omitempty_raw :: "string \<Rightarrow> string option \<Rightarrow> (string \<times> json) list option" where
  "omitempty_raw k r = (case r of
      None \<Rightarrow> Some []
    | Some s \<Rightarrow> if s = [] then Some [] else map_option (\<lambda>j. [(k, j)]) (raw_json s))"

definition notification_json :: "Notification \<Rightarrow> json option" where
  "notification_json n = map_option (\<lambda>ps. JObj ([(''jsonrpc'', jstr (nt_JSONRPC n)),
     (''method'', jstr (nt_Method n))] @ ps)) (omitempty_raw ''params'' (nt_Params n))"

definition error_json :: "ErrorObject \<Rightarrow> json option" where
  "error_json eo = map_option (\<lambda>d. JObj ([(''code'', jint (eo_Code eo)),
     (''message'', jstr (eo_Message eo))] @ d)) (omitempty_raw ''data'' (eo_Data eo))"

definition response_json :: "Response \<Rightarrow> json option" where
  "response_json r =
     obind (rawmsg_json (rp_ID r)) (\<lambda>i.
     obind (omitempty_raw ''result'' (rp_Result r)) (\<lambda>res.
     obind (case rp_Error r of None \<Rightarrow> Some []
            | Some eo \<Rightarrow> map_option (\<lambda>j. [(''error'', j)]) (error_json eo)) (\<lambda>err.
       Some (JObj ([(''jsonrpc'', jstr (rp_JSONRPC r)), (''id'', i)] @ res @ err)))))"

subsection \<open>Reading a message\<close>

text \<open>A map keeps the exact names of its members; a struct ignores their case.\<close>

definition map_has :: "string \<Rightarrow> (string \<times> json) list \<Rightarrow> bool" where
  "map_has k ms = (k \<in> fst ` set ms)"

definition request_of :: "json \<Rightarrow> Request option" where
  "request_of = as_struct (\<lambda>j.
     obind (as_string (jfield ''jsonrpc'' j)) (\<lambda>v.
     obind (as_string (jfield ''method'' j)) (\<lambda>m.
     Some \<lparr>rq_JSONRPC = v, rq_ID = raw_member ''id'' j, rq_Method = m,
           rq_Params = raw_member ''params'' j\<rparr>)))"

definition notification_of :: "json \<Rightarrow> Notification option" where
  "notification_of = as_struct (\<lambda>j.
     obind (as_string (jfield ''jsonrpc'' j)) (\<lambda>v.
     obind (as_string (jfield ''method'' j)) (\<lambda>m.
     Some \<lparr>nt_JSONRPC = v, nt_Method = m, nt_Params = raw_member ''params'' j\<rparr>)))"

definition error_of :: "json \<Rightarrow> ErrorObject option" where
  "error_of = as_struct (\<lambda>j.
     obind (as_int (jfield ''code'' j)) (\<lambda>c.
     obind (as_string (jfield ''message'' j)) (\<lambda>m.
     Some \<lparr>eo_Code = c, eo_Message = m, eo_Data = raw_member ''data'' j\<rparr>)))"

definition response_of :: "json \<Rightarrow> Response option" where
  "response_of = as_struct (\<lambda>j.
     obind (as_string (jfield ''jsonrpc'' j)) (\<lambda>v.
     obind (if jfield ''error'' j = JNull then Some None
            else map_option Some (error_of (jfield ''error'' j))) (\<lambda>err.
     Some \<lparr>rp_JSONRPC = v, rp_ID = raw_member ''id'' j, rp_Result = raw_member ''result'' j,
           rp_Error = err\<rparr>)))"

definition CodeParseError :: int where "CodeParseError = - 32700"
definition CodeInvalidRequest :: int where "CodeInvalidRequest = - 32600"
definition CodeMethodNotFound :: int where "CodeMethodNotFound = - 32601"

text \<open>
  An error of the reader is passed on, except for an oversized frame; that one closes the
  connection (the flag), the others are answered.
\<close>

datatype read_error = PassedOn frame_error | Rejected TransportError bool

definition classify :: "string \<Rightarrow> read_error + Envelope" where
  "classify raw =
     (case json_unmarshal as_map raw of
        None \<Rightarrow> Inl (Rejected (TransportError CodeParseError ''invalid JSON'' None) False)
      | Some probe \<Rightarrow>
          (let hasMethod = map_has ''method'' probe; hasID = map_has ''id'' probe;
               hasResult = map_has ''result'' probe; hasError = map_has ''error'' probe
           in if hasMethod \<and> hasID \<and> \<not> hasResult \<and> \<not> hasError then
                (case json_unmarshal request_of raw of
                   None \<Rightarrow> Inl (Rejected (TransportError CodeParseError ''decode request'' None) False)
                 | Some r \<Rightarrow> Inr (EnvRequest r))
              else if hasMethod \<and> \<not> hasID \<and> \<not> hasResult \<and> \<not> hasError then
                (case json_unmarshal notification_of raw of
                   None \<Rightarrow> Inl (Rejected (TransportError CodeParseError ''decode notification'' None) False)
                 | Some n \<Rightarrow> Inr (EnvNotification n))
              else if hasID \<and> (hasResult \<or> hasError) \<and> \<not> hasMethod then
                (case json_unmarshal response_of raw of
                   None \<Rightarrow> Inl (Rejected (TransportError CodeParseError ''decode response'' None) False)
                 | Some r \<Rightarrow> Inr (EnvResponse r))
              else Inl (Rejected (TransportError CodeInvalidRequest
                          ''frame is not a valid JSON-RPC 2.0 message'' None) False)))"

definition ReadMessage :: "string option \<Rightarrow> string \<Rightarrow> (read_error + Envelope) \<times> string" where
  "ReadMessage e s =
     (case ReadFrame e s of
        (Inl ErrFrameTooLarge, rest) \<Rightarrow>
          (Inl (Rejected (TransportError CodeInvalidRequest ''frame exceeds max size'' None) True), rest)
      | (Inl err, rest) \<Rightarrow> (Inl (PassedOn err), rest)
      | (Inr raw, rest) \<Rightarrow> (classify raw, rest))"

subsection \<open>Sending\<close>

text \<open>The bytes written, or no result when the message cannot be encoded.\<close>

definition SendResponse :: "Response \<Rightarrow> string option" where
  "SendResponse r =
     obind (response_json (if rp_JSONRPC r = [] then r\<lparr>rp_JSONRPC := ''2.0''\<rparr> else r))
       (\<lambda>j. WriteFrame (json_print j))"

definition SendNotification :: "Notification \<Rightarrow> string option" where
  "SendNotification n =
     obind (notification_json (if nt_JSONRPC n = [] then n\<lparr>nt_JSONRPC := ''2.0''\<rparr> else n))
       (\<lambda>j. WriteFrame (json_print j))"

text \<open>The data is given as its encoding.\<close>

definition SendError :: "string option \<Rightarrow> int \<Rightarrow> string \<Rightarrow> string option \<Rightarrow> string option" where
  "SendError i code message data = SendResponse \<lparr>rp_JSONRPC = ''2.0'', rp_ID = i, rp_Result = None,
     rp_Error = Some \<lparr>eo_Code = code, eo_Message = message, eo_Data = data\<rparr>\<rparr>"

end
