(* ===== verification/Transport_Props.thy ===== *)
theory Transport_Props
  imports Transport
begin

text \<open>
  What the server sends arrives: every message is one frame without a newline inside, frames are
  read back one by one, and each is classified as what was sent.
\<close>

subsection \<open>No newline inside a frame\<close>

lemma lit_no_newline: "scan_str s = Some (b, r) \<Longrightarrow> LF \<notin> set b"
proof (induction s arbitrary: b r rule: scan_str.induct)
  case 1
  then show ?case by simp
next
  case (2 c s)
  consider (quote) "c = CHR 0x22" | (u) "c = CHR 0x5C" "getu4 (c # s) \<noteq> None"
    | (esc) "c = CHR 0x5C" "getu4 (c # s) = None" | (char) "c \<noteq> CHR 0x22" "c \<noteq> CHR 0x5C" by blast
  then show ?case
  proof cases
    case quote
    with "2.prems" show ?thesis by simp
  next
    case u
    then obtain b' where b': "scan_str (drop 6 (c # s)) = Some (b', r)" "b = take 6 (c # s) @ b'"
      using "2.prems" by (auto simp: cons_fst_Some)
    from u obtain a0 a1 h1 h2 h3 h4 t where s: "c # s = [a0, a1, h1, h2, h3, h4] @ t"
        "a0 = CHR 0x5C" "a1 = CHR ''u''" "is_hex h1" "is_hex h2" "is_hex h3" "is_hex h4"
      using getu4_length [OF u(2)]
      by (auto simp: getu4_def numeral_eq_Suc Suc_le_length_iff split: if_splits)
    from s have "LF \<notin> set (take 6 (c # s))" by (auto simp: is_hex_def is_digit_def)
    with "2.IH"(1) [OF _ _ _ b'(1)] u b'(2) show ?thesis by auto
  next
    case esc
    then obtain e s' b' where e: "s = e # s'" "simple_escape e" "scan_str s' = Some (b', r)" "b = [c, e] @ b'"
      using "2.prems" by (auto simp: cons_fst_Some split: list.splits if_splits)
    then show ?thesis using esc "2.IH"(2) [of e s'] by (auto simp: simple_escape_def)
  next
    case char
    then show ?thesis using "2.prems" "2.IH"(3) by (auto simp: cons_fst_Some split: if_splits)
  qed
qed

lemma wf_lit_no_newline: "wf_lit b \<Longrightarrow> LF \<notin> set b"
  unfolding wf_lit_def by (rule lit_no_newline)

lemma num_no_newline: "list_all num_char n \<Longrightarrow> LF \<notin> set n"
  by (auto simp: list_all_iff num_char_def is_digit_def)

lemma print_no_newline:
  "wf_json j \<Longrightarrow> LF \<notin> set (json_print j)"
  "wf_elems vs \<Longrightarrow> LF \<notin> set (json_elems vs)"
  "wf_members ms \<Longrightarrow> LF \<notin> set (json_members ms)"
  by (induction j and vs and ms rule: json_print_json_elems_json_members.induct)
     (auto simp: json_quoted_def dest: num_no_newline wf_lit_no_newline)

lemma WriteFrame_json: "wf_json j \<Longrightarrow> WriteFrame (json_print j) = Some (json_print j @ [LF])"
  using print_no_newline by (simp add: WriteFrame_def)

subsection \<open>Frames are read back\<close>

lemma read_frame_line:
  "LF \<notin> set b \<Longrightarrow> length buf + length b \<le> MaxFrameSize \<Longrightarrow>
     read_frame buf e (b @ LF # rest) = (Inr (buf @ b), rest)"
  by (induction b arbitrary: buf) auto

lemma ReadFrame_line:
  "LF \<notin> set b \<Longrightarrow> length b \<le> MaxFrameSize \<Longrightarrow> ReadFrame e (b @ LF # rest) = (Inr b, rest)"
  by (simp add: ReadFrame_def read_frame_line)

subsection \<open>Messages are classified as what was sent\<close>

lemma plain_envelope [simp]:
  "plain ''jsonrpc''" "plain ''method''" "plain ''params''" "plain ''result''" "plain ''code''"
  "plain ''message''" "plain ''data''"
  by (simp_all add: plain_def plain_char_def)

lemma plain_unlit_key: "plain k \<Longrightarrow> unlit k = k"
  by (simp add: plain_def plain_unlit)

text \<open>A raw message as the other side has it: compact, and absent when it was left out.\<close>

definition arrived_raw :: "string option \<Rightarrow> string option" where
  "arrived_raw r = (case r of None \<Rightarrow> None
     | Some s \<Rightarrow> if s = [] then None else map_option json_print (raw_json s))"

definition arrived_error :: "ErrorObject \<Rightarrow> ErrorObject" where
  "arrived_error eo = eo\<lparr>eo_Data := arrived_raw (eo_Data eo)\<rparr>"

fun arrived :: "Envelope \<Rightarrow> Envelope" where
  "arrived (EnvNotification n) = EnvNotification
     (n\<lparr>nt_JSONRPC := (if nt_JSONRPC n = [] then ''2.0'' else nt_JSONRPC n),
        nt_Params := arrived_raw (nt_Params n)\<rparr>)"
| "arrived (EnvResponse r) = EnvResponse
     (r\<lparr>rp_JSONRPC := (if rp_JSONRPC r = [] then ''2.0'' else rp_JSONRPC r),
        rp_ID := map_option json_print (rawmsg_json (rp_ID r)),
        rp_Result := arrived_raw (rp_Result r),
        rp_Error := map_option arrived_error (rp_Error r)\<rparr>)"
| "arrived (EnvRequest r) = EnvRequest r"

lemma omitempty_raw_cases:
  assumes "omitempty_raw k r = Some ms"
  obtains "ms = []" "arrived_raw r = None"
  | j where "ms = [(k, j)]" "arrived_raw r = Some (json_print j)" "wf_json j"
  using assms
  by (auto simp: omitempty_raw_def arrived_raw_def split: option.splits if_splits dest: raw_json_wf)

lemma unmarshal_printed: "wf_json j \<Longrightarrow> json_unmarshal f (json_print j) = f j"
  by (simp add: json_unmarshal_def)

lemmas envelope_simps = unmarshal_printed as_map_def map_has_def as_struct_def is_struct_def
  jfield_plain has_member_plain raw_member_def plain_unlit_key wf_plain

lemma classify_notification:
  assumes "notification_json n = Some j"
  shows "wf_json j \<and> classify (json_print j) =
    Inr (EnvNotification (n\<lparr>nt_Params := arrived_raw (nt_Params n)\<rparr>))"
proof -
  obtain ps where ps: "omitempty_raw ''params'' (nt_Params n) = Some ps"
    and j: "j = JObj ([(''jsonrpc'', jstr (nt_JSONRPC n)), (''method'', jstr (nt_Method n))] @ ps)"
    using assms by (auto simp: notification_json_def)
  have "wf_json j \<and> notification_of j = Some (n\<lparr>nt_Params := arrived_raw (nt_Params n)\<rparr>) \<and>
      (\<exists>ms. as_map j = Some ms \<and> map_has ''method'' ms \<and> \<not> map_has ''id'' ms \<and>
         \<not> map_has ''result'' ms \<and> \<not> map_has ''error'' ms)"
    by (rule omitempty_raw_cases [OF ps]; cases n)
       (simp_all add: j notification_of_def envelope_simps)
  then show ?thesis by (auto simp: classify_def unmarshal_printed)
qed

lemma nat_str_number: "is_number (nat_str n)"
proof -
  have d: "list_all is_digit (nat_str n)"
    using nat_str_digits [of n] by (simp add: list_all_iff)
  have ne: "digits m \<noteq> []" for m by (subst digits.simps) simp
  have "hd (digits m) = 0 \<Longrightarrow> m = 0" for m
  proof (induction m rule: digits.induct)
    case (1 m)
    then show ?case using digits.simps [of m] ne [of "m div 10"] by (cases "m < 10") auto
  qed
  moreover note ne
  moreover have "hd (nat_str n) = digit_char (hd (digits n))"
    using calculation(2) by (simp add: nat_str_def hd_map)
  moreover have "digit_char d = CHR ''0'' \<Longrightarrow> d = 0" if "d < 10" for d
    using that digit_char_val [of d] by (auto simp: digit_val_def)
  ultimately have z: "hd (nat_str n) = CHR ''0'' \<Longrightarrow> n = 0"
    using digits_small [of "hd (digits n)" n] by (metis hd_in_set)
  have m: "hd (nat_str n) \<noteq> CHR ''-''" using hd_nat_str by blast
  have "takeWhile is_digit (nat_str n) = nat_str n" "dropWhile is_digit (nat_str n) = []"
    using d by (simp_all add: list_all_iff)
  moreover have "drop_sign {CHR ''-''} (nat_str n) = nat_str n"
    using m by (cases "nat_str n") (simp_all add: drop_sign_def)
  moreover have "nat_str 0 = ''0''" by code_simp
  ultimately show ?thesis using z
    by (auto simp: is_number_def is_fraction_def Let_def simp del: takeWhile_eq_all_conv dropWhile_eq_Nil_conv)
qed

lemma wf_jint [simp]: "wf_json (jint i)"
proof -
  have "list_all num_char (itoa i)"
    using nat_str_digits [of "nat i"] nat_str_digits [of "nat (- i)"]
    by (auto simp: itoa_def list_all_iff num_char_def)
  moreover have "is_number (itoa i)"
  proof (cases "i < 0")
    case True
    with nat_str_number [of "nat (- i)"] hd_nat_str [of "nat (- i)"] show ?thesis
      by (cases "nat_str (nat (- i))") (auto simp: itoa_def is_number_def drop_sign_def)
  qed (simp add: itoa_def nat_str_number)
  ultimately show ?thesis by (simp add: jint_def)
qed

lemma error_arrives:
  assumes "error_json eo = Some j" "- (2 ^ 63) \<le> eo_Code eo" "eo_Code eo < 2 ^ 63"
  shows "wf_json j \<and> j \<noteq> JNull \<and> error_of j = Some (arrived_error eo)"
proof -
  obtain d where d: "omitempty_raw ''data'' (eo_Data eo) = Some d"
    and j: "j = JObj ([(''code'', jint (eo_Code eo)), (''message'', jstr (eo_Message eo))] @ d)"
    using assms(1) by (auto simp: error_json_def)
  have "as_int (jint (eo_Code eo)) = Some (eo_Code eo)"
    by (simp add: as_int_def jint_def parse_int_itoa [OF assms(2,3)])
  then show ?thesis
    by (rule_tac omitempty_raw_cases [OF d]; cases eo)
       (simp_all add: j error_of_def envelope_simps arrived_error_def)
qed

text \<open>A response carries a result or an error; its error code is a machine integer.\<close>

definition answers :: "Response \<Rightarrow> bool" where
  "answers r = ((arrived_raw (rp_Result r) \<noteq> None \<or> rp_Error r \<noteq> None) \<and>
     (case rp_Error r of None \<Rightarrow> True | Some eo \<Rightarrow> - (2 ^ 63) \<le> eo_Code eo \<and> eo_Code eo < 2 ^ 63))"

lemma rawmsg_wf: "rawmsg_json r = Some j \<Longrightarrow> wf_json j"
  by (auto simp: rawmsg_json_def split: option.splits dest: raw_json_wf)

lemma classify_response:
  assumes "response_json r = Some j" "answers r" "rp_JSONRPC r \<noteq> []"
  shows "wf_json j \<and> classify (json_print j) = Inr (arrived (EnvResponse r))"
proof -
  obtain i res err where i: "rawmsg_json (rp_ID r) = Some i"
    and res: "omitempty_raw ''result'' (rp_Result r) = Some res"
    and err: "(case rp_Error r of None \<Rightarrow> Some []
            | Some eo \<Rightarrow> map_option (\<lambda>j. [(''error'', j)]) (error_json eo)) = Some err"
    and j: "j = JObj ([(''jsonrpc'', jstr (rp_JSONRPC r)), (''id'', i)] @ res @ err)"
    using assms(1) by (auto simp: response_json_def obind_Some)
  have e: "err = [] \<and> rp_Error r = None \<or> (\<exists>eo je. rp_Error r = Some eo \<and> err = [(''error'', je)] \<and>
      wf_json je \<and> je \<noteq> JNull \<and> error_of je = Some (arrived_error eo))"
    using err assms(2) error_arrives by (cases "rp_Error r") (auto simp: answers_def)
  note wi = rawmsg_wf [OF i]
  have "wf_json j \<and> EnvResponse (the (response_of j)) = arrived (EnvResponse r) \<and> response_of j \<noteq> None \<and>
      (\<exists>ms. as_map j = Some ms \<and> \<not> map_has ''method'' ms \<and> map_has ''id'' ms \<and>
         (map_has ''result'' ms \<or> map_has ''error'' ms))"
    using e
  proof (elim disjE exE conjE)
    assume "err = []" "rp_Error r = None"
    then show ?thesis
      using assms(2,3) i
      by (rule_tac omitempty_raw_cases [OF res]; cases r)
         (simp_all add: j wi response_of_def envelope_simps answers_def)
  next
    fix eo je
    assume "rp_Error r = Some eo" "err = [(''error'', je)]" "wf_json je" "je \<noteq> JNull"
      "error_of je = Some (arrived_error eo)"
    then show ?thesis
      using assms(2,3) i
      by (rule_tac omitempty_raw_cases [OF res]; cases r)
         (simp_all add: j wi response_of_def envelope_simps answers_def)
  qed
  then show ?thesis by (auto simp: classify_def unmarshal_printed)
qed

subsection \<open>Everything sent arrives\<close>

fun send :: "Envelope \<Rightarrow> string option" where
  "send (EnvNotification n) = SendNotification n"
| "send (EnvResponse r) = SendResponse r"
| "send (EnvRequest r) = None"

fun sendable :: "Envelope \<Rightarrow> bool" where
  "sendable (EnvResponse r) = answers r"
| "sendable _ = True"

fun read_messages :: "nat \<Rightarrow> string option \<Rightarrow> string \<Rightarrow> (read_error + Envelope) list \<times> string" where
  "read_messages 0 e s = ([], s)"
| "read_messages (Suc n) e s =
     (let (m, r) = ReadMessage e s; (ms, r') = read_messages n e r in (m # ms, r'))"

lemma message_arrives:
  assumes "send m = Some b" "sendable m" "length b \<le> Suc MaxFrameSize"
  shows "ReadMessage e (b @ rest) = (Inr (arrived m), rest)"
proof -
  obtain j where j: "wf_json j" "b = json_print j @ [LF]" "classify (json_print j) = Inr (arrived m)"
  proof (cases m)
    case (EnvNotification n)
    let ?n = "if nt_JSONRPC n = [] then n\<lparr>nt_JSONRPC := ''2.0''\<rparr> else n"
    from assms(1) EnvNotification obtain j where "notification_json ?n = Some j" "WriteFrame (json_print j) = Some b"
      by (auto simp: SendNotification_def obind_Some)
    with classify_notification [OF this(1)] EnvNotification show thesis
      by (intro that [of j]) (auto simp: WriteFrame_json)
  next
    case (EnvResponse r)
    let ?r = "if rp_JSONRPC r = [] then r\<lparr>rp_JSONRPC := ''2.0''\<rparr> else r"
    from assms(1) EnvResponse obtain j where "response_json ?r = Some j" "WriteFrame (json_print j) = Some b"
      by (auto simp: SendResponse_def obind_Some)
    moreover have "answers ?r" "rp_JSONRPC ?r \<noteq> []" "arrived (EnvResponse ?r) = arrived m"
      using assms(2) EnvResponse by (auto simp: answers_def)
    ultimately show thesis
      using classify_response [of ?r j] by (intro that [of j]) (auto simp: WriteFrame_json)
  qed (use assms(1) in simp)
  have "ReadFrame e (json_print j @ LF # rest) = (Inr (json_print j), rest)"
    using assms(3) j print_no_newline(1) [OF j(1)] by (intro ReadFrame_line) simp_all
  with j show ?thesis by (simp add: ReadMessage_def)
qed

text \<open>
  C23: the wire between server and harness loses nothing.  Whatever notifications and responses
  (with a result or an error) the server sends, one after the other, as long as none is larger
  than a frame may be, a reader of the stream gets exactly them, in order, each classified as what
  it is, with its raw members in compact form, and is left at the end of the stream.
\<close>

theorem wire_round_trip:
  assumes "list_all2 (\<lambda>m b. send m = Some b \<and> sendable m \<and> length b \<le> Suc MaxFrameSize) ms bs"
  shows "read_messages (length ms) None (concat bs) = (map (Inr \<circ> arrived) ms, []) \<and>
    fst (ReadMessage None []) = Inl (PassedOn FrameEOF)"
proof
  show "read_messages (length ms) None (concat bs) = (map (Inr \<circ> arrived) ms, [])"
    using assms by (induction ms bs rule: list_all2_induct) (auto simp: message_arrives)
  show "fst (ReadMessage None []) = Inl (PassedOn FrameEOF)"
    by (simp add: ReadMessage_def ReadFrame_def)
qed

definition pong :: Response where
  "pong = \<lparr>rp_JSONRPC = [], rp_ID = Some ''7'', rp_Result = Some ''{ }'', rp_Error = None\<rparr>"

definition failed_answer :: Response where
  "failed_answer = \<lparr>rp_JSONRPC = ''2.0'', rp_ID = None, rp_Result = None,
     rp_Error = Some \<lparr>eo_Code = CodeParseError, eo_Message = ''invalid JSON'', eo_Data = None\<rparr>\<rparr>"

definition token_note :: Notification where
  "token_note = \<lparr>nt_JSONRPC = ''2.0'', nt_Method = ''token.delta'', nt_Params = Some ''[1]''\<rparr>"

lemma example_sent:
  "\<exists>b. send (EnvNotification token_note) = Some b \<and> length b \<le> Suc MaxFrameSize"
  "\<exists>b. send (EnvResponse pong) = Some b \<and> length b \<le> Suc MaxFrameSize"
  "\<exists>b. send (EnvResponse failed_answer) = Some b \<and> length b \<le> Suc MaxFrameSize"
proof -
  have r: "raw_json ''[1]'' = Some (JArr [JNum ''1''])" "raw_json ''{ }'' = Some (JObj [])"
    "raw_json ''7'' = Some (JNum ''7'')" by code_simp+
  have "char_of (51::nat) = CHR ''3''" "char_of (50::nat) = CHR ''2''" "char_of (55::nat) = CHR ''7''"
    "char_of (48::nat) = CHR ''0''" by code_simp+
  then have "itoa CodeParseError = ''-32700''"
    by (simp add: itoa_def nat_str_def CodeParseError_def digits.simps [of 32700] digits.simps [of 3270]
        digits.simps [of 327] digits.simps [of 32] digits.simps [of 3] digit_char_def)
  note r = r this
  note d = WriteFrame_def json_quoted_def jstr_def json_lit_def json_char_def Let_def MaxFrameSize_def
    omitempty_raw_def response_json_def rawmsg_json_def error_json_def jint_def
  show "\<exists>b. send (EnvNotification token_note) = Some b \<and> length b \<le> Suc MaxFrameSize"
    by (simp add: SendNotification_def token_note_def notification_json_def d r)
  show "\<exists>b. send (EnvResponse pong) = Some b \<and> length b \<le> Suc MaxFrameSize"
    by (simp add: SendResponse_def pong_def d r)
  show "\<exists>b. send (EnvResponse failed_answer) = Some b \<and> length b \<le> Suc MaxFrameSize"
    by (simp add: SendResponse_def failed_answer_def d r)
qed

lemma wire_round_trip_witness:
  "\<exists>bs. map send [EnvNotification token_note, EnvResponse pong, EnvResponse failed_answer] = map Some bs \<and>
     read_messages 3 None (concat bs) =
       (map (Inr \<circ> arrived) [EnvNotification token_note, EnvResponse pong, EnvResponse failed_answer], [])"
proof -
  let ?ms = "[EnvNotification token_note, EnvResponse pong, EnvResponse failed_answer]"
  obtain b1 b2 b3 where b: "send (EnvNotification token_note) = Some b1" "length b1 \<le> Suc MaxFrameSize"
      "send (EnvResponse pong) = Some b2" "length b2 \<le> Suc MaxFrameSize"
      "send (EnvResponse failed_answer) = Some b3" "length b3 \<le> Suc MaxFrameSize"
    using example_sent by blast
  have "raw_json ''{ }'' = Some (JObj [])" by code_simp
  then have "sendable (EnvResponse pong)" "sendable (EnvResponse failed_answer)"
    by (simp_all add: answers_def pong_def failed_answer_def arrived_raw_def CodeParseError_def)
  with b have "list_all2 (\<lambda>m b. send m = Some b \<and> sendable m \<and> length b \<le> Suc MaxFrameSize) ?ms [b1, b2, b3]"
    by (simp del: send.simps)
  from wire_round_trip [OF this] b show ?thesis
    by (intro exI [of _ "[b1, b2, b3]"]) (simp del: send.simps add: eval_nat_numeral)
qed

end
