(* ===== verification/Connection.thy ===== *)
theory Connection
  imports Stream_Relay
begin

text \<open>
  Connections of the server (\<open>internal/runtime/connection.go\<close>), their capabilities
  (\<open>capabilities.go\<close>), and the health and readiness requests and connection limit of \<open>server.go\<close>:
  the state machine of a connection, the gate before every handler, the heartbeat, and the grace
  period after which the lock of the bound session is released.
\<close>

subsection \<open>Configuration, codes\<close>

record ServerConfig =
  cfg_MaxConnections :: int
  cfg_HeartbeatInterval :: int
  cfg_HeartbeatTimeout :: int
  cfg_GracePeriod :: int
  cfg_MaxAttachmentSize :: int

definition DefaultServerConfig :: ServerConfig where
  "DefaultServerConfig = \<lparr>cfg_MaxConnections = 100, cfg_HeartbeatInterval = 15 * 1000000000,
     cfg_HeartbeatTimeout = 30 * 1000000000, cfg_GracePeriod = 10 * 1000000000,
     cfg_MaxAttachmentSize = 5 * 1024 * 1024\<rparr>"

definition CodeNotReady :: int where "CodeNotReady = - 32000"
definition CodeVersionMismatch :: int where "CodeVersionMismatch = - 32002"
definition CodeCapabilityError :: int where "CodeCapabilityError = - 32003"
definition CodeProviderError :: int where "CodeProviderError = - 32004"
definition CodeModelUnavailable :: int where "CodeModelUnavailable = - 32007"

definition ProtocolVersion :: string where "ProtocolVersion = ''1''"
definition SoloUserID :: string where "SoloUserID = ''local''"

text \<open>An error with no cause, as most handlers return it.\<close>

abbreviation refuse :: "int \<Rightarrow> string \<Rightarrow> TransportError" where
  "refuse code msg \<equiv> TransportError code msg None"

subsection \<open>States\<close>

datatype ConnState = ConnDiscovering | ConnStarting | ConnConnecting | ConnAuthenticating
  | ConnRegistering | ConnReady | ConnDegraded | ConnReconnecting | ConnFailed

fun conn_state_String :: "ConnState \<Rightarrow> string" where
  "conn_state_String ConnDiscovering = ''discovering''"
| "conn_state_String ConnStarting = ''starting''"
| "conn_state_String ConnConnecting = ''connecting''"
| "conn_state_String ConnAuthenticating = ''authenticating''"
| "conn_state_String ConnRegistering = ''registering''"
| "conn_state_String ConnReady = ''ready''"
| "conn_state_String ConnDegraded = ''degraded''"
| "conn_state_String ConnReconnecting = ''reconnecting''"
| "conn_state_String ConnFailed = ''failed''"

fun validTransitions :: "ConnState \<Rightarrow> ConnState list" where
  "validTransitions ConnConnecting = [ConnAuthenticating, ConnRegistering, ConnFailed]"
| "validTransitions ConnAuthenticating = [ConnRegistering, ConnFailed]"
| "validTransitions ConnRegistering = [ConnReady, ConnFailed]"
| "validTransitions ConnReady = [ConnDegraded, ConnFailed]"
| "validTransitions ConnDegraded = [ConnReady, ConnFailed]"
| "validTransitions _ = []"

subsection \<open>Capabilities\<close>

record ProjectContext =
  pc_Root :: string
  pc_ConfigFile :: string
  pc_ConfigContent :: string

text \<open>The tools by key; their order stands for the iteration order of the map.\<close>

record CapabilityManager =
  cm_version :: string
  cm_tools :: "(string \<times> ToolDefinition) list"
  cm_project :: ProjectContext

definition NewCapabilityManager :: CapabilityManager where
  "NewCapabilityManager = \<lparr>cm_version = [], cm_tools = [],
     cm_project = \<lparr>pc_Root = [], pc_ConfigFile = [], pc_ConfigContent = []\<rparr>\<rparr>"

definition cm_Tools :: "CapabilityManager \<Rightarrow> ToolDefinition list" where
  "cm_Tools cm = map snd (cm_tools cm)"

definition toolKey :: "ToolDefinition \<Rightarrow> string" where
  "toolKey t = (if tool_Namespace t = [] then tool_Name t else tool_Namespace t @ '':'' @ tool_Name t)"

definition add_tools :: "ToolDefinition list \<Rightarrow> (string \<times> ToolDefinition) list \<Rightarrow> (string \<times> ToolDefinition) list" where
  "add_tools ts m = fold (\<lambda>t. AList.update (toolKey t) t) ts m"

definition replaceTools :: "ToolDefinition list \<Rightarrow> CapabilityManager \<Rightarrow> CapabilityManager" where
  "replaceTools ts cm = cm\<lparr>cm_tools := add_tools ts []\<rparr>"

text \<open>A removed name takes the tools of that name out of every namespace.\<close>

definition applyUpdate ::
  "ToolDefinition list \<Rightarrow> string list \<Rightarrow> CapabilityManager \<Rightarrow> CapabilityManager \<times> int \<times> int" where
  "applyUpdate added removed cm =
     (cm\<lparr>cm_tools := add_tools added (filter (\<lambda>(k, t). tool_Name t \<notin> set removed) (cm_tools cm))\<rparr>,
      int (length added), int (length removed))"

definition validRiskLevels :: "string \<Rightarrow> bool" where
  "validRiskLevels s = (s \<in> set [''read_only'', ''write'', ''execute'', ''destructive''])"

definition validOutputEnvelopes :: "string \<Rightarrow> bool" where
  "validOutputEnvelopes s = (s \<in> set [''text'', ''json'', ''binary'', ''image''])"

text \<open>The reason for which a tool is rejected, if it is; \<open>jerr\<close> is the text of a JSON error.\<close>

definition validateTool :: "(string \<Rightarrow> string) \<Rightarrow> ToolDefinition \<Rightarrow> string option" where
  "validateTool jerr t =
     (let schema = (case tool_InputSchema t of None \<Rightarrow> [] | Some s \<Rightarrow> s) in
      if trim_space (tool_Name t) = [] then Some ''name is required''
      else if trim_space (tool_Description t) = [] then Some ''description is required''
      else if schema = [] then Some ''input_schema is required''
      else if json_parse schema = None then Some (''input_schema is not valid JSON: '' @ jerr schema)
      else if \<not> validRiskLevels (tool_RiskLevel t)
      then Some ''risk_level must be one of read_only, write, execute, destructive''
      else if \<not> validOutputEnvelopes (tool_OutputEnvelope t)
      then Some ''output_envelope must be one of text, json, binary, image''
      else None)"

subsection \<open>Connections\<close>

text \<open>
  The server's view of one harness.  A closed transport ends the read loop; a grace timer, if one was started,
  is in the list of pending timers of the server.
\<close>

record Connection =
  cn_id :: string
  cn_requiresAuth :: bool
  cn_state :: ConnState
  cn_visited :: "ConnState set"
  cn_sessionID :: string
  cn_caps :: CapabilityManager
  cn_lastPing :: gotime
  cn_heartbeat :: bool
  cn_grace :: bool
  cn_closed :: bool

record grace_timer =
  gt_session :: string
  gt_owner :: string
  gt_deadline :: gotime

definition NewConnection :: "store_env \<Rightarrow> string \<Rightarrow> bool \<Rightarrow> Connection" where
  "NewConnection E i requiresAuth =
     \<lparr>cn_id = i, cn_requiresAuth = requiresAuth, cn_state = ConnConnecting,
      cn_visited = {ConnConnecting}, cn_sessionID = [], cn_caps = NewCapabilityManager,
      cn_lastPing = env_now E, cn_heartbeat = False, cn_grace = False, cn_closed = False\<rparr>"

text \<open>What the handlers of the run services read of a connection.\<close>

definition conn_view :: "Connection \<Rightarrow> Conn" where
  "conn_view c = \<lparr>conn_ID = cn_id c, conn_UserID = SoloUserID, conn_SessionID = cn_sessionID c,
     conn_Root = pc_Root (cm_project (cn_caps c))\<rparr>"

definition conn_transition :: "ConnState \<Rightarrow> Connection \<Rightarrow> Connection" where
  "conn_transition s c =
     (if s \<in> set (validTransitions (cn_state c))
      then c\<lparr>cn_state := s, cn_visited := insert s (cn_visited c)\<rparr> else c)"

definition conn_initialize :: "Connection \<Rightarrow> Connection" where
  "conn_initialize c =
     conn_transition ConnRegistering
       (if cn_requiresAuth c then conn_transition ConnAuthenticating c else c)"

definition startHeartbeatMonitor :: "Connection \<Rightarrow> Connection" where
  "startHeartbeatMonitor c = c\<lparr>cn_heartbeat := True\<rparr>"

definition stopHeartbeatMonitor :: "Connection \<Rightarrow> Connection" where
  "stopHeartbeatMonitor c = c\<lparr>cn_heartbeat := False\<rparr>"

text \<open>One tick of the monitor: a stale ping fails the connection and ends the monitor.\<close>

definition heartbeat_tick :: "store_env \<Rightarrow> ServerConfig \<Rightarrow> Connection \<Rightarrow> Connection" where
  "heartbeat_tick E cfg c =
     (if cn_heartbeat c \<and> time_sub (env_now E) (cn_lastPing c) > cfg_HeartbeatTimeout cfg
      then (conn_transition ConnFailed c)\<lparr>cn_closed := True, cn_heartbeat := False\<rparr> else c)"

definition scheduleGracePeriodRelease ::
  "store_env \<Rightarrow> ServerConfig \<Rightarrow> Connection \<Rightarrow> grace_timer list \<Rightarrow> Connection \<times> grace_timer list" where
  "scheduleGracePeriodRelease E cfg c timers =
     (if cn_sessionID c = [] \<or> cn_grace c then (c, timers)
      else (c\<lparr>cn_grace := True\<rparr>,
            timers @ [\<lparr>gt_session = cn_sessionID c, gt_owner = cn_id c,
                       gt_deadline = env_now E + cfg_GracePeriod cfg\<rparr>]))"

definition cancelGracePeriodRelease :: "Connection \<Rightarrow> grace_timer list \<Rightarrow> Connection \<times> grace_timer list" where
  "cancelGracePeriodRelease c timers =
     (if cn_grace c then (c\<lparr>cn_grace := False\<rparr>, filter (\<lambda>g. gt_owner g \<noteq> cn_id c) timers) else (c, timers))"

text \<open>The timers whose time has come release their locks, whatever the store answers.\<close>

definition grace_fire :: "store_env \<Rightarrow> grace_timer list \<Rightarrow> db \<Rightarrow> grace_timer list \<times> db" where
  "grace_fire E timers d =
     (filter (\<lambda>g. env_now E < gt_deadline g) timers,
      fold (\<lambda>g d. fst (ReleaseSessionLock E (gt_session g) (gt_owner g) d))
        (filter (\<lambda>g. gt_deadline g \<le> env_now E) timers) d)"

text \<open>What runs when the read loop ends.\<close>

definition conn_finish ::
  "store_env \<Rightarrow> ServerConfig \<Rightarrow> Connection \<Rightarrow> grace_timer list \<Rightarrow> Connection \<times> grace_timer list" where
  "conn_finish E cfg c timers =
     (let c1 = (if cn_state c \<noteq> ConnFailed then conn_transition ConnFailed c else c);
          (c2, timers') = scheduleGracePeriodRelease E cfg c1 timers
      in (stopHeartbeatMonitor (c2\<lparr>cn_closed := True\<rparr>), timers'))"

text \<open>The limit on connections, checked when one is accepted.\<close>

definition conn_accept ::
  "store_env \<Rightarrow> ServerConfig \<Rightarrow> string \<Rightarrow> bool \<Rightarrow> Connection list \<Rightarrow> Connection list" where
  "conn_accept E cfg i requiresAuth conns =
     (if cfg_MaxConnections cfg > 0 \<and> int (length conns) \<ge> cfg_MaxConnections cfg then conns
      else conns @ [startHeartbeatMonitor (conn_initialize (NewConnection E i requiresAuth))])"

subsection \<open>The gate\<close>

definition MethodCapabilitiesRegister :: string where "MethodCapabilitiesRegister = ''capabilities.register''"
definition MethodConnectionPing :: string where "MethodConnectionPing = ''connection.ping''"

definition gateMethodLocked :: "ConnState \<Rightarrow> string \<Rightarrow> TransportError option" where
  "gateMethodLocked st method =
     (if st = ConnReady \<or> st = ConnDegraded \<or>
         st = ConnRegistering \<and> (method = MethodCapabilitiesRegister \<or> method = MethodConnectionPing) \<or>
         st = ConnAuthenticating \<and> method = MethodConnectionPing
      then None
      else Some (refuse CodeNotReady (''connection is in state '' @ conn_state_String st @
                   ''; method '' @ method @ '' not allowed'')))"

subsection \<open>Handlers\<close>

definition handleConnectionPing :: "store_env \<Rightarrow> Connection \<Rightarrow> Connection" where
  "handleConnectionPing E c = c\<lparr>cn_lastPing := env_now E\<rparr>"

record DependencyStatus =
  ds_Status :: string
  ds_Method :: string
  ds_Reason :: string

record HealthResponse =
  hr_UptimeSeconds :: int
  hr_Auth :: DependencyStatus
  hr_Storage :: DependencyStatus
  hr_Capabilities :: DependencyStatus
  hr_Routing :: DependencyStatus
  hr_ActiveSession :: "(string \<times> string) option"

definition dependency_ready :: DependencyStatus where
  "dependency_ready = \<lparr>ds_Status = ''ready'', ds_Method = [], ds_Reason = []\<rparr>"

text \<open>\<open>ping\<close> is the text of the error of \<open>Store.Ping\<close>, if there is one.\<close>

definition handleConnectionHealth ::
  "store_env \<Rightarrow> gotime \<Rightarrow> string option \<Rightarrow> Connection \<Rightarrow> HealthResponse" where
  "handleConnectionHealth E started ping c =
     \<lparr>hr_UptimeSeconds = whole_seconds (time_sub (env_now E) started), hr_Auth = dependency_ready,
      hr_Storage = (case ping of None \<Rightarrow> dependency_ready
        | Some e \<Rightarrow> \<lparr>ds_Status = ''unavailable'', ds_Method = [], ds_Reason = e\<rparr>),
      hr_Capabilities = (if cn_state c = ConnReady \<or> cn_state c = ConnDegraded
        then dependency_ready\<lparr>ds_Method := ''register''\<rparr>
        else \<lparr>ds_Status = ''unavailable'', ds_Method = [],
              ds_Reason = ''capabilities.register has not completed''\<rparr>),
      hr_Routing = dependency_ready,
      hr_ActiveSession = (if cn_sessionID c \<noteq> [] then Some (cn_sessionID c, cn_id c) else None)\<rparr>"

definition handleConnectionReady :: "string option \<Rightarrow> Connection \<Rightarrow> bool" where
  "handleConnectionReady ping c = (cn_state c = ConnReady \<and> ping = None)"

record CapabilitiesRegister =
  cr_ProtocolVersion :: string
  cr_Tools :: "ToolDefinition list"
  cr_Project :: ProjectContext

record RejectedTool =
  rj_Name :: string
  rj_Reason :: string

record CapabilitiesRegisterResponse =
  crr_Registered :: "ToolDefinition list"
  crr_Rejected :: "RejectedTool list"
  crr_MaxFrameSize :: int
  crr_MaxAttachmentSize :: int

definition MaxFrameSizeAdvertised :: int where
  "MaxFrameSizeAdvertised = 10 * 1024 * 1024"

definition rejected_tools :: "(string \<Rightarrow> string) \<Rightarrow> ToolDefinition list \<Rightarrow> RejectedTool list" where
  "rejected_tools jerr ts = concat (map (\<lambda>t. case validateTool jerr t of None \<Rightarrow> []
     | Some why \<Rightarrow> [\<lparr>rj_Name = tool_Name t, rj_Reason = why\<rparr>]) ts)"

definition handleCapabilitiesRegister ::
  "(string \<Rightarrow> string) \<Rightarrow> ServerConfig \<Rightarrow> string + CapabilitiesRegister \<Rightarrow> Connection
     \<Rightarrow> Connection \<times> (TransportError + CapabilitiesRegisterResponse)" where
  "handleCapabilitiesRegister jerr cfg params c =
     (if cn_state c \<noteq> ConnRegistering
      then (c, Inl (refuse CodeNotReady ''capabilities.register already completed on this connection''))
      else case params of
        Inl e \<Rightarrow> (c, Inl (transportInvalidParams (''decode capabilities.register: '' @ e)))
      | Inr req \<Rightarrow>
          (if cr_ProtocolVersion req \<noteq> ProtocolVersion
           then (conn_transition ConnFailed c,
                 Inl (refuse CodeVersionMismatch (''protocol version '' @ go_quote (cr_ProtocolVersion req)
                   @ '' not supported; server speaks '' @ go_quote ProtocolVersion)))
           else
             (let registered = filter (\<lambda>t. validateTool jerr t = None) (cr_Tools req);
                  cm = (replaceTools registered ((cn_caps c)\<lparr>cm_version := cr_ProtocolVersion req\<rparr>))
                         \<lparr>cm_project := cr_Project req\<rparr>;
                  maxAttach = cfg_MaxAttachmentSize cfg
              in (conn_transition ConnReady (c\<lparr>cn_caps := cm\<rparr>),
                  Inr \<lparr>crr_Registered = registered, crr_Rejected = rejected_tools jerr (cr_Tools req),
                       crr_MaxFrameSize = MaxFrameSizeAdvertised,
                       crr_MaxAttachmentSize = (if maxAttach \<le> 0 then 5 * 1024 * 1024 else maxAttach)\<rparr>))))"

record CapabilitiesUpdate =
  cup_AddedTools :: "ToolDefinition list"
  cup_RemovedTools :: "string list"

record CapabilitiesUpdateResponse =
  cur_AddedCount :: int
  cur_RemovedCount :: int
  cur_UpdatedAt :: string

text \<open>\<open>clock\<close> formats the time of the reply.  One bad tool rejects the update whole.\<close>

definition handleCapabilitiesUpdate ::
  "(string \<Rightarrow> string) \<Rightarrow> (gotime \<Rightarrow> string) \<Rightarrow> store_env \<Rightarrow> string + CapabilitiesUpdate \<Rightarrow> Connection
     \<Rightarrow> Connection \<times> (TransportError + CapabilitiesUpdateResponse)" where
  "handleCapabilitiesUpdate jerr clock E params c =
     (case params of
        Inl e \<Rightarrow> (c, Inl (transportInvalidParams (''decode capabilities.update: '' @ e)))
      | Inr req \<Rightarrow>
          (case rejected_tools jerr (cup_AddedTools req) of
             r # _ \<Rightarrow> (c, Inl (refuse CodeCapabilityError
                       (''rejected tool '' @ go_quote (rj_Name r) @ '': '' @ rj_Reason r)))
           | [] \<Rightarrow>
               (case applyUpdate (cup_AddedTools req) (cup_RemovedTools req) (cn_caps c) of
                  (cm, added, removed) \<Rightarrow>
                    (c\<lparr>cn_caps := cm\<rparr>,
                     Inr \<lparr>cur_AddedCount = added, cur_RemovedCount = removed,
                          cur_UpdatedAt = clock (env_now E)\<rparr>))))"

end
