(* ===== verification/Prompt.thy ===== *)
theory Prompt
  imports Connection
begin

text \<open>
  The system prompt of a turn (\<open>internal/runtime/prompt.go\<close>): seven layers, of which the first five are
  pinned, and a budget of tokens that the others give way to.  The share of the window is a rational;
  for the default, a quarter, and windows below \<open>2^53\<close> the product of the code is exact.
\<close>

definition defaultCoreBehavioral :: string where
  "defaultCoreBehavioral =
     ''You are a software-engineering assistant integrated into a developer harness.''
     @ [CHR 0x0A]
     @ [CHR 0x0A]
     @ ''Operate by the following principles:''
     @ [CHR 0x0A]
     @ ''- Be concise and direct. Prefer code over prose where it answers the question.''
     @ [CHR 0x0A]
     @ ''- Read project context (config, conventions, existing code) before proposing changes.''
     @ [CHR 0x0A]
     @ ''- Respect the user's stated mode: in PLAN mode, do not modify files or run commands; in ''
     @ ''BUILD mode, execute the request directly; in AUTO mode, decide based on complexity.''
     @ [CHR 0x0A]
     @ ''- When using tools, call them with valid JSON inputs that match each tool's schema. Do not ''
     @ ''invent tools that were not registered.''
     @ [CHR 0x0A]
     @ ''- When you encounter an obstacle, report it briefly with the smallest reproduction needed ''
     @ ''to act on it.''"

record PromptLayer =
  ly_Number :: int
  ly_Name :: string
  ly_Content :: string
  ly_Tokens :: int
  ly_Pinned :: bool

record PromptEngineOpts =
  po_CoreBehavioral :: string
  po_DomainConfig :: string
  po_WindowSize :: int
  po_SystemPromptShare :: rat

record PromptEngine =
  pe_coreBehavioral :: string
  pe_domainConfig :: string
  pe_windowSize :: int
  pe_systemPromptShare :: rat

definition NewPromptEngine :: "PromptEngineOpts \<Rightarrow> PromptEngine" where
  "NewPromptEngine opts =
     \<lparr>pe_coreBehavioral = (if po_CoreBehavioral opts = [] then defaultCoreBehavioral else po_CoreBehavioral opts),
      pe_domainConfig = po_DomainConfig opts, pe_windowSize = po_WindowSize opts,
      pe_systemPromptShare = (if po_SystemPromptShare opts \<le> 0 then 1 / 4 else po_SystemPromptShare opts)\<rparr>"

definition SetWindowSize :: "int \<Rightarrow> PromptEngine \<Rightarrow> PromptEngine" where
  "SetWindowSize n pe = pe\<lparr>pe_windowSize := n\<rparr>"

definition ModePlan :: string where "ModePlan = ''plan''"
definition ModeBuild :: string where "ModeBuild = ''build''"
definition ModeAuto :: string where "ModeAuto = ''auto''"

definition modeInstructions :: "string \<Rightarrow> string option" where
  "modeInstructions mode =
     (if mode = ModePlan then Some
        (''You are in PLAN mode. Analyze the request and propose a plan. Do NOT make file ''
         @ ''modifications, execute commands, or take actions. Only read files and describe what you ''
         @ ''would do.'')
      else if mode = ModeBuild then Some
        (''You are in BUILD mode. Execute the user's request directly. Make file changes, run ''
         @ ''commands, and take actions as needed.'')
      else if mode = ModeAuto then Some
        (''You are in AUTO mode. Decide whether to plan or execute based on the complexity of the ''
         @ ''request. For simple tasks, execute directly. For complex tasks, propose a plan first.'')
      else None)"

subsection \<open>Layers\<close>

definition layer :: "int \<Rightarrow> string \<Rightarrow> bool \<Rightarrow> string \<Rightarrow> PromptLayer" where
  "layer n name pinned content = \<lparr>ly_Number = n, ly_Name = name, ly_Content = content,
     ly_Tokens = int (EstimateTokens content), ly_Pinned = pinned\<rparr>"

abbreviation newline :: string where
  "newline \<equiv> [CHR 0x0A]"

definition toolUseInstructions :: "ToolDefinition list \<Rightarrow> string" where
  "toolUseInstructions tools =
     ''You have access to the following tools:'' @ newline @ newline
     @ concat (map (\<lambda>t. ''## '' @ tool_Name t @ newline @ tool_Description t @ newline @ newline
         @ ''Input schema:'' @ newline @ ''```json'' @ newline
         @ (case tool_InputSchema t of None \<Rightarrow> [] | Some s \<Rightarrow> s) @ newline
         @ ''```'' @ newline @ newline) tools)"

definition project_instructions :: "ProjectContext \<Rightarrow> string" where
  "project_instructions pc =
     ''## Project Instructions ('' @ pc_ConfigFile pc @ '')'' @ newline @ pc_ConfigContent pc"

definition AssembleLayers1to5 :: "PromptEngine \<Rightarrow> CapabilityManager option \<Rightarrow> string \<Rightarrow> PromptLayer list" where
  "AssembleLayers1to5 pe caps mode =
     [layer 1 ''core_behavioral'' True (pe_coreBehavioral pe)]
     @ (case caps of None \<Rightarrow> [] | Some cm \<Rightarrow>
          (if cm_Tools cm = [] then [] else [layer 2 ''tool_use'' True (toolUseInstructions (cm_Tools cm))]))
     @ (if pe_domainConfig pe = [] then [] else [layer 3 ''domain_instructions'' True (pe_domainConfig pe)])
     @ (case caps of None \<Rightarrow> [] | Some cm \<Rightarrow>
          (if pc_ConfigContent (cm_project cm) = [] then []
           else [layer 4 ''project_context'' True (project_instructions (cm_project cm))]))
     @ (case modeInstructions mode of None \<Rightarrow> [] | Some instr \<Rightarrow> [layer 5 ''mode'' True instr])"

definition knowledgeLayer :: string where
  "knowledgeLayer = []"

definition sessionStateLayer :: "ActiveSession option \<Rightarrow> string" where
  "sessionStateLayer session =
     (case session of None \<Rightarrow> []
      | Some s \<Rightarrow> (if as_ModelOverride s = [] then []
                   else ''## Model Override'' @ newline @ ''User has overridden routing to: '' @ as_ModelOverride s))"

subsection \<open>Assembly\<close>

definition sumLayerTokens :: "PromptLayer list \<Rightarrow> int" where
  "sumLayerTokens ls = sum_list (map ly_Tokens ls)"

definition drop_layer :: "int \<Rightarrow> PromptLayer list \<Rightarrow> PromptLayer list" where
  "drop_layer n ls = map (\<lambda>l. if ly_Number l = n \<and> \<not> ly_Pinned l
     then l\<lparr>ly_Content := [], ly_Tokens := 0\<rparr> else l) ls"

definition trimLayers :: "PromptLayer list \<Rightarrow> int \<Rightarrow> PromptLayer list" where
  "trimLayers ls budget = fold (\<lambda>n ls. if sumLayerTokens ls \<le> budget then ls else drop_layer n ls) [6, 7] ls"

fun join_loop :: "PromptLayer list \<Rightarrow> nat \<Rightarrow> string \<Rightarrow> string" where
  "join_loop [] i sb = sb"
| "join_loop (l # ls) i sb =
     (if ly_Content l = [] then join_loop ls (i + 1) sb
      else join_loop ls (i + 1) ((if length sb > 0 \<and> i > 0 then sb @ newline @ newline else sb) @ ly_Content l))"

definition joinLayers :: "PromptLayer list \<Rightarrow> string" where
  "joinLayers ls = join_loop ls 0 []"

definition all_layers ::
  "PromptEngine \<Rightarrow> CapabilityManager option \<Rightarrow> ActiveSession option \<Rightarrow> string \<Rightarrow> PromptLayer list" where
  "all_layers pe caps session mode =
     AssembleLayers1to5 pe caps mode
     @ (if knowledgeLayer = [] then [] else [layer 6 ''knowledge'' False knowledgeLayer])
     @ (if sessionStateLayer session = [] then [] else [layer 7 ''session_state'' False (sessionStateLayer session)])"

text \<open>The prompt and the estimate of its tokens.\<close>

definition Assemble ::
  "PromptEngine \<Rightarrow> CapabilityManager option \<Rightarrow> ActiveSession option \<Rightarrow> string \<Rightarrow> string \<times> int" where
  "Assemble pe caps session mode =
     (let layers = all_layers pe caps session mode;
          budget = \<lfloor>of_int (pe_windowSize pe) * pe_systemPromptShare pe\<rfloor>;
          kept = (if pe_windowSize pe > 0 \<and> sumLayerTokens layers > budget then trimLayers layers budget
                  else layers)
      in (joinLayers kept, sumLayerTokens kept))"

end
