(* ===== verification/Provider_Format.thy ===== *)
theory Provider_Format
  imports Provider_Stream
begin

text \<open>
  What the adapters send and what they read of captured traffic (\<open>internal/provider/anthropic.go\<close>,
  \<open>openai.go\<close>, \<open>ollama.go\<close>, \<open>registry.go\<close>): the request body of a canonical conversation, the
  definitions of tools, the metadata of requests and responses, a captured stream put together, and
  the choice of an adapter for a request.  A temperature is the text of its number, \<open>None\<close> for nil;
  every number is taken to be in the range of a \<open>float64\<close>.  A missing result is an error whose text
  is not modelled.
\<close>

subsection \<open>Requests\<close>

record FormatMessagesOpts =
  fm_Messages :: "Message list"
  fm_SystemPrompt :: string
  fm_WindowSize :: int
  fm_Model :: string
  fm_MaxTokens :: int
  fm_Temperature :: "string option"
  fm_Stream :: bool
  fm_Tools :: "ToolDefinition list"
  fm_Capabilities :: "string list"

definition hasCapability :: "string list \<Rightarrow> string \<Rightarrow> bool" where
  "hasCapability caps c = (c \<in> set caps)"

definition isImageContentType :: "string \<Rightarrow> bool" where
  "isImageContentType ct = has_prefix ct ''image/''"

text \<open>The messages to send: truncated when there is a window.\<close>

definition window_messages :: "FormatMessagesOpts \<Rightarrow> provider_error + Message list" where
  "window_messages opts =
     (if fm_Messages opts = [] then Inl ErrEmptyMessages
      else if fm_WindowSize opts > 0 then Truncate (fm_Messages opts) (fm_SystemPrompt opts) (fm_WindowSize opts)
      else Inr (fm_Messages opts))"

definition opt_field :: "string \<Rightarrow> json option \<Rightarrow> (string \<times> json) list" where
  "opt_field k v = (case v of None \<Rightarrow> [] | Some j \<Rightarrow> [(k, j)])"

text \<open>The text shown for a tool result of any status.\<close>

definition result_text :: "ToolResult \<Rightarrow> string" where
  "result_text r =
     (if res_Status r = ''error'' then ''[error: '' @ res_Error r @ ''] '' @ res_Output r
      else if res_Status r = ''rejected'' then ''[rejected: '' @ res_Reason r @ ''] '' @ res_Output r
      else res_Output r)"

definition image_omitted :: string where
  "image_omitted = ''[image omitted: model lacks vision capability]''"

definition text_block :: "string \<Rightarrow> json" where
  "text_block s = JObj [(''type'', jstr ''text''), (''text'', jstr s)]"

subsection \<open>Anthropic\<close>

definition anthropic_attachment :: "bool \<Rightarrow> Attachment \<Rightarrow> json" where
  "anthropic_attachment hasVision a =
     (if isImageContentType (atm_ContentType a)
      then (if \<not> hasVision then text_block image_omitted
            else JObj [(''type'', jstr ''image''), (''source'', JObj [(''type'', jstr ''base64''),
                   (''media_type'', jstr (atm_ContentType a)), (''data'', jstr (atm_Raw a))])])
      else text_block (atm_Content a))"

definition anthropic_tool_result :: "ToolResult \<Rightarrow> json" where
  "anthropic_tool_result r =
     JObj ([(''type'', jstr ''tool_result''), (''tool_use_id'', jstr (res_ToolCallID r)),
            (''content'', jstr (result_text r))]
       @ (if res_Status r = ''error'' \<or> res_Status r = ''rejected'' then [(''is_error'', JBool True)] else []))"

definition anthropic_tool_use :: "ToolCall \<Rightarrow> json option" where
  "anthropic_tool_use c = map_option (\<lambda>inp. JObj [(''type'', jstr ''tool_use''),
     (''id'', jstr (call_ID c)), (''name'', jstr (call_Name c)), (''input'', inp)])
     (rawmsg_json (call_Input c))"

definition text_first :: "string \<Rightarrow> json list \<Rightarrow> json list" where
  "text_first s bs = (if s \<noteq> [] then text_block s # bs else bs)"

definition some_block :: "json list \<Rightarrow> json list" where
  "some_block bs = (if bs = [] then [text_block []] else bs)"

definition anthropic_content :: "bool \<Rightarrow> Message \<Rightarrow> (string \<times> json list) option option" where
  "anthropic_content hasVision m =
     (if msg_Role m = ''tool'' \<or> msg_Role m = ''user'' \<and> msg_ToolResults m \<noteq> []
      then Some (Some (''user'', text_first (msg_Content m) (map anthropic_tool_result (msg_ToolResults m))))
      else if msg_Role m = ''assistant''
      then map_option (\<lambda>cs. Some (''assistant'', some_block (text_first (msg_Content m) cs)))
             (all_some (map anthropic_tool_use (msg_ToolCalls m)))
      else if msg_Role m = ''user''
      then Some (Some (''user'', some_block (text_first (msg_Content m)
                        (map (anthropic_attachment hasVision) (msg_Attachments m)))))
      else Some None)"

definition anthropic_message :: "string \<times> json list \<Rightarrow> json" where
  "anthropic_message rb = JObj [(''role'', jstr (fst rb)), (''content'', JArr (snd rb))]"

definition anthropic_tool :: "ToolDefinition \<Rightarrow> json option" where
  "anthropic_tool t = map_option (\<lambda>s. JObj [(''name'', jstr (tool_Name t)),
     (''description'', jstr (tool_Description t)), (''input_schema'', s)]) (rawmsg_json (tool_InputSchema t))"

definition concat_some :: "'a option list \<Rightarrow> 'a list" where
  "concat_some xs = map the (filter (\<lambda>x. x \<noteq> None) xs)"

definition anthropic_body :: "FormatMessagesOpts \<Rightarrow> json list \<Rightarrow> json list \<Rightarrow> json" where
  "anthropic_body opts tools msgs =
     JObj ([(''model'', jstr (fm_Model opts)), (''max_tokens'', jint (fm_MaxTokens opts))]
       @ (if fm_SystemPrompt opts \<noteq> [] then [(''system'', jstr (fm_SystemPrompt opts))] else [])
       @ omitempty_list ''tools'' tools
       @ [(''messages'', JArr msgs)]
       @ opt_field ''temperature'' (map_option JNum (fm_Temperature opts))
       @ (if fm_Stream opts then [(''stream'', JBool True)] else []))"

definition of_some :: "'e \<Rightarrow> 'a option \<Rightarrow> 'e + 'a" where
  "of_some e x = (case x of None \<Rightarrow> Inl e | Some y \<Rightarrow> Inr y)"

definition anthropic_FormatMessages :: "FormatMessagesOpts \<Rightarrow> provider_error + json" where
  "anthropic_FormatMessages opts =
     bindR (window_messages opts) (\<lambda>msgs.
     bindR (of_some ErrMarshal (all_some (map (anthropic_content (hasCapability (fm_Capabilities opts) ''vision'')) msgs))) (\<lambda>wire.
     bindR (of_some ErrMarshal (all_some (map anthropic_tool (fm_Tools opts)))) (\<lambda>tools.
       Inr (anthropic_body opts tools (map anthropic_message (concat_some wire))))))"

text \<open>An empty catalog has no bytes.\<close>

definition anthropic_FormatToolDefinitions :: "ToolDefinition list \<Rightarrow> string option" where
  "anthropic_FormatToolDefinitions tools =
     (if tools = [] then Some [] else map_option (\<lambda>ds. json_print (JArr ds)) (all_some (map anthropic_tool tools)))"

subsection \<open>OpenAI\<close>

text \<open>The keys of a map are written in order.\<close>

definition openai_simple :: "string \<Rightarrow> string \<Rightarrow> json" where
  "openai_simple role content = JObj [(''content'', jstr content), (''role'', jstr role)]"

definition openai_attachment :: "string list \<Rightarrow> Attachment \<Rightarrow> json" where
  "openai_attachment caps a =
     (let blk = (\<lambda>s. JObj ([(''type'', jstr ''text'')] @ omitempty ''text'' s)) in
      if isImageContentType (atm_ContentType a)
      then (if \<not> hasCapability caps ''vision'' then blk image_omitted
            else JObj [(''type'', jstr ''image_url''), (''image_url'', JObj [(''url'',
                   jstr (''data:'' @ atm_ContentType a @ '';base64,'' @ atm_Raw a))])])
      else blk (atm_Content a))"

definition openai_user :: "string list \<Rightarrow> Message \<Rightarrow> json" where
  "openai_user caps m =
     (if msg_Attachments m = [] then openai_simple ''user'' (msg_Content m)
      else JObj [(''content'', JArr (text_first (msg_Content m)
                    (map (openai_attachment caps) (msg_Attachments m)))), (''role'', jstr ''user'')])"

definition openai_tool_call :: "ToolCall \<Rightarrow> provider_error + json" where
  "openai_tool_call c =
     (case call_Input c of
        None \<Rightarrow> Inl (ErrInvalidToolInput (call_ID c))
      | Some inp \<Rightarrow>
          (if \<not> json_valid inp then Inl (ErrInvalidToolInput (call_ID c))
           else Inr (JObj [(''id'', jstr (call_ID c)), (''type'', jstr ''function''),
              (''function'', JObj [(''name'', jstr (call_Name c)), (''arguments'', jstr inp)])])))"

fun all_right :: "('e + 'a) list \<Rightarrow> 'e + 'a list" where
  "all_right [] = Inr []"
| "all_right (Inl e # xs) = Inl e"
| "all_right (Inr x # xs) = (case all_right xs of Inl e \<Rightarrow> Inl e | Inr ys \<Rightarrow> Inr (x # ys))"

definition openai_assistant :: "Message \<Rightarrow> provider_error + json" where
  "openai_assistant m =
     (if msg_ToolCalls m = [] then Inr (openai_simple ''assistant'' (msg_Content m))
      else bindR (all_right (map openai_tool_call (msg_ToolCalls m))) (\<lambda>calls.
        Inr (JObj [(''content'', if msg_Content m = [] then JNull else jstr (msg_Content m)),
                   (''role'', jstr ''assistant''), (''tool_calls'', JArr calls)])))"

definition openai_tool_result :: "ToolResult \<Rightarrow> json" where
  "openai_tool_result r = JObj [(''content'', jstr (result_text r)), (''role'', jstr ''tool''),
     (''tool_call_id'', jstr (res_ToolCallID r))]"

definition openai_message :: "string list \<Rightarrow> Message \<Rightarrow> provider_error + json list" where
  "openai_message caps m =
     (if msg_Role m = ''tool'' \<or> msg_ToolResults m \<noteq> []
      then Inr (map openai_tool_result (msg_ToolResults m))
      else if msg_Role m = ''assistant'' then bindR (openai_assistant m) (\<lambda>j. Inr [j])
      else if msg_Role m = ''user'' then Inr [openai_user caps m]
      else Inr [openai_simple (msg_Role m) (msg_Content m)])"

definition useMaxCompletionTokens :: "string \<Rightarrow> bool" where
  "useMaxCompletionTokens model =
     list_ex (has_prefix model) [''o1-'', ''o1'', ''o3-'', ''o3'', ''o4-'', ''o4'', ''gpt-5'']"

definition openai_tool :: "ToolDefinition \<Rightarrow> json option" where
  "openai_tool t = map_option (\<lambda>s. JObj [(''type'', jstr ''function''), (''function'',
     JObj [(''name'', jstr (tool_Name t)), (''description'', jstr (tool_Description t)),
           (''parameters'', s)])]) (rawmsg_json (tool_InputSchema t))"

definition openai_body :: "FormatMessagesOpts \<Rightarrow> json list \<Rightarrow> json list \<Rightarrow> json" where
  "openai_body opts tools msgs =
     JObj ([(''model'', jstr (fm_Model opts))]
       @ (if fm_MaxTokens opts > 0 \<and> \<not> useMaxCompletionTokens (fm_Model opts)
          then [(''max_tokens'', jint (fm_MaxTokens opts))] else [])
       @ (if fm_MaxTokens opts > 0 \<and> useMaxCompletionTokens (fm_Model opts)
          then [(''max_completion_tokens'', jint (fm_MaxTokens opts))] else [])
       @ [(''messages'', if msgs = [] then JNull else JArr msgs)]
       @ omitempty_list ''tools'' tools
       @ opt_field ''temperature'' (map_option JNum (fm_Temperature opts))
       @ (if fm_Stream opts then [(''stream'', JBool True)] else []))"

definition openai_FormatMessages :: "FormatMessagesOpts \<Rightarrow> provider_error + json" where
  "openai_FormatMessages opts =
     bindR (window_messages opts) (\<lambda>msgs.
     bindR (all_right (map (openai_message (fm_Capabilities opts)) msgs)) (\<lambda>wire.
     bindR (of_some ErrMarshal (all_some (map openai_tool (fm_Tools opts)))) (\<lambda>tools.
       Inr (openai_body opts tools
         ((if fm_SystemPrompt opts \<noteq> [] then [openai_simple ''system'' (fm_SystemPrompt opts)] else [])
            @ concat wire)))))"

text \<open>A nil slice is \<open>null\<close>.\<close>

definition openai_FormatToolDefinitions :: "ToolDefinition list \<Rightarrow> string option" where
  "openai_FormatToolDefinitions tools =
     map_option (\<lambda>ds. json_print (if ds = [] then JNull else JArr ds)) (all_some (map openai_tool tools))"

subsection \<open>Ollama\<close>

definition ollama_result :: "ToolResult \<Rightarrow> string" where
  "ollama_result r = ''[tool result '' @ res_ToolCallID r @ '' status='' @ res_Status r @ '']'' @ [CHR 0x0A] @ res_Output r"

definition ollama_text :: "Message \<Rightarrow> string" where
  "ollama_text m = fold (\<lambda>r s. (if s = [] then s else s @ [CHR 0x0A, CHR 0x0A]) @ ollama_result r)
     (msg_ToolResults m) (msg_Content m)"

definition ollama_msg :: "string \<Rightarrow> string \<Rightarrow> json" where
  "ollama_msg role content = JObj [(''role'', jstr role), (''content'', jstr content)]"

definition ollama_options :: "FormatMessagesOpts \<Rightarrow> (string \<times> json) list" where
  "ollama_options opts =
     (if fm_MaxTokens opts > 0 \<or> fm_Temperature opts \<noteq> None
      then [(''options'', JObj ((if fm_MaxTokens opts > 0 then [(''num_predict'', jint (fm_MaxTokens opts))] else [])
              @ opt_field ''temperature'' (map_option JNum (fm_Temperature opts))))]
      else [])"

definition ollama_FormatMessages :: "FormatMessagesOpts \<Rightarrow> provider_error + json" where
  "ollama_FormatMessages opts =
     bindR (window_messages opts) (\<lambda>msgs.
       Inr (JObj ([(''model'', jstr (fm_Model opts)),
                   (''messages'', JArr ((if fm_SystemPrompt opts \<noteq> [] then [ollama_msg ''system'' (fm_SystemPrompt opts)] else [])
                      @ map (\<lambda>m. ollama_msg (if msg_Role m = ''tool'' then ''user'' else msg_Role m) (ollama_text m)) msgs)),
                   (''stream'', JBool (fm_Stream opts))]
         @ ollama_options opts)))"

subsection \<open>The interface\<close>

definition FormatMessages :: "adapter \<Rightarrow> FormatMessagesOpts \<Rightarrow> provider_error + string" where
  "FormatMessages a opts = bindR (case a of Anthropic \<Rightarrow> anthropic_FormatMessages opts
     | OpenAI \<Rightarrow> openai_FormatMessages opts | Ollama \<Rightarrow> ollama_FormatMessages opts) (\<lambda>j. Inr (json_print j))"

definition FormatToolDefinitions :: "adapter \<Rightarrow> ToolDefinition list \<Rightarrow> string option" where
  "FormatToolDefinitions a tools = (case a of Anthropic \<Rightarrow> anthropic_FormatToolDefinitions tools
     | OpenAI \<Rightarrow> openai_FormatToolDefinitions tools | Ollama \<Rightarrow> Some ''[]'')"

subsection \<open>Metadata of captured requests and responses\<close>

record RequestMetadata =
  rm_Model :: string
  rm_MaxTokens :: int
  rm_Messages :: nat
  rm_Temperature :: "string option"
  rm_Stream :: bool
  rm_SystemPrompt :: string

record ResponseMetadata =
  pm_Model :: string
  pm_InputTokens :: int
  pm_OutputTokens :: int
  pm_StopReason :: string

definition no_response :: ResponseMetadata where
  "no_response = \<lparr>pm_Model = [], pm_InputTokens = 0, pm_OutputTokens = 0, pm_StopReason = []\<rparr>"

definition as_number :: "json \<Rightarrow> string option" where
  "as_number j = (case j of JNum n \<Rightarrow> Some n | _ \<Rightarrow> None)"

definition jbool_at :: "string \<Rightarrow> json \<Rightarrow> bool option" where
  "jbool_at k j = as_bool (jfield k j)"

definition anthropic_ParseRequest :: "string \<Rightarrow> RequestMetadata option" where
  "anthropic_ParseRequest = json_unmarshal (as_struct (\<lambda>j.
     obind (jstr_at ''model'' j) (\<lambda>m.
     obind (jint_at ''max_tokens'' j) (\<lambda>mt.
     obind (as_list Some (jfield ''messages'' j)) (\<lambda>ms.
     obind (jptr_at as_number ''temperature'' j) (\<lambda>t.
     obind (jbool_at ''stream'' j) (\<lambda>s.
       Some \<lparr>rm_Model = m, rm_MaxTokens = mt, rm_Messages = length ms, rm_Temperature = t,
             rm_Stream = s, rm_SystemPrompt = (case jfield ''system'' j of JStr b \<Rightarrow> unlit b | _ \<Rightarrow> [])\<rparr>)))))))"

definition openai_ParseRequest :: "string \<Rightarrow> RequestMetadata option" where
  "openai_ParseRequest = json_unmarshal (as_struct (\<lambda>j.
     obind (jstr_at ''model'' j) (\<lambda>m.
     obind (jint_at ''max_tokens'' j) (\<lambda>mt.
     obind (jint_at ''max_completion_tokens'' j) (\<lambda>mct.
     obind (jptr_at as_number ''temperature'' j) (\<lambda>t.
     obind (jbool_at ''stream'' j) (\<lambda>s.
       Some \<lparr>rm_Model = m, rm_MaxTokens = (if mt = 0 then mct else mt),
             rm_Messages = (case as_list Some (jfield ''messages'' j) of None \<Rightarrow> 0 | Some ms \<Rightarrow> length ms),
             rm_Temperature = t, rm_Stream = s, rm_SystemPrompt = []\<rparr>)))))))"

definition ollama_message_ok :: "json \<Rightarrow> unit option" where
  "ollama_message_ok = as_struct (\<lambda>j. obind (jstr_at ''role'' j) (\<lambda>_. obind (jstr_at ''content'' j) (\<lambda>_. Some ())))"

definition ollama_ParseRequest :: "string \<Rightarrow> RequestMetadata option" where
  "ollama_ParseRequest = json_unmarshal (as_struct (\<lambda>j.
     obind (jstr_at ''model'' j) (\<lambda>m.
     obind (as_list ollama_message_ok (jfield ''messages'' j)) (\<lambda>ms.
     obind (jbool_at ''stream'' j) (\<lambda>s.
     obind (as_map (jfield ''options'' j)) (\<lambda>_.
       Some \<lparr>rm_Model = m, rm_MaxTokens = 0, rm_Messages = length ms, rm_Temperature = None,
             rm_Stream = s, rm_SystemPrompt = []\<rparr>))))))"

definition ParseRequest :: "adapter \<Rightarrow> string \<Rightarrow> RequestMetadata option" where
  "ParseRequest a = (case a of Anthropic \<Rightarrow> anthropic_ParseRequest | OpenAI \<Rightarrow> openai_ParseRequest
     | Ollama \<Rightarrow> ollama_ParseRequest)"

definition anthropic_ParseResponse :: "string \<Rightarrow> ResponseMetadata option" where
  "anthropic_ParseResponse = json_unmarshal (as_struct (\<lambda>j.
     obind (jstr_at ''model'' j) (\<lambda>m.
     obind (jstr_at ''stop_reason'' j) (\<lambda>st.
     obind (jobj_at ''usage'' j) (\<lambda>u.
     obind (jint_at ''input_tokens'' u) (\<lambda>i.
     obind (jint_at ''output_tokens'' u) (\<lambda>out.
       Some \<lparr>pm_Model = m, pm_InputTokens = i, pm_OutputTokens = out, pm_StopReason = st\<rparr>)))))))"

definition openai_ParseResponse :: "string \<Rightarrow> ResponseMetadata option" where
  "openai_ParseResponse = json_unmarshal (as_struct (\<lambda>j.
     obind (jstr_at ''model'' j) (\<lambda>m.
     obind (jobj_at ''usage'' j) (\<lambda>u.
     obind (jint_at ''prompt_tokens'' u) (\<lambda>i.
     obind (jint_at ''completion_tokens'' u) (\<lambda>out.
     obind (as_list (as_struct (jstr_at ''finish_reason'')) (jfield ''choices'' j)) (\<lambda>cs.
       Some \<lparr>pm_Model = m, pm_InputTokens = i, pm_OutputTokens = out,
             pm_StopReason = (case cs of [] \<Rightarrow> [] | st # _ \<Rightarrow> st)\<rparr>)))))))"

definition ollama_ParseResponse :: "string \<Rightarrow> ResponseMetadata option" where
  "ollama_ParseResponse s = map_option (\<lambda>r. \<lparr>pm_Model = or_Model r, pm_InputTokens = or_PromptEvalCount r,
     pm_OutputTokens = or_EvalCount r, pm_StopReason = or_DoneReason r\<rparr>) (json_unmarshal ollama_reply_of s)"

definition ParseResponse :: "adapter \<Rightarrow> string \<Rightarrow> ResponseMetadata option" where
  "ParseResponse a = (case a of Anthropic \<Rightarrow> anthropic_ParseResponse | OpenAI \<Rightarrow> openai_ParseResponse
     | Ollama \<Rightarrow> ollama_ParseResponse)"

subsection \<open>Captured streams\<close>

record StreamChunk =
  sch_Data :: string
  sch_EventType :: string

definition anthropic_chunk ::
  "StreamChunk \<Rightarrow> ResponseMetadata \<times> string \<Rightarrow> (ResponseMetadata \<times> string) option" where
  "anthropic_chunk ch acc =
     (case acc of (meta, txt) \<Rightarrow>
        if sch_EventType ch = ''message_start'' then
          json_unmarshal (as_struct (\<lambda>j.
            obind (jobj_at ''message'' j) (\<lambda>m.
            obind (jstr_at ''model'' m) (\<lambda>model.
            obind (jobj_at ''usage'' m) (\<lambda>u.
            obind (jint_at ''input_tokens'' u) (\<lambda>i.
              Some (meta\<lparr>pm_Model := model, pm_InputTokens := i\<rparr>, txt))))))) (sch_Data ch)
        else if sch_EventType ch = ''content_block_delta'' then
          json_unmarshal (as_struct (\<lambda>j.
            obind (jobj_at ''delta'' j) (\<lambda>d.
            obind (jstr_at ''type'' d) (\<lambda>_.
            obind (jstr_at ''text'' d) (\<lambda>t. Some (meta, txt @ t)))))) (sch_Data ch)
        else if sch_EventType ch = ''message_delta'' then
          json_unmarshal (as_struct (\<lambda>j.
            obind (jobj_at ''delta'' j) (\<lambda>d.
            obind (jstr_at ''stop_reason'' d) (\<lambda>st.
            obind (jobj_at ''usage'' j) (\<lambda>u.
            obind (jint_at ''output_tokens'' u) (\<lambda>out.
              Some (meta\<lparr>pm_StopReason := st, pm_OutputTokens := out\<rparr>, txt))))))) (sch_Data ch)
        else Some (meta, txt))"

definition openai_line :: "string \<Rightarrow> ResponseMetadata \<times> string \<Rightarrow> (ResponseMetadata \<times> string) option" where
  "openai_line line0 acc =
     (let line = trim_space line0; payload = trim_prefix line ''data: '' in
      if line = [] \<or> \<not> has_prefix line ''data: '' \<or> payload = ''[DONE]'' then Some acc
      else json_unmarshal (as_struct (\<lambda>j.
        obind (jstr_at ''model'' j) (\<lambda>m.
        obind (as_list (as_struct (\<lambda>c.
            obind (jobj_at ''delta'' c) (\<lambda>d.
            obind (jstr_at ''content'' d) (\<lambda>t.
            obind (jptr_at as_string ''finish_reason'' c) (\<lambda>fr. Some (t, fr)))))) (jfield ''choices'' j)) (\<lambda>cs.
        obind (jptr_at (as_struct (\<lambda>u.
            obind (jint_at ''prompt_tokens'' u) (\<lambda>i.
            obind (jint_at ''completion_tokens'' u) (\<lambda>out. Some (i, out))))) ''usage'' j) (\<lambda>u.
          case acc of (meta, txt) \<Rightarrow>
            let meta1 = (if m = [] then meta else meta\<lparr>pm_Model := m\<rparr>);
                meta2 = (case cs of (t, Some st) # _ \<Rightarrow> meta1\<lparr>pm_StopReason := st\<rparr> | _ \<Rightarrow> meta1);
                meta3 = (case u of None \<Rightarrow> meta2
                         | Some (i, out) \<Rightarrow> meta2\<lparr>pm_InputTokens := i, pm_OutputTokens := out\<rparr>)
            in Some (meta3, txt @ (case cs of [] \<Rightarrow> [] | (t, fr) # _ \<Rightarrow> t))))))) payload)"

fun ofold :: "('a \<Rightarrow> 's \<Rightarrow> 's option) \<Rightarrow> 'a list \<Rightarrow> 's \<Rightarrow> 's option" where
  "ofold f [] s = Some s"
| "ofold f (x # xs) s = obind (f x s) (ofold f xs)"

text \<open>An object that does not parse is passed over.\<close>

definition ollama_chunk :: "StreamChunk \<Rightarrow> ResponseMetadata \<times> string \<Rightarrow> (ResponseMetadata \<times> string) option" where
  "ollama_chunk ch acc = Some (case json_unmarshal ollama_reply_of (sch_Data ch) of
      None \<Rightarrow> acc
    | Some r \<Rightarrow>
        (let meta1 = (if or_Model r = [] then fst acc else (fst acc)\<lparr>pm_Model := or_Model r\<rparr>)
         in (if or_Done r then meta1\<lparr>pm_StopReason := or_DoneReason r, pm_InputTokens := or_PromptEvalCount r,
                                    pm_OutputTokens := or_EvalCount r\<rparr> else meta1,
             snd acc @ or_Content r)))"

definition ReassembleStream :: "adapter \<Rightarrow> StreamChunk list \<Rightarrow> (ResponseMetadata \<times> string) option" where
  "ReassembleStream a chunks = (case a of
      Anthropic \<Rightarrow> ofold anthropic_chunk chunks (no_response, [])
    | OpenAI \<Rightarrow> ofold openai_line (concat (map (\<lambda>ch. split_on (CHR 0x0A) (sch_Data ch)) chunks)) (no_response, [])
    | Ollama \<Rightarrow> ofold ollama_chunk chunks (no_response, []))"

subsection \<open>The registry of adapters\<close>

text \<open>What detection reads of a request; header names are matched as \<open>net/http\<close> canonicalizes them.\<close>

record http_request =
  hq_Host :: string
  hq_URLHost :: string
  hq_Path :: string
  hq_AnthropicVersion :: string
  hq_XApiKey :: string

definition contains :: "string \<Rightarrow> string \<Rightarrow> bool" where
  "contains s p = list_ex (\<lambda>i. has_prefix (drop i s) p) [0..<Suc (length s)]"

definition Detect :: "adapter \<Rightarrow> http_request \<Rightarrow> bool" where
  "Detect a r = (case a of
      Anthropic \<Rightarrow> hq_Host r = ''api.anthropic.com'' \<or> hq_URLHost r = ''api.anthropic.com'' \<or>
        hq_AnthropicVersion r \<noteq> [] \<or> contains (hq_Path r) ''/v1/messages'' \<and> hq_XApiKey r \<noteq> []
    | OpenAI \<Rightarrow> hq_Host r = ''api.openai.com'' \<or> hq_URLHost r = ''api.openai.com'' \<or>
        contains (hq_Path r) ''/v1/chat/completions'' \<and> hq_AnthropicVersion r = []
    | Ollama \<Rightarrow> contains (hq_Path r) ''/api/chat'' \<or> contains (hq_Path r) ''/api/generate'')"

type_synonym adapters = "adapter list"

text \<open>Registering an adapter whose name is taken replaces it in place.\<close>

definition adapter_Register :: "adapter \<Rightarrow> adapters \<Rightarrow> adapters" where
  "adapter_Register p ps =
     (case find_index (\<lambda>q. adapter_Name q = adapter_Name p) ps of
        Some i \<Rightarrow> ps[i := p] | None \<Rightarrow> ps @ [p])"

definition adapter_Detect :: "http_request \<Rightarrow> adapters \<Rightarrow> adapter option" where
  "adapter_Detect r ps = find (\<lambda>p. Detect p r) ps"

definition adapter_Get :: "string \<Rightarrow> adapters \<Rightarrow> adapter option" where
  "adapter_Get name ps = find (\<lambda>p. adapter_Name p = name) ps"

end
