(* ===== verification/Session_Service.thy ===== *)
theory Session_Service
  imports Prompt Provider_Format History
begin

text \<open>
  The sessions of the server (\<open>internal/runtime/session.go\<close>), recovery after a reconnect
  (\<open>sync.go\<close>) and the model requests of \<open>routing.go\<close>.  A handler maps the connection and the
  server's state to the new ones, what it emits, and its reply or error.  \<open>clock\<close> formats the times of
  a reply with seconds, \<open>pick\<close> is the choice the iteration over a Go map makes.
\<close>

subsection \<open>The state of the server\<close>

text \<open>
  Sessions that are active in memory and turns that are in flight are association lists with
  distinct keys; a cancel function is a number.
\<close>

record Runtime =
  rt_srv :: Server
  rt_active :: "(string \<times> ActiveSession) list"
  rt_turns :: "(string \<times> nat) list"
  rt_timers :: "grace_timer list"
  rt_models :: catalog
  rt_routing :: RoutingTree
  rt_providers :: ProviderRegistry
  rt_adapters :: adapters
  rt_prompts :: PromptEngine
  rt_config :: ServerConfig
  rt_started :: gotime

type_synonym 'a rt_served = "Connection \<times> Runtime \<times> rt_output list \<times> (TransportError + 'a)"

definition rt_db :: "Runtime \<Rightarrow> db" where
  "rt_db rt = sv_db (rt_srv rt)"

definition set_db :: "db \<Rightarrow> Runtime \<Rightarrow> Runtime" where
  "set_db d rt = rt\<lparr>rt_srv := (rt_srv rt)\<lparr>sv_db := d\<rparr>\<rparr>"

lemma rt_db_set [simp]: "rt_db (set_db d rt) = d"
  by (simp add: rt_db_def set_db_def)

lemma set_db_frames [simp]:
  "rt_active (set_db d rt) = rt_active rt" "rt_turns (set_db d rt) = rt_turns rt"
  "rt_timers (set_db d rt) = rt_timers rt" "rt_models (set_db d rt) = rt_models rt"
  "rt_routing (set_db d rt) = rt_routing rt" "rt_providers (set_db d rt) = rt_providers rt"
  "rt_adapters (set_db d rt) = rt_adapters rt" "rt_prompts (set_db d rt) = rt_prompts rt"
  "rt_config (set_db d rt) = rt_config rt" "sv_runs (rt_srv (set_db d rt)) = sv_runs (rt_srv rt)"
  by (simp_all add: set_db_def)

definition GetActiveSession :: "string \<Rightarrow> Runtime \<Rightarrow> ActiveSession option" where
  "GetActiveSession sid rt = map_of (rt_active rt) sid"

definition set_active :: "ActiveSession \<Rightarrow> Runtime \<Rightarrow> Runtime" where
  "set_active s rt = rt\<lparr>rt_active := AList.update (as_ID s) s (rt_active rt)\<rparr>"

definition EnsureActive :: "string \<Rightarrow> Connection \<Rightarrow> Runtime \<Rightarrow> Runtime \<times> ActiveSession" where
  "EnsureActive sid c rt =
     (let s = (case GetActiveSession sid rt of
            Some s \<Rightarrow> s\<lparr>as_ConnID := cn_id c\<rparr>
          | None \<Rightarrow> \<lparr>as_ID = sid, as_UserID = [], as_Project = pc_Root (cm_project (cn_caps c)),
              as_ConnID = cn_id c, as_Conversation = NewConversation sid, as_ModelOverride = [],
              as_TotalCost = 0, as_TotalInputTokens = 0, as_TotalOutputTokens = 0,
              as_ContextPct = 0\<rparr>)
      in (rt\<lparr>rt_active := AList.update sid s (rt_active rt)\<rparr>, s))"

definition Deactivate :: "string \<Rightarrow> Runtime \<Rightarrow> Runtime" where
  "Deactivate sid rt = rt\<lparr>rt_active := AList.delete sid (rt_active rt)\<rparr>"

definition SessionLockTTL :: int where
  "SessionLockTTL = 5 * 60 * 1000000000"

subsection \<open>Requests and replies\<close>

record SessionResume =
  sre_SessionID :: string
  sre_Project :: ProjectContext

record SessionCreateResponse =
  scr_SessionID :: string
  scr_Project :: ProjectContext

record SessionResumeResponse =
  srr_SessionID :: string
  srr_Model :: string
  srr_ModelOverride :: string
  srr_Project :: ProjectContext

record SessionListEntry =
  sle_ID :: string
  sle_Project :: string
  sle_Status :: string
  sle_Summary :: string
  sle_LastActive :: string
  sle_ContextPct :: rat
  sle_TotalCost :: rat
  sle_TurnCount :: int
  sle_Model :: string
  sle_ModelOverride :: string
  sle_LastTurnSummary :: string
  sle_PinnedCount :: int

record TurnSummary =
  tsu_Sequence :: int
  tsu_Summary :: string
  tsu_Compacted :: bool
  tsu_OriginalTurns :: "int list"
  tsu_Model :: string
  tsu_Cost :: rat

record SessionDetail =
  sd_ID :: string
  sd_Summary :: string
  sd_CreatedAt :: string
  sd_LastActive :: string
  sd_Model :: string
  sd_ModelOverride :: string
  sd_ContextPct :: rat
  sd_TotalCost :: rat
  sd_Turns :: "TurnSummary list"
  sd_PinnedItems :: "string list"
  sd_FilesTouched :: "string list"
  sd_FilesModified :: "string list"
  sd_ServerEvents :: "(string \<times> string \<times> string) list"

record SessionForkResponse =
  sfr_NewSessionID :: string
  sfr_OriginalSessionID :: string

record ModelSwitch =
  msw_SessionID :: string
  msw_Model :: string

record ModelSwitchResponse =
  msr_OverrideSet :: bool
  msr_Model :: string
  msr_Reason :: string

record ModelListResponse =
  mlr_Models :: "ModelInfo list"
  mlr_CurrentOverride :: string
  mlr_RoutingPolicy :: RoutingTree

record SessionSyncResponse =
  ssr_SessionID :: string
  ssr_TurnID :: string
  ssr_Status :: string
  ssr_PendingToolCalls :: "(string \<times> string) list"
  ssr_TokenReplayAvailable :: bool

subsection \<open>The opening of a handler that addresses one session\<close>

definition session_not_found :: "string \<Rightarrow> TransportError" where
  "session_not_found sid = refuse CodeSessionNotFound (''session '' @ go_quote sid @ '' not found'')"

text \<open>
  The decoded request, its session identifier, a further check \<open>bad\<close>, the row, its owner; an error
  of any of them ends the request.
\<close>

definition with_session ::
  "store_env \<Rightarrow> (string \<Rightarrow> string) \<Rightarrow> ('q \<Rightarrow> string) \<Rightarrow> ('q \<Rightarrow> TransportError option)
     \<Rightarrow> (string \<Rightarrow> TransportError) \<Rightarrow> string + 'q \<Rightarrow> Connection \<Rightarrow> Runtime
     \<Rightarrow> ('q \<Rightarrow> Session \<Rightarrow> 'a rt_served) \<Rightarrow> 'a rt_served" where
  "with_session E dec sid bad missing params c rt k =
     (case params of
        Inl e \<Rightarrow> (c, rt, [], Inl (transportInvalidParams (dec e)))
      | Inr req \<Rightarrow>
          (if sid req = [] then (c, rt, [], Inl (transportInvalidParams ''session_id is required''))
           else case bad req of
             Some err \<Rightarrow> (c, rt, [], Inl err)
           | None \<Rightarrow>
               (case GetSession E (sid req) (rt_db rt) of
                  Inl e \<Rightarrow> (c, rt, [], Inl (missing (sid req)))
                | Inr sess \<Rightarrow>
                    (case verifySessionAccess (conn_view c) sess of
                       Some err \<Rightarrow> (c, rt, [], Inl err)
                     | None \<Rightarrow> k req sess))))"

text \<open>The reply of a step of the store that failed.\<close>

abbreviation internal :: "string \<Rightarrow> store_error \<Rightarrow> TransportError + 'a" where
  "internal op e \<equiv> Inl (transportInternal op e)"

subsection \<open>Creating and resuming\<close>

definition new_session :: "store_env \<Rightarrow> string \<Rightarrow> string \<Rightarrow> Session" where
  "new_session E sid project =
     \<lparr>sess_ID = sid, sess_UserID = SoloUserID, sess_Project = project, sess_Summary = [],
      sess_ActiveModel = [], sess_ModelOverride = None, sess_RoutingOverrides = None,
      sess_PinnedItems = None, sess_CompactionState = None, sess_TotalCost = 0,
      sess_TotalInputTokens = 0, sess_TotalOutputTokens = 0, sess_ContextPct = 0,
      sess_Status = ''active'', sess_LockOwner = None, sess_LockExpiresAt = None,
      sess_CreatedAt = env_now E, sess_UpdatedAt = env_now E\<rparr>"

definition handleSessionCreate ::
  "store_env \<Rightarrow> string + ProjectContext \<Rightarrow> Connection \<Rightarrow> Runtime \<Rightarrow> SessionCreateResponse rt_served" where
  "handleSessionCreate E params c rt =
     (case params of
        Inl e \<Rightarrow> (c, rt, [], Inl (transportInvalidParams (''decode session.create: '' @ e)))
      | Inr project \<Rightarrow>
          (let sid = env_uuid E 8; sess = new_session E sid (pc_Root project)
           in case CreateSession E sess (rt_db rt) of
                (d, Inl e) \<Rightarrow> (c, set_db d rt, [], internal ''create session'' e)
              | (d, Inr _) \<Rightarrow>
                  (case AcquireSessionLock E sid (cn_id c) (env_now E + SessionLockTTL) d of
                     (d', Inl e) \<Rightarrow> (c, set_db d' rt, [], internal ''acquire lock'' e)
                   | (d', Inr (False, owner)) \<Rightarrow>
                       (c, set_db d' rt, [], Inl (refuse CodeSessionLocked ''freshly created session locked''))
                   | (d', Inr (True, _)) \<Rightarrow>
                       (let c1 = c\<lparr>cn_caps := (cn_caps c)\<lparr>cm_project := project\<rparr>, cn_sessionID := sid\<rparr>;
                            (rt1, active) = EnsureActive sid c1 (set_db d' rt);
                            rt2 = set_active (active\<lparr>as_UserID := sess_UserID sess,
                                                     as_Project := sess_Project sess\<rparr>) rt1;
                            (c2, timers) = cancelGracePeriodRelease c1 (rt_timers rt2)
                        in (c2, rt2\<lparr>rt_timers := timers\<rparr>, [],
                            Inr \<lparr>scr_SessionID = sid, scr_Project = cm_project (cn_caps c2)\<rparr>)))))"

definition handleSessionResume ::
  "store_env \<Rightarrow> string + SessionResume \<Rightarrow> Connection \<Rightarrow> Runtime \<Rightarrow> SessionResumeResponse rt_served" where
  "handleSessionResume E params c rt =
     with_session E (\<lambda>e. ''decode session.resume: '' @ e) sre_SessionID (\<lambda>_. None) session_not_found params c rt
       (\<lambda>req sess.
          case AcquireSessionLock E (sre_SessionID req) (cn_id c) (env_now E + SessionLockTTL) (rt_db rt) of
            (d, Inl e) \<Rightarrow> (c, set_db d rt, [], internal ''acquire lock'' e)
          | (d, Inr (False, owner)) \<Rightarrow>
              (c, set_db d rt, [], Inl (refuse CodeSessionLocked
                 (''session '' @ go_quote (sre_SessionID req) @ '' is locked by another owner'')))
          | (d, Inr (True, _)) \<Rightarrow>
              (let c1 = c\<lparr>cn_caps := (cn_caps c)\<lparr>cm_project := sre_Project req\<rparr>\<rparr>; rt0 = set_db d rt
               in case ListTurns E (sre_SessionID req) d of
                    Inl e \<Rightarrow> (c1, rt0, [], internal ''list turns'' e)
                  | Inr turns \<Rightarrow>
                      (let (rt1, active) = EnsureActive (sre_SessionID req) c1 rt0;
                           (conv, bad) = RestoreFromTurns turns (as_Conversation active);
                           active1 = active\<lparr>as_Conversation := conv\<rparr>
                       in case bad of
                            Some tid \<Rightarrow> (c1, set_active active1 rt1, [], Inl (refuse CodeInternalError
                               (''restore conversation: turn '' @ tid)))
                          | None \<Rightarrow>
                              (let active2 = active1\<lparr>as_UserID := sess_UserID sess,
                                     as_Project := sess_Project sess,
                                     as_ModelOverride := (case sess_ModelOverride sess of
                                        None \<Rightarrow> as_ModelOverride active1 | Some m \<Rightarrow> m),
                                     as_TotalCost := sess_TotalCost sess,
                                     as_TotalInputTokens := sess_TotalInputTokens sess,
                                     as_TotalOutputTokens := sess_TotalOutputTokens sess,
                                     as_ContextPct := sess_ContextPct sess\<rparr>;
                                   rt2 = set_active active2 rt1;
                                   (c2, timers) = cancelGracePeriodRelease
                                      (c1\<lparr>cn_sessionID := sre_SessionID req\<rparr>) (rt_timers rt2)
                               in (c2, rt2\<lparr>rt_timers := timers\<rparr>, [],
                                   Inr \<lparr>srr_SessionID = sre_SessionID req, srr_Model = sess_ActiveModel sess,
                                        srr_ModelOverride = (case sess_ModelOverride sess of None \<Rightarrow> [] | Some m \<Rightarrow> m),
                                        srr_Project = cm_project (cn_caps c2)\<rparr>)))))"

subsection \<open>Listing and details\<close>

definition list_entry :: "(gotime \<Rightarrow> string) \<Rightarrow> SessionSummary \<Rightarrow> SessionListEntry" where
  "list_entry clock ss =
     (let s = sum_Session ss in
      \<lparr>sle_ID = sess_ID s, sle_Project = sess_Project s, sle_Status = sess_Status s,
       sle_Summary = sess_Summary s, sle_LastActive = clock (sess_UpdatedAt s),
       sle_ContextPct = sess_ContextPct s, sle_TotalCost = sess_TotalCost s,
       sle_TurnCount = sum_TurnCount ss, sle_Model = sess_ActiveModel s,
       sle_ModelOverride = (case sess_ModelOverride s of None \<Rightarrow> [] | Some m \<Rightarrow> m),
       sle_LastTurnSummary = sum_LastTurnSummary ss, sle_PinnedCount = sum_PinnedCount ss\<rparr>)"

definition handleSessionList ::
  "store_env \<Rightarrow> (string \<Rightarrow> int) \<Rightarrow> (gotime \<Rightarrow> string) \<Rightarrow> Connection \<Rightarrow> Runtime
     \<Rightarrow> SessionListEntry list rt_served" where
  "handleSessionList E pins clock c rt =
     (case SessionSummaries E pins \<lparr>sf_UserID = SoloUserID,
              sf_Project = pc_Root (cm_project (cn_caps c)), sf_Status = [], sf_Since = None,
              sf_Limit = 50, sf_Offset = 0\<rparr> (rt_db rt) of
        Inl e \<Rightarrow> (c, rt, [], internal ''session summaries'' e)
      | Inr summaries \<Rightarrow> (c, rt, [], Inr (map (list_entry clock) summaries)))"

text \<open>A turn whose content does not decode, or says nothing, is shown by its role.\<close>

definition turnSummary :: "Turn \<Rightarrow> string" where
  "turnSummary t =
     (if turn_Compacted t \<and> turn_CompactedSummary t \<noteq> [] then turn_CompactedSummary t
      else case json_unmarshal (as_struct (\<lambda>j. as_string (jfield ''content'' j)))
                  (case turn_Content t of None \<Rightarrow> [] | Some s \<Rightarrow> s) of
             None \<Rightarrow> turn_Role t
           | Some txt \<Rightarrow>
               (if txt = [] then turn_Role t
                else if length txt > 80 then take 80 txt @ ''...'' else txt))"

definition turn_summary_row :: "Turn \<Rightarrow> TurnSummary" where
  "turn_summary_row t =
     \<lparr>tsu_Sequence = turn_Sequence t, tsu_Summary = turnSummary t, tsu_Compacted = turn_Compacted t,
      tsu_OriginalTurns = turn_OriginalTurns t, tsu_Model = turn_Model t, tsu_Cost = turn_Cost t\<rparr>"

definition or_nil :: "'e + 'a list \<Rightarrow> 'a list" where
  "or_nil r = (case r of Inl _ \<Rightarrow> [] | Inr xs \<Rightarrow> xs)"

definition handleSessionDetails ::
  "store_env \<Rightarrow> (gotime \<Rightarrow> string) \<Rightarrow> string + string \<Rightarrow> Connection \<Rightarrow> Runtime \<Rightarrow> SessionDetail rt_served" where
  "handleSessionDetails E clock params c rt =
     with_session E (\<lambda>e. ''decode session.details: '' @ e) id (\<lambda>_. None) session_not_found params c rt
       (\<lambda>sid sess.
          case ListTurns E sid (rt_db rt) of
            Inl e \<Rightarrow> (c, rt, [], internal ''list turns'' e)
          | Inr turns \<Rightarrow>
              (case ListServerEvents E sid (rt_db rt) of
                 Inl e \<Rightarrow> (c, rt, [], internal ''list events'' e)
               | Inr events \<Rightarrow>
                   (c, rt, [], Inr
                     \<lparr>sd_ID = sess_ID sess, sd_Summary = sess_Summary sess,
                      sd_CreatedAt = clock (sess_CreatedAt sess), sd_LastActive = clock (sess_UpdatedAt sess),
                      sd_Model = sess_ActiveModel sess,
                      sd_ModelOverride = (case sess_ModelOverride sess of None \<Rightarrow> [] | Some m \<Rightarrow> m),
                      sd_ContextPct = sess_ContextPct sess, sd_TotalCost = sess_TotalCost sess,
                      sd_Turns = map turn_summary_row turns,
                      sd_PinnedItems = (case sess_PinnedItems sess of None \<Rightarrow> []
                        | Some j \<Rightarrow> (case json_unmarshal (as_list as_string) j of None \<Rightarrow> [] | Some ps \<Rightarrow> ps)),
                      sd_FilesTouched = or_nil (SessionFilesTouched E sid (rt_db rt)),
                      sd_FilesModified = or_nil (SessionFilesModified E sid (rt_db rt)),
                      sd_ServerEvents = map (\<lambda>e. (sev_Type e, clock (sev_At e), sev_Detail e)) events\<rparr>)))"

subsection \<open>Clearing and forking\<close>

definition manual_event :: "store_env \<Rightarrow> string \<Rightarrow> string \<Rightarrow> string \<Rightarrow> ServerSessionEvent" where
  "manual_event E sid ty detail = \<lparr>sev_ID = 0, sev_SessionID = sid, sev_Type = ty,
     sev_Detail = detail, sev_Payload = [], sev_At = env_now E\<rparr>"

definition handleSessionClear ::
  "store_env \<Rightarrow> string + string \<Rightarrow> Connection \<Rightarrow> Runtime \<Rightarrow> (int \<times> bool) rt_served" where
  "handleSessionClear E params c rt =
     with_session E (\<lambda>e. ''decode session.clear: '' @ e) id (\<lambda>_. None) session_not_found params c rt
       (\<lambda>sid sess.
          let (rt1, active) = EnsureActive sid c rt;
              (conv, cleared) = Reset (as_Conversation active);
              rt2 = set_active (active\<lparr>as_Conversation := conv\<rparr>) rt1;
              (d, _) = AppendServerEvent E (manual_event E sid ''manual_clear''
                         (''cleared '' @ itoa cleared @ '' in-memory turns'')) (rt_db rt2)
          in (c, set_db d rt2, [], Inr (cleared, True)))"

text \<open>
  The copies of a fork, one statement each, in rounds numbered like their identifiers, each of which can
  fail on its own: a failure leaves the copies made so far.
\<close>

fun copy_turns :: "store_env \<Rightarrow> string \<Rightarrow> nat \<Rightarrow> Turn list \<Rightarrow> db \<Rightarrow> db \<times> store_error option" where
  "copy_turns E sid i [] d = (d, None)"
| "copy_turns E sid i (t # ts) d =
     (case CreateTurn (at_round i E) (t\<lparr>turn_ID := env_uuid E i, turn_SessionID := sid, turn_CreatedAt := env_now E\<rparr>) d of
        (d', Inl e) \<Rightarrow> (d', Some e)
      | (d', Inr _) \<Rightarrow> copy_turns E sid (i + 1) ts d')"

definition forked_session :: "store_env \<Rightarrow> string \<Rightarrow> Session \<Rightarrow> Session" where
  "forked_session E sid src = (new_session E sid (sess_Project src))
     \<lparr>sess_UserID := sess_UserID src, sess_Summary := sess_Summary src,
      sess_ActiveModel := sess_ActiveModel src, sess_PinnedItems := sess_PinnedItems src,
      sess_CompactionState := sess_CompactionState src\<rparr>"

definition handleSessionFork ::
  "store_env \<Rightarrow> string + string \<Rightarrow> Connection \<Rightarrow> Runtime \<Rightarrow> SessionForkResponse rt_served" where
  "handleSessionFork E params c rt =
     with_session E (\<lambda>e. ''decode session.fork: '' @ e) id (\<lambda>_. None) session_not_found params c rt
       (\<lambda>sid src.
          let newID = env_uuid E 8 in
          case CreateSession E (forked_session E newID src) (rt_db rt) of
            (d, Inl e) \<Rightarrow> (c, set_db d rt, [], internal ''create forked session'' e)
          | (d, Inr _) \<Rightarrow>
              (case ListTurns E (sess_ID src) d of
                 Inl e \<Rightarrow> (c, set_db d rt, [], internal ''list turns'' e)
               | Inr turns \<Rightarrow>
                   (case copy_turns E newID 9 turns d of
                      (d', Some e) \<Rightarrow> (c, set_db d' rt, [], internal ''copy turn'' e)
                    | (d', None) \<Rightarrow>
                        (let (d'', _) = AppendServerEvent E (manual_event E (sess_ID src) ''fork''
                                          (''forked to '' @ newID)) d'
                         in (c, set_db d'' rt, [],
                             Inr \<lparr>sfr_NewSessionID = newID, sfr_OriginalSessionID = sess_ID src\<rparr>)))))"

subsection \<open>Recovery\<close>

definition handleSessionSync ::
  "(nat \<Rightarrow> nat) \<Rightarrow> string + string \<Rightarrow> Connection \<Rightarrow> Runtime \<Rightarrow> SessionSyncResponse rt_served" where
  "handleSessionSync pick params c rt =
     (case params of
        Inl e \<Rightarrow> (c, rt, [], Inl (transportInvalidParams (''decode session.sync: '' @ e)))
      | Inr sid \<Rightarrow>
          (if sid = [] then (c, rt, [], Inl (transportInvalidParams ''session_id is required''))
           else case GetActiveSession sid rt of
             None \<Rightarrow> (c, rt, [], Inl (refuse CodeSessionNotFound
                        (''session '' @ go_quote sid @ '' is not active on this server'')))
           | Some active \<Rightarrow>
               (let pending = PendingToolCalls (as_Conversation active);
                    inFlight = (case rt_turns rt of [] \<Rightarrow> []
                      | ts \<Rightarrow> fst (ts ! (pick (length ts) mod length ts)))
                in (c, rt, [], Inr
                     \<lparr>ssr_SessionID = sid, ssr_TurnID = inFlight,
                      ssr_Status = (if inFlight \<noteq> [] then ''streaming''
                                    else if pending \<noteq> [] then ''pending_tool_result'' else ''complete''),
                      ssr_PendingToolCalls = map (\<lambda>tc. (call_ID tc, call_Name tc)) pending,
                      ssr_TokenReplayAvailable = False\<rparr>))))"

subsection \<open>Models\<close>

definition handleModelList :: "Connection \<Rightarrow> Runtime \<Rightarrow> ModelListResponse rt_served" where
  "handleModelList c rt = (c, rt, [], Inr
     \<lparr>mlr_Models = model_All (rt_models rt),
      mlr_CurrentOverride = (if cn_sessionID c = [] then []
        else case GetActiveSession (cn_sessionID c) rt of None \<Rightarrow> [] | Some s \<Rightarrow> as_ModelOverride s),
      mlr_RoutingPolicy = rt_routing rt\<rparr>)"

definition model_required :: "ModelSwitch \<Rightarrow> TransportError option" where
  "model_required req = (if msw_Model req = []
     then Some (transportInvalidParams (''model is required (use '' @ go_quote ''auto'' @ '' to clear)''))
     else None)"

definition set_override :: "string \<Rightarrow> string \<Rightarrow> Runtime \<Rightarrow> Runtime" where
  "set_override sid m rt = (case GetActiveSession sid rt of None \<Rightarrow> rt
     | Some s \<Rightarrow> rt\<lparr>rt_active := AList.update sid (s\<lparr>as_ModelOverride := m\<rparr>) (rt_active rt)\<rparr>)"

definition handleModelSwitch ::
  "store_env \<Rightarrow> string + ModelSwitch \<Rightarrow> Connection \<Rightarrow> Runtime \<Rightarrow> ModelSwitchResponse rt_served" where
  "handleModelSwitch E params c rt =
     with_session E (\<lambda>e. ''decode model.switch: '' @ e) msw_SessionID model_required session_not_found
       params c rt
       (\<lambda>req sess.
          if msw_Model req = ''auto'' then
            (case UpdateSession E (sess\<lparr>sess_ModelOverride := None\<rparr>) (rt_db rt) of
               (d, Inl e) \<Rightarrow> (c, set_db d rt, [], internal ''persist session'' e)
             | (d, Inr _) \<Rightarrow>
                 (c, set_override (msw_SessionID req) [] (set_db d rt), [],
                  Inr \<lparr>msr_OverrideSet = False, msr_Model = [], msr_Reason = ''override cleared''\<rparr>))
          else case model_Get (msw_Model req) (rt_models rt) of
            None \<Rightarrow> (c, rt, [], Inl (refuse CodeModelUnavailable
                       (''model '' @ go_quote (msw_Model req) @ '' is not available'')))
          | Some entry \<Rightarrow>
              (case UpdateSession E (sess\<lparr>sess_ModelOverride := Some (msw_Model req)\<rparr>) (rt_db rt) of
                 (d, Inl e) \<Rightarrow> (c, set_db d rt, [], internal ''persist session'' e)
               | (d, Inr _) \<Rightarrow>
                   (c, set_override (msw_SessionID req) (msw_Model req) (set_db d rt),
                    [NModelSelected \<lparr>ms_Model = msw_Model req, ms_Provider = me_Provider entry,
                                     ms_Reason = ''model.switch''\<rparr>],
                    Inr \<lparr>msr_OverrideSet = True, msr_Model = msw_Model req,
                         msr_Reason = ''override applied''\<rparr>)))"

end
