(* ===== verification/Dispatch.thy ===== *)
theory Dispatch
  imports Prompt Provider_Format Routing
begin

text \<open>
  Dispatch of a turn to its provider (\<open>internal/runtime/dispatch.go\<close>): the HTTP request built from the
  conversation and the endpoint, and what becomes of the answer.  The network is a function from
  the requests on the wire to answers; between it and the code is Go's HTTP client, which follows
  redirects.  The diagnostic data of an error is left out: no reply carries it.
\<close>

record DispatchOpts =
  dp_Conversation :: Conversation
  dp_SystemPrompt :: string
  dp_Model :: string
  dp_EndpointName :: string
  dp_RunID :: string
  dp_TraceID :: string
  dp_MaxTokens :: int
  dp_Temperature :: "string option"
  dp_Tools :: "ToolDefinition list"
  dp_Capabilities :: "string list"
  dp_Stream :: bool
  dp_WindowSize :: int

text \<open>The headers in the order in which they are set.\<close>

record out_request =
  oq_Method :: string
  oq_URL :: string
  oq_Headers :: "(string \<times> string) list"
  oq_Body :: string

text \<open>An answer: no response, with the text of the error, or the status, the \<open>Location\<close> (empty for none) and the body.\<close>

datatype 'b net_answer = NoResponse string | HttpResponse nat string 'b

text \<open>
  What is outside: the answers of the network, the texts of the errors of the adapters, the error of an
  URL that \<open>net/http\<close> does not take, and the host of an URL as \<open>net/url\<close> and \<open>net\<close> parse it, with whether it
  is a loopback address; and, of the parsed URLs the HTTP client compares, a location resolved against a
  URL, whether the host of the second URL is that of the first or below it, and the \<open>Referer\<close> from the first
  to the second (empty for none).
\<close>

record 'b outside =
  ox_net :: "out_request \<Rightarrow> 'b net_answer"
  ox_format_text :: "provider_error \<Rightarrow> string"
  ox_bad_url :: "string \<Rightarrow> string option"
  ox_hostname :: "string \<Rightarrow> (string \<times> bool) option"
  ox_resolve :: "string \<Rightarrow> string \<Rightarrow> string + string"
  ox_same_site :: "string \<Rightarrow> string \<Rightarrow> bool"
  ox_referer :: "string \<Rightarrow> string \<Rightarrow> string"

subsection \<open>Go's HTTP client\<close>

text \<open>
  \<open>http.Client.Do\<close> with the default redirect policy (Go 1.25): 301, 302 and 303 are followed by a GET
  without the body and its headers, 307 and 308 repeat the request, after the body has been dropped once
  it stays away, at most ten requests are sent.  The headers of the first request are copied, the
  sensitive ones, of which the code sets \<open>Authorization\<close>, not once a redirect has left the site of the
  first request.
\<close>

definition is_redirect :: "nat \<Rightarrow> bool" where
  "is_redirect status \<longleftrightarrow> status \<in> {301, 302, 303, 307, 308}"

definition keeps_body :: "nat \<Rightarrow> bool" where
  "keeps_body status \<longleftrightarrow> status \<in> {307, 308}"

definition copied_headers :: "bool \<Rightarrow> bool \<Rightarrow> (string \<times> string) list \<Rightarrow> (string \<times> string) list" where
  "copied_headers strip with_body hs =
     filter (\<lambda>h. \<not> (strip \<and> fst h = ''Authorization'') \<and> \<not> (\<not> with_body \<and> fst h = ''Content-Type'')) hs"

definition redirect_request ::
  "'b outside \<Rightarrow> out_request \<Rightarrow> bool \<Rightarrow> bool \<Rightarrow> out_request \<Rightarrow> nat \<Rightarrow> string \<Rightarrow> out_request" where
  "redirect_request X first strip with_body q status url =
     \<lparr>oq_Method = (if keeps_body status \<or> oq_Method q \<in> {''GET'', ''HEAD''} then oq_Method q else ''GET''),
      oq_URL = url,
      oq_Headers = copied_headers strip with_body (oq_Headers first)
        @ (if ox_referer X (oq_URL q) url = [] then [] else [(''Referer'', ox_referer X (oq_URL q) url)]),
      oq_Body = (if with_body then oq_Body first else [])\<rparr>"

text \<open>The requests on the wire, from \<open>q\<close> on, and what the client returns.\<close>

fun follow ::
  "'b outside \<Rightarrow> out_request \<Rightarrow> nat \<Rightarrow> bool \<Rightarrow> bool \<Rightarrow> out_request \<Rightarrow> out_request list \<times> 'b net_answer" where
  "follow X first left strip with_body q =
     (case ox_net X q of
        NoResponse e \<Rightarrow> ([q], NoResponse e)
      | HttpResponse status loc body \<Rightarrow>
          (if \<not> is_redirect status \<or> loc = [] then ([q], HttpResponse status loc body)
           else case ox_resolve X (oq_URL q) loc of
             Inl e \<Rightarrow> ([q], NoResponse (''Post '' @ go_quote (oq_URL q) @ '': failed to parse Location header ''
                        @ go_quote loc @ '': '' @ e))
           | Inr url \<Rightarrow>
               (case left of
                  0 \<Rightarrow> ([q], NoResponse (''Post '' @ go_quote loc @ '': stopped after 10 redirects''))
                | Suc n \<Rightarrow>
                    (let strip' = (strip \<or> \<not> ox_same_site X (oq_URL first) url);
                         with_body' = (with_body \<and> keeps_body status);
                         (qs, a) = follow X first n strip' with_body'
                                     (redirect_request X first strip' with_body' q status url)
                     in (q # qs, a)))))"

declare follow.simps [simp del]

definition client_Do :: "'b outside \<Rightarrow> out_request \<Rightarrow> out_request list \<times> 'b net_answer" where
  "client_Do X q = follow X q 9 False True q"

subsection \<open>The request\<close>

definition HeaderRunID :: string where "HeaderRunID = ''X-Modeltap-Run-Id''"
definition HeaderTraceID :: string where "HeaderTraceID = ''X-Modeltap-Trace-Id''"

definition providerEndpointPath :: "string \<Rightarrow> string" where
  "providerEndpointPath t =
     (if t = ProviderTypeAnthropic then ''/v1/messages''
      else if t = ProviderTypeOpenAI then ''/v1/chat/completions''
      else if t = ProviderTypeOllama then ''/api/chat''
      else if t = ProviderTypeMLX then ''/v1/chat/completions'' else [])"

definition setAuthHeaders :: "ProviderEndpoint \<Rightarrow> (string \<times> string) list" where
  "setAuthHeaders ep =
     (if ep_Type ep = ProviderTypeAnthropic
      then (if ep_APIKey ep = [] then [] else [(''x-api-key'', ep_APIKey ep)]) @ [(''anthropic-version'', ''2023-06-01'')]
      else if ep_Type ep = ProviderTypeOpenAI \<or> ep_Type ep = ProviderTypeMLX
      then (if ep_APIKey ep = [] then [] else [(''Authorization'', ''Bearer '' @ ep_APIKey ep)])
      else [])"

definition shouldStampCorrelationHeaders :: "(string \<Rightarrow> (string \<times> bool) option) \<Rightarrow> ProviderEndpoint \<Rightarrow> bool" where
  "shouldStampCorrelationHeaders hostname ep =
     (if ep_Upstream ep = [] then False
      else case hostname (ep_Host ep) of None \<Rightarrow> False
           | Some (host, loopback) \<Rightarrow> host = ''localhost'' \<or> loopback)"

definition dispatchError :: "string \<Rightarrow> string \<Rightarrow> TransportError" where
  "dispatchError name cause = refuse CodeProviderError (''provider '' @ go_quote name @ '': '' @ cause)"

definition formatError :: "string \<Rightarrow> string \<Rightarrow> TransportError" where
  "formatError name cause = refuse CodeProviderError (''provider '' @ go_quote name @ '' format: '' @ cause)"

definition httpError :: "string \<Rightarrow> nat \<Rightarrow> TransportError" where
  "httpError name status =
     refuse CodeProviderError (''provider '' @ go_quote name @ '' returned HTTP '' @ nat_str status)"

definition format_opts :: "DispatchOpts \<Rightarrow> FormatMessagesOpts" where
  "format_opts opts =
     \<lparr>fm_Messages = cv_turns (dp_Conversation opts), fm_SystemPrompt = dp_SystemPrompt opts,
      fm_WindowSize = dp_WindowSize opts, fm_Model = dp_Model opts, fm_MaxTokens = dp_MaxTokens opts,
      fm_Temperature = dp_Temperature opts, fm_Stream = dp_Stream opts, fm_Tools = [], fm_Capabilities = []\<rparr>"

definition trim_right_slash :: "string \<Rightarrow> string" where
  "trim_right_slash s = rev (dropWhile (\<lambda>c. c = CHR ''/'') (rev s))"

definition request_headers :: "'b outside \<Rightarrow> DispatchOpts \<Rightarrow> ProviderEndpoint \<Rightarrow> (string \<times> string) list" where
  "request_headers X opts ep =
     setAuthHeaders ep @ [(''Content-Type'', ''application/json'')]
     @ (if dp_RunID opts \<noteq> [] \<and> shouldStampCorrelationHeaders (ox_hostname X) ep
        then [(HeaderRunID, dp_RunID opts)] else [])
     @ (if dp_TraceID opts \<noteq> [] \<and> shouldStampCorrelationHeaders (ox_hostname X) ep
        then [(HeaderTraceID, dp_TraceID opts)] else [])"

text \<open>The request, when there is one to send.\<close>

definition dispatch_request ::
  "'b outside \<Rightarrow> adapters \<Rightarrow> ProviderRegistry \<Rightarrow> DispatchOpts \<Rightarrow> TransportError + out_request" where
  "dispatch_request X ads eps opts =
     (let name = dp_EndpointName opts in
      case endpoint_Get name eps of
        None \<Rightarrow> Inl (dispatchError name (''endpoint '' @ go_quote name @ '' not registered''))
      | Some ep \<Rightarrow>
          (case adapter_Get (ep_Type ep) ads of
             None \<Rightarrow> Inl (dispatchError name (''no adapter registered for provider type '' @ go_quote (ep_Type ep)))
           | Some a \<Rightarrow>
               (case FormatMessages a (format_opts opts) of
                  Inl e \<Rightarrow> Inl (formatError name (ox_format_text X e))
                | Inr body \<Rightarrow>
                    (let url = trim_right_slash (ep_Host ep) @ providerEndpointPath (ep_Type ep) in
                     case ox_bad_url X url of
                       Some e \<Rightarrow> Inl (dispatchError name (''new request: '' @ e))
                     | None \<Rightarrow> Inr \<lparr>oq_Method = ''POST'', oq_URL = url, oq_Headers = request_headers X opts ep, oq_Body = body\<rparr>))))"

text \<open>The requests given to the HTTP client, and the body of the response or the error.\<close>

definition turn_Dispatch ::
  "'b outside \<Rightarrow> adapters \<Rightarrow> ProviderRegistry \<Rightarrow> DispatchOpts \<Rightarrow> out_request list \<times> (TransportError + 'b)" where
  "turn_Dispatch X ads eps opts =
     (case dispatch_request X ads eps opts of
        Inl e \<Rightarrow> ([], Inl e)
      | Inr q \<Rightarrow> ([q], case snd (client_Do X q) of
            NoResponse e \<Rightarrow> Inl (dispatchError (dp_EndpointName opts) (''http: '' @ e))
          | HttpResponse status loc body \<Rightarrow>
              (if status \<ge> 400 then Inl (httpError (dp_EndpointName opts) status) else Inr body)))"

text \<open>The requests that leave on the wire.\<close>

definition wire_requests :: "'b outside \<Rightarrow> adapters \<Rightarrow> ProviderRegistry \<Rightarrow> DispatchOpts \<Rightarrow> out_request list" where
  "wire_requests X ads eps opts =
     (case dispatch_request X ads eps opts of Inl e \<Rightarrow> [] | Inr q \<Rightarrow> fst (client_Do X q))"

text \<open>\<open>DispatchSync\<close> reads the whole body; \<open>read\<close> is what reading it gives.\<close>

definition DispatchSync ::
  "('b \<Rightarrow> string + string) \<Rightarrow> 'b outside \<Rightarrow> adapters \<Rightarrow> ProviderRegistry \<Rightarrow> DispatchOpts
     \<Rightarrow> out_request list \<times> (TransportError + string)" where
  "DispatchSync read X ads eps opts =
     (case turn_Dispatch X ads eps (opts\<lparr>dp_Stream := False\<rparr>) of
        (qs, Inl e) \<Rightarrow> (qs, Inl e)
      | (qs, Inr body) \<Rightarrow> (qs, case read body of
            Inl e \<Rightarrow> Inl (dispatchError (dp_EndpointName opts) (''read body: '' @ e))
          | Inr s \<Rightarrow> Inr s))"

end
