(* ===== verification/Turn_Service.thy ===== *)
theory Turn_Service
  imports Session_Service Dispatch Transport
begin

text \<open>
  Turns (\<open>internal/runtime/turn.go\<close>, \<open>ValidateTurnSubmit\<close> of \<open>transport.go\<close>): the request that appends a
  user turn, starts its run and dispatches it, the goroutine it leaves behind, the cancellation of a
  turn and the result of a tool.
\<close>

subsection \<open>The turns in flight\<close>

definition maxTrackedTurns :: nat where
  "maxTrackedTurns = 4096"

text \<open>A full tracker forgets one turn, the one the iteration over the map meets first.\<close>

definition turns_register :: "(nat \<Rightarrow> nat) \<Rightarrow> string \<Rightarrow> nat \<Rightarrow> (string \<times> nat) list \<Rightarrow> (string \<times> nat) list" where
  "turns_register pick turnID cancel turns =
     AList.update turnID cancel
       (if map_of turns turnID = None \<and> length turns \<ge> maxTrackedTurns
        then AList.delete (fst (turns ! (pick (length turns) mod length turns))) turns else turns)"

definition turns_cancel :: "string \<Rightarrow> (string \<times> nat) list \<Rightarrow> (string \<times> nat) list \<times> nat list \<times> bool" where
  "turns_cancel turnID turns =
     (case map_of turns turnID of None \<Rightarrow> (turns, [], False)
      | Some c \<Rightarrow> (AList.delete turnID turns, [c], True))"

definition turns_deregister :: "string \<Rightarrow> (string \<times> nat) list \<Rightarrow> (string \<times> nat) list" where
  "turns_deregister turnID turns = AList.delete turnID turns"

subsection \<open>The request\<close>

definition wire_result_of :: "json \<Rightarrow> WireToolResult option" where
  "wire_result_of = as_struct (\<lambda>j.
     obind (jstr_at ''tool_call_id'' j) (\<lambda>i.
     obind (jstr_at ''status'' j) (\<lambda>st.
     obind (jstr_at ''output'' j) (\<lambda>out.
     obind (jstr_at ''output_type'' j) (\<lambda>ot.
     obind (jstr_at ''error'' j) (\<lambda>err.
     obind (jstr_at ''reason'' j) (\<lambda>rs.
     Some \<lparr>wtr_ToolCallID = i, wtr_Status = st, wtr_Output = out, wtr_OutputType = ot,
           wtr_Error = err, wtr_Reason = rs\<rparr>)))))))"

text \<open>A paste is decoded and not used.\<close>

definition paste_of :: "json \<Rightarrow> unit option" where
  "paste_of = as_struct (\<lambda>j.
     obind (jstr_at ''raw'' j) (\<lambda>_. obind (jstr_at ''content'' j) (\<lambda>_. obind (jstr_at ''intent'' j) (\<lambda>_. Some ()))))"

definition submit_of :: "json \<Rightarrow> TurnSubmit option" where
  "submit_of = as_struct (\<lambda>j.
     obind (jstr_at ''turn_id'' j) (\<lambda>t.
     obind (jstr_at ''session_id'' j) (\<lambda>s.
     obind (jint_at ''sequence'' j) (\<lambda>n.
     obind (jstr_at ''mode'' j) (\<lambda>m.
     obind (jstr_at ''content'' j) (\<lambda>c.
     obind (jstr_at ''idempotency_key'' j) (\<lambda>k.
     obind (as_list attachment_of (jfield ''attachments'' j)) (\<lambda>ats.
     obind (jptr_at paste_of ''paste'' j) (\<lambda>_.
     obind (as_list wire_result_of (jfield ''tool_results'' j)) (\<lambda>trs.
     Some \<lparr>ts_TurnID = t, ts_SessionID = s, ts_Sequence = n, ts_Mode = m, ts_Content = c,
           ts_IdempotencyKey = k, ts_Attachments = ats, ts_ToolResults = trs\<rparr>))))))))))"

definition mode_Valid :: "string \<Rightarrow> bool" where
  "mode_Valid m = (m = ModePlan \<or> m = ModeBuild \<or> m = ModeAuto)"

definition ValidateTurnSubmit :: "string \<Rightarrow> TransportError + TurnSubmit" where
  "ValidateTurnSubmit raw =
     (case json_unmarshal as_map raw of
        None \<Rightarrow> Inl (transportInvalidParams ''invalid turn.submit JSON'')
      | Some probe \<Rightarrow>
          (if \<not> map_has ''sequence'' probe
           then Inl (transportInvalidParams ''turn.submit requires sequence field'')
           else case json_unmarshal submit_of raw of
             None \<Rightarrow> Inl (transportInvalidParams ''decode turn.submit'')
           | Some ts \<Rightarrow>
               (if \<not> mode_Valid (ts_Mode ts)
                then Inl (transportInvalidParams (''invalid mode: '' @ ts_Mode ts)) else Inr ts)))"

text \<open>The first attachment that is too large by itself or with those before it.\<close>

fun attachment_excess :: "int \<Rightarrow> nat \<Rightarrow> int \<Rightarrow> Attachment list \<Rightarrow> string option" where
  "attachment_excess cap i tot [] = None"
| "attachment_excess cap i tot (a # as) =
     (let size = int (length (atm_Raw a)) + int (length (atm_Content a)) in
      if size > cap
      then Some (''attachment '' @ nat_str i @ '' exceeds max_attachment_size ('' @ itoa size @ '' > ''
                   @ itoa cap @ '' bytes)'')
      else if tot + size > cap
      then Some (''attachments total ('' @ itoa (tot + size) @ '' bytes) exceeds max_attachment_size ('' @ itoa cap @ '')'')
      else attachment_excess cap (i + 1) (tot + size) as)"

definition attachments_refused :: "ServerConfig \<Rightarrow> Attachment list \<Rightarrow> string option" where
  "attachments_refused cfg as =
     (if cfg_MaxAttachmentSize cfg > 0 then attachment_excess (cfg_MaxAttachmentSize cfg) 0 0 as else None)"

subsection \<open>Steps of a submission\<close>

text \<open>The session of the turn, created with its lock when it cannot be read.\<close>

definition ensure_session ::
  "store_env \<Rightarrow> Connection \<Rightarrow> string \<Rightarrow> db \<Rightarrow> db \<times> (TransportError + Session)" where
  "ensure_session E c sid d =
     (case GetSession E sid d of
        Inr sess \<Rightarrow>
          (case verifySessionAccess (conn_view c) sess of
             Some err \<Rightarrow> (d, Inl err)
           | None \<Rightarrow> (d, Inr (if sess_UserID sess = [] then sess\<lparr>sess_UserID := SoloUserID\<rparr> else sess)))
      | Inl _ \<Rightarrow>
          (let sess = new_session E sid (pc_Root (cm_project (cn_caps c))) in
           case CreateSession E sess d of
             (d1, Inl e) \<Rightarrow> (d1, internal ''create session'' e)
           | (d1, Inr _) \<Rightarrow>
               (case AcquireSessionLock E sid (cn_id c) (env_now E + SessionLockTTL) d1 of
                  (d2, Inl e) \<Rightarrow> (d2, internal ''acquire lock'' e)
                | (d2, Inr _) \<Rightarrow> (d2, Inr sess))))"

text \<open>The connection bound to a session if it has none, and the active session with its owner.\<close>

definition bind_session :: "string \<Rightarrow> Session \<Rightarrow> Connection \<Rightarrow> Runtime \<Rightarrow> Connection \<times> Runtime \<times> ActiveSession" where
  "bind_session sid sess c rt =
     (let c1 = (if cn_sessionID c = [] then c\<lparr>cn_sessionID := sid\<rparr> else c);
          (rt1, a) = EnsureActive sid c1 rt;
          a1 = (if as_UserID a = [] then a\<lparr>as_UserID := sess_UserID sess\<rparr> else a);
          a2 = (if as_Project a1 = [] then a1\<lparr>as_Project := sess_Project sess\<rparr> else a1)
      in (c1, set_active a2 rt1, a2))"

definition turn_key :: "TurnSubmit \<Rightarrow> string" where
  "turn_key submit = (if ts_IdempotencyKey submit = []
     then ''turn:'' @ ts_SessionID submit @ '':'' @ ts_TurnID submit else ts_IdempotencyKey submit)"

definition foreground_options :: "Connection \<Rightarrow> TurnSubmit \<Rightarrow> createRunOptions" where
  "foreground_options c submit =
     \<lparr>opt_IdempotencyKey = turn_key submit, opt_WorkflowType = RunWorkflowImplementation,
      opt_Title = ts_Content submit, opt_ParentRunID = [], opt_Status = RunStatusRunning,
      opt_AttachmentState = RunAttachmentAttached, opt_AttachedConnectionID = cn_id c\<rparr>"

definition turn_history :: "store_env \<Rightarrow> ActiveSession \<Rightarrow> TurnSubmit \<Rightarrow> CommandHistoryEntry" where
  "turn_history E a submit =
     \<lparr>hist_ID = 0, hist_UserID = as_UserID a, hist_Project = as_Project a, hist_SessionID = Some (as_ID a),
      hist_Content = ts_Content submit, hist_CreatedAt = env_now E\<rparr>"

record TurnSubmitResponse =
  tsr_TurnID :: string
  tsr_SessionID :: string
  tsr_Status :: string
  tsr_RunID :: string

definition turn_accepted :: "TurnSubmit \<Rightarrow> string \<Rightarrow> TurnSubmitResponse" where
  "turn_accepted submit runID = \<lparr>tsr_TurnID = ts_TurnID submit, tsr_SessionID = ts_SessionID submit,
     tsr_Status = ''accepted'', tsr_RunID = runID\<rparr>"

subsection \<open>Dispatch of a submission\<close>

text \<open>The goroutine that is started: the relay, its adapter, its cancel function and the body it reads.\<close>

record 'b relay_job =
  rj_relay :: StreamRelay
  rj_adapter :: "adapter option"
  rj_session :: string
  rj_cancel :: nat
  rj_body :: 'b

text \<open>What becomes of a submission: requests to providers, a goroutine, the reply.\<close>

type_synonym 'b submitted =
  "Runtime \<times> rt_output list \<times> out_request list \<times> 'b relay_job option \<times> (TransportError + TurnSubmitResponse)"

definition TransportError_text :: "TransportError \<Rightarrow> string" where
  "TransportError_text e = ''transport: '' @ te_Message e @ '' (code '' @ itoa (te_Code e) @ '')''"

definition adapterFor :: "string \<Rightarrow> Runtime \<Rightarrow> adapter option" where
  "adapterFor name rt =
     (case endpoint_Get name (rt_providers rt) of None \<Rightarrow> None
      | Some ep \<Rightarrow> adapter_Get (ep_Type ep) (rt_adapters rt))"

text \<open>One step in the life of the run; the run is the one the handler holds, unchanged by a failed step.\<close>

definition run_step ::
  "store_env \<Rightarrow> string \<Rightarrow> string \<Rightarrow> string \<Rightarrow> string \<Rightarrow> string option \<Rightarrow> Run \<times> Runtime \<times> rt_output list
     \<Rightarrow> Run \<times> Runtime \<times> rt_output list" where
  "run_step E typ stage status reason payload s =
     (case s of (r, rt, outs) \<Rightarrow>
        (case appendRunLifecycle E r typ stage status reason payload (rt_srv rt) of
           (srv, out, res) \<Rightarrow>
             (case res of Inl _ \<Rightarrow> r | Inr r' \<Rightarrow> r', rt\<lparr>rt_srv := srv\<rparr>, outs @ map RunOut out)))"

definition fail_turn ::
  "store_env \<Rightarrow> string \<Rightarrow> string \<Rightarrow> string option \<Rightarrow> out_request list \<Rightarrow> TransportError
     \<Rightarrow> Run \<times> Runtime \<times> rt_output list \<Rightarrow> 'b submitted" where
  "fail_turn E stage reason payload qs err s =
     (case run_step E EventRunFailed stage RunStatusFailed reason payload s of
        (r, rt, outs) \<Rightarrow> (rt, outs, qs, None, Inl err))"

definition EventRunStageChanged :: string where
  "EventRunStageChanged = ''run.stage_changed''"

definition turn_MaxTokens :: int where
  "turn_MaxTokens = 4096"

definition turn_opts :: "Run \<Rightarrow> ActiveSession \<Rightarrow> string \<Rightarrow> string \<Rightarrow> ModelEntry \<Rightarrow> Connection \<Rightarrow> DispatchOpts" where
  "turn_opts r a prompt model entry c =
     \<lparr>dp_Conversation = as_Conversation a, dp_SystemPrompt = prompt, dp_Model = model,
      dp_EndpointName = me_Provider entry, dp_RunID = run_ID r, dp_TraceID = run_TraceID r,
      dp_MaxTokens = turn_MaxTokens, dp_Temperature = None, dp_Tools = cm_Tools (cn_caps c),
      dp_Capabilities = [], dp_Stream = True, dp_WindowSize = mi_ContextWindow (me_Info entry)\<rparr>"

text \<open>
  The turn with its model: two steps of the run, the prompt, the request, and the goroutine, which both
  registries know.  \<open>picks\<close> are the choices the two maps make when they are full, \<open>tok\<close> the cancel function.
\<close>

definition send_turn ::
  "store_env \<Rightarrow> 'b outside \<Rightarrow> (nat \<Rightarrow> nat) \<times> (nat \<Rightarrow> nat) \<Rightarrow> nat \<Rightarrow> TurnSubmit \<Rightarrow> string \<Rightarrow> ModelEntry
     \<Rightarrow> ActiveSession \<Rightarrow> Connection \<Rightarrow> Run \<times> Runtime \<times> rt_output list \<Rightarrow> 'b submitted" where
  "send_turn E X picks tok submit model entry a c s =
     (let chosen = Some (json_object [(''model'', json_string model), (''provider'', json_string (me_Provider entry))]);
          s1 = run_step E EventRunStageChanged RunStagePromptPlan RunStatusRunning [] chosen s;
          (r, rt, outs) = run_step E EventRunStageChanged RunStageModelCall RunStatusRunning [] chosen s1;
          pe = SetWindowSize (mi_ContextWindow (me_Info entry)) (rt_prompts rt);
          rt1 = rt\<lparr>rt_prompts := pe\<rparr>;
          prompt = fst (Assemble pe (Some (cn_caps c)) (Some a) (ts_Mode submit))
      in case turn_Dispatch X (rt_adapters rt1) (rt_providers rt1) (turn_opts r a prompt model entry c) of
           (qs, Inl err) \<Rightarrow>
             fail_turn E RunStageModelCall ''provider_dispatch_failed''
               (Some (json_object [(''error'', json_string (TransportError_text err))])) qs err (r, rt1, outs)
         | (qs, Inr body) \<Rightarrow>
             (rt1\<lparr>rt_turns := turns_register (fst picks) (ts_TurnID submit) tok (rt_turns rt1),
                  rt_srv := (rt_srv rt1)\<lparr>sv_runs := register (snd picks) (run_ID r) (ts_TurnID submit)
                    (ts_SessionID submit) (cn_id c) (Some tok) (sv_runs (rt_srv rt1))\<rparr>\<rparr>,
              outs, qs,
              Some \<lparr>rj_relay = \<lparr>sr_turnID = ts_TurnID submit, sr_branchID = [], sr_model = model,
                      sr_provider = me_Provider entry, sr_runID = run_ID r\<rparr>,
                    rj_adapter = adapterFor (me_Provider entry) rt1, rj_session = as_ID a,
                    rj_cancel = tok, rj_body = body\<rparr>,
              Inr (turn_accepted submit (run_ID r))))"

text \<open>The model of the turn, and the errors when there is none or more than one.\<close>

definition route_turn ::
  "store_env \<Rightarrow> 'b outside \<Rightarrow> (nat \<Rightarrow> nat) \<times> (nat \<Rightarrow> nat) \<Rightarrow> nat \<Rightarrow> TurnSubmit \<Rightarrow> ActiveSession \<Rightarrow> Connection
     \<Rightarrow> Run \<times> Runtime \<times> rt_output list \<Rightarrow> 'b submitted" where
  "route_turn E X picks tok submit a c s =
     (let (models, isMulti) = ResolveForTurn (as_ModelOverride a) (ts_Mode submit) (rt_routing (fst (snd s))) in
      if models = [] then
        fail_turn E RunStagePreflight ''model_unavailable'' None []
          (refuse CodeModelUnavailable ''no model resolved by routing policy and no session override set'') s
      else if isMulti then
        fail_turn E RunStagePreflight ''multi_model_not_supported'' None []
          (refuse CodeProviderError (''multi-model routing is not implemented at the Runtime level; ''
             @ ''use sub-agents (FEAT-0013) for parallel model execution'')) s
      else case model_Get (hd models) (rt_models (fst (snd s))) of
        None \<Rightarrow> fail_turn E RunStagePreflight ''model_unavailable'' None []
          (refuse CodeModelUnavailable (''model '' @ go_quote (hd models) @ '' not in registry'')) s
      | Some entry \<Rightarrow> send_turn E X picks tok submit (hd models) entry a c s)"

subsection \<open>The handlers\<close>

definition submit_turn ::
  "store_env \<Rightarrow> 'b outside \<Rightarrow> (nat \<Rightarrow> nat) \<times> (nat \<Rightarrow> nat) \<Rightarrow> nat \<Rightarrow> TurnSubmit \<Rightarrow> Session \<Rightarrow> ActiveSession
     \<Rightarrow> Connection \<Rightarrow> Runtime \<Rightarrow> 'b submitted" where
  "submit_turn E X picks tok submit sess a c rt =
     (case GetRunByIdempotency E (sess_UserID sess) (sess_Project sess) (turn_key submit) (rt_db rt) of
        Inr existing \<Rightarrow> (rt, [], [], None, Inr (turn_accepted submit (run_ID existing)))
      | Inl e \<Rightarrow>
          (if e \<noteq> ErrRunNotFound then (rt, [], [], None, internal ''lookup run idempotency'' e)
           else case AppendUserTurn E submit (as_Conversation a) of
             (_, Inl err) \<Rightarrow> (rt, [], [], None, Inl err)
           | (conv, Inr turn) \<Rightarrow>
               (let a1 = a\<lparr>as_Conversation := conv\<rparr>; rt1 = set_active a1 rt in
                case createForegroundRunWithTurn E sess (foreground_options c submit) turn
                       (Some (turn_history E a1 submit)) (rt_srv rt1) of
                  (srv, out, Inl e) \<Rightarrow>
                    (rt1\<lparr>rt_srv := srv\<rparr>, map RunOut out, [], None, internal ''create foreground run'' e)
                | (srv, out, Inr r) \<Rightarrow>
                    route_turn E X picks tok submit a1 c (r, rt1\<lparr>rt_srv := srv\<rparr>, map RunOut out))))"

definition handleTurnSubmit ::
  "store_env \<Rightarrow> 'b outside \<Rightarrow> (nat \<Rightarrow> nat) \<times> (nat \<Rightarrow> nat) \<Rightarrow> nat \<Rightarrow> string \<Rightarrow> Connection \<Rightarrow> Runtime
     \<Rightarrow> Connection \<times> 'b submitted" where
  "handleTurnSubmit E X picks tok raw c rt =
     (case ValidateTurnSubmit raw of
        Inl err \<Rightarrow> (c, rt, [], [], None, Inl err)
      | Inr ts \<Rightarrow>
          (let submit = (if ts_SessionID ts = [] then ts\<lparr>ts_SessionID := env_uuid E 8\<rparr> else ts) in
           case attachments_refused (rt_config rt) (ts_Attachments submit) of
             Some msg \<Rightarrow> (c, rt, [], [], None, Inl (transportInvalidParams msg))
           | None \<Rightarrow>
               (case ensure_session E c (ts_SessionID submit) (rt_db rt) of
                  (d, Inl err) \<Rightarrow> (c, set_db d rt, [], [], None, Inl err)
                | (d, Inr sess) \<Rightarrow>
                    (case bind_session (ts_SessionID submit) sess c (set_db d rt) of
                       (c1, rt1, a) \<Rightarrow> (c1, submit_turn E X picks tok submit sess a c1 rt1)))))"

text \<open>The replies of the two other requests are the turn with whether it was live, and the identifier of the call.\<close>

definition handleTurnCancel :: "string + string \<Rightarrow> Connection \<Rightarrow> Runtime \<Rightarrow> (string \<times> bool) rt_served" where
  "handleTurnCancel params c rt =
     (case params of
        Inl e \<Rightarrow> (c, rt, [], Inl (transportInvalidParams (''decode turn.cancel: '' @ e)))
      | Inr tid \<Rightarrow>
          (if tid = [] then (c, rt, [], Inl (transportInvalidParams ''turn_id is required''))
           else
             (let runID = runIDForTurn tid (sv_runs (rt_srv rt));
                  (rr, cs, live) = (if runID \<noteq> [] then cancel_run runID (sv_runs (rt_srv rt))
                                    else (sv_runs (rt_srv rt), [], False));
                  rt1 = rt\<lparr>rt_srv := (rt_srv rt)\<lparr>sv_runs := rr\<rparr>\<rparr>;
                  (turns, cs', known) = (if live then (rt_turns rt1, [], True) else turns_cancel tid (rt_turns rt1))
              in (c, rt1\<lparr>rt_turns := turns\<rparr>, map CancelTurn (cs @ cs'), Inr (tid, known)))))"

text \<open>The identifier is the Unix time in nanoseconds.\<close>

definition newID :: "store_env \<Rightarrow> string" where
  "newID E = ''turn-'' @ itoa (env_now E - 62135596800 * 1000000000)"

definition result_submit :: "store_env \<Rightarrow> string \<Rightarrow> Conversation \<Rightarrow> WireToolResult \<Rightarrow> TurnSubmit" where
  "result_submit E sid conv req =
     \<lparr>ts_TurnID = newID E, ts_SessionID = sid, ts_Sequence = cv_userSequence conv + 1, ts_Mode = ModeBuild,
      ts_Content = [], ts_IdempotencyKey = [], ts_Attachments = [], ts_ToolResults = [req]\<rparr>"

definition handleToolResult ::
  "store_env \<Rightarrow> string + WireToolResult \<Rightarrow> Connection \<Rightarrow> Runtime \<Rightarrow> string rt_served" where
  "handleToolResult E params c rt =
     (case params of
        Inl e \<Rightarrow> (c, rt, [], Inl (transportInvalidParams (''decode tool.result: '' @ e)))
      | Inr req \<Rightarrow>
          (if wtr_ToolCallID req = [] then (c, rt, [], Inl (transportInvalidParams ''tool_call_id is required''))
           else if cn_sessionID c = []
           then (c, rt, [], Inl (refuse CodeNotReady ''no active session bound to this connection''))
           else case GetActiveSession (cn_sessionID c) rt of
             None \<Rightarrow> (c, rt, [], Inl (refuse CodeSessionNotFound ''active session not found''))
           | Some a \<Rightarrow>
               (if MatchToolResult (wtr_ToolCallID req) (as_Conversation a) = None
                then (c, rt, [], Inl (transportInvalidParams (''tool_call_id '' @ go_quote (wtr_ToolCallID req)
                        @ '' does not match any pending call'')))
                else case AppendUserTurn E (result_submit E (cn_sessionID c) (as_Conversation a) req) (as_Conversation a) of
                  (_, Inl err) \<Rightarrow> (c, rt, [], Inl err)
                | (conv, Inr turn) \<Rightarrow>
                    (let rt1 = rt\<lparr>rt_active := AList.update (cn_sessionID c) (a\<lparr>as_Conversation := conv\<rparr>) (rt_active rt)\<rparr> in
                     case CreateTurn E turn (rt_db rt1) of
                       (d, Inl e) \<Rightarrow> (c, set_db d rt1, [], internal ''persist tool result turn'' e)
                     | (d, Inr _) \<Rightarrow> (c, set_db d rt1, [], Inr (wtr_ToolCallID req))))))"

end
