(* ===== verification/Compact.thy ===== *)
theory Compact
  imports Session_Service
begin

text \<open>
  Compaction of a session (\<open>internal/runtime/compact.go\<close>): the plan, and what applying it does to the
  stored turns.  Shares and scores are rationals; the product with 0.9 that the code truncates is exact
  for fewer than \<open>2^50\<close> tokens.  A text cut at a byte is taken not to split a character.
\<close>

definition recentTurnsKeepFloor :: nat where "recentTurnsKeepFloor = 3"

definition CompactCategoryOlder :: string where "CompactCategoryOlder = ''older_turns''"
definition CompactCategoryToolOutput :: string where "CompactCategoryToolOutput = ''tool_results''"
definition CompactCategoryRecent :: string where "CompactCategoryRecent = ''recent''"

definition CompactActionKeep :: string where "CompactActionKeep = ''keep''"
definition CompactActionSummarize :: string where "CompactActionSummarize = ''summarize''"
definition CompactActionDrop :: string where "CompactActionDrop = ''drop''"
definition CompactActionPin :: string where "CompactActionPin = ''pin''"

record CompactCategory =
  cat_Name :: string
  cat_TokenCount :: int
  cat_ValueScore :: rat
  cat_SuggestedAction :: string
  cat_SummaryPreview :: string

record CompactPlan =
  plan_Categories :: "CompactCategory list"
  plan_EstimatedTokensFreed :: int
  plan_ContextPctBefore :: rat
  plan_ContextPctAfter :: rat

record CompactApplyResponse =
  car_Applied :: bool
  car_TokensFreed :: int
  car_ContextPctAfter :: rat
  car_Summary :: string

subsection \<open>Turns and texts\<close>

definition turn_bytes :: "Turn \<Rightarrow> string" where
  "turn_bytes t = (case turn_Content t of None \<Rightarrow> [] | Some s \<Rightarrow> s)"

definition turn_tokens :: "Turn \<Rightarrow> int" where
  "turn_tokens t = (let declared = turn_InputTokens t + turn_OutputTokens t
     in if declared > 0 then declared else int (length (turn_bytes t) div 4))"

definition sumTurnTokens :: "Turn list \<Rightarrow> int" where
  "sumTurnTokens ts = sum_list (map turn_tokens ts)"

definition contextWindowOr :: "int \<Rightarrow> int" where
  "contextWindowOr window = (if window > 0 then window else 200000)"

definition contextWindowForSession :: "string \<Rightarrow> Runtime \<Rightarrow> int" where
  "contextWindowForSession sid rt =
     (let own = (case GetActiveSession sid rt of None \<Rightarrow> [] | Some a \<Rightarrow> as_ModelOverride a);
          name = (if own \<noteq> [] then own
                  else case Resolve (rt_routing rt) ''default'' of Some (m # _, _) \<Rightarrow> m | _ \<Rightarrow> [])
      in if name = [] then 0
         else case model_Get name (rt_models rt) of None \<Rightarrow> 0 | Some e \<Rightarrow> mi_ContextWindow (me_Info e))"

definition firstText :: "string \<Rightarrow> string" where
  "firstText raw =
     (if raw = [] then [] else case json_unmarshal message_of raw of None \<Rightarrow> [] | Some m \<Rightarrow> msg_Content m)"

text \<open>The bytes of an ellipsis.\<close>

definition ellipsis :: string where
  "ellipsis = [CHR 0xE2, CHR 0x80, CHR 0xA6]"

definition summarizeTurns :: "Turn list \<Rightarrow> string" where
  "summarizeTurns ts =
     (let parts = concat (map (\<lambda>t. let txt = firstText (turn_bytes t) in
            if txt = [] then []
            else [''- '' @ (if length txt > 160 then take 160 txt @ ellipsis else txt)]) ts);
          whole = join [CHR 0x0A] parts;
          out = (if length whole > 800 then take 800 whole @ [CHR 0x0A] @ ellipsis @ ''(truncated)'' else whole)
      in if out = [] then ''[empty summary]''
         else ''Compacted summary of earlier turns:'' @ [CHR 0x0A] @ out)"

definition summaryPreview :: "Turn list \<Rightarrow> string" where
  "summaryPreview ts =
     (case ts of [] \<Rightarrow> []
      | t # _ \<Rightarrow> (let txt = firstText (turn_bytes t)
                 in if length txt > 120 then take 120 txt @ ellipsis else txt))"

subsection \<open>The plan\<close>

text \<open>The turns before the recent ones: the others and the tool outputs.\<close>

definition older_part :: "Turn list \<Rightarrow> Turn list" where
  "older_part ts = take (length ts - recentTurnsKeepFloor) ts"

definition recent_part :: "Turn list \<Rightarrow> Turn list" where
  "recent_part ts = drop (length ts - recentTurnsKeepFloor) ts"

definition older_turns :: "Turn list \<Rightarrow> Turn list" where
  "older_turns ts = filter (\<lambda>t. turn_Role t \<noteq> ''tool'') (older_part ts)"

definition tool_outputs :: "Turn list \<Rightarrow> Turn list" where
  "tool_outputs ts = filter (\<lambda>t. turn_Role t = ''tool'') (older_part ts)"

definition category :: "string \<Rightarrow> rat \<Rightarrow> string \<Rightarrow> string \<Rightarrow> Turn list \<Rightarrow> CompactCategory list" where
  "category name score action preview ts =
     (if ts = [] then [] else [\<lparr>cat_Name = name, cat_TokenCount = sumTurnTokens ts, cat_ValueScore = score,
        cat_SuggestedAction = action, cat_SummaryPreview = preview\<rparr>])"

definition nine_tenths :: "int \<Rightarrow> int" where
  "nine_tenths n = (9 * n) div 10"

definition freed_by :: "CompactCategory \<Rightarrow> int" where
  "freed_by c =
     (if cat_SuggestedAction c = CompactActionDrop then cat_TokenCount c
      else if cat_SuggestedAction c = CompactActionSummarize then nine_tenths (cat_TokenCount c) else 0)"

definition empty_plan :: CompactPlan where
  "empty_plan = \<lparr>plan_Categories = [], plan_EstimatedTokensFreed = 0, plan_ContextPctBefore = 0,
     plan_ContextPctAfter = 0\<rparr>"

definition buildCompactPlan :: "Turn list \<Rightarrow> int \<Rightarrow> CompactPlan" where
  "buildCompactPlan ts contextWindow =
     (if length ts \<le> recentTurnsKeepFloor then empty_plan
      else
        (let total_before = sumTurnTokens ts;
             cats = category CompactCategoryOlder (35 / 100) CompactActionSummarize (summaryPreview (older_turns ts)) (older_turns ts)
                  @ category CompactCategoryToolOutput (15 / 100) CompactActionDrop [] (tool_outputs ts)
                  @ category CompactCategoryRecent (95 / 100) CompactActionKeep [] (recent_part ts);
             freed = sum_list (map freed_by cats);
             w = of_int (contextWindowOr contextWindow)
         in \<lparr>plan_Categories = cats, plan_EstimatedTokensFreed = freed,
             plan_ContextPctBefore = of_int total_before / w,
             plan_ContextPctAfter = max 0 (of_int (total_before - freed) / w)\<rparr>))"

subsection \<open>Applying a plan\<close>

text \<open>
  One statement for each turn, in rounds numbered from \<open>i\<close>, each of which can fail on its own: a failure
  leaves the deletions made so far.
\<close>

fun deleteTurns :: "store_env \<Rightarrow> nat \<Rightarrow> Turn list \<Rightarrow> db \<Rightarrow> db \<times> TransportError option" where
  "deleteTurns E i [] d = (d, None)"
| "deleteTurns E i (t # ts) d =
     (case DeleteTurn (at_round i E) (turn_SessionID t) (turn_ID t) d of
        (d', Inl e) \<Rightarrow> (d', Some (transportInternal (''delete turn '' @ turn_ID t) e))
      | (d', Inr _) \<Rightarrow> deleteTurns E (i + 1) ts d')"

definition summary_turn :: "store_env \<Rightarrow> string \<Rightarrow> int \<Rightarrow> string \<Rightarrow> int list \<Rightarrow> Turn" where
  "summary_turn E sid n summary originals =
     \<lparr>turn_ID = ''compact-'' @ sid @ ''-'' @ itoa n, turn_SessionID = sid, turn_Sequence = n,
      turn_Role = ''assistant'',
      turn_Content = map_option json_print (message_json (empty_message\<lparr>msg_Role := ''assistant'', msg_Content := summary\<rparr>)),
      turn_Model = [], turn_Provider = [], turn_InputTokens = 0, turn_OutputTokens = 0, turn_Cost = 0,
      turn_LatencyMs = 0, turn_ToolCalls = None, turn_FilesTouched = [], turn_FilesModified = [],
      turn_Compacted = True, turn_CompactedSummary = summary, turn_OriginalTurns = originals,
      turn_CreatedAt = env_now E\<rparr>"

definition replaceTurnsWithSummary ::
  "store_env \<Rightarrow> string \<Rightarrow> Turn list \<Rightarrow> int \<Rightarrow> string \<Rightarrow> int list \<Rightarrow> db \<Rightarrow> db \<times> TransportError option" where
  "replaceTurnsWithSummary E sid originals n summary seqs d =
     (case deleteTurns E 0 originals d of
        (d1, Some err) \<Rightarrow> (d1, Some err)
      | (d1, None) \<Rightarrow>
          (case CreateTurn E (summary_turn E sid n summary seqs) d1 of
             (d2, Inl e) \<Rightarrow> (d2, Some (transportInternal ''insert summary turn'' e))
           | (d2, Inr _) \<Rightarrow> (d2, None)))"

text \<open>The action of a category: the client's, or the suggested one if the plan has the category.\<close>

definition merged_action :: "CompactPlan \<Rightarrow> (string \<Rightarrow> string option) \<Rightarrow> string \<Rightarrow> string" where
  "merged_action plan actions name =
     (case actions name of Some a \<Rightarrow> a
      | None \<Rightarrow> (case find (\<lambda>c. cat_Name c = name) (plan_Categories plan) of None \<Rightarrow> []
                | Some c \<Rightarrow> cat_SuggestedAction c))"

text \<open>What an action on the older turns does: tokens freed and the line of the summary.\<close>

definition compact_older ::
  "store_env \<Rightarrow> string \<Rightarrow> string \<Rightarrow> Turn list \<Rightarrow> db \<Rightarrow> db \<times> (TransportError + int \<times> string list)" where
  "compact_older E sid act older d =
     (if older = [] then (d, Inr (0, []))
      else if act = CompactActionSummarize
      then (case replaceTurnsWithSummary E sid older (turn_Sequence (hd older)) (summarizeTurns older)
                   (map turn_Sequence older) d of
              (d', Some err) \<Rightarrow> (d', Inl err)
            | (d', None) \<Rightarrow> (d', Inr (nine_tenths (sumTurnTokens older),
                                   [''summarized '' @ nat_str (length older) @ '' older turns''])))
      else if act = CompactActionDrop
      then (case deleteTurns E 0 older d of
              (d', Some err) \<Rightarrow> (d', Inl err)
            | (d', None) \<Rightarrow> (d', Inr (sumTurnTokens older, [''dropped '' @ nat_str (length older) @ '' older turns''])))
      else (d, Inr (0, [])))"

definition compact_tools ::
  "store_env \<Rightarrow> nat \<Rightarrow> string \<Rightarrow> Turn list \<Rightarrow> db \<Rightarrow> db \<times> (TransportError + int \<times> string list)" where
  "compact_tools E i act outputs d =
     (if act = CompactActionDrop \<and> outputs \<noteq> []
      then (case deleteTurns E i outputs d of
              (d', Some err) \<Rightarrow> (d', Inl err)
            | (d', None) \<Rightarrow> (d', Inr (sumTurnTokens outputs, [''dropped '' @ nat_str (length outputs) @ '' tool outputs''])))
      else (d, Inr (0, [])))"

definition compact_event :: "store_env \<Rightarrow> string \<Rightarrow> string list \<Rightarrow> int \<Rightarrow> ServerSessionEvent" where
  "compact_event E sid ls freed =
     \<lparr>sev_ID = 0, sev_SessionID = sid, sev_Type = ''manual_compact'', sev_Detail = join ''; '' ls,
      sev_Payload = json_object [(''freed_tokens'', itoa freed)], sev_At = env_now E\<rparr>"

definition applyCompactPlan ::
  "store_env \<Rightarrow> string \<Rightarrow> (string \<Rightarrow> string option) \<Rightarrow> int \<Rightarrow> db
     \<Rightarrow> db \<times> (TransportError + CompactApplyResponse)" where
  "applyCompactPlan E sid actions window d =
     (case ListTurns E sid d of
        Inl e \<Rightarrow> (d, internal ''load turns'' e)
      | Inr turns \<Rightarrow>
          (if length turns \<le> recentTurnsKeepFloor
           then (d, Inr \<lparr>car_Applied = False, car_TokensFreed = 0, car_ContextPctAfter = 0,
                         car_Summary = ''nothing to compact''\<rparr>)
           else
             (let plan = buildCompactPlan turns window in
              case compact_older E sid (merged_action plan actions CompactCategoryOlder) (older_turns turns) d of
                (d1, Inl err) \<Rightarrow> (d1, Inl err)
              | (d1, Inr (freed1, ls1)) \<Rightarrow>
                  (case compact_tools E (length (older_turns turns)) (merged_action plan actions CompactCategoryToolOutput) (tool_outputs turns) d1 of
                     (d2, Inl err) \<Rightarrow> (d2, Inl err)
                   | (d2, Inr (freed2, ls2)) \<Rightarrow>
                       (let freed = freed1 + freed2; ls = ls1 @ ls2;
                            d3 = fst (AppendServerEvent E (compact_event E sid ls freed) d2);
                            left = sumTurnTokens (or_nil (ListTurns (at_round (length turns) E) sid d3))
                        in (d3, Inr \<lparr>car_Applied = freed > 0, car_TokensFreed = freed,
                              car_ContextPctAfter = of_int left / of_int (contextWindowOr window),
                              car_Summary = (if join ''; '' ls = [] then ''no-op (all categories kept)''
                                             else join ''; '' ls)\<rparr>))))))"

subsection \<open>The handlers\<close>

definition plain_not_found :: "string \<Rightarrow> TransportError" where
  "plain_not_found _ = refuse CodeSessionNotFound ''session not found''"

definition handleSessionCompact ::
  "store_env \<Rightarrow> string + string \<Rightarrow> Connection \<Rightarrow> Runtime \<Rightarrow> CompactPlan rt_served" where
  "handleSessionCompact E params c rt =
     with_session E (\<lambda>_. ''decode session.compact'') id (\<lambda>_. None) plain_not_found params c rt
       (\<lambda>sid sess. case ListTurns E sid (rt_db rt) of
            Inl e \<Rightarrow> (c, rt, [], internal ''list turns'' e)
          | Inr turns \<Rightarrow> (c, rt, [], Inr (buildCompactPlan turns (contextWindowForSession sid rt))))"

record CompactApply =
  cap_SessionID :: string
  cap_Actions :: "string \<Rightarrow> string option"

definition handleCompactApply ::
  "store_env \<Rightarrow> string + CompactApply \<Rightarrow> Connection \<Rightarrow> Runtime \<Rightarrow> CompactApplyResponse rt_served" where
  "handleCompactApply E params c rt =
     with_session E (\<lambda>_. ''decode compact.apply'') cap_SessionID (\<lambda>_. None) plain_not_found params c rt
       (\<lambda>req sess. case applyCompactPlan E (cap_SessionID req) (cap_Actions req)
                          (contextWindowForSession (cap_SessionID req) rt) (rt_db rt) of
            (d, res) \<Rightarrow> (c, set_db d rt, [], res))"

end
