(* ===== verification/Transform.thy ===== *)
theory Transform
  imports Session_Service Dispatch
begin

text \<open>
  Content transforms (\<open>internal/runtime/transform.go\<close>): one request to the cheap model, outside of any
  session.  The network and the reading of a body are inputs, as in the dispatch of a turn.
\<close>

definition transformPrompts :: "string \<Rightarrow> string" where
  "transformPrompts name =
     (if name = ''summarize'' then
        ''Summarize the following content concisely. Focus on the salient facts and remove noise.''
      else if name = ''extract_facts'' then
        ''Extract bullet-pointed factual claims from the following content. One claim per bullet.''
      else if name = ''classify'' then
        ''Classify the following content into a short category label and explain in one sentence.''
      else [])"

record ContentTransform =
  ctf_Transform :: string
  ctf_RawContent :: string
  ctf_ContentType :: string
  ctf_MaxOutputTokens :: int

record ContentTransformResponse =
  ctr_Content :: string
  ctr_ModelUsed :: string
  ctr_Cost :: rat

definition anthropic_text :: "string \<Rightarrow> string option" where
  "anthropic_text = json_unmarshal (as_struct (\<lambda>j.
     obind (as_list (as_struct (\<lambda>b. obind (jstr_at ''type'' b) (\<lambda>ty. obind (jstr_at ''text'' b) (\<lambda>t.
              Some (if ty = ''text'' then t else []))))) (jfield ''content'' j)) (\<lambda>ts. Some (concat ts))))"

definition openai_text :: "string \<Rightarrow> string option" where
  "openai_text = json_unmarshal (as_struct (\<lambda>j.
     obind (as_list (as_struct (\<lambda>b. obind (jobj_at ''message'' b) (jstr_at ''content''))) (jfield ''choices'' j)) (\<lambda>ts.
       Some (case ts of [] \<Rightarrow> [] | t # _ \<Rightarrow> t))))"

definition extractTransformText :: "string \<Rightarrow> string" where
  "extractTransformText body =
     (case anthropic_text body of
        Some (ch # cs) \<Rightarrow> ch # cs
      | _ \<Rightarrow> (case openai_text body of None \<Rightarrow> [] | Some t \<Rightarrow> t))"

text \<open>The model: the cheap slot of the routing policy, or the default one.\<close>

definition transform_models :: "RoutingTree \<Rightarrow> string list" where
  "transform_models tree =
     (case Resolve tree ''cheap'' of
        Some (m # ms, _) \<Rightarrow> m # ms
      | _ \<Rightarrow> (case Resolve tree ''default'' of Some (ms, _) \<Rightarrow> ms | None \<Rightarrow> []))"

definition transform_instruction :: "string \<Rightarrow> string" where
  "transform_instruction name =
     (if transformPrompts name = [] then ''Apply the transform '' @ go_quote name @ '' to the following content.''
      else transformPrompts name)"

definition transform_opts :: "ContentTransform \<Rightarrow> string \<Rightarrow> ModelEntry \<Rightarrow> DispatchOpts" where
  "transform_opts req model entry =
     \<lparr>dp_Conversation = (NewConversation ''transform'')\<lparr>cv_turns :=
          [empty_message\<lparr>msg_Role := ''user'', msg_Content := ctf_RawContent req\<rparr>],
          cv_userSequence := 1, cv_storageSequence := 1\<rparr>,
      dp_SystemPrompt = transform_instruction (ctf_Transform req), dp_Model = model,
      dp_EndpointName = me_Provider entry, dp_RunID = [], dp_TraceID = [],
      dp_MaxTokens = (if ctf_MaxOutputTokens req \<le> 0 then 1024 else ctf_MaxOutputTokens req),
      dp_Temperature = None, dp_Tools = [], dp_Capabilities = [], dp_Stream = False,
      dp_WindowSize = mi_ContextWindow (me_Info entry)\<rparr>"

definition handleContentTransform ::
  "('b \<Rightarrow> string + string) \<Rightarrow> 'b outside \<Rightarrow> string + ContentTransform \<Rightarrow> Runtime
     \<Rightarrow> out_request list \<times> (TransportError + ContentTransformResponse)" where
  "handleContentTransform read X params rt =
     (case params of
        Inl e \<Rightarrow> ([], Inl (transportInvalidParams (''decode content.transform: '' @ e)))
      | Inr req \<Rightarrow>
          (if ctf_Transform req = [] then ([], Inl (transportInvalidParams ''transform is required''))
           else if ctf_RawContent req = [] then ([], Inl (transportInvalidParams ''raw_content is required''))
           else case transform_models (rt_routing rt) of
             [] \<Rightarrow> ([], Inl (refuse CodeModelUnavailable
                     ''no model resolved by routing for content.transform (need 'cheap' or 'default')''))
           | model # _ \<Rightarrow>
               (case model_Get model (rt_models rt) of
                  None \<Rightarrow> ([], Inl (refuse CodeModelUnavailable (''model '' @ go_quote model @ '' not in registry'')))
                | Some entry \<Rightarrow>
                    (case DispatchSync read X (rt_adapters rt) (rt_providers rt) (transform_opts req model entry) of
                       (qs, Inl err) \<Rightarrow> (qs, Inl err)
                     | (qs, Inr body) \<Rightarrow>
                         (let content = extractTransformText body
                          in (qs, Inr \<lparr>ctr_Content = content, ctr_ModelUsed = model,
                                ctr_Cost = ComputeTurnCost (rt_models rt) model
                                  (int (EstimateTokens (ctf_RawContent req @ transform_instruction (ctf_Transform req))))
                                  (int (EstimateTokens content))\<rparr>))))))"

end
