(* ===== verification/Server.thy ===== *)
theory Server
  imports Turn_Service Compact Transform Run_Machine
begin

text \<open>
  The server put together (\<open>handleRequest\<close> and \<open>Run\<close> of \<open>internal/runtime/connection.go\<close>, \<open>Dispatcher\<close> of
  \<open>transport.go\<close>, \<open>NewServer\<close> and \<open>handleConnection\<close> of \<open>server.go\<close>): every method behind the gate, and the
  machine whose steps are accepted connections, requests, ticks of the heartbeats, connections that
  end, grace timers, and the iterations of the relays in flight.  A body is its bytes and the way it ends.
\<close>

subsection \<open>Requests\<close>

datatype rt_request =
    RqPing
  | RqHealth
  | RqReady
  | RqRegister "string + CapabilitiesRegister"
  | RqUpdate "string + CapabilitiesUpdate"
  | RqSessionCreate "string + ProjectContext"
  | RqSessionResume "string + SessionResume"
  | RqSessionList
  | RqSessionDetails "string + string"
  | RqSessionClear "string + string"
  | RqSessionFork "string + string"
  | RqSessionSync "string + string"
  | RqSessionCompact "string + string"
  | RqCompactApply "string + CompactApply"
  | RqModelList
  | RqModelSwitch "string + ModelSwitch"
  | RqTurnSubmit string
  | RqTurnCancel "string + string"
  | RqToolResult "string + WireToolResult"
  | RqContentTransform "string + ContentTransform"
  | RqHistoryAppend "string + HistoryAppend"
  | RqHistoryList "string + HistoryList"
  | RqRun run_request
  | RqOther string

fun run_method :: "run_request \<Rightarrow> string" where
  "run_method (ReqCreate _) = ''run.create''"
| "run_method (ReqList _) = ''run.list''"
| "run_method (ReqDetails _) = ''run.details''"
| "run_method (ReqAttach _) = ''run.attach''"
| "run_method (ReqDetach _) = ''run.detach''"
| "run_method (ReqCancel _) = ''run.cancel''"
| "run_method (ReqRetry _) = ''run.retry''"
| "run_method (ReqContinue _) = ''run.continue''"
| "run_method (ReqFork _) = ''run.fork''"
| "run_method (ReqEvents _) = ''run.events''"
| "run_method (ReqPermissions _) = ''run.permissions''"
| "run_method (ReqResolvePermission _) = ''run.resolve_permission''"
| "run_method (ReqHeartbeat _) = ''run.heartbeat''"

fun method_name :: "rt_request \<Rightarrow> string" where
  "method_name RqPing = MethodConnectionPing"
| "method_name RqHealth = ''connection.health''"
| "method_name RqReady = ''connection.ready''"
| "method_name (RqRegister _) = MethodCapabilitiesRegister"
| "method_name (RqUpdate _) = ''capabilities.update''"
| "method_name (RqSessionCreate _) = ''session.create''"
| "method_name (RqSessionResume _) = ''session.resume''"
| "method_name RqSessionList = ''session.list''"
| "method_name (RqSessionDetails _) = ''session.details''"
| "method_name (RqSessionClear _) = ''session.clear''"
| "method_name (RqSessionFork _) = ''session.fork''"
| "method_name (RqSessionSync _) = ''session.sync''"
| "method_name (RqSessionCompact _) = ''session.compact''"
| "method_name (RqCompactApply _) = ''compact.apply''"
| "method_name RqModelList = ''model.list''"
| "method_name (RqModelSwitch _) = ''model.switch''"
| "method_name (RqTurnSubmit _) = ''turn.submit''"
| "method_name (RqTurnCancel _) = ''turn.cancel''"
| "method_name (RqToolResult _) = ''tool.result''"
| "method_name (RqContentTransform _) = ''content.transform''"
| "method_name (RqHistoryAppend _) = ''history.append''"
| "method_name (RqHistoryList _) = ''history.list''"
| "method_name (RqRun q) = run_method q"
| "method_name (RqOther m) = m"

subsection \<open>Handling a request\<close>

type_synonym body = "string \<times> string option"

text \<open>What a request meets outside of the server: the store, the network, the choices of maps, texts.\<close>

record surroundings =
  su_store :: store_env
  su_outside :: "body outside"
  su_picks :: "(nat \<Rightarrow> nat) \<times> (nat \<Rightarrow> nat)"
  su_token :: nat
  su_jerr :: "string \<Rightarrow> string"
  su_clock :: "gotime \<Rightarrow> string"
  su_ping :: "string option"
  su_pins :: "string \<Rightarrow> int"
  su_parse_time :: "string \<Rightarrow> gotime option"
  su_parse :: "string \<Rightarrow> (string \<times> string \<times> string) option"

text \<open>Reading a body to its end.\<close>

definition read_all :: "body \<Rightarrow> string + string" where
  "read_all b = (case snd b of None \<Rightarrow> Inr (fst b) | Some e \<Rightarrow> Inl e)"

text \<open>Whether a request was answered with a result or with an error; its goroutine and its requests.\<close>

record reply_out =
  ro_outputs :: "rt_output list"
  ro_requests :: "out_request list"
  ro_job :: "body relay_job option"
  ro_error :: "TransportError option"

definition err_of :: "TransportError + 'a \<Rightarrow> TransportError option" where
  "err_of r = (case r of Inl e \<Rightarrow> Some e | Inr _ \<Rightarrow> None)"

definition plain_reply :: "rt_output list \<Rightarrow> TransportError + 'a \<Rightarrow> reply_out" where
  "plain_reply outs r = \<lparr>ro_outputs = outs, ro_requests = [], ro_job = None, ro_error = err_of r\<rparr>"

definition from_served :: "'a rt_served \<Rightarrow> Connection \<times> Runtime \<times> reply_out" where
  "from_served h = (case h of (c, rt, outs, r) \<Rightarrow> (c, rt, plain_reply outs r))"

definition from_handled :: "Connection \<Rightarrow> Runtime \<Rightarrow> 'a handled \<Rightarrow> Connection \<times> Runtime \<times> reply_out" where
  "from_handled c rt h = (case h of (srv, outs, r) \<Rightarrow> (c, rt\<lparr>rt_srv := srv\<rparr>, plain_reply (map RunOut outs) r))"

fun handle_run :: "surroundings \<Rightarrow> run_request \<Rightarrow> Connection \<Rightarrow> Runtime \<Rightarrow> Connection \<times> Runtime \<times> reply_out" where
  "handle_run S (ReqCreate q) c rt = from_handled c rt (handleRunCreate (su_store S) (conn_view c) q (rt_srv rt))"
| "handle_run S (ReqList q) c rt = from_handled c rt (handleRunList (su_store S) (conn_view c) q (rt_srv rt))"
| "handle_run S (ReqDetails q) c rt = from_handled c rt (handleRunDetails (su_store S) (conn_view c) q (rt_srv rt))"
| "handle_run S (ReqAttach q) c rt = from_handled c rt (handleRunAttach (su_store S) (conn_view c) q (rt_srv rt))"
| "handle_run S (ReqDetach q) c rt = from_handled c rt (handleRunDetach (su_store S) (conn_view c) q (rt_srv rt))"
| "handle_run S (ReqCancel q) c rt = from_handled c rt (handleRunCancel (su_store S) (conn_view c) q (rt_srv rt))"
| "handle_run S (ReqRetry q) c rt = from_handled c rt (handleRunRetry (su_store S) (conn_view c) q (rt_srv rt))"
| "handle_run S (ReqContinue q) c rt = from_handled c rt (handleRunContinue (su_store S) (conn_view c) q (rt_srv rt))"
| "handle_run S (ReqFork q) c rt = from_handled c rt (handleRunFork (su_store S) (conn_view c) q (rt_srv rt))"
| "handle_run S (ReqEvents q) c rt = from_handled c rt (handleRunEvents (su_store S) (conn_view c) q (rt_srv rt))"
| "handle_run S (ReqPermissions q) c rt =
     from_handled c rt (handleRunPermissions (su_store S) (su_parse S) (conn_view c) q (rt_srv rt))"
| "handle_run S (ReqResolvePermission q) c rt =
     from_handled c rt (handleRunResolvePermission (su_store S) (conn_view c) q (rt_srv rt))"
| "handle_run S (ReqHeartbeat q) c rt = from_handled c rt (handleRunHeartbeat (su_store S) (conn_view c) q (rt_srv rt))"

definition answered :: "Runtime \<Rightarrow> Connection \<times> (TransportError + 'a) \<Rightarrow> Connection \<times> Runtime \<times> reply_out" where
  "answered rt h = (fst h, rt, plain_reply [] (snd h))"

text \<open>The table of handlers that \<open>NewServer\<close> registers.\<close>

fun rt_handle :: "surroundings \<Rightarrow> rt_request \<Rightarrow> Connection \<Rightarrow> Runtime \<Rightarrow> Connection \<times> Runtime \<times> reply_out" where
  "rt_handle S RqPing c rt = answered rt (handleConnectionPing (su_store S) c, Inr ())"
| "rt_handle S RqHealth c rt =
     answered rt (c, Inr (handleConnectionHealth (su_store S) (rt_started rt) (su_ping S) c))"
| "rt_handle S RqReady c rt = answered rt (c, Inr (handleConnectionReady (su_ping S) c))"
| "rt_handle S (RqRegister q) c rt = answered rt (handleCapabilitiesRegister (su_jerr S) (rt_config rt) q c)"
| "rt_handle S (RqUpdate q) c rt =
     answered rt (handleCapabilitiesUpdate (su_jerr S) (su_clock S) (su_store S) q c)"
| "rt_handle S (RqSessionCreate q) c rt = from_served (handleSessionCreate (su_store S) q c rt)"
| "rt_handle S (RqSessionResume q) c rt = from_served (handleSessionResume (su_store S) q c rt)"
| "rt_handle S RqSessionList c rt = from_served (handleSessionList (su_store S) (su_pins S) (su_clock S) c rt)"
| "rt_handle S (RqSessionDetails q) c rt = from_served (handleSessionDetails (su_store S) (su_clock S) q c rt)"
| "rt_handle S (RqSessionClear q) c rt = from_served (handleSessionClear (su_store S) q c rt)"
| "rt_handle S (RqSessionFork q) c rt = from_served (handleSessionFork (su_store S) q c rt)"
| "rt_handle S (RqSessionSync q) c rt = from_served (handleSessionSync (fst (su_picks S)) q c rt)"
| "rt_handle S (RqSessionCompact q) c rt = from_served (handleSessionCompact (su_store S) q c rt)"
| "rt_handle S (RqCompactApply q) c rt = from_served (handleCompactApply (su_store S) q c rt)"
| "rt_handle S RqModelList c rt = from_served (handleModelList c rt)"
| "rt_handle S (RqModelSwitch q) c rt = from_served (handleModelSwitch (su_store S) q c rt)"
| "rt_handle S (RqTurnSubmit raw) c rt =
     (case handleTurnSubmit (su_store S) (su_outside S) (su_picks S) (su_token S) raw c rt of
        (c', rt', outs, qs, job, r) \<Rightarrow>
          (c', rt', \<lparr>ro_outputs = outs, ro_requests = qs, ro_job = job, ro_error = err_of r\<rparr>))"
| "rt_handle S (RqTurnCancel q) c rt = from_served (handleTurnCancel q c rt)"
| "rt_handle S (RqToolResult q) c rt = from_served (handleToolResult (su_store S) q c rt)"
| "rt_handle S (RqContentTransform q) c rt =
     (case handleContentTransform read_all (su_outside S) q rt of
        (qs, r) \<Rightarrow> (c, rt, \<lparr>ro_outputs = [], ro_requests = qs, ro_job = None, ro_error = err_of r\<rparr>))"
| "rt_handle S (RqHistoryAppend q) c rt =
     (case handleHistoryAppend (su_store S) (conn_view c) q (rt_db rt) of
        (d, r) \<Rightarrow> (c, set_db d rt, plain_reply [] r))"
| "rt_handle S (RqHistoryList q) c rt =
     answered rt (c, handleHistoryList (su_store S) (su_parse_time S) (conn_view c) q (rt_db rt))"
| "rt_handle S (RqRun q) c rt = handle_run S q c rt"
| "rt_handle S (RqOther m) c rt =
     (c, rt, \<lparr>ro_outputs = [], ro_requests = [], ro_job = None,
              ro_error = Some (refuse CodeMethodNotFound (''method not found: '' @ m))\<rparr>)"

definition handleRequest :: "surroundings \<Rightarrow> rt_request \<Rightarrow> Connection \<Rightarrow> Runtime \<Rightarrow> Connection \<times> Runtime \<times> reply_out" where
  "handleRequest S q c rt =
     (case gateMethodLocked (cn_state c) (method_name q) of
        Some err \<Rightarrow> (c, rt, \<lparr>ro_outputs = [], ro_requests = [], ro_job = None, ro_error = Some err\<rparr>)
      | None \<Rightarrow> rt_handle S q c rt)"

subsection \<open>The machine\<close>

text \<open>
  A relay in flight: its job, the connection it notifies, the variables of its loop, the rest of its
  body, the time at which it started, and the error with which the loop ended, once it has.
\<close>

record relay_proc =
  rp_job :: "body relay_job"
  rp_conn :: string
  rp_vars :: relay_vars
  rp_rest :: string
  rp_started :: gotime
  rp_end :: "string option"

record server_state =
  st_conns :: "Connection list"
  st_rt :: Runtime
  st_procs :: "relay_proc list"
  st_cancelled :: "nat list"

text \<open>
  The context of a relay is cancelled by its cancel function or with the one of its connection, which
  ends with the read loop.
\<close>

definition relay_cancelled :: "server_state \<Rightarrow> relay_proc \<Rightarrow> bool" where
  "relay_cancelled st p \<longleftrightarrow> rj_cancel (rp_job p) \<in> set (st_cancelled st) \<or>
     (\<forall>c \<in> set (st_conns st). cn_id c \<noteq> rp_conn p)"

definition cancels_of :: "rt_output list \<Rightarrow> nat list" where
  "cancels_of outs = concat (map (\<lambda>x. case x of CancelTurn n \<Rightarrow> [n] | RunOut (CancelContext n) \<Rightarrow> [n] | _ \<Rightarrow> []) outs)"

definition start_relay :: "store_env \<Rightarrow> Connection \<Rightarrow> body relay_job \<Rightarrow> relay_proc" where
  "start_relay E c j = \<lparr>rp_job = j, rp_conn = cn_id c, rp_vars = relay_start, rp_rest = fst (rj_body j),
     rp_started = env_now E, rp_end = None\<rparr>"

datatype server_event =
    EvAccept store_env string bool
  | EvRequest surroundings nat rt_request
  | EvTick store_env nat
  | EvHangup store_env nat
  | EvTimers store_env
  | EvRelay store_env cancel_point nat
  | EvSettle "store_error \<Rightarrow> string" store_env store_env nat

definition step_accept :: "store_env \<Rightarrow> string \<Rightarrow> bool \<Rightarrow> server_state \<Rightarrow> server_state \<times> rt_output list" where
  "step_accept E i auth st =
     (st\<lparr>st_conns := conn_accept E (rt_config (st_rt st)) i auth (st_conns st)\<rparr>, [])"

definition step_request :: "surroundings \<Rightarrow> nat \<Rightarrow> rt_request \<Rightarrow> server_state \<Rightarrow> server_state \<times> rt_output list" where
  "step_request S i q st =
     (if i < length (st_conns st) \<and> \<not> cn_closed (st_conns st ! i)
      then (case handleRequest S q (st_conns st ! i) (st_rt st) of
              (c, rt, r) \<Rightarrow>
                (st\<lparr>st_conns := (st_conns st)[i := c], st_rt := rt,
                    st_procs := st_procs st @ (case ro_job r of None \<Rightarrow> [] | Some j \<Rightarrow> [start_relay (su_store S) c j]),
                    st_cancelled := st_cancelled st @ cancels_of (ro_outputs r)\<rparr>, ro_outputs r))
      else (st, []))"

definition step_tick :: "store_env \<Rightarrow> nat \<Rightarrow> server_state \<Rightarrow> server_state \<times> rt_output list" where
  "step_tick E i st =
     (st\<lparr>st_conns := update_at i (heartbeat_tick E (rt_config (st_rt st))) (st_conns st)\<rparr>, [])"

text \<open>The end of a read loop; the connection leaves the server.\<close>

definition step_hangup :: "store_env \<Rightarrow> nat \<Rightarrow> server_state \<Rightarrow> server_state \<times> rt_output list" where
  "step_hangup E i st =
     (if i < length (st_conns st)
      then (case conn_finish E (rt_config (st_rt st)) (st_conns st ! i) (rt_timers (st_rt st)) of
              (_, timers) \<Rightarrow> (st\<lparr>st_conns := remove_at i (st_conns st),
                               st_rt := (st_rt st)\<lparr>rt_timers := timers\<rparr>\<rparr>, []))
      else (st, []))"

definition step_timers :: "store_env \<Rightarrow> server_state \<Rightarrow> server_state \<times> rt_output list" where
  "step_timers E st =
     (case grace_fire E (rt_timers (st_rt st)) (rt_db (st_rt st)) of
        (timers, d) \<Rightarrow> (st\<lparr>st_rt := (set_db d (st_rt st))\<lparr>rt_timers := timers\<rparr>\<rparr>, []))"

text \<open>
  One iteration of a relay, with the point it had reached if its context has been cancelled; a relay
  without an adapter panics and is left out.
\<close>

definition step_relay :: "store_env \<Rightarrow> cancel_point \<Rightarrow> nat \<Rightarrow> server_state \<Rightarrow> server_state \<times> rt_output list" where
  "step_relay E pt i st =
     (if i < length (st_procs st)
      then (let p = st_procs st ! i; j = rp_job p in
            case (rp_end p, rj_adapter j) of
              (None, Some a) \<Rightarrow>
                (case relay_iter E (if relay_cancelled st p then Some pt else None) (rj_relay j) a (snd (rj_body j)) (rp_rest p)
                        (rp_vars p) (rt_srv (st_rt st)) of
                   (left, v, srv, outs, how) \<Rightarrow>
                     (st\<lparr>st_rt := (st_rt st)\<lparr>rt_srv := srv\<rparr>,
                         st_procs := (st_procs st)[i := p\<lparr>rp_rest := left, rp_vars := v,
                           rp_end := (case how of GoOn \<Rightarrow> None | Leave m \<Rightarrow> Some m)\<rparr>]\<rparr>, outs))
            | _ \<Rightarrow> (st, []))
      else (st, []))"

text \<open>The active session a relay holds; one that is not active any more is not looked at again.\<close>

definition step_settle ::
  "(store_error \<Rightarrow> string) \<Rightarrow> store_env \<Rightarrow> store_env \<Rightarrow> nat \<Rightarrow> server_state \<Rightarrow> server_state \<times> rt_output list" where
  "step_settle et E Eb i st =
     (if i < length (st_procs st)
      then (let p = st_procs st ! i; j = rp_job p; rt = st_rt st; cancelled = relay_cancelled st p;
                gone = (\<forall>c \<in> set (st_conns st). cn_id c \<noteq> rp_conn p) in
            case (rp_end p, GetActiveSession (rj_session j) rt) of
              (Some loopErr, Some sess) \<Rightarrow>
                (case relay_finish et (under cancelled E) (rp_started p) (rj_relay j) (rp_vars p) loopErr sess (rt_srv rt) of
                   (sess1, srv1, outs1, turn, relayErr) \<Rightarrow>
                     (case relay_settle Eb (under gone E) (rt_models rt) (rj_relay j) turn relayErr sess1 srv1 of
                        (sess2, srv2, outs2) \<Rightarrow>
                          (st\<lparr>st_rt := (set_active sess2 (rt\<lparr>rt_srv := srv2\<rparr>))
                                  \<lparr>rt_turns := turns_deregister (sr_turnID (rj_relay j)) (rt_turns rt)\<rparr>,
                              st_procs := remove_at i (st_procs st)\<rparr>, outs1 @ outs2)))
            | _ \<Rightarrow> (st, []))
      else (st, []))"

fun server_step :: "server_state \<Rightarrow> server_event \<Rightarrow> server_state \<times> rt_output list" where
  "server_step st (EvAccept E i auth) = step_accept E i auth st"
| "server_step st (EvRequest S i q) = step_request S i q st"
| "server_step st (EvTick E i) = step_tick E i st"
| "server_step st (EvHangup E i) = step_hangup E i st"
| "server_step st (EvTimers E) = step_timers E st"
| "server_step st (EvRelay E pt i) = step_relay E pt i st"
| "server_step st (EvSettle et E Eb i) = step_settle et E Eb i st"

text \<open>A server as \<open>NewServer\<close> makes it, on a store that holds \<open>d\<close>, after the configuration of its registries.\<close>

definition NewServer ::
  "store_env \<Rightarrow> ServerConfig \<Rightarrow> db \<Rightarrow> ProviderRegistry \<Rightarrow> adapters \<Rightarrow> catalog \<Rightarrow> RoutingTree \<Rightarrow> server_state" where
  "NewServer E cfg d eps ads models tree =
     \<lparr>st_conns = [],
      st_rt = \<lparr>rt_srv = \<lparr>sv_db = d, sv_runs = newRunRegistry\<rparr>, rt_active = [], rt_turns = [], rt_timers = [],
        rt_models = models, rt_routing = tree, rt_providers = eps, rt_adapters = ads,
        rt_prompts = NewPromptEngine \<lparr>po_CoreBehavioral = [], po_DomainConfig = [], po_WindowSize = 0,
          po_SystemPromptShare = 0\<rparr>, rt_config = cfg, rt_started = env_now E\<rparr>,
      st_procs = [], st_cancelled = []\<rparr>"

end
