(* ===== verification/Connection_Props.thy ===== *)
theory Connection_Props
  imports Server Session_Props
begin

text \<open>
  The life of a connection: what the gate lets through, which tools a connection can hold, that a
  failed connection stays failed, and that the lock of a client that went silent becomes free.
\<close>

subsection \<open>The tools of a connection\<close>

text \<open>Whether a tool is valid does not depend on the text of the error.\<close>

definition valid_tool :: "ToolDefinition \<Rightarrow> bool" where
  "valid_tool t = (validateTool (\<lambda>_. []) t = None)"

lemma validateTool_None [simp]: "(validateTool jerr t = None) = valid_tool t"
  by (simp add: valid_tool_def validateTool_def Let_def)

definition tools_ok :: "CapabilityManager \<Rightarrow> bool" where
  "tools_ok cm \<longleftrightarrow> distinct (map fst (cm_tools cm)) \<and>
     (\<forall>(k, t) \<in> set (cm_tools cm). k = toolKey t \<and> valid_tool t)"

lemma add_tools_ok:
  "distinct (map fst m) \<Longrightarrow> (\<forall>(k, t) \<in> set m. k = toolKey t \<and> P t) \<Longrightarrow> (\<forall>t \<in> set ts. P t) \<Longrightarrow>
   distinct (map fst (add_tools ts m)) \<and> (\<forall>(k, t) \<in> set (add_tools ts m). k = toolKey t \<and> P t)"
proof (induction ts arbitrary: m)
  case (Cons t ts)
  let ?m = "AList.update (toolKey t) t m"
  have "distinct (map fst ?m)" by (simp add: distinct_update Cons.prems(1))
  moreover have "\<forall>(k, t) \<in> set ?m. k = toolKey t \<and> P t"
  proof -
    have "set ?m \<subseteq> insert (toolKey t, t) (set m)"
      by (induction m) auto
    then show ?thesis using Cons.prems(2,3) by fastforce
  qed
  ultimately show ?case using Cons.IH [of ?m] Cons.prems(3) by (simp add: add_tools_def)
qed (simp add: add_tools_def)

lemma rejected_none: "rejected_tools jerr ts = [] \<longleftrightarrow> (\<forall>t \<in> set ts. valid_tool t)"
proof -
  have "rejected_tools jerr ts = [] \<longleftrightarrow> (\<forall>t \<in> set ts. validateTool jerr t = None)"
    by (auto simp: rejected_tools_def simp del: validateTool_None split: option.splits)
  then show ?thesis by simp
qed

lemma replaceTools_ok: "(\<forall>t \<in> set ts. valid_tool t) \<Longrightarrow> tools_ok (replaceTools ts cm)"
  unfolding tools_ok_def replaceTools_def using add_tools_ok [of "[]" valid_tool ts] by simp

lemma applyUpdate_ok:
  assumes "tools_ok cm" "\<forall>t \<in> set ts. valid_tool t"
  shows "tools_ok (fst (applyUpdate ts names cm))"
  using assms add_tools_ok [of "filter (\<lambda>(k, t). tool_Name t \<notin> set names) (cm_tools cm)" valid_tool ts]
  by (auto simp: tools_ok_def applyUpdate_def distinct_map_filter split_beta)

subsection \<open>The machine\<close>

text \<open>
  What happens to a connection of a server with the configuration \<open>cfg\<close>: requests, whatever the server
  holds and meets outside, the ticks of its monitor and the end of its read loop.
\<close>

inductive conn_step :: "ServerConfig \<Rightarrow> Connection \<Rightarrow> Connection \<Rightarrow> bool" for cfg where
  request: "rt_config rt = cfg \<Longrightarrow> conn_step cfg c (fst (handleRequest S q c rt))"
| tick: "conn_step cfg c (heartbeat_tick E cfg c)"
| finish: "conn_step cfg c (fst (conn_finish E cfg c timers))"

inductive_cases conn_stepE: "conn_step cfg c c'"

text \<open>A connection as it is when the server has accepted it.\<close>

definition fresh_connection :: "store_env \<Rightarrow> string \<Rightarrow> bool \<Rightarrow> Connection" where
  "fresh_connection E i auth = startHeartbeatMonitor (conn_initialize (NewConnection E i auth))"

lemma accept_fresh:
  "c \<in> set (conn_accept E cfg i auth conns) \<Longrightarrow> c \<in> set conns \<or> c = fresh_connection E i auth"
  by (auto simp: conn_accept_def fresh_connection_def split: if_splits)

definition conn_inv :: "Connection \<Rightarrow> bool" where
  "conn_inv c \<longleftrightarrow>
     cn_state c \<in> cn_visited c \<and> cn_state c \<in> {ConnRegistering, ConnReady, ConnFailed} \<and>
     cn_visited c \<subseteq> {ConnConnecting, ConnAuthenticating, ConnRegistering, ConnReady, ConnFailed} \<and>
     (ConnReady \<in> cn_visited c \<longrightarrow> cn_state c \<noteq> ConnRegistering \<and>
        cm_version (cn_caps c) = ProtocolVersion) \<and>
     (ConnReady \<notin> cn_visited c \<longrightarrow> cm_tools (cn_caps c) = []) \<and>
     (cn_closed c \<longrightarrow> cn_state c = ConnFailed) \<and>
     tools_ok (cn_caps c)"

lemma conn_inv_fresh: "conn_inv (fresh_connection E i auth)"
  by (simp add: conn_inv_def fresh_connection_def conn_initialize_def conn_transition_def
      NewConnection_def startHeartbeatMonitor_def NewCapabilityManager_def tools_ok_def)

lemma gate_state:
  "gateMethodLocked s m = None \<Longrightarrow> s \<in> {ConnReady, ConnDegraded} \<or>
     m \<in> {MethodCapabilitiesRegister, MethodConnectionPing} \<and> s \<in> {ConnRegistering, ConnAuthenticating}"
  by (auto simp: gateMethodLocked_def split: if_splits)

text \<open>Opening a session changes nothing that the invariant speaks of.\<close>

definition same_channel :: "Connection \<Rightarrow> Connection \<Rightarrow> bool" where
  "same_channel c c' \<longleftrightarrow> cn_state c' = cn_state c \<and> cn_visited c' = cn_visited c \<and>
     cm_version (cn_caps c') = cm_version (cn_caps c) \<and> cm_tools (cn_caps c') = cm_tools (cn_caps c) \<and>
     cn_closed c' = cn_closed c \<and> cn_id c' = cn_id c"

lemma same_channel_refl [simp]: "same_channel c c"
  by (simp add: same_channel_def)

lemma same_channel_inv: "same_channel c c' \<Longrightarrow> conn_inv c \<Longrightarrow> conn_inv c'"
  by (simp add: same_channel_def conn_inv_def tools_ok_def)

lemma cancelGrace_channel:
  "same_channel c c' \<Longrightarrow> same_channel c (fst (cancelGracePeriodRelease c' ts))"
  by (simp add: cancelGracePeriodRelease_def same_channel_def)

lemma create_channel: "same_channel c (fst (handleSessionCreate E proj c rt))"
proof (cases proj)
  case (Inr project)
  let ?c = "c\<lparr>cn_caps := (cn_caps c)\<lparr>cm_project := project\<rparr>, cn_sessionID := env_uuid E 8\<rparr>"
  have "same_channel c ?c" by (simp add: same_channel_def)
  from cancelGrace_channel [OF this] show ?thesis
    using Inr by (simp add: handleSessionCreate_def Let_def split_beta split: sum.split bool.split)
qed (simp add: handleSessionCreate_def)

lemma resume_channel: "same_channel c (fst (handleSessionResume E res c rt))"
proof (cases res)
  case (Inr req)
  let ?c = "c\<lparr>cn_caps := (cn_caps c)\<lparr>cm_project := sre_Project req\<rparr>\<rparr>"
  have a: "same_channel c ?c" by (simp add: same_channel_def)
  have b: "same_channel c (?c\<lparr>cn_sessionID := sre_SessionID req\<rparr>)" by (simp add: same_channel_def)
  from a cancelGrace_channel [OF b] show ?thesis
    using Inr by (simp add: handleSessionResume_def with_session_def Let_def split_beta
        split: sum.split bool.split option.split)
qed (simp add: handleSessionResume_def with_session_def)

lemma submit_channel: "same_channel c (fst (handleTurnSubmit E X picks tok raw c rt))"
  by (auto simp: handleTurnSubmit_def Let_def bind_session_def same_channel_def
      split: sum.splits option.splits prod.splits)

lemma with_session_fst:
  "(\<And>q s. fst (k q s) = c) \<Longrightarrow> fst (with_session E dec sid bad missing params c rt k) = c"
  by (simp add: with_session_def split: sum.split option.split)

lemma session_fst [simp]:
  "fst (handleSessionList E pins clock c rt) = c" "fst (handleSessionDetails E clock q1 c rt) = c"
  "fst (handleSessionClear E q1 c rt) = c" "fst (handleSessionFork E q1 c rt) = c"
  "fst (handleSessionSync pick q1 c rt) = c" "fst (handleSessionCompact E q1 c rt) = c"
  "fst (handleCompactApply E q2 c rt) = c" "fst (handleModelList c rt) = c"
  "fst (handleModelSwitch E q3 c rt) = c"
  by (auto simp: handleSessionList_def handleSessionDetails_def handleSessionClear_def handleSessionFork_def
      handleSessionSync_def handleSessionCompact_def handleCompactApply_def handleModelList_def
      handleModelSwitch_def Let_def split_beta
      split: sum.split option.split intro!: with_session_fst)

lemma turn_fst [simp]: "fst (handleTurnCancel q1 c rt) = c" "fst (handleToolResult E q2 c rt) = c"
  by (auto simp: handleTurnCancel_def handleToolResult_def Let_def split_beta
      split: sum.split option.split)

lemma from_served_fst [simp]: "fst (from_served h) = fst h"
  by (simp add: from_served_def split_beta)

lemma handle_run_fst [simp]: "fst (handle_run S q c rt) = c"
  by (cases q) (simp_all add: from_handled_def split_beta)

lemma rt_handle_channel:
  "(\<exists>r. q = RqRegister r) \<or> (\<exists>u. q = RqUpdate u) \<or> q = RqPing \<or> same_channel c (fst (rt_handle S q c rt))"
proof (cases q)
  case (RqTurnSubmit raw)
  then show ?thesis
    using submit_channel [of c "su_store S" "su_outside S" "su_picks S" "su_token S" raw rt]
    by (simp add: split_beta)
qed (simp_all add: create_channel resume_channel answered_def split_beta)

subsection \<open>The invariant\<close>

lemma transition_failed:
  "conn_inv c \<Longrightarrow> conn_inv (conn_transition ConnFailed c) \<and> cn_state (conn_transition ConnFailed c) = ConnFailed"
  by (auto simp: conn_inv_def conn_transition_def)

lemma register_conn_inv:
  assumes "conn_inv c"
  shows "conn_inv (fst (handleCapabilitiesRegister jerr cfg req c))"
proof (cases "cn_state c = ConnRegistering")
  case True
  show ?thesis
  proof (cases req)
    case (Inr r)
    show ?thesis
    proof (cases "cr_ProtocolVersion r = ProtocolVersion")
      case version: True
      let ?reg = "filter (\<lambda>t. validateTool jerr t = None) (cr_Tools r)"
      have "tools_ok (replaceTools ?reg cm)" for cm by (rule replaceTools_ok) simp
      then show ?thesis
        using assms True Inr version
        by (auto simp: handleCapabilitiesRegister_def Let_def conn_transition_def conn_inv_def tools_ok_def
            replaceTools_def)
    next
      case False
      then show ?thesis
        using transition_failed [OF assms] Inr True by (simp add: handleCapabilitiesRegister_def)
    qed
  qed (use assms True in \<open>simp add: handleCapabilitiesRegister_def\<close>)
qed (use assms in \<open>simp add: handleCapabilitiesRegister_def\<close>)

lemma update_inv:
  assumes "conn_inv c" "cn_state c = ConnReady"
  shows "conn_inv (fst (handleCapabilitiesUpdate jerr clock E upd c))"
proof -
  have "ConnReady \<in> cn_visited c" "tools_ok (cn_caps c)" using assms by (auto simp: conn_inv_def)
  with applyUpdate_ok [of "cn_caps c"] show ?thesis
    using assms by (auto simp: handleCapabilitiesUpdate_def rejected_none conn_inv_def applyUpdate_def
        split: sum.splits list.splits)
qed

lemma tick_inv: "conn_inv c \<Longrightarrow> conn_inv (heartbeat_tick E cfg c)"
  using transition_failed [of c] by (auto simp: heartbeat_tick_def conn_inv_def tools_ok_def)

lemma finish_state:
  "conn_inv c \<Longrightarrow> cn_state (fst (conn_finish E cfg c ts)) = ConnFailed \<and>
     conn_inv (fst (conn_finish E cfg c ts))"
  using transition_failed [of c]
  by (cases "cn_state c = ConnFailed")
    (auto simp: conn_finish_def Let_def split_beta scheduleGracePeriodRelease_def stopHeartbeatMonitor_def
      conn_inv_def tools_ok_def)

lemma ready_of_gate:
  "conn_inv c \<Longrightarrow> gateMethodLocked (cn_state c) m = None \<Longrightarrow>
     m \<noteq> MethodCapabilitiesRegister \<Longrightarrow> m \<noteq> MethodConnectionPing \<Longrightarrow> cn_state c = ConnReady"
  by (auto simp: conn_inv_def dest: gate_state)

lemma handleRequest_cases:
  obtains (refused) err where "gateMethodLocked (cn_state c) (method_name q) = Some err"
      "fst (handleRequest S q c rt) = c"
  | (ping) "q = RqPing" "fst (handleRequest S q c rt) = handleConnectionPing (su_store S) c"
  | (register) r where "q = RqRegister r"
      "fst (handleRequest S q c rt) = fst (handleCapabilitiesRegister (su_jerr S) (rt_config rt) r c)"
  | (update) u where "q = RqUpdate u" "gateMethodLocked (cn_state c) ''capabilities.update'' = None"
      "fst (handleRequest S q c rt) = fst (handleCapabilitiesUpdate (su_jerr S) (su_clock S) (su_store S) u c)"
  | (other) "same_channel c (fst (handleRequest S q c rt))"
proof (cases "gateMethodLocked (cn_state c) (method_name q)")
  case None
  then have h: "handleRequest S q c rt = rt_handle S q c rt" by (simp add: handleRequest_def)
  from rt_handle_channel [of q c S rt] consider (r) r where "q = RqRegister r" | (u) u where "q = RqUpdate u"
    | (p) "q = RqPing" | (s) "same_channel c (fst (rt_handle S q c rt))" by blast
  then show ?thesis
  proof cases
    case (r r)
    show ?thesis by (rule that(3) [of r]) (use h r in \<open>simp_all add: answered_def\<close>)
  next
    case (u u)
    show ?thesis by (rule that(4) [of u]) (use h u None in \<open>simp_all add: answered_def\<close>)
  next
    case p
    show ?thesis by (rule that(2)) (use h p in \<open>simp_all add: answered_def\<close>)
  next
    case s
    show ?thesis by (rule that(5)) (use h s in simp)
  qed
next
  case (Some err)
  then show ?thesis by (intro that(1)) (simp_all add: handleRequest_def)
qed

lemma update_method [simp]: "''capabilities.update'' \<noteq> MethodCapabilitiesRegister" "''capabilities.update'' \<noteq> MethodConnectionPing"
  by (simp_all add: MethodCapabilitiesRegister_def MethodConnectionPing_def)

lemma handleRequest_inv: "conn_inv c \<Longrightarrow> conn_inv (fst (handleRequest S q c rt))"
proof (cases rule: handleRequest_cases [of c q S rt])
  case ping
  then show "conn_inv c \<Longrightarrow> ?thesis" by (simp add: handleConnectionPing_def conn_inv_def tools_ok_def)
next
  case (update u)
  then show "conn_inv c \<Longrightarrow> ?thesis" using ready_of_gate [OF _ update(2)] by (simp add: update_inv)
next
  case other
  then show "conn_inv c \<Longrightarrow> ?thesis" by (rule same_channel_inv)
qed (simp_all add: register_conn_inv)

lemma conn_step_inv: "conn_step cfg c c' \<Longrightarrow> conn_inv c \<Longrightarrow> conn_inv c'"
  by (erule conn_stepE) (simp_all add: handleRequest_inv tick_inv finish_state)

abbreviation conn_steps :: "ServerConfig \<Rightarrow> Connection \<Rightarrow> Connection \<Rightarrow> bool" where
  "conn_steps cfg \<equiv> (conn_step cfg)\<^sup>*\<^sup>*"

lemma conn_steps_inv: "conn_steps cfg c c' \<Longrightarrow> conn_inv c \<Longrightarrow> conn_inv c'"
  by (induction rule: rtranclp_induct) (auto dest: conn_step_inv)

lemma fresh_steps_inv: "conn_steps cfg (fresh_connection E i auth) c \<Longrightarrow> conn_inv c"
  by (rule conn_steps_inv [OF _ conn_inv_fresh])

text \<open>
  C7: Nothing but a ping or the registration itself is served before a client has registered.  However
  requests, ticks and the end of the read loop follow each other on an accepted connection, a request of any
  other method either finds the connection ready, its transport open and its client registered with the
  protocol version the server speaks, or it is answered with an error and changes nothing at all.
\<close>

lemma served_only_after_registration:
  assumes "conn_steps cfg (fresh_connection E i auth) c"
    and "method_name q \<noteq> MethodCapabilitiesRegister" "method_name q \<noteq> MethodConnectionPing"
  shows "cn_state c = ConnReady \<and> \<not> cn_closed c \<and> cm_version (cn_caps c) = ProtocolVersion \<or>
    (\<exists>err. handleRequest S q c rt =
       (c, rt, \<lparr>ro_outputs = [], ro_requests = [], ro_job = None, ro_error = Some err\<rparr>))"
proof (cases "gateMethodLocked (cn_state c) (method_name q)")
  case None
  with ready_of_gate [OF fresh_steps_inv [OF assms(1)] None assms(2,3)] fresh_steps_inv [OF assms(1)]
  show ?thesis by (auto simp: conn_inv_def)
qed (simp add: handleRequest_def)

text \<open>
  C16: The tools that a connection offers a model are well formed: whatever a client registers, adds or
  removes, every tool held passed the validation, is filed under its own key, no key is held twice,
  and a connection that has never been ready holds none.
\<close>

lemma connection_holds_valid_tools:
  assumes "conn_steps cfg (fresh_connection E i auth) c"
  shows "(\<forall>t \<in> set (cm_Tools (cn_caps c)). validateTool jerr t = None) \<and>
    map fst (cm_tools (cn_caps c)) = map toolKey (cm_Tools (cn_caps c)) \<and>
    distinct (map toolKey (cm_Tools (cn_caps c))) \<and>
    (ConnReady \<notin> cn_visited c \<longrightarrow> cm_Tools (cn_caps c) = [])"
proof -
  from fresh_steps_inv [OF assms] have t: "tools_ok (cn_caps c)"
    and n: "ConnReady \<notin> cn_visited c \<longrightarrow> cm_tools (cn_caps c) = []"
    by (simp_all add: conn_inv_def)
  from t have k: "map fst (cm_tools (cn_caps c)) = map toolKey (cm_Tools (cn_caps c))"
    by (auto simp: tools_ok_def cm_Tools_def)
  with t n show ?thesis by (auto simp: tools_ok_def cm_Tools_def)
qed

subsection \<open>The end of a connection\<close>

lemma gate_failed: "gateMethodLocked ConnFailed m \<noteq> None"
  by (simp add: gateMethodLocked_def)

lemma failed_stays:
  "conn_step cfg c c' \<Longrightarrow> cn_state c = ConnFailed \<Longrightarrow>
     cn_state c' = ConnFailed \<and> cn_caps c' = cn_caps c \<and> cn_sessionID c' = cn_sessionID c"
proof (erule conn_stepE)
  fix rt S q assume "c' = fst (handleRequest S q c rt)" "cn_state c = ConnFailed"
  moreover from this gate_failed [of "method_name q"] have "fst (handleRequest S q c rt) = c"
    by (auto simp: handleRequest_def)
  ultimately show ?thesis by simp
qed (auto simp: heartbeat_tick_def conn_finish_def Let_def split_beta scheduleGracePeriodRelease_def
      stopHeartbeatMonitor_def conn_transition_def)

lemma ready_once:
  assumes "conn_step cfg c c'" "cn_state c \<in> {ConnReady, ConnFailed}" "conn_inv c"
  shows "cn_state c' \<in> {ConnReady, ConnFailed}"
  using assms(1)
proof (rule conn_stepE)
  fix rt S q assume "c' = fst (handleRequest S q c rt)"
  then show ?thesis using assms(2)
    by (cases rule: handleRequest_cases [of c q S rt])
      (auto simp: handleConnectionPing_def handleCapabilitiesRegister_def handleCapabilitiesUpdate_def
        same_channel_def split: sum.splits list.splits prod.splits)
next
  fix E assume "c' = heartbeat_tick E cfg c"
  then show ?thesis using assms transition_failed by (simp add: heartbeat_tick_def)
next
  fix E timers assume "c' = fst (conn_finish E cfg c timers)"
  then show ?thesis using assms by (simp add: finish_state)
qed

text \<open>
  C17: A connection that has failed is done: no later step revives it, binds it to another session or
  changes its tools, and the gate refuses every method, pings included.  And a client registers at
  most once: after the connection has been ready, \<open>capabilities.register\<close> is refused with nothing changed.
\<close>

lemma failed_connection_is_final:
  assumes "conn_steps cfg (fresh_connection E i auth) c" "conn_steps cfg c c'"
  shows "(cn_state c = ConnFailed \<longrightarrow> cn_state c' = ConnFailed \<and> cn_caps c' = cn_caps c \<and>
      cn_sessionID c' = cn_sessionID c \<and> (\<forall>m. gateMethodLocked (cn_state c') m \<noteq> None)) \<and>
    (cn_state c = ConnReady \<longrightarrow> handleCapabilitiesRegister jerr cfg req c' = (c',
      Inl (refuse CodeNotReady ''capabilities.register already completed on this connection'')))"
proof -
  have inv: "conn_inv c" by (rule fresh_steps_inv [OF assms(1)])
  have f: "cn_state c = ConnFailed \<longrightarrow> cn_state c' = ConnFailed \<and> cn_caps c' = cn_caps c \<and>
      cn_sessionID c' = cn_sessionID c"
    using assms(2) by (induction rule: rtranclp_induct) (auto dest: failed_stays)
  have r: "cn_state c = ConnReady \<longrightarrow> cn_state c' \<in> {ConnReady, ConnFailed}"
    using assms(2)
  proof (induction rule: rtranclp_induct)
    case (step y z)
    then show ?case using ready_once [OF step.hyps(2)] conn_steps_inv [OF step.hyps(1) inv] by blast
  qed simp
  from f r show ?thesis by (auto simp: handleCapabilitiesRegister_def gateMethodLocked_def)
qed


subsection \<open>Witnesses\<close>

definition tool_w :: "string \<Rightarrow> ToolDefinition" where
  "tool_w desc = \<lparr>tool_Name = ''read'', tool_Namespace = ''fs'', tool_Description = desc,
     tool_InputSchema = Some ''{}'', tool_OutputEnvelope = ''text'', tool_RiskLevel = ''read_only''\<rparr>"

definition register_w :: CapabilitiesRegister where
  "register_w = \<lparr>cr_ProtocolVersion = ''1'', cr_Tools = [tool_w ''reads'', tool_w []],
     cr_Project = \<lparr>pc_Root = ''/p'', pc_ConfigFile = [], pc_ConfigContent = []\<rparr>\<rparr>"

definition fresh_w :: Connection where
  "fresh_w = fresh_connection (env_at 0) ''c1'' False"

definition surroundings_w :: "gotime \<Rightarrow> surroundings" where
  "surroundings_w t = \<lparr>su_store = env_at t,
     su_outside = \<lparr>ox_net = (\<lambda>_. NoResponse ''refused''), ox_format_text = (\<lambda>_. []),
       ox_bad_url = (\<lambda>_. None), ox_hostname = (\<lambda>_. None), ox_resolve = (\<lambda>_ loc. Inr loc),
       ox_same_site = (\<lambda>_ _. False), ox_referer = (\<lambda>_ _. [])\<rparr>,
     su_picks = (id, id), su_token = 0, su_jerr = id, su_clock = letters, su_ping = None,
     su_pins = (\<lambda>_. 0), su_parse_time = (\<lambda>_. None), su_parse = (\<lambda>_. None)\<rparr>"

definition runtime_w :: "db \<Rightarrow> Runtime" where
  "runtime_w d = st_rt (NewServer (env_at 0) DefaultServerConfig d [] [] [] Map.empty)"

lemma runtime_w_simps [simp]:
  "rt_db (runtime_w d) = d" "rt_active (runtime_w d) = []" "rt_config (runtime_w d) = DefaultServerConfig"
  by (simp_all add: runtime_w_def NewServer_def rt_db_def)

definition ready_w :: Connection where
  "ready_w = fst (handleRequest (surroundings_w 1) (RqRegister (Inr register_w)) fresh_w (runtime_w empty_db))"

lemma fresh_w_state: "cn_state fresh_w = ConnRegistering"
  by (simp add: fresh_w_def fresh_connection_def conn_initialize_def conn_transition_def
      NewConnection_def startHeartbeatMonitor_def)

lemma tool_w_valid: "valid_tool (tool_w ''reads'')" "\<not> valid_tool (tool_w [])"
  by code_simp+

lemma ready_w_eq: "ready_w = \<lparr>cn_id = ''c1'', cn_requiresAuth = False, cn_state = ConnReady,
    cn_visited = {ConnConnecting, ConnRegistering, ConnReady}, cn_sessionID = [],
    cn_caps = \<lparr>cm_version = ''1'', cm_tools = [(''fs:read'', tool_w ''reads'')],
      cm_project = \<lparr>pc_Root = ''/p'', pc_ConfigFile = [], pc_ConfigContent = []\<rparr>\<rparr>,
    cn_lastPing = 0, cn_heartbeat = True, cn_grace = False, cn_closed = False\<rparr>"
proof -
  have "ready_w = fst (handleCapabilitiesRegister id DefaultServerConfig (Inr register_w) fresh_w)"
    by (simp add: ready_w_def handleRequest_def fresh_w_state gateMethodLocked_def answered_def surroundings_w_def)
  then show ?thesis
    using tool_w_valid fresh_w_state
    by (auto simp: handleCapabilitiesRegister_def register_w_def ProtocolVersion_def Let_def
        conn_transition_def fresh_w_def fresh_connection_def conn_initialize_def NewConnection_def
        startHeartbeatMonitor_def replaceTools_def add_tools_def toolKey_def NewCapabilityManager_def)
      (auto simp: tool_w_def insert_commute)
qed

lemma ready_w_steps: "conn_steps DefaultServerConfig (fresh_connection (env_at 0) ''c1'' False) ready_w"
  unfolding ready_w_def fresh_w_def [symmetric]
  by (rule r_into_rtranclp) (rule conn_step.request, simp)

lemma served_only_after_registration_witness:
  "(\<exists>err. handleRequest (surroundings_w 1) RqModelList fresh_w (runtime_w empty_db) =
      (fresh_w, runtime_w empty_db, \<lparr>ro_outputs = [], ro_requests = [], ro_job = None, ro_error = Some err\<rparr>)) \<and>
   cn_state ready_w = ConnReady \<and> cm_version (cn_caps ready_w) = ProtocolVersion"
proof -
  have m: "method_name RqModelList \<noteq> MethodCapabilitiesRegister" "method_name RqModelList \<noteq> MethodConnectionPing"
    by (simp_all add: MethodCapabilitiesRegister_def MethodConnectionPing_def)
  have f: "conn_steps DefaultServerConfig (fresh_connection (env_at 0) ''c1'' False) fresh_w"
    by (simp add: fresh_w_def)
  have g: "handleRequest (surroundings_w 1) RqModelList ready_w (runtime_w empty_db) \<noteq> (ready_w, runtime_w empty_db,
      \<lparr>ro_outputs = [], ro_requests = [], ro_job = None, ro_error = Some err\<rparr>)" for err
    by (simp add: handleRequest_def ready_w_eq gateMethodLocked_def from_served_def handleModelList_def
        plain_reply_def err_of_def)
  from served_only_after_registration [OF f m] served_only_after_registration [OF ready_w_steps m] g fresh_w_state
  show ?thesis by fastforce
qed

lemma connection_holds_valid_tools_witness:
  "map toolKey (cm_Tools (cn_caps ready_w)) = [''fs:read''] \<and>
   validateTool id (tool_w ''reads'') = None"
  using connection_holds_valid_tools [OF ready_w_steps, of id] by (simp add: ready_w_eq cm_Tools_def)

definition failed_w :: Connection where
  "failed_w = fst (conn_finish (env_at 1) DefaultServerConfig ready_w [])"

lemma failed_connection_is_final_witness:
  "cn_state failed_w = ConnFailed \<and>
   (\<forall>m. gateMethodLocked (cn_state (fst (handleRequest (surroundings_w 2) RqPing failed_w (runtime_w empty_db)))) m \<noteq> None) \<and>
   fst (handleCapabilitiesRegister id DefaultServerConfig (Inr register_w) failed_w) = failed_w"
proof -
  have step: "conn_steps DefaultServerConfig ready_w failed_w"
    unfolding failed_w_def by (rule r_into_rtranclp) (rule conn_step.finish)
  have next_step: "conn_steps DefaultServerConfig failed_w
      (fst (handleRequest (surroundings_w 2) RqPing failed_w (runtime_w empty_db)))"
    by (rule r_into_rtranclp) (rule conn_step.request, simp)
  have s: "cn_state failed_w = ConnFailed"
    by (simp add: failed_w_def ready_w_eq conn_finish_def conn_transition_def Let_def
        scheduleGracePeriodRelease_def stopHeartbeatMonitor_def)
  note f = failed_connection_is_final [OF ready_w_steps step, of id "Inr register_w"]
  note g = failed_connection_is_final [OF rtranclp_trans [OF ready_w_steps step] next_step]
  from f g s show ?thesis by (simp add: ready_w_eq gate_failed [simplified])
qed




end
