(* ===== verification/Service_Props.thy ===== *)
theory Service_Props
  imports Connection_Props Conversation_Props
begin

text \<open>
  What the session requests achieve: resuming brings a conversation back and takes the lock, clearing
  one is undone by the next resume, and a fork holds a copy of the turns.
\<close>

subsection \<open>Resuming\<close>

lemma acquire_available:
  assumes "find_session d sid = Some s" "lock_available E x s" "\<not> env_fault E S_LockUpdate"
  shows "\<exists>d'. AcquireSessionLock E sid x t d = (d', Inr (True, [])) \<and>
    lock_holder d' sid = Some (x, t) \<and> db_turns d' = db_turns d"
  using assms by (simp add: AcquireSessionLock_def lock_holder_def find_map_session) (simp add: map_session_def)

lemma ListTurns_turns: "db_turns d = db_turns d' \<Longrightarrow> ListTurns E sid d = ListTurns E sid d'"
  by (simp add: ListTurns_def turns_of_def)

lemma active_set [simp]: "GetActiveSession (as_ID s) (set_active s rt) = Some s"
  by (simp add: GetActiveSession_def set_active_def update_conv')

lemma active_timers [simp]: "GetActiveSession sid (rt\<lparr>rt_timers := ts\<rparr>) = GetActiveSession sid rt"
  "rt_db (rt\<lparr>rt_timers := ts\<rparr>) = rt_db rt" "rt_db (set_active s rt) = rt_db rt"
  by (simp_all add: GetActiveSession_def rt_db_def set_active_def)

lemma active_set_db [simp]: "GetActiveSession sid (set_db d rt) = GetActiveSession sid rt"
  by (simp add: GetActiveSession_def)

lemma EnsureActive_db [simp]: "rt_db (fst (EnsureActive sid c rt)) = rt_db rt"
  by (simp add: EnsureActive_def Let_def rt_db_def)

lemma cancelGrace_conn [simp]:
  "cn_sessionID (fst (cancelGracePeriodRelease c ts)) = cn_sessionID c"
  "cn_id (fst (cancelGracePeriodRelease c ts)) = cn_id c"
  by (simp_all add: cancelGracePeriodRelease_def)

text \<open>The conversation a session has in memory, a new one when it is not active.\<close>

definition conversation_of :: "string \<Rightarrow> Runtime \<Rightarrow> Conversation" where
  "conversation_of sid rt = (case GetActiveSession sid rt of None \<Rightarrow> NewConversation sid
     | Some s \<Rightarrow> as_Conversation s)"

definition active_ids :: "Runtime \<Rightarrow> bool" where
  "active_ids rt \<longleftrightarrow> (\<forall>(k, s) \<in> set (rt_active rt). as_ID s = k)"

lemma EnsureActive_result:
  assumes "EnsureActive sid c rt = (rt', s)" "active_ids rt"
  shows "as_ID s = sid \<and> as_ConnID s = cn_id c \<and> as_Conversation s = conversation_of sid rt \<and>
    GetActiveSession sid rt' = Some s \<and> rt_db rt' = rt_db rt"
proof -
  have "GetActiveSession sid rt = Some x \<Longrightarrow> as_ID x = sid" for x
    using assms(2) by (auto simp: GetActiveSession_def active_ids_def dest: map_of_SomeD)
  with assms(1) show ?thesis
    by (auto simp: EnsureActive_def Let_def conversation_of_def GetActiveSession_def update_conv' rt_db_def
        split: option.splits)
qed

definition resumable :: "store_env \<Rightarrow> string \<Rightarrow> Connection \<Rightarrow> Runtime \<Rightarrow> bool" where
  "resumable E sid c rt \<longleftrightarrow> sid \<noteq> [] \<and> active_ids rt \<and>
     \<not> env_fault E S_SelectSession \<and> \<not> env_fault E S_LockUpdate \<and>
     (\<exists>s. find_session (rt_db rt) sid = Some s \<and> verifySessionAccess (conn_view c) s = None \<and>
        lock_available E (cn_id c) s)"

lemma resume_succeeds:
  assumes r: "resumable E (sre_SessionID req) c rt"
    and l: "ListTurns E (sre_SessionID req) (rt_db rt) = Inr turns"
    and t: "RestoreFromTurns turns (conversation_of (sre_SessionID req) rt) = (conv, None)"
    and h: "handleSessionResume E (Inr req) c rt = (c', rt', out, res)"
  shows "(\<exists>reply. res = Inr reply) \<and> cn_sessionID c' = sre_SessionID req \<and>
    conversation_of (sre_SessionID req) rt' = conv \<and> db_turns (rt_db rt') = db_turns (rt_db rt) \<and>
    lock_holder (rt_db rt') (sre_SessionID req) = Some (cn_id c, env_now E + SessionLockTTL)"
proof -
  let ?sid = "sre_SessionID req"
  let ?c1 = "c\<lparr>cn_caps := (cn_caps c)\<lparr>cm_project := sre_Project req\<rparr>\<rparr>"
  obtain s where s: "find_session (rt_db rt) ?sid = Some s" "verifySessionAccess (conn_view c) s = None"
      "lock_available E (cn_id c) s" "?sid \<noteq> []" "active_ids rt"
    using r by (auto simp: resumable_def)
  obtain d' where d': "AcquireSessionLock E ?sid (cn_id c) (env_now E + SessionLockTTL) (rt_db rt) = (d', Inr (True, []))"
      "lock_holder d' ?sid = Some (cn_id c, env_now E + SessionLockTTL)" "db_turns d' = db_turns (rt_db rt)"
    using acquire_available [OF s(1,3)] r by (auto simp: resumable_def)
  have l': "ListTurns E ?sid d' = Inr turns" using l ListTurns_turns [OF d'(3)] by metis
  obtain rt1 a where e: "EnsureActive ?sid ?c1 (set_db d' rt) = (rt1, a)" by fastforce
  have "active_ids (set_db d' rt)" using s(5) by (simp add: active_ids_def)
  from EnsureActive_result [OF e this] have a: "as_ID a = ?sid" "as_Conversation a = conversation_of ?sid rt"
      "rt_db rt1 = d'" by (simp_all add: conversation_of_def)
  have g: "GetSession E ?sid (rt_db rt) = Inr s" using s(1) r by (simp add: GetSession_def resumable_def)
  have act: "GetActiveSession ?sid (set_active x rt) = Some x" if "as_ID x = ?sid" for x rt
    using active_set [of x rt] that by simp
  from h show ?thesis
    using s g d' l' e a t
    by (auto simp: handleSessionResume_def with_session_def Let_def split_beta conversation_of_def act)
qed

text \<open>
  C6: Resuming a session after the server restarted restores the first 2000 turns of its conversation.
  When the turns a conversation returned were persisted, with calls whose inputs are JSON, a server that
  knows nothing of the session answers a resume by a client that may have it, with the lock free,
  successfully: the session in memory holds the first 2000 messages, all of them if there are no more, and
  their sequences; a longer conversation goes on from this prefix, without its later turns.  The client
  holds the lock for five minutes, in which the same request of any other connection is refused and
  changes nothing.
\<close>

lemma resume_restores_conversation:
  assumes "run_out conv_step (NewConversation (sre_SessionID req)) ops = (cv, rows)"
    and "persist E0 rows d = Some (rt_db rt)" "turns_of d (sre_SessionID req) = []"
    and "\<forall>m \<in> set (cv_turns cv). valid_calls m"
    and "resumable E (sre_SessionID req) c rt" "rt_active rt = []" "\<not> env_fault E S_ListTurns"
    and "handleSessionResume E (Inr req) c rt = (c', rt', out, res)"
    and "cn_id other \<noteq> cn_id c" "\<not> lock_expired E1 (env_now E + SessionLockTTL)"
      "\<not> env_fault E1 S_SelectSession" "\<not> env_fault E1 S_LockUpdate" "\<not> env_fault E1 S_LockSelect"
  shows "(\<exists>reply. res = Inr reply) \<and> cn_sessionID c' = sre_SessionID req \<and>
    conversation_of (sre_SessionID req) rt' =
      \<lparr>cv_sessionID = sre_SessionID req, cv_turns = map compact_message (take 2000 (cv_turns cv)),
       cv_userSequence = user_count (take 2000 (cv_turns cv)),
       cv_storageSequence = min 2000 (int (length (cv_turns cv)))\<rparr> \<and>
    (\<exists>e. handleSessionResume E1 (Inr req) other rt' = (other, rt', [], Inl e))"
proof -
  let ?sid = "sre_SessionID req"
  have n: "conversation_of ?sid rt = NewConversation ?sid"
    using assms(6) by (simp add: conversation_of_def GetActiveSession_def)
  from conversation_survives_restart [OF assms(1-4,7)] obtain turns where
    t: "ListTurns E ?sid (rt_db rt) = Inr turns"
      "RestoreFromTurns turns (conversation_of ?sid rt) = (\<lparr>cv_sessionID = ?sid,
         cv_turns = map compact_message (take 2000 (cv_turns cv)),
         cv_userSequence = user_count (take 2000 (cv_turns cv)),
         cv_storageSequence = min 2000 (int (length (cv_turns cv)))\<rparr>, None)"
    unfolding n by blast
  note r = resume_succeeds [OF assms(5) t assms(8)]
  then have held: "lock_holder (rt_db rt') ?sid = Some (cn_id c, env_now E + SessionLockTTL)" by blast
  then obtain s where s: "find_session (rt_db rt') ?sid = Some s"
    by (auto simp: lock_holder_def split: option.splits)
  have "AcquireSessionLock E1 ?sid (cn_id other) (env_now E1 + SessionLockTTL) (rt_db rt') = (rt_db rt', Inr (False, cn_id c))"
    using held s assms(9,10,12,13)
    by (auto simp: AcquireSessionLock_def lock_holder_def lock_available_def lock_expired_def
        split: option.splits)
  moreover have "GetSession E1 ?sid (rt_db rt') = Inr s" using s assms(11) by (simp add: GetSession_def)
  moreover have "set_db (rt_db rt') rt' = rt'" by (simp add: set_db_def rt_db_def)
  ultimately have "\<exists>e. handleSessionResume E1 (Inr req) other rt' = (other, rt', [], Inl e)"
    using assms(5) by (auto simp: handleSessionResume_def with_session_def resumable_def split: option.split)
  with r show ?thesis by blast
qed

subsection \<open>Clearing\<close>

lemma RestoreFromTurns_session:
  "cv_sessionID c = cv_sessionID c' \<Longrightarrow> RestoreFromTurns turns c = RestoreFromTurns turns c'"
  by (cases c; cases c') (simp add: RestoreFromTurns_def)

lemma AppendServerEvent_turns:
  "AppendServerEvent E e d = (d', r) \<Longrightarrow> db_turns d' = db_turns d \<and> db_sessions d' = db_sessions d"
  by (auto simp: AppendServerEvent_def autocommit_def exec_def split: sum.splits if_splits)

lemma clear_result:
  assumes "handleSessionClear E (Inr sid) c rt = (c', rt', out, Inr res)" "active_ids rt"
  shows "c' = c \<and> conversation_of sid rt' = fst (Reset (conversation_of sid rt)) \<and>
    fst res = TurnCount (conversation_of sid rt) \<and> active_ids rt' \<and>
    db_turns (rt_db rt') = db_turns (rt_db rt) \<and> db_sessions (rt_db rt') = db_sessions (rt_db rt)"
proof -
  obtain rt1 a where e: "EnsureActive sid c rt = (rt1, a)" by fastforce
  note a = EnsureActive_result [OF e assms(2)]
  let ?rt2 = "set_active (a\<lparr>as_Conversation := fst (Reset (as_Conversation a))\<rparr>) rt1"
  have act: "GetActiveSession sid ?rt2 = Some (a\<lparr>as_Conversation := fst (Reset (as_Conversation a))\<rparr>)"
    using a active_set [of "a\<lparr>as_Conversation := fst (Reset (as_Conversation a))\<rparr>" rt1] by simp
  have up: "(k, x) \<in> set (AList.update i y al) \<Longrightarrow> k = i \<and> x = y \<or> (k, x) \<in> set al" for k i and x y :: ActiveSession and al
    by (induction al) (auto split: if_splits)
  have ids: "active_ids ?rt2"
    using assms(2) a e by (auto simp: active_ids_def set_active_def EnsureActive_def Let_def dest!: up)
  obtain d r where d: "AppendServerEvent E (manual_event E sid ''manual_clear''
      (''cleared '' @ itoa (TurnCount (as_Conversation a)) @ '' in-memory turns'')) (rt_db ?rt2) = (d, r)"
    by fastforce
  have eq: "c' = c" "rt' = set_db d ?rt2" "fst res = TurnCount (as_Conversation a)"
    using assms(1) e d
    by (auto simp: handleSessionClear_def with_session_def Let_def Reset_def
        split: if_splits sum.splits option.splits)
  show ?thesis
    using a act ids AppendServerEvent_turns [OF d] by (simp add: eq conversation_of_def active_ids_def)
qed

text \<open>
  C24: Clearing a session lasts until it is resumed.  \<open>session.clear\<close> empties the conversation in memory,
  starts both sequences over and reports how many messages it removed, but the turns of the store stay:
  the next resume of the session brings back everything that was stored.
\<close>

lemma clear_undone_by_resume:
  assumes "handleSessionClear E (Inr (sre_SessionID req)) c rt = (c1, rt1, out1, Inr (n, b))"
    and "active_ids rt" "cv_sessionID (conversation_of (sre_SessionID req) rt) = sre_SessionID req"
    and "resumable E1 (sre_SessionID req) c rt1"
    and "ListTurns E1 (sre_SessionID req) (rt_db rt) = Inr turns"
    and "RestoreFromTurns turns (NewConversation (sre_SessionID req)) = (stored, None)"
    and "handleSessionResume E1 (Inr req) c rt1 = (c2, rt2, out2, res)"
  shows "conversation_of (sre_SessionID req) rt1 = NewConversation (sre_SessionID req) \<and>
    n = TurnCount (conversation_of (sre_SessionID req) rt) \<and>
    conversation_of (sre_SessionID req) rt2 = stored"
proof -
  let ?sid = "sre_SessionID req"
  note c = clear_result [OF assms(1,2)]
  then have new: "conversation_of ?sid rt1 = NewConversation ?sid"
    using assms(3) by (cases "conversation_of ?sid rt") (simp add: Reset_def NewConversation_def)
  have l: "ListTurns E1 ?sid (rt_db rt1) = Inr turns"
    using assms(5) c ListTurns_turns [of "rt_db rt1" "rt_db rt" E1 ?sid] by simp
  from resume_succeeds [OF assms(4) l _ assms(7), of stored] assms(6) new c show ?thesis by simp
qed

subsection \<open>Forking\<close>

text \<open>A copy as it is stored.\<close>

definition fork_row :: "store_env \<Rightarrow> string \<Rightarrow> nat \<times> Turn \<Rightarrow> Turn" where
  "fork_row E sid p = (snd p)\<lparr>turn_ID := env_uuid E (fst p), turn_SessionID := sid, turn_CreatedAt := env_now E,
     turn_Content := OrElseJ (turn_Content (snd p)) [CHR 0x22, CHR 0x22],
     turn_ToolCalls := OrElseJ (turn_ToolCalls (snd p)) ''[]''\<rparr>"

lemma copy_turns_rows:
  "copy_turns E sid i ts d = (d', None) \<Longrightarrow>
     db_turns d' = db_turns d @ map (fork_row E sid) (enumerate i ts) \<and> db_sessions d' = db_sessions d"
proof (induction ts arbitrary: i d)
  case (Cons t ts)
  let ?t = "t\<lparr>turn_ID := env_uuid E i, turn_SessionID := sid, turn_CreatedAt := env_now E\<rparr>"
  obtain d1 r where c: "CreateTurn (at_round i E) ?t d = (d1, r)" by fastforce
  with Cons.prems obtain u where r: "r = Inr u" and p: "copy_turns E sid (i + 1) ts d1 = (d', None)"
    by (auto split: sum.splits)
  from c r have "db_turns d1 = db_turns d @ [fork_row E sid (i, t)] \<and> db_sessions d1 = db_sessions d"
    by (auto simp: CreateTurn_def autocommit_def insertTurn_def fork_row_def split: sum.splits if_splits)
  with Cons.IH [OF p] show ?case by simp
qed simp

lemma enumerate_filter_sessions:
  "sid \<noteq> x \<Longrightarrow> filter (\<lambda>t. turn_SessionID t = x) (map (fork_row E sid) (enumerate i ts)) = []"
  "filter (\<lambda>t. turn_SessionID t = sid) (map (fork_row E sid) (enumerate i ts)) = map (fork_row E sid) (enumerate i ts)"
  by (auto simp: filter_empty_conv fork_row_def intro!: filter_True)

lemma with_session_served:
  assumes "with_session E dec sid bad missing params c rt k = (c', rt', out, Inr reply)"
  shows "\<exists>req sess. params = Inr req \<and> sid req \<noteq> [] \<and> bad req = None \<and>
    GetSession E (sid req) (rt_db rt) = Inr sess \<and> verifySessionAccess (conn_view c) sess = None \<and>
    k req sess = (c', rt', out, Inr reply)"
  using assms by (auto simp: with_session_def split: sum.splits if_splits option.splits)

lemma fork_steps:
  assumes "handleSessionFork E (Inr sid) c rt = (c', rt', out, Inr reply)"
  shows "\<exists>src d turns d1 r. GetSession E sid (rt_db rt) = Inr src \<and>
    CreateSession E (forked_session E (env_uuid E 8) src) (rt_db rt) = (d, Inr ()) \<and>
    ListTurns E (sess_ID src) d = Inr turns \<and>
    copy_turns E (env_uuid E 8) 9 turns d = (d1, None) \<and>
    AppendServerEvent E (manual_event E (sess_ID src) ''fork'' (''forked to '' @ env_uuid E 8)) d1 = (rt_db rt', r) \<and>
    sfr_NewSessionID reply = env_uuid E 8"
proof -
  from with_session_served [OF assms [unfolded handleSessionFork_def]] obtain src where
    g: "GetSession E sid (rt_db rt) = Inr src"
    and k: "(let newID = env_uuid E 8 in
          case CreateSession E (forked_session E newID src) (rt_db rt) of
            (d, Inl e) \<Rightarrow> (c, set_db d rt, [], internal ''create forked session'' e)
          | (d, Inr _) \<Rightarrow>
              (case ListTurns E (sess_ID src) d of
                 Inl e \<Rightarrow> (c, set_db d rt, [], internal ''list turns'' e)
               | Inr turns \<Rightarrow>
                   (case copy_turns E newID 9 turns d of
                      (d', Some e) \<Rightarrow> (c, set_db d' rt, [], internal ''copy turn'' e)
                    | (d', None) \<Rightarrow>
                        (let (d'', _) = AppendServerEvent E (manual_event E (sess_ID src) ''fork''
                                          (''forked to '' @ newID)) d'
                         in (c, set_db d'' rt, [],
                             Inr \<lparr>sfr_NewSessionID = newID, sfr_OriginalSessionID = sess_ID src\<rparr>))))) =
        (c', rt', out, Inr reply)"
    by auto
  obtain d r1 where c: "CreateSession E (forked_session E (env_uuid E 8) src) (rt_db rt) = (d, r1)" by fastforce
  obtain u where u: "r1 = Inr u" using k c by (auto simp: Let_def split: sum.splits)
  obtain turns where l: "ListTurns E (sess_ID src) d = Inr turns"
    using k c u by (auto simp: Let_def split: sum.splits)
  obtain d1 r2 where p: "copy_turns E (env_uuid E 8) 9 turns d = (d1, r2)" by fastforce
  have n: "r2 = None" using k c u l p by (auto simp: Let_def split: option.splits)
  obtain d2 r3 where v: "AppendServerEvent E (manual_event E (sess_ID src) ''fork'' (''forked to '' @ env_uuid E 8)) d1 = (d2, r3)"
    by fastforce
  have "rt' = set_db d2 rt" "sfr_NewSessionID reply = env_uuid E 8"
    using k c u l p n v by (auto simp: Let_def)
  then show ?thesis using g c u l p n v by auto
qed

text \<open>
  C22: A fork holds a copy of the conversation.  When \<open>session.fork\<close> succeeds, the new session is stored
  under the owner and project of the original, its turns are the first 2000 turns of the original in
  sequence order, each under a new identifier and otherwise unchanged, and the turns of every other session,
  the original among them, are what they were.
\<close>

lemma fork_copies_turns:
  assumes "handleSessionFork E (Inr sid) c rt = (c', rt', out, Inr reply)"
    and "turns_of (rt_db rt) (sfr_NewSessionID reply) = []"
  shows "turns_of (rt_db rt') (sfr_NewSessionID reply) =
      map (fork_row E (sfr_NewSessionID reply))
        (enumerate 9 (take 2000 (sort_key turn_Sequence (turns_of (rt_db rt) sid)))) \<and>
    (\<forall>x. x \<noteq> sfr_NewSessionID reply \<longrightarrow> turns_of (rt_db rt') x = turns_of (rt_db rt) x) \<and>
    (\<exists>src new. find_session (rt_db rt) sid = Some src \<and>
       db_sessions (rt_db rt') = db_sessions (rt_db rt) @ [new] \<and>
       sess_ID new = sfr_NewSessionID reply \<and> sess_UserID new = sess_UserID src \<and>
       sess_Project new = sess_Project src \<and> sess_LockOwner new = None)"
proof -
  let ?new = "env_uuid E 8"
  obtain src d turns d1 d2 where g: "GetSession E sid (rt_db rt) = Inr src"
    and c: "CreateSession E (forked_session E ?new src) (rt_db rt) = (d, Inr ())"
    and l: "ListTurns E (sess_ID src) d = Inr turns"
    and k: "copy_turns E ?new 9 turns d = (d1, None)"
    and v: "AppendServerEvent E (manual_event E (sess_ID src) ''fork'' (''forked to '' @ ?new)) d1 = (rt_db rt', d2)"
    and reply: "sfr_NewSessionID reply = ?new"
    using fork_steps [OF assms(1)] by blast
  have s: "find_session (rt_db rt) sid = Some src" "sess_ID src = sid"
    using g find_Some_iff [of "\<lambda>s. sess_ID s = sid" "db_sessions (rt_db rt)" src]
    by (auto simp: GetSession_def find_session_def split: if_splits option.splits)
  have d: "db_turns d = db_turns (rt_db rt)"
      "db_sessions d = db_sessions (rt_db rt) @ [fill_session (forked_session E ?new src)]"
    using c by (auto simp: CreateSession_def autocommit_def split: sum.splits if_splits)
  have t: "turns = take 2000 (sort_key turn_Sequence (turns_of (rt_db rt) sid))"
    using l d(1) s(2) by (auto simp: ListTurns_def turns_of_def MaxTurnsPerListCall_def split: if_splits)
  have rows: "db_turns (rt_db rt') = db_turns (rt_db rt) @ map (fork_row E ?new) (enumerate 9 turns)"
      "db_sessions (rt_db rt') = db_sessions d"
    using AppendServerEvent_turns [OF v] copy_turns_rows [OF k] d(1) by simp_all
  have "turns_of (rt_db rt') ?new = map (fork_row E ?new) (enumerate 9 turns)"
    using assms(2) reply by (simp add: turns_of_def rows enumerate_filter_sessions)
  moreover have "\<forall>x. x \<noteq> ?new \<longrightarrow> turns_of (rt_db rt') x = turns_of (rt_db rt) x"
    by (simp add: turns_of_def rows enumerate_filter_sessions)
  ultimately show ?thesis
    using s d(2) rows(2) t by (auto simp: reply fill_session_def forked_session_def new_session_def)
qed

subsection \<open>Witnesses\<close>

lemma letters_mono: "0 \<le> a \<Longrightarrow> a \<le> b \<Longrightarrow> \<not> letters b < letters a"
proof -
  assume "0 \<le> a" "a \<le> b"
  then have "letters b = letters a @ replicate (nat b - nat a) CHR ''a''"
    by (simp add: letters_def replicate_add [symmetric])
  moreover have "\<not> xs @ ys < xs" for xs ys :: string by (induction xs) auto
  ultimately show ?thesis by simp
qed

lemma held_until: "0 \<le> a \<Longrightarrow> a \<le> t \<Longrightarrow> \<not> lock_expired (env_at a) t"
  by (simp add: lock_expired_def letters_mono)

definition local_session_w :: Session where
  "local_session_w = session_w\<lparr>sess_UserID := ''local'', sess_LockOwner := None, sess_LockExpiresAt := None\<rparr>"

definition hello_row_w :: Turn where
  "hello_row_w = (messageToTurn (env_at 1) ''s1'' 1 (user_message hello_submit) no_metadata)\<lparr>turn_ID := ''t1''\<rparr>"

definition service_db_w :: "Turn list \<Rightarrow> db" where
  "service_db_w ts = empty_db\<lparr>db_sessions := [local_session_w], db_turns := ts\<rparr>"

definition client_w :: "string \<Rightarrow> Connection" where
  "client_w i = fresh_connection (env_at 0) i False"

definition resume_w :: SessionResume where
  "resume_w = \<lparr>sre_SessionID = ''s1'', sre_Project = \<lparr>pc_Root = ''/p'', pc_ConfigFile = [], pc_ConfigContent = []\<rparr>\<rparr>"

lemma resume_w_simps [simp]:
  "active_ids (runtime_w d)" "conversation_of sid (runtime_w d) = NewConversation sid"
  "sre_SessionID resume_w = ''s1''"
  by (simp_all add: active_ids_def conversation_of_def GetActiveSession_def resume_w_def)

lemma client_w_simps [simp]: "cn_id (client_w i) = i" "conn_UserID (conn_view (client_w i)) = ''local''"
  by (simp_all add: client_w_def fresh_connection_def startHeartbeatMonitor_def conn_initialize_def
      conn_transition_def NewConnection_def conn_view_def SoloUserID_def)

lemma service_resumable:
  assumes "db_sessions d = [local_session_w]" "rt_db rt = d" "active_ids rt"
  shows "resumable (env_at t) ''s1'' (client_w i) rt"
  using assms by (simp add: resumable_def find_session_def local_session_w_def session_w_def
      verifySessionAccess_def lock_available_def)

lemma hello_row_read: "turnToMessage hello_row_w = Some (compact_message (user_message hello_submit))"
proof -
  let ?m = "user_message hello_submit"
  have m: "valid_calls ?m" "wf_metadata ?m"
    by (simp_all add: valid_calls_def user_message_def wf_metadata_def)
  have "turn_Content hello_row_w = Some (content_text ?m)" by (simp add: hello_row_w_def)
  then show ?thesis using read_content [OF m] content_nonempty [OF m(2)] by (simp add: turnToMessage_def)
qed

lemma hello_restored:
  "RestoreFromTurns [hello_row_w] (NewConversation ''s1'') =
     (\<lparr>cv_sessionID = ''s1'', cv_turns = [compact_message (user_message hello_submit)], cv_userSequence = 1,
       cv_storageSequence = 1\<rparr>, None)"
  by (simp add: RestoreFromTurns_def hello_row_read NewConversation_def user_message_def)
    (simp add: hello_row_w_def)

lemma hello_listed: "ListTurns (env_at t) ''s1'' (service_db_w [hello_row_w]) = Inr [hello_row_w]"
  by (simp add: ListTurns_def turns_of_def service_db_w_def empty_db_def hello_row_w_def MaxTurnsPerListCall_def)

lemma clear_undone_by_resume_witness:
  "\<exists>rt1 rt2 c2 out res. handleSessionClear (env_at 3) (Inr ''s1'') (client_w ''c1'') (runtime_w (service_db_w [hello_row_w]))
       = (client_w ''c1'', rt1, [], Inr (0, True)) \<and>
     handleSessionResume (env_at 4) (Inr resume_w) (client_w ''c1'') rt1 = (c2, rt2, out, res) \<and>
     cv_turns (conversation_of ''s1'' rt1) = [] \<and>
     cv_turns (conversation_of ''s1'' rt2) = [compact_message (user_message hello_submit)]"
proof -
  let ?rt = "runtime_w (service_db_w [hello_row_w])" and ?c = "client_w ''c1''"
  have "\<exists>rt1. handleSessionClear (env_at 3) (Inr ''s1'') ?c ?rt = (?c, rt1, [], Inr (0, True))"
    by (simp add: handleSessionClear_def with_session_def GetSession_def find_session_def service_db_w_def
        empty_db_def local_session_w_def session_w_def verifySessionAccess_def EnsureActive_def
        GetActiveSession_def Reset_def TurnCount_def NewConversation_def Let_def split_beta)
  then obtain rt1 where cl: "handleSessionClear (env_at 3) (Inr ''s1'') ?c ?rt = (?c, rt1, [], Inr (0, True))" ..
  have r: "resumable (env_at 4) ''s1'' ?c rt1"
    using clear_result [OF cl] by (intro service_resumable) (simp_all add: service_db_w_def)
  obtain c2 rt2 out res where h: "handleSessionResume (env_at 4) (Inr resume_w) ?c rt1 = (c2, rt2, out, res)"
    by (metis prod_cases4)
  show ?thesis
    using clear_undone_by_resume [of "env_at 3" resume_w ?c ?rt, simplified, OF cl _ r hello_listed hello_restored h]
      cl h by (simp add: NewConversation_def)
qed

lemma fork_copies_turns_witness:
  "\<exists>rt'. handleSessionFork (env_at 3) (Inr ''s1'') (client_w ''c1'') (runtime_w (service_db_w [hello_row_w]))
       = (client_w ''c1'', rt', [], Inr \<lparr>sfr_NewSessionID = nat_str 8, sfr_OriginalSessionID = ''s1''\<rparr>) \<and>
     turns_of (rt_db rt') (nat_str 8) = [fork_row (env_at 3) (nat_str 8) (9, hello_row_w)]"
proof -
  let ?rt = "runtime_w (service_db_w [hello_row_w])" and ?c = "client_w ''c1''"
  have n: "nat_str 8 \<noteq> ''s1''" "nat_str 9 \<noteq> ''t1''" by code_simp+
  have "\<exists>rt'. handleSessionFork (env_at 3) (Inr ''s1'') ?c ?rt
      = (?c, rt', [], Inr \<lparr>sfr_NewSessionID = nat_str 8, sfr_OriginalSessionID = ''s1''\<rparr>)"
    using n by (simp add: handleSessionFork_def with_session_def GetSession_def find_session_def service_db_w_def
        empty_db_def local_session_w_def session_w_def verifySessionAccess_def Let_def split_beta CreateSession_def
        autocommit_def exec_def has_session_def forked_session_def new_session_def fill_session_def ListTurns_def
        turns_of_def CreateTurn_def insertTurn_def hello_row_w_def MaxTurnsPerListCall_def)
  then obtain rt' where f: "handleSessionFork (env_at 3) (Inr ''s1'') ?c ?rt
      = (?c, rt', [], Inr \<lparr>sfr_NewSessionID = nat_str 8, sfr_OriginalSessionID = ''s1''\<rparr>)" ..
  from fork_copies_turns [OF f] n f show ?thesis
    by (simp add: turns_of_def service_db_w_def empty_db_def hello_row_w_def)
qed

lemma resume_restores_conversation_witness:
  "\<exists>cv rows d. run_out conv_step (NewConversation ''s1'') [Submit (env_at 1) hello_submit, Answer (env_at 2) hi_response]
       = (cv, rows) \<and> persist (env_at 3) rows (service_db_w []) = Some d \<and>
     (\<exists>c' rt' out reply. handleSessionResume (env_at 5) (Inr resume_w) (client_w ''c1'') (runtime_w d) = (c', rt', out, Inr reply) \<and>
       map msg_Role (cv_turns (conversation_of ''s1'' rt')) = [''user'', ''assistant''] \<and>
       (\<exists>e. handleSessionResume (env_at 6) (Inr resume_w) (client_w ''c2'') rt' = (client_w ''c2'', rt', [], Inl e)))"
proof -
  let ?ops = "[Submit (env_at 1) hello_submit, Answer (env_at 2) hi_response]"
  obtain cv rows where r: "run_out conv_step (NewConversation ''s1'') ?ops = (cv, rows)" by (meson surj_pair)
  then have c: "cv_turns cv = [user_message hello_submit, assistant_message hi_response]"
      and rs: "map turn_ID rows = [''t1'', nat_str 7]" "\<forall>t \<in> set rows. turn_SessionID t = ''s1''"
    by (auto simp: AppendUserTurn_def AppendAssistantTurn_def NewConversation_def Let_def)
  from rs obtain a b where ab: "rows = [a, b]" "turn_ID a = ''t1''" "turn_ID b = nat_str 7" by auto
  have "nat_str 7 \<noteq> ''t1''" by code_simp
  with rs(2) ab obtain d where p: "persist (env_at 3) rows (service_db_w []) = Some d"
      "db_sessions d = [local_session_w]"
    by (simp add: CreateTurn_def autocommit_def insertTurn_def exec_def service_db_w_def empty_db_def
        has_session_def local_session_w_def session_w_def)
  have v: "\<forall>m \<in> set (cv_turns cv). valid_calls m"
    by (simp add: c valid_calls_def user_message_def assistant_message_def hi_response_def)
  have t: "turns_of (service_db_w []) ''s1'' = []" by (simp add: turns_of_def service_db_w_def empty_db_def)
  have e: "\<not> lock_expired (env_at 6) (env_now (env_at 5) + SessionLockTTL)"
    by (rule held_until) (simp_all add: SessionLockTTL_def)
  obtain c' rt' out res where h: "handleSessionResume (env_at 5) (Inr resume_w) (client_w ''c1'') (runtime_w d) = (c', rt', out, res)"
    by (metis prod_cases4)
  have s: "resumable (env_at 5) ''s1'' (client_w ''c1'') (runtime_w d)"
    by (rule service_resumable) (simp_all add: p(2))
  note x = resume_restores_conversation [of resume_w ?ops cv rows "env_at 3" "service_db_w []" "runtime_w d"
      "env_at 5" "client_w ''c1''" c' rt' out res "client_w ''c2''" "env_at 6"]
  have "(\<exists>reply. res = Inr reply) \<and> cv_turns (conversation_of ''s1'' rt') = map compact_message (cv_turns cv) \<and>
     (\<exists>e. handleSessionResume (env_at 6) (Inr resume_w) (client_w ''c2'') rt' = (client_w ''c2'', rt', [], Inl e))"
    using x r p(1) t v s h e by (simp add: c)
  then show ?thesis using r p(1) h by (auto simp: c user_message_def assistant_message_def comp_def)
qed

end
