(* ===== verification/Format_Props.thy ===== *)
theory Format_Props
  imports Provider_Format Transport_Props
begin

text \<open>
  A request that an adapter formats is one that its own reader of captured traffic understands: the
  proxy sees the model, the limits and the messages the runtime sent.
\<close>

subsection \<open>The bodies are JSON\<close>

lemma bindR_Inr_cases: "bindR r k = Inr y \<Longrightarrow> (\<And>x. r = Inr x \<Longrightarrow> k x = Inr y \<Longrightarrow> P) \<Longrightarrow> P"
  by (auto simp: bindR_Inr)

lemma of_some_Inr [simp]: "of_some e x = Inr y \<longleftrightarrow> x = Some y"
  by (auto simp: of_some_def split: option.splits)

lemma all_some_ball:
  "all_some (map f xs) = Some ys \<Longrightarrow> (\<And>x y. x \<in> set xs \<Longrightarrow> f x = Some y \<Longrightarrow> P y) \<Longrightarrow> \<forall>y \<in> set ys. P y"
proof (induction xs arbitrary: ys)
  case (Cons x xs)
  from Cons.prems(1) obtain y ys' where y: "f x = Some y" "all_some (map f xs) = Some ys'" "ys = y # ys'"
    by (cases "f x") auto
  with Cons.IH [OF y(2)] Cons.prems(2) show ?case by auto
qed simp

lemma all_right_ball:
  "all_right (map f xs) = Inr ys \<Longrightarrow> (\<And>x y. x \<in> set xs \<Longrightarrow> f x = Inr y \<Longrightarrow> P y) \<Longrightarrow> \<forall>y \<in> set ys. P y"
proof (induction xs arbitrary: ys)
  case (Cons x xs)
  from Cons.prems(1) obtain y ys' where y: "f x = Inr y" "all_right (map f xs) = Inr ys'" "ys = y # ys'"
    by (cases "f x") (auto split: sum.splits)
  with Cons.IH [OF y(2)] Cons.prems(2) show ?case by auto
qed simp

lemma all_some_length: "all_some xs = Some ys \<Longrightarrow> length ys = length xs"
  by (induction xs arbitrary: ys rule: all_some.induct) auto

lemma more_names [simp]:
  "plain ''type''" "plain ''text''" "plain ''source''" "plain ''media_type''" "plain ''data''"
  "plain ''tool_use_id''" "plain ''is_error''" "plain ''description''" "plain ''input_schema''"
  "plain ''model''" "plain ''max_tokens''" "plain ''max_completion_tokens''" "plain ''system''"
  "plain ''tools''" "plain ''messages''" "plain ''temperature''" "plain ''stream''" "plain ''options''"
  "plain ''num_predict''" "plain ''url''" "plain ''image_url''" "plain ''function''"
  "plain ''arguments''" "plain ''parameters''"
  by (simp_all add: plain_def plain_char_def)

lemmas wf_simps = wf_elems_all wf_members_all wf_plain Let_def

lemma wf_text_block [simp]: "wf_json (text_block s)"
  by (simp add: text_block_def wf_simps)

lemma wf_text_first: "(\<forall>b \<in> set bs. wf_json b) \<Longrightarrow> \<forall>b \<in> set (text_first s bs). wf_json b"
  by (simp add: text_first_def)

lemma wf_some_block: "(\<forall>b \<in> set bs. wf_json b) \<Longrightarrow> \<forall>b \<in> set (some_block bs). wf_json b"
  by (simp add: some_block_def)

lemma wf_anthropic_attachment: "wf_json (anthropic_attachment v a)"
  by (simp add: anthropic_attachment_def wf_simps)

lemma wf_anthropic_tool_result: "wf_json (anthropic_tool_result r)"
  by (simp add: anthropic_tool_result_def wf_simps)

lemma wf_anthropic_tool_use: "anthropic_tool_use c = Some j \<Longrightarrow> wf_json j"
  by (auto simp: anthropic_tool_use_def wf_simps dest: rawmsg_wf)

lemma wf_anthropic_content:
  assumes "anthropic_content v m = Some (Some rb)" shows "\<forall>b \<in> set (snd rb). wf_json b"
proof -
  consider (tool) "snd rb = text_first (msg_Content m) (map anthropic_tool_result (msg_ToolResults m))"
    | (assistant) cs where "all_some (map anthropic_tool_use (msg_ToolCalls m)) = Some cs"
        "snd rb = some_block (text_first (msg_Content m) cs)"
    | (user) "snd rb = some_block (text_first (msg_Content m) (map (anthropic_attachment v) (msg_Attachments m)))"
    using assms by (auto simp: anthropic_content_def split: if_splits)
  then show ?thesis
  proof cases
    case tool
    then show ?thesis unfolding tool by (intro wf_text_first) (simp add: wf_anthropic_tool_result)
  next
    case assistant
    have "\<forall>b \<in> set cs. wf_json b" by (rule all_some_ball [OF assistant(1)]) (rule wf_anthropic_tool_use)
    then show ?thesis unfolding assistant(2) by (intro wf_some_block wf_text_first)
  next
    case user
    then show ?thesis unfolding user by (intro wf_some_block wf_text_first) (simp add: wf_anthropic_attachment)
  qed
qed

lemma wf_anthropic_tool: "anthropic_tool t = Some j \<Longrightarrow> wf_json j"
  by (auto simp: anthropic_tool_def wf_simps dest: rawmsg_wf)

definition number_text :: "string option \<Rightarrow> bool" where
  "number_text t = (case t of None \<Rightarrow> True | Some n \<Rightarrow> is_number n \<and> list_all num_char n)"

lemma wf_anthropic_body:
  assumes "\<forall>j \<in> set tools. wf_json j" "\<forall>j \<in> set msgs. wf_json j" "number_text (fm_Temperature opts)"
  shows "wf_json (anthropic_body opts tools msgs)"
  using assms by (auto simp: anthropic_body_def wf_simps omitempty_list_def opt_field_def number_text_def
      split: option.splits)

lemma anthropic_wire_wf:
  assumes "all_some (map (anthropic_content v) msgs) = Some wire"
  shows "\<forall>j \<in> set (map anthropic_message (concat_some wire)). wf_json j"
proof -
  have "\<forall>x \<in> set wire. case x of None \<Rightarrow> True | Some rb \<Rightarrow> \<forall>b \<in> set (snd rb). wf_json b"
    by (rule all_some_ball [OF assms]) (auto split: option.splits dest: wf_anthropic_content)
  then have "\<forall>rb \<in> set (concat_some wire). \<forall>b \<in> set (snd rb). wf_json b"
    by (fastforce simp: concat_some_def)
  then show ?thesis by (auto simp: anthropic_message_def wf_simps)
qed

lemma wf_openai_simple [simp]: "wf_json (openai_simple r c)"
  by (simp add: openai_simple_def wf_simps)

lemma wf_openai_user: "wf_json (openai_user caps m)"
proof -
  have "wf_json (openai_attachment caps a)" for a
    by (simp add: openai_attachment_def wf_simps omitempty_def)
  then have "\<forall>b \<in> set (text_first (msg_Content m) (map (openai_attachment caps) (msg_Attachments m))). wf_json b"
    by (intro wf_text_first) simp
  then show ?thesis by (simp add: openai_user_def wf_simps)
qed

lemma wf_openai_assistant: "openai_assistant m = Inr j \<Longrightarrow> wf_json j"
proof -
  assume a: "openai_assistant m = Inr j"
  have w: "openai_tool_call c = Inr j \<Longrightarrow> wf_json j" for c j
    by (auto simp: openai_tool_call_def wf_simps split: option.splits if_splits)
  have "all_right (map openai_tool_call (msg_ToolCalls m)) = Inr cs \<Longrightarrow> \<forall>b \<in> set cs. wf_json b" for cs
    by (erule all_right_ball) (rule w)
  with a show ?thesis by (auto simp: openai_assistant_def bindR_Inr wf_simps split: if_splits)
qed

lemma wf_openai_message: "openai_message caps m = Inr js \<Longrightarrow> \<forall>j \<in> set js. wf_json j"
  by (auto simp: openai_message_def bindR_Inr wf_openai_user openai_tool_result_def wf_simps
      split: if_splits dest: wf_openai_assistant)

lemma wf_openai_tool: "openai_tool t = Some j \<Longrightarrow> wf_json j"
  by (auto simp: openai_tool_def wf_simps dest: rawmsg_wf)

lemma wf_openai_body:
  assumes "\<forall>j \<in> set tools. wf_json j" "\<forall>j \<in> set msgs. wf_json j" "number_text (fm_Temperature opts)"
  shows "wf_json (openai_body opts tools msgs)"
  using assms by (auto simp: openai_body_def wf_simps omitempty_list_def opt_field_def number_text_def
      split: option.splits)

subsection \<open>Reading a request back\<close>

lemma as_int_jint: "- (2 ^ 63) \<le> n \<Longrightarrow> n < 2 ^ 63 \<Longrightarrow> as_int (jint n) = Some n"
  by (simp add: as_int_def jint_def parse_int_itoa)

lemma as_bool_JBool [simp]: "as_bool (JBool b) = Some b" "as_bool JNull = Some False"
  by (simp_all add: as_bool_def)

lemma as_int_null [simp]: "as_int JNull = Some 0"
  by (simp add: as_int_def)

lemma as_list_Some: "as_list Some (JArr vs) = Some vs"
proof -
  have "all_some (map Some vs) = Some vs" by (induction vs) auto
  then show ?thesis by (simp add: as_list_def)
qed

lemma jstr_text [simp]: "(case jstr s of JStr b \<Rightarrow> unlit b | _ \<Rightarrow> []) = s"
  using as_string_jstr [of s] by (cases "jstr s") (auto simp: as_string_def jstr_def)

text \<open>The members of a body that are there under a condition.\<close>

lemma map_of_if: "map_of (if b then [(k, v)] else []) n = (if b \<and> n = k then Some v else None)"
  by simp

lemma map_of_opt: "map_of (opt_field k v) n = (if n = k then v else None)"
  by (simp add: opt_field_def split: option.split)

lemma map_of_list: "map_of (omitempty_list k vs) n = (if n = k \<and> vs \<noteq> [] then Some (JArr vs) else None)"
  by (simp add: omitempty_list_def)

lemmas body_member = map_of_append map_add_def map_of_if map_of_opt map_of_list

definition anthropic_ms :: "FormatMessagesOpts \<Rightarrow> json list \<Rightarrow> json list \<Rightarrow> (string \<times> json) list" where
  "anthropic_ms opts tools msgs = (case anthropic_body opts tools msgs of JObj ms \<Rightarrow> ms | _ \<Rightarrow> [])"

lemma anthropic_ms_obj: "anthropic_body opts tools msgs = JObj (anthropic_ms opts tools msgs)"
  by (simp add: anthropic_ms_def anthropic_body_def)

lemmas anthropic_members = anthropic_ms_def anthropic_body_def

lemma anthropic_ms_plain: "list_all plain (map fst (anthropic_ms opts tools msgs))"
  by (simp add: anthropic_members omitempty_list_def opt_field_def split: option.split)

lemma anthropic_ms_distinct: "distinct (map fst (anthropic_ms opts tools msgs))"
  by (simp add: anthropic_members omitempty_list_def opt_field_def split: option.split)

lemma anthropic_field:
  "plain n \<Longrightarrow> jfield n (anthropic_body opts tools msgs) =
     (case map_of (anthropic_ms opts tools msgs) n of None \<Rightarrow> JNull | Some v \<Rightarrow> v)"
  unfolding anthropic_ms_obj by (rule jfield_plain [OF _ anthropic_ms_plain anthropic_ms_distinct])

lemma anthropic_body_fields:
  assumes "number_text (fm_Temperature opts)" "- (2 ^ 63) \<le> fm_MaxTokens opts" "fm_MaxTokens opts < 2 ^ 63"
    "\<forall>j \<in> set tools. wf_json j" "\<forall>j \<in> set msgs. wf_json j"
  shows "anthropic_ParseRequest (json_print (anthropic_body opts tools msgs)) = Some
    \<lparr>rm_Model = fm_Model opts, rm_MaxTokens = fm_MaxTokens opts, rm_Messages = length msgs,
     rm_Temperature = fm_Temperature opts, rm_Stream = fm_Stream opts, rm_SystemPrompt = fm_SystemPrompt opts\<rparr>"
proof -
  let ?j = "anthropic_body opts tools msgs"
  have f: "jfield ''model'' ?j = jstr (fm_Model opts)" "jfield ''max_tokens'' ?j = jint (fm_MaxTokens opts)"
    "jfield ''messages'' ?j = JArr msgs"
    "jfield ''temperature'' ?j = (case fm_Temperature opts of None \<Rightarrow> JNull | Some n \<Rightarrow> JNum n)"
    "jfield ''stream'' ?j = (if fm_Stream opts then JBool True else JNull)"
    "jfield ''system'' ?j = (if fm_SystemPrompt opts \<noteq> [] then jstr (fm_SystemPrompt opts) else JNull)"
    by (simp_all only: anthropic_field more_names)
      (simp_all add: body_member anthropic_members split: option.split)
  have s: "is_struct ?j" by (simp add: anthropic_body_def is_struct_def)
  show ?thesis
    unfolding anthropic_ParseRequest_def unmarshal_printed [OF wf_anthropic_body [OF assms(4,5,1)]] as_struct_def
    by (simp add: s f jstr_at_def jint_at_def jbool_at_def jptr_at_def as_int_jint [OF assms(2,3)] as_list_Some
        as_number_def split: option.split)
qed

lemma as_list_nullable: "as_list Some (if vs = [] then JNull else JArr vs) = Some vs"
  by (simp add: as_list_Some) (simp add: as_list_def)

definition openai_ms :: "FormatMessagesOpts \<Rightarrow> json list \<Rightarrow> json list \<Rightarrow> (string \<times> json) list" where
  "openai_ms opts tools msgs = (case openai_body opts tools msgs of JObj ms \<Rightarrow> ms | _ \<Rightarrow> [])"

lemma openai_ms_obj: "openai_body opts tools msgs = JObj (openai_ms opts tools msgs)"
  by (simp add: openai_ms_def openai_body_def)

lemmas openai_members = openai_ms_def openai_body_def

lemma openai_ms_plain: "list_all plain (map fst (openai_ms opts tools msgs))"
  by (simp add: openai_members omitempty_list_def opt_field_def split: option.split)

lemma openai_ms_distinct: "distinct (map fst (openai_ms opts tools msgs))"
  by (simp add: openai_members omitempty_list_def opt_field_def split: option.split)

lemma openai_field:
  "plain n \<Longrightarrow> jfield n (openai_body opts tools msgs) =
     (case map_of (openai_ms opts tools msgs) n of None \<Rightarrow> JNull | Some v \<Rightarrow> v)"
  unfolding openai_ms_obj by (rule jfield_plain [OF _ openai_ms_plain openai_ms_distinct])

lemma openai_body_fields:
  assumes "number_text (fm_Temperature opts)" "fm_MaxTokens opts < 2 ^ 63"
    "\<forall>j \<in> set tools. wf_json j" "\<forall>j \<in> set msgs. wf_json j"
  shows "openai_ParseRequest (json_print (openai_body opts tools msgs)) = Some
    \<lparr>rm_Model = fm_Model opts, rm_MaxTokens = max 0 (fm_MaxTokens opts), rm_Messages = length msgs,
     rm_Temperature = fm_Temperature opts, rm_Stream = fm_Stream opts, rm_SystemPrompt = []\<rparr>"
proof -
  let ?j = "openai_body opts tools msgs" and ?o = "useMaxCompletionTokens (fm_Model opts)"
  have f: "jfield ''model'' ?j = jstr (fm_Model opts)"
    "jfield ''max_tokens'' ?j = (if fm_MaxTokens opts > 0 \<and> \<not> ?o then jint (fm_MaxTokens opts) else JNull)"
    "jfield ''max_completion_tokens'' ?j = (if fm_MaxTokens opts > 0 \<and> ?o then jint (fm_MaxTokens opts) else JNull)"
    "jfield ''messages'' ?j = (if msgs = [] then JNull else JArr msgs)"
    "jfield ''temperature'' ?j = (case fm_Temperature opts of None \<Rightarrow> JNull | Some n \<Rightarrow> JNum n)"
    "jfield ''stream'' ?j = (if fm_Stream opts then JBool True else JNull)"
    by (simp_all only: openai_field more_names)
      (simp_all add: body_member openai_members split: option.split)
  have s: "is_struct ?j" by (simp add: openai_body_def is_struct_def)
  have n: "fm_MaxTokens opts > 0 \<Longrightarrow> as_int (jint (fm_MaxTokens opts)) = Some (fm_MaxTokens opts)"
    by (rule as_int_jint) (use assms(2) in simp_all)
  show ?thesis
    unfolding openai_ParseRequest_def unmarshal_printed [OF wf_openai_body [OF assms(3,4,1)]] as_struct_def
    by (simp add: s f jstr_at_def jint_at_def jbool_at_def jptr_at_def n as_list_nullable
        as_number_def split: option.split)
qed

text \<open>The number of wire messages of a conversation.\<close>

definition anthropic_count :: "Message list \<Rightarrow> nat" where
  "anthropic_count ms = length (filter (\<lambda>m. msg_Role m \<in> {''tool'', ''user'', ''assistant''}) ms)"

definition openai_count :: "Message list \<Rightarrow> nat" where
  "openai_count ms = sum_list (map (\<lambda>m. if msg_Role m = ''tool'' \<or> msg_ToolResults m \<noteq> []
     then length (msg_ToolResults m) else 1) ms)"

lemma concat_some_Cons [simp]:
  "concat_some [] = []" "concat_some (None # xs) = concat_some xs" "concat_some (Some x # xs) = x # concat_some xs"
  by (simp_all add: concat_some_def)

lemma anthropic_content_None:
  "anthropic_content v m = Some r \<Longrightarrow> (r = None) = (msg_Role m \<notin> {''tool'', ''user'', ''assistant''})"
  by (auto simp: anthropic_content_def split: if_splits)

lemma anthropic_wire_length:
  "all_some (map (anthropic_content v) ms) = Some wire \<Longrightarrow> length (concat_some wire) = anthropic_count ms"
proof (induction ms arbitrary: wire)
  case (Cons m ms)
  from Cons.prems obtain r w where r: "anthropic_content v m = Some r"
    "all_some (map (anthropic_content v) ms) = Some w" "wire = r # w"
    by (cases "anthropic_content v m") auto
  with Cons.IH [OF r(2)] anthropic_content_None [OF r(1)] show ?case
    by (cases r) (auto simp: anthropic_count_def)
qed (simp add: anthropic_count_def)

lemma openai_message_length:
  "openai_message caps m = Inr js \<Longrightarrow> length js =
     (if msg_Role m = ''tool'' \<or> msg_ToolResults m \<noteq> [] then length (msg_ToolResults m) else 1)"
  by (auto simp: openai_message_def bindR_Inr split: if_splits)

lemma openai_wire_length:
  "all_right (map (openai_message caps) ms) = Inr wire \<Longrightarrow> length (concat wire) = openai_count ms"
proof (induction ms arbitrary: wire)
  case (Cons m ms)
  from Cons.prems obtain r w where r: "openai_message caps m = Inr r"
    "all_right (map (openai_message caps) ms) = Inr w" "wire = r # w"
    by (cases "openai_message caps m") (auto split: sum.splits)
  with Cons.IH [OF r(2)] openai_message_length [OF r(1)] show ?case by (simp add: openai_count_def)
qed (simp add: openai_count_def)

lemma all_some_wf: "all_some (map f xs) = Some ys \<Longrightarrow> (\<And>x y. f x = Some y \<Longrightarrow> wf_json y) \<Longrightarrow> \<forall>y \<in> set ys. wf_json y"
  by (erule all_some_ball)

lemma anthropic_reads_back:
  assumes "anthropic_FormatMessages opts = Inr j" "window_messages opts = Inr msgs"
    "number_text (fm_Temperature opts)" "- (2 ^ 63) \<le> fm_MaxTokens opts" "fm_MaxTokens opts < 2 ^ 63"
  shows "anthropic_ParseRequest (json_print j) = Some
    \<lparr>rm_Model = fm_Model opts, rm_MaxTokens = fm_MaxTokens opts, rm_Messages = anthropic_count msgs,
     rm_Temperature = fm_Temperature opts, rm_Stream = fm_Stream opts, rm_SystemPrompt = fm_SystemPrompt opts\<rparr>"
proof -
  let ?v = "hasCapability (fm_Capabilities opts) ''vision''"
  obtain wire tools where w: "all_some (map (anthropic_content ?v) msgs) = Some wire"
    and t: "all_some (map anthropic_tool (fm_Tools opts)) = Some tools"
    and j: "j = anthropic_body opts tools (map anthropic_message (concat_some wire))"
    using assms(1,2) by (auto simp: anthropic_FormatMessages_def bindR_Inr)
  show ?thesis unfolding j
    using anthropic_body_fields [OF assms(3-5) all_some_wf [OF t wf_anthropic_tool] anthropic_wire_wf [OF w]]
    by (simp add: anthropic_wire_length [OF w])
qed

lemma openai_reads_back:
  assumes "openai_FormatMessages opts = Inr j" "window_messages opts = Inr msgs"
    "number_text (fm_Temperature opts)" "fm_MaxTokens opts < 2 ^ 63"
  shows "openai_ParseRequest (json_print j) = Some
    \<lparr>rm_Model = fm_Model opts, rm_MaxTokens = max 0 (fm_MaxTokens opts),
     rm_Messages = (if fm_SystemPrompt opts = [] then 0 else 1) + openai_count msgs,
     rm_Temperature = fm_Temperature opts, rm_Stream = fm_Stream opts, rm_SystemPrompt = []\<rparr>"
proof -
  obtain wire tools where w: "all_right (map (openai_message (fm_Capabilities opts)) msgs) = Inr wire"
    and t: "all_some (map openai_tool (fm_Tools opts)) = Some tools"
    and j: "j = openai_body opts tools
         ((if fm_SystemPrompt opts \<noteq> [] then [openai_simple ''system'' (fm_SystemPrompt opts)] else []) @ concat wire)"
    using assms(1,2) by (auto simp: openai_FormatMessages_def bindR_Inr)
  have "\<forall>js \<in> set wire. \<forall>b \<in> set js. wf_json b"
    by (rule all_right_ball [OF w]) (rule wf_openai_message)
  then have ms: "\<forall>b \<in> set ((if fm_SystemPrompt opts \<noteq> [] then [openai_simple ''system'' (fm_SystemPrompt opts)] else [])
      @ concat wire). wf_json b"
    by auto
  show ?thesis unfolding j
    using openai_body_fields [OF assms(3,4) all_some_wf [OF t wf_openai_tool] ms]
    by (simp add: openai_wire_length [OF w])
qed

lemma ollama_messages_ok:
  "as_list ollama_message_ok (JArr (map (\<lambda>m. ollama_msg (f m) (g m)) ms)) = Some (replicate (length ms) ())"
  by (simp add: as_list_def ollama_message_ok_def as_struct_def is_struct_def ollama_msg_def jstr_at_def jfield_plain comp_def)
    (induction ms, simp_all)

lemma ollama_reads_back:
  assumes "ollama_FormatMessages opts = Inr j" "window_messages opts = Inr msgs"
    "number_text (fm_Temperature opts)"
  shows "ollama_ParseRequest (json_print j) = Some
    \<lparr>rm_Model = fm_Model opts, rm_MaxTokens = 0,
     rm_Messages = (if fm_SystemPrompt opts = [] then 0 else 1) + length msgs,
     rm_Temperature = None, rm_Stream = fm_Stream opts, rm_SystemPrompt = []\<rparr>"
proof -
  let ?ms = "(if fm_SystemPrompt opts \<noteq> [] then [(''system'', fm_SystemPrompt opts)] else [])
      @ map (\<lambda>m. (if msg_Role m = ''tool'' then ''user'' else msg_Role m, ollama_text m)) msgs"
  let ?msgs = "map (\<lambda>p. ollama_msg (fst p) (snd p)) ?ms"
  have j: "j = JObj ([(''model'', jstr (fm_Model opts)), (''messages'', JArr ?msgs),
      (''stream'', JBool (fm_Stream opts))] @ ollama_options opts)"
    using assms(1,2) by (auto simp: ollama_FormatMessages_def bindR_Inr comp_def)
  have wf: "wf_json j" using assms(3)
    by (auto simp: j wf_simps ollama_msg_def ollama_options_def opt_field_def number_text_def split: option.splits)
  have f: "jfield ''model'' j = jstr (fm_Model opts)" "jfield ''messages'' j = JArr ?msgs"
    "jfield ''stream'' j = JBool (fm_Stream opts)"
    by (simp_all add: j ollama_options_def jfield_plain)
  have o: "\<exists>m. as_map (jfield ''options'' j) = Some m"
    by (simp add: j ollama_options_def jfield_plain as_map_def)
  then obtain m where m: "as_map (jfield ''options'' j) = Some m" by blast
  have s: "is_struct j" by (simp add: j is_struct_def)
  show ?thesis
    unfolding ollama_ParseRequest_def unmarshal_printed [OF wf] as_struct_def
    using ollama_messages_ok [of fst snd ?ms]
    by (simp add: s f m jstr_at_def jbool_at_def)
qed

text \<open>What a capture must report of the request a runtime sends.\<close>

definition request_summary :: "adapter \<Rightarrow> FormatMessagesOpts \<Rightarrow> Message list \<Rightarrow> RequestMetadata" where
  "request_summary a opts msgs =
     \<lparr>rm_Model = fm_Model opts,
      rm_MaxTokens = (case a of Anthropic \<Rightarrow> fm_MaxTokens opts | OpenAI \<Rightarrow> max 0 (fm_MaxTokens opts) | Ollama \<Rightarrow> 0),
      rm_Messages = (case a of Anthropic \<Rightarrow> anthropic_count msgs
        | OpenAI \<Rightarrow> (if fm_SystemPrompt opts = [] then 0 else 1) + openai_count msgs
        | Ollama \<Rightarrow> (if fm_SystemPrompt opts = [] then 0 else 1) + length msgs),
      rm_Temperature = (if a = Ollama then None else fm_Temperature opts),
      rm_Stream = fm_Stream opts,
      rm_SystemPrompt = (if a = Anthropic then fm_SystemPrompt opts else [])\<rparr>"

text \<open>
  C20: What the proxy reports of a captured request, adapter by adapter.  The body that \<open>FormatMessages\<close>
  writes is JSON that \<open>ParseRequest\<close> of the same adapter accepts, whatever the conversation holds.  All
  three read back the model, the stream flag and the number of wire messages the conversation after
  truncation makes; Anthropic and OpenAI read back the limit on tokens and the temperature, Anthropic the
  system prompt.  Ollama's reader reports no limit (0) and no temperature although the body carries them.
\<close>

lemma capture_reads_back_request:
  assumes "FormatMessages a opts = Inr body" "window_messages opts = Inr msgs"
    and "number_text (fm_Temperature opts)" "- (2 ^ 63) \<le> fm_MaxTokens opts" "fm_MaxTokens opts < 2 ^ 63"
  shows "ParseRequest a body = Some (request_summary a opts msgs)"
proof (cases a)
  case Anthropic
  then show ?thesis using assms
    by (auto simp: FormatMessages_def bindR_Inr ParseRequest_def request_summary_def dest: anthropic_reads_back)
next
  case OpenAI
  then show ?thesis using assms
    by (auto simp: FormatMessages_def bindR_Inr ParseRequest_def request_summary_def dest: openai_reads_back)
next
  case Ollama
  then show ?thesis using assms
    by (auto simp: FormatMessages_def bindR_Inr ParseRequest_def request_summary_def dest: ollama_reads_back)
qed

definition wire_msg_w :: "string \<Rightarrow> string \<Rightarrow> Message" where
  "wire_msg_w role content = \<lparr>msg_Role = role, msg_Content = content, msg_ToolCalls = [],
     msg_ToolResults = [], msg_Attachments = [], msg_Metadata = []\<rparr>"

definition wire_opts_w :: FormatMessagesOpts where
  "wire_opts_w = \<lparr>fm_Messages = [wire_msg_w ''user'' ''hi'', wire_msg_w ''note'' ''x'', wire_msg_w ''assistant'' ''yo''],
     fm_SystemPrompt = ''be brief'', fm_WindowSize = 0, fm_Model = ''m'', fm_MaxTokens = 64,
     fm_Temperature = None, fm_Stream = True, fm_Tools = [], fm_Capabilities = []\<rparr>"

lemma capture_reads_back_request_witness:
  "\<exists>body. FormatMessages Anthropic wire_opts_w = Inr body \<and> ParseRequest Anthropic body = Some
     \<lparr>rm_Model = ''m'', rm_MaxTokens = 64, rm_Messages = 2, rm_Temperature = None, rm_Stream = True,
      rm_SystemPrompt = ''be brief''\<rparr>"
proof -
  have w: "window_messages wire_opts_w = Inr (fm_Messages wire_opts_w)"
    by (simp add: window_messages_def wire_opts_w_def)
  obtain body where f: "FormatMessages Anthropic wire_opts_w = Inr body"
    by (simp add: FormatMessages_def anthropic_FormatMessages_def w bindR_def of_some_def)
      (simp add: wire_opts_w_def wire_msg_w_def anthropic_content_def)
  have "ParseRequest Anthropic body = Some (request_summary Anthropic wire_opts_w (fm_Messages wire_opts_w))"
    by (rule capture_reads_back_request [OF f w]) (simp_all add: wire_opts_w_def number_text_def)
  with f show ?thesis
    by (simp add: request_summary_def wire_opts_w_def wire_msg_w_def anthropic_count_def)
qed

end
