(* ===== verification/Server_Inv.thy ===== *)
theory Server_Inv
  imports Service_Props Run_Requests Run_Accounting Relay_End
begin

text \<open>
  What every handler, and with it every step of the server, keeps of the server's state: the tables stay
  consistent, every active session is filed under its identifier, the maps have one entry for a
  key, and the two registries of live turns and runs stay within their bounds.
\<close>

subsection \<open>The registries\<close>

definition registry_bounded :: "runRegistry \<Rightarrow> bool" where
  "registry_bounded rr \<longleftrightarrow> distinct (map fst (byRunID rr)) \<and> length (byRunID rr) \<le> maxTrackedRuns"

definition turns_bounded :: "(string \<times> nat) list \<Rightarrow> bool" where
  "turns_bounded ts \<longleftrightarrow> distinct (map fst ts) \<and> length ts \<le> maxTrackedTurns"

lemma bounded_delete:
  "distinct (map fst m) \<and> length m \<le> n \<Longrightarrow>
     distinct (map fst (AList.delete k m)) \<and> length (AList.delete k m) \<le> n"
  using length_delete_le [of k m] by (simp add: distinct_delete)

lemma length_update_le:
  "length (AList.update k v m) \<le> (if map_of m k = None then length m + 1 else length m)"
  by (induction m) auto

lemma length_delete_less: "map_of m k \<noteq> None \<Longrightarrow> length (AList.delete k m) < length m"
proof (induction m)
  case (Cons p m)
  then show ?case using length_delete_le [of k m] by (cases p) (auto simp: less_Suc_eq_le)
qed simp

text \<open>An update of a bounded map that makes room first.\<close>

lemma bounded_update:
  assumes "distinct (map fst m)" "length m \<le> n" "map_of m k = None \<Longrightarrow> length m < n"
  shows "distinct (map fst (AList.update k v m)) \<and> length (AList.update k v m) \<le> n"
  using assms length_update_le [of k v m] by (auto simp: distinct_update split: if_splits)

lemma turns_register_bounded: "turns_bounded ts \<Longrightarrow> turns_bounded (turns_register pick tid c ts)"
proof -
  assume b: "turns_bounded ts"
  let ?victim = "fst (ts ! (pick (length ts) mod length ts))"
  show ?thesis
  proof (cases "map_of ts tid = None \<and> length ts \<ge> maxTrackedTurns")
    case True
    then have "pick (length ts) mod length ts < length ts"
      by (intro mod_less_divisor) (auto simp: maxTrackedTurns_def)
    then have "map_of ts ?victim \<noteq> None"
      by (metis fst_conv map_of_eq_None_iff nth_mem prod.collapse rev_image_eqI)
    from length_delete_less [OF this] b True
    have "length (AList.delete ?victim ts) < maxTrackedTurns" by (simp add: turns_bounded_def)
    moreover have "distinct (map fst (AList.delete ?victim ts))"
      using b by (simp add: turns_bounded_def distinct_delete)
    ultimately show ?thesis
      using True bounded_update [of "AList.delete ?victim ts" maxTrackedTurns tid c]
      by (simp add: turns_bounded_def turns_register_def)
  next
    case False
    then show ?thesis
      using b bounded_update [of ts maxTrackedTurns tid c] by (auto simp: turns_bounded_def turns_register_def)
  qed
qed

lemma turns_cancel_bounded: "turns_bounded ts \<Longrightarrow> turns_bounded (fst (turns_cancel tid ts))"
  using bounded_delete [of ts maxTrackedTurns tid]
  by (auto simp: turns_cancel_def turns_bounded_def split: option.splits)

lemma turns_deregister_bounded: "turns_bounded ts \<Longrightarrow> turns_bounded (turns_deregister tid ts)"
  using bounded_delete [of ts maxTrackedTurns tid] by (simp add: turns_deregister_def turns_bounded_def)

lemma evict_bounded:
  assumes "registry_bounded rr" "byRunID rr \<noteq> []"
  shows "distinct (map fst (byRunID (evict pick rr))) \<and> length (byRunID (evict pick rr)) < maxTrackedRuns"
proof -
  let ?m = "byRunID rr"
  let ?i = "pick (length ?m) mod length ?m"
  have "?m ! ?i \<in> set ?m" using assms(2) by simp
  then have "map_of ?m (fst (?m ! ?i)) \<noteq> None" by (metis map_of_eq_None_iff rev_image_eqI)
  from length_delete_less [OF this] have "length (AList.delete (fst (?m ! ?i)) ?m) < maxTrackedRuns"
    using assms(1) by (simp add: registry_bounded_def)
  moreover have "byRunID (evict pick rr) = AList.delete (fst (?m ! ?i)) ?m"
    using assms(2) by (auto simp: evict_def Let_def split_beta split: list.splits)
  ultimately show ?thesis using assms(1) by (simp add: registry_bounded_def distinct_delete)
qed

lemma register_bounded: "registry_bounded rr \<Longrightarrow> registry_bounded (register pick rid tid sid cid c rr)"
proof -
  assume b: "registry_bounded rr"
  define rr1 where "rr1 = (case map_of (byRunID rr) rid of
      Some x \<Rightarrow> (if ar_turnID x \<noteq> [] \<and> ar_turnID x \<noteq> tid
                then rr\<lparr>byTurnID := AList.delete (ar_turnID x) (byTurnID rr)\<rparr> else rr)
    | None \<Rightarrow> rr)"
  define rr2 where "rr2 = (if map_of (byRunID rr1) rid = None \<and> length (byRunID rr1) \<ge> maxTrackedRuns
      then evict pick rr1 else rr1)"
  let ?new = "\<lparr>ar_id = rid, ar_turnID = tid, ar_sessionID = sid, ar_attachedConnectionID = cid, ar_cancel = c\<rparr>"
  have b1: "registry_bounded rr1" using b by (simp add: rr1_def registry_bounded_def split: option.splits)
  have "distinct (map fst (byRunID rr2)) \<and> length (byRunID rr2) \<le> maxTrackedRuns \<and>
      (map_of (byRunID rr2) rid = None \<longrightarrow> length (byRunID rr2) < maxTrackedRuns)"
  proof (cases "map_of (byRunID rr1) rid = None \<and> length (byRunID rr1) \<ge> maxTrackedRuns")
    case True
    then have "byRunID rr1 \<noteq> []" by (auto simp: maxTrackedRuns_def)
    from evict_bounded [OF b1 this, of pick] True show ?thesis by (auto simp: rr2_def)
  next
    case False
    then show ?thesis using b1 by (auto simp: rr2_def registry_bounded_def)
  qed
  then have "distinct (map fst (AList.update rid ?new (byRunID rr2))) \<and>
      length (AList.update rid ?new (byRunID rr2)) \<le> maxTrackedRuns"
    by (intro bounded_update) auto
  moreover have "byRunID (register pick rid tid sid cid c rr) = AList.update rid ?new (byRunID rr2)"
    by (simp add: register_def rr1_def rr2_def Let_def)
  ultimately show ?thesis by (simp add: registry_bounded_def)
qed

lemma cancel_run_bounded: "registry_bounded rr \<Longrightarrow> registry_bounded (fst (cancel_run rid rr))"
  using bounded_delete [of "byRunID rr" maxTrackedRuns rid]
  by (auto simp: cancel_run_def registry_bounded_def split: option.splits)

lemma deregister_bounded: "registry_bounded rr \<Longrightarrow> registry_bounded (deregister rid tid rr)"
  using bounded_delete [of "byRunID rr" maxTrackedRuns rid] by (simp add: deregister_def registry_bounded_def)

subsection \<open>What a write does to the store\<close>

text \<open>
  The tables stay consistent, the log of a run stays what determines its status, and the logs only grow.
\<close>

definition log_good :: "db \<Rightarrow> bool" where
  "log_good d \<longleftrightarrow> store_inv d \<and> log_status_agrees d"

definition advances :: "db \<Rightarrow> db \<Rightarrow> bool" where
  "advances d d' \<longleftrightarrow> (log_good d \<longrightarrow> log_good d') \<and> (\<forall>rid. \<exists>es. events_of d' rid = events_of d rid @ es)"

lemma advances_refl [simp]: "advances d d"
  by (simp add: advances_def)

lemma advances_trans: "advances d d1 \<Longrightarrow> advances d1 d2 \<Longrightarrow> advances d d2"
  unfolding advances_def by (metis append.assoc)

text \<open>A write that leaves runs and events as they are, up to columns the status is not among.\<close>

lemma advances_frame:
  assumes "store_inv d \<Longrightarrow> store_inv d'" "db_events d' = db_events d"
    and "\<And>rid. map_option run_Status (find_run d' rid) = map_option run_Status (find_run d rid)"
  shows "advances d d'"
proof -
  have e: "events_of d' rid = events_of d rid" for rid by (simp add: events_of_def assms(2))
  have "log_status_agrees d'" if l: "log_status_agrees d"
    unfolding log_status_agrees_def
  proof (intro allI impI)
    fix rid r assume "find_run d' rid = Some r"
    with assms(3) [of rid] obtain r0 where "find_run d rid = Some r0" "run_Status r0 = run_Status r"
      by (cases "find_run d rid") auto
    with l show "replay_status (events_of d' rid) = Some (run_Status r)" by (auto simp: e log_status_agrees_def)
  qed
  then show ?thesis using assms(1) by (simp add: advances_def log_good_def e)
qed

lemma advances_tables:
  "(store_inv d \<Longrightarrow> store_inv d') \<Longrightarrow> db_events d' = db_events d \<Longrightarrow> db_runs d' = db_runs d \<Longrightarrow> advances d d'"
  by (rule advances_frame) (simp_all add: find_run_def)

lemma other_tables:
  "CreateSession E s d = (d', r1) \<Longrightarrow> db_events d' = db_events d \<and> db_runs d' = db_runs d"
  "UpdateSession E s d = (d', r1) \<Longrightarrow> db_events d' = db_events d \<and> db_runs d' = db_runs d"
  "AcquireSessionLock E sid x t d = (d', r2) \<Longrightarrow> db_events d' = db_events d \<and> db_runs d' = db_runs d"
  "ReleaseSessionLock E sid x d = (d', r1) \<Longrightarrow> db_events d' = db_events d \<and> db_runs d' = db_runs d"
  "AppendServerEvent E e d = (d', r1) \<Longrightarrow> db_events d' = db_events d \<and> db_runs d' = db_runs d"
  "DeleteTurn E sid tid d = (d', r1) \<Longrightarrow> db_events d' = db_events d \<and> db_runs d' = db_runs d"
  "AppendCommandHistory E h d = (d', r1) \<Longrightarrow> db_events d' = db_events d \<and> db_runs d' = db_runs d"
  "LinkTurnToRun E rid tid role n d = (d', r1) \<Longrightarrow> db_events d' = db_events d \<and> db_runs d' = db_runs d"
  by (auto simp: CreateSession_def UpdateSession_def AcquireSessionLock_def ReleaseSessionLock_def
      AppendServerEvent_def DeleteTurn_def AppendCommandHistory_def LinkTurnToRun_def autocommit_def
      map_session_def insertHistory_def insertRunTurn_def exec_def
      split: sum.splits if_splits option.splits)

lemma CreateTurn_tables: "CreateTurn E t d = (d', r1) \<Longrightarrow> db_events d' = db_events d \<and> db_runs d' = db_runs d"
  by (auto simp: CreateTurn_def dest!: autocommit_cases insertTurn_Inr)

lemma session_writers_advance:
  "CreateSession E s d = (d', r1) \<Longrightarrow> advances d d'"
  "UpdateSession E s d = (d', r1) \<Longrightarrow> advances d d'"
  "AcquireSessionLock E sid x t d = (d', r2) \<Longrightarrow> advances d d'"
  "ReleaseSessionLock E sid x d = (d', r1) \<Longrightarrow> advances d d'"
  "AppendServerEvent E e d = (d', r1) \<Longrightarrow> advances d d'"
  "DeleteTurn E sid tid d = (d', r1) \<Longrightarrow> advances d d'"
  "AppendCommandHistory E h d = (d', r3) \<Longrightarrow> advances d d'"
  "LinkTurnToRun E rid tid role n d = (d', r1) \<Longrightarrow> advances d d'"
  "CreateTurn E tu d = (d', r1) \<Longrightarrow> advances d d'"
  by (blast intro: advances_tables CreateSession_inv dest: other_tables(1),
      blast intro: advances_tables UpdateSession_inv dest: other_tables(2),
      blast intro: advances_tables AcquireSessionLock_inv dest: other_tables(3),
      blast intro: advances_tables ReleaseSessionLock_inv dest: other_tables(4),
      blast intro: advances_tables AppendServerEvent_inv dest: other_tables(5),
      blast intro: advances_tables DeleteTurn_inv dest: other_tables(6),
      blast intro: advances_tables AppendCommandHistory_inv dest: other_tables(7),
      blast intro: advances_tables run_writers_inv(5) dest: other_tables(8),
      blast intro: advances_tables CreateTurn_inv dest: CreateTurn_tables)

lemma AppendRunEvent_advances:
  assumes a: "AppendRunEvent E x ev u d = (d', res)"
    and s: "\<And>r. find_run d x = Some r \<Longrightarrow>
      evt_Status ev = (case upd_Status u of None \<Rightarrow> run_Status r | Some st \<Rightarrow> st)"
  shows "advances d d'"
proof (cases res)
  case (Inl e)
  then show ?thesis using a AppendRunEvent_error [of E x ev u d d' e] by simp
next
  case (Inr n)
  from a Inr obtain r where r: "find_run d x = Some r" by (auto elim: AppendRunEvent_Inr)
  have "log_good d \<longrightarrow> log_good d'"
    using a Inr append_status [of E x ev u d d' n r, OF _ r s [OF r]] run_writers_inv(3) [of d E x ev u d' res]
    by (auto simp: log_good_def)
  then show ?thesis using a Inr by (simp add: advances_def events_of_Append)
qed

lemma CreateRunWithTurn_advances:
  assumes a: "CreateRunWithTurn E r0 ev cp t role n h d = (d', res)"
    and s: "run_Status r0 \<noteq> []" "evt_Status ev = run_Status r0"
  shows "advances d d'"
proof (cases res)
  case (Inl e)
  then show ?thesis using a CreateRunWithTurn_error [of E r0 ev cp t role n h d d' e] by simp
next
  case (Inr r')
  from a [unfolded Inr] obtain r extra where x: "touches_turns extra" "create_run_tx E r ev cp extra d = (d', Inr r')"
    "normalizeRunForCreate E r0 = Inr r" by (rule CreateRunWithTurn_row)
  have "log_good d \<longrightarrow> log_good d'"
    using create_status [OF x s] run_writers_inv(2) [OF _ a] by (auto simp: log_good_def)
  then show ?thesis by (simp add: advances_def events_of_def create_tx_row(3) [OF x])
qed

lemma RecordRunModelCall_advances: "advances d (fst (RecordRunModelCall E c d))"
proof (cases "fst (RecordRunModelCall E c d) = d")
  case False
  let ?d' = "fst (RecordRunModelCall E c d)"
  obtain res where l: "RecordRunModelCall E c d = (?d', res)" by (metis surjective_pairing)
  with False obtain b where b: "res = Inr b"
    by (cases res) (auto simp: RecordRunModelCall_def Let_def dest: run_tx_error)
  from False l b have d': "?d' = d\<lparr>db_model_calls := db_model_calls d @ [normalizeModelCall E c],
      db_runs := map (\<lambda>r. if run_ID r = mc_RunID c then add_model_call c (env_now E) r else r) (db_runs d)\<rparr>"
    using RecordRunModelCall_Inr [of E c d ?d' b] by blast
  have "find_run ?d' rid = (if rid = mc_RunID c then map_option (add_model_call c (env_now E)) (find_run d rid)
      else find_run d rid)" for rid
    by (rule find_run_map) (simp_all add: d' add_model_call_def)
  then have "map_option run_Status (find_run ?d' rid) = map_option run_Status (find_run d rid)" for rid
    by (simp add: option.map_comp comp_def add_model_call_def)
  moreover have "db_events ?d' = db_events d" by (simp add: d')
  moreover have "store_inv ?d'" if "store_inv d" using run_writers_inv(6) [OF that l] .
  ultimately show ?thesis by (intro advances_frame) auto
qed simp

lemma run_effect_advances: "run_effect E conn d d' \<Longrightarrow> advances d d'"
  unfolding advances_def log_good_def using effect_inv effect_status effect_log by blast

subsection \<open>What a handler does to the server's state\<close>

definition rt_maps :: "Runtime \<Rightarrow> bool" where
  "rt_maps rt \<longleftrightarrow> active_ids rt \<and> distinct (map fst (rt_active rt)) \<and> turns_bounded (rt_turns rt) \<and>
     registry_bounded (sv_runs (rt_srv rt))"

text \<open>
  The store advances, the maps stay as they have to be, no session stops being active, and the
  configuration is what it was.
\<close>

definition rt_advances :: "Runtime \<Rightarrow> Runtime \<Rightarrow> bool" where
  "rt_advances rt rt' \<longleftrightarrow> advances (rt_db rt) (rt_db rt') \<and> (rt_maps rt \<longrightarrow> rt_maps rt') \<and>
     (\<forall>sid. GetActiveSession sid rt \<noteq> None \<longrightarrow> GetActiveSession sid rt' \<noteq> None) \<and>
     rt_config rt' = rt_config rt \<and> rt_providers rt' = rt_providers rt \<and> rt_adapters rt' = rt_adapters rt"

lemma rt_advances_refl [simp]: "rt_advances rt rt"
  by (simp add: rt_advances_def)

lemma rt_advances_trans: "rt_advances rt rt1 \<Longrightarrow> rt_advances rt1 rt2 \<Longrightarrow> rt_advances rt rt2"
  unfolding rt_advances_def using advances_trans by metis

lemma active_ids_update:
  "active_ids rt \<Longrightarrow> as_ID s = k \<Longrightarrow> active_ids (rt\<lparr>rt_active := AList.update k s (rt_active rt)\<rparr>)"
proof -
  assume a: "active_ids rt" "as_ID s = k"
  have "set (AList.update k s m) \<subseteq> insert (k, s) (set m)" for m by (induction m) auto
  then show ?thesis using a unfolding active_ids_def by fastforce
qed

lemma step_active:
  assumes "rt_maps rt1 \<Longrightarrow> as_ID s = k"
  shows "rt_advances rt1 (rt1\<lparr>rt_active := AList.update k s (rt_active rt1)\<rparr>)"
proof -
  have "rt_maps (rt1\<lparr>rt_active := AList.update k s (rt_active rt1)\<rparr>)" if "rt_maps rt1"
    using that assms active_ids_update [of rt1 s k] by (simp add: rt_maps_def distinct_update)
  then show ?thesis by (simp add: rt_advances_def rt_db_def GetActiveSession_def update_conv')
qed

lemma step_srv:
  assumes "advances (rt_db rt1) (sv_db srv)"
    and "registry_bounded (sv_runs (rt_srv rt1)) \<Longrightarrow> registry_bounded (sv_runs srv)"
  shows "rt_advances rt1 (rt1\<lparr>rt_srv := srv\<rparr>)"
  using assms by (simp add: rt_advances_def rt_maps_def rt_db_def GetActiveSession_def active_ids_def)

lemma step_frames:
  "rt_advances rt1 (rt1\<lparr>rt_timers := ts\<rparr>)" "rt_advances rt1 (rt1\<lparr>rt_prompts := pe\<rparr>)"
  by (simp_all add: rt_advances_def rt_maps_def rt_db_def GetActiveSession_def active_ids_def)

lemma step_turns:
  "(turns_bounded (rt_turns rt1) \<Longrightarrow> turns_bounded t) \<Longrightarrow> rt_advances rt1 (rt1\<lparr>rt_turns := t\<rparr>)"
  by (simp add: rt_advances_def rt_maps_def rt_db_def GetActiveSession_def active_ids_def)

text \<open>The same, as steps at the end of a sequence.\<close>

lemma adv_set_db: "rt_advances rt rt1 \<Longrightarrow> advances (rt_db rt1) d \<Longrightarrow> rt_advances rt (set_db d rt1)"
  by (erule rt_advances_trans) (simp add: set_db_def step_srv)

lemma adv_active: "rt_advances rt rt1 \<Longrightarrow> rt_advances rt (set_active s rt1)"
  by (erule rt_advances_trans) (simp add: set_active_def step_active)

lemma adv_ensure: "rt_advances rt rt1 \<Longrightarrow> rt_advances rt (fst (EnsureActive sid c rt1))"
proof (erule rt_advances_trans)
  have "as_ID x = sid" if "rt_maps rt1" "GetActiveSession sid rt1 = Some x" for x
    using that by (auto simp: rt_maps_def active_ids_def GetActiveSession_def dest: map_of_SomeD)
  then show "rt_advances rt1 (fst (EnsureActive sid c rt1))"
    by (auto simp: EnsureActive_def Let_def intro!: step_active split: option.split)
qed

lemma adv_override: "rt_advances rt rt1 \<Longrightarrow> rt_advances rt (set_override sid m rt1)"
proof (erule rt_advances_trans)
  have "as_ID x = sid" if "rt_maps rt1" "GetActiveSession sid rt1 = Some x" for x
    using that by (auto simp: rt_maps_def active_ids_def GetActiveSession_def dest: map_of_SomeD)
  then show "rt_advances rt1 (set_override sid m rt1)"
    by (auto simp: set_override_def intro!: step_active split: option.split)
qed

lemmas adv_frames = rt_advances_trans [OF _ step_frames(1)] rt_advances_trans [OF _ step_frames(2)]
lemmas adv_turns = rt_advances_trans [OF _ step_turns]
lemmas adv_srv = rt_advances_trans [OF _ step_srv]

lemmas adv_intros = rt_advances_refl adv_set_db adv_active adv_ensure adv_override adv_frames

subsection \<open>The session requests\<close>

lemma adv_with_session:
  "(\<And>q s. rt_advances rt (fst (snd (k q s)))) \<Longrightarrow>
     rt_advances rt (fst (snd (with_session E dec sid bad missing params c rt k)))"
  by (simp add: with_session_def split: sum.split option.split)

lemma create_advances: "rt_advances rt (fst (snd (handleSessionCreate E proj c rt)))"
proof (cases proj)
  case (Inr project)
  obtain d r where c: "CreateSession E (new_session E (env_uuid E 8) (pc_Root project)) (rt_db rt) = (d, r)"
    by fastforce
  obtain d' r' where a: "AcquireSessionLock E (env_uuid E 8) (cn_id c) (env_now E + SessionLockTTL) d = (d', r')"
    by fastforce
  have d: "advances (rt_db rt) d" "advances (rt_db rt) d'"
    using session_writers_advance(1) [OF c] session_writers_advance(3) [OF a] advances_trans by blast+
  show ?thesis
    by (auto simp: handleSessionCreate_def Inr c a Let_def split_beta d split: sum.split bool.split
        intro!: adv_intros)
qed (simp add: handleSessionCreate_def)

lemma resume_advances: "rt_advances rt (fst (snd (handleSessionResume E res c rt)))"
  unfolding handleSessionResume_def
proof (rule adv_with_session, goal_cases)
  case (1 req sess)
  obtain d r where a: "AcquireSessionLock E (sre_SessionID req) (cn_id c) (env_now E + SessionLockTTL) (rt_db rt) = (d, r)"
    by fastforce
  have "advances (rt_db rt) d" by (rule session_writers_advance(3) [OF a])
  then show ?case
    by (auto simp: a Let_def split_beta split: sum.split bool.split option.split intro!: adv_intros)
qed

lemma clear_advances: "rt_advances rt (fst (snd (handleSessionClear E q c rt)))"
  unfolding handleSessionClear_def
proof (rule adv_with_session, goal_cases)
  case (1 sid sess)
  have "advances d (fst (AppendServerEvent E e d))" for e d
    using session_writers_advance(5) [of E e d] by (metis surjective_pairing)
  then show ?case by (auto simp: Let_def split_beta intro!: adv_intros)
qed

lemma copy_turns_advances: "advances d (fst (copy_turns E sid i ts d))"
proof (induction ts arbitrary: i d)
  case (Cons t ts)
  let ?t = "t\<lparr>turn_ID := env_uuid E i, turn_SessionID := sid, turn_CreatedAt := env_now E\<rparr>"
  obtain d' r where c: "CreateTurn (at_round i E) ?t d = (d', r)" by fastforce
  from session_writers_advance(9) [OF c] have "advances d d'" .
  then show ?case using Cons.IH [of d' "i + 1"] by (auto simp: c intro: advances_trans split: sum.split)
qed simp

lemma fork_advances: "rt_advances rt (fst (snd (handleSessionFork E q c rt)))"
  unfolding handleSessionFork_def
proof (rule adv_with_session, goal_cases)
  case (1 sid src)
  obtain d r where c: "CreateSession E (forked_session E (env_uuid E 8) src) (rt_db rt) = (d, r)" by fastforce
  obtain ts where ts: "ListTurns E (sess_ID src) d = Inr ts \<or> (\<exists>e. ListTurns E (sess_ID src) d = Inl e)"
    by (cases "ListTurns E (sess_ID src) d") auto
  obtain d1 r1 where d1: "copy_turns E (env_uuid E 8) 9 ts d = (d1, r1)" by fastforce
  have a: "advances d (fst (AppendServerEvent E e d))" for e d
    using session_writers_advance(5) [of E e d] by (metis surjective_pairing)
  have b: "advances (rt_db rt) d" by (rule session_writers_advance(1) [OF c])
  then have b1: "advances (rt_db rt) d1" using copy_turns_advances [of d E _ 9 ts] d1 advances_trans by (metis fst_conv)
  then have "advances (rt_db rt) (fst (AppendServerEvent E e d1))" for e using a advances_trans by blast
  then show ?case using ts d1 b b1
    by (auto simp: c Let_def split_beta split: sum.split option.split intro!: adv_intros)
qed

lemma switch_advances: "rt_advances rt (fst (snd (handleModelSwitch E q c rt)))"
  unfolding handleModelSwitch_def
proof (rule adv_with_session, goal_cases)
  case (1 req sess)
  have u: "advances d (fst (UpdateSession E s d))" for s d
    using session_writers_advance(2) [of E s d] by (metis surjective_pairing)
  show ?case
    by (auto simp: Let_def split_beta u split: sum.split option.split intro!: adv_intros)
qed

subsection \<open>Compaction\<close>

lemma deleteTurns_advances: "advances d (fst (deleteTurns E i ts d))"
proof (induction ts arbitrary: i d)
  case (Cons t ts)
  obtain d' r where c: "DeleteTurn (at_round i E) (turn_SessionID t) (turn_ID t) d = (d', r)" by fastforce
  from session_writers_advance(6) [OF c] have "advances d d'" .
  then show ?case using Cons.IH [of d' "i + 1"] by (auto simp: c intro: advances_trans split: sum.split)
qed simp

lemma replaceTurns_advances: "advances d (fst (replaceTurnsWithSummary E sid ts n s seqs d))"
proof -
  obtain d1 r1 where d1: "deleteTurns E 0 ts d = (d1, r1)" by fastforce
  have "advances d d1" using deleteTurns_advances [of d E 0 ts] d1 by simp
  moreover have "advances d1 d2" if "CreateTurn E t d1 = (d2, r2)" for t d2 r2
    by (rule session_writers_advance(9) [OF that])
  ultimately show ?thesis
    by (auto simp: replaceTurnsWithSummary_def d1 intro: advances_trans split: option.split sum.split prod.split)
qed

lemma compact_steps_advance:
  "advances d (fst (compact_older E sid act ts d))" "advances d (fst (compact_tools E i act ts d))"
  using deleteTurns_advances [of d E 0 ts] deleteTurns_advances [of d E i ts]
    replaceTurns_advances [of d E sid ts "turn_Sequence (hd ts)" "summarizeTurns ts" "map turn_Sequence ts"]
  by (auto simp: compact_older_def compact_tools_def split: option.split prod.split)

lemma applyCompact_advances: "advances d (fst (applyCompactPlan E sid actions w d))"
proof -
  have e: "advances d (fst (AppendServerEvent E e d))" for e d
    using session_writers_advance(5) [of E e d] by (metis surjective_pairing)
  have o: "advances d d1" if "compact_older E sid act ts d = (d1, r)" for act ts d1 r
    using compact_steps_advance(1) [of d E sid act ts] that by simp
  have t: "advances d1 d2" if "compact_tools E i act ts d1 = (d2, r)" for i act ts d1 d2 r
    using compact_steps_advance(2) [of d1 E i act ts] that by simp
  show ?thesis
    by (auto simp: applyCompactPlan_def Let_def split: sum.split prod.split
        intro: o t e advances_trans [OF o t] advances_trans [OF o advances_trans [OF t e]])
qed

lemma compact_advances: "rt_advances rt (fst (snd (handleCompactApply E q c rt)))"
  unfolding handleCompactApply_def
proof (rule adv_with_session, goal_cases)
  case (1 req sess)
  show ?case
    using applyCompact_advances [of "rt_db rt" E "cap_SessionID req" "cap_Actions req"
        "contextWindowForSession (cap_SessionID req) rt"]
    by (auto split: prod.split intro!: adv_intros)
qed

lemma compact_plan_advances: "rt_advances rt (fst (snd (handleSessionCompact E q c rt)))"
  unfolding handleSessionCompact_def by (rule adv_with_session) (simp split: sum.split)

lemma reads_advance:
  "rt_advances rt (fst (snd (handleSessionList E pins clock c rt)))"
  "rt_advances rt (fst (snd (handleSessionSync pick q c rt)))"
  "rt_advances rt (fst (snd (handleModelList c rt)))"
  by (auto simp: handleSessionList_def handleSessionSync_def handleModelList_def Let_def
      split: sum.split option.split)

lemma details_advances: "rt_advances rt (fst (snd (handleSessionDetails E clock q c rt)))"
  unfolding handleSessionDetails_def by (rule adv_with_session) (simp split: sum.split)

subsection \<open>Turns\<close>

lemma cancel_turn_advances: "rt_advances rt (fst (snd (handleTurnCancel q c rt)))"
proof -
  have srv: "rt_advances rt (rt\<lparr>rt_srv := (rt_srv rt)\<lparr>sv_runs := fst (cancel_run rid (sv_runs (rt_srv rt)))\<rparr>\<rparr>)" for rid
    by (rule step_srv) (simp_all add: rt_db_def cancel_run_bounded)
  have turns: "rt_advances r (r\<lparr>rt_turns := fst (turns_cancel tid (rt_turns r))\<rparr>)" for r tid
    by (rule step_turns) (rule turns_cancel_bounded)
  show ?thesis
    using srv turns rt_advances_trans [OF srv turns] turns [of rt]
    by (auto simp: handleTurnCancel_def Let_def split_beta split: sum.split)
qed

lemma tool_result_advances: "rt_advances rt (fst (snd (handleToolResult E q c rt)))"
proof (cases q)
  case (Inr req)
  have c: "advances d (fst (CreateTurn E t d))" for t d
    using session_writers_advance(9) [of E t d] by (metis surjective_pairing)
  have a: "rt_advances rt (rt\<lparr>rt_active := AList.update (cn_sessionID c) (x\<lparr>as_Conversation := v\<rparr>) (rt_active rt)\<rparr>)"
    if "GetActiveSession (cn_sessionID c) rt = Some x" for x v
    by (rule step_active)
      (use that in \<open>auto simp: rt_maps_def active_ids_def GetActiveSession_def dest: map_of_SomeD\<close>)
  show ?thesis
    by (auto simp: handleToolResult_def Inr Let_def split_beta c split: option.split sum.split
        intro!: adv_set_db a)
qed (simp add: handleToolResult_def)

lemma lifecycle_advances:
  assumes "appendRunLifecycle E r typ stage status reason payload srv = (srv', out, res)" "status \<noteq> []"
  shows "advances (sv_db srv) (sv_db srv') \<and> sv_runs srv' = sv_runs srv"
proof -
  let ?ev = "\<lparr>evt_RunID = [], evt_Seq = 0, evt_Type = typ, evt_Stage = stage, evt_Status = status,
      evt_Reason = reason, evt_PayloadJSON = Some (case payload of None \<Rightarrow> ''{}'' | Some j \<Rightarrow> j),
      evt_PayloadSchemaVersion = 0, evt_CreatedAt = env_now E\<rparr>"
  obtain d x where a: "AppendRunEvent E (run_ID r) ?ev (lifecycle_update E r typ stage status reason) (sv_db srv) = (d, x)"
    by fastforce
  have "advances (sv_db srv) d"
    by (rule AppendRunEvent_advances [OF a]) (simp add: lifecycle_update_def stringPtrOrNil_def assms(2))
  then show ?thesis using assms(1) a by (auto simp: appendRunLifecycle_def Let_def split: sum.splits)
qed

lemma run_step_advances:
  assumes "status \<noteq> []" "rt_advances rt0 rt"
  shows "rt_advances rt0 (fst (snd (run_step E typ stage status reason payload (r, rt, outs))))"
proof -
  obtain srv out res where l: "appendRunLifecycle E r typ stage status reason payload (rt_srv rt) = (srv, out, res)"
    by (metis prod_cases3)
  show ?thesis
    using adv_srv [OF assms(2), where srv = srv] lifecycle_advances [OF l assms(1)] by (simp add: run_step_def l rt_db_def)
qed

lemma statuses_nonempty [simp]: "RunStatusFailed \<noteq> []" "RunStatusRunning \<noteq> []" "RunStatusCompleted \<noteq> []"
  "RunStatusCancelled \<noteq> []"
  by (simp_all add: RunStatusFailed_def RunStatusRunning_def RunStatusCompleted_def RunStatusCancelled_def)

lemma fail_turn_advances:
  "rt_advances rt0 (fst (snd s)) \<Longrightarrow> rt_advances rt0 (fst (fail_turn E stage reason payload qs err s))"
  using run_step_advances [of RunStatusFailed rt0 "fst (snd s)" E EventRunFailed stage reason payload "fst s" "snd (snd s)"]
  by (simp add: fail_turn_def split_beta)

lemma send_turn_advances:
  assumes "rt_advances rt0 (fst (snd s))"
  shows "rt_advances rt0 (fst (send_turn E X picks tok submit model entry a c s))"
proof -
  let ?j = "Some (json_object [(''model'', json_string model), (''provider'', json_string (me_Provider entry))])"
  obtain r0 rt1 outs0 where 1: "run_step E EventRunStageChanged RunStagePromptPlan RunStatusRunning [] ?j s = (r0, rt1, outs0)"
    by (metis prod_cases3)
  obtain r rt outs where 2: "run_step E EventRunStageChanged RunStageModelCall RunStatusRunning [] ?j (r0, rt1, outs0) = (r, rt, outs)"
    by (metis prod_cases3)
  have "rt_advances rt0 rt1"
    using run_step_advances [OF _ assms, of RunStatusRunning E EventRunStageChanged RunStagePromptPlan "[]" ?j "fst s" "snd (snd s)"] 1
    by simp
  from run_step_advances [OF _ this, of RunStatusRunning E EventRunStageChanged RunStageModelCall "[]" ?j r0 outs0] 2
  have "rt_advances rt0 rt" by simp
  then have p: "rt_advances rt0 (rt\<lparr>rt_prompts := pe\<rparr>)" for pe by (rule adv_frames)
  have t: "rt_advances rt0 (rt\<lparr>rt_prompts := pe, rt_turns := turns_register k tid tok (rt_turns rt)\<rparr>)" for pe k tid
    using adv_turns [OF p [of pe], where t = "turns_register k tid tok (rt_turns rt)"] turns_register_bounded by simp
  have reg: "rt_advances rt0 (rt\<lparr>rt_prompts := pe, rt_turns := turns_register k tid tok (rt_turns rt),
      rt_srv := (rt_srv rt)\<lparr>sv_runs := register k' rid tid sid cid (Some tok) (sv_runs (rt_srv rt))\<rparr>\<rparr>)"
    for pe k tid k' rid sid cid
    using adv_srv [OF t [where pe = pe and k = k and tid = tid], where srv = "(rt_srv rt)\<lparr>sv_runs := register k' rid tid sid cid (Some tok) (sv_runs (rt_srv rt))\<rparr>"]
      register_bounded by (simp add: rt_db_def)
  show ?thesis
    by (auto simp: send_turn_def 1 2 Let_def p reg split: prod.split sum.split intro!: fail_turn_advances)
qed

lemma route_turn_advances:
  "rt_advances rt0 (fst (snd s)) \<Longrightarrow> rt_advances rt0 (fst (route_turn E X picks tok submit a c s))"
  by (simp add: route_turn_def Let_def split_beta fail_turn_advances send_turn_advances split: option.split)

lemma foreground_advances:
  assumes "createForegroundRunWithTurn E sess (foreground_options c submit) turn h srv = (srv', out, res)"
  shows "advances (sv_db srv) (sv_db srv') \<and> sv_runs srv' = sv_runs srv"
proof -
  let ?opts = "foreground_options c submit"
  let ?r = "new_run E sess (if opt_IdempotencyKey ?opts = [] then ''turn:'' @ sess_ID sess @ '':'' @ turn_ID turn
      else opt_IdempotencyKey ?opts) ?opts"
  let ?cp = "new_checkpoint E (run_Stage ?r) (run_Status ?r) [] (run_Summary ?r) [turn_ID turn]"
  obtain d x where a: "CreateRunWithTurn E ?r (started_event E ?r) ?cp (Some turn) (turn_Role turn) (turn_Sequence turn) h
      (sv_db srv) = (d, x)" by fastforce
  have "advances (sv_db srv) d"
    by (rule CreateRunWithTurn_advances [OF a]) (simp_all add: new_run_def foreground_options_def started_event_def)
  then show ?thesis using assms a by (auto simp: createForegroundRunWithTurn_def Let_def split: sum.splits)
qed

lemma submit_turn_advances: "rt_advances rt (fst (submit_turn E X picks tok submit sess a c rt))"
proof -
  have 1: "rt_advances rt (set_active x rt)" for x by (rule adv_active) simp
  have 2: "rt_advances rt ((set_active x rt)\<lparr>rt_srv := srv\<rparr>)"
    if "createForegroundRunWithTurn E sess (foreground_options c submit) turn h (rt_srv (set_active x rt)) = (srv, out, res)"
    for x turn h srv out res
    using adv_srv [OF 1, where srv = srv, of x] foreground_advances [OF that] by (simp add: rt_db_def)
  show ?thesis
    by (auto simp: submit_turn_def Let_def split: sum.split prod.split intro!: route_turn_advances intro: 2)
qed

lemma bind_advances: "rt_advances rt0 rt \<Longrightarrow> rt_advances rt0 (fst (snd (bind_session sid sess c rt)))"
  by (simp add: bind_session_def Let_def split_beta adv_active adv_ensure)

lemma ensure_session_advances: "advances d (fst (ensure_session E c sid d))"
proof -
  let ?s = "new_session E sid (pc_Root (cm_project (cn_caps c)))"
  obtain d1 r1 where c: "CreateSession E ?s d = (d1, r1)" by fastforce
  obtain d2 r2 where l: "AcquireSessionLock E sid (cn_id c) (env_now E + SessionLockTTL) d1 = (d2, r2)" by fastforce
  have "advances d d1" "advances d d2"
    using session_writers_advance(1) [OF c] session_writers_advance(3) [OF l] advances_trans by blast+
  then show ?thesis by (simp add: ensure_session_def Let_def c l split: sum.split option.split)
qed

lemma submit_advances: "rt_advances rt (fst (snd (handleTurnSubmit E X picks tok raw c rt)))"
proof (cases "ValidateTurnSubmit raw")
  case ts: (Inr ts)
  define submit where "submit = (if ts_SessionID ts = [] then ts\<lparr>ts_SessionID := env_uuid E 8\<rparr> else ts)"
  have h: "handleTurnSubmit E X picks tok raw c rt = (case attachments_refused (rt_config rt) (ts_Attachments submit) of
       Some msg \<Rightarrow> (c, rt, [], [], None, Inl (transportInvalidParams msg))
     | None \<Rightarrow>
         (case ensure_session E c (ts_SessionID submit) (rt_db rt) of
            (d, Inl err) \<Rightarrow> (c, set_db d rt, [], [], None, Inl err)
          | (d, Inr sess) \<Rightarrow>
              (case bind_session (ts_SessionID submit) sess c (set_db d rt) of
                 (c1, rt1, a) \<Rightarrow> (c1, submit_turn E X picks tok submit sess a c1 rt1))))"
    by (simp add: handleTurnSubmit_def ts submit_def [symmetric] del: if_split)
  obtain d r where e: "ensure_session E c (ts_SessionID submit) (rt_db rt) = (d, r)" by fastforce
  from ensure_session_advances [of "rt_db rt" E c "ts_SessionID submit"] e
  have d: "rt_advances rt (set_db d rt)" by (intro adv_set_db) simp_all
  show ?thesis
  proof (cases r)
    case (Inr sess)
    obtain c1 rt1 a where b: "bind_session (ts_SessionID submit) sess c (set_db d rt) = (c1, rt1, a)"
      by (metis prod_cases3)
    have "rt_advances rt rt1" using bind_advances [OF d, of "ts_SessionID submit" sess c] b by simp
    then show ?thesis
      by (simp add: h Inr e b rt_advances_trans [OF _ submit_turn_advances] split: option.split)
  qed (use d e in \<open>simp add: h split: option.split\<close>)
qed (simp add: handleTurnSubmit_def)

end
