(* ===== verification/Server_Props.thy ===== *)
theory Server_Props
  imports Server_Inv
begin

text \<open>
  The server as a whole: the invariant of the machine of \<open>Server\<close> under any interleaving of connections,
  requests, timers and relays, and what it gives: the logs determine the runs, no relay is ever
  without its adapter or its session, and every relay that was started ends.
\<close>

subsection \<open>The steps of a relay\<close>

lemma relay_run_event_advances:
  assumes "relay_run_event E rid ty stage status reason payload srv = (srv', out)" "status \<noteq> []"
  shows "advances (sv_db srv) (sv_db srv') \<and> sv_runs srv' = sv_runs srv"
  using assms lifecycle_advances [OF _ assms(2)]
  by (auto simp: relay_run_event_def split: if_splits sum.splits prod.splits)

lemma appendRunProgress_advances:
  "advances (sv_db srv) (sv_db (appendRunProgress E rid raw srv)) \<and>
     sv_runs (appendRunProgress E rid raw srv) = sv_runs srv"
proof -
  have "advances (sv_db srv) (fst (AppendRunEvent E rid
      (plain_event E EventRunProgress (run_Stage run) (run_Status run) (Some raw)) no_update (sv_db srv)))"
    if "GetRun E rid (sv_db srv) = Inr run" for run
  proof (rule AppendRunEvent_advances [OF surjective_pairing])
    fix r assume "find_run (sv_db srv) rid = Some r"
    with that show "evt_Status (plain_event E EventRunProgress (run_Stage run) (run_Status run) (Some raw)) =
        (case upd_Status no_update of None \<Rightarrow> run_Status r | Some st \<Rightarrow> st)"
      by (auto simp: GetRun_def plain_event_def no_update_def split: if_splits)
  qed
  then show ?thesis by (auto simp: appendRunProgress_def split: sum.split)
qed

lemma relay_event_advances:
  assumes "relay_event E sr ev v srv = (v', srv', out, how)"
  shows "advances (sv_db srv) (sv_db srv') \<and> sv_runs srv' = sv_runs srv"
  using assms appendRunProgress_advances
  by (cases ev) (auto simp: Let_def dest!: relay_run_event_advances split: if_splits prod.splits)

lemma relay_iter_advances:
  assumes "relay_iter E c sr a e body v srv = (body', v', srv', out, how)"
  shows "advances (sv_db srv) (sv_db srv') \<and> sv_runs srv' = sv_runs srv"
  using assms
  by (auto simp: relay_iter_def split: if_splits option.splits cancel_point.splits next_result.splits prod.splits option.splits
      dest: relay_event_advances)

lemma persist_advances:
  assumes "persistAssistant et E sr acc sess srv = (sess', srv', turn, err)"
  shows "advances (sv_db srv) (sv_db srv') \<and> sv_runs srv' = sv_runs srv \<and> as_ID sess' = as_ID sess"
proof -
  obtain c t where a: "AppendAssistantTurn E (relay_response sr acc) (as_Conversation sess) = (c, t)" by fastforce
  obtain d r where d: "CreateTurn E t (sv_db srv) = (d, r)" by fastforce
  have "advances (sv_db srv) d" by (rule session_writers_advance(9) [OF d])
  moreover have "advances d (fst (LinkTurnToRun E rid tid role n d))" for rid tid role n
    by (rule session_writers_advance(8) [OF surjective_pairing])
  ultimately show ?thesis
    using assms a d by (auto simp: persistAssistant_def Let_def split: sum.splits if_splits intro: advances_trans)
qed

lemma relay_finish_advances:
  assumes "relay_finish et E started sr v m sess srv = (sess', srv', out, turn, err)"
  shows "advances (sv_db srv) (sv_db srv') \<and> sv_runs srv' = sv_runs srv \<and> as_ID sess' = as_ID sess"
proof -
  obtain sess1 srv1 turn1 perr where p: "persistAssistant et E sr (rv_acc v) sess srv = (sess1, srv1, turn1, perr)"
    by (metis prod_cases4)
  define srv2 where "srv2 = (if sr_runID sr = [] then srv1
      else srv1\<lparr>sv_db := fst (RecordRunModelCall E (relay_call sr (rv_acc v) (as_TotalCost sess1)
             (whole_millis (time_sub (env_now E) started))) (sv_db srv1))\<rparr>)"
  have 2: "advances (sv_db srv) (sv_db srv2) \<and> sv_runs srv2 = sv_runs srv \<and> as_ID sess1 = as_ID sess"
    using persist_advances [OF p] RecordRunModelCall_advances advances_trans unfolding srv2_def by auto
  have "advances (sv_db srv) (sv_db s) \<and> sv_runs s = sv_runs srv"
    if "appendTerminalRunEvent E (sr_runID sr) ty status reason payload srv2 = (s, o1)" "status \<noteq> []"
    for ty status reason payload s o1
    using relay_run_event_advances [OF that(1) [unfolded appendTerminalRunEvent_def] that(2)] 2 advances_trans by auto
  with assms 2 show ?thesis
    by (auto simp: relay_finish_def p Let_def srv2_def [symmetric] split: prod.splits if_splits)
qed

lemma relay_settle_advances:
  assumes "relay_settle Eb Ec models sr turn err sess srv = (sess', srv', out)"
    and b: "registry_bounded (sv_runs srv)"
  shows "advances (sv_db srv) (sv_db srv') \<and> registry_bounded (sv_runs srv') \<and> as_ID sess' = as_ID sess"
proof -
  have u: "advances d (fst (UpdateSession Ec s d))" for s d
    by (rule session_writers_advance(2) [OF surjective_pairing])
  have l: "advances (sv_db srv) (sv_db s1) \<and> sv_runs s1 = sv_runs srv"
    if "appendRunLifecycle Eb got EventRunFailed (run_Stage got) RunStatusFailed why p srv = (s1, o1, r1)" for got why p s1 o1 r1
    using lifecycle_advances [OF that] by simp
  show ?thesis
    using assms u l advances_trans [OF _ u]
    by (auto simp: relay_settle_def Let_def UpdateAfterTurn_def deregister_bounded
        split: if_splits sum.splits prod.splits)
qed

subsection \<open>The requests together\<close>

lemma from_served_state [simp]: "fst (snd (from_served h)) = fst (snd h)"
  by (simp add: from_served_def split_beta)

lemma answered_state [simp]: "fst (snd (answered rt h)) = rt"
  by (simp add: answered_def)

lemma handle_run_serve:
  "fst (snd (handle_run S q c rt)) = rt\<lparr>rt_srv := fst (serve (su_parse S) (rt_srv rt) (su_store S, conn_view c, q))\<rparr>"
  by (cases q) (simp_all add: from_handled_def served_def split_beta)

text \<open>Only a cancellation touches the registry.\<close>

lemma with_run_runs:
  assumes "\<And>q r. registry_bounded (sv_runs srv) \<Longrightarrow> registry_bounded (sv_runs (fst (k q r)))" "registry_bounded (sv_runs srv)"
  shows "registry_bounded (sv_runs (fst (with_run E conn m rid params srv k)))"
  by (rule with_run_cases [OF refl, of E conn m rid params srv k]) (auto simp: assms)

lemma create_record_runs [simp]: "sv_runs (fst (createRunRecord E sess opts srv)) = sv_runs srv"
  by (simp add: createRunRecord_def Let_def split: sum.split prod.split)

lemma serve_runs:
  assumes "registry_bounded (sv_runs srv)"
  shows "registry_bounded (sv_runs (fst (serve parse srv (E, conn, q))))"
proof -
  have create: "sv_runs s' = sv_runs srv" if "createRunRecord E sess opts srv = (s', out, r)" for sess opts s' out r
    using create_record_runs [of E sess opts srv] that by simp
  show ?thesis
  proof (cases q)
    case (ReqCancel p)
    show ?thesis unfolding ReqCancel serve.simps served_fst handleRunCancel_def
    proof (rule with_run_runs [OF _ assms], goal_cases)
      case (1 req r)
      then show ?case using cancel_run_bounded [of "sv_runs srv" "run_ID r"]
        by (auto simp: Let_def split_beta split: sum.split)
    qed
  qed (auto simp: assms handleRunCreate_def handleRunList_def handleRunDetails_def handleRunAttach_def
      handleRunDetach_def handleRunRetry_def handleRunContinue_def handleRunFork_def handleRunEvents_def
      handleRunPermissions_def handleRunResolvePermission_def handleRunHeartbeat_def Let_def create
      intro!: with_run_runs split: sum.split option.split prod.split)
qed

lemma run_request_advances: "rt_advances rt (fst (snd (handle_run S q c rt)))"
  unfolding handle_run_serve
proof (rule step_srv)
  show "advances (rt_db rt) (sv_db (fst (serve (su_parse S) (rt_srv rt) (su_store S, conn_view c, q))))"
    using run_effect_advances [OF serve_effect] by (simp add: rt_db_def)
qed (rule serve_runs)

lemma history_advances: "handleHistoryAppend E conn q d = (d', r) \<Longrightarrow> advances d d'"
  by (auto simp: handleHistoryAppend_def Let_def split: sum.splits if_splits option.splits prod.splits
      dest: session_writers_advance(7))

lemma transform_keeps: "fst (snd (rt_handle S (RqContentTransform q) c rt)) = rt"
  by (simp split: prod.split)

lemma rt_handle_advances: "rt_advances rt (fst (snd (rt_handle S q c rt)))"
proof (cases q)
  case (RqTurnSubmit raw)
  show ?thesis
    using submit_advances [of rt "su_store S" "su_outside S" "su_picks S" "su_token S" raw c]
    unfolding RqTurnSubmit by (simp add: split_beta)
next
  case (RqContentTransform t)
  show ?thesis using transform_keeps [of S t c rt] unfolding RqContentTransform by simp
next
  case (RqHistoryAppend a)
  obtain d r where d: "handleHistoryAppend (su_store S) (conn_view c) a (rt_db rt) = (d, r)" by fastforce
  show ?thesis
    using adv_set_db [OF rt_advances_refl history_advances [OF d]] unfolding RqHistoryAppend by (simp add: d)
qed (simp_all add: create_advances resume_advances clear_advances fork_advances switch_advances
    compact_advances compact_plan_advances reads_advance details_advances cancel_turn_advances
    tool_result_advances run_request_advances)

lemma handleRequest_advances: "rt_advances rt (fst (snd (handleRequest S q c rt)))"
  by (simp add: handleRequest_def rt_handle_advances split: option.split)

subsection \<open>The relay that a turn starts\<close>

lemma adapterFor_dispatch:
  "turn_Dispatch X (rt_adapters rt) (rt_providers rt) opts = (qs, Inr body) \<Longrightarrow>
     adapterFor (dp_EndpointName opts) rt \<noteq> None"
  by (auto simp: turn_Dispatch_def dispatch_request_def adapterFor_def Let_def
      split: option.splits sum.splits)

lemma run_step_ID: "run_ID (fst (run_step E ty stage status reason payload s)) = run_ID (fst s)"
  by (auto simp: run_step_def appendRunLifecycle_def Let_def split_beta split: sum.split)

lemma send_turn_job:
  assumes "send_turn E X picks tok submit model entry a c s = (rt, outs, qs, Some j, r)"
  shows "rj_session j = as_ID a \<and> rj_adapter j \<noteq> None \<and> sr_runID (rj_relay j) = run_ID (fst s)"
proof -
  let ?p = "Some (json_object [(''model'', json_string model), (''provider'', json_string (me_Provider entry))])"
  let ?s = "run_step E EventRunStageChanged RunStageModelCall RunStatusRunning [] ?p
      (run_step E EventRunStageChanged RunStagePromptPlan RunStatusRunning [] ?p s)"
  obtain r0 rt0 outs0 where 2: "?s = (r0, rt0, outs0)" by (cases ?s rule: prod_cases3)
  have i: "run_ID r0 = run_ID (fst s)"
    using run_step_ID [of E EventRunStageChanged RunStageModelCall RunStatusRunning "[]" ?p] 2
    by (metis fst_conv run_step_ID)
  define rt1 where "rt1 = rt0\<lparr>rt_prompts := SetWindowSize (mi_ContextWindow (me_Info entry)) (rt_prompts rt0)\<rparr>"
  have [simp]: "rt_adapters rt1 = rt_adapters rt0" "rt_providers rt1 = rt_providers rt0"
    by (simp_all add: rt1_def)
  have "adapterFor (me_Provider entry) rt1 \<noteq> None"
    if "turn_Dispatch X (rt_adapters rt1) (rt_providers rt1) (turn_opts r1 a prompt model entry c) = (qs1, Inr body)"
    for r1 prompt qs1 body
    using adapterFor_dispatch [OF that] by (simp add: turn_opts_def)
  with assms i show ?thesis
    by (auto simp: send_turn_def 2 Let_def rt1_def [symmetric] fail_turn_def split: prod.splits sum.splits)
qed

lemma route_turn_job:
  assumes "route_turn E X picks tok submit a c s = (rt, outs, qs, Some j, r)"
  shows "rj_session j = as_ID a \<and> rj_adapter j \<noteq> None \<and> sr_runID (rj_relay j) = run_ID (fst s)"
  using assms by (auto simp: route_turn_def Let_def split_beta fail_turn_def split: if_splits option.splits
      dest: send_turn_job)

text \<open>A run that exists is in its log, so it exists for as long as the log grows.\<close>

lemma advances_run:
  assumes "advances d d'" "log_good d" "find_run d rid \<noteq> None"
  shows "find_run d' rid \<noteq> None"
proof -
  from assms(2,3) have "events_of d rid \<noteq> []"
    by (auto simp: log_good_def log_status_agrees_def replay_status_def split: if_splits)
  with assms(1) have "events_of d' rid \<noteq> []" unfolding advances_def by (metis append_is_Nil_conv)
  then obtain ev where "ev \<in> set (db_events d')" "evt_RunID ev = rid"
    by (auto simp: events_of_def filter_empty_conv)
  moreover have "run_db_inv d'" using assms(1,2) by (simp add: advances_def log_good_def store_inv_def)
  ultimately have "has_run d' rid" by (auto simp: run_db_inv_def)
  then show ?thesis by (simp add: find_run_None)
qed

text \<open>A relay has its adapter, its session and its run.\<close>

definition job_ok :: "Runtime \<Rightarrow> body relay_job \<Rightarrow> bool" where
  "job_ok rt j \<longleftrightarrow> rj_adapter j \<noteq> None \<and> GetActiveSession (rj_session j) rt \<noteq> None \<and>
     sr_runID (rj_relay j) \<noteq> [] \<and> find_run (rt_db rt) (sr_runID (rj_relay j)) \<noteq> None"

lemma job_advances: "job_ok rt j \<Longrightarrow> rt_advances rt rt' \<Longrightarrow> log_good (rt_db rt) \<Longrightarrow> job_ok rt' j"
  using advances_run [of "rt_db rt" "rt_db rt'"] by (simp add: job_ok_def rt_advances_def)

lemma foreground_run:
  assumes "createForegroundRunWithTurn E sess opts turn h srv = (srv', out, Inr r)"
  shows "find_run (sv_db srv') (run_ID r) = Some r \<and> run_ID r \<noteq> []"
proof -
  obtain key d where x: "CreateRunWithTurn E (new_run E sess key opts) (started_event E (new_run E sess key opts))
      (new_checkpoint E (run_Stage (new_run E sess key opts)) (run_Status (new_run E sess key opts)) []
        (run_Summary (new_run E sess key opts)) [turn_ID turn])
      (Some turn) (turn_Role turn) (turn_Sequence turn) h (sv_db srv) = (d, Inr r)" "sv_db srv' = d"
    using assms by (auto simp: createForegroundRunWithTurn_def Let_def split: sum.splits prod.splits if_splits)
  from x(1) obtain r0 extra where t: "touches_turns extra" "create_run_tx E r0
      (started_event E (new_run E sess key opts)) (new_checkpoint E (run_Stage (new_run E sess key opts))
        (run_Status (new_run E sess key opts)) [] (run_Summary (new_run E sess key opts)) [turn_ID turn]) extra
      (sv_db srv) = (d, Inr r)" "normalizeRunForCreate E (new_run E sess key opts) = Inr r0"
    by (rule CreateRunWithTurn_row)
  note row = create_tx_row [OF t]
  have "find (\<lambda>x. run_ID x = run_ID r) (xs @ [r]) = Some r"
    if "\<forall>x \<in> set xs. run_ID x \<noteq> run_ID r" for xs using that by (induction xs) auto
  with row(2) have "find_run d (run_ID r) = Some r" by (simp add: find_run_def row(1) not_has_run)
  moreover have "run_ID (new_run E sess key opts) \<noteq> []" by (simp add: new_run_def)
  ultimately show ?thesis using x(2) row(12) by simp
qed

lemma submit_turn_job:
  assumes s: "submit_turn E X picks tok submit sess a c rt = (rt', outs, qs, Some j, r)"
    and g: "log_good (rt_db rt)"
  shows "job_ok rt' j"
proof -
  from s obtain conv srv out turn r0 where
    cr: "createForegroundRunWithTurn E sess (foreground_options c submit) turn
      (Some (turn_history E (a\<lparr>as_Conversation := conv\<rparr>) submit)) (rt_srv (set_active (a\<lparr>as_Conversation := conv\<rparr>) rt)) = (srv, out, Inr r0)" and
    t: "route_turn E X picks tok submit (a\<lparr>as_Conversation := conv\<rparr>) c
      (r0, (set_active (a\<lparr>as_Conversation := conv\<rparr>) rt)\<lparr>rt_srv := srv\<rparr>, map RunOut out) =
      (rt', outs, qs, Some j, r)"
    by (auto simp: submit_turn_def Let_def split: sum.splits prod.splits if_splits)
  let ?a = "a\<lparr>as_Conversation := conv\<rparr>" and ?rt = "(set_active (a\<lparr>as_Conversation := conv\<rparr>) rt)\<lparr>rt_srv := srv\<rparr>"
  have adv: "rt_advances ?rt rt'"
    using route_turn_advances [of ?rt "(r0, ?rt, map RunOut out)" E X picks tok submit ?a c] by (simp add: t)
  have "advances (rt_db rt) (rt_db ?rt)"
    using foreground_advances [OF cr] by (simp add: rt_db_def set_active_def)
  with g have g1: "log_good (rt_db ?rt)" by (simp add: advances_def)
  have a: "GetActiveSession (as_ID a) ?rt = Some ?a"
    using active_set [of ?a rt] by (simp add: GetActiveSession_def)
  have "find_run (rt_db ?rt) (run_ID r0) = Some r0" "run_ID r0 \<noteq> []"
    using foreground_run [OF cr] by (simp_all add: rt_db_def)
  with a route_turn_job [OF t] have "job_ok ?rt j" by (simp add: job_ok_def)
  then show ?thesis using adv g1 by (rule job_advances)
qed

lemma submit_job:
  assumes h: "handleTurnSubmit E X picks tok raw c rt = (c', rt', outs, qs, Some j, r)"
    and g: "log_good (rt_db rt)"
  shows "job_ok rt' j"
proof -
  from h obtain submit d sess c1 rt1 a where e: "ensure_session E c (ts_SessionID submit) (rt_db rt) = (d, Inr sess)"
    and b: "bind_session (ts_SessionID submit) sess c (set_db d rt) = (c1, rt1, a)"
    and s: "submit_turn E X picks tok submit sess a c1 rt1 = (rt', outs, qs, Some j, r)"
    by (auto simp: handleTurnSubmit_def Let_def split: sum.splits option.splits prod.splits)
  have "rt_advances rt (set_db d rt)"
    using ensure_session_advances [of "rt_db rt" E c "ts_SessionID submit"] e by (intro adv_set_db) simp_all
  from bind_advances [OF this, of "ts_SessionID submit" sess c] b have "rt_advances rt rt1" by simp
  then have "log_good (rt_db rt1)" using g by (simp add: rt_advances_def advances_def)
  then show ?thesis by (rule submit_turn_job [OF s])
qed

lemma request_job:
  assumes "handleRequest S q c rt = (c', rt', ro)" "ro_job ro = Some j" "log_good (rt_db rt)"
  shows "job_ok rt' j"
proof (cases q)
  case (RqTurnSubmit raw)
  with assms show ?thesis
    by (auto simp: handleRequest_def split: option.splits prod.splits dest: submit_job)
next
  case (RqRun rq)
  with assms show ?thesis
    by (cases rq) (auto simp: handleRequest_def from_handled_def plain_reply_def split: option.splits prod.splits)
qed (use assms in \<open>auto simp: handleRequest_def from_served_def answered_def plain_reply_def
      split: option.splits prod.splits\<close>)

subsection \<open>The invariant\<close>

definition server_inv :: "server_state \<Rightarrow> bool" where
  "server_inv st \<longleftrightarrow> log_good (rt_db (st_rt st)) \<and> rt_maps (st_rt st) \<and>
     (\<forall>c \<in> set (st_conns st). conn_inv c) \<and> (\<forall>p \<in> set (st_procs st). job_ok (st_rt st) (rp_job p))"

text \<open>A step: the server's state advances, connections and relays are old ones or fine.\<close>

definition server_moves :: "server_state \<Rightarrow> server_state \<Rightarrow> bool" where
  "server_moves st st' \<longleftrightarrow> rt_advances (st_rt st) (st_rt st') \<and>
     (\<forall>c \<in> set (st_conns st'). c \<in> set (st_conns st) \<or> conn_inv c) \<and>
     (\<forall>p \<in> set (st_procs st'). (\<exists>q \<in> set (st_procs st). rp_job p = rp_job q) \<or> job_ok (st_rt st') (rp_job p))"

lemma server_moves_refl [simp]: "server_moves st st"
  by (auto simp: server_moves_def)

lemma server_moves_inv: "server_moves st st' \<Longrightarrow> server_inv st \<Longrightarrow> server_inv st'"
proof -
  assume m: "server_moves st st'" and i: "server_inv st"
  have "job_ok (st_rt st') (rp_job p)" if "q \<in> set (st_procs st)" "rp_job p = rp_job q" for p q
    using i m that job_advances by (fastforce simp: server_inv_def server_moves_def)
  with i m show ?thesis unfolding server_inv_def server_moves_def rt_advances_def advances_def by blast
qed

lemma set_list_update_in: "x \<in> set (xs [i := y]) \<Longrightarrow> x \<in> set xs \<or> x = y"
  by (meson set_update_subset_insert subset_iff insertE)

lemma update_at_in: "x \<in> set (update_at i f xs) \<Longrightarrow> x \<in> set xs \<or> (\<exists>y \<in> set xs. x = f y)"
  using set_list_update_in [of x xs i "f (xs ! i)"] nth_mem [of i xs] by (auto simp: update_at_def split: if_splits)

lemma remove_at_in: "x \<in> set (remove_at i xs) \<Longrightarrow> x \<in> set xs"
  by (auto simp: remove_at_def dest: in_set_takeD in_set_dropD)

lemma grace_advances: "advances d (snd (grace_fire E ts d))"
proof -
  have "advances d (fold (\<lambda>g d. fst (ReleaseSessionLock E (gt_session g) (gt_owner g) d)) gs d)" for gs d
  proof (induction gs arbitrary: d)
    case (Cons g gs)
    have "advances d (fst (ReleaseSessionLock E (gt_session g) (gt_owner g) d))"
      by (rule session_writers_advance(4) [OF surjective_pairing])
    then show ?case using Cons.IH advances_trans by force
  qed simp
  then show ?thesis by (simp add: grace_fire_def)
qed

lemma step_request_moves: "server_inv st \<Longrightarrow> server_moves st (fst (step_request S i q st))"
proof (cases "i < length (st_conns st) \<and> \<not> cn_closed (st_conns st ! i)")
  case True
  assume inv: "server_inv st"
  obtain c rt ro where h: "handleRequest S q (st_conns st ! i) (st_rt st) = (c, rt, ro)" by (metis prod_cases3)
  have c: "conn_inv c"
    using handleRequest_inv [of "st_conns st ! i" S q "st_rt st"] inv True h by (simp add: server_inv_def)
  have a: "rt_advances (st_rt st) rt" using handleRequest_advances [of "st_rt st" S q "st_conns st ! i"] h by simp
  have j: "job_ok rt (rp_job (start_relay E c j))" if "ro_job ro = Some j" for E j
    using request_job [OF h that] inv by (simp add: server_inv_def start_relay_def)
  show ?thesis
    unfolding server_moves_def
      by (use True a c j in \<open>auto simp: step_request_def h dest: set_list_update_in split: option.splits\<close>)
qed (auto simp: step_request_def)

lemma step_relay_moves: "server_inv st \<Longrightarrow> server_moves st (fst (step_relay E pt i st))"
proof (cases "i < length (st_procs st)")
  case True
  assume inv: "server_inv st"
  let ?p = "st_procs st ! i" and ?rt = "st_rt st"
  have mem: "?p \<in> set (st_procs st)" using True by simp
  show ?thesis
  proof (cases "rp_end ?p = None \<and> rj_adapter (rp_job ?p) \<noteq> None")
    case run: True
    then obtain a where a: "rp_end ?p = None" "rj_adapter (rp_job ?p) = Some a" by auto
    let ?r = "relay_iter E (if relay_cancelled st ?p then Some pt else None) (rj_relay (rp_job ?p)) a
        (snd (rj_body (rp_job ?p))) (rp_rest ?p) (rp_vars ?p) (rt_srv ?rt)"
    obtain left v srv outs how where r: "?r = (left, v, srv, outs, how)" by (cases ?r rule: prod_cases5)
    have adv: "rt_advances ?rt (?rt\<lparr>rt_srv := srv\<rparr>)"
      using relay_iter_advances [OF r] by (intro step_srv) (simp_all add: rt_db_def)
    show ?thesis
      unfolding server_moves_def
      by (use True a r adv mem in \<open>auto simp: step_relay_def Let_def dest!: set_list_update_in intro: bexI [of _ ?p]\<close>)
  qed (use True inv in \<open>auto simp: step_relay_def Let_def split: option.splits\<close>)
qed (simp add: step_relay_def)

lemma step_settle_moves: "server_inv st \<Longrightarrow> server_moves st (fst (step_settle et E Eb i st))"
proof (cases "i < length (st_procs st)")
  case True
  assume inv: "server_inv st"
  let ?p = "st_procs st ! i" and ?rt = "st_rt st"
  let ?j = "rp_job ?p"
  show ?thesis
  proof (cases "rp_end ?p = None \<or> GetActiveSession (rj_session ?j) ?rt = None")
    case False
    then obtain m sess where m: "rp_end ?p = Some m" "GetActiveSession (rj_session ?j) ?rt = Some sess" by auto
    let ?f = "relay_finish et (under (relay_cancelled st ?p) E) (rp_started ?p) (rj_relay ?j) (rp_vars ?p) m sess (rt_srv ?rt)"
    obtain sess1 srv1 outs1 turn err where f: "?f = (sess1, srv1, outs1, turn, err)" by (cases ?f rule: prod_cases5)
    let ?s = "relay_settle Eb (under (\<forall>c \<in> set (st_conns st). cn_id c \<noteq> rp_conn ?p) E) (rt_models ?rt) (rj_relay ?j)
        turn err sess1 srv1"
    obtain sess2 srv2 outs2 where s: "?s = (sess2, srv2, outs2)" by (cases ?s rule: prod_cases3)
    note fa = relay_finish_advances [OF f]
    have b: "registry_bounded (sv_runs srv2)" if "registry_bounded (sv_runs (rt_srv ?rt))"
      using relay_settle_advances [OF s] that fa by simp
    have "registry_bounded (sv_runs srv1)" using inv fa by (simp add: server_inv_def rt_maps_def)
    from relay_settle_advances [OF s this] fa have a: "advances (rt_db ?rt) (sv_db srv2)"
      by (auto simp: rt_db_def intro: advances_trans)
    have "rt_advances ?rt (set_active sess2 (?rt\<lparr>rt_srv := srv2\<rparr>))"
      by (rule adv_active [OF step_srv]) (use a b in auto)
    then have adv: "rt_advances ?rt ((set_active sess2 (?rt\<lparr>rt_srv := srv2\<rparr>))
        \<lparr>rt_turns := turns_deregister (sr_turnID (rj_relay ?j)) (rt_turns ?rt)\<rparr>)"
      by (rule adv_turns) (simp add: set_active_def turns_deregister_bounded)
    have "fst (step_settle et E Eb i st) = st\<lparr>st_rt := (set_active sess2 (?rt\<lparr>rt_srv := srv2\<rparr>))
        \<lparr>rt_turns := turns_deregister (sr_turnID (rj_relay ?j)) (rt_turns ?rt)\<rparr>,
        st_procs := remove_at i (st_procs st)\<rparr>"
      by (simp add: step_settle_def Let_def True m f s)
    with adv show ?thesis by (auto simp: server_moves_def dest: remove_at_in)
  qed (use True inv in \<open>auto simp: step_settle_def Let_def split: option.splits\<close>)
qed (simp add: step_settle_def)

lemma server_step_moves: "server_inv st \<Longrightarrow> server_moves st (fst (server_step st e))"
proof (cases e)
  case (EvAccept E i auth)
  then show ?thesis
    by (auto simp: step_accept_def server_moves_def dest!: accept_fresh intro: conn_inv_fresh)
next
  case (EvTick E i)
  assume "server_inv st"
  then have "conn_inv (heartbeat_tick E cfg c)" if "c \<in> set (st_conns st)" for c cfg
    using that tick_inv by (simp add: server_inv_def)
  then show ?thesis unfolding EvTick by (auto simp: server_moves_def step_tick_def dest!: update_at_in)
next
  case (EvHangup E i)
  then show ?thesis
    by (auto simp: server_moves_def step_hangup_def step_frames split: prod.splits if_splits dest: remove_at_in)
next
  case (EvTimers E)
  have "rt_advances (st_rt st) ((set_db d (st_rt st))\<lparr>rt_timers := ts\<rparr>)"
    if "grace_fire E (rt_timers (st_rt st)) (rt_db (st_rt st)) = (ts, d)" for ts d
    using grace_advances [of "rt_db (st_rt st)" E "rt_timers (st_rt st)"] that
    by (intro adv_frames adv_set_db) simp_all
  then show ?thesis unfolding EvTimers by (auto simp: server_moves_def step_timers_def split: prod.splits)
qed (simp_all add: step_request_moves step_relay_moves step_settle_moves)

interpretation server: machine server_step server_inv
  by unfold_locales (rule server_moves_inv [OF server_step_moves])

lemma new_server_inv: "log_good d \<Longrightarrow> server_inv (NewServer E cfg d eps ads models tree)"
  by (simp add: server_inv_def NewServer_def rt_maps_def active_ids_def turns_bounded_def registry_bounded_def
      newRunRegistry_def rt_db_def)

lemma server_run_advances:
  "server_inv st \<Longrightarrow> rt_advances (st_rt st) (st_rt (fst (run_out server_step st evs)))"
proof (induction evs arbitrary: st)
  case (Cons e evs)
  have m: "server_moves st (fst (server_step st e))" by (rule server_step_moves [OF Cons.prems])
  from Cons.IH [OF server_moves_inv [OF m Cons.prems]] m show ?case
    unfolding fst_run_out_Cons server_moves_def using rt_advances_trans by blast
qed simp

subsection \<open>What holds of every server\<close>

text \<open>
  C2: Whatever happens to a server, in whatever order its connections, its timers and the relays of its
  turns take their steps and whatever statements fail, its state stays consistent: the tables satisfy
  their invariant, the status of every run is the one its log ends with, a log is only ever
  appended to, every active session is filed under its identifier, no more turns and runs are
  tracked than the bounds say, and every relay in flight has its adapter, its session and its run.
\<close>

theorem server_invariant:
  assumes "store_inv d" "\<forall>rid r. find_run d rid = Some r \<longrightarrow> replay_status (events_of d rid) = Some (run_Status r)"
    and "st = fst (run_out server_step (NewServer E cfg d eps ads models tree) evs)"
  shows "store_inv (rt_db (st_rt st)) \<and>
    (\<forall>rid r. find_run (rt_db (st_rt st)) rid = Some r \<longrightarrow>
       replay_status (events_of (rt_db (st_rt st)) rid) = Some (run_Status r)) \<and>
    (\<forall>rid. \<exists>es. events_of (rt_db (st_rt st)) rid = events_of d rid @ es) \<and>
    (\<forall>(k, s) \<in> set (rt_active (st_rt st)). as_ID s = k) \<and>
    length (rt_turns (st_rt st)) \<le> maxTrackedTurns \<and>
    length (byRunID (sv_runs (rt_srv (st_rt st)))) \<le> maxTrackedRuns \<and>
    (\<forall>p \<in> set (st_procs st). rj_adapter (rp_job p) \<noteq> None \<and>
       GetActiveSession (rj_session (rp_job p)) (st_rt st) \<noteq> None \<and>
       find_run (rt_db (st_rt st)) (sr_runID (rj_relay (rp_job p))) \<noteq> None)"
proof -
  have "log_good d" using assms(1,2) by (simp add: log_good_def log_status_agrees_def)
  note i = new_server_inv [OF this, of E cfg eps ads models tree]
  have d: "rt_db (st_rt (NewServer E cfg d eps ads models tree)) = d" by (simp add: NewServer_def rt_db_def)
  from server.run_inv [OF i, of evs] server_run_advances [OF i, of evs] show ?thesis
    by (simp add: assms(3) [symmetric] server_inv_def log_good_def log_status_agrees_def rt_maps_def active_ids_def
        turns_bounded_def registry_bounded_def job_ok_def rt_advances_def advances_def d)
qed

lemma server_invariant_witness:
  "store_inv (rt_db (st_rt (fst (run_out server_step (NewServer (env_at 0) DefaultServerConfig empty_db [] [] [] Map.empty)
     [EvAccept (env_at 0) ''c1'' False, EvTick (env_at 1) 0, EvHangup (env_at 2) 0]))))"
  using server_invariant [OF empty_store_inv _ refl, of "env_at 0" DefaultServerConfig "[]" "[]" "[]" Map.empty
      "[EvAccept (env_at 0) ''c1'' False, EvTick (env_at 1) 0, EvHangup (env_at 2) 0]"]
  by (simp add: empty_db_def find_run_def del: server_step.simps run_out.simps)

end
