(* ===== verification/Turn_End.thy ===== *)
theory Turn_End
  imports Server_Props
begin

text \<open>
  Every turn that is relayed comes to an end, on the machine of the whole server: the loop of its relay
  ends, what follows the loop can always be done, it forgets the turn and its run in both
  registries, and the run is over if nothing cancelled it and the store works.
\<close>

subsection \<open>The loop of one relay\<close>

lemma step_relay_idle: "rp_end (st_procs st ! i) \<noteq> None \<Longrightarrow> fst (step_relay E pt i st) = st"
  by (auto simp: step_relay_def Let_def)

text \<open>One iteration changes its own process and the store, and consumes some of the body unless it is the last.\<close>

lemma step_relay_effect:
  assumes inv: "server_inv st" and i: "i < length (st_procs st)" and run: "rp_end (st_procs st ! i) = None"
  obtains p rt where "fst (step_relay E pt i st) = st\<lparr>st_rt := rt, st_procs := (st_procs st)[i := p]\<rparr>"
    "rp_job p = rp_job (st_procs st ! i)" "rp_conn p = rp_conn (st_procs st ! i)"
    "rp_end p = None \<Longrightarrow> length (rp_rest p) < length (rp_rest (st_procs st ! i))"
proof -
  let ?p = "st_procs st ! i"
  have "?p \<in> set (st_procs st)" using i by simp
  then obtain a where a: "rj_adapter (rp_job ?p) = Some a" using inv by (auto simp: server_inv_def job_ok_def)
  let ?r = "relay_iter E (if relay_cancelled st ?p then Some pt else None) (rj_relay (rp_job ?p)) a
      (snd (rj_body (rp_job ?p))) (rp_rest ?p) (rp_vars ?p) (rt_srv (st_rt st))"
  obtain left v srv outs how where r: "?r = (left, v, srv, outs, how)" by (cases ?r rule: prod_cases5)
  show ?thesis
  proof (rule that)
    show "fst (step_relay E pt i st) = st\<lparr>st_rt := (st_rt st)\<lparr>rt_srv := srv\<rparr>, st_procs := (st_procs st)[i :=
        ?p\<lparr>rp_rest := left, rp_vars := v, rp_end := (case how of GoOn \<Rightarrow> None | Leave m \<Rightarrow> Some m)\<rparr>]\<rparr>"
      by (simp add: step_relay_def Let_def i run a r)
  next
    assume "rp_end (?p\<lparr>rp_rest := left, rp_vars := v, rp_end := (case how of GoOn \<Rightarrow> None | Leave m \<Rightarrow> Some m)\<rparr>) = None"
    then have "how = GoOn" by (simp split: loop_end.splits)
    with relay_event_body r show "length (rp_rest (?p\<lparr>rp_rest := left, rp_vars := v,
        rp_end := (case how of GoOn \<Rightarrow> None | Leave m \<Rightarrow> Some m)\<rparr>)) < length (rp_rest ?p)" by simp
  qed simp_all
qed

definition same_relays :: "nat \<Rightarrow> server_state \<Rightarrow> server_state \<Rightarrow> bool" where
  "same_relays i st st' \<longleftrightarrow> st_conns st' = st_conns st \<and> st_cancelled st' = st_cancelled st \<and>
     length (st_procs st') = length (st_procs st) \<and> rp_job (st_procs st' ! i) = rp_job (st_procs st ! i) \<and>
     rp_conn (st_procs st' ! i) = rp_conn (st_procs st ! i)"

lemma relay_steps:
  assumes "server_inv st" "i < length (st_procs st)"
    and "length (rp_rest (st_procs st ! i)) < length Es \<or> rp_end (st_procs st ! i) \<noteq> None"
  shows "same_relays i st (fst (run_out server_step st (map (\<lambda>(E, pt). EvRelay E pt i) Es))) \<and>
    rp_end (st_procs (fst (run_out server_step st (map (\<lambda>(E, pt). EvRelay E pt i) Es))) ! i) \<noteq> None"
  using assms
proof (induction Es arbitrary: st)
  case Nil
  then show ?case by (simp add: same_relays_def)
next
  case (Cons x Es)
  obtain E pt where x: "x = (E, pt)" by (cases x)
  let ?st = "fst (server_step st (EvRelay E pt i))"
  have inv: "server_inv ?st" by (rule server.step_inv [OF Cons.prems(1)])
  have eff: "same_relays i st ?st \<and> (length (rp_rest (st_procs ?st ! i)) < length Es \<or> rp_end (st_procs ?st ! i) \<noteq> None)"
  proof (cases "rp_end (st_procs st ! i)")
    case None
    from step_relay_effect [OF Cons.prems(1,2) None, of E pt] obtain p rt where
      e: "fst (step_relay E pt i st) = st\<lparr>st_rt := rt, st_procs := (st_procs st)[i := p]\<rparr>"
      "rp_job p = rp_job (st_procs st ! i)" "rp_conn p = rp_conn (st_procs st ! i)"
      "rp_end p = None \<Longrightarrow> length (rp_rest p) < length (rp_rest (st_procs st ! i))" by blast
    with Cons.prems(2,3) None show ?thesis by (cases "rp_end p") (auto simp: same_relays_def)
  next
    case (Some m)
    then show ?thesis using step_relay_idle [of st i E pt] by (simp add: same_relays_def)
  qed
  then have "i < length (st_procs ?st)" using Cons.prems(2) by (simp add: same_relays_def)
  from Cons.IH [OF inv this] eff show ?case
    by (simp only: list.map fst_run_out_Cons x prod.case) (simp add: same_relays_def)
qed

subsection \<open>After the loop\<close>

lemma settle_keeps_over:
  assumes s: "relay_settle Eb Ec models sr turn err sess srv = (sess', srv', out)"
    and r: "find_run (sv_db srv) (sr_runID sr) = Some r" "isTerminalRunStatus (run_Status r)"
  shows "find_run (sv_db srv') (sr_runID sr) = Some r"
proof -
  have u: "find_run (fst (UpdateSession E s d)) rid = find_run d rid" for E s d rid
    using other_tables(2) [of E s d] by (metis find_run_def prod.collapse)
  show ?thesis
    using s r by (auto simp: relay_settle_def UpdateAfterTurn_def Let_def GetRun_def u split: if_splits prod.splits sum.splits)
qed

lemma settle_forgets:
  assumes "relay_settle Eb Ec models sr turn err sess srv = (sess', srv', out)"
  shows "map_of (byRunID (sv_runs srv')) (sr_runID sr) = None"
    and "sr_turnID sr \<noteq> [] \<Longrightarrow> map_of (byTurnID (sv_runs srv')) (sr_turnID sr) = None"
proof -
  have l: "sv_runs s1 = sv_runs srv"
    if "appendRunLifecycle Eb got EventRunFailed (run_Stage got) RunStatusFailed why p srv = (s1, o1, r1)" for got why p s1 o1 r1
    using lifecycle_advances [OF that] by simp
  have d: "sv_runs srv' = deregister (sr_runID sr) (sr_turnID sr) (sv_runs srv)"
    using assms by (auto simp: relay_settle_def UpdateAfterTurn_def Let_def dest: l
        split: if_splits prod.splits sum.splits)
  show "map_of (byRunID (sv_runs srv')) (sr_runID sr) = None" by (simp add: d deregister_def AList.delete_conv')
  show "map_of (byTurnID (sv_runs srv')) (sr_turnID sr) = None" if "sr_turnID sr \<noteq> []"
    using that by (simp add: d deregister_def forget_turn_def AList.delete_conv')
qed

text \<open>
  C3: A turn that was accepted ends.  From any state of any server, a relay in flight has left its loop
  after at most one iteration more than its response has bytes left; what follows the loop is always
  possible, and takes the relay out of the server, its turn out of the table of turns, its run out of
  the runs by identifier and its turn out of the runs by turn, in which only turns that have an
  identifier are filed.  If nothing has cancelled the
  relay and the statements of its last step succeed, the run is then over.
\<close>

theorem accepted_turn_ends:
  assumes "store_inv d" "\<forall>rid r. find_run d rid = Some r \<longrightarrow> replay_status (events_of d rid) = Some (run_Status r)"
    and st: "st = fst (run_out server_step (NewServer E cfg d eps ads models tree) evs)"
    and p: "i < length (st_procs st)" "p = st_procs st ! i" "length (rp_rest p) < length Es"
    and st1: "st1 = fst (run_out server_step st (map (\<lambda>(E, pt). EvRelay E pt i) Es))"
    and st2: "st2 = fst (server_step st1 (EvSettle et E1 Eb i))"
  shows "st_procs st2 = remove_at i (st_procs st1) \<and> length (st_procs st2) + 1 = length (st_procs st) \<and>
    map_of (rt_turns (st_rt st2)) (sr_turnID (rj_relay (rp_job p))) = None \<and>
    map_of (byRunID (sv_runs (rt_srv (st_rt st2)))) (sr_runID (rj_relay (rp_job p))) = None \<and>
    (sr_turnID (rj_relay (rp_job p)) \<noteq> [] \<longrightarrow>
       map_of (byTurnID (sv_runs (rt_srv (st_rt st2)))) (sr_turnID (rj_relay (rp_job p))) = None) \<and>
    (\<not> relay_cancelled st p \<and> (\<forall>s. \<not> env_fault E1 s) \<and>
       ''cp-'' @ env_uuid E1 2 \<notin> cp_ID ` set (db_checkpoints (rt_db (st_rt st1))) \<longrightarrow>
     (\<exists>r. find_run (rt_db (st_rt st2)) (sr_runID (rj_relay (rp_job p))) = Some r \<and>
        isTerminalRunStatus (run_Status r)))"
proof -
  have "log_good d" using assms(1,2) by (simp add: log_good_def log_status_agrees_def)
  from server.run_inv [OF new_server_inv [OF this]] have inv: "server_inv st" by (simp add: st)
  from relay_steps [OF inv p(1)] p(2,3) have same: "same_relays i st st1" and over: "rp_end (st_procs st1 ! i) \<noteq> None"
    by (simp_all add: st1)
  have inv1: "server_inv st1" using server.run_inv [OF inv] by (simp add: st1)
  let ?q = "st_procs st1 ! i" and ?rt = "st_rt st1"
  let ?j = "rp_job ?q" and ?sr = "rj_relay (rp_job ?q)"
  have q: "rp_job ?q = rp_job p" "i < length (st_procs st1)" "relay_cancelled st1 ?q = relay_cancelled st p"
    using same p by (simp_all add: same_relays_def relay_cancelled_def)
  then have "?q \<in> set (st_procs st1)" by simp
  then have ok: "job_ok ?rt ?j" using inv1 by (simp add: server_inv_def)
  from over obtain m where m: "rp_end ?q = Some m" by auto
  from ok obtain sess where sess: "GetActiveSession (rj_session ?j) ?rt = Some sess" by (auto simp: job_ok_def)
  let ?E = "under (relay_cancelled st1 ?q) E1"
  let ?f = "relay_finish et ?E (rp_started ?q) ?sr (rp_vars ?q) m sess (rt_srv ?rt)"
  obtain sess1 srv1 outs1 turn err where f: "?f = (sess1, srv1, outs1, turn, err)" by (cases ?f rule: prod_cases5)
  let ?s = "relay_settle Eb (under (\<forall>c \<in> set (st_conns st1). cn_id c \<noteq> rp_conn ?q) E1) (rt_models ?rt) ?sr
      turn err sess1 srv1"
  obtain sess2 srv2 outs2 where s: "?s = (sess2, srv2, outs2)" by (cases ?s rule: prod_cases3)
  have e: "st2 = st1\<lparr>st_rt := (set_active sess2 (?rt\<lparr>rt_srv := srv2\<rparr>))
      \<lparr>rt_turns := turns_deregister (sr_turnID ?sr) (rt_turns ?rt)\<rparr>, st_procs := remove_at i (st_procs st1)\<rparr>"
    by (simp add: st2 step_settle_def Let_def q(2) m sess f s)
  have forgot: "map_of (byRunID (sv_runs srv2)) (sr_runID ?sr) = None" by (rule settle_forgets(1) [OF s])
  have forgot': "sr_turnID ?sr \<noteq> [] \<Longrightarrow> map_of (byTurnID (sv_runs srv2)) (sr_turnID ?sr) = None" by (rule settle_forgets(2) [OF s])
  have over: "\<exists>r. find_run (sv_db srv2) (sr_runID ?sr) = Some r \<and> isTerminalRunStatus (run_Status r)"
    if live: "\<not> relay_cancelled st p" "\<forall>s. \<not> env_fault E1 s"
      and fresh: "''cp-'' @ env_uuid E1 2 \<notin> cp_ID ` set (db_checkpoints (rt_db ?rt))"
  proof -
    have E: "?E = E1" using live(1) q(3) by (simp add: under_def)
    obtain r where r: "find_run (sv_db (rt_srv ?rt)) (sr_runID ?sr) = Some r" "sr_runID ?sr \<noteq> []"
      using ok by (auto simp: job_ok_def rt_db_def)
    have "run_db_inv (sv_db (rt_srv ?rt))" using inv1 by (simp add: server_inv_def log_good_def store_inv_def rt_db_def)
    from relay_ends_run [OF this r live(2) _ f [unfolded E]] fresh obtain r' where
      "find_run (sv_db srv1) (sr_runID ?sr) = Some r'" "isTerminalRunStatus (run_Status r')"
      by (auto simp: rt_db_def)
    with settle_keeps_over [OF s] show ?thesis by blast
  qed
  show ?thesis
    using same p(1) q forgot forgot' over
    by (auto simp: e same_relays_def set_active_def rt_db_def turns_deregister_def AList.delete_conv')
qed

end
