(* ===== verification/Turn_Props.thy ===== *)
theory Turn_Props
  imports Turn_End
begin

text \<open>
  Submissions: a retried one is answered with the run it already has, and an accepted one is known to
  the server in every place from which it can be found, cancelled and ended.
\<close>

subsection \<open>What the steps of a run leave alone\<close>

definition keeps_keys :: "db \<Rightarrow> db \<Rightarrow> bool" where
  "keeps_keys d d' \<longleftrightarrow> db_sessions d' = db_sessions d \<and>
     (\<forall>r \<in> set (db_runs d). \<exists>r' \<in> set (db_runs d'). run_ID r' = run_ID r \<and> run_key r' = run_key r)"

lemma keeps_keys_refl [simp]: "keeps_keys d d"
  by (auto simp: keeps_keys_def)

lemma keeps_keys_trans: "keeps_keys d d1 \<Longrightarrow> keeps_keys d1 d2 \<Longrightarrow> keeps_keys d d2"
  unfolding keeps_keys_def by metis

lemma AppendRunEvent_keys:
  assumes "AppendRunEvent E x ev u d = (d', res)"
  shows "keeps_keys d d'"
proof (cases res)
  case (Inl e)
  then show ?thesis using assms AppendRunEvent_error [of E x ev u d d' e] by simp
next
  case (Inr n)
  from assms [unfolded Inr] obtain u' cps where d': "d' = d\<lparr>db_events := db_events d @ [stamp E x n ev],
        db_checkpoints := db_checkpoints d @ cps,
        db_runs := map (\<lambda>r. if run_ID r = x
          then update_run_row n u' (evt_CreatedAt (stamp E x n ev)) r else r) (db_runs d),
        db_attachments := (if attaches u
          then map (\<lambda>a. if att_RunID a = x
                 then update_attachment_row u (evt_CreatedAt (stamp E x n ev)) a else a)
                 (db_attachments d)
          else db_attachments d)\<rparr>"
    by (rule AppendRunEvent_Inr) blast
  let ?f = "\<lambda>r. if run_ID r = x then update_run_row n u' (evt_CreatedAt (stamp E x n ev)) r else r"
  have id: "run_ID (?f r) = run_ID r \<and> run_key (?f r) = run_key r" for r by simp
  have "\<exists>r' \<in> set (db_runs d'). run_ID r' = run_ID r \<and> run_key r' = run_key r" if "r \<in> set (db_runs d)" for r
    by (rule bexI [of _ "?f r"]) (use id that in \<open>simp_all add: d'\<close>)
  then show ?thesis by (simp add: keeps_keys_def d')
qed

lemma run_step_keys:
  "keeps_keys (rt_db (fst (snd s))) (rt_db (fst (snd (run_step E ty stage status reason payload s))))"
proof -
  have "keeps_keys (sv_db srv) (sv_db srv')"
    if "appendRunLifecycle E r ty stage status reason payload srv = (srv', out, res)" for r srv srv' out res
    using that by (auto simp: appendRunLifecycle_def Let_def dest: AppendRunEvent_keys split: sum.splits prod.splits)
  then show ?thesis by (auto simp: run_step_def rt_db_def split: prod.split)
qed

lemma fail_turn_keys: "keeps_keys (rt_db (fst (snd s))) (rt_db (fst (fail_turn E stage reason payload qs err s)))"
  using run_step_keys [of s E EventRunFailed stage RunStatusFailed reason payload]
  by (simp add: fail_turn_def split_beta)

lemma send_turn_keys:
  "keeps_keys (rt_db (fst (snd s))) (rt_db (fst (send_turn E X picks tok submit model entry a c s)))"
proof -
  let ?p = "Some (json_object [(''model'', json_string model), (''provider'', json_string (me_Provider entry))])"
  let ?s1 = "run_step E EventRunStageChanged RunStagePromptPlan RunStatusRunning [] ?p s"
  let ?s2 = "run_step E EventRunStageChanged RunStageModelCall RunStatusRunning [] ?p ?s1"
  obtain r rt outs where 2: "?s2 = (r, rt, outs)" by (cases ?s2 rule: prod_cases3)
  from keeps_keys_trans [OF run_step_keys [of s E EventRunStageChanged RunStagePromptPlan RunStatusRunning "[]" ?p]
      run_step_keys [of ?s1 E EventRunStageChanged RunStageModelCall RunStatusRunning "[]" ?p]]
  have k: "keeps_keys (rt_db (fst (snd s))) (rt_db (rt\<lparr>rt_prompts := pe\<rparr>))" for pe by (simp add: 2 rt_db_def)
  have f: "keeps_keys (rt_db (rt\<lparr>rt_prompts := pe\<rparr>)) (rt_db (fst (fail_turn E stage reason payload qs err (r, rt\<lparr>rt_prompts := pe\<rparr>, outs))))"
    for pe stage reason payload qs err
    using fail_turn_keys [of "(r, rt\<lparr>rt_prompts := pe\<rparr>, outs)"] by simp
  from k keeps_keys_trans [OF k f] show ?thesis
    by (auto simp: send_turn_def 2 Let_def rt_db_def split: prod.split sum.split)
qed

lemma route_turn_keys:
  "keeps_keys (rt_db (fst (snd s))) (rt_db (fst (route_turn E X picks tok submit a c s)))"
  by (simp add: route_turn_def Let_def split_beta fail_turn_keys send_turn_keys split: option.split)

subsection \<open>Submitting twice\<close>

lemma route_turn_reply:
  "route_turn E X picks tok submit a c s = (rt, outs, qs, job, Inr resp) \<Longrightarrow>
     resp = turn_accepted submit (run_ID (fst s))"
proof -
  have i: "run_ID (fst (run_step E ty stage status reason payload (run_step E ty' stage' status' reason' payload' s))) =
      run_ID (fst s)" for ty stage status reason payload ty' stage' status' reason' payload'
    by (simp add: run_step_ID)
  assume "route_turn E X picks tok submit a c s = (rt, outs, qs, job, Inr resp)"
  then show ?thesis
    by (auto simp: route_turn_def send_turn_def fail_turn_def Let_def split_beta i
        split: if_splits option.splits sum.splits)
qed

lemma insert_sessions:
  "insertRun E r d = Inr d' \<Longrightarrow> db_sessions d' = db_sessions d"
  "insertAttachment E r d = Inr d' \<Longrightarrow> db_sessions d' = db_sessions d"
  "insertRunEvent E ev d = Inr d' \<Longrightarrow> db_sessions d' = db_sessions d"
  "insertRunCheckpoint E c d = Inr d' \<Longrightarrow> db_sessions d' = db_sessions d"
  "updateRunSeq E r n x d = Inr d' \<Longrightarrow> db_sessions d' = db_sessions d"
  "insertTurn E t d = Inr d' \<Longrightarrow> db_sessions d' = db_sessions d"
  "insertRunTurn E rid tid role n d = Inr d' \<Longrightarrow> db_sessions d' = db_sessions d"
  "insertHistory E h d = Inr d' \<Longrightarrow> db_sessions d' = db_sessions d"
  by (auto simp: insertRun_def insertAttachment_def insertRunEvent_def insertRunCheckpoint_def updateRunSeq_def
      insertTurn_def insertRunTurn_def insertHistory_def split: if_splits)

lemma CreateRunWithTurn_sessions:
  assumes "CreateRunWithTurn E r0 ev cp t role n h d = (d', Inr r')"
  shows "db_sessions d' = db_sessions d"
proof -
  from assms obtain r tu where "create_run_tx E r ev cp (foreground_statements E (run_ID r) tu role n h) d = (d', Inr r')"
    by (auto simp: CreateRunWithTurn_def split: option.splits sum.splits)
  then show ?thesis
    by (auto simp: create_run_tx_def foreground_statements_def Let_def tx_Inr insert_sessions split: if_splits option.splits)
qed

lemma foreground_key:
  assumes "createForegroundRunWithTurn E sess opts turn h srv = (srv', out, Inr r)" "opt_IdempotencyKey opts \<noteq> []"
  shows "r \<in> set (db_runs (sv_db srv')) \<and> db_sessions (sv_db srv') = db_sessions (sv_db srv) \<and>
    run_key r = (sess_UserID sess, sess_Project sess, opt_IdempotencyKey opts)"
proof -
  let ?n = "new_run E sess (opt_IdempotencyKey opts) opts"
  let ?c = "new_checkpoint E (run_Stage ?n) (run_Status ?n) [] (run_Summary ?n) [turn_ID turn]"
  have x: "CreateRunWithTurn E ?n (started_event E ?n) ?c (Some turn) (turn_Role turn) (turn_Sequence turn) h (sv_db srv) =
      (sv_db srv', Inr r)"
    using assms by (auto simp: createForegroundRunWithTurn_def Let_def split: sum.splits prod.splits if_splits)
  from x obtain r0 extra where t: "touches_turns extra"
    "create_run_tx E r0 (started_event E ?n) ?c extra (sv_db srv) = (sv_db srv', Inr r)"
    "normalizeRunForCreate E ?n = Inr r0" by (rule CreateRunWithTurn_row)
  note row = create_tx_row [OF t]
  show ?thesis by (simp add: CreateRunWithTurn_sessions [OF x] row(1,8,10,11) run_key_def new_run_def)
qed

lemma submit_turn_key:
  assumes s: "submit_turn E X picks tok submit sess a c rt = (rt', outs, qs, job, Inr resp)"
  shows "\<exists>r \<in> set (db_runs (rt_db rt')). resp = turn_accepted submit (run_ID r) \<and>
    run_key r = (sess_UserID sess, sess_Project sess, turn_key submit) \<and>
    db_sessions (rt_db rt') = db_sessions (rt_db rt)"
proof (cases "GetRunByIdempotency E (sess_UserID sess) (sess_Project sess) (turn_key submit) (rt_db rt)")
  case (Inr existing)
  then have "existing \<in> set (db_runs (rt_db rt))"
    "run_key existing = (sess_UserID sess, sess_Project sess, turn_key submit)"
    by (auto simp: GetRunByIdempotency_def find_Some_iff split: if_splits option.splits)
  with s Inr show ?thesis by (auto simp: submit_turn_def)
next
  case (Inl e)
  from s Inl obtain conv turn srv out r where
    c: "createForegroundRunWithTurn E sess (foreground_options c submit) turn
      (Some (turn_history E (a\<lparr>as_Conversation := conv\<rparr>) submit))
      (rt_srv (set_active (a\<lparr>as_Conversation := conv\<rparr>) rt)) = (srv, out, Inr r)"
    and t: "route_turn E X picks tok submit (a\<lparr>as_Conversation := conv\<rparr>) c
      (r, (set_active (a\<lparr>as_Conversation := conv\<rparr>) rt)\<lparr>rt_srv := srv\<rparr>, map RunOut out) =
      (rt', outs, qs, job, Inr resp)"
    by (auto simp: submit_turn_def Let_def split: sum.splits prod.splits if_splits)
  have k: "opt_IdempotencyKey (foreground_options c submit) = turn_key submit" "turn_key submit \<noteq> []"
    by (simp_all add: foreground_options_def turn_key_def)
  from foreground_key [OF c] k have f: "r \<in> set (db_runs (sv_db srv))"
    "db_sessions (sv_db srv) = db_sessions (rt_db rt)"
    "run_key r = (sess_UserID sess, sess_Project sess, turn_key submit)"
    by (simp_all add: rt_db_def set_active_def)
  from route_turn_keys [of "(r, (set_active (a\<lparr>as_Conversation := conv\<rparr>) rt)\<lparr>rt_srv := srv\<rparr>, map RunOut out)"
      E X picks tok submit "a\<lparr>as_Conversation := conv\<rparr>" c] t
  have "keeps_keys (sv_db srv) (rt_db rt')" by (simp add: rt_db_def)
  with f obtain r' where "r' \<in> set (db_runs (rt_db rt'))" "run_ID r' = run_ID r" "run_key r' = run_key r"
    "db_sessions (rt_db rt') = db_sessions (rt_db rt)" unfolding keeps_keys_def by metis
  then show ?thesis using f(3) route_turn_reply [OF t] by (intro bexI [of _ r']) simp_all
qed

lemma find_snoc: "P x \<Longrightarrow> \<forall>y \<in> set xs. \<not> P y \<Longrightarrow> find P (xs @ [x]) = Some x"
  by (induction xs) auto

text \<open>A session that a submission has found or created is found again, with its owner and its project.\<close>

lemma ensure_again:
  assumes e: "ensure_session E c sid d = (d1, Inr sess)" and "\<not> env_fault E' S_SelectSession"
    and "db_sessions d2 = db_sessions d1"
  shows "\<exists>sess'. ensure_session E' c' sid d2 = (d2, Inr sess') \<and> sess_UserID sess' = sess_UserID sess \<and>
    sess_Project sess' = sess_Project sess"
proof -
  have again: ?thesis if "find_session d1 sid = Some row" "verifySessionAccess (conn_view c) row = None"
    "sess_UserID sess = (if sess_UserID row = [] then SoloUserID else sess_UserID row)"
    "sess_Project sess = sess_Project row" for row
    using that assms(2,3)
    by (auto simp: ensure_session_def GetSession_def find_session_def verifySessionAccess_def conn_view_def split: if_splits)
  show ?thesis
  proof (cases "GetSession E sid d")
    case (Inr row)
    with e show ?thesis
      by (intro again [of row]) (auto simp: ensure_session_def GetSession_def split: if_splits option.splits)
  next
    case (Inl er)
    let ?n = "new_session E sid (pc_Root (cm_project (cn_caps c)))"
    from e Inl obtain dc where dc: "CreateSession E ?n d = (dc, Inr ())"
      and lock: "\<exists>b. AcquireSessionLock E sid (cn_id c) (env_now E + SessionLockTTL) dc = (d1, Inr b)" and n: "sess = ?n"
      by (auto simp: ensure_session_def Let_def split: prod.splits sum.splits)
    have id: "sess_ID ?n = sid" by (simp add: new_session_def)
    from dc id have "\<not> has_session d sid" "db_sessions dc = db_sessions d @ [fill_session ?n]"
      by (auto simp: CreateSession_def autocommit_def split: sum.splits if_splits)
    moreover have "sess_ID (fill_session ?n) = sid" by (simp add: fill_session_def id)
    ultimately have f: "find_session dc sid = Some (fill_session ?n)"
      by (auto simp: find_session_def has_session_def intro: find_snoc)
    have new: "sess_UserID (fill_session ?n) = SoloUserID"
      "sess_Project (fill_session ?n) = pc_Root (cm_project (cn_caps c))"
      by (simp_all add: fill_session_def new_session_def)
    from f lock new obtain row where "find_session d1 sid = Some row" "sess_UserID row = SoloUserID"
      "sess_Project row = pc_Root (cm_project (cn_caps c))"
      by (auto simp: AcquireSessionLock_def find_map_session split: if_splits)
    then show ?thesis
      by (intro again [of row]) (auto simp: n new_session_def verifySessionAccess_def conn_view_def)
  qed
qed

text \<open>
  C4: A client that sends a \<open>turn.submit\<close> which names its session again, because the reply was lost or on
  another connection, is answered as it was the first time, when the retry is handled on the state the
  first reply left: no second run is created, nothing goes to a provider, nothing is stored and no
  goroutine is started, whether the first request created the run or found it.  Without a session in the
  request each submit opens a session of its own, and once the turn has ended and its cost is recorded the
  session has lost the owner and the project the run is looked up by: neither is claimed.
\<close>

theorem turn_retry_is_idempotent:
  assumes good: "store_inv (rt_db rt)"
      "\<forall>rid r. find_run (rt_db rt) rid = Some r \<longrightarrow> replay_status (events_of (rt_db rt) rid) = Some (run_Status r)"
    and ts: "ValidateTurnSubmit raw = Inr submit" "ts_SessionID submit \<noteq> []"
    and first: "handleTurnSubmit E X picks tok raw c rt = (c1, rt1, outs, qs, job, Inr resp)"
    and ok: "\<not> env_fault E' S_SelectSession" "\<not> env_fault E' S_SelectRun"
    and retry: "handleTurnSubmit E' X' picks' tok' raw c' rt1 = (c2, rt2, outs2, qs2, job2, res)"
  shows "res = Inr resp \<and> rt_db rt2 = rt_db rt1 \<and> qs2 = [] \<and> job2 = None \<and> outs2 = [] \<and>
    rt_turns rt2 = rt_turns rt1 \<and> sv_runs (rt_srv rt2) = sv_runs (rt_srv rt1)"
proof -
  from first ts obtain d sess cb rtb a where
    e: "attachments_refused (rt_config rt) (ts_Attachments submit) = None"
      "ensure_session E c (ts_SessionID submit) (rt_db rt) = (d, Inr sess)"
    and b: "bind_session (ts_SessionID submit) sess c (set_db d rt) = (cb, rtb, a)"
    and s: "submit_turn E X picks tok submit sess a cb rtb = (rt1, outs, qs, job, Inr resp)"
    by (auto simp: handleTurnSubmit_def split: option.splits sum.splits prod.splits)
  have db: "rt_db rtb = d"
    using b by (auto simp: bind_session_def Let_def set_active_def EnsureActive_def rt_db_def set_db_def)
  from submit_turn_key [OF s] obtain r where r: "r \<in> set (db_runs (rt_db rt1))" "resp = turn_accepted submit (run_ID r)"
    "run_key r = (sess_UserID sess, sess_Project sess, turn_key submit)" "db_sessions (rt_db rt1) = db_sessions d"
    by (auto simp: db)
  from ensure_again [OF e(2) ok(1) r(4), of c'] obtain sess' where
    e': "ensure_session E' c' (ts_SessionID submit) (rt_db rt1) = (rt_db rt1, Inr sess')"
      "sess_UserID sess' = sess_UserID sess" "sess_Project sess' = sess_Project sess" by blast
  have adv: "rt_advances rt rt1" using submit_advances [of rt E X picks tok raw c] first by simp
  with good have "log_good (rt_db rt1)"
    by (simp add: rt_advances_def advances_def log_good_def log_status_agrees_def)
  then have "distinct (map run_key (db_runs (rt_db rt1)))" by (simp add: log_good_def store_inv_def run_db_inv_def)
  from find_key [OF this r(1)] have found:
    "GetRunByIdempotency E' (sess_UserID sess') (sess_Project sess') (turn_key submit) (rt_db rt1) = Inr r"
    using ok(2) by (simp add: GetRunByIdempotency_def e'(2,3) r(3))
  obtain cb' rtb' a' where b': "bind_session (ts_SessionID submit) sess' c' (set_db (rt_db rt1) rt1) = (cb', rtb', a')"
    by (metis prod_cases3)
  then have f': "rt_db rtb' = rt_db rt1" "rt_turns rtb' = rt_turns rt1" "sv_runs (rt_srv rtb') = sv_runs (rt_srv rt1)"
    by (auto simp: bind_session_def Let_def set_active_def EnsureActive_def rt_db_def set_db_def)
  have "attachments_refused (rt_config rt1) (ts_Attachments submit) = None" using adv e(1) by (simp add: rt_advances_def)
  with retry ts e' b' have "submit_turn E' X' picks' tok' submit sess' a' cb' rtb' = (rt2, outs2, qs2, job2, res)"
    by (auto simp: handleTurnSubmit_def)
  with found f' show ?thesis by (simp add: submit_turn_def r(2))
qed

subsection \<open>Finding an accepted turn\<close>

lemma register_finds:
  "map_of (byRunID (register pick rid tid sid cid c rr)) rid =
     Some \<lparr>ar_id = rid, ar_turnID = tid, ar_sessionID = sid, ar_attachedConnectionID = cid, ar_cancel = c\<rparr>"
  "tid \<noteq> [] \<Longrightarrow> map_of (byTurnID (register pick rid tid sid cid c rr)) tid = Some rid"
  by (simp_all add: register_def Let_def update_conv')

definition tracked :: "nat \<Rightarrow> out_request list \<Rightarrow> 'b relay_job \<Rightarrow> TurnSubmitResponse \<Rightarrow> Runtime \<Rightarrow> bool" where
  "tracked tok qs j resp rt \<longleftrightarrow> length qs = 1 \<and> rj_cancel j = tok \<and>
     sr_runID (rj_relay j) = tsr_RunID resp \<and> sr_turnID (rj_relay j) = tsr_TurnID resp \<and>
     (\<exists>ar. map_of (byRunID (sv_runs (rt_srv rt))) (tsr_RunID resp) = Some ar \<and> ar_cancel ar = Some tok) \<and>
     (tsr_TurnID resp \<noteq> [] \<longrightarrow> map_of (byTurnID (sv_runs (rt_srv rt))) (tsr_TurnID resp) = Some (tsr_RunID resp))"

lemma send_turn_tracked:
  assumes "send_turn E X picks tok submit model entry a c s = (rt, outs, qs, Some j, Inr resp)"
  shows "tracked tok qs j resp rt"
proof -
  let ?p = "Some (json_object [(''model'', json_string model), (''provider'', json_string (me_Provider entry))])"
  let ?s = "run_step E EventRunStageChanged RunStageModelCall RunStatusRunning [] ?p
      (run_step E EventRunStageChanged RunStagePromptPlan RunStatusRunning [] ?p s)"
  obtain r0 rt0 outs0 where 2: "?s = (r0, rt0, outs0)" by (cases ?s rule: prod_cases3)
  have q: "length qs = 1" if "turn_Dispatch X ads eps opts = (qs, Inr b)" for X ads eps opts b
    using that by (auto simp: turn_Dispatch_def split: sum.splits net_answer.splits if_splits)
  show ?thesis
    using assms by (auto simp: send_turn_def 2 Let_def fail_turn_def tracked_def turn_accepted_def register_finds
        dest: q split: prod.splits sum.splits)
qed

lemma submit_turn_tracked:
  assumes s: "submit_turn E X picks tok submit sess a c rt = (rt', outs, qs, Some j, Inr resp)"
  shows "tracked tok qs j resp rt' \<and> tsr_RunID resp \<noteq> []"
proof -
  from s obtain conv srv out turn r0 where
    cr: "createForegroundRunWithTurn E sess (foreground_options c submit) turn
      (Some (turn_history E (a\<lparr>as_Conversation := conv\<rparr>) submit)) (rt_srv (set_active (a\<lparr>as_Conversation := conv\<rparr>) rt)) = (srv, out, Inr r0)" and
    t: "route_turn E X picks tok submit (a\<lparr>as_Conversation := conv\<rparr>) c
      (r0, (set_active (a\<lparr>as_Conversation := conv\<rparr>) rt)\<lparr>rt_srv := srv\<rparr>, map RunOut out) =
      (rt', outs, qs, Some j, Inr resp)"
    by (auto simp: submit_turn_def Let_def split: sum.splits prod.splits if_splits)
  have "run_ID r0 \<noteq> []" using foreground_run [OF cr] by simp
  moreover have "tracked tok qs j resp rt'"
    using t by (auto simp: route_turn_def Let_def split_beta fail_turn_def split: if_splits option.splits
        dest: send_turn_tracked)
  ultimately show ?thesis using route_turn_reply [OF t] by (simp add: turn_accepted_def)
qed

text \<open>
  C5: A submission that starts a relay has sent exactly one request, and its turn can be cancelled from then
  on: a \<open>turn.cancel\<close> of the identifier in the reply calls the cancel function of exactly that relay,
  answers that the turn was live, and has no other effect than taking the run out of the registry.
\<close>

theorem accepted_turn_can_be_cancelled:
  assumes first: "handleTurnSubmit E X picks tok raw c rt = (c1, rt1, outs, qs, Some j, Inr resp)"
    and id: "tsr_TurnID resp \<noteq> []"
    and cancel: "handleTurnCancel (Inr (tsr_TurnID resp)) c' rt1 = (c2, rt2, outs2, res)"
  shows "length qs = 1 \<and> sr_runID (rj_relay j) = tsr_RunID resp \<and> rj_cancel j = tok \<and>
    outs2 = [CancelTurn tok] \<and> res = Inr (tsr_TurnID resp, True) \<and> c2 = c' \<and> rt_db rt2 = rt_db rt1 \<and>
    map_of (byRunID (sv_runs (rt_srv rt2))) (tsr_RunID resp) = None \<and>
    (\<forall>rid. rid \<noteq> tsr_RunID resp \<longrightarrow>
       map_of (byRunID (sv_runs (rt_srv rt2))) rid = map_of (byRunID (sv_runs (rt_srv rt1))) rid)"
proof -
  from first obtain submit sess a cb rtb where
    "submit_turn E X picks tok submit sess a cb rtb = (rt1, outs, qs, Some j, Inr resp)"
    by (auto simp: handleTurnSubmit_def Let_def split: option.splits sum.splits prod.splits)
  from submit_turn_tracked [OF this] have t: "tracked tok qs j resp rt1" "tsr_RunID resp \<noteq> []" by simp_all
  then obtain ar where ar: "map_of (byRunID (sv_runs (rt_srv rt1))) (tsr_RunID resp) = Some ar" "ar_cancel ar = Some tok"
    by (auto simp: tracked_def)
  have "runIDForTurn (tsr_TurnID resp) (sv_runs (rt_srv rt1)) = tsr_RunID resp"
    using t(1) id by (simp add: tracked_def runIDForTurn_def)
  with cancel t ar id show ?thesis
    by (auto simp: handleTurnCancel_def Let_def cancel_run_def tracked_def rt_db_def AList.delete_conv')
qed

end
