(* ===== verification/Turn_Witnesses.thy ===== *)
theory Turn_Witnesses
  imports Turn_Props
begin

text \<open>
  One turn through the whole server: a connection registers, submits a turn to a local model that answers
  with an empty stream, and the theorems on submissions hold of what follows.
\<close>

definition turn_request_w :: string where
  "turn_request_w = ''{\"turn_id\":\"t1\",\"session_id\":\"s1\",\"sequence\":1,\"mode\":\"build\",\"content\":\"hi\"}''"

definition submit_w :: TurnSubmit where
  "submit_w = \<lparr>ts_TurnID = ''t1'', ts_SessionID = ''s1'', ts_Sequence = 1, ts_Mode = ''build'', ts_Content = ''hi'',
     ts_IdempotencyKey = [], ts_Attachments = [], ts_ToolResults = []\<rparr>"

definition ollama_w :: ProviderEndpoint where
  "ollama_w = \<lparr>ep_Name = ''local'', ep_Type = ProviderTypeOllama, ep_APIKey = [], ep_Host = ''http://h'',
     ep_Upstream = [], ep_Discover = False, ep_status = ''ready'', ep_errMsg = [], ep_models = [], ep_lastCheck = 0\<rparr>"

definition model_w :: ModelEntry where
  "model_w = \<lparr>me_Info = no_info\<lparr>mi_Name := ''m'', mi_ContextWindow := 0\<rparr>, me_Provider = ''local'',
     me_Source = ModelSourceBuiltin, me_Available = True\<rparr>"

definition online_w :: "gotime \<Rightarrow> surroundings" where
  "online_w t = (surroundings_w t)\<lparr>su_outside := (su_outside (surroundings_w t))
     \<lparr>ox_net := (\<lambda>_. HttpResponse 200 [] ([], None))\<rparr>\<rparr>"

definition turn_server_w :: server_state where
  "turn_server_w = NewServer (env_at 0) DefaultServerConfig empty_db [ollama_w] [Ollama] [(''m'', model_w)] [''default'' \<mapsto> ''\"m\"'']"

lemma validate_w: "ValidateTurnSubmit turn_request_w = Inr submit_w"
  by code_simp

lemma run_step_cancels: "cancels_of (snd (snd (run_step E ty st ss rs p x))) = cancels_of (snd (snd x))"
proof -
  have n: "cancels_of (xs @ [RunOut (emitStoredRunEvent E r ev tid)]) = cancels_of xs" for xs r ev tid
    by (simp add: cancels_of_def emitStoredRunEvent_def)
  show ?thesis
    by (auto simp: run_step_def appendRunLifecycle_def Let_def n split: prod.splits sum.splits)
qed

lemma client_Do_direct: "ox_net X q = HttpResponse 200 [] b \<Longrightarrow> snd (client_Do X q) = HttpResponse 200 [] b"
  by (simp add: client_Do_def follow.simps is_redirect_def)

lemma send_turn_sends:
  assumes "\<And>q. ox_net X q = HttpResponse 200 [] b" "\<And>u. ox_bad_url X u = None"
    and "endpoint_Get (me_Provider entry) (rt_providers (fst (snd s))) = Some ep"
    and "adapter_Get (ep_Type ep) (rt_adapters (fst (snd s))) = Some Ollama"
    and "cv_turns (as_Conversation a) \<noteq> []" "mi_ContextWindow (me_Info entry) = 0"
  shows "\<exists>rt' outs qs j. send_turn E X picks tok submit model entry a c s =
      (rt', outs, qs, Some j, Inr (turn_accepted submit (run_ID (fst s)))) \<and>
      rj_body j = b \<and> rj_cancel j = tok \<and> cancels_of outs = cancels_of (snd (snd s))"
proof -
  let ?p = "Some (json_object [(''model'', json_string model), (''provider'', json_string (me_Provider entry))])"
  let ?s1 = "run_step E EventRunStageChanged RunStagePromptPlan RunStatusRunning [] ?p s"
  let ?s2 = "run_step E EventRunStageChanged RunStageModelCall RunStatusRunning [] ?p ?s1"
  obtain r rt outs where 2: "?s2 = (r, rt, outs)" by (cases ?s2 rule: prod_cases3)
  have f: "rt_providers (fst (snd (run_step E ty st ss rs p x))) = rt_providers (fst (snd x))"
    "rt_adapters (fst (snd (run_step E ty st ss rs p x))) = rt_adapters (fst (snd x))" for ty st ss rs p x
    by (simp_all add: run_step_def split_beta)
  have "rt_providers rt = rt_providers (fst (snd s))" "rt_adapters rt = rt_adapters (fst (snd s))"
    "run_ID r = run_ID (fst s)" "cancels_of outs = cancels_of (snd (snd s))"
    using run_step_cancels [of E EventRunStageChanged RunStageModelCall RunStatusRunning "[]" ?p ?s1]
      run_step_cancels [of E EventRunStageChanged RunStagePromptPlan RunStatusRunning "[]" ?p s] f [of EventRunStageChanged RunStageModelCall RunStatusRunning "[]" ?p ?s1]
      f [of EventRunStageChanged RunStagePromptPlan RunStatusRunning "[]" ?p s]
      run_step_ID [of E EventRunStageChanged RunStageModelCall RunStatusRunning "[]" ?p ?s1]
      run_step_ID [of E EventRunStageChanged RunStagePromptPlan RunStatusRunning "[]" ?p s] by (simp_all add: 2)
  then show ?thesis
    using assms
    by (simp add: send_turn_def 2 Let_def turn_Dispatch_def client_Do_direct [of X _ b] dispatch_request_def turn_opts_def FormatMessages_def
        ollama_FormatMessages_def window_messages_def format_opts_def)
qed

lemma new_run_normal:
  "\<exists>r. normalizeRunForCreate E (new_run E' sess key (foreground_options c submit)) = Inr r"
proof -
  have v: "validRunStatuses RunStatusRunning" "validRunStages RunStagePreflight" "validWorkflowTypes RunWorkflowImplementation"
    "RunWorkflowImplementation \<noteq> []" "RunStagePreflight \<noteq> []"
    by code_simp+
  show ?thesis
    by (simp add: new_run_def foreground_options_def normalizeRunForCreate_def Let_def OrElseS_def v)
qed

lemma create_tx_ok:
  assumes "db_runs d = []" "db_attachments d = []" "db_events d = []" "db_checkpoints d = []"
    "has_session d (run_SessionID r)" "run_ParentRunID r = None" "cp_RunID cp = []"
    and x: "\<And>d'. db_sessions d' = db_sessions d \<Longrightarrow> db_turns d' = db_turns d \<Longrightarrow> db_run_turns d' = db_run_turns d \<Longrightarrow>
      has_run d' (run_ID r) \<Longrightarrow> \<exists>d''. extra d' = (d'', Inr ())"
  shows "\<exists>d' r'. create_run_tx (env_at t) r ev cp extra d = (d', Inr r')"
proof -
  let ?d = "d\<lparr>db_runs := [r], db_attachments := [\<lparr>att_RunID = run_ID r, att_State = run_AttachmentState r,
             att_ConnectionID = run_AttachedConnectionID r, att_GraceDeadline = run_AttachmentGraceDeadline r,
             att_UpdatedAt = run_UpdatedAt r\<rparr>],
       db_events := [normalizeInitialEvent r ev], db_checkpoints := [normalizeCheckpointForCreate (env_at t) r 1 cp]\<rparr>"
  have "\<exists>d''. extra ?d = (d'', Inr ())" by (rule x) (simp_all add: has_run_def)
  then obtain d'' where "extra ?d = (d'', Inr ())" by blast
  moreover have "cp_RunID (normalizeCheckpointForCreate (env_at t) r 1 cp) = run_ID r"
    using assms(7) by (simp add: normalizeCheckpointForCreate_def normalizeCheckpointForAppend_def Let_def OrElseS_def)
  ultimately show ?thesis
    using assms
    by (auto simp: create_run_tx_def Let_def tx_Inr insertRun_def insertAttachment_def
       insertRunEvent_def insertRunCheckpoint_def updateRunSeq_def exec_def has_run_def has_session_def bindR_def)
qed

lemma foreground_ok:
  assumes "turn_SessionID turn = sess_ID sess" "db_runs d = []" "db_attachments d = []" "db_events d = []" "db_checkpoints d = []"
    "db_turns d = []" "db_run_turns d = []" "has_session d (sess_ID sess)" "sv_db srv = d"
  shows "\<exists>srv' out r. createForegroundRunWithTurn (env_at t) sess (foreground_options c submit) turn (Some h) srv = (srv', out, Inr r) \<and>
    cancels_of (map RunOut out) = []"
proof -
  let ?n = "new_run (env_at t) sess (turn_key submit) (foreground_options c submit)"
  obtain r where r: "normalizeRunForCreate (env_at t) ?n = Inr r" using new_run_normal by blast
  from normalizeRunForCreate_cols(5) [OF r] have sid: "run_SessionID r = sess_ID sess" by (simp add: new_run_def)
  have par: "run_ParentRunID r = None" using r by (auto simp: normalizeRunForCreate_def Let_def new_run_def foreground_options_def stringPtrOrNil_def split: if_splits)
  have "\<exists>d' r'. CreateRunWithTurn (env_at t) ?n ev cp (Some turn) role n (Some h) d = (d', Inr r')" if "cp_RunID cp = []" for ev cp role n
    unfolding CreateRunWithTurn_def
    apply (simp add: r)
    apply (rule create_tx_ok)
    using assms sid par that
    by (auto simp: foreground_statements_def insertTurn_def insertRunTurn_def insertHistory_def exec_def has_session_def has_run_def)
  then obtain d' r' where "CreateRunWithTurn (env_at t) ?n (started_event (env_at t) ?n)
      (new_checkpoint (env_at t) (run_Stage ?n) (run_Status ?n) [] (run_Summary ?n) [turn_ID turn])
      (Some turn) (turn_Role turn) (turn_Sequence turn) (Some h) d = (d', Inr r')" by (force simp: new_checkpoint_def)
  moreover have "opt_IdempotencyKey (foreground_options c submit) = turn_key submit" "turn_key submit \<noteq> []"
    by (simp_all add: foreground_options_def turn_key_def)
  ultimately show ?thesis using assms(9)
    by (simp add: createForegroundRunWithTurn_def Let_def cancels_of_def emitStoredRunEvent_def)
qed

lemma routed_w: "ResolveForTurn [] ''build'' [''default'' \<mapsto> ''\"m\"''] = ([''m''], False)"
  by code_simp

lemma found_w: "model_Get ''m'' [(''m'', model_w)] = Some model_w" "endpoint_Get ''local'' [ollama_w] = Some ollama_w"
  "adapter_Get (ep_Type ollama_w) [Ollama] = Some Ollama"
  by code_simp+

text \<open>The submission is accepted and its relay is started.\<close>

lemma accepted_w:
  "\<exists>c1 rt1 outs qs j resp. handleTurnSubmit (env_at 2) (su_outside (online_w 2)) (id, id) 0 turn_request_w ready_w (st_rt turn_server_w) =
     (c1, rt1, outs, qs, Some j, Inr resp) \<and> rj_body j = ([], None) \<and> rj_cancel j = 0 \<and> cancels_of outs = [] \<and>
     cn_id c1 = ''c1'' \<and> tsr_TurnID resp = ''t1''"
proof -
  let ?sess = "new_session (env_at 2) ''s1'' ''/p''"
  define d where "d = fst (ensure_session (env_at 2) ready_w ''s1'' empty_db)"
  have e: "ensure_session (env_at 2) ready_w ''s1'' empty_db = (d, Inr ?sess)"
    by (simp add: d_def prod_eq_iff) (simp add: ensure_session_def GetSession_def find_session_def empty_db_def CreateSession_def
      exec_def autocommit_def has_session_def AcquireSessionLock_def ready_w_eq Let_def lock_available_def fill_session_def new_session_def)
  have d: "db_runs d = []" "db_attachments d = []" "db_events d = []" "db_checkpoints d = []" "db_turns d = []"
    "db_run_turns d = []" "has_session d ''s1''"
    by (simp_all add: d_def ensure_session_def GetSession_def find_session_def empty_db_def CreateSession_def map_session_def
      exec_def autocommit_def has_session_def AcquireSessionLock_def ready_w_eq Let_def lock_available_def fill_session_def new_session_def)
  let ?b = "bind_session ''s1'' ?sess ready_w (set_db d (st_rt turn_server_w))"
  obtain c1 rt a where b: "?b = (c1, rt, a)" by (cases ?b rule: prod_cases3)
  then have f: "rt_db rt = d" "as_Conversation a = NewConversation ''s1''" "rt_providers rt = [ollama_w]" "rt_adapters rt = [Ollama]"
    "cn_id c1 = ''c1''" "rt_models rt = [(''m'', model_w)]" "rt_routing rt = [''default'' \<mapsto> ''\"m\"'']" "as_ModelOverride a = []"
    by (auto simp: bind_session_def Let_def EnsureActive_def set_active_def rt_db_def set_db_def turn_server_w_def NewServer_def
        GetActiveSession_def ready_w_eq)
  let ?a = "a\<lparr>as_Conversation := fst (AppendUserTurn (env_at 2) submit_w (NewConversation ''s1''))\<rparr>"
  obtain conv turn where u: "AppendUserTurn (env_at 2) submit_w (NewConversation ''s1'') = (conv, Inr turn)"
    "turn_SessionID turn = ''s1''" "cv_turns conv \<noteq> []"
    by (simp add: AppendUserTurn_def NewConversation_def submit_w_def Let_def messageToTurn_def)
  have k: "GetRunByIdempotency (env_at 2) (sess_UserID ?sess) (sess_Project ?sess) (turn_key submit_w) d = Inl ErrRunNotFound"
    by (simp add: GetRunByIdempotency_def d)
  obtain srv out r where c: "createForegroundRunWithTurn (env_at 2) ?sess (foreground_options c1 submit_w) turn
      (Some (turn_history (env_at 2) (a\<lparr>as_Conversation := conv\<rparr>) submit_w)) (rt_srv (set_active (a\<lparr>as_Conversation := conv\<rparr>) rt)) = (srv, out, Inr r)"
    "cancels_of (map RunOut out) = []"
    using foreground_ok [of turn ?sess d "rt_srv (set_active (a\<lparr>as_Conversation := conv\<rparr>) rt)" 2 c1 submit_w
        "turn_history (env_at 2) (a\<lparr>as_Conversation := conv\<rparr>) submit_w"] d f(1) u(2)
    by (auto simp: new_session_def rt_db_def set_active_def)
  let ?s = "(r, (set_active (a\<lparr>as_Conversation := conv\<rparr>) rt)\<lparr>rt_srv := srv\<rparr>, map RunOut out)"
  have "\<exists>rt' outs qs j. send_turn (env_at 2) (su_outside (online_w 2)) (id, id) 0 submit_w ''m'' model_w (a\<lparr>as_Conversation := conv\<rparr>) c1 ?s =
      (rt', outs, qs, Some j, Inr (turn_accepted submit_w (run_ID (fst ?s)))) \<and> rj_body j = ([], None) \<and>
      rj_cancel j = 0 \<and> cancels_of outs = cancels_of (snd (snd ?s))"
    by (rule send_turn_sends [where ep = ollama_w])
      (use found_w f u in \<open>simp_all add: online_w_def surroundings_w_def set_active_def model_w_def no_info_def\<close>)
  then obtain rt' outs qs j where
    "route_turn (env_at 2) (su_outside (online_w 2)) (id, id) 0 submit_w (a\<lparr>as_Conversation := conv\<rparr>) c1 ?s =
      (rt', outs, qs, Some j, Inr (turn_accepted submit_w (run_ID r)))" and j: "rj_body j = ([], None)" "rj_cancel j = 0" "cancels_of outs = []"
    using routed_w found_w f c(2) by (auto simp: route_turn_def set_active_def submit_w_def)
  then have "submit_turn (env_at 2) (su_outside (online_w 2)) (id, id) 0 submit_w ?sess a c1 rt =
      (rt', outs, qs, Some j, Inr (turn_accepted submit_w (run_ID r)))" using k u c f by (simp add: submit_turn_def Let_def)
  moreover have "handleTurnSubmit (env_at 2) (su_outside (online_w 2)) (id, id) 0 turn_request_w ready_w (st_rt turn_server_w) =
    (c1, submit_turn (env_at 2) (su_outside (online_w 2)) (id, id) 0 submit_w ?sess a c1 rt)"
  proof -
    have "rt_db (st_rt turn_server_w) = empty_db" by (simp add: turn_server_w_def NewServer_def rt_db_def)
    moreover have "attachments_refused cfg (ts_Attachments submit_w) = None" for cfg
      by (simp add: attachments_refused_def submit_w_def)
    ultimately show ?thesis using e b
      by (simp add: handleTurnSubmit_def validate_w) (simp add: submit_w_def)
  qed
  ultimately show ?thesis using j f(5) by (auto simp: turn_accepted_def submit_w_def)
qed

definition turn_events_w :: "server_event list" where
  "turn_events_w = [EvAccept (env_at 0) ''c1'' False, EvRequest (surroundings_w 1) 0 (RqRegister (Inr register_w)),
     EvRequest (online_w 2) 0 (RqTurnSubmit turn_request_w)]"

lemma turn_state_w:
  "\<exists>c rt j. fst (run_out server_step turn_server_w turn_events_w) =
     \<lparr>st_conns = [c], st_rt = rt, st_procs = [start_relay (env_at 2) c j], st_cancelled = []\<rparr> \<and>
     cn_id c = ''c1'' \<and> rj_body j = ([], None) \<and> rj_cancel j = 0"
proof -
  have 1: "fst (server_step turn_server_w (EvAccept (env_at 0) ''c1'' False)) = turn_server_w\<lparr>st_conns := [fresh_w]\<rparr>"
    by (simp add: step_accept_def conn_accept_def turn_server_w_def NewServer_def fresh_w_def fresh_connection_def DefaultServerConfig_def)
  let ?s1 = "turn_server_w\<lparr>st_conns := [fresh_w]\<rparr>" and ?s2 = "turn_server_w\<lparr>st_conns := [ready_w]\<rparr>"
  have cfg: "rt_config (st_rt turn_server_w) = DefaultServerConfig" "st_procs turn_server_w = []" "st_cancelled turn_server_w = []"
    by (simp_all add: turn_server_w_def NewServer_def)
  have reg: "handleRequest (surroundings_w 1) (RqRegister (Inr register_w)) fresh_w (st_rt turn_server_w) =
      (ready_w, st_rt turn_server_w, plain_reply [] (snd (handleCapabilitiesRegister id DefaultServerConfig (Inr register_w) fresh_w)))"
    using cfg by (simp add: handleRequest_def ready_w_def fresh_w_state gateMethodLocked_def answered_def surroundings_w_def)
  have open_w: "\<not> cn_closed fresh_w" "\<not> cn_closed ready_w"
    by (simp_all add: ready_w_eq fresh_w_def fresh_connection_def conn_initialize_def conn_transition_def
      NewConnection_def startHeartbeatMonitor_def)
  have 2: "fst (server_step ?s1 (EvRequest (surroundings_w 1) 0 (RqRegister (Inr register_w)))) = ?s2"
    using reg open_w cfg by (auto simp: step_request_def plain_reply_def cancels_of_def)
  obtain c1 rt1 outs qs j resp where
    h: "handleTurnSubmit (env_at 2) (su_outside (online_w 2)) (id, id) 0 turn_request_w ready_w (st_rt turn_server_w) =
     (c1, rt1, outs, qs, Some j, Inr resp)" and j: "rj_body j = ([], None)" "rj_cancel j = 0" "cancels_of outs = []"
     "cn_id c1 = ''c1''" using accepted_w by blast
  have q: "handleRequest (online_w 2) (RqTurnSubmit turn_request_w) ready_w (st_rt turn_server_w) =
      (c1, rt1, \<lparr>ro_outputs = outs, ro_requests = qs, ro_job = Some j, ro_error = None\<rparr>)"
    using h by (simp add: handleRequest_def ready_w_eq [THEN arg_cong [of _ _ cn_state]] gateMethodLocked_def
       online_w_def surroundings_w_def err_of_def)
  have 3: "fst (server_step ?s2 (EvRequest (online_w 2) 0 (RqTurnSubmit turn_request_w))) =
      \<lparr>st_conns = [c1], st_rt = rt1, st_procs = [start_relay (env_at 2) c1 j], st_cancelled = []\<rparr>"
    using q open_w cfg j by (simp add: step_request_def online_w_def surroundings_w_def)
  show ?thesis
    using j by (simp add: turn_events_w_def fst_run_out_Cons 1 2 3 del: server_step.simps run_out.simps)
      (use j in \<open>auto simp: run_out.simps\<close>)
qed

lemma turn_retry_is_idempotent_witness:
  "\<exists>c1 rt1 outs qs job resp c2 rt2.
     handleTurnSubmit (env_at 2) (su_outside (online_w 2)) (id, id) 0 turn_request_w ready_w (st_rt turn_server_w) =
       (c1, rt1, outs, qs, Some job, Inr resp) \<and>
     handleTurnSubmit (env_at 3) (su_outside (surroundings_w 3)) (id, id) 1 turn_request_w ready_w rt1 =
       (c2, rt2, [], [], None, Inr resp) \<and> rt_db rt2 = rt_db rt1"
proof -
  obtain c1 rt1 outs qs job resp where
    h: "handleTurnSubmit (env_at 2) (su_outside (online_w 2)) (id, id) 0 turn_request_w ready_w (st_rt turn_server_w) =
     (c1, rt1, outs, qs, Some job, Inr resp)" using accepted_w by blast
  let ?r = "handleTurnSubmit (env_at 3) (su_outside (surroundings_w 3)) (id, id) 1 turn_request_w ready_w rt1"
  obtain c2 rt2 outs2 qs2 job2 res where r: "?r = (c2, rt2, outs2, qs2, job2, res)" by (cases ?r rule: prod_cases6)
  have d: "rt_db (st_rt turn_server_w) = empty_db" by (simp add: turn_server_w_def NewServer_def rt_db_def)
  have "\<forall>rid r. find_run (rt_db (st_rt turn_server_w)) rid = Some r \<longrightarrow>
      replay_status (events_of (rt_db (st_rt turn_server_w)) rid) = Some (run_Status r)"
    unfolding d by (simp add: find_run_def empty_db_def)
  from turn_retry_is_idempotent [OF _ this validate_w _ h _ _ r] empty_store_inv h r show ?thesis
    by (auto simp: d submit_w_def)
qed

lemma fresh_suffix: "finite A \<Longrightarrow> \<exists>u. p @ u \<notin> A" for p :: string
proof -
  assume "finite A"
  then obtain u where "u \<notin> drop (length p) ` A"
    using ex_new_if_finite [OF infinite_UNIV_listI, of "drop (length p) ` A"] by blast
  then show ?thesis by (metis append_eq_conv_conj imageI)
qed

lemma accepted_turn_ends_witness:
  "\<exists>u r. let st = fst (run_out server_step turn_server_w turn_events_w);
       st1 = fst (run_out server_step st [EvRelay (env_at 3) AtSelect 0]);
       st2 = fst (server_step st1 (EvSettle (\<lambda>_. []) ((env_at 4)\<lparr>env_uuid := \<lambda>_. u\<rparr>) (env_at 4) 0))
     in length (st_procs st) = 1 \<and> st_procs st2 = [] \<and>
        find_run (rt_db (st_rt st2)) (sr_runID (rj_relay (rp_job (st_procs st ! 0)))) = Some r \<and>
        isTerminalRunStatus (run_Status r)"
proof -
  let ?st = "fst (run_out server_step turn_server_w turn_events_w)"
  let ?st1 = "fst (run_out server_step ?st (map (\<lambda>(E, pt). EvRelay E pt 0) [(env_at 3, AtSelect)]))"
  let ?ids = "cp_ID ` set (db_checkpoints (rt_db (st_rt ?st1)))"
  have "finite ?ids" by (rule finite_imageI [OF finite_set])
  from fresh_suffix [OF this] obtain u where u: "''cp-'' @ u \<notin> ?ids" by (rule exE)
  from turn_state_w obtain c rt j where st: "?st = \<lparr>st_conns = [c], st_rt = rt, st_procs = [start_relay (env_at 2) c j], st_cancelled = []\<rparr>"
    and j: "cn_id c = ''c1''" "rj_body j = ([], None)" "rj_cancel j = 0" by blast
  have e: "\<forall>rid r. find_run empty_db rid = Some r \<longrightarrow> replay_status (events_of empty_db rid) = Some (run_Status r)"
    by (simp add: find_run_def empty_db_def)
  have p: "0 < length (st_procs ?st)" "length (rp_rest (st_procs ?st ! 0)) < length [(env_at 3, AtSelect)]"
    "\<not> relay_cancelled ?st (st_procs ?st ! 0)"
    using j by (simp_all add: st start_relay_def relay_cancelled_def)
  note w = accepted_turn_ends [OF empty_store_inv e _ p(1) refl p(2) refl refl,
      where evs = turn_events_w and E = "env_at 0" and cfg = DefaultServerConfig and eps = "[ollama_w]" and ads = "[Ollama]"
      and models = "[(''m'', model_w)]" and tree = "[''default'' \<mapsto> ''\"m\"'']" and et = "\<lambda>_. []"
      and ?E1.0 = "(env_at 4)\<lparr>env_uuid := \<lambda>_. u\<rparr>" and Eb = "env_at 4"]
  show ?thesis
    using w u p(3) st unfolding list.map prod.case by (auto simp: turn_server_w_def [symmetric] Let_def)
qed

lemma accepted_turn_can_be_cancelled_witness:
  "\<exists>c1 rt1 outs qs j resp rt2.
     handleTurnSubmit (env_at 2) (su_outside (online_w 2)) (id, id) 0 turn_request_w ready_w (st_rt turn_server_w) =
       (c1, rt1, outs, qs, Some j, Inr resp) \<and>
     handleTurnCancel (Inr ''t1'') c1 rt1 = (c1, rt2, [CancelTurn 0], Inr (''t1'', True))"
proof -
  obtain c1 rt1 outs qs j resp where
    h: "handleTurnSubmit (env_at 2) (su_outside (online_w 2)) (id, id) 0 turn_request_w ready_w (st_rt turn_server_w) =
     (c1, rt1, outs, qs, Some j, Inr resp)" and r: "tsr_TurnID resp = ''t1''" using accepted_w by blast
  obtain c2 rt2 outs2 res where k: "handleTurnCancel (Inr ''t1'') c1 rt1 = (c2, rt2, outs2, res)" by (metis prod_cases4)
  from accepted_turn_can_be_cancelled [OF h, unfolded r, OF _ k] have "c2 = c1" "outs2 = [CancelTurn 0]" "res = Inr (''t1'', True)"
    by simp_all
  with h k show ?thesis by blast
qed

end
