(* ===== verification/Prompt_Props.thy ===== *)
theory Prompt_Props
  imports Dispatch
begin

text \<open>
  What reaches a provider: the layers of the prompt that always do, the layers that give way to the
  budget, and the credentials, which go to their own endpoint in their own header and nowhere else.
\<close>

subsection \<open>Trimming\<close>

lemma drop_layer_pinned: "l \<in> set ls \<Longrightarrow> ly_Pinned l \<Longrightarrow> l \<in> set (drop_layer n ls)"
  by (force simp: drop_layer_def)

lemma drop_layer_tokens: "\<forall>l \<in> set ls. 0 \<le> ly_Tokens l \<Longrightarrow> \<forall>l \<in> set (drop_layer n ls). 0 \<le> ly_Tokens l"
  by (auto simp: drop_layer_def)

lemma drop_layer_sum: "\<forall>l \<in> set ls. 0 \<le> ly_Tokens l \<Longrightarrow> sumLayerTokens (drop_layer n ls) \<le> sumLayerTokens ls"
  by (induction ls) (auto simp: drop_layer_def sumLayerTokens_def)

lemma trim_pinned: "l \<in> set ls \<Longrightarrow> ly_Pinned l \<Longrightarrow> l \<in> set (trimLayers ls budget)"
  by (simp add: trimLayers_def drop_layer_pinned)

definition pinned_tokens :: "PromptLayer list \<Rightarrow> int" where
  "pinned_tokens ls = sumLayerTokens (filter ly_Pinned ls)"

lemma drop_both: "\<forall>l \<in> set ls. ly_Pinned l \<or> ly_Number l = 6 \<or> ly_Number l = 7 \<Longrightarrow>
    sumLayerTokens (drop_layer 7 (drop_layer 6 ls)) = pinned_tokens ls"
  by (induction ls) (auto simp: drop_layer_def sumLayerTokens_def pinned_tokens_def)

lemma trim_fits:
  assumes "\<forall>l \<in> set ls. ly_Pinned l \<or> ly_Number l = 6 \<or> ly_Number l = 7"
  shows "sumLayerTokens (trimLayers ls budget) \<le> max budget (pinned_tokens ls)"
  using drop_both [OF assms] by (auto simp: trimLayers_def)

lemma layers_shape:
  "\<forall>l \<in> set (all_layers pe caps session mode). (ly_Pinned l \<or> ly_Number l = 6 \<or> ly_Number l = 7) \<and> 0 \<le> ly_Tokens l"
  by (auto simp: all_layers_def AssembleLayers1to5_def layer_def split: option.splits)

subsection \<open>The text\<close>

lemma join_loop_keeps: "\<exists>b. join_loop ls i sb = sb @ b"
proof (induction ls arbitrary: i sb)
  case (Cons l ls)
  show ?case using Cons.IH [of "i + 1" sb]
      Cons.IH [of "i + 1" "(if length sb > 0 \<and> i > 0 then sb @ newline @ newline else sb) @ ly_Content l"]
    by auto
qed simp

lemma join_loop_has: "l \<in> set ls \<Longrightarrow> \<exists>a b. join_loop ls i sb = a @ ly_Content l @ b"
proof (induction ls arbitrary: i sb)
  case (Cons x ls)
  show ?case
  proof (cases "l \<in> set ls")
    case True
    then show ?thesis using Cons.IH by simp
  next
    case False
    with Cons.prems have "l = x" by simp
    show ?thesis
    proof (cases "ly_Content x = []")
      case False
      let ?sb = "if length sb > 0 \<and> i > 0 then sb @ newline @ newline else sb"
      obtain b where "join_loop ls (i + 1) (?sb @ ly_Content x) = (?sb @ ly_Content x) @ b" using join_loop_keeps by blast
      then have "join_loop (x # ls) i sb = ?sb @ ly_Content l @ b" using False \<open>l = x\<close> by simp
      then show ?thesis by blast
    qed (use \<open>l = x\<close> in auto)
  qed
qed simp

text \<open>
  C18: Whatever the window and the share, the behaviour of the core, the tools, the domain, the project and
  the mode are in the prompt in full, and only what the session adds gives way: the prompt fits its
  budget unless the pinned layers alone exceed it, and nothing is left out of one that fits.
\<close>

theorem prompt_pins_and_budget:
  assumes "Assemble pe caps session mode = (prompt, tokens)"
    and "budget = \<lfloor>of_int (pe_windowSize pe) * pe_systemPromptShare pe\<rfloor>"
  shows "(\<forall>l \<in> set (AssembleLayers1to5 pe caps mode). \<exists>a b. prompt = a @ ly_Content l @ b) \<and>
    (pe_windowSize pe > 0 \<longrightarrow> tokens \<le> max budget (sumLayerTokens (AssembleLayers1to5 pe caps mode))) \<and>
    (pe_windowSize pe \<le> 0 \<or> sumLayerTokens (all_layers pe caps session mode) \<le> budget \<longrightarrow>
       prompt = joinLayers (all_layers pe caps session mode))"
proof -
  let ?ls = "all_layers pe caps session mode"
  define kept where "kept = (if pe_windowSize pe > 0 \<and> sumLayerTokens ?ls > budget then trimLayers ?ls budget else ?ls)"
  have p: "prompt = joinLayers kept" "tokens = sumLayerTokens kept"
    using assms(1) by (auto simp: Assemble_def Let_def kept_def assms(2) split: if_splits)
  have pins: "filter ly_Pinned ?ls = AssembleLayers1to5 pe caps mode"
    by (auto simp: all_layers_def AssembleLayers1to5_def layer_def split: option.splits)
  have "l \<in> set kept" if "l \<in> set (AssembleLayers1to5 pe caps mode)" for l
    using that trim_pinned [of l ?ls budget] unfolding pins [symmetric] by (auto simp: kept_def)
  then have "\<exists>a b. prompt = a @ ly_Content l @ b" if "l \<in> set (AssembleLayers1to5 pe caps mode)" for l
    using that join_loop_has [of l kept] by (simp add: p joinLayers_def)
  moreover have "tokens \<le> max budget (sumLayerTokens (AssembleLayers1to5 pe caps mode))" if "pe_windowSize pe > 0"
    using that trim_fits [of ?ls budget] layers_shape [of pe caps session mode]
    by (auto simp: p kept_def pinned_tokens_def pins)
  moreover have "prompt = joinLayers ?ls" if "pe_windowSize pe \<le> 0 \<or> sumLayerTokens ?ls \<le> budget"
    using that by (auto simp: p kept_def)
  ultimately show ?thesis by blast
qed

definition engine_w :: PromptEngine where
  "engine_w = \<lparr>pe_coreBehavioral = ''Be brief.'', pe_domainConfig = [], pe_windowSize = 40, pe_systemPromptShare = 1 / 4\<rparr>"

lemma prompt_pins_and_budget_witness:
  "\<exists>prompt tokens a b. Assemble engine_w None None ModeBuild = (prompt, tokens) \<and> prompt = a @ ''Be brief.'' @ b \<and>
     tokens \<le> max 10 (sumLayerTokens (AssembleLayers1to5 engine_w None ModeBuild))"
proof -
  obtain prompt tokens where a: "Assemble engine_w None None ModeBuild = (prompt, tokens)" by (metis prod.exhaust)
  have l: "layer 1 ''core_behavioral'' True ''Be brief.'' \<in> set (AssembleLayers1to5 engine_w None ModeBuild)"
    by (simp add: AssembleLayers1to5_def engine_w_def)
  note w = prompt_pins_and_budget [OF a refl]
  from w l obtain x y where "prompt = x @ ly_Content (layer 1 ''core_behavioral'' True ''Be brief.'') @ y" by blast
  then show ?thesis using w a by (auto simp: engine_w_def layer_def)
qed

subsection \<open>Dispatch\<close>

lemma dispatch_sends:
  assumes "turn_Dispatch X ads eps opts = (qs, r)" "q \<in> set qs"
  obtains ep a body where "endpoint_Get (dp_EndpointName opts) eps = Some ep" "adapter_Get (ep_Type ep) ads = Some a"
    "FormatMessages a (format_opts opts) = Inr body"
    "ox_bad_url X (trim_right_slash (ep_Host ep) @ providerEndpointPath (ep_Type ep)) = None"
    "q = \<lparr>oq_Method = ''POST'', oq_URL = trim_right_slash (ep_Host ep) @ providerEndpointPath (ep_Type ep),
          oq_Headers = request_headers X opts ep, oq_Body = body\<rparr>"
  using assms by (auto simp: turn_Dispatch_def dispatch_request_def Let_def split: sum.splits option.splits)

definition public_headers :: "(string \<times> string) list \<Rightarrow> (string \<times> string) list" where
  "public_headers hs = filter (\<lambda>h. fst h \<notin> {''x-api-key'', ''Authorization''}) hs"

lemma auth_public: "public_headers (request_headers X opts (ep\<lparr>ep_APIKey := k\<rparr>)) = public_headers (request_headers X opts ep)"
  by (simp add: public_headers_def request_headers_def setAuthHeaders_def shouldStampCorrelationHeaders_def)

text \<open>What redirects do to the headers of the first request.\<close>

definition redirected_from :: "'b outside \<Rightarrow> out_request \<Rightarrow> out_request \<Rightarrow> bool" where
  "redirected_from X q w \<longleftrightarrow>
     (\<forall>h \<in> set (oq_Headers w). fst h \<noteq> ''Referer'' \<longrightarrow> h \<in> set (oq_Headers q)) \<and>
     ((\<exists>h \<in> set (oq_Headers w). fst h = ''Authorization'') \<longrightarrow> ox_same_site X (oq_URL q) (oq_URL w)) \<and>
     (\<forall>h \<in> set (oq_Headers q). fst h \<notin> {''Authorization'', ''Content-Type''} \<longrightarrow> h \<in> set (oq_Headers w))"

lemma redirect_request_from:
  "redirected_from X first (redirect_request X first (strip \<or> \<not> ox_same_site X (oq_URL first) url) b q status url)"
  by (auto simp: redirected_from_def redirect_request_def copied_headers_def)

lemma follow_from:
  "\<exists>ws. fst (follow X first n strip b q) = q # ws \<and> length ws \<le> n \<and> (\<forall>w \<in> set ws. redirected_from X first w)"
proof (induction X first n strip b q rule: follow.induct)
  case (1 X first n strip b q)
  show ?case
  proof (cases "ox_net X q")
    case (NoResponse e)
    then show ?thesis by (simp add: follow.simps)
  next
    case (HttpResponse status loc body)
    show ?thesis
    proof (cases "is_redirect status \<and> loc \<noteq> []")
      case r: True
      show ?thesis
      proof (cases "ox_resolve X (oq_URL q) loc")
        case (Inl e)
        then show ?thesis using HttpResponse r by (simp add: follow.simps)
      next
        case (Inr url)
        show ?thesis
        proof (cases n)
          case 0
          then show ?thesis using HttpResponse r Inr by (simp add: follow.simps)
        next
          case (Suc m)
          let ?s = "strip \<or> \<not> ox_same_site X (oq_URL first) url" and ?b = "b \<and> keeps_body status"
          let ?w = "redirect_request X first ?s ?b q status url"
          have "\<exists>ws. fst (follow X first m ?s ?b ?w) = ?w # ws \<and> length ws \<le> m \<and> (\<forall>w \<in> set ws. redirected_from X first w)"
            using "1.IH" [OF HttpResponse _ Inr Suc refl refl] r by blast
          moreover have "redirected_from X first ?w" by (rule redirect_request_from)
          moreover have "fst (follow X first n strip b q) = q # fst (follow X first m ?s ?b ?w)"
            by (subst follow.simps) (use HttpResponse r Inr Suc in \<open>simp add: Let_def split_beta\<close>)
          ultimately show ?thesis using Suc by auto
        qed
      qed
    qed (use HttpResponse in \<open>auto simp: follow.simps\<close>)
  qed
qed

text \<open>
  C9: Where credentials go.  A dispatch depends on no endpoint but the one that its options name, so no
  other key can be in what it sends; it gives at most one request to the HTTP client, for the host of that
  endpoint; the key of the endpoint has no influence on the request but for its authentication header; and
  the identifiers of the run are in it only for an endpoint that is marked as a proxy and whose host is
  local.  That request is the first on the wire; the at most nine that redirects add carry nothing but
  its headers and a \<open>Referer\<close>, with \<open>Authorization\<close> only to the site of the endpoint, but with every other
  header, \<open>x-api-key\<close> included, to whatever host the redirect names.
\<close>

theorem dispatch_confines_credentials:
  assumes d: "turn_Dispatch X ads eps opts = (qs, r)"
    and other: "endpoint_Get (dp_EndpointName opts) eps' = endpoint_Get (dp_EndpointName opts) eps"
  shows "turn_Dispatch X ads eps' opts = (qs, r) \<and> length qs \<le> 1 \<and>
    (\<forall>q \<in> set qs. \<exists>ep. endpoint_Get (dp_EndpointName opts) eps = Some ep \<and>
       oq_URL q = trim_right_slash (ep_Host ep) @ providerEndpointPath (ep_Type ep) \<and>
       (\<forall>k. \<exists>q'. dispatch_request X ads [ep\<lparr>ep_APIKey := k\<rparr>] opts = Inr q' \<and> oq_URL q' = oq_URL q \<and>
          oq_Body q' = oq_Body q \<and> public_headers (oq_Headers q') = public_headers (oq_Headers q)) \<and>
       ((\<exists>h \<in> set (oq_Headers q). fst h = HeaderRunID \<or> fst h = HeaderTraceID) \<longrightarrow> ep_Upstream ep \<noteq> [] \<and>
          (\<exists>host loopback. ox_hostname X (ep_Host ep) = Some (host, loopback) \<and> (host = ''localhost'' \<or> loopback)))) \<and>
    (qs = [] \<longrightarrow> wire_requests X ads eps opts = []) \<and>
    (\<forall>q \<in> set qs. \<exists>ws. wire_requests X ads eps opts = q # ws \<and> length ws \<le> 9 \<and> (\<forall>w \<in> set ws. redirected_from X q w))"
proof -
  have "turn_Dispatch X ads eps' opts = (qs, r)"
    using d by (simp add: turn_Dispatch_def dispatch_request_def other Let_def)
  moreover have "length qs \<le> 1" using d by (auto simp: turn_Dispatch_def split: sum.splits)
  moreover have "\<exists>ep. endpoint_Get (dp_EndpointName opts) eps = Some ep \<and>
       oq_URL q = trim_right_slash (ep_Host ep) @ providerEndpointPath (ep_Type ep) \<and>
       (\<forall>k. \<exists>q'. dispatch_request X ads [ep\<lparr>ep_APIKey := k\<rparr>] opts = Inr q' \<and> oq_URL q' = oq_URL q \<and>
          oq_Body q' = oq_Body q \<and> public_headers (oq_Headers q') = public_headers (oq_Headers q)) \<and>
       ((\<exists>h \<in> set (oq_Headers q). fst h = HeaderRunID \<or> fst h = HeaderTraceID) \<longrightarrow> ep_Upstream ep \<noteq> [] \<and>
          (\<exists>host loopback. ox_hostname X (ep_Host ep) = Some (host, loopback) \<and> (host = ''localhost'' \<or> loopback)))"
    if "q \<in> set qs" for q
  proof -
    from d that obtain ep a body where e: "endpoint_Get (dp_EndpointName opts) eps = Some ep" "adapter_Get (ep_Type ep) ads = Some a"
      "FormatMessages a (format_opts opts) = Inr body"
      "ox_bad_url X (trim_right_slash (ep_Host ep) @ providerEndpointPath (ep_Type ep)) = None"
      "q = \<lparr>oq_Method = ''POST'', oq_URL = trim_right_slash (ep_Host ep) @ providerEndpointPath (ep_Type ep),
            oq_Headers = request_headers X opts ep, oq_Body = body\<rparr>" by (rule dispatch_sends)
    have "shouldStampCorrelationHeaders (ox_hostname X) ep"
      if "\<exists>h \<in> set (request_headers X opts ep). fst h = HeaderRunID \<or> fst h = HeaderTraceID"
      using that by (auto simp: request_headers_def setAuthHeaders_def HeaderRunID_def HeaderTraceID_def split: if_splits)
    then have "ep_Upstream ep \<noteq> [] \<and>
        (\<exists>host loopback. ox_hostname X (ep_Host ep) = Some (host, loopback) \<and> (host = ''localhost'' \<or> loopback))"
      if "\<exists>h \<in> set (request_headers X opts ep). fst h = HeaderRunID \<or> fst h = HeaderTraceID"
      using that by (auto simp: shouldStampCorrelationHeaders_def split: if_splits option.splits)
    moreover have n: "ep_Name ep = dp_EndpointName opts" using e(1) by (auto simp: endpoint_Get_def find_Some_iff)
    moreover from n e have "dispatch_request X ads [ep\<lparr>ep_APIKey := k\<rparr>] opts =
        Inr (q\<lparr>oq_Headers := request_headers X opts (ep\<lparr>ep_APIKey := k\<rparr>)\<rparr>)" for k
      by (simp add: dispatch_request_def endpoint_Get_def Let_def)
    ultimately show ?thesis using e by (intro exI [of _ ep]) (simp add: auth_public)
  qed
  moreover have "(qs = [] \<longrightarrow> wire_requests X ads eps opts = []) \<and>
    (\<forall>q \<in> set qs. \<exists>ws. wire_requests X ads eps opts = q # ws \<and> length ws \<le> 9 \<and> (\<forall>w \<in> set ws. redirected_from X q w))"
    using d follow_from [of X _ 9 False True]
    by (auto simp: turn_Dispatch_def wire_requests_def client_Do_def split: sum.splits)
  ultimately show ?thesis by blast
qed

definition cloud_w :: ProviderEndpoint where
  "cloud_w = \<lparr>ep_Name = ''cloud'', ep_Type = ProviderTypeAnthropic, ep_APIKey = ''secret'', ep_Host = ''https://api/'',
     ep_Upstream = [], ep_Discover = False, ep_status = ''ready'', ep_errMsg = [], ep_models = [], ep_lastCheck = 0\<rparr>"

definition ask_w :: DispatchOpts where
  "ask_w = \<lparr>dp_Conversation = (NewConversation ''s1'')\<lparr>cv_turns := [empty_message\<lparr>msg_Role := ''user'', msg_Content := ''hi''\<rparr>]\<rparr>,
     dp_SystemPrompt = [], dp_Model = ''m'', dp_EndpointName = ''cloud'', dp_RunID = ''r'', dp_TraceID = ''t'',
     dp_MaxTokens = 10, dp_Temperature = None, dp_Tools = [], dp_Capabilities = [], dp_Stream = True, dp_WindowSize = 0\<rparr>"

definition outside_w :: "string outside" where
  "outside_w = \<lparr>ox_net = (\<lambda>q. if oq_URL q = ''https://api/v1/messages'' then HttpResponse 307 ''https://else/'' ''moved''
       else HttpResponse 200 [] ''ok''), ox_format_text = (\<lambda>_. []), ox_bad_url = (\<lambda>_. None),
     ox_hostname = (\<lambda>_. None), ox_resolve = (\<lambda>_ loc. Inr loc), ox_same_site = (\<lambda>a b. a = b), ox_referer = (\<lambda>_ _. [])\<rparr>"

text \<open>The endpoint answers with a redirect to another host: the key goes there.\<close>

lemma dispatch_confines_credentials_witness:
  "\<exists>q w. turn_Dispatch outside_w [Anthropic] [cloud_w] ask_w = ([q], Inr ''ok'') \<and>
     oq_URL q = ''https://api/v1/messages'' \<and> (\<forall>h \<in> set (oq_Headers q). fst h \<noteq> HeaderRunID) \<and>
     wire_requests outside_w [Anthropic] [cloud_w] ask_w = [q, w] \<and> oq_URL w = ''https://else/'' \<and>
     (''x-api-key'', ''secret'') \<in> set (oq_Headers w)"
proof -
  let ?d = "turn_Dispatch outside_w [Anthropic] [cloud_w] ask_w" and ?ws = "wire_requests outside_w [Anthropic] [cloud_w] ask_w"
  have "snd ?d = Inr ''ok'' \<and> length (fst ?d) = 1" by code_simp
  then obtain q where q: "?d = ([q], Inr ''ok'')" by (cases ?d) (auto simp: length_Suc_conv)
  have "length ?ws = 2 \<and> oq_URL (?ws ! 1) = ''https://else/'' \<and> (''x-api-key'', ''secret'') \<in> set (oq_Headers (?ws ! 0))"
    by code_simp
  then obtain x w where w: "?ws = [x, w]" "oq_URL w = ''https://else/''" "(''x-api-key'', ''secret'') \<in> set (oq_Headers x)"
    by (auto simp: length_Suc_conv numeral_2_eq_2)
  have g: "endpoint_Get (dp_EndpointName ask_w) [cloud_w] = Some cloud_w"
    "trim_right_slash (ep_Host cloud_w) @ providerEndpointPath (ep_Type cloud_w) = ''https://api/v1/messages''"
    "ep_Upstream cloud_w = []" by code_simp+
  note c = dispatch_confines_credentials [OF q refl]
  then have "x = q" "redirected_from outside_w q w" using w(1) by auto
  moreover from this(2) w(3) have "(''x-api-key'', ''secret'') \<in> set (oq_Headers w)" by (force simp: redirected_from_def \<open>x = q\<close>)
  ultimately show ?thesis using c g q w by (intro exI [of _ q] exI [of _ w]) auto
qed

end
