(* ===== verification/Compact_Props.thy ===== *)
theory Compact_Props
  imports Compact Service_Props
begin

text \<open>
  What compaction leaves of a session, whichever of its statements fail: the recent turns, every turn of
  the other sessions, and at most one summary in the place of what is gone.
\<close>

subsection \<open>Deleting\<close>

text \<open>The turns of a list are told apart from all others of the store by their identifiers.\<close>

definition told_apart :: "Turn list \<Rightarrow> db \<Rightarrow> bool" where
  "told_apart ts d \<longleftrightarrow> (\<forall>t \<in> set ts. \<forall>x \<in> set (db_turns d). turn_ID x = turn_ID t \<longrightarrow> x = t)"

lemma told_apart_distinct:
  "distinct (map turn_ID (db_turns d)) \<Longrightarrow> set ts \<subseteq> set (db_turns d) \<Longrightarrow> told_apart ts d"
  by (auto simp: told_apart_def distinct_map inj_on_def)

lemma DeleteTurn_turns:
  assumes "DeleteTurn E (turn_SessionID t) (turn_ID t) d = (d', Inr u)" "told_apart [t] d"
  shows "db_turns d' = filter (\<lambda>x. x \<noteq> t) (db_turns d)"
  using assms by (auto simp: DeleteTurn_def autocommit_def told_apart_def split: sum.splits intro!: filter_cong)

lemma deleteTurns_removes:
  assumes "deleteTurns E i ts d = (d', r)" "told_apart ts d"
  shows "\<exists>D \<subseteq> set ts. db_turns d' = filter (\<lambda>x. x \<notin> D) (db_turns d) \<and> (r = None \<longrightarrow> D = set ts)"
  using assms
proof (induction ts arbitrary: i d)
  case (Cons t ts)
  obtain d1 r1 where 1: "DeleteTurn (at_round i E) (turn_SessionID t) (turn_ID t) d = (d1, r1)" by fastforce
  show ?case
  proof (cases r1)
    case (Inl e)
    then have "d1 = d" using 1 by (auto simp: DeleteTurn_def autocommit_def split: sum.splits)
    then show ?thesis using Cons.prems(1) 1 Inl by (intro exI [of _ "{}"]) auto
  next
    case (Inr u)
    have t: "db_turns d1 = filter (\<lambda>x. x \<noteq> t) (db_turns d)"
      using Cons.prems(2) by (intro DeleteTurn_turns [OF 1 [unfolded Inr]]) (simp add: told_apart_def)
    have "deleteTurns E (i + 1) ts d1 = (d', r)" using Cons.prems(1) 1 Inr by simp
    moreover have "told_apart ts d1" using Cons.prems(2) by (simp add: told_apart_def t)
    ultimately obtain D where "D \<subseteq> set ts" "db_turns d' = filter (\<lambda>x. x \<notin> D) (db_turns d1)" "r = None \<longrightarrow> D = set ts"
      using Cons.IH by blast
    then show ?thesis by (intro exI [of _ "insert t D"]) (auto simp: t intro!: filter_cong)
  qed
qed simp

subsection \<open>The two categories\<close>

definition summary_of :: "string \<Rightarrow> Turn list \<Rightarrow> Turn \<Rightarrow> bool" where
  "summary_of sid older x \<longleftrightarrow> turn_SessionID x = sid \<and> turn_Compacted x \<and> turn_Role x = ''assistant'' \<and>
     turn_Sequence x = turn_Sequence (hd older) \<and> turn_OriginalTurns x = map turn_Sequence older \<and>
     turn_CompactedSummary x = summarizeTurns older"

definition kept_after :: "Turn set \<Rightarrow> Turn list \<Rightarrow> db \<Rightarrow> db \<Rightarrow> bool" where
  "kept_after D new d d' \<longleftrightarrow> db_turns d' = filter (\<lambda>x. x \<notin> D) (db_turns d) @ new"

lemma compact_older_keeps:
  assumes "compact_older E sid act older d = (d', res)" "told_apart older d" "distinct (map turn_ID (db_turns d))"
  shows "\<exists>D new. D \<subseteq> set older \<and> kept_after D new d d' \<and> length new \<le> 1 \<and> (\<forall>x \<in> set new. summary_of sid older x) \<and>
    distinct (map turn_ID (db_turns d')) \<and>
    (act = CompactActionDrop \<longrightarrow> new = [] \<and> (\<forall>freed ls. res = Inr (freed, ls) \<longrightarrow> D = set older \<and> freed = sumTurnTokens older))"
proof -
  obtain d1 r1 where 1: "deleteTurns E 0 older d = (d1, r1)" by fastforce
  from deleteTurns_removes [OF 1 assms(2)] obtain D where
    D: "D \<subseteq> set older" "db_turns d1 = filter (\<lambda>x. x \<notin> D) (db_turns d)" "r1 = None \<longrightarrow> D = set older" by blast
  have dist: "distinct (map turn_ID (db_turns d1))" using assms(3) by (simp add: D(2) distinct_map_filter)
  have deleted: ?thesis if "d' = d1" "act = CompactActionDrop \<longrightarrow> (\<forall>freed ls. res = Inr (freed, ls) \<longrightarrow> r1 = None \<and> freed = sumTurnTokens older)"
    using that D dist by (intro exI [of _ D] exI [of _ "[]"]) (auto simp: kept_after_def)
  have acts: "CompactActionSummarize \<noteq> CompactActionDrop" by (simp add: CompactActionSummarize_def CompactActionDrop_def)
  show ?thesis
  proof (cases "older = [] \<or> act \<noteq> CompactActionSummarize")
    case True
    then consider "older = []" | "older \<noteq> []" "act = CompactActionDrop" | "older \<noteq> []" "act \<noteq> CompactActionDrop" "act \<noteq> CompactActionSummarize"
      by blast
    then show ?thesis
    proof cases
      case a: 1
      show ?thesis
        by (intro exI [of _ "{}"] exI [of _ "[]"])
          (use a assms in \<open>auto simp: compact_older_def kept_after_def sumTurnTokens_def\<close>)
    next
      case a: 2
      show ?thesis by (rule deleted) (use a assms(1) 1 acts in \<open>auto simp: compact_older_def split: option.splits\<close>)
    next
      case a: 3
      show ?thesis
        by (intro exI [of _ "{}"] exI [of _ "[]"]) (use a assms in \<open>auto simp: compact_older_def kept_after_def\<close>)
    qed
  next
    case False
    show ?thesis
    proof (cases r1)
      case (Some err)
      then show ?thesis using assms(1) 1 False acts deleted by (auto simp: compact_older_def replaceTurnsWithSummary_def)
    next
      case None
      let ?t = "summary_turn E sid (turn_Sequence (hd older)) (summarizeTurns older) (map turn_Sequence older)"
      obtain d2 r2 where 2: "CreateTurn E ?t d1 = (d2, r2)" by fastforce
      have d': "d' = d2" using assms(1) 1 2 False None
        by (auto simp: compact_older_def replaceTurnsWithSummary_def split: sum.splits option.splits)
      show ?thesis
      proof (cases r2)
        case (Inl e)
        then have "d' = d1" using 2 d' by (auto simp: CreateTurn_def autocommit_def split: sum.splits)
        then show ?thesis using deleted False acts by auto
      next
        case (Inr u)
        then obtain x where x: "db_turns d2 = db_turns d1 @ [x]" "summary_of sid older x" "turn_ID x \<notin> turn_ID ` set (db_turns d1)"
          using 2 by (auto simp: CreateTurn_def autocommit_def insertTurn_def summary_of_def summary_turn_def
              split: sum.splits if_splits)
        then show ?thesis using D dist False acts
          by (intro exI [of _ D] exI [of _ "[x]"]) (auto simp: kept_after_def d')
      qed
    qed
  qed
qed

lemma compact_tools_keeps:
  assumes "compact_tools E i act outputs d = (d', res)" "told_apart outputs d"
  shows "\<exists>D \<subseteq> set outputs. kept_after D [] d d' \<and>
    (act = CompactActionDrop \<longrightarrow> (\<forall>freed ls. res = Inr (freed, ls) \<longrightarrow> D = set outputs \<and> freed = sumTurnTokens outputs))"
proof -
  obtain d1 r1 where 1: "deleteTurns E i outputs d = (d1, r1)" by fastforce
  from deleteTurns_removes [OF 1 assms(2)] obtain D where
    D: "D \<subseteq> set outputs" "db_turns d1 = filter (\<lambda>x. x \<notin> D) (db_turns d)" "r1 = None \<longrightarrow> D = set outputs" by blast
  show ?thesis
  proof (cases "act = CompactActionDrop \<and> outputs \<noteq> []")
    case True
    then show ?thesis using assms(1) 1 D by (intro exI [of _ D]) (auto simp: compact_tools_def kept_after_def split: option.splits)
  next
    case False
    then show ?thesis using assms(1) by (intro exI [of _ "{}"]) (auto simp: compact_tools_def kept_after_def sumTurnTokens_def)
  qed
qed

subsection \<open>The whole plan\<close>

text \<open>
  C8: Compaction takes turns from the older ones of its session only: the recent turns, the turns beyond
  the listed ones and those of all other sessions are still stored, unchanged and in their order,
  whichever statements fail, in whichever round of the loops that delete (so also when some of the older
  turns are gone and the others are not), and at most one summary, which names the turns it stands for, is added.
  When both categories are dropped and the request succeeds, exactly the older turns are gone and
  the reply counts exactly their tokens.
\<close>

theorem compaction_keeps_recent:
  assumes d: "store_inv d" and listed: "ListTurns E sid d = Inr turns"
    and ap: "applyCompactPlan E sid actions window d = (d', res)"
  shows "\<exists>gone new. gone \<subseteq> set (older_part turns) \<and> db_turns d' = filter (\<lambda>t. t \<notin> gone) (db_turns d) @ new \<and>
    length new \<le> 1 \<and> (\<forall>s \<in> set new. summary_of sid (older_turns turns) s) \<and>
    (\<forall>t \<in> set (recent_part turns). t \<in> set (db_turns d')) \<and>
    (\<forall>r. res = Inr r \<and> recentTurnsKeepFloor < length turns \<and> actions CompactCategoryOlder = Some CompactActionDrop \<and>
       actions CompactCategoryToolOutput = Some CompactActionDrop \<longrightarrow>
       gone = set (older_part turns) \<and> new = [] \<and> car_TokensFreed r = sumTurnTokens (older_part turns))"
proof -
  have turns: "turns = take MaxTurnsPerListCall (sort_key turn_Sequence (turns_of d sid))"
    using listed by (auto simp: ListTurns_def split: if_splits)
  have ids: "distinct (map turn_ID (db_turns d))" using d by (simp add: store_inv_def session_db_inv_def)
  have sub: "set turns \<subseteq> set (db_turns d)" using set_take_subset [of MaxTurnsPerListCall] by (force simp: turns turns_of_def)
  have "distinct (turns_of d sid)" using ids by (simp add: turns_of_def distinct_map)
  then have dist: "distinct turns" by (simp add: turns)
  have "set (older_part turns) \<union> set (recent_part turns) = set turns"
    unfolding older_part_def recent_part_def by (metis append_take_drop_id set_append)
  moreover have "set (older_part turns) \<inter> set (recent_part turns) = {}"
    unfolding older_part_def recent_part_def by (rule set_take_disj_set_drop_if_distinct [OF dist order_refl])
  ultimately have parts: "set (older_part turns) \<subseteq> set (db_turns d)" "set (recent_part turns) \<subseteq> set (db_turns d)"
    "set (older_part turns) \<inter> set (recent_part turns) = {}" using sub by auto
  have cats: "set (older_turns turns) \<subseteq> set (older_part turns)" "set (tool_outputs turns) \<subseteq> set (older_part turns)"
    "set (older_turns turns) \<union> set (tool_outputs turns) = set (older_part turns)"
    "set (older_turns turns) \<inter> set (tool_outputs turns) = {}"
    by (auto simp: older_turns_def tool_outputs_def)
  have tokens: "sumTurnTokens (older_turns turns) + sumTurnTokens (tool_outputs turns) = sumTurnTokens (older_part turns)"
  proof -
    have "sumTurnTokens (filter (\<lambda>t. turn_Role t \<noteq> ''tool'') ts) + sumTurnTokens (filter (\<lambda>t. turn_Role t = ''tool'') ts) =
        sumTurnTokens ts" for ts by (induction ts) (auto simp: sumTurnTokens_def)
    then show ?thesis by (simp add: older_turns_def tool_outputs_def)
  qed
  let ?ok = "\<lambda>gone new. gone \<subseteq> set (older_part turns) \<and> db_turns d' = filter (\<lambda>t. t \<notin> gone) (db_turns d) @ new \<and>
    length new \<le> 1 \<and> (\<forall>s \<in> set new. summary_of sid (older_turns turns) s)"
  have recent: "\<forall>t \<in> set (recent_part turns). t \<in> set (db_turns d')" if "?ok gone new" for gone new
    using that parts by auto
  show ?thesis
  proof (cases "length turns \<le> recentTurnsKeepFloor")
    case True
    then have "d' = d" using ap listed by (simp add: applyCompactPlan_def)
    then show ?thesis using True recent [of "{}" "[]"] by (intro exI [of _ "{}"] exI [of _ "[]"]) auto
  next
    case False
    let ?act = "merged_action (buildCompactPlan turns window) actions"
    obtain d1 res1 where 1: "compact_older E sid (?act CompactCategoryOlder) (older_turns turns) d = (d1, res1)" by fastforce
    have "told_apart (older_turns turns) d" using ids cats(1) parts(1) by (intro told_apart_distinct) auto
    from compact_older_keeps [OF 1 this ids] obtain D1 new1 where
      D1: "D1 \<subseteq> set (older_turns turns)" "kept_after D1 new1 d d1" "length new1 \<le> 1"
        "\<forall>x \<in> set new1. summary_of sid (older_turns turns) x" "distinct (map turn_ID (db_turns d1))"
      and drop1: "?act CompactCategoryOlder = CompactActionDrop \<longrightarrow> new1 = [] \<and> (\<forall>freed ls. res1 = Inr (freed, ls) \<longrightarrow>
        D1 = set (older_turns turns) \<and> freed = sumTurnTokens (older_turns turns))" by blast
    show ?thesis
    proof (cases res1)
      case (Inl err)
      then have e: "d' = d1" "res = Inl err" using ap listed False 1 by (simp_all add: applyCompactPlan_def Let_def)
      then have "?ok D1 new1" using D1 cats(1) by (auto simp: kept_after_def)
      then show ?thesis using recent e by blast
    next
      case (Inr a)
      obtain freed1 ls1 where a: "a = (freed1, ls1)" by fastforce
      obtain d2 res2 where 2: "compact_tools E (length (older_turns turns)) (?act CompactCategoryToolOutput) (tool_outputs turns) d1 = (d2, res2)" by fastforce
      have "set (tool_outputs turns) \<subseteq> set (db_turns d1)"
        using D1(1,2) cats parts(1) by (auto simp: kept_after_def)
      then have "told_apart (tool_outputs turns) d1" by (rule told_apart_distinct [OF D1(5)])
      from compact_tools_keeps [OF 2 this] obtain D2 where
        D2: "D2 \<subseteq> set (tool_outputs turns)" "kept_after D2 [] d1 d2"
        and drop2: "?act CompactCategoryToolOutput = CompactActionDrop \<longrightarrow> (\<forall>freed ls. res2 = Inr (freed, ls) \<longrightarrow>
          D2 = set (tool_outputs turns) \<and> freed = sumTurnTokens (tool_outputs turns))" by blast
      have ev: "db_turns (fst (AppendServerEvent E e d2)) = db_turns d2" for e
        by (simp add: AppendServerEvent_def autocommit_def exec_def)
      have d': "db_turns d' = db_turns d2"
        using ap listed False 1 2 Inr a ev by (auto simp: applyCompactPlan_def Let_def split: sum.splits prod.splits)
      have ok: "?ok (D1 \<union> D2) (filter (\<lambda>x. x \<notin> D2) new1)"
        using D1 D2 cats le_trans [OF length_filter_le D1(3)]
        by (auto simp: kept_after_def d' intro!: filter_cong)
      have "D1 \<union> D2 = set (older_part turns) \<and> filter (\<lambda>x. x \<notin> D2) new1 = [] \<and> car_TokensFreed r = sumTurnTokens (older_part turns)"
        if ok: "res = Inr r" "actions CompactCategoryOlder = Some CompactActionDrop"
          "actions CompactCategoryToolOutput = Some CompactActionDrop" for r
      proof -
        have "?act CompactCategoryOlder = CompactActionDrop" "?act CompactCategoryToolOutput = CompactActionDrop"
          using ok by (simp_all add: merged_action_def)
        moreover obtain freed2 ls2 where r2: "res2 = Inr (freed2, ls2)" "car_TokensFreed r = freed1 + freed2"
          using ap listed False 1 2 Inr a ok(1) by (auto simp: applyCompactPlan_def Let_def split: sum.splits prod.splits)
        ultimately show ?thesis using drop1 drop2 Inr a cats(3) tokens by auto
      qed
      then show ?thesis using ok recent [OF ok] by blast
    qed
  qed
qed

definition turn_row_w :: "nat \<Rightarrow> Turn" where
  "turn_row_w n = \<lparr>turn_ID = ''t'' @ nat_str n, turn_SessionID = ''s1'', turn_Sequence = int n, turn_Role = ''user'',
     turn_Content = None, turn_Model = [], turn_Provider = [], turn_InputTokens = 10, turn_OutputTokens = 0, turn_Cost = 0,
     turn_LatencyMs = 0, turn_ToolCalls = None, turn_FilesTouched = [], turn_FilesModified = [], turn_Compacted = False,
     turn_CompactedSummary = [], turn_OriginalTurns = [], turn_CreatedAt = 0\<rparr>"

definition long_db_w :: db where
  "long_db_w = service_db_w (map turn_row_w [1, 2, 3, 4, 5])"

lemma long_db_w_inv: "store_inv long_db_w"
proof -
  have "map turn_ID (db_turns long_db_w) = [''t1'', ''t2'', ''t3'', ''t4'', ''t5'']" by code_simp
  then have "distinct (map turn_ID (db_turns long_db_w))" by simp
  then show ?thesis
    by (auto simp: long_db_w_def service_db_w_def store_inv_def run_db_inv_def session_db_inv_def empty_db_def
        history_ids_def has_session_def local_session_w_def session_w_def turn_row_w_def)
qed

text \<open>The second deletion fails: the first turn is gone, the second is not.\<close>

lemma compaction_partial:
  "let r = applyCompactPlan ((env_at 3)\<lparr>env_round := (\<lambda>i st. i = 1 \<and> st = S_DeleteTurn)\<rparr>) ''s1''
       (\<lambda>_. Some CompactActionDrop) 0 long_db_w
   in (case snd r of Inl e \<Rightarrow> True | Inr x \<Rightarrow> False) \<and> db_turns (fst r) = map turn_row_w [2, 3, 4, 5]"
  by code_simp

lemma compaction_keeps_recent_witness:
  "\<exists>d' r. applyCompactPlan (env_at 3) ''s1'' (\<lambda>_. Some CompactActionDrop) 0 long_db_w = (d', Inr r) \<and>
     db_turns d' = map turn_row_w [3, 4, 5] \<and> car_TokensFreed r = 20"
proof -
  let ?a = "applyCompactPlan (env_at 3) ''s1'' (\<lambda>_. Some CompactActionDrop) 0 long_db_w"
  let ?ts = "map turn_row_w [1, 2, 3, 4, 5]"
  have l: "ListTurns (env_at 3) ''s1'' long_db_w = Inr ?ts" by code_simp
  have "(case snd ?a of Inr r \<Rightarrow> True | Inl _ \<Rightarrow> False)" by code_simp
  then obtain d' r where a: "?a = (d', Inr r)" by (cases ?a) (auto split: sum.splits)
  have o: "older_part ?ts = map turn_row_w [1, 2]" "sumTurnTokens (map turn_row_w [1, 2]) = 20"
    "filter (\<lambda>t. t \<notin> set (map turn_row_w [1, 2])) (db_turns long_db_w) = map turn_row_w [3, 4, 5]"
    by code_simp+
  from compaction_keeps_recent [OF long_db_w_inv l a] obtain gone new where
    "db_turns d' = filter (\<lambda>t. t \<notin> gone) (db_turns long_db_w) @ new"
    "gone = set (older_part ?ts)" "new = []" "car_TokensFreed r = sumTurnTokens (older_part ?ts)"
    by (auto simp: recentTurnsKeepFloor_def)
  then show ?thesis using a o by auto
qed

end
