(* ===== verification/Spec2Isabelle.thy ===== *)
theory Spec2Isabelle
  imports Shell_Flow Run_Witnesses Conversation_Props Relay_End Routing_Props Transport_Props Service_Props Format_Props Turn_Witnesses Prompt_Props Compact_Props
begin

text \<open>
  Verification of modeltap.

  modeltap is a runtime server for language-model conversations and the terminal shell that talks to
  it.  The shell (\<open>internal/harnessshell\<close>) keeps the composer, the queue of submissions and the
  transcript.  A harness connects to the server over newline-delimited JSON-RPC
  (\<open>internal/protocol\<close>).  The server (\<open>internal/runtime\<close>) registers the connection, keeps sessions,
  conversations and runs, chooses a model, builds the request for its provider
  (\<open>internal/provider\<close>), relays the streamed answer back and stores everything in SQLite
  (\<open>internal/storage\<close>).  The theories below are ordered as the code calls: store, run services,
  conversations and providers, connections, turns, server; the shell stands beside them.

  \<^bold>\<open>Shared theories.\<close>  \<open>Prelude\<close>: fallible results (a sum whose left side is the error), lists updated
  at an index, and the locales of the development: machines whose steps keep an invariant and emit
  outputs, machines that hand out tickets, event logs read in pages, and leases.  \<open>GoStd\<close>: the string functions of the Go library that the code
  calls, on lists of bytes.  \<open>GoJson\<close>: \<open>encoding/json\<close> as a reader into syntax trees and a writer,
  with the proof that what is written is read back.

  \<^bold>\<open>The conversation shell\<close> (\<open>internal/harnessshell\<close>).  \<open>Shell_Types\<close> has \<open>types.go\<close> and \<open>state.go\<close>;
  the record \<open>state\<close> is the shell-owned struct, a method on it a function from state to state.
  \<open>Shell_Core\<close>: \<open>input.go\<close>, \<open>tokens.go\<close>, \<open>permissions.go\<close>.  \<open>Shell_Queue\<close>: \<open>queue.go\<close>, the submission
  queue and the pipeline behind Enter.  \<open>Shell_Events\<close>: \<open>events.go\<close>, one function per host event.
  \<open>Shell_Render\<close>: \<open>render.go\<close> and the projection into it.  \<open>Shell_Update\<close>: \<open>Model.Update\<close> of \<open>model.go\<close>.
  The two widgets and the styling library are parameters.  \<open>Shell_Inv\<close> proves the invariant of the
  state for every operation and what each adds to the outbound queue; \<open>Shell_Props\<close> and \<open>Shell_Flow\<close>
  the laws over whole runs: no submitted text is lost, duplicated or reordered, submissions are emitted
  only from an idle shell, their identifiers differ.

  \<^bold>\<open>The store\<close> (\<open>internal/storage\<close>).  \<open>Store_Types\<close> has the rows, the schema's constraints and the record
  \<open>db\<close> of tables; \<open>Session_Store\<close> has \<open>sessions.go\<close>, \<open>turns.go\<close>, \<open>command_history.go\<close>; \<open>Run_Store\<close> has
  \<open>runs.go\<close>.  An operation maps the database and an error of each statement to a new database and a
  result.  \<open>Run_Store_Inv\<close>, \<open>Session_Props\<close> and \<open>Store_Inv\<close> prove the invariant of the database under
  every operation with any statement failing: keys, references, gap-free event numbers, attachment
  rows; \<open>Session_Props\<close> the lease of a session lock and the paging of the history.

  \<^bold>\<open>Run services\<close>.  \<open>Run_Registry\<close> has \<open>run_registry.go\<close>; \<open>Run_Control\<close> has \<open>run_runtime.go\<close> and
  \<open>run_controls.go\<close>, all thirteen \<open>run.*\<close> handlers; \<open>History\<close> the two handlers of \<open>history.go\<close>.
  \<open>Run_Machine\<close> is the machine over their requests, \<open>Run_Props\<close>, \<open>Run_Requests\<close>, \<open>Run_Accounting\<close>
  and \<open>Run_Witnesses\<close> its properties: isolation of users, append-only logs that determine the status,
  finality, complete paging, idempotent creation, exclusive attachment, exact accounting, and that a
  store operation that fails leaves the database as it was.

  \<^bold>\<open>Conversations and providers\<close>.  \<open>Provider_Types\<close> has \<open>message.go\<close> and \<open>truncate.go\<close>,
  \<open>Provider_Stream\<close> the streamed events of \<open>anthropic.go\<close>, \<open>openai.go\<close>, \<open>ollama.go\<close>, \<open>Provider_Format\<close> the
  request bodies, the metadata of captured traffic and \<open>registry.go\<close>; \<open>Provider_Props\<close> and
  \<open>Format_Props\<close> prove that messages survive their JSON text, that truncation is sound, and that a
  formatted request reads back.  \<open>Conversation\<close> has \<open>conversation.go\<close>; \<open>Conversation_Props\<close> shows that
  memory and stored turns agree and that restoring is the inverse of persisting.  \<open>Routing\<close> has
  \<open>providers.go\<close>, \<open>registry.go\<close>, \<open>routing.go\<close>, \<open>cost.go\<close>; \<open>Routing_Props\<close> the precedence and order of
  the catalog.  \<open>Sse_Reader\<close> and \<open>Stream_Relay\<close> have \<open>streaming.go\<close>: one iteration of the relay loop is
  a step on the server, what follows the loop another; \<open>Stream_Relay_Props\<close> and \<open>Relay_End\<close> show that
  the loop ends, that the text streamed is the text kept, and how the run ends.

  \<^bold>\<open>The wire and the connections\<close>.  \<open>Transport\<close> has the frames and envelopes of \<open>protocol.go\<close> and
  \<open>transport.go\<close>; \<open>Transport_Props\<close> shows that frames sent are read back and classified.
  \<open>Connection\<close> has \<open>connection.go\<close> and \<open>capabilities.go\<close>: the state machine of a connection, the gate,
  the heartbeat and the grace timer; \<open>Session_Service\<close> has \<open>session.go\<close>, \<open>sync.go\<close> and the model
  requests.  \<open>Connection_Props\<close> and \<open>Service_Props\<close> prove what the gate lets through, that failed
  connections stay failed, that the lock of a silent client becomes free, and what resuming, clearing
  and forking achieve.

  \<^bold>\<open>Turns\<close>.  \<open>Prompt\<close> has \<open>prompt.go\<close>, \<open>Dispatch\<close> has \<open>dispatch.go\<close>, \<open>Turn_Service\<close> has \<open>turn.go\<close>,
  \<open>Compact\<close> has \<open>compact.go\<close>, \<open>Transform\<close> has \<open>transform.go\<close>.  \<open>Prompt_Props\<close> proves which layers reach
  a provider, where credentials go and what redirects do to them; \<open>Compact_Props\<close> what compaction leaves;
  \<open>Turn_Props\<close> that a retried submission is answered with its run and that an accepted one can be
  cancelled.

  \<^bold>\<open>The server\<close>.  \<open>Server\<close> puts the handlers behind the gate and defines the machine whose steps are
  accepted connections, requests, heartbeats, hang-ups, grace timers and relay iterations, in any
  order; the record \<open>Runtime\<close> is the state they share, \<open>server_state\<close> adds the connections and the
  relays in flight.  \<open>Server_Inv\<close> and \<open>Server_Props\<close> prove its invariant,
  \<open>Turn_End\<close> that every relay in flight ends, and \<open>Turn_Witnesses\<close> takes one turn through all of it.

  \<^bold>\<open>How code becomes definitions.\<close>  A handler is a function of the environment, the connection, the
  decoded request and the state, which returns the new state, what it emits in order, and the reply or
  error; every early return is a branch.  Decoding of the JSON parameters of a request is an input of
  its handler: the decoded request or the text of the decoding error.  The environment holds what a
  handler reads from outside: one reading of the clock per operation, an identifier for the n-th call
  of the generator, and which store statements fail, in a loop for each round of its own.  A transaction
  is the sequence of its statements on what they have written so far; returning early or a failed commit
  rolls it back.  A Go map that is only looked up is a map;
  one that is listed is an association list with distinct keys, and where the order of its iteration
  shows, the choice is a parameter.  A Go string is its list of bytes.

  \<^bold>\<open>Bounds and fuel.\<close>  Loops that the code bounds by data recurse on that data; the JSON reader, the
  frame reader and the SSE reader recurse on the bytes that are left, and \<open>relay_loop_ends\<close> and
  \<open>accepted_turn_ends\<close> show that as many iterations as the response has bytes, and one more, end
  the relay.  Constants of the code are kept: 1 MiB for a line of a stream, 2000 turns of a session
  read at once, the page limits of runs and history, the bounds of the two registries.

  \<^bold>\<open>Idealizations.\<close>  Counters, token counts and times are unbounded integers where the code has 64-bit
  ones; shares, prices and scores are rationals where the code has \<open>float64\<close>.  SQL rows of equal sort
  key come in insertion order.  Times are kept as such and compared as their RFC 3339 text where SQL
  does so; that the text orders as the times do is a hypothesis where it matters.  Strings inside JSON
  are valid UTF-8 without U+2028 and U+2029, the nesting limit of the decoder is left out, and a raw
  message is kept in compact form.  The diagnostic data of an error, which no reply carries, is left
  out.  Between the iterations of a relay any other step may happen; inside one only the cancellation of
  its context, at the point of the iteration that the step names.  Go's HTTP client is its default redirect
  policy over a network of single exchanges, in which parsed URLs are compared by parameters.

  \<^bold>\<open>Not modelled.\<close>  Listeners, TLS and goroutine bookkeeping (\<open>server.go\<close>, \<open>app_conn.go\<close>) are system
  calls around the connections; \<open>diagnostics.go\<close> builds data that is dropped before it is sent; the
  request log and its aggregates, the dashboard and the capture proxy are SQL and HTTP library calls
  over tables the runtime does not read; \<open>harnesshost\<close> adapts one API to another with callbacks and
  timers of the terminal library; the harness tools on files, processes and the network are calls of
  the operating system and of document parsers; \<open>harnessspike\<close> and \<open>harnessdemo\<close> are a superseded
  prototype and a scripted demonstration; configuration, command line and service installation wire
  flags and files to the constructors modelled here.
\<close>

end
